(* ===== verification/Prelude.thy ===== *)
theory Prelude
  imports Complex_Main "HOL-Library.Char_ord" "HOL-Library.List_Lexorder" "HOL-Library.Multiset"
begin

text \<open>
  What every component shares: the collections of facts the proofs draw on, the two
  result types of the code (a thrown exception, and the resolver's three-way result),
  sequential application of a fallible step to a list, and JavaScript's stable
  \<open>Array.prototype.sort\<close> with the contract of its comparators as a locale.
\<close>

named_theorems resolve_simps \<open>unfolding the resolver's result combinators\<close>
named_theorems policy_simps \<open>unfolding the policy executors\<close>

section \<open>Exceptions\<close>

text \<open>
  The exceptions the code distinguishes: \<open>TruthLayerError\<close> (\<open>src/truthLayerError.ts\<close>,
  an operational code and a message), \<open>ConnectorError\<close> (\<open>src/sqlConnector.ts\<close>), any
  other \<open>Error\<close> with its message, a \<open>TypeError\<close> raised by the engine itself, and the invariant
  errors of the reports (\<open>FailureExplanationInvariantError\<close>,
  \<open>CorrectnessDefinitionInvariantError\<close>: a code and a message).
\<close>

datatype js_error =
    TruthLayerError (err_code: string) (err_message: string)
  | ConnectorError (err_message: string)
  | JsError (err_message: string)
  | JsTypeError (err_message: string)
  | InvariantError (err_code: string) (err_message: string)

text \<open>\<open>e instanceof Error ? e.message : String(e)\<close>: every exception of the model is an \<open>Error\<close>.\<close>

text \<open>A computation that may throw is \<open>js_error + 'a\<close>.\<close>

definition throws_bind :: "js_error + 'a \<Rightarrow> ('a \<Rightarrow> js_error + 'b) \<Rightarrow> js_error + 'b" where
  "throws_bind r f = (case r of Inl e \<Rightarrow> Inl e | Inr x \<Rightarrow> f x)"

lemma throws_bind_simps [simp]:
  "throws_bind (Inl e) f = Inl e"
  "throws_bind (Inr x) f = f x"
  by (simp_all add: throws_bind_def)

lemma throws_bind_Inr_iff:
  "throws_bind r f = Inr y \<longleftrightarrow> (\<exists>x. r = Inr x \<and> f x = Inr y)"
  by (cases r) simp_all

fun throws_map :: "('a \<Rightarrow> js_error + 'b) \<Rightarrow> 'a list \<Rightarrow> js_error + 'b list" where
  "throws_map f [] = Inr []"
| "throws_map f (x # xs) =
     throws_bind (f x) (\<lambda>y. throws_bind (throws_map f xs) (\<lambda>ys. Inr (y # ys)))"

lemma throws_map_Inr_list_all2:
  "throws_map f xs = Inr ys \<longleftrightarrow> list_all2 (\<lambda>x y. f x = Inr y) xs ys"
proof (induction xs arbitrary: ys)
  case Nil
  then show ?case by auto
next
  case (Cons x xs)
  then show ?case by (cases ys) (auto simp: throws_bind_Inr_iff)
qed

lemma throws_map_pure: "throws_map (\<lambda>x. Inr (g x)) xs = Inr (map g xs)"
  by (induction xs) simp_all

section \<open>The resolver's result\<close>

text \<open>
  \<open>resolveExpectation.ts\<close> returns \<open>{ok: true, ...}\<close> or \<open>{ok: false, code, message}\<close>,
  and a call may also throw (a malformed JSON pointer). The code's pattern
  \<open>if (!r.ok) return r\<close> is \<open>rbind\<close>.
\<close>

datatype 'a resolve =
    ROk 'a
  | RFail string string
  | RThrow js_error

definition rbind :: "'a resolve \<Rightarrow> ('a \<Rightarrow> 'b resolve) \<Rightarrow> 'b resolve" where
  "rbind r f = (case r of ROk x \<Rightarrow> f x | RFail c m \<Rightarrow> RFail c m | RThrow e \<Rightarrow> RThrow e)"

lemma rbind_simps [simp, resolve_simps]:
  "rbind (ROk x) f = f x"
  "rbind (RFail c m) f = RFail c m"
  "rbind (RThrow e) f = RThrow e"
  by (simp_all add: rbind_def)

lemma rbind_ROk_iff [resolve_simps]:
  "rbind r f = ROk y \<longleftrightarrow> (\<exists>x. r = ROk x \<and> f x = ROk y)"
  by (cases r) simp_all

lemma rbind_RFail_iff:
  "rbind r f = RFail c m \<longleftrightarrow> r = RFail c m \<or> (\<exists>x. r = ROk x \<and> f x = RFail c m)"
  by (cases r) simp_all

definition rwhen :: "bool \<Rightarrow> string \<Rightarrow> string \<Rightarrow> 'a resolve \<Rightarrow> 'a resolve" where
  "rwhen b c m k = (if b then RFail c m else k)"

lemma rwhen_ROk_iff [resolve_simps]: "rwhen b c m k = ROk y \<longleftrightarrow> \<not> b \<and> k = ROk y"
  by (simp add: rwhen_def)

lemma rwhen_RFail_iff:
  "rwhen b c m k = RFail c' m' \<longleftrightarrow> (b \<and> c = c' \<and> m = m') \<or> (\<not> b \<and> k = RFail c' m')"
  by (auto simp: rwhen_def)

lemma rwhen_simps [simp]:
  "rwhen True c m k = RFail c m"
  "rwhen False c m k = k"
  by (simp_all add: rwhen_def)

text \<open>A throwing computation used inside the resolver.\<close>

definition rlift :: "js_error + 'a \<Rightarrow> 'a resolve" where
  "rlift r = (case r of Inl e \<Rightarrow> RThrow e | Inr x \<Rightarrow> ROk x)"

lemma rlift_simps [simp, resolve_simps]:
  "rlift (Inl e) = RThrow e" "rlift (Inr x) = ROk x"
  by (simp_all add: rlift_def)

lemma rlift_ROk_iff [resolve_simps]: "rlift r = ROk x \<longleftrightarrow> r = Inr x"
  by (cases r) simp_all

lemma rlift_not_RFail [simp]: "rlift r \<noteq> RFail c m"
  by (cases r) simp_all

text \<open>The code's indexed loops \<open>for (let i = 0; ...)\<close> that return at the first failure.\<close>

fun rmap_idx :: "(nat \<Rightarrow> 'a \<Rightarrow> 'b resolve) \<Rightarrow> nat \<Rightarrow> 'a list \<Rightarrow> 'b list resolve" where
  "rmap_idx f i [] = ROk []"
| "rmap_idx f i (x # xs) =
     rbind (f i x) (\<lambda>y. rbind (rmap_idx f (Suc i) xs) (\<lambda>ys. ROk (y # ys)))"

lemma rmap_idx_ROk_nth:
  "rmap_idx f i xs = ROk ys \<Longrightarrow>
     length ys = length xs \<and> (\<forall>k < length xs. f (i + k) (xs ! k) = ROk (ys ! k))"
proof (induction xs arbitrary: i ys)
  case Nil
  then show ?case by simp
next
  case (Cons x xs)
  then obtain y zs where y: "f i x = ROk y" and zs: "rmap_idx f (Suc i) xs = ROk zs"
    and ys: "ys = y # zs"
    by (auto simp: rbind_ROk_iff)
  from Cons.IH [OF zs] y ys show ?case
    by (auto simp: nth_Cons split: nat.splits)
qed

lemma rmap_idx_ROk_all:
  assumes "rmap_idx f i xs = ROk ys" and "\<And>j x y. f j x = ROk y \<Longrightarrow> P y"
  shows "\<forall>y \<in> set ys. P y"
proof
  fix y assume "y \<in> set ys"
  then obtain k where "k < length ys" "y = ys ! k" by (auto simp: in_set_conv_nth)
  with rmap_idx_ROk_nth [OF assms(1)] have "f (i + k) (xs ! k) = ROk y" by simp
  then show "P y" by (rule assms(2))
qed

section \<open>Stable sorting\<close>

text \<open>
  \<open>Array.prototype.sort(cmp)\<close> is stable and, for a comparator that is consistent, has
  exactly one possible result: insertion sort that keeps earlier elements before equal
  later ones computes it.
\<close>

fun js_insert :: "('a \<Rightarrow> 'a \<Rightarrow> int) \<Rightarrow> 'a \<Rightarrow> 'a list \<Rightarrow> 'a list" where
  "js_insert cmp x [] = [x]"
| "js_insert cmp x (y # ys) = (if cmp x y \<le> 0 then x # y # ys else y # js_insert cmp x ys)"

definition js_sort :: "('a \<Rightarrow> 'a \<Rightarrow> int) \<Rightarrow> 'a list \<Rightarrow> 'a list" where
  "js_sort cmp xs = foldr (js_insert cmp) xs []"

lemma js_sort_simps [simp]:
  "js_sort cmp [] = []"
  "js_sort cmp (x # xs) = js_insert cmp x (js_sort cmp xs)"
  by (simp_all add: js_sort_def)

lemma mset_js_insert [simp]: "mset (js_insert cmp x ys) = add_mset x (mset ys)"
  by (induction ys) auto

lemma mset_js_sort [simp]: "mset (js_sort cmp xs) = mset xs"
  by (induction xs) simp_all

lemma set_js_sort [simp]: "set (js_sort cmp xs) = set xs"
  by (metis mset_js_sort set_mset_mset)

lemma length_js_sort [simp]: "length (js_sort cmp xs) = length xs"
  by (metis mset_js_sort size_mset)

lemma distinct_js_sort [simp]: "distinct (js_sort cmp xs) = distinct xs"
  by (metis mset_eq_imp_distinct_iff mset_js_sort)

lemma map_js_sort:
  "map g (js_sort (\<lambda>a b. cmp (g a) (g b)) xs) = js_sort cmp (map g xs)"
proof -
  have ins: "map g (js_insert (\<lambda>a b. cmp (g a) (g b)) x ys) = js_insert cmp (g x) (map g ys)"
    for x ys
    by (induction ys) auto
  show ?thesis by (induction xs) (simp_all add: ins)
qed

lemma js_sort_eq_Nil [simp]: "js_sort cmp xs = [] \<longleftrightarrow> xs = []"
  by (metis length_0_conv length_js_sort)

text \<open>
  The contract every comparator passed to \<open>sort\<close> must keep; under it the result is
  ordered, re-sorting changes nothing, equal elements keep their order, and the result
  does not depend on the input's order when the comparator separates its elements.
\<close>

locale comparator =
  fixes cmp :: "'a \<Rightarrow> 'a \<Rightarrow> int"
  assumes cmp_total: "0 < cmp x y \<Longrightarrow> cmp y x \<le> 0"
    and cmp_trans: "cmp x y \<le> 0 \<Longrightarrow> cmp y z \<le> 0 \<Longrightarrow> cmp x z \<le> 0"
begin

lemma insert_sorted:
  "sorted_wrt (\<lambda>a b. cmp a b \<le> 0) ys \<Longrightarrow> sorted_wrt (\<lambda>a b. cmp a b \<le> 0) (js_insert cmp x ys)"
proof (induction ys)
  case Nil
  then show ?case by simp
next
  case (Cons y ys)
  have set_ins: "set (js_insert cmp x ys) = insert x (set ys)"
    by (metis mset_js_insert set_mset_add_mset_insert set_mset_mset)
  from Cons show ?case
    by (auto simp: set_ins intro: cmp_trans cmp_total)
qed

lemma sort_sorted: "sorted_wrt (\<lambda>a b. cmp a b \<le> 0) (js_sort cmp xs)"
  by (induction xs) (simp_all add: insert_sorted)

lemma insert_hd: "\<forall>y \<in> set ys. cmp x y \<le> 0 \<Longrightarrow> js_insert cmp x ys = x # ys"
  by (cases ys) auto

lemma sort_of_sorted: "sorted_wrt (\<lambda>a b. cmp a b \<le> 0) xs \<Longrightarrow> js_sort cmp xs = xs"
  by (induction xs) (auto simp: insert_hd)

lemma sort_idem: "js_sort cmp (js_sort cmp xs) = js_sort cmp xs"
  by (rule sort_of_sorted [OF sort_sorted])

lemma sorted_unique:
  assumes sep: "\<And>x y. x \<in> set xs \<Longrightarrow> y \<in> set xs \<Longrightarrow> cmp x y \<le> 0 \<Longrightarrow> cmp y x \<le> 0 \<Longrightarrow> x = y"
    and "mset xs = mset ys"
    and "sorted_wrt (\<lambda>a b. cmp a b \<le> 0) xs" and "sorted_wrt (\<lambda>a b. cmp a b \<le> 0) ys"
  shows "xs = ys"
  using assms
proof (induction xs arbitrary: ys)
  case Nil
  then show ?case by simp
next
  case (Cons x xs)
  then obtain y zs where ys: "ys = y # zs" by (cases ys) auto
  have sets: "set (x # xs) = set ys" using Cons.prems(2) by (metis set_mset_mset)
  have "x = y"
  proof (rule ccontr)
    assume neq: "x \<noteq> y"
    with sets ys have "x \<in> set zs" "y \<in> set xs" by auto
    with Cons.prems(3,4) ys have "cmp x y \<le> 0" "cmp y x \<le> 0" by auto
    with Cons.prems(1) sets ys neq show False by auto
  qed
  moreover have "xs = zs"
    by (rule Cons.IH) (use Cons.prems ys \<open>x = y\<close> in auto)
  ultimately show ?case by (simp add: ys)
qed

lemma sort_permutation_invariant:
  assumes "mset xs = mset ys"
    and "\<And>x y. x \<in> set xs \<Longrightarrow> y \<in> set xs \<Longrightarrow> cmp x y \<le> 0 \<Longrightarrow> cmp y x \<le> 0 \<Longrightarrow> x = y"
  shows "js_sort cmp xs = js_sort cmp ys"
  by (rule sorted_unique) (use assms sort_sorted in \<open>auto\<close>)

text \<open>Stability: the elements equal to any given one keep their relative order.\<close>

lemma filter_insert_equal:
  assumes "sorted_wrt (\<lambda>a b. cmp a b \<le> 0) ys"
  shows "filter (\<lambda>e. cmp e k \<le> 0 \<and> cmp k e \<le> 0) (js_insert cmp x ys)
    = filter (\<lambda>e. cmp e k \<le> 0 \<and> cmp k e \<le> 0) (x # ys)"
  using assms
proof (induction ys)
  case Nil
  then show ?case by simp
next
  case (Cons y ys)
  show ?case
  proof (cases "cmp x y \<le> 0")
    case True
    then show ?thesis by simp
  next
    case False
    have "\<not> ((cmp x k \<le> 0 \<and> cmp k x \<le> 0) \<and> (cmp y k \<le> 0 \<and> cmp k y \<le> 0))"
      using False cmp_trans by blast
    with Cons False show ?thesis by auto
  qed
qed

lemma sort_stable:
  "filter (\<lambda>e. cmp e k \<le> 0 \<and> cmp k e \<le> 0) (js_sort cmp xs)
     = filter (\<lambda>e. cmp e k \<le> 0 \<and> cmp k e \<le> 0) xs"
  by (induction xs) (simp_all add: filter_insert_equal sort_sorted)

end

text \<open>\<open>compareUtf16Id\<close> (\<open>src/resolveExpectation.ts\<close>) on the strings of the model.\<close>

definition compareUtf16Id :: "string \<Rightarrow> string \<Rightarrow> int" where
  "compareUtf16Id a b = (if a < b then -1 else if b < a then 1 else 0)"

lemma compareUtf16Id_le: "compareUtf16Id a b \<le> 0 \<longleftrightarrow> a \<le> b"
  by (auto simp: compareUtf16Id_def)

interpretation utf16: comparator "\<lambda>a b. compareUtf16Id (f a) (f b)" for f :: "'a \<Rightarrow> string"
  by unfold_locales (auto simp: compareUtf16Id_le compareUtf16Id_def split: if_splits)

interpretation byInt: comparator "\<lambda>a b. f a - f b" for f :: "'a \<Rightarrow> int"
  by unfold_locales auto

end
