(* ===== verification/JsValue.thy ===== *)
theory JsValue
  imports Prelude
begin

text \<open>
  The JavaScript values the program handles (tool parameters, database cells, JSON
  documents) and the language operations it uses on them: \<open>typeof\<close>, \<open>String(v)\<close>,
  property reads with the members inherited from \<open>Object.prototype\<close>, \<open>JSON.stringify\<close>,
  \<open>===\<close> on numbers, string splitting, trimming and case folding; then the two
  functions of the repository that only depend on them, \<open>getPointer\<close>
  (\<open>src/jsonPointer.ts\<close>) and \<open>canonicalJsonForParams\<close> (\<open>src/canonicalParams.ts\<close>).

  Strings are lists of code units below 256. A finite number is the rational the double
  denotes (\<open>-0\<close> and \<open>0\<close> are one value: \<open>===\<close>, \<open>String\<close> and \<open>JSON.stringify\<close>
  do not tell them apart).
\<close>

section \<open>Values\<close>

datatype jsnum = Fin rat | NaN | PosInf | NegInf

text \<open>
  An object is the list of its own enumerable members in \<open>Object.keys\<close> order. \<open>VFun\<close>
  is a method inherited from \<open>Object.prototype\<close>, \<open>VProto\<close> that prototype itself,
  \<open>VDate\<close> a \<open>Date\<close> with its time value (\<open>None\<close> when invalid).
\<close>

datatype jsval =
    VUndef
  | VNull
  | VBool bool
  | VNum jsnum
  | VStr string
  | VBig int
  | VFun string
  | VDate "int option"
  | VArr "jsval list"
  | VObj "(string \<times> jsval) list"
  | VProto

text \<open>
  What the host provides beyond the language core: the decimal rendering of a finite
  double that is not a small integer, ICU collation, the \<open>Date\<close> conversions, the JSON
  parser (\<open>None\<close>: it throws) and the string conversion of objects.
\<close>

record host =
  h_numStr :: "rat \<Rightarrow> string"
  h_localeCompare :: "string \<Rightarrow> string \<Rightarrow> int"
  h_dateParse :: "string \<Rightarrow> int option"
  h_isoString :: "int \<Rightarrow> string"
  h_jsonParse :: "string \<Rightarrow> jsval option"
  h_objString :: "jsval \<Rightarrow> string"

section \<open>Strings\<close>

fun join :: "string \<Rightarrow> string list \<Rightarrow> string" where
  "join sep [] = []"
| "join sep [x] = x"
| "join sep (x # y # xs) = x @ sep @ join sep (y # xs)"

fun split_on :: "char \<Rightarrow> string \<Rightarrow> string list" where
  "split_on c [] = [[]]"
| "split_on c (x # xs) =
     (if x = c then [] # split_on c xs
      else (case split_on c xs of [] \<Rightarrow> [[x]] | p # ps \<Rightarrow> (x # p) # ps))"

lemma split_on_not_Nil [simp]: "split_on c s \<noteq> []"
  by (induction s) (auto split: list.splits)

lemma split_on_append_sep:
  "c \<notin> set p \<Longrightarrow> split_on c (p @ c # s) = p # split_on c s"
  by (induction p) auto

lemma split_on_no_sep: "c \<notin> set p \<Longrightarrow> split_on c p = [p]"
  by (induction p) auto

text \<open>White space of \<open>String.prototype.trim\<close> below code 256.\<close>

definition is_ws :: "char \<Rightarrow> bool" where
  "is_ws c \<longleftrightarrow> of_char c \<in> {9, 10, 11, 12, 13, 32, 160 :: nat}"

definition js_trim :: "string \<Rightarrow> string" where
  "js_trim s = rev (dropWhile is_ws (rev (dropWhile is_ws s)))"

definition lower_char :: "char \<Rightarrow> char" where
  "lower_char c = (let n = (of_char c :: nat) in
     if (65 \<le> n \<and> n \<le> 90) \<or> (192 \<le> n \<and> n \<le> 222 \<and> n \<noteq> 215) then char_of (n + 32) else c)"

definition toLowerCase :: "string \<Rightarrow> string" where
  "toLowerCase = map lower_char"

definition starts_with :: "string \<Rightarrow> string \<Rightarrow> bool" where
  "starts_with p s \<longleftrightarrow> take (length p) s = p"

fun js_includes :: "string \<Rightarrow> string \<Rightarrow> bool" where
  "js_includes p [] = (p = [])"
| "js_includes p (c # cs) = (starts_with p (c # cs) \<or> js_includes p cs)"

definition digit_char :: "nat \<Rightarrow> char" where
  "digit_char d = ''0123456789abcdef'' ! d"

fun nat_str :: "nat \<Rightarrow> string" where
  "nat_str n = (if n < 10 then [digit_char n] else nat_str (n div 10) @ [digit_char (n mod 10)])"

declare nat_str.simps [simp del]

definition int_str :: "int \<Rightarrow> string" where
  "int_str i = (if i < 0 then ''-'' @ nat_str (nat (- i)) else nat_str (nat i))"

definition is_digit :: "char \<Rightarrow> bool" where
  "is_digit c \<longleftrightarrow> 48 \<le> (of_char c :: nat) \<and> (of_char c :: nat) \<le> 57"

definition digits_val :: "string \<Rightarrow> nat" where
  "digits_val s = foldl (\<lambda>n c. 10 * n + (of_char c - 48)) 0 s"

lemma digit_char_cases: "d < 10 \<Longrightarrow> is_digit (digit_char d) \<and> of_char (digit_char d) = d + 48"
  by (auto simp: digit_char_def is_digit_def less_Suc_eq numeral_eq_Suc nth_Cons split: nat.splits)

lemma nat_str_digits: "nat_str n \<noteq> [] \<and> list_all is_digit (nat_str n) \<and> digits_val (nat_str n) = n"
proof (induction n rule: nat_str.induct)
  case (1 n)
  show ?case
  proof (cases "n < 10")
    case True
    then show ?thesis
      using digit_char_cases [of n] by (simp add: nat_str.simps [of n] digits_val_def)
  next
    case False
    have "n mod 10 < 10" by simp
    from digit_char_cases [OF this] "1.IH" [OF False] False show ?thesis
      by (simp add: nat_str.simps [of n] digits_val_def)
  qed
qed

lemma nat_str_inj: "nat_str a = nat_str b \<Longrightarrow> a = b"
  by (metis nat_str_digits)

lemma int_str_inj: "int_str a = int_str b \<Longrightarrow> a = b"
proof -
  have neq: "nat_str a \<noteq> CHR ''-'' # s" for a s
    using nat_str_digits [of a] by (auto simp: is_digit_def)
  assume eq: "int_str a = int_str b"
  with neq neq [symmetric] show "a = b"
    by (auto simp: int_str_def split: if_splits dest!: nat_str_inj)
qed

section \<open>Numbers\<close>

definition rat_is_int :: "rat \<Rightarrow> bool" where
  "rat_is_int q \<longleftrightarrow> q = of_int \<lfloor>q\<rfloor>"

fun num_is_finite :: "jsnum \<Rightarrow> bool" where
  "num_is_finite (Fin q) = True"
| "num_is_finite _ = False"

fun num_is_integer :: "jsnum \<Rightarrow> bool" where
  "num_is_integer (Fin q) = rat_is_int q"
| "num_is_integer _ = False"

text \<open>\<open>===\<close> and \<open><\<close> on numbers: every comparison with \<open>NaN\<close> is false.\<close>

fun num_eq :: "jsnum \<Rightarrow> jsnum \<Rightarrow> bool" where
  "num_eq (Fin a) (Fin b) = (a = b)"
| "num_eq PosInf PosInf = True"
| "num_eq NegInf NegInf = True"
| "num_eq _ _ = False"

fun num_less :: "jsnum \<Rightarrow> jsnum \<Rightarrow> bool" where
  "num_less (Fin a) (Fin b) = (a < b)"
| "num_less (Fin a) PosInf = True"
| "num_less NegInf (Fin b) = True"
| "num_less NegInf PosInf = True"
| "num_less _ _ = False"

definition num_leq :: "jsnum \<Rightarrow> jsnum \<Rightarrow> bool" where
  "num_leq a b \<longleftrightarrow> num_less a b \<or> num_eq a b"

definition num_of_int :: "int \<Rightarrow> jsnum" where
  "num_of_int i = Fin (of_int i)"

abbreviation VInt :: "int \<Rightarrow> jsval" where
  "VInt i \<equiv> VNum (num_of_int i)"

fun num_to_string :: "host \<Rightarrow> jsnum \<Rightarrow> string" where
  "num_to_string h NaN = ''NaN''"
| "num_to_string h PosInf = ''Infinity''"
| "num_to_string h NegInf = ''-Infinity''"
| "num_to_string h (Fin q) =
     (if rat_is_int q \<and> \<bar>q\<bar> < 1000000000000000000000 then int_str \<lfloor>q\<rfloor> else h_numStr h q)"

lemma rat_is_int_of_int [simp]: "rat_is_int (of_int i)"
  by (simp add: rat_is_int_def)

lemma num_is_integerE:
  assumes "num_is_integer n"
  obtains i where "n = num_of_int i"
  using assms by (cases n) (auto simp: rat_is_int_def num_of_int_def)

lemma num_of_int_simps [simp]:
  "num_is_finite (num_of_int i)"
  "num_is_integer (num_of_int i)"
  "num_eq (num_of_int i) (num_of_int j) \<longleftrightarrow> i = j"
  "num_less (num_of_int i) (num_of_int j) \<longleftrightarrow> i < j"
  "num_leq (num_of_int i) (num_of_int j) \<longleftrightarrow> i \<le> j"
  "num_of_int i = num_of_int j \<longleftrightarrow> i = j"
  by (auto simp: num_of_int_def num_leq_def)

lemma num_eq_Fin: "num_is_finite a \<Longrightarrow> num_eq a b \<longleftrightarrow> a = b"
  by (cases a; cases b) auto

section \<open>typeof, String(v), property reads\<close>

fun js_typeof :: "jsval \<Rightarrow> string" where
  "js_typeof VUndef = ''undefined''"
| "js_typeof VNull = ''object''"
| "js_typeof (VBool _) = ''boolean''"
| "js_typeof (VNum _) = ''number''"
| "js_typeof (VStr _) = ''string''"
| "js_typeof (VBig _) = ''bigint''"
| "js_typeof (VFun _) = ''function''"
| "js_typeof (VDate _) = ''object''"
| "js_typeof (VArr _) = ''object''"
| "js_typeof (VObj _) = ''object''"
| "js_typeof VProto = ''object''"

definition is_object :: "jsval \<Rightarrow> bool" where
  "is_object v \<longleftrightarrow> js_typeof v = ''object'' \<and> v \<noteq> VNull"

fun is_array :: "jsval \<Rightarrow> bool" where
  "is_array (VArr _) = True"
| "is_array _ = False"

definition nullish :: "jsval \<Rightarrow> bool" where
  "nullish v \<longleftrightarrow> v = VUndef \<or> v = VNull"

lemma is_object_simps [simp]:
  "\<not> is_object VUndef" "\<not> is_object VNull" "\<not> is_object (VBool b)" "\<not> is_object (VNum n)"
  "\<not> is_object (VStr s)" "\<not> is_object (VBig i)" "\<not> is_object (VFun f)"
  "is_object (VDate d)" "is_object (VArr xs)" "is_object (VObj kvs)" "is_object VProto"
  by (simp_all add: is_object_def)

lemma nullish_simps [simp]:
  "nullish VUndef" "nullish VNull" "\<not> nullish (VBool b)" "\<not> nullish (VNum n)"
  "\<not> nullish (VStr s)" "\<not> nullish (VBig i)" "\<not> nullish (VFun f)"
  "\<not> nullish (VDate d)" "\<not> nullish (VArr xs)" "\<not> nullish (VObj kvs)" "\<not> nullish VProto"
  by (simp_all add: nullish_def)

fun js_to_string :: "host \<Rightarrow> jsval \<Rightarrow> string" where
  "js_to_string h VUndef = ''undefined''"
| "js_to_string h VNull = ''null''"
| "js_to_string h (VBool b) = (if b then ''true'' else ''false'')"
| "js_to_string h (VNum n) = num_to_string h n"
| "js_to_string h (VStr s) = s"
| "js_to_string h (VBig i) = int_str i"
| "js_to_string h (VFun f) = ''function '' @ (if f = ''constructor'' then ''Object'' else f)
     @ ''() { [native code] }''"
| "js_to_string h v = h_objString h v"

text \<open>The members every ordinary object inherits from \<open>Object.prototype\<close>.\<close>

definition proto_methods :: "string list" where
  "proto_methods = [''constructor'', ''__defineGetter__'', ''__defineSetter__'', ''hasOwnProperty'',
     ''__lookupGetter__'', ''__lookupSetter__'', ''isPrototypeOf'', ''propertyIsEnumerable'',
     ''toString'', ''valueOf'', ''toLocaleString'']"

definition inherited :: "string \<Rightarrow> jsval" where
  "inherited k = (if k \<in> set proto_methods then VFun k
     else if k = ''__proto__'' then VProto else VUndef)"

text \<open>\<open>o[k]\<close> for a non-array object, and \<open>k in o\<close> for one built by \<open>Object.fromEntries\<close>.\<close>

fun get_prop :: "jsval \<Rightarrow> string \<Rightarrow> jsval" where
  "get_prop (VObj kvs) k = (case map_of kvs k of Some v \<Rightarrow> v | None \<Rightarrow> inherited k)"
| "get_prop VProto k =
     (if k \<in> set proto_methods then VFun k else if k = ''__proto__'' then VNull else VUndef)"
| "get_prop _ k = inherited k"

definition has_prop :: "(string \<times> jsval) list \<Rightarrow> string \<Rightarrow> bool" where
  "has_prop kvs k \<longleftrightarrow> k \<in> fst ` set kvs \<or> k \<in> set proto_methods \<or> k = ''__proto__''"

fun own_entries :: "jsval \<Rightarrow> (string \<times> jsval) list" where
  "own_entries (VObj kvs) = kvs"
| "own_entries _ = []"

section \<open>JSON.stringify\<close>

definition json_char :: "char \<Rightarrow> string" where
  "json_char c = (let n = (of_char c :: nat) in
     if c = CHR ''\"'' then [CHR 0x5C, CHR ''\"'']
     else if n = 92 then [CHR 0x5C, CHR 0x5C]
     else if n = 8 then CHR 0x5C # ''b''
     else if n = 12 then CHR 0x5C # ''f''
     else if n = 10 then CHR 0x5C # ''n''
     else if n = 13 then CHR 0x5C # ''r''
     else if n = 9 then CHR 0x5C # ''t''
     else if n < 32 then CHR 0x5C # ''u00'' @ [digit_char (n div 16), digit_char (n mod 16)]
     else [c])"

definition json_quote :: "string \<Rightarrow> string" where
  "json_quote s = CHR ''\"'' # concat (map json_char s) @ [CHR ''\"'']"

definition json_num :: "host \<Rightarrow> jsnum \<Rightarrow> string" where
  "json_num h n = (if num_is_finite n then num_to_string h n else ''null'')"

text \<open>\<open>None\<close> is \<open>undefined\<close>: such a member is left out of an object, \<open>null\<close> in an array.\<close>

fun json_text :: "host \<Rightarrow> jsval \<Rightarrow> string option" where
  "json_text h VUndef = None"
| "json_text h (VFun f) = None"
| "json_text h VNull = Some ''null''"
| "json_text h (VBool b) = Some (if b then ''true'' else ''false'')"
| "json_text h (VNum n) = Some (json_num h n)"
| "json_text h (VStr s) = Some (json_quote s)"
| "json_text h (VBig i) = None"
| "json_text h (VDate d) =
     Some (case d of None \<Rightarrow> ''null'' | Some t \<Rightarrow> json_quote (h_isoString h t))"
| "json_text h (VArr xs) =
     Some (''['' @ join '','' (map (\<lambda>x. case json_text h x of None \<Rightarrow> ''null'' | Some s \<Rightarrow> s) xs) @ '']'')"
| "json_text h (VObj kvs) =
     Some (''{'' @ join '','' (List.map_filter (\<lambda>(k, s). map_option (\<lambda>t. json_quote k @ '':'' @ t) s)
        (map (\<lambda>(k, v). (k, json_text h v)) kvs)) @ ''}'')"
| "json_text h VProto = Some ''{}''"

fun has_bigint :: "jsval \<Rightarrow> bool" where
  "has_bigint (VBig i) = True"
| "has_bigint (VArr xs) = list_ex has_bigint xs"
| "has_bigint (VObj kvs) = list_ex (\<lambda>(k, v). has_bigint v) kvs"
| "has_bigint _ = False"

definition bigint_error :: js_error where
  "bigint_error = JsTypeError ''Do not know how to serialize a BigInt''"

definition json_stringify :: "host \<Rightarrow> jsval \<Rightarrow> js_error + string option" where
  "json_stringify h v = (if has_bigint v then Inl bigint_error else Inr (json_text h v))"

end
