(* ===== verification/CanonicalJson.thy ===== *)
theory CanonicalJson
  imports JsValue
begin

text \<open>
  The two canonical serialisations: \<open>canonicalJsonForParams\<close>
  (\<open>src/canonicalParams.ts\<close>), which decides whether repeated observations of one
  sequence number diverge, and \<open>stableStringify\<close>
  (\<open>src/quickVerify/canonicalJson.ts\<close>), used for exported registries. Both order the
  members of an object by key, so that two values which differ only in the order of
  members serialise alike.
\<close>

definition member_text :: "string \<times> string \<Rightarrow> string" where
  "member_text kv = json_quote (fst kv) @ '':'' @ snd kv"

definition sort_members :: "(string \<times> 'a) list \<Rightarrow> (string \<times> 'a) list" where
  "sort_members = js_sort (\<lambda>a b. compareUtf16Id (fst a) (fst b))"

fun canonicalJsonForParams :: "host \<Rightarrow> jsval \<Rightarrow> string" where
  "canonicalJsonForParams h VNull = ''null''"
| "canonicalJsonForParams h (VBool b) = (if b then ''true'' else ''false'')"
| "canonicalJsonForParams h (VNum n) = json_num h n"
| "canonicalJsonForParams h (VStr s) = json_quote s"
| "canonicalJsonForParams h (VArr xs) =
     ''['' @ join '','' (map (canonicalJsonForParams h) xs) @ '']''"
| "canonicalJsonForParams h (VObj kvs) =
     ''{'' @ join '','' (map member_text
        (sort_members (map (\<lambda>(k, v). (k, canonicalJsonForParams h v)) kvs))) @ ''}''"
| "canonicalJsonForParams h (VDate _) = ''{}''"
| "canonicalJsonForParams h VProto = ''{}''"
| "canonicalJsonForParams h VUndef = ''__non_json_params:undefined__''"
| "canonicalJsonForParams h (VBig _) = ''__non_json_params:bigint__''"
| "canonicalJsonForParams h (VFun _) = ''__non_json_params:function__''"

text \<open>
  \<open>JSON.stringify\<close> gives \<open>undefined\<close> for a function, which the template literal renders
  as \<open>undefined\<close>; a \<open>BigInt\<close> makes it throw.
\<close>

fun stableStringify_text :: "host \<Rightarrow> jsval \<Rightarrow> string" where
  "stableStringify_text h VUndef = ''null''"
| "stableStringify_text h VNull = ''null''"
| "stableStringify_text h (VBool b) = (if b then ''true'' else ''false'')"
| "stableStringify_text h (VNum n) = json_num h n"
| "stableStringify_text h (VStr s) = json_quote s"
| "stableStringify_text h (VFun _) = ''undefined''"
| "stableStringify_text h (VBig _) = ''''"
| "stableStringify_text h (VArr xs) =
     ''['' @ join '','' (map (stableStringify_text h) xs) @ '']''"
| "stableStringify_text h (VObj kvs) =
     ''{'' @ join '','' (map member_text
        (sort_members (map (\<lambda>(k, v). (k, stableStringify_text h v))
           (filter (\<lambda>(k, v). v \<noteq> VUndef) kvs)))) @ ''}''"
| "stableStringify_text h (VDate _) = ''{}''"
| "stableStringify_text h VProto = ''{}''"

definition stableStringify :: "host \<Rightarrow> jsval \<Rightarrow> js_error + string" where
  "stableStringify h v =
     (if has_bigint v then Inl bigint_error else Inr (stableStringify_text h v))"

section \<open>Equality up to the order of members\<close>

text \<open>
  \<open>json_equiv a b\<close>: the values agree but for the order in which objects, at any depth,
  list their members. The keys of an object are distinct.
\<close>

inductive json_equiv :: "jsval \<Rightarrow> jsval \<Rightarrow> bool" where
  je_refl: "json_equiv v v"
| je_arr: "list_all2 json_equiv xs ys \<Longrightarrow> json_equiv (VArr xs) (VArr ys)"
| je_obj: "distinct (map fst kvs) \<Longrightarrow> mset kvs = mset kvs'' \<Longrightarrow>
     list_all2 (rel_prod (=) json_equiv) kvs'' kvs' \<Longrightarrow> json_equiv (VObj kvs) (VObj kvs')"

lemma sort_members_permutation:
  assumes "mset kvs = mset kvs'" and "distinct (map fst kvs)"
  shows "sort_members kvs = sort_members kvs'"
  unfolding sort_members_def
proof (rule utf16.sort_permutation_invariant [OF assms(1)])
  fix x y
  assume "x \<in> set kvs" "y \<in> set kvs"
    "compareUtf16Id (fst x) (fst y) \<le> 0" "compareUtf16Id (fst y) (fst x) \<le> 0"
  with assms(2) show "x = y"
    by (auto simp: compareUtf16Id_le distinct_map inj_on_def)
qed

lemma list_all2_rel_prod_map:
  "list_all2 (rel_prod (=) (\<lambda>a b. f a = f b)) xs ys \<Longrightarrow>
     map (\<lambda>(k, v). (k, f v)) xs = map (\<lambda>(k, v). (k, f v)) ys"
  by (induction rule: list_all2_induct) auto

lemma list_all2_map_eq: "list_all2 (\<lambda>a b. f a = f b) xs ys \<Longrightarrow> map f xs = map f ys"
  by (induction rule: list_all2_induct) simp_all

lemma canonical_of_equiv:
  "json_equiv a b \<Longrightarrow> canonicalJsonForParams h a = canonicalJsonForParams h b"
proof (induction rule: json_equiv.induct)
  case (je_refl v)
  show ?case ..
next
  case (je_arr xs ys)
  then have "list_all2 (\<lambda>a b. canonicalJsonForParams h a = canonicalJsonForParams h b) xs ys"
    by (auto elim: list_all2_mono)
  then show ?case by (simp add: list_all2_map_eq)
next
  case (je_obj kvs kvs'' kvs')
  let ?m = "\<lambda>(k, v). (k, canonicalJsonForParams h v)"
  have "list_all2 (rel_prod (=) (\<lambda>a b. canonicalJsonForParams h a = canonicalJsonForParams h b)) kvs'' kvs'"
    using je_obj.IH by (rule list_all2_mono) (auto simp: rel_prod_sel)
  then have "map ?m kvs'' = map ?m kvs'"
    by (rule list_all2_rel_prod_map)
  moreover have "sort_members (map ?m kvs) = sort_members (map ?m kvs'')"
  proof (rule sort_members_permutation)
    show "mset (map ?m kvs) = mset (map ?m kvs'')"
      using je_obj.hyps(2) by simp
    show "distinct (map fst (map ?m kvs))"
      using je_obj.hyps(1) by (simp add: comp_def case_prod_unfold)
  qed
  ultimately show ?case by simp
qed

end
