(* ===== verification/Effects.thy ===== *)
theory Effects
  imports JsValue "HOL-Library.AList"
begin

text \<open>
  Computations that talk to the outside (a database, an HTTP service, the clock). The
  state of the outside is a type parameter \<open>'w\<close>; a computation maps it to a result or an
  exception and the next state, so that two queries of the same text may answer
  differently. Then the rows a driver returns, with their column names lower-cased.
\<close>

section \<open>Computations over the outside world\<close>

type_synonym ('w, 'a) io = "'w \<Rightarrow> (js_error + 'a) \<times> 'w"

definition io_return :: "'a \<Rightarrow> ('w, 'a) io" where
  "io_return x = (\<lambda>w. (Inr x, w))"

definition io_throw :: "js_error \<Rightarrow> ('w, 'a) io" where
  "io_throw e = (\<lambda>w. (Inl e, w))"

definition io_bind :: "('w, 'a) io \<Rightarrow> ('a \<Rightarrow> ('w, 'b) io) \<Rightarrow> ('w, 'b) io" where
  "io_bind m f = (\<lambda>w. case m w of (Inl e, w') \<Rightarrow> (Inl e, w') | (Inr x, w') \<Rightarrow> f x w')"

text \<open>\<open>try { m } catch (e) { return handler(e) }\<close>.\<close>

definition io_catch :: "('w, 'a) io \<Rightarrow> (js_error \<Rightarrow> ('w, 'a) io) \<Rightarrow> ('w, 'a) io" where
  "io_catch m handler = (\<lambda>w. case m w of (Inl e, w') \<Rightarrow> handler e w' | (Inr x, w') \<Rightarrow> (Inr x, w'))"

definition io_lift :: "js_error + 'a \<Rightarrow> ('w, 'a) io" where
  "io_lift r = (\<lambda>w. (r, w))"

text \<open>A loop or \<open>xs.map(f)\<close> stops at the first exception.\<close>

fun io_map :: "('a \<Rightarrow> ('w, 'b) io) \<Rightarrow> 'a list \<Rightarrow> ('w, 'b list) io" where
  "io_map f [] = io_return []"
| "io_map f (x # xs) = io_bind (f x) (\<lambda>y. io_bind (io_map f xs) (\<lambda>ys. io_return (y # ys)))"

text \<open>
  \<open>Promise.all(xs.map(f))\<close>: every call is started, in order, whatever the others do; the
  result is an exception when one of them throws.
\<close>

fun io_all :: "('a \<Rightarrow> ('w, 'b) io) \<Rightarrow> 'a list \<Rightarrow> ('w, 'b list) io" where
  "io_all f [] = io_return []"
| "io_all f (x # xs) =
     (\<lambda>w. case f x w of (r, w1) \<Rightarrow> case io_all f xs w1 of (rs, w2) \<Rightarrow>
        (throws_bind r (\<lambda>y. throws_bind rs (\<lambda>ys. Inr (y # ys))), w2))"

lemma io_bind_Inr_iff:
  "io_bind m f w = (Inr y, w'') \<longleftrightarrow> (\<exists>x w'. m w = (Inr x, w') \<and> f x w' = (Inr y, w''))"
  by (auto simp: io_bind_def split: prod.splits sum.splits)

lemma io_bind_Inl_iff:
  "io_bind m f w = (Inl e, w'') \<longleftrightarrow>
     m w = (Inl e, w'') \<or> (\<exists>x w'. m w = (Inr x, w') \<and> f x w' = (Inl e, w''))"
  by (auto simp: io_bind_def split: prod.splits sum.splits)

lemma io_return_apply [simp]: "io_return x w = (Inr x, w)"
  by (simp add: io_return_def)

lemma io_throw_apply [simp]: "io_throw e w = (Inl e, w)"
  by (simp add: io_throw_def)

lemma io_lift_apply [simp]: "io_lift r w = (r, w)"
  by (simp add: io_lift_def)

lemma io_map_length: "io_map f xs w = (Inr ys, w') \<Longrightarrow> length ys = length xs"
  by (induction xs arbitrary: w ys) (auto simp: io_bind_Inr_iff)

lemma io_all_Cons_Inr:
  "io_all f (x # xs) w = (Inr zs, w'') \<longleftrightarrow>
     (\<exists>y ys w'. zs = y # ys \<and> f x w = (Inr y, w') \<and> io_all f xs w' = (Inr ys, w''))"
  by (auto simp: throws_bind_def split: prod.splits sum.splits)

lemma io_all_length: "io_all f xs w = (Inr ys, w') \<Longrightarrow> length ys = length xs"
proof (induction xs arbitrary: w ys)
  case Nil
  then show ?case by simp
next
  case (Cons x xs)
  then show ?case by (auto simp: io_all_Cons_Inr simp del: io_all.simps)
qed

section \<open>What a computation keeps\<close>

text \<open>
  \<open>keeps I m\<close>: running \<open>m\<close> from a state that satisfies \<open>I\<close> ends in one that does, whether
  it returns or throws.
\<close>

definition keeps :: "('w \<Rightarrow> bool) \<Rightarrow> ('w, 'a) io \<Rightarrow> bool" where
  "keeps I m \<longleftrightarrow> (\<forall>w. I w \<longrightarrow> I (snd (m w)))"

named_theorems keeps_intros \<open>composing invariants of computations\<close>

lemma keeps_return [keeps_intros]: "keeps I (io_return x)"
  by (simp add: keeps_def)

lemma keeps_throw [keeps_intros]: "keeps I (io_throw e)"
  by (simp add: keeps_def)

lemma keeps_lift [keeps_intros]: "keeps I (io_lift r)"
  by (simp add: keeps_def)

lemma keeps_bind [keeps_intros]:
  assumes "keeps I m" and "\<And>x. keeps I (f x)"
  shows "keeps I (io_bind m f)"
  unfolding keeps_def
proof (intro allI impI)
  fix w assume "I w"
  obtain r w' where m: "m w = (r, w')" by (cases "m w")
  with assms(1) \<open>I w\<close> have "I w'" by (metis keeps_def snd_conv)
  then show "I (snd (io_bind m f w))"
    using assms(2) m by (cases r) (auto simp: io_bind_def keeps_def)
qed

lemma keeps_catch [keeps_intros]:
  assumes "keeps I m" and "\<And>e. keeps I (f e)"
  shows "keeps I (io_catch m f)"
  unfolding keeps_def
proof (intro allI impI)
  fix w assume "I w"
  obtain r w' where m: "m w = (r, w')" by (cases "m w")
  with assms(1) \<open>I w\<close> have "I w'" by (metis keeps_def snd_conv)
  then show "I (snd (io_catch m f w))"
    using assms(2) m by (cases r) (auto simp: io_catch_def keeps_def)
qed

lemma keeps_map [keeps_intros]:
  "(\<And>x. x \<in> set xs \<Longrightarrow> keeps I (f x)) \<Longrightarrow> keeps I (io_map f xs)"
proof (induction xs)
  case Nil
  then show ?case by (simp add: keeps_def)
next
  case (Cons x xs)
  then show ?case unfolding io_map.simps by (intro keeps_intros) simp_all
qed

lemma keeps_all [keeps_intros]:
  "(\<And>x. x \<in> set xs \<Longrightarrow> keeps I (f x)) \<Longrightarrow> keeps I (io_all f xs)"
proof (induction xs)
  case Nil
  then show ?case by (simp add: keeps_def)
next
  case (Cons x xs)
  then have "keeps I (f x)" "keeps I (io_all f xs)" by auto
  then show ?case
    by (auto simp: keeps_def split: prod.splits)
qed

lemma keeps_if [keeps_intros]: "keeps I a \<Longrightarrow> keeps I b \<Longrightarrow> keeps I (if c then a else b)"
  by simp

lemma keeps_option [keeps_intros]:
  "keeps I a \<Longrightarrow> (\<And>x. keeps I (f x)) \<Longrightarrow> keeps I (case v of None \<Rightarrow> a | Some x \<Rightarrow> f x)"
  by (simp split: option.split)

section \<open>Results and exceptions\<close>

text \<open>\<open>returns P m\<close>: whatever \<open>m\<close> returns satisfies \<open>P\<close>; \<open>never_throws m\<close>: it returns.\<close>

definition returns :: "('a \<Rightarrow> bool) \<Rightarrow> ('w, 'a) io \<Rightarrow> bool" where
  "returns P m \<longleftrightarrow> (\<forall>w x w'. m w = (Inr x, w') \<longrightarrow> P x)"

definition never_throws :: "('w, 'a) io \<Rightarrow> bool" where
  "never_throws m \<longleftrightarrow> (\<forall>w. \<exists>x w'. m w = (Inr x, w'))"

lemma returns_return [simp]: "returns P (io_return x) \<longleftrightarrow> P x"
  by (simp add: returns_def)

lemma returns_throw [simp]: "returns P (io_throw e)"
  by (simp add: returns_def)

lemma returns_bind: "(\<And>x. returns P (f x)) \<Longrightarrow> returns P (io_bind m f)"
  by (auto simp: returns_def io_bind_Inr_iff)

lemma returns_catch: "returns P m \<Longrightarrow> (\<And>e. returns P (f e)) \<Longrightarrow> returns P (io_catch m f)"
  by (auto simp: returns_def io_catch_def split: prod.splits sum.splits)

lemma never_throws_return [simp]: "never_throws (io_return x)"
  by (simp add: never_throws_def)

lemma never_throws_catch: "(\<And>e. never_throws (f e)) \<Longrightarrow> never_throws (io_catch m f)"
  unfolding never_throws_def io_catch_def
  by (auto split: prod.splits sum.splits)

lemma io_map_eq_io_all:
  "(\<And>x. x \<in> set xs \<Longrightarrow> never_throws (f x)) \<Longrightarrow> io_map f xs = io_all f xs"
proof (induction xs)
  case Nil
  then show ?case by simp
next
  case (Cons x xs)
  show ?case
  proof
    fix w
    obtain y w1 where fx: "f x w = (Inr y, w1)"
      using Cons.prems [of x] by (auto simp: never_throws_def) metis
    obtain rs w2 where rs: "io_all f xs w1 = (rs, w2)" by (cases "io_all f xs w1")
    have "io_map f xs = io_all f xs" using Cons by simp
    with fx rs show "io_map f (x # xs) w = io_all f (x # xs) w"
      by (cases rs) (simp_all add: io_bind_def)
  qed
qed

section \<open>Rows\<close>

type_synonym row = "(string \<times> jsval) list"

text \<open>\<open>Object.fromEntries(Object.entries(row).map(([k, v]) => [k.toLowerCase(), v]))\<close>: a
  later entry replaces the value of an earlier one with the same key.\<close>

definition from_entries :: "(string \<times> 'a) list \<Rightarrow> (string \<times> 'a) list" where
  "from_entries kvs = foldl (\<lambda>acc (k, v). AList.update k v acc) [] kvs"

definition lower_row :: "row \<Rightarrow> row" where
  "lower_row r = from_entries (map (\<lambda>(k, v). (toLowerCase k, v)) r)"

lemma foldl_update_map_of:
  "map_of (foldl (\<lambda>acc (k, v). AList.update k v acc) acc kvs) = map_of acc ++ map_of (rev kvs)"
proof (induction kvs arbitrary: acc)
  case Nil
  then show ?case by simp
next
  case (Cons kv kvs)
  then show ?case
    by (cases kv) (simp add: update_conv' map_add_def fun_eq_iff split: option.split)
qed

lemma map_of_from_entries: "map_of (from_entries kvs) = map_of (rev kvs)"
  by (simp add: from_entries_def foldl_update_map_of)

lemma foldl_update_distinct:
  "distinct (map fst acc) \<Longrightarrow>
     distinct (map fst (foldl (\<lambda>acc (k, v). AList.update k v acc) acc kvs))"
  by (induction kvs arbitrary: acc) (auto simp: distinct_update)

lemma from_entries_distinct: "distinct (map fst (from_entries kvs))"
  by (simp add: from_entries_def foldl_update_distinct)

text \<open>A driver's query function: the statement text and its values to the rows.\<close>

type_synonym 'w query = "string \<Rightarrow> string list \<Rightarrow> ('w, row list) io"

text \<open>
  The part of \<open>node:sqlite\<close>'s \<open>DatabaseSync\<close> that the code uses: \<open>prepare(t).all(...vs)\<close>
  and \<open>prepare(t).get(...vs)\<close>.
\<close>

record 'w sqlite_db =
  db_all :: "'w query"
  db_get :: "string \<Rightarrow> string list \<Rightarrow> ('w, row option) io"

end
