(* ===== verification/JsonPaths.thy ===== *)
theory JsonPaths
  imports JsValue
begin

text \<open>
  RFC 6901 pointers (\<open>src/jsonPointer.ts\<close>, \<open>src/quickVerify/flatKeyToJsonPointer.ts\<close>)
  and the canonical serialisations that decide whether two sets of tool parameters are
  the same (\<open>src/canonicalParams.ts\<close>, \<open>src/quickVerify/canonicalJson.ts\<close>).
\<close>

section \<open>getPointer\<close>

text \<open>\<open>p.replace(/~1/g, "/")\<close> and \<open>p.replace(/~0/g, "~")\<close>, in this order.\<close>

fun replace_tilde :: "char \<Rightarrow> char \<Rightarrow> string \<Rightarrow> string" where
  "replace_tilde d r (a # b # s) =
     (if a = CHR ''~'' \<and> b = d then r # replace_tilde d r s else a # replace_tilde d r (b # s))"
| "replace_tilde d r s = s"

definition decodePointerToken :: "string \<Rightarrow> string" where
  "decodePointerToken p = replace_tilde (CHR ''0'') (CHR ''~'') (replace_tilde (CHR ''1'') (CHR ''/'') p)"

text \<open>
  \<open>Number.parseInt(tok, 10)\<close> with the test \<open>String(idx) !== tok || idx < 0 || idx >= length\<close>:
  a token selects an element exactly when it is the canonical decimal form of its index.
\<close>

definition array_index :: "string \<Rightarrow> nat \<Rightarrow> nat option" where
  "array_index tok len =
     (if tok \<noteq> [] \<and> list_all is_digit tok \<and> nat_str (digits_val tok) = tok \<and> digits_val tok < len
      then Some (digits_val tok) else None)"

fun walk_pointer :: "jsval \<Rightarrow> string list \<Rightarrow> jsval" where
  "walk_pointer cur [] = cur"
| "walk_pointer cur (tok # toks) =
     (if \<not> is_object cur then VUndef
      else (case cur of
          VArr xs \<Rightarrow> (case array_index tok (length xs) of
              None \<Rightarrow> VUndef
            | Some i \<Rightarrow> walk_pointer (xs ! i) toks)
        | _ \<Rightarrow> walk_pointer (get_prop cur tok) toks))"

definition getPointer :: "jsval \<Rightarrow> string \<Rightarrow> js_error + jsval" where
  "getPointer doc pointer =
     (if pointer = '''' then Inr doc
      else if \<not> starts_with ''/'' pointer
      then Inl (JsError (''Invalid JSON Pointer: must start with /, got '' @ json_quote pointer))
      else Inr (walk_pointer doc (map decodePointerToken (split_on (CHR ''/'') (tl pointer)))))"

lemma getPointer_slash:
  "getPointer doc (CHR ''/'' # p) = Inr (walk_pointer doc (map decodePointerToken (split_on (CHR ''/'') p)))"
  by (simp add: getPointer_def starts_with_def)

lemma getPointer_throws_iff:
  "(\<exists>e. getPointer doc p = Inl e) \<longleftrightarrow> p \<noteq> '''' \<and> hd p \<noteq> CHR ''/''"
  by (cases p) (auto simp: getPointer_def starts_with_def)

lemma walk_pointer_append:
  "walk_pointer v (p @ q) =
     (if p \<noteq> [] \<and> q \<noteq> [] \<and> \<not> is_object (walk_pointer v p) then VUndef
      else walk_pointer (walk_pointer v p) q)"
proof (induction p arbitrary: v)
  case Nil
  then show ?case by simp
next
  case (Cons t p)
  have und: "walk_pointer VUndef q = VUndef" by (cases q) simp_all
  have non: "q \<noteq> [] \<Longrightarrow> \<not> is_object w \<Longrightarrow> walk_pointer w q = VUndef" for w
    by (cases q) simp_all
  show ?case
    using Cons.IH und non
    by (auto split: jsval.splits option.splits)
qed

section \<open>Encoding tokens\<close>

definition encode_char :: "char \<Rightarrow> string" where
  "encode_char c = (if c = CHR ''~'' then ''~0'' else if c = CHR ''/'' then ''~1'' else [c])"

text \<open>\<open>tok.replace(/~/g, "~0").replace(/\//g, "~1")\<close>: one pass, as neither
  replacement produces a character the other one looks for.\<close>

definition encodePointerToken :: "string \<Rightarrow> string" where
  "encodePointerToken tok = concat (map encode_char tok)"

lemma encodePointerToken_simps [simp]:
  "encodePointerToken [] = []"
  "encodePointerToken (c # s) = encode_char c @ encodePointerToken s"
  by (simp_all add: encodePointerToken_def)

lemma slash_notin_encode: "CHR ''/'' \<notin> set (encodePointerToken tok)"
  by (induction tok) (auto simp: encode_char_def)

text \<open>Undoing \<open>~1\<close> first leaves exactly the \<open>~0\<close> escapes.\<close>

definition tilde_only :: "string \<Rightarrow> string" where
  "tilde_only tok = concat (map (\<lambda>c. if c = CHR ''~'' then ''~0'' else [c]) tok)"

lemma replace_tilde_nontilde: "c \<noteq> CHR ''~'' \<Longrightarrow> replace_tilde d r (c # s) = c # replace_tilde d r s"
  by (cases s) simp_all

lemma replace_tilde_0_keep:
  "d \<noteq> CHR ''0'' \<Longrightarrow> replace_tilde d r (CHR ''~'' # CHR ''0'' # s) = CHR ''~'' # CHR ''0'' # replace_tilde d r s"
  by (simp add: replace_tilde_nontilde)

lemma decode_step1:
  "replace_tilde (CHR ''1'') (CHR ''/'') (encodePointerToken tok) = tilde_only tok"
  by (induction tok)
    (simp_all add: tilde_only_def encode_char_def replace_tilde_0_keep replace_tilde_nontilde)

lemma decode_step2: "replace_tilde (CHR ''0'') (CHR ''~'') (tilde_only tok) = tok"
  by (induction tok) (simp_all add: tilde_only_def replace_tilde_nontilde)

lemma decode_encode: "decodePointerToken (encodePointerToken tok) = tok"
  by (simp add: decodePointerToken_def decode_step1 decode_step2)

definition pointer_of :: "string list \<Rightarrow> string" where
  "pointer_of path = concat (map (\<lambda>t. CHR ''/'' # encodePointerToken t) path)"

lemma split_pointer_of:
  "path \<noteq> [] \<Longrightarrow> split_on (CHR ''/'') (tl (pointer_of path)) = map encodePointerToken path"
proof (induction path)
  case Nil
  then show ?case by simp
next
  case (Cons t path)
  show ?case
  proof (cases path)
    case Nil
    then show ?thesis
      by (simp add: pointer_of_def split_on_no_sep [OF slash_notin_encode])
  next
    case (Cons u us)
    have "tl (pointer_of (t # path)) = encodePointerToken t @ CHR ''/'' # tl (pointer_of path)"
      by (simp add: pointer_of_def Cons)
    with Cons.IH Cons show ?thesis
      by (simp add: split_on_append_sep [OF slash_notin_encode])
  qed
qed

lemma getPointer_pointer_of:
  assumes "path \<noteq> []"
  shows "getPointer doc (pointer_of path) = Inr (walk_pointer doc path)"
proof -
  obtain s where s: "pointer_of path = CHR ''/'' # s"
    using assms by (cases path) (auto simp: pointer_of_def)
  with split_pointer_of [OF assms] show ?thesis
    by (simp add: getPointer_slash comp_def decode_encode)
qed

section \<open>flatKeyToJsonPointer\<close>

datatype flat_key_result = FlatOk string | FlatErr string

text \<open>The segment up to the next \<open>.\<close> or \<open>[\<close>.\<close>

definition seg_char :: "char \<Rightarrow> bool" where
  "seg_char c \<longleftrightarrow> c \<noteq> CHR ''.'' \<and> c \<noteq> CHR ''[''"

definition drop_dot :: "string \<Rightarrow> string" where
  "drop_dot s = (case s of c # r \<Rightarrow> if c = CHR ''.'' then r else s | [] \<Rightarrow> s)"

lemma length_drop_dot: "length (drop_dot s) \<le> length s"
  by (auto simp: drop_dot_def split: list.splits)

function flat_parts :: "string \<Rightarrow> string list \<Rightarrow> string + string list" where
  "flat_parts [] parts = Inr parts"
| "flat_parts (c # s) parts =
     (if c = CHR ''.'' then Inl ''INVALID_SYNTAX''
      else if c = CHR ''['' then
        (if CHR '']'' \<notin> set s then Inl ''INVALID_SYNTAX''
         else
           (let inner = takeWhile (\<lambda>x. x \<noteq> CHR '']'') s;
                rest = tl (dropWhile (\<lambda>x. x \<noteq> CHR '']'') s)
            in if inner = [] \<or> \<not> list_all is_digit inner then Inl ''INVALID_ARRAY_INDEX''
               else flat_parts (drop_dot rest) (parts @ [inner])))
      else
        (let seg = takeWhile seg_char (c # s); rest = dropWhile seg_char (c # s)
         in if seg = [] then Inl ''EMPTY_SEGMENT''
            else flat_parts (drop_dot rest) (parts @ [encodePointerToken seg])))"
  by pat_completeness auto
termination
proof (relation "measure (\<lambda>(s, parts). length s)", goal_cases)
  case 1
  show ?case by simp
next
  case (2 c s parts inner rest)
  have "length rest \<le> length s"
    using length_dropWhile_le [of "\<lambda>x. x \<noteq> CHR '']''" s] 2(5) by (simp del: length_dropWhile_le)
  then have "length (drop_dot rest) < length (c # s)"
    using length_drop_dot [of rest] by simp
  then show ?case by simp
next
  case (3 c s parts seg rest)
  have "length rest < length (c # s)"
  proof -
    have "seg_char c" using 3 by (auto simp: seg_char_def)
    then show ?thesis
      using length_dropWhile_le [of seg_char s] 3(4) by (simp del: length_dropWhile_le)
  qed
  then have "length (drop_dot rest) < length (c # s)"
    using length_drop_dot [of rest] by simp
  then show ?case by simp
qed

definition flatKeyToJsonPointer :: "string \<Rightarrow> flat_key_result" where
  "flatKeyToJsonPointer flatKey =
     (if flatKey = [] then FlatErr ''EMPTY_KEY''
      else (case flat_parts flatKey [] of
          Inl code \<Rightarrow> FlatErr code
        | Inr parts \<Rightarrow> if parts = [] then FlatErr ''EMPTY_KEY''
                       else FlatOk (CHR ''/'' # join ''/'' parts)))"

end
