(* ===== verification/Types.thy ===== *)
theory Types
  imports JsValue
begin

text \<open>
  The data model of \<open>src/types.ts\<close>: run events, registry entries, resolved
  verification requests, policies, step outcomes and the engine result. A tagged union
  is a datatype, an object type a record; an optional field is an \<open>option\<close>. Fields
  carry a prefix that names their type.
\<close>

section \<open>Run events\<close>

record checkpoint_ref =
  ck_threadId :: string
  ck_checkpointNs :: string
  ck_checkpointId :: string

text \<open>The three wire versions of a \<open>tool_observed\<close> line.\<close>

datatype wire_version =
    WireV1
  | WireV2 (wire_runEventId: string) "string option"
  | WireV3 (wire_runEventId: string) "string option" checkpoint_ref

record tool_event =
  te_wire :: wire_version
  te_workflowId :: string
  te_seq :: int
  te_toolId :: string
  te_params :: jsval
  te_timestamp :: "string option"

datatype model_turn_status = MtCompleted | MtError | MtAborted | MtIncomplete
datatype retrieval_status = RtOk | RtEmpty | RtError
datatype control_kind = CkBranch | CkLoop | CkInterrupt | CkGate | CkRunCompleted
datatype control_decision = Taken | Skipped

record event_head =
  eh_workflowId :: string
  eh_runEventId :: string
  eh_parentRunEventId :: "string option"
  eh_timestamp :: "string option"

datatype run_event =
    ToolObserved tool_event
  | ModelTurn event_head model_turn_status "string option"
  | Retrieval event_head string retrieval_status "string option" "int option"
  | Control event_head control_kind "string option" "control_decision option"
  | ToolSkipped event_head string string

fun wire_schemaVersion :: "wire_version \<Rightarrow> nat" where
  "wire_schemaVersion WireV1 = 1"
| "wire_schemaVersion (WireV2 _ _) = 2"
| "wire_schemaVersion (WireV3 _ _ _) = 3"

fun event_schemaVersion :: "run_event \<Rightarrow> nat" where
  "event_schemaVersion (ToolObserved ev) = wire_schemaVersion (te_wire ev)"
| "event_schemaVersion _ = 2"

fun event_type :: "run_event \<Rightarrow> string" where
  "event_type (ToolObserved _) = ''tool_observed''"
| "event_type (ModelTurn _ _ _) = ''model_turn''"
| "event_type (Retrieval _ _ _ _ _) = ''retrieval''"
| "event_type (Control _ _ _ _) = ''control''"
| "event_type (ToolSkipped _ _ _) = ''tool_skipped''"

fun event_workflowId :: "run_event \<Rightarrow> string" where
  "event_workflowId (ToolObserved ev) = te_workflowId ev"
| "event_workflowId (ModelTurn h _ _) = eh_workflowId h"
| "event_workflowId (Retrieval h _ _ _ _) = eh_workflowId h"
| "event_workflowId (Control h _ _ _) = eh_workflowId h"
| "event_workflowId (ToolSkipped h _ _) = eh_workflowId h"

section \<open>Registry specifications\<close>

text \<open>\<open>VerificationScalar\<close>.\<close>

datatype scalar = SStr string | SNum jsnum | SBool bool | SNull

fun scalar_val :: "scalar \<Rightarrow> jsval" where
  "scalar_val (SStr s) = VStr s"
| "scalar_val (SNum n) = VNum n"
| "scalar_val (SBool b) = VBool b"
| "scalar_val SNull = VNull"

text \<open>
  \<open>{const: c} | {pointer: p}\<close>: which of the two members is present (the code tests both,
  \<open>"const" in spec\<close> and \<open>!("pointer" in spec)\<close>).
\<close>

record 'c spec =
  sp_const :: "'c option"
  sp_pointer :: "string option"

record eq_pair_spec =
  rp_column :: "string spec"
  rp_value :: "scalar spec"

record sql_row_spec =
  srs_table :: "string spec"
  srs_identityEq :: "eq_pair_spec list"
  srs_requiredFields :: string

record sql_row_absent_spec =
  sas_table :: "string spec"
  sas_identityEq :: "eq_pair_spec list"
  sas_filterEq :: "eq_pair_spec list option"

datatype expect_op = OpEq | OpGte | OpLte
datatype agg_fn = AggCountStar | AggSum
datatype table_side = SideLeft | SideRight

record aggregate_spec =
  ags_id :: string
  ags_table :: "string spec"
  ags_fn :: agg_fn
  ags_sumColumn :: "string spec option"
  ags_whereEq :: "eq_pair_spec list option"
  ags_op :: expect_op
  ags_value :: "jsnum spec"

record join_count_spec =
  jcs_id :: string
  jcs_leftTable :: "string spec"
  jcs_rightTable :: "string spec"
  jcs_leftColumn :: "string spec"
  jcs_rightColumn :: "string spec"
  jcs_whereEq :: "(table_side \<times> eq_pair_spec) list option"
  jcs_op :: expect_op
  jcs_value :: "jsnum spec"

record related_exists_spec =
  res_id :: string
  res_childTable :: "string spec"
  res_matchEq :: "eq_pair_spec list"

record anti_join_spec =
  ajs_id :: string
  ajs_anchorTable :: "string spec"
  ajs_lookupTable :: "string spec"
  ajs_anchorColumn :: "string spec"
  ajs_lookupColumn :: "string spec"
  ajs_lookupPresenceColumn :: "string spec"
  ajs_filterEqAnchor :: "eq_pair_spec list option"
  ajs_filterEqLookup :: "eq_pair_spec list option"

datatype relational_spec =
    AggregateSpec aggregate_spec
  | JoinCountSpec join_count_spec
  | RelatedExistsSpec related_exists_spec
  | AntiJoinSpec anti_join_spec

fun relational_spec_id :: "relational_spec \<Rightarrow> string" where
  "relational_spec_id (AggregateSpec s) = ags_id s"
| "relational_spec_id (JoinCountSpec s) = jcs_id s"
| "relational_spec_id (RelatedExistsSpec s) = res_id s"
| "relational_spec_id (AntiJoinSpec s) = ajs_id s"

datatype vector_provider = Pinecone | Weaviate | Chroma
datatype http_method = GET | POST

record vector_spec =
  vs_provider :: vector_provider
  vs_documentId :: "string spec"
  vs_indexName :: "string spec"
  vs_namespace :: "string spec option"
  vs_host :: "string spec option"
  vs_metadataEq :: "string option"
  vs_expectPayloadSha256 :: "string spec option"

record object_storage_spec =
  oss_bucket :: "string spec"
  oss_key :: "string spec"
  oss_endpoint :: "string spec option"
  oss_expectSizeBytes :: "jsnum spec option"
  oss_expectSha256 :: "string spec option"
  oss_expectEtag :: "string spec option"

record http_assertion_spec =
  has_jsonPointer :: string
  has_value :: "scalar spec"

record http_witness_spec =
  hws_method :: "http_method option"
  hws_url :: "string spec"
  hws_expectedStatus :: "jsnum spec option"
  hws_assertions :: "http_assertion_spec list option"

record mongo_spec =
  ms_collection :: "string spec"
  ms_filterPointer :: string
  ms_requiredFields :: string

datatype registry_verification =
    VSqlRow sql_row_spec
  | VSqlRowAbsent sql_row_absent_spec
  | VSqlEffects "(string \<times> sql_row_spec) list"
  | VSqlRelational "relational_spec list"
  | VVector vector_spec
  | VObjectStorage object_storage_spec
  | VHttpWitness http_witness_spec
  | VMongo mongo_spec

record registry_entry =
  re_toolId :: string
  re_effectDescriptionTemplate :: string
  re_releaseCritical :: "bool option"
  re_verification :: registry_verification

section \<open>Resolved requests\<close>

record identity_pair =
  ip_column :: string
  ip_value :: string

record row_request =
  rq_table :: string
  rq_identityEq :: "identity_pair list"
  rq_requiredFields :: "(string \<times> scalar) list"

record absent_request =
  aq_table :: string
  aq_identityEq :: "identity_pair list"
  aq_filterEq :: "identity_pair list"

record resolved_effect =
  ef_id :: string
  ef_request :: row_request

record related_exists_check =
  rx_id :: string
  rx_childTable :: string
  rx_matchEq :: "identity_pair list"

record aggregate_check =
  ag_id :: string
  ag_table :: string
  ag_fn :: agg_fn
  ag_sumColumn :: "string option"
  ag_whereEq :: "identity_pair list"
  ag_expectOp :: expect_op
  ag_expectValue :: jsnum

record join_count_check =
  jc_id :: string
  jc_leftTable :: string
  jc_rightTable :: string
  jc_leftJoinColumn :: string
  jc_rightJoinColumn :: string
  jc_whereEq :: "(table_side \<times> identity_pair) list"
  jc_expectOp :: expect_op
  jc_expectValue :: jsnum

record anti_join_check =
  aj_id :: string
  aj_anchorTable :: string
  aj_lookupTable :: string
  aj_anchorColumn :: string
  aj_lookupColumn :: string
  aj_lookupPresenceColumn :: string
  aj_filterEqAnchor :: "identity_pair list"
  aj_filterEqLookup :: "identity_pair list"

datatype relational_check =
    RelatedExists related_exists_check
  | Aggregate aggregate_check
  | JoinCount join_count_check
  | AntiJoin anti_join_check

fun check_id :: "relational_check \<Rightarrow> string" where
  "check_id (RelatedExists c) = rx_id c"
| "check_id (Aggregate c) = ag_id c"
| "check_id (JoinCount c) = jc_id c"
| "check_id (AntiJoin c) = aj_id c"

fun check_kind :: "relational_check \<Rightarrow> string" where
  "check_kind (RelatedExists _) = ''related_exists''"
| "check_kind (Aggregate _) = ''aggregate''"
| "check_kind (JoinCount _) = ''join_count''"
| "check_kind (AntiJoin _) = ''anti_join''"

record vector_request =
  vq_provider :: vector_provider
  vq_documentId :: string
  vq_indexName :: string
  vq_namespace :: "string option"
  vq_host :: "string option"
  vq_metadataSubset :: "(string \<times> scalar) list option"
  vq_expectPayloadSha256 :: "string option"

record object_request =
  oq_bucket :: string
  oq_key :: string
  oq_endpoint :: "string option"
  oq_expectSizeBytes :: "jsnum option"
  oq_expectSha256 :: "string option"
  oq_expectEtag :: "string option"

record http_request =
  hq_method :: http_method
  hq_url :: string
  hq_expectedStatus :: jsnum
  hq_assertions :: "(string \<times> scalar) list option"

record mongo_request =
  mq_collection :: string
  mq_filter :: jsval
  mq_requiredFields :: "(string \<times> scalar) list"

datatype witness_request =
    WVector vector_request
  | WObject object_request
  | WHttp http_request
  | WMongo mongo_request

fun witness_kind :: "witness_request \<Rightarrow> string" where
  "witness_kind (WVector _) = ''vector_document''"
| "witness_kind (WObject _) = ''object_storage_object''"
| "witness_kind (WHttp _) = ''http_witness''"
| "witness_kind (WMongo _) = ''mongo_document''"

text \<open>What a step reports as its verification request (\<open>StepVerificationRequest\<close> but for \<open>null\<close>).\<close>

datatype step_request =
    QSqlRow row_request
  | QSqlRowAbsent absent_request
  | QSqlEffects "resolved_effect list"
  | QSqlRelational "relational_check list"
  | QWitness witness_request

section \<open>Policies, statuses, outcomes\<close>

datatype policy =
    PolicyStrong (p_window: jsnum) (p_poll: jsnum)
  | PolicyEventual (p_window: jsnum) (p_poll: jsnum)
  | PolicyBounded (p_window: jsnum) (p_poll: jsnum) (p_staleness: jsnum)

datatype step_status =
    Verified | Missing | Inconsistent | IncompleteVerification | PartiallyVerified | Uncertain

fun status_text :: "step_status \<Rightarrow> string" where
  "status_text Verified = ''verified''"
| "status_text Missing = ''missing''"
| "status_text Inconsistent = ''inconsistent''"
| "status_text IncompleteVerification = ''incomplete_verification''"
| "status_text PartiallyVerified = ''partially_verified''"
| "status_text Uncertain = ''uncertain''"

lemma status_text_inj [simp]: "status_text a = status_text b \<longleftrightarrow> a = b"
  by (cases a; cases b) simp_all

record reason =
  rs_code :: string
  rs_message :: string
  rs_field :: "string option"

definition mk_reason :: "string \<Rightarrow> string \<Rightarrow> reason" where
  "mk_reason c m = \<lparr>rs_code = c, rs_message = m, rs_field = None\<rparr>"

lemma mk_reason_sel [simp]:
  "rs_code (mk_reason c m) = c" "rs_message (mk_reason c m) = m" "rs_field (mk_reason c m) = None"
  by (simp_all add: mk_reason_def)

text \<open>A reason as the JavaScript object it is inside an evidence summary.\<close>

definition reason_val :: "reason \<Rightarrow> jsval" where
  "reason_val r = VObj ([(''code'', VStr (rs_code r)), (''message'', VStr (rs_message r))]
     @ (case rs_field r of None \<Rightarrow> [] | Some f \<Rightarrow> [(''field'', VStr f)]))"

type_synonym evidence = "(string \<times> jsval) list"

text \<open>\<open>ReconcileOutput\<close> (\<open>src/reconciler.ts\<close>).\<close>

record reconcile_output =
  ro_status :: step_status
  ro_reasons :: "reason list"
  ro_evidence :: evidence

datatype failure_diagnostic = WorkflowExecution | VerificationSetup | ObservationUncertainty

record step_outcome =
  so_seq :: int
  so_toolId :: string
  so_releaseCritical :: bool
  so_narrative :: string
  so_paramsCanonical :: string
  so_request :: "step_request option"
  so_status :: step_status
  so_reasons :: "reason list"
  so_evidence :: evidence
  so_repeatObservationCount :: nat
  so_evaluatedObservationOrdinal :: nat
  so_failureDiagnostic :: "failure_diagnostic option"
  so_langgraphCheckpointKey :: "string option"

datatype workflow_status = Complete | Incomplete | InconsistentWorkflow

datatype event_integrity = IntegrityNormal | IntegrityIrregular "reason list"

record last_run_event =
  lr_ingestIndex :: nat
  lr_type :: string
  lr_modelTurnStatus :: "model_turn_status option"

record run_context =
  rc_maxWireSchemaVersion :: nat
  rc_retrievalEvents :: "(nat \<times> string \<times> string \<times> retrieval_status \<times> int option) list"
  rc_controlEvents :: "(nat \<times> string \<times> control_kind \<times> control_decision option \<times> string option) list"
  rc_modelTurnEvents :: "(nat \<times> string \<times> model_turn_status) list"
  rc_toolSkippedEvents :: "(nat \<times> string \<times> string) list"
  rc_toolObservedIngestIndexBySeq :: "string \<rightharpoonup> nat"
  rc_firstToolObservedIngestIndex :: "nat option"
  rc_hasRunCompletedControl :: bool
  rc_lastRunEvent :: "last_run_event option"

record engine_result =
  er_workflowId :: string
  er_status :: workflow_status
  er_runLevelReasons :: "reason list"
  er_verificationPolicy :: policy
  er_eventSequenceIntegrity :: event_integrity
  er_steps :: "step_outcome list"
  er_verificationRunContext :: run_context

record event_file_counts =
  ec_nonEmptyLines :: nat
  ec_schemaValidEvents :: nat
  ec_toolObservedRequested :: nat
  ec_toolObservedOther :: nat

text \<open>\<open>VerificationDatabase["kind"]\<close>.\<close>

datatype database_kind = DbSqlite | DbPostgres | DbMysql | DbBigquery | DbSqlserver

end
