(* ===== verification/FailureCatalog.thy ===== *)
theory FailureCatalog
  imports Types
begin

text \<open>
  The shared messages and the one-line normalisation of \<open>src/failureCatalog.ts\<close>, and the
  reason codes of \<open>src/wireReasonCodes.ts\<close> that a resolver failure can carry. Codes are
  the strings themselves.
\<close>

definition OPERATIONAL_MESSAGE_MAX_CHARS :: nat where
  "OPERATIONAL_MESSAGE_MAX_CHARS = 2048"

text \<open>\<open>raw.replace(/\t|\r|\n/g, " ")\<close>, then \<open>/ +/g\<close> to one blank, \<open>trim\<close>, and a cut
  at 2048 code units that ends in three dots.\<close>

definition blank_controls :: "string \<Rightarrow> string" where
  "blank_controls = map (\<lambda>c. if (of_char c :: nat) \<in> {9, 10, 13} then CHR '' '' else c)"

fun collapse_blanks :: "string \<Rightarrow> string" where
  "collapse_blanks (a # b # s) =
     (if a = CHR '' '' \<and> b = CHR '' '' then collapse_blanks (b # s) else a # collapse_blanks (b # s))"
| "collapse_blanks s = s"

definition truncate_message :: "string \<Rightarrow> string" where
  "truncate_message s =
     (if length s > OPERATIONAL_MESSAGE_MAX_CHARS
      then take (OPERATIONAL_MESSAGE_MAX_CHARS - 3) s @ ''...'' else s)"

definition formatOperationalMessage :: "string \<Rightarrow> string" where
  "formatOperationalMessage raw = truncate_message (js_trim (collapse_blanks (blank_controls raw)))"

definition MALFORMED_EVENT_LINE_MESSAGE :: string where
  "MALFORMED_EVENT_LINE_MESSAGE =
     ''Event line was missing, invalid JSON, or failed schema validation for a tool observation.''"

definition NO_STEPS_FOR_WORKFLOW_MESSAGE :: string where
  "NO_STEPS_FOR_WORKFLOW_MESSAGE = ''No tool_observed events for this workflow id after filtering.''"

definition LANGGRAPH_NON_V3_MESSAGE :: string where
  "LANGGRAPH_NON_V3_MESSAGE =
     ''LangGraph checkpoint trust requires every tool_observed line for this workflow to use schemaVersion 3 with langgraphCheckpoint.''"

datatype run_level_code =
    MALFORMED_EVENT_LINE
  | NO_STEPS_FOR_WORKFLOW
  | LANGGRAPH_CHECKPOINT_TRUST_NON_V3_TOOL_OBSERVED

fun runLevelIssue :: "run_level_code \<Rightarrow> reason" where
  "runLevelIssue MALFORMED_EVENT_LINE =
     mk_reason ''MALFORMED_EVENT_LINE'' MALFORMED_EVENT_LINE_MESSAGE"
| "runLevelIssue NO_STEPS_FOR_WORKFLOW =
     mk_reason ''NO_STEPS_FOR_WORKFLOW'' NO_STEPS_FOR_WORKFLOW_MESSAGE"
| "runLevelIssue LANGGRAPH_CHECKPOINT_TRUST_NON_V3_TOOL_OBSERVED =
     mk_reason ''LANGGRAPH_CHECKPOINT_TRUST_NON_V3_TOOL_OBSERVED'' LANGGRAPH_NON_V3_MESSAGE"

definition CAPTURE_ORDER_CODE :: string where
  "CAPTURE_ORDER_CODE = ''CAPTURE_ORDER_NOT_MONOTONIC_IN_SEQ''"

definition TIMESTAMP_NOT_MONOTONIC_CODE :: string where
  "TIMESTAMP_NOT_MONOTONIC_CODE = ''TIMESTAMP_NOT_MONOTONIC_WITH_SEQ_SORT_ORDER''"

definition eventSequenceIssue :: reason where
  "eventSequenceIssue = mk_reason CAPTURE_ORDER_CODE
     ''Capture order was not non-decreasing in seq; planning and verification used seq-sorted order, not arrival order.''"

definition eventSequenceTimestampNotMonotonicReason :: "int \<Rightarrow> int \<Rightarrow> reason" where
  "eventSequenceTimestampNotMonotonicReason seqBefore seqAfter =
     mk_reason TIMESTAMP_NOT_MONOTONIC_CODE
       (''In seq-sorted order, timestamp decreased between seq '' @ int_str seqBefore
          @ '' and seq '' @ int_str seqAfter @ ''.'')"

definition RETRY_OBSERVATIONS_DIVERGE_MESSAGE :: string where
  "RETRY_OBSERVATIONS_DIVERGE_MESSAGE =
     ''Multiple observations for this seq do not all match the last observation (toolId and canonical params).''"

text \<open>The values of \<open>REGISTRY_RESOLVER_CODE\<close> (\<open>RESOLVE_FAILURE_CODES\<close> collects them).\<close>

definition RESOLVE_FAILURE_CODES :: "string list" where
  "RESOLVE_FAILURE_CODES =
     [''CONST_STRING_EMPTY'', ''STRING_SPEC_POINTER_MISSING'', ''STRING_SPEC_TYPE'',
      ''STRING_SPEC_EMPTY'', ''KEY_VALUE_POINTER_MISSING'', ''KEY_VALUE_NOT_SCALAR'',
      ''KEY_VALUE_SPEC_INVALID'', ''TABLE_POINTER_INVALID'', ''TABLE_SPEC_INVALID'',
      ''INVALID_IDENTIFIER'', ''REQUIRED_FIELDS_POINTER_MISSING'', ''REQUIRED_FIELDS_NOT_OBJECT'',
      ''REQUIRED_FIELDS_VALUE_UNDEFINED'', ''REQUIRED_FIELDS_VALUE_NOT_SCALAR'',
      ''UNSUPPORTED_VERIFICATION_KIND'', ''DUPLICATE_EFFECT_ID'',
      ''RELATIONAL_EXPECT_VALUE_INVALID'', ''RELATIONAL_SUM_COLUMN_REQUIRED'',
      ''EQUALITY_DUPLICATE_COLUMN'', ''FILTER_EQ_OVERLAPS_IDENTITY'',
      ''RELATIONAL_UNSUPPORTED_DIALECT'']"

section \<open>What the normalisation guarantees\<close>

lemma truncate_message_length: "length (truncate_message s) \<le> OPERATIONAL_MESSAGE_MAX_CHARS"
  by (simp add: truncate_message_def OPERATIONAL_MESSAGE_MAX_CHARS_def)

lemma formatOperationalMessage_length:
  "length (formatOperationalMessage s) \<le> OPERATIONAL_MESSAGE_MAX_CHARS"
  by (simp add: formatOperationalMessage_def truncate_message_length)

lemma set_collapse_blanks: "set (collapse_blanks s) \<subseteq> set s"
  by (induction s rule: collapse_blanks.induct) auto

lemma set_js_trim: "set (js_trim s) \<subseteq> set s"
  by (auto simp: js_trim_def dest!: set_dropWhileD)

lemma blank_controls_clean: "c \<in> set (blank_controls s) \<Longrightarrow> (of_char c :: nat) \<notin> {9, 10, 13}"
  by (auto simp: blank_controls_def split: if_splits)

end
