(* ===== verification/ResolveExpectation.thy ===== *)
theory ResolveExpectation
  imports JsonPaths FailureCatalog
begin

text \<open>
  The resolver of \<open>src/resolveExpectation.ts\<close>: it turns a registry entry and the
  parameters of an observed tool call into the concrete request that is checked against
  the store, or into a coded failure. Each definition follows one function of the file,
  with its tests in the order the code makes them.
\<close>

section \<open>Identifiers\<close>

definition ident_start :: "char \<Rightarrow> bool" where
  "ident_start c \<longleftrightarrow> (let n = (of_char c :: nat) in
     (65 \<le> n \<and> n \<le> 90) \<or> (97 \<le> n \<and> n \<le> 122) \<or> n = 95)"

text \<open>\<open>/^[a-zA-Z_][a-zA-Z0-9_]*$/\<close>\<close>

definition IDENT :: "string \<Rightarrow> bool" where
  "IDENT s \<longleftrightarrow> s \<noteq> [] \<and> ident_start (hd s) \<and> list_all (\<lambda>c. ident_start c \<or> is_digit c) (tl s)"

section \<open>Scalars and strings\<close>

text \<open>\<open>getPointer(params, spec.pointer)\<close>; without a \<open>pointer\<close> member the call raises a
  \<open>TypeError\<close> inside \<open>getPointer\<close>.\<close>

definition undefined_pointer_message :: string where
  "undefined_pointer_message = ''Cannot read properties of undefined (reading '' @ CHR 0x27 # ''startsWith'' @ CHR 0x27 # '')''"

definition at_pointer :: "'c spec \<Rightarrow> jsval \<Rightarrow> (string \<Rightarrow> jsval \<Rightarrow> 'a resolve) \<Rightarrow> 'a resolve" where
  "at_pointer spec params k =
     (case sp_pointer spec of
        None \<Rightarrow> RThrow (JsTypeError undefined_pointer_message)
      | Some ptr \<Rightarrow> rbind (rlift (getPointer params ptr)) (k ptr))"

definition only_const :: "'c spec \<Rightarrow> 'c option" where
  "only_const spec = (if sp_pointer spec = None then sp_const spec else None)"

definition resolveStringSpec :: "string spec \<Rightarrow> jsval \<Rightarrow> string \<Rightarrow> string resolve" where
  "resolveStringSpec spec params label =
     (case sp_const spec of
        Some v \<Rightarrow>
          rwhen (v = []) ''CONST_STRING_EMPTY'' (label @ '': const must be non-empty string'') (ROk v)
      | None \<Rightarrow> at_pointer spec params (\<lambda>ptr got.
          if nullish got
          then RFail ''STRING_SPEC_POINTER_MISSING'' (label @ '': missing at '' @ ptr)
          else (case got of
              VStr s \<Rightarrow>
                rwhen (s = []) ''STRING_SPEC_EMPTY'' (label @ '': empty string at '' @ ptr) (ROk s)
            | _ \<Rightarrow> RFail ''STRING_SPEC_TYPE'' (label @ '': expected string at '' @ ptr))))"

definition resolveKeyValue :: "host \<Rightarrow> scalar spec \<Rightarrow> jsval \<Rightarrow> string resolve" where
  "resolveKeyValue h spec params =
     (case only_const spec of
        Some c \<Rightarrow> ROk (js_to_string h (scalar_val c))
      | None \<Rightarrow>
          if sp_pointer spec = None then RFail ''KEY_VALUE_SPEC_INVALID'' ''value: invalid spec''
          else at_pointer spec params (\<lambda>ptr got.
            rwhen (nullish got) ''KEY_VALUE_POINTER_MISSING'' (''key.value missing at '' @ ptr)
              (rwhen (is_object got) ''KEY_VALUE_NOT_SCALAR'' (''key.value must be scalar at '' @ ptr)
                (ROk (js_to_string h got)))))"

section \<open>Equality lists\<close>

fun first_adjacent_dup :: "identity_pair list \<Rightarrow> string option" where
  "first_adjacent_dup (p # q # ps) =
     (if ip_column q = ip_column p then Some (ip_column q) else first_adjacent_dup (q # ps))"
| "first_adjacent_dup _ = None"

definition normalizeSortedIdentityEq ::
  "identity_pair list \<Rightarrow> string \<Rightarrow> identity_pair list resolve" where
  "normalizeSortedIdentityEq pairs labelPrefix =
     (let sorted = js_sort (\<lambda>a b. compareUtf16Id (ip_column a) (ip_column b)) pairs
      in case first_adjacent_dup sorted of
           Some c \<Rightarrow> RFail ''EQUALITY_DUPLICATE_COLUMN''
                       (labelPrefix @ ''duplicate equality column: '' @ c)
         | None \<Rightarrow> ROk sorted)"

definition relabel :: "string \<Rightarrow> 'a resolve \<Rightarrow> 'a resolve" where
  "relabel pre r = (case r of RFail c m \<Rightarrow> RFail c (pre @ m) | _ \<Rightarrow> r)"

text \<open>A column name: a string that is an identifier.\<close>

definition resolveIdentSpec :: "string spec \<Rightarrow> jsval \<Rightarrow> string \<Rightarrow> string resolve" where
  "resolveIdentSpec spec params label =
     rbind (resolveStringSpec spec params label)
       (\<lambda>v. rwhen (\<not> IDENT v) ''INVALID_IDENTIFIER'' (label @ '': '' @ v) (ROk v))"

text \<open>
  The body of the loops over \<open>identityEq\<close>, \<open>filterEqAnchor\<close>, \<open>filterEqLookup\<close> and
  \<open>whereEq\<close>: column, identifier test, value, in this order, under \<open>name[i]\<close>.
\<close>

definition resolve_eq_pair ::
  "host \<Rightarrow> jsval \<Rightarrow> string \<Rightarrow> nat \<Rightarrow> eq_pair_spec \<Rightarrow> identity_pair resolve" where
  "resolve_eq_pair h params name i p =
     (let here = name @ ''['' @ nat_str i @ '']''
      in rbind (resolveIdentSpec (rp_column p) params (here @ ''.column''))
           (\<lambda>col. rbind (relabel (here @ ''. '') (resolveKeyValue h (rp_value p) params))
             (\<lambda>v. ROk \<lparr>ip_column = col, ip_value = v\<rparr>)))"

definition resolveRegistryEqualityList ::
  "host \<Rightarrow> eq_pair_spec list \<Rightarrow> jsval \<Rightarrow> string \<Rightarrow> identity_pair list resolve" where
  "resolveRegistryEqualityList h specs params labelPrefix =
     rbind (rmap_idx (resolve_eq_pair h params (labelPrefix @ ''identityEq'')) 0 specs)
       (\<lambda>raw. normalizeSortedIdentityEq raw labelPrefix)"

section \<open>Rows\<close>

text \<open>The table of a row, absent-row or relational specification (the same code inline in
  \<open>resolveSqlRowSpec\<close> and \<open>resolveSqlRowAbsentSpec\<close>, and as \<open>resolveTableIdent\<close>).\<close>

definition resolveTableIdent :: "string spec \<Rightarrow> jsval \<Rightarrow> string \<Rightarrow> string resolve" where
  "resolveTableIdent spec params label =
     rbind
       (case only_const spec of
          Some c \<Rightarrow> ROk c
        | None \<Rightarrow>
            if sp_pointer spec = None
            then RFail ''TABLE_SPEC_INVALID'' (label @ '': invalid spec'')
            else at_pointer spec params (\<lambda>ptr got.
              (case got of
                 VStr s \<Rightarrow> rwhen (s = []) ''TABLE_POINTER_INVALID''
                   (label @ '': expected non-empty string at '' @ ptr) (ROk s)
               | _ \<Rightarrow> RFail ''TABLE_POINTER_INVALID''
                   (label @ '': expected non-empty string at '' @ ptr))))
       (\<lambda>v. rwhen (\<not> IDENT v) ''INVALID_IDENTIFIER'' (label @ '': '' @ v) (ROk v))"

text \<open>
  \<open>requiredFields[k] = val\<close>: on an ordinary object the key \<open>__proto__\<close> is the accessor
  inherited from \<open>Object.prototype\<close>, so the assignment of a scalar stores no member.
\<close>

definition assign_field :: "(string \<times> scalar) list \<Rightarrow> string \<Rightarrow> scalar \<Rightarrow> (string \<times> scalar) list" where
  "assign_field fs k v = (if k = ''__proto__'' then fs else fs @ [(k, v)])"

fun field_scalar :: "jsval \<Rightarrow> scalar option" where
  "field_scalar (VStr s) = Some (SStr s)"
| "field_scalar (VNum n) = Some (SNum n)"
| "field_scalar (VBool b) = Some (SBool b)"
| "field_scalar VNull = Some SNull"
| "field_scalar _ = None"

text \<open>
  The loop over \<open>Object.keys(fieldsRaw)\<close>: \<open>strict\<close> asks for identifiers
  (\<open>resolveSqlRowSpec\<close>; not so for vector metadata and Mongo fields).
\<close>

fun collect_fields ::
  "bool \<Rightarrow> string \<Rightarrow> string \<Rightarrow> (string \<times> scalar) list \<Rightarrow> (string \<times> jsval) list
     \<Rightarrow> (string \<times> scalar) list resolve" where
  "collect_fields strict name scalarMsg acc [] = ROk acc"
| "collect_fields strict name scalarMsg acc ((k, v) # kvs) =
     rwhen (strict \<and> \<not> IDENT k) ''INVALID_IDENTIFIER'' (name @ '' key: '' @ k)
      (rwhen (v = VUndef) ''REQUIRED_FIELDS_VALUE_UNDEFINED''
          (name @ ''.'' @ k @ '' must not be undefined'')
        (case field_scalar v of
           None \<Rightarrow> RFail ''REQUIRED_FIELDS_VALUE_NOT_SCALAR'' (name @ ''.'' @ k @ scalarMsg)
         | Some s \<Rightarrow> collect_fields strict name scalarMsg (assign_field acc k s) kvs))"

definition resolveFieldsAt ::
  "bool \<Rightarrow> string \<Rightarrow> string \<Rightarrow> string \<Rightarrow> jsval \<Rightarrow> (string \<times> scalar) list resolve" where
  "resolveFieldsAt strict name scalarMsg pointer params =
     rbind (rlift (getPointer params pointer)) (\<lambda>fieldsRaw.
       rwhen (nullish fieldsRaw) ''REQUIRED_FIELDS_POINTER_MISSING''
           (name @ '' missing at '' @ pointer)
        (rwhen (\<not> is_object fieldsRaw \<or> is_array fieldsRaw) ''REQUIRED_FIELDS_NOT_OBJECT''
            (name @ '' must be object at '' @ pointer)
          (collect_fields strict name scalarMsg [] (own_entries fieldsRaw))))"

definition resolveSqlRowSpec :: "host \<Rightarrow> jsval \<Rightarrow> sql_row_spec \<Rightarrow> string \<Rightarrow> row_request resolve" where
  "resolveSqlRowSpec h params spec labelPrefix =
     rbind (resolveTableIdent (srs_table spec) params (labelPrefix @ ''table'')) (\<lambda>table.
     rbind (resolveRegistryEqualityList h (srs_identityEq spec) params labelPrefix) (\<lambda>identityEq.
     rbind (resolveFieldsAt True (labelPrefix @ ''requiredFields'')
              '' must be string, number, boolean, or null'' (srs_requiredFields spec) params)
       (\<lambda>fields. ROk \<lparr>rq_table = table, rq_identityEq = identityEq, rq_requiredFields = fields\<rparr>)))"

definition resolve_filter_pair ::
  "host \<Rightarrow> jsval \<Rightarrow> string \<Rightarrow> string list \<Rightarrow> nat \<Rightarrow> eq_pair_spec \<Rightarrow> identity_pair resolve" where
  "resolve_filter_pair h params labelPrefix identityCols i p =
     (let here = labelPrefix @ ''filterEq['' @ nat_str i @ '']''
      in rbind (resolveIdentSpec (rp_column p) params (here @ ''.column'')) (\<lambda>col.
         rwhen (col \<in> set identityCols) ''FILTER_EQ_OVERLAPS_IDENTITY''
             (labelPrefix @ ''filterEq column '' @ col @ '' duplicates identityEq'')
          (rbind (relabel (here @ ''. '') (resolveKeyValue h (rp_value p) params))
             (\<lambda>v. ROk \<lparr>ip_column = col, ip_value = v\<rparr>))))"

definition resolveSqlRowAbsentSpec ::
  "host \<Rightarrow> jsval \<Rightarrow> sql_row_absent_spec \<Rightarrow> string \<Rightarrow> absent_request resolve" where
  "resolveSqlRowAbsentSpec h params spec labelPrefix =
     rbind (resolveTableIdent (sas_table spec) params (labelPrefix @ ''table'')) (\<lambda>table.
     rbind (resolveRegistryEqualityList h (sas_identityEq spec) params labelPrefix) (\<lambda>identityEq.
     rbind (rmap_idx (resolve_filter_pair h params labelPrefix (map ip_column identityEq)) 0
              (case sas_filterEq spec of None \<Rightarrow> [] | Some fs \<Rightarrow> fs)) (\<lambda>filterRaw.
     rbind (normalizeSortedIdentityEq filterRaw (labelPrefix @ ''filterEq: '')) (\<lambda>filterEq.
       ROk \<lparr>aq_table = table, aq_identityEq = identityEq, aq_filterEq = filterEq\<rparr>))))"

section \<open>Relational checks\<close>

definition resolveExpectNumber :: "jsnum spec \<Rightarrow> jsval \<Rightarrow> string \<Rightarrow> jsnum resolve" where
  "resolveExpectNumber spec params label =
     (case only_const spec of
        Some n \<Rightarrow> rwhen (\<not> num_is_finite n) ''RELATIONAL_EXPECT_VALUE_INVALID''
                    (label @ '': const must be a finite number'') (ROk n)
      | None \<Rightarrow> at_pointer spec params (\<lambda>ptr got.
          if nullish got
          then RFail ''RELATIONAL_EXPECT_VALUE_INVALID'' (label @ '': missing number at '' @ ptr)
          else (case got of
              VNum n \<Rightarrow> rwhen (\<not> num_is_finite n) ''RELATIONAL_EXPECT_VALUE_INVALID''
                (label @ '': expected finite number at '' @ ptr) (ROk n)
            | _ \<Rightarrow> RFail ''RELATIONAL_EXPECT_VALUE_INVALID''
                (label @ '': expected finite number at '' @ ptr))))"

definition opt_list :: "'a list option \<Rightarrow> 'a list" where
  "opt_list xo = (case xo of None \<Rightarrow> [] | Some xs \<Rightarrow> xs)"

definition resolve_anti_join ::
  "host \<Rightarrow> jsval \<Rightarrow> anti_join_spec \<Rightarrow> string \<Rightarrow> relational_check resolve" where
  "resolve_anti_join h params spec lp =
     rbind (resolveTableIdent (ajs_anchorTable spec) params (lp @ ''anchorTable'')) (\<lambda>anchor.
     rbind (resolveTableIdent (ajs_lookupTable spec) params (lp @ ''lookupTable'')) (\<lambda>lookup.
     rbind (resolveIdentSpec (ajs_anchorColumn spec) params (lp @ ''anchorColumn'')) (\<lambda>ac.
     rbind (resolveIdentSpec (ajs_lookupColumn spec) params (lp @ ''lookupColumn'')) (\<lambda>lc.
     rbind (resolveIdentSpec (ajs_lookupPresenceColumn spec) params (lp @ ''lookupPresenceColumn'')) (\<lambda>pc.
     rbind (rmap_idx (resolve_eq_pair h params (lp @ ''filterEqAnchor'')) 0
              (opt_list (ajs_filterEqAnchor spec))) (\<lambda>anchorFilters.
     rbind (rmap_idx (resolve_eq_pair h params (lp @ ''filterEqLookup'')) 0
              (opt_list (ajs_filterEqLookup spec))) (\<lambda>lookupFilters.
     rbind (normalizeSortedIdentityEq anchorFilters (lp @ ''filterEqAnchor: '')) (\<lambda>anchorNorm.
     rbind (normalizeSortedIdentityEq lookupFilters (lp @ ''filterEqLookup: '')) (\<lambda>lookupNorm.
       ROk (AntiJoin \<lparr>aj_id = ajs_id spec, aj_anchorTable = anchor, aj_lookupTable = lookup,
         aj_anchorColumn = ac, aj_lookupColumn = lc, aj_lookupPresenceColumn = pc,
         aj_filterEqAnchor = anchorNorm, aj_filterEqLookup = lookupNorm\<rparr>))))))))))"

definition resolve_related_exists ::
  "host \<Rightarrow> jsval \<Rightarrow> related_exists_spec \<Rightarrow> string \<Rightarrow> relational_check resolve" where
  "resolve_related_exists h params spec lp =
     rbind (resolveTableIdent (res_childTable spec) params (lp @ ''childTable'')) (\<lambda>child.
     rbind (resolveRegistryEqualityList h (res_matchEq spec) params lp) (\<lambda>matchEq.
       ROk (RelatedExists \<lparr>rx_id = res_id spec, rx_childTable = child, rx_matchEq = matchEq\<rparr>)))"

definition resolve_aggregate ::
  "host \<Rightarrow> jsval \<Rightarrow> aggregate_spec \<Rightarrow> string \<Rightarrow> relational_check resolve" where
  "resolve_aggregate h params spec lp =
     rbind (resolveTableIdent (ags_table spec) params (lp @ ''table'')) (\<lambda>tbl.
     rbind (if ags_fn spec = AggSum then
              (case ags_sumColumn spec of
                 None \<Rightarrow> RFail ''RELATIONAL_SUM_COLUMN_REQUIRED''
                           (lp @ ''sumColumn required when fn is SUM'')
               | Some sc \<Rightarrow> rbind (resolveIdentSpec sc params (lp @ ''sumColumn''))
                              (\<lambda>c. ROk (Some c)))
            else ROk None) (\<lambda>sumColumn.
     rbind (rmap_idx (resolve_eq_pair h params (lp @ ''whereEq'')) 0
              (opt_list (ags_whereEq spec))) (\<lambda>whereEq.
     rbind (resolveExpectNumber (ags_value spec) params (lp @ ''expect.value'')) (\<lambda>n.
       ROk (Aggregate \<lparr>ag_id = ags_id spec, ag_table = tbl, ag_fn = ags_fn spec,
         ag_sumColumn = sumColumn, ag_whereEq = whereEq, ag_expectOp = ags_op spec,
         ag_expectValue = n\<rparr>)))))"

definition resolve_side_pair ::
  "host \<Rightarrow> jsval \<Rightarrow> string \<Rightarrow> nat \<Rightarrow> table_side \<times> eq_pair_spec \<Rightarrow> (table_side \<times> identity_pair) resolve"
  where
  "resolve_side_pair h params name i sp =
     rbind (resolve_eq_pair h params name i (snd sp)) (\<lambda>p. ROk (fst sp, p))"

definition resolve_join_count ::
  "host \<Rightarrow> jsval \<Rightarrow> join_count_spec \<Rightarrow> string \<Rightarrow> relational_check resolve" where
  "resolve_join_count h params spec lp =
     rbind (resolveTableIdent (jcs_leftTable spec) params (lp @ ''leftTable'')) (\<lambda>left.
     rbind (resolveTableIdent (jcs_rightTable spec) params (lp @ ''rightTable'')) (\<lambda>right.
     rbind (resolveIdentSpec (jcs_leftColumn spec) params (lp @ ''join.leftColumn'')) (\<lambda>lj.
     rbind (resolveIdentSpec (jcs_rightColumn spec) params (lp @ ''join.rightColumn'')) (\<lambda>rj.
     rbind (rmap_idx (resolve_side_pair h params (lp @ ''whereEq'')) 0
              (opt_list (jcs_whereEq spec))) (\<lambda>whereEq.
     rbind (resolveExpectNumber (jcs_value spec) params (lp @ ''expect.value'')) (\<lambda>n.
       ROk (JoinCount \<lparr>jc_id = jcs_id spec, jc_leftTable = left, jc_rightTable = right,
         jc_leftJoinColumn = lj, jc_rightJoinColumn = rj, jc_whereEq = whereEq,
         jc_expectOp = jcs_op spec, jc_expectValue = n\<rparr>)))))))"

fun resolveSqlRelationalCheck ::
  "host \<Rightarrow> jsval \<Rightarrow> relational_spec \<Rightarrow> string \<Rightarrow> relational_check resolve" where
  "resolveSqlRelationalCheck h params (AntiJoinSpec s) lp = resolve_anti_join h params s lp"
| "resolveSqlRelationalCheck h params (RelatedExistsSpec s) lp = resolve_related_exists h params s lp"
| "resolveSqlRelationalCheck h params (AggregateSpec s) lp = resolve_aggregate h params s lp"
| "resolveSqlRelationalCheck h params (JoinCountSpec s) lp = resolve_join_count h params s lp"

section \<open>The narrative of an intended effect\<close>

text \<open>\<open>template.replace(/\{(\/[^{}]+)\}/g, ...)\<close>\<close>

definition non_brace :: "char \<Rightarrow> bool" where
  "non_brace c \<longleftrightarrow> c \<noteq> CHR ''{'' \<and> c \<noteq> CHR ''}''"

definition placeholder_text :: "host \<Rightarrow> jsval \<Rightarrow> string \<Rightarrow> js_error + string" where
  "placeholder_text h params ptr =
     throws_bind (getPointer params ptr) (\<lambda>v.
       if v = VUndef then Inr ''MISSING''
       else throws_bind (json_stringify h v)
              (\<lambda>t. Inr (case t of None \<Rightarrow> ''undefined'' | Some s \<Rightarrow> s)))"

function renderIntendedEffect :: "host \<Rightarrow> string \<Rightarrow> jsval \<Rightarrow> js_error + string" where
  "renderIntendedEffect h [] params = Inr []"
| "renderIntendedEffect h (c # s) params =
     (let body = takeWhile non_brace s; rest = dropWhile non_brace s
      in if c = CHR ''{'' \<and> 2 \<le> length body \<and> hd body = CHR ''/'' \<and> rest \<noteq> [] \<and> hd rest = CHR ''}''
         then throws_bind (placeholder_text h params body)
                (\<lambda>t. throws_bind (renderIntendedEffect h (tl rest) params) (\<lambda>r. Inr (t @ r)))
         else throws_bind (renderIntendedEffect h s params) (\<lambda>r. Inr (c # r)))"
  by pat_completeness auto
termination
proof (relation "measure (\<lambda>(h, s, params). length s)", goal_cases)
  case 1
  show ?case by simp
next
  case (2 h c s params body rest t)
  have "length rest \<le> length s" using 2(2) by (simp add: length_dropWhile_le)
  then show ?case by simp
next
  case (3 h c s params body rest)
  show ?case by simp
qed

section \<open>State witnesses\<close>

definition resolveNumberOrPointer ::
  "jsnum spec option \<Rightarrow> jsval \<Rightarrow> string \<Rightarrow> jsnum option \<Rightarrow> jsnum resolve" where
  "resolveNumberOrPointer ospec params label fallback =
     (case ospec of
        None \<Rightarrow> (case fallback of
            None \<Rightarrow> RFail ''KEY_VALUE_SPEC_INVALID'' (label @ '': missing'')
          | Some n \<Rightarrow> ROk n)
      | Some spec \<Rightarrow>
        (case only_const spec of
           Some n \<Rightarrow> rwhen (\<not> num_is_finite n) ''KEY_VALUE_SPEC_INVALID''
                       (label @ '': const must be finite number'') (ROk n)
         | None \<Rightarrow> at_pointer spec params (\<lambda>ptr got.
             if nullish got
             then RFail ''KEY_VALUE_POINTER_MISSING'' (label @ '': missing at '' @ ptr)
             else (case got of
                 VNum n \<Rightarrow> rwhen (\<not> num_is_finite n) ''KEY_VALUE_NOT_SCALAR''
                   (label @ '': expected number at '' @ ptr) (ROk n)
               | _ \<Rightarrow> RFail ''KEY_VALUE_NOT_SCALAR'' (label @ '': expected number at '' @ ptr)))))"

definition resolveScalarOrPointerForAssertion ::
  "scalar spec \<Rightarrow> jsval \<Rightarrow> string \<Rightarrow> scalar resolve" where
  "resolveScalarOrPointerForAssertion spec params label =
     (case only_const spec of
        Some c \<Rightarrow> ROk c
      | None \<Rightarrow> at_pointer spec params (\<lambda>ptr got.
          rwhen (got = VUndef) ''KEY_VALUE_POINTER_MISSING'' (label @ '': missing at '' @ ptr)
           (rwhen (is_object got) ''KEY_VALUE_NOT_SCALAR'' (label @ '': must be scalar at '' @ ptr)
             (case field_scalar got of
                Some s \<Rightarrow> ROk s
              | None \<Rightarrow> RFail ''KEY_VALUE_NOT_SCALAR'' (label @ '': unsupported scalar at '' @ ptr)))))"

text \<open>An optional member: resolved when present, absent otherwise.\<close>

definition resolve_opt :: "('a \<Rightarrow> 'b resolve) \<Rightarrow> 'a option \<Rightarrow> 'b option resolve" where
  "resolve_opt f xo = (case xo of None \<Rightarrow> ROk None | Some x \<Rightarrow> rbind (f x) (\<lambda>y. ROk (Some y)))"

definition resolveVectorDocumentSpec ::
  "jsval \<Rightarrow> vector_spec \<Rightarrow> string \<Rightarrow> vector_request resolve" where
  "resolveVectorDocumentSpec params spec lp =
     rbind (resolveStringSpec (vs_documentId spec) params (lp @ ''documentId'')) (\<lambda>docId.
     rbind (resolveStringSpec (vs_indexName spec) params (lp @ ''indexName'')) (\<lambda>indexName.
     rbind (resolve_opt (\<lambda>s. resolveStringSpec s params (lp @ ''namespace'')) (vs_namespace spec)) (\<lambda>ns.
     rbind (resolve_opt (\<lambda>s. resolveStringSpec s params (lp @ ''host'')) (vs_host spec)) (\<lambda>hst.
     rbind (resolve_opt (\<lambda>p. resolveFieldsAt False (lp @ ''metadataEq'') '' must be scalar'' p params)
              (vs_metadataEq spec)) (\<lambda>md.
     rbind (resolve_opt (\<lambda>s. resolveStringSpec s params (lp @ ''expectPayloadSha256''))
              (vs_expectPayloadSha256 spec)) (\<lambda>sha.
       ROk \<lparr>vq_provider = vs_provider spec, vq_documentId = docId, vq_indexName = indexName,
         vq_namespace = ns, vq_host = hst, vq_metadataSubset = md, vq_expectPayloadSha256 = sha\<rparr>))))))"

definition resolve_size :: "jsval \<Rightarrow> string \<Rightarrow> jsnum spec \<Rightarrow> jsnum resolve" where
  "resolve_size params lp spec =
     rbind (resolveNumberOrPointer (Some spec) params (lp @ ''expectSizeBytes'') None) (\<lambda>sz.
       rwhen (\<not> num_is_integer sz \<or> num_less sz (num_of_int 0)) ''KEY_VALUE_SPEC_INVALID''
         (lp @ ''expectSizeBytes must be non-negative integer'') (ROk sz))"

definition resolveObjectStorageSpec ::
  "jsval \<Rightarrow> object_storage_spec \<Rightarrow> string \<Rightarrow> object_request resolve" where
  "resolveObjectStorageSpec params spec lp =
     rbind (resolveStringSpec (oss_bucket spec) params (lp @ ''bucket'')) (\<lambda>bucket.
     rbind (resolveStringSpec (oss_key spec) params (lp @ ''key'')) (\<lambda>key.
     rbind (resolve_opt (\<lambda>s. resolveStringSpec s params (lp @ ''endpoint'')) (oss_endpoint spec)) (\<lambda>ep.
     rbind (resolve_opt (resolve_size params lp) (oss_expectSizeBytes spec)) (\<lambda>sz.
     rbind (resolve_opt (\<lambda>s. resolveStringSpec s params (lp @ ''expectSha256'')) (oss_expectSha256 spec)) (\<lambda>sha.
     rbind (resolve_opt (\<lambda>s. resolveStringSpec s params (lp @ ''expectEtag'')) (oss_expectEtag spec)) (\<lambda>et.
       ROk \<lparr>oq_bucket = bucket, oq_key = key, oq_endpoint = ep, oq_expectSizeBytes = sz,
         oq_expectSha256 = sha, oq_expectEtag = et\<rparr>))))))"

definition resolve_assertion ::
  "jsval \<Rightarrow> string \<Rightarrow> nat \<Rightarrow> http_assertion_spec \<Rightarrow> (string \<times> scalar) resolve" where
  "resolve_assertion params lp i a =
     rbind (resolveScalarOrPointerForAssertion (has_value a) params
              (lp @ ''assertions['' @ nat_str i @ ''].value''))
       (\<lambda>v. ROk (has_jsonPointer a, v))"

definition resolveHttpWitnessSpec ::
  "jsval \<Rightarrow> http_witness_spec \<Rightarrow> string \<Rightarrow> http_request resolve" where
  "resolveHttpWitnessSpec params spec lp =
     rbind (resolveStringSpec (hws_url spec) params (lp @ ''url'')) (\<lambda>url.
     rbind (case hws_expectedStatus spec of
              None \<Rightarrow> ROk (num_of_int 200)
            | Some s \<Rightarrow> resolveNumberOrPointer (Some s) params (lp @ ''expectedStatus'') None) (\<lambda>st.
       rwhen (\<not> num_is_integer st \<or> num_less st (num_of_int 100) \<or> num_less (num_of_int 599) st)
           ''KEY_VALUE_SPEC_INVALID'' (lp @ ''expectedStatus must be HTTP status 100-599'')
        (rbind (rmap_idx (resolve_assertion params lp) 0 (opt_list (hws_assertions spec))) (\<lambda>as.
           ROk \<lparr>hq_method = (case hws_method spec of None \<Rightarrow> GET | Some m \<Rightarrow> m), hq_url = url,
             hq_expectedStatus = st, hq_assertions = (if as = [] then None else Some as)\<rparr>))))"

definition resolveMongoDocumentSpec ::
  "jsval \<Rightarrow> mongo_spec \<Rightarrow> string \<Rightarrow> mongo_request resolve" where
  "resolveMongoDocumentSpec params spec lp =
     rbind (resolveStringSpec (ms_collection spec) params (lp @ ''collection'')) (\<lambda>coll.
     rbind (rlift (getPointer params (ms_filterPointer spec))) (\<lambda>filterRaw.
       rwhen (nullish filterRaw) ''REQUIRED_FIELDS_POINTER_MISSING''
           (lp @ ''filter missing at '' @ ms_filterPointer spec)
        (rwhen (\<not> is_object filterRaw \<or> is_array filterRaw) ''REQUIRED_FIELDS_NOT_OBJECT''
            (lp @ ''filter must be object at '' @ ms_filterPointer spec)
          (rbind (resolveFieldsAt False (lp @ ''requiredFields'') '' must be scalar''
                    (ms_requiredFields spec) params) (\<lambda>fields.
             ROk \<lparr>mq_collection = coll, mq_filter = filterRaw, mq_requiredFields = fields\<rparr>)))))"

section \<open>resolveVerificationRequest\<close>

datatype resolved =
    RdSqlRow row_request
  | RdSqlRowAbsent absent_request
  | RdSqlEffects "resolved_effect list"
  | RdSqlRelational "relational_check list"
  | RdWitness witness_request

definition dup_effect_message :: "string \<Rightarrow> string" where
  "dup_effect_message i = ''Duplicate effect id in registry: '' @ i"

text \<open>The loops over \<open>v.checks\<close> and \<open>v.effects\<close>, with the set \<open>seen\<close>.\<close>

fun resolve_checks ::
  "host \<Rightarrow> jsval \<Rightarrow> string list \<Rightarrow> relational_spec list \<Rightarrow> relational_check list resolve" where
  "resolve_checks h params seen [] = ROk []"
| "resolve_checks h params seen (item # items) =
     (let i = relational_spec_id item
      in rwhen (i \<in> set seen) ''DUPLICATE_EFFECT_ID'' (dup_effect_message i)
          (rbind (resolveSqlRelationalCheck h params item (''checks['' @ i @ ''].'')) (\<lambda>c.
           rbind (resolve_checks h params (i # seen) items) (\<lambda>cs. ROk (c # cs)))))"

fun resolve_effects ::
  "host \<Rightarrow> jsval \<Rightarrow> string list \<Rightarrow> (string \<times> sql_row_spec) list \<Rightarrow> resolved_effect list resolve" where
  "resolve_effects h params seen [] = ROk []"
| "resolve_effects h params seen ((i, spec) # items) =
     rwhen (i \<in> set seen) ''DUPLICATE_EFFECT_ID'' (dup_effect_message i)
      (rbind (resolveSqlRowSpec h params spec (''effects['' @ i @ ''].'')) (\<lambda>req.
       rbind (resolve_effects h params (i # seen) items) (\<lambda>es.
         ROk (\<lparr>ef_id = i, ef_request = req\<rparr> # es))))"

definition sort_checks :: "relational_check list \<Rightarrow> relational_check list" where
  "sort_checks = js_sort (\<lambda>a b. compareUtf16Id (check_id a) (check_id b))"

definition sort_effects :: "resolved_effect list \<Rightarrow> resolved_effect list" where
  "sort_effects = js_sort (\<lambda>a b. compareUtf16Id (ef_id a) (ef_id b))"

definition resolveVerificationRequest ::
  "host \<Rightarrow> registry_entry \<Rightarrow> jsval \<Rightarrow> database_kind option \<Rightarrow> resolved resolve" where
  "resolveVerificationRequest h entry params target =
     (case re_verification entry of
        VSqlRow s \<Rightarrow> rbind (resolveSqlRowSpec h params s '''') (\<lambda>r. ROk (RdSqlRow r))
      | VSqlRowAbsent s \<Rightarrow> rbind (resolveSqlRowAbsentSpec h params s '''') (\<lambda>r. ROk (RdSqlRowAbsent r))
      | VVector s \<Rightarrow> rbind (resolveVectorDocumentSpec params s '''') (\<lambda>r. ROk (RdWitness (WVector r)))
      | VObjectStorage s \<Rightarrow>
          rbind (resolveObjectStorageSpec params s '''') (\<lambda>r. ROk (RdWitness (WObject r)))
      | VHttpWitness s \<Rightarrow> rbind (resolveHttpWitnessSpec params s '''') (\<lambda>r. ROk (RdWitness (WHttp r)))
      | VMongo s \<Rightarrow> rbind (resolveMongoDocumentSpec params s '''') (\<lambda>r. ROk (RdWitness (WMongo r)))
      | VSqlRelational items \<Rightarrow>
          if target = Some DbBigquery
          then RFail ''RELATIONAL_UNSUPPORTED_DIALECT''
                 ''sql_relational is not supported for BigQuery verification targets (row checks only in v1)''
          else rbind (resolve_checks h params [] items) (\<lambda>cs. ROk (RdSqlRelational (sort_checks cs)))
      | VSqlEffects items \<Rightarrow>
          rbind (resolve_effects h params [] items) (\<lambda>es. ROk (RdSqlEffects (sort_effects es))))"

section \<open>The registry map\<close>

type_synonym registry = "string \<rightharpoonup> registry_entry"

fun registry_from :: "registry \<Rightarrow> registry_entry list \<Rightarrow> js_error + registry" where
  "registry_from m [] = Inr m"
| "registry_from m (e # es) =
     (if re_toolId e \<in> dom m
      then Inl (TruthLayerError ''REGISTRY_DUPLICATE_TOOL_ID''
                  (''Duplicate toolId in registry: '' @ re_toolId e))
      else registry_from (m(re_toolId e \<mapsto> e)) es)"

definition buildRegistryMap :: "registry_entry list \<Rightarrow> js_error + registry" where
  "buildRegistryMap entries = registry_from Map.empty entries"

end
