(* ===== verification/ResolveProperties.thy ===== *)
theory ResolveProperties
  imports ResolveExpectation
begin

text \<open>
  What the resolver guarantees. A request it returns names only identifiers, with its
  equality columns in strict order, so the SQL built from it quotes plain identifiers and
  constrains each column once; a failure always carries one of \<open>RESOLVE_FAILURE_CODES\<close>,
  the set the step classifier knows.
\<close>

section \<open>Well-formed requests\<close>

definition wf_columns :: "identity_pair list \<Rightarrow> bool" where
  "wf_columns ps \<longleftrightarrow> list_all (\<lambda>p. IDENT (ip_column p)) ps"

definition wf_identity :: "identity_pair list \<Rightarrow> bool" where
  "wf_identity ps \<longleftrightarrow> wf_columns ps \<and> sorted_wrt (<) (map ip_column ps)"

definition wf_row_request :: "row_request \<Rightarrow> bool" where
  "wf_row_request r \<longleftrightarrow> IDENT (rq_table r) \<and> wf_identity (rq_identityEq r)
     \<and> list_all (\<lambda>(k, v). IDENT k) (rq_requiredFields r)"

definition wf_absent_request :: "absent_request \<Rightarrow> bool" where
  "wf_absent_request r \<longleftrightarrow> IDENT (aq_table r) \<and> wf_identity (aq_identityEq r)
     \<and> wf_identity (aq_filterEq r)
     \<and> ip_column ` set (aq_filterEq r) \<inter> ip_column ` set (aq_identityEq r) = {}"

fun wf_check :: "relational_check \<Rightarrow> bool" where
  "wf_check (RelatedExists c) \<longleftrightarrow> IDENT (rx_childTable c) \<and> wf_identity (rx_matchEq c)"
| "wf_check (Aggregate c) \<longleftrightarrow> IDENT (ag_table c) \<and> wf_columns (ag_whereEq c)
     \<and> (ag_fn c = AggSum \<longrightarrow> case_option False IDENT (ag_sumColumn c))
     \<and> num_is_finite (ag_expectValue c)"
| "wf_check (JoinCount c) \<longleftrightarrow> IDENT (jc_leftTable c) \<and> IDENT (jc_rightTable c)
     \<and> IDENT (jc_leftJoinColumn c) \<and> IDENT (jc_rightJoinColumn c)
     \<and> wf_columns (map snd (jc_whereEq c)) \<and> num_is_finite (jc_expectValue c)"
| "wf_check (AntiJoin c) \<longleftrightarrow> IDENT (aj_anchorTable c) \<and> IDENT (aj_lookupTable c)
     \<and> IDENT (aj_anchorColumn c) \<and> IDENT (aj_lookupColumn c) \<and> IDENT (aj_lookupPresenceColumn c)
     \<and> wf_identity (aj_filterEqAnchor c) \<and> wf_identity (aj_filterEqLookup c)"

fun wf_resolved :: "resolved \<Rightarrow> bool" where
  "wf_resolved (RdSqlRow r) \<longleftrightarrow> wf_row_request r"
| "wf_resolved (RdSqlRowAbsent r) \<longleftrightarrow> wf_absent_request r"
| "wf_resolved (RdSqlEffects es) \<longleftrightarrow> list_all (\<lambda>e. wf_row_request (ef_request e)) es
     \<and> sorted_wrt (<) (map ef_id es)"
| "wf_resolved (RdSqlRelational cs) \<longleftrightarrow> list_all wf_check cs \<and> sorted_wrt (<) (map check_id cs)"
| "wf_resolved (RdWitness w) \<longleftrightarrow> True"

section \<open>The parts\<close>

lemma resolveIdentSpec_IDENT: "resolveIdentSpec s params l = ROk v \<Longrightarrow> IDENT v"
  by (auto simp: resolveIdentSpec_def resolve_simps)

lemma resolveTableIdent_IDENT: "resolveTableIdent s params l = ROk v \<Longrightarrow> IDENT v"
  by (auto simp: resolveTableIdent_def rbind_ROk_iff rwhen_ROk_iff)

lemma resolve_eq_pair_IDENT: "resolve_eq_pair h params nm i p = ROk q \<Longrightarrow> IDENT (ip_column q)"
  by (auto simp: resolve_eq_pair_def Let_def rbind_ROk_iff dest: resolveIdentSpec_IDENT)

lemma eq_pairs_wf_columns:
  "rmap_idx (resolve_eq_pair h params nm) i ps = ROk qs \<Longrightarrow> wf_columns qs"
  unfolding wf_columns_def list_all_iff
  by (rule rmap_idx_ROk_all) (auto dest: resolve_eq_pair_IDENT)

lemma no_adjacent_dup_strict:
  assumes "first_adjacent_dup ps = None" and "sorted (map ip_column ps)"
  shows "sorted_wrt (<) (map ip_column ps)"
  using assms
proof (induction ps rule: first_adjacent_dup.induct)
  case (1 p q ps)
  then have neq: "ip_column q \<noteq> ip_column p" and rec: "first_adjacent_dup (q # ps) = None"
    by (auto split: if_splits)
  from 1(1) [OF neq rec] 1(3) have "sorted_wrt (<) (map ip_column (q # ps))" by simp
  with 1(3) neq show ?case by fastforce
qed auto

lemma sorted_columns:
  "sorted (map ip_column (js_sort (\<lambda>a b. compareUtf16Id (ip_column a) (ip_column b)) ps))"
  using utf16.sort_sorted [of ip_column ps] by (simp add: compareUtf16Id_le sorted_wrt_map)

lemma normalize_ROk:
  assumes "normalizeSortedIdentityEq ps l = ROk qs"
  shows "mset qs = mset ps \<and> sorted_wrt (<) (map ip_column qs)"
  using assms no_adjacent_dup_strict [OF _ sorted_columns]
  by (auto simp: normalizeSortedIdentityEq_def Let_def split: option.splits)

lemma normalize_wf:
  assumes "normalizeSortedIdentityEq ps l = ROk qs" and "wf_columns ps"
  shows "wf_identity qs"
  using normalize_ROk [OF assms(1)] assms(2)
  by (auto simp: wf_identity_def wf_columns_def list_all_iff dest: mset_eq_setD)

text \<open>The normalised list fails exactly when two pairs name the same column.\<close>

lemma first_adjacent_dup_distinct:
  assumes "distinct (map ip_column ps)"
  shows "first_adjacent_dup ps = None"
  using assms by (induction ps rule: first_adjacent_dup.induct) auto

lemma normalize_ROk_iff:
  "(\<exists>qs. normalizeSortedIdentityEq ps l = ROk qs) \<longleftrightarrow> distinct (map ip_column ps)"
proof
  assume "\<exists>qs. normalizeSortedIdentityEq ps l = ROk qs"
  then obtain qs where "mset qs = mset ps" "sorted_wrt (<) (map ip_column qs)"
    using normalize_ROk by blast
  then have "distinct (map ip_column qs)" and "mset (map ip_column qs) = mset (map ip_column ps)"
    by (simp_all add: strict_sorted_iff)
  then show "distinct (map ip_column ps)" by (metis mset_eq_imp_distinct_iff)
next
  assume d: "distinct (map ip_column ps)"
  let ?s = "js_sort (\<lambda>a b. compareUtf16Id (ip_column a) (ip_column b)) ps"
  have "mset (map ip_column ?s) = mset (map ip_column ps)" by simp
  then have "distinct (map ip_column ?s)" using d by (metis mset_eq_imp_distinct_iff)
  from first_adjacent_dup_distinct [OF this]
  show "\<exists>qs. normalizeSortedIdentityEq ps l = ROk qs"
    by (simp add: normalizeSortedIdentityEq_def Let_def)
qed

lemma equality_list_wf:
  "resolveRegistryEqualityList h specs params l = ROk qs \<Longrightarrow> wf_identity qs"
  by (auto simp: resolveRegistryEqualityList_def rbind_ROk_iff
      intro: normalize_wf eq_pairs_wf_columns)

lemma collect_fields_keys:
  assumes "collect_fields True nm msg acc kvs = ROk fs" and "list_all (\<lambda>(k, v). IDENT k) acc"
  shows "list_all (\<lambda>(k, v). IDENT k) fs"
  using assms
proof (induction kvs arbitrary: acc)
  case Nil
  then show ?case by simp
next
  case (Cons kv kvs)
  obtain k v where kv: "kv = (k, v)" by (cases kv)
  from Cons.prems(1) kv obtain s where "field_scalar v = Some s" and k: "IDENT k"
    and rec: "collect_fields True nm msg (assign_field acc k s) kvs = ROk fs"
    by (auto simp: rwhen_ROk_iff split: option.splits)
  show ?case
    by (rule Cons.IH [OF rec]) (use Cons.prems(2) k in \<open>simp add: assign_field_def\<close>)
qed

lemma resolveFieldsAt_keys:
  "resolveFieldsAt True nm msg p params = ROk fs \<Longrightarrow> list_all (\<lambda>(k, v). IDENT k) fs"
  by (auto simp: resolveFieldsAt_def rbind_ROk_iff rwhen_ROk_iff elim: collect_fields_keys)

text \<open>A collected field carries the value that the source object holds under its key.\<close>

lemma collect_fields_source:
  assumes "collect_fields strict nm msg acc kvs = ROk fs" and "(k, s) \<in> set fs"
  shows "(k, s) \<in> set acc \<or> ((k, scalar_val s) \<in> set kvs \<and> k \<noteq> ''__proto__'')"
  using assms
proof (induction kvs arbitrary: acc)
  case Nil
  then show ?case by simp
next
  case (Cons kv kvs)
  obtain k' v where kv: "kv = (k', v)" by (cases kv)
  from Cons.prems(1) kv obtain t where t: "field_scalar v = Some t"
    and rec: "collect_fields strict nm msg (assign_field acc k' t) kvs = ROk fs"
    by (auto simp: rwhen_ROk_iff split: option.splits)
  from t have "v = scalar_val t" by (cases v) auto
  with Cons.IH [OF rec Cons.prems(2)] kv show ?case
    by (auto simp: assign_field_def split: if_splits)
qed

lemma sqlRow_wf: "resolveSqlRowSpec h params spec l = ROk r \<Longrightarrow> wf_row_request r"
  by (auto simp: resolveSqlRowSpec_def rbind_ROk_iff wf_row_request_def
      dest: resolveTableIdent_IDENT equality_list_wf resolveFieldsAt_keys)

lemma filter_pair_wf:
  "resolve_filter_pair h params l cols i p = ROk q \<Longrightarrow> IDENT (ip_column q) \<and> ip_column q \<notin> set cols"
  by (auto simp: resolve_filter_pair_def Let_def rbind_ROk_iff rwhen_ROk_iff dest: resolveIdentSpec_IDENT)

lemma sqlRowAbsent_wf:
  assumes "resolveSqlRowAbsentSpec h params spec l = ROk r"
  shows "wf_absent_request r"
proof -
  from assms obtain idq raw where
      tbl: "resolveTableIdent (sas_table spec) params (l @ ''table'') = ROk (aq_table r)"
    and idq: "resolveRegistryEqualityList h (sas_identityEq spec) params l = ROk (aq_identityEq r)"
    and raw: "rmap_idx (resolve_filter_pair h params l (map ip_column (aq_identityEq r))) 0
                (case sas_filterEq spec of None \<Rightarrow> [] | Some fs \<Rightarrow> fs) = ROk raw"
    and norm: "normalizeSortedIdentityEq raw (l @ ''filterEq: '') = ROk (aq_filterEq r)"
    by (auto simp: resolveSqlRowAbsentSpec_def rbind_ROk_iff)
  have filt: "\<forall>q \<in> set raw. IDENT (ip_column q) \<and> ip_column q \<notin> set (map ip_column (aq_identityEq r))"
    by (rule rmap_idx_ROk_all [OF raw]) (auto dest: filter_pair_wf)
  then have "wf_columns raw" by (auto simp: wf_columns_def list_all_iff)
  from normalize_wf [OF norm this] have "wf_identity (aq_filterEq r)" .
  moreover have "set (aq_filterEq r) = set raw"
    using normalize_ROk [OF norm] by (metis set_mset_mset)
  ultimately show ?thesis
    using filt resolveTableIdent_IDENT [OF tbl] equality_list_wf [OF idq]
    by (auto simp: wf_absent_request_def)
qed

lemma expectNumber_finite: "resolveExpectNumber s params l = ROk n \<Longrightarrow> num_is_finite n"
proof (cases "only_const s")
  case None
  assume "resolveExpectNumber s params l = ROk n"
  with None obtain got where "num_is_finite n \<and> got = VNum n"
    by (auto simp: resolveExpectNumber_def at_pointer_def rbind_ROk_iff rwhen_ROk_iff
        split: option.splits if_splits jsval.splits)
  then show ?thesis by simp
qed (auto simp: resolveExpectNumber_def rwhen_ROk_iff)

lemma side_pairs_wf:
  assumes "rmap_idx (resolve_side_pair h params nm) i ps = ROk qs"
  shows "wf_columns (map snd qs)"
proof -
  have "\<forall>q \<in> set qs. IDENT (ip_column (snd q))"
    by (rule rmap_idx_ROk_all [OF assms])
      (auto simp: resolve_side_pair_def rbind_ROk_iff dest: resolve_eq_pair_IDENT)
  then show ?thesis by (auto simp: wf_columns_def list_all_iff)
qed

lemma normalized_pairs_wf:
  "rmap_idx (resolve_eq_pair h params nm) i ps = ROk raw \<Longrightarrow>
     normalizeSortedIdentityEq raw l = ROk qs \<Longrightarrow> wf_identity qs"
  by (rule normalize_wf [OF _ eq_pairs_wf_columns])

lemma anti_join_wf: "resolve_anti_join h params s l = ROk c \<Longrightarrow> wf_check c \<and> check_id c = ajs_id s"
  by (auto simp: resolve_anti_join_def rbind_ROk_iff
      dest!: resolveTableIdent_IDENT resolveIdentSpec_IDENT)
    (blast intro: normalized_pairs_wf)+

lemma related_exists_wf:
  "resolve_related_exists h params s l = ROk c \<Longrightarrow> wf_check c \<and> check_id c = res_id s"
  by (auto simp: resolve_related_exists_def rbind_ROk_iff
      dest!: resolveTableIdent_IDENT equality_list_wf)

lemma aggregate_wf:
  assumes "resolve_aggregate h params s l = ROk c"
  shows "wf_check c \<and> check_id c = ags_id s"
  using assms
  by (auto simp: resolve_aggregate_def rbind_ROk_iff split: option.splits if_splits
      dest!: resolveTableIdent_IDENT resolveIdentSpec_IDENT expectNumber_finite
      intro: eq_pairs_wf_columns)

lemma join_count_wf:
  "resolve_join_count h params s l = ROk c \<Longrightarrow> wf_check c \<and> check_id c = jcs_id s"
  by (auto simp: resolve_join_count_def rbind_ROk_iff
      dest!: resolveTableIdent_IDENT resolveIdentSpec_IDENT expectNumber_finite side_pairs_wf)

lemma relational_check_wf:
  "resolveSqlRelationalCheck h params s l = ROk c \<Longrightarrow> wf_check c \<and> check_id c = relational_spec_id s"
  by (cases s) (auto dest: anti_join_wf related_exists_wf aggregate_wf join_count_wf)

section \<open>The loops over checks and effects\<close>

lemma resolve_checks_wf:
  "resolve_checks h params seen items = ROk cs \<Longrightarrow>
     list_all wf_check cs \<and> map check_id cs = map relational_spec_id items
     \<and> distinct (map relational_spec_id items)
     \<and> set (map relational_spec_id items) \<inter> set seen = {}"
proof (induction items arbitrary: seen cs)
  case Nil
  then show ?case by simp
next
  case (Cons item items)
  then obtain c cs' where c: "resolveSqlRelationalCheck h params item
        (''checks['' @ relational_spec_id item @ ''].'') = ROk c"
    and rec: "resolve_checks h params (relational_spec_id item # seen) items = ROk cs'"
    and cs: "cs = c # cs'" and new: "relational_spec_id item \<notin> set seen"
    by (auto simp: Let_def rwhen_ROk_iff rbind_ROk_iff)
  from Cons.IH [OF rec] relational_check_wf [OF c] cs new show ?case by auto
qed

lemma resolve_effects_wf:
  "resolve_effects h params seen items = ROk es \<Longrightarrow>
     list_all (\<lambda>e. wf_row_request (ef_request e)) es \<and> map ef_id es = map fst items
     \<and> distinct (map fst items) \<and> set (map fst items) \<inter> set seen = {}"
proof (induction items arbitrary: seen es)
  case Nil
  then show ?case by simp
next
  case (Cons item items)
  obtain i spec where item: "item = (i, spec)" by (cases item)
  with Cons.prems obtain r es' where r: "resolveSqlRowSpec h params spec (''effects['' @ i @ ''].'') = ROk r"
    and rec: "resolve_effects h params (i # seen) items = ROk es'"
    and es: "es = \<lparr>ef_id = i, ef_request = r\<rparr> # es'" and new: "i \<notin> set seen"
    by (auto simp: rwhen_ROk_iff rbind_ROk_iff)
  from Cons.IH [OF rec] sqlRow_wf [OF r] es new item show ?case by auto
qed

lemma sort_by_id_strict:
  assumes "distinct (map f xs)"
  shows "sorted_wrt (<) (map f (js_sort (\<lambda>a b. compareUtf16Id (f a) (f b)) xs))"
proof -
  let ?s = "js_sort (\<lambda>a b. compareUtf16Id (f a) (f b)) xs"
  have "sorted (map f ?s)"
    using utf16.sort_sorted [of f xs] by (simp add: compareUtf16Id_le sorted_wrt_map)
  moreover have "distinct (map f ?s)"
    using assms by (metis mset_eq_imp_distinct_iff mset_js_sort mset_map)
  ultimately show ?thesis by (simp add: strict_sorted_iff)
qed

lemma resolved_wf:
  assumes "resolveVerificationRequest h entry params target = ROk rd"
  shows "wf_resolved rd"
proof (cases "re_verification entry")
  case (VSqlEffects items)
  with assms obtain es where "resolve_effects h params [] items = ROk es"
    and "rd = RdSqlEffects (sort_effects es)"
    by (auto simp: resolveVerificationRequest_def rbind_ROk_iff)
  with resolve_effects_wf [of h params "[]" items es] show ?thesis
    by (auto simp: sort_effects_def list_all_iff intro!: sort_by_id_strict)
next
  case (VSqlRelational items)
  with assms obtain cs where "resolve_checks h params [] items = ROk cs"
    and "rd = RdSqlRelational (sort_checks cs)"
    by (auto simp: resolveVerificationRequest_def rbind_ROk_iff split: if_splits)
  with resolve_checks_wf [of h params "[]" items cs] show ?thesis
    by (auto simp: sort_checks_def list_all_iff intro!: sort_by_id_strict)
qed (use assms in \<open>auto simp: resolveVerificationRequest_def rbind_ROk_iff
      dest: sqlRow_wf sqlRowAbsent_wf\<close>)

section \<open>Failure codes\<close>

definition coded :: "'a resolve \<Rightarrow> bool" where
  "coded r \<longleftrightarrow> (\<forall>c m. r = RFail c m \<longrightarrow> c \<in> set RESOLVE_FAILURE_CODES)"

lemma coded_ROk [simp, intro]: "coded (ROk x)"
  by (simp add: coded_def)

lemma coded_RThrow [simp, intro]: "coded (RThrow e)"
  by (simp add: coded_def)

lemma coded_rlift [simp, intro]: "coded (rlift r)"
  by (simp add: coded_def)

lemma coded_RFail: "coded (RFail c m) \<longleftrightarrow> c \<in> set RESOLVE_FAILURE_CODES"
  by (simp add: coded_def)

lemma coded_rbind: "coded r \<Longrightarrow> (\<And>x. coded (f x)) \<Longrightarrow> coded (rbind r f)"
  by (cases r) (auto simp: coded_def)

lemma coded_rwhen: "c \<in> set RESOLVE_FAILURE_CODES \<Longrightarrow> coded k \<Longrightarrow> coded (rwhen b c m k)"
  by (auto simp: coded_def rwhen_def)

lemma coded_relabel: "coded r \<Longrightarrow> coded (relabel p r)"
  by (cases r) (auto simp: coded_def relabel_def)

lemma coded_at_pointer: "(\<And>p v. coded (k p v)) \<Longrightarrow> coded (at_pointer s params k)"
  by (auto simp: at_pointer_def intro: coded_rbind split: option.splits)

lemma coded_rmap_idx: "(\<And>i x. coded (f i x)) \<Longrightarrow> coded (rmap_idx f j xs)"
  by (induction xs arbitrary: j) (auto intro!: coded_rbind)

lemma coded_resolve_opt: "(\<And>x. coded (f x)) \<Longrightarrow> coded (resolve_opt f ox)"
  by (cases ox) (auto simp: resolve_opt_def intro!: coded_rbind)

lemma coded_if: "coded a \<Longrightarrow> coded b \<Longrightarrow> coded (if c then a else b)"
  by simp

lemmas coded_intros = coded_rbind coded_rwhen coded_relabel coded_at_pointer coded_rmap_idx
  coded_resolve_opt coded_if

lemma codes_member [simp]:
  "''CONST_STRING_EMPTY'' \<in> set RESOLVE_FAILURE_CODES"
  "''STRING_SPEC_POINTER_MISSING'' \<in> set RESOLVE_FAILURE_CODES"
  "''STRING_SPEC_TYPE'' \<in> set RESOLVE_FAILURE_CODES"
  "''STRING_SPEC_EMPTY'' \<in> set RESOLVE_FAILURE_CODES"
  "''KEY_VALUE_POINTER_MISSING'' \<in> set RESOLVE_FAILURE_CODES"
  "''KEY_VALUE_NOT_SCALAR'' \<in> set RESOLVE_FAILURE_CODES"
  "''KEY_VALUE_SPEC_INVALID'' \<in> set RESOLVE_FAILURE_CODES"
  "''TABLE_POINTER_INVALID'' \<in> set RESOLVE_FAILURE_CODES"
  "''TABLE_SPEC_INVALID'' \<in> set RESOLVE_FAILURE_CODES"
  "''INVALID_IDENTIFIER'' \<in> set RESOLVE_FAILURE_CODES"
  "''REQUIRED_FIELDS_POINTER_MISSING'' \<in> set RESOLVE_FAILURE_CODES"
  "''REQUIRED_FIELDS_NOT_OBJECT'' \<in> set RESOLVE_FAILURE_CODES"
  "''REQUIRED_FIELDS_VALUE_UNDEFINED'' \<in> set RESOLVE_FAILURE_CODES"
  "''REQUIRED_FIELDS_VALUE_NOT_SCALAR'' \<in> set RESOLVE_FAILURE_CODES"
  "''DUPLICATE_EFFECT_ID'' \<in> set RESOLVE_FAILURE_CODES"
  "''RELATIONAL_EXPECT_VALUE_INVALID'' \<in> set RESOLVE_FAILURE_CODES"
  "''RELATIONAL_SUM_COLUMN_REQUIRED'' \<in> set RESOLVE_FAILURE_CODES"
  "''EQUALITY_DUPLICATE_COLUMN'' \<in> set RESOLVE_FAILURE_CODES"
  "''FILTER_EQ_OVERLAPS_IDENTITY'' \<in> set RESOLVE_FAILURE_CODES"
  "''RELATIONAL_UNSUPPORTED_DIALECT'' \<in> set RESOLVE_FAILURE_CODES"
  by (simp_all add: RESOLVE_FAILURE_CODES_def)

lemma coded_strings:
  "coded (resolveStringSpec s params l)"
  "coded (resolveIdentSpec s params l)"
  "coded (resolveKeyValue h ks params)"
  "coded (resolveTableIdent s params l)"
  "coded (resolveExpectNumber ns params l)"
  "coded (resolveNumberOrPointer (Some ns) params l fb)"
  "coded (resolveScalarOrPointerForAssertion ks params l)"
  by (auto simp: resolveStringSpec_def resolveIdentSpec_def resolveKeyValue_def resolveTableIdent_def
      resolveExpectNumber_def resolveNumberOrPointer_def resolveScalarOrPointerForAssertion_def
      coded_RFail intro!: coded_intros split: option.splits jsval.splits)

lemma coded_collect_fields: "coded (collect_fields st nm msg acc kvs)"
proof (induction kvs arbitrary: acc)
  case Nil
  then show ?case by simp
next
  case (Cons kv kvs)
  obtain k v where "kv = (k, v)" by (cases kv)
  with Cons show ?case
    by (auto simp: coded_RFail intro!: coded_intros split: option.splits)
qed

lemma coded_lists:
  "coded (normalizeSortedIdentityEq ps l)"
  "coded (resolve_eq_pair h params nm i p)"
  "coded (resolve_side_pair h params nm i sp)"
  "coded (resolveRegistryEqualityList h specs params l)"
  "coded (resolveFieldsAt st nm msg ptr params)"
  "coded (resolve_filter_pair h params l cols i p)"
proof -
  show norm: "coded (normalizeSortedIdentityEq ps l)" for ps l
    by (auto simp: normalizeSortedIdentityEq_def Let_def coded_RFail split: option.splits)
  show pair: "coded (resolve_eq_pair h params nm i p)" for nm i p
    by (auto simp: resolve_eq_pair_def Let_def intro!: coded_intros coded_strings)
  show "coded (resolve_side_pair h params nm i sp)"
    by (auto simp: resolve_side_pair_def intro!: coded_intros pair)
  show "coded (resolveRegistryEqualityList h specs params l)"
    by (auto simp: resolveRegistryEqualityList_def intro!: coded_intros pair norm)
  show "coded (resolveFieldsAt st nm msg ptr params)"
    by (auto simp: resolveFieldsAt_def intro!: coded_intros coded_collect_fields)
  show "coded (resolve_filter_pair h params l cols i p)"
    by (auto simp: resolve_filter_pair_def Let_def intro!: coded_intros coded_strings)
qed

lemma coded_sqlRow: "coded (resolveSqlRowSpec h params rs l)"
  by (auto simp: resolveSqlRowSpec_def intro!: coded_intros coded_strings coded_lists)

lemma coded_sqlRowAbsent: "coded (resolveSqlRowAbsentSpec h params as l)"
  by (auto simp: resolveSqlRowAbsentSpec_def intro!: coded_intros coded_strings coded_lists)

lemma coded_relational: "coded (resolveSqlRelationalCheck h params rel l)"
  by (cases rel)
    (auto simp: resolve_anti_join_def resolve_related_exists_def resolve_aggregate_def
      resolve_join_count_def coded_RFail
      intro!: coded_intros coded_strings coded_lists split: option.splits)

lemma coded_witnesses:
  "coded (resolveVectorDocumentSpec params vs l)"
  "coded (resolveObjectStorageSpec params os l)"
  "coded (resolveHttpWitnessSpec params hs l)"
  "coded (resolveMongoDocumentSpec params ms l)"
  by (auto simp: resolveVectorDocumentSpec_def resolveObjectStorageSpec_def resolve_size_def
      resolveHttpWitnessSpec_def resolve_assertion_def resolveMongoDocumentSpec_def
      intro!: coded_intros coded_strings coded_lists split: option.splits)

lemma coded_resolve_checks: "coded (resolve_checks h params seen items)"
  by (induction items arbitrary: seen)
    (auto simp: Let_def intro!: coded_intros coded_relational)

lemma coded_resolve_effects: "coded (resolve_effects h params seen items)"
  by (induction items arbitrary: seen)
    (auto intro!: coded_intros coded_sqlRow)

lemma coded_resolveVerificationRequest: "coded (resolveVerificationRequest h entry params target)"
  by (auto simp: resolveVerificationRequest_def coded_RFail
      intro!: coded_intros coded_sqlRow coded_sqlRowAbsent coded_witnesses
        coded_resolve_checks coded_resolve_effects
      split: registry_verification.splits)

section \<open>The registry map\<close>

lemma registry_from_ok:
  "registry_from m es = Inr m' \<Longrightarrow>
     distinct (map re_toolId es) \<and> set (map re_toolId es) \<inter> dom m = {}
     \<and> m' = m ++ map_of (map (\<lambda>e. (re_toolId e, e)) es)"
proof (induction es arbitrary: m)
  case Nil
  then show ?case by simp
next
  case (Cons e es)
  then have new: "re_toolId e \<notin> dom m" and rec: "registry_from (m(re_toolId e \<mapsto> e)) es = Inr m'"
    by (auto split: if_splits)
  from Cons.IH [OF rec] have
      d: "distinct (map re_toolId es)"
    and dis: "set (map re_toolId es) \<inter> dom (m(re_toolId e \<mapsto> e)) = {}"
    and m': "m' = m(re_toolId e \<mapsto> e) ++ map_of (map (\<lambda>e. (re_toolId e, e)) es)"
    by blast+
  from dis have fresh: "re_toolId e \<notin> set (map re_toolId es)" and "set (map re_toolId es) \<inter> dom m = {}"
    by auto
  have nd: "re_toolId e \<notin> dom (map_of (map (\<lambda>e. (re_toolId e, e)) es))"
    using fresh by (auto simp: dom_map_of_conv_image_fst)
  from m' have m'': "m' = (m ++ map_of (map (\<lambda>e. (re_toolId e, e)) es))(re_toolId e \<mapsto> e)"
    by (simp only: map_add_upd_left [OF nd])
  have "m ++ map_of (map (\<lambda>e. (re_toolId e, e)) (e # es))
      = (m ++ map_of (map (\<lambda>e. (re_toolId e, e)) es))(re_toolId e \<mapsto> e)"
    by (simp only: list.map map_of.simps fst_conv snd_conv map_add_upd)
  with m'' have "m' = m ++ map_of (map (\<lambda>e. (re_toolId e, e)) (e # es))"
    by (simp only:)
  moreover have "distinct (map re_toolId (e # es))" using d fresh by simp
  moreover have "set (map re_toolId (e # es)) \<inter> dom m = {}" using dis new by auto
  ultimately show ?case by blast
qed

lemma registry_from_total:
  assumes "distinct (map re_toolId es)" and "set (map re_toolId es) \<inter> dom m = {}"
  shows "\<exists>m'. registry_from m es = Inr m'"
  using assms
proof (induction es arbitrary: m)
  case Nil
  then show ?case by simp
next
  case (Cons e es)
  then have "set (map re_toolId es) \<inter> dom (m(re_toolId e \<mapsto> e)) = {}"
    by (simp add: Int_insert_right)
  with Cons have "\<exists>m'. registry_from (m(re_toolId e \<mapsto> e)) es = Inr m'" by simp
  with Cons.prems show ?case by auto
qed

end
