(* ===== verification/SqlText.thy ===== *)
theory SqlText
  imports ResolveProperties
begin

text \<open>
  The SQL the checks send: identifier quoting and placeholders per dialect
  (\<open>src/sqlDialect.ts\<close>), the row lookups (\<open>src/sqlConnector.ts\<close>,
  \<open>src/sqlReadBackend.ts\<close>), the absence plan (\<open>buildRowAbsentSqlPlan\<close> of
  \<open>src/reconciler.ts\<close>) and the relational queries (\<open>src/relationalInvariant.ts\<close>).
\<close>

section \<open>Dialects\<close>

datatype dialect = Sqlite | Postgresql | Mysql | Mssql | Bigquery

definition double_char :: "char \<Rightarrow> string \<Rightarrow> string" where
  "double_char q s = concat (map (\<lambda>c. if c = q then [q, q] else [c]) s)"

fun close_quote :: "dialect \<Rightarrow> char" where
  "close_quote Mysql = CHR ''`''"
| "close_quote Mssql = CHR '']''"
| "close_quote Bigquery = CHR ''`''"
| "close_quote _ = CHR 0x22"

fun open_quote :: "dialect \<Rightarrow> char" where
  "open_quote Mssql = CHR ''[''"
| "open_quote d = close_quote d"

definition quoteIdent :: "dialect \<Rightarrow> string \<Rightarrow> string" where
  "quoteIdent d i = open_quote d # double_char (close_quote d) i @ [close_quote d]"

definition quoteBigQueryTableId :: "string \<Rightarrow> string" where
  "quoteBigQueryTableId full =
     (let parts = filter (\<lambda>p. p \<noteq> []) (split_on (CHR ''.'') full)
      in if parts = [] then ''`invalid`''
         else join ''.'' (map (\<lambda>p. CHR ''`'' # double_char (CHR ''`'') p @ [CHR ''`'']) parts))"

fun nextPlaceholderSqlRow :: "dialect \<Rightarrow> nat \<Rightarrow> string" where
  "nextPlaceholderSqlRow Postgresql n = ''$'' @ nat_str n"
| "nextPlaceholderSqlRow Bigquery n = ''@p'' @ nat_str n"
| "nextPlaceholderSqlRow _ n = ''?''"

fun nextPlaceholderRelational :: "dialect \<Rightarrow> nat \<Rightarrow> string" where
  "nextPlaceholderRelational Postgresql n = ''$'' @ nat_str n"
| "nextPlaceholderRelational Mysql n = ''?''"
| "nextPlaceholderRelational Sqlite n = ''?''"
| "nextPlaceholderRelational Mssql n = ''@p'' @ nat_str n"
| "nextPlaceholderRelational _ n = ''?''"

section \<open>Row lookups\<close>

text \<open>\<open>tbl.col = ph\<close> for each pair, with the placeholders numbered from \<open>n\<close>.\<close>

definition eq_conds ::
  "dialect \<Rightarrow> (nat \<Rightarrow> string) \<Rightarrow> string \<Rightarrow> nat \<Rightarrow> identity_pair list \<Rightarrow> string list" where
  "eq_conds d ph tbl n ps =
     map (\<lambda>(i, p). tbl @ ''.'' @ quoteIdent d (ip_column p) @ '' = '' @ ph i) (List.enumerate n ps)"

definition buildSelectByIdentitySql :: "dialect \<Rightarrow> row_request \<Rightarrow> string \<times> string list" where
  "buildSelectByIdentitySql d req =
     (let tbl = quoteIdent d (rq_table req)
      in (''SELECT * FROM '' @ tbl @ '' WHERE ''
            @ join '' AND '' (eq_conds d (nextPlaceholderSqlRow d) tbl 1 (rq_identityEq req)) @ '' LIMIT 2'',
          map ip_value (rq_identityEq req)))"

definition buildSelectByIdentitySqlSqlite :: "row_request \<Rightarrow> string \<times> string list" where
  "buildSelectByIdentitySqlSqlite = buildSelectByIdentitySql Sqlite"

definition buildSelectByIdentitySqlPostgres :: "row_request \<Rightarrow> string \<times> string list" where
  "buildSelectByIdentitySqlPostgres = buildSelectByIdentitySql Postgresql"

section \<open>Absence\<close>

definition MAX_VERIFICATION_SAMPLE_ROWS :: nat where
  "MAX_VERIFICATION_SAMPLE_ROWS = 3"

definition tableExprForRowDialect :: "dialect \<Rightarrow> string \<Rightarrow> string" where
  "tableExprForRowDialect d tbl = (if d = Bigquery then quoteBigQueryTableId tbl else quoteIdent d tbl)"

definition sorted_set :: "string list \<Rightarrow> string list" where
  "sorted_set xs = js_sort compareUtf16Id (remdups xs)"

record absent_plan =
  pl_countSql :: string
  pl_sampleSql :: string
  pl_values :: "string list"

definition buildRowAbsentSqlPlan :: "dialect \<Rightarrow> absent_request \<Rightarrow> absent_plan" where
  "buildRowAbsentSqlPlan d req =
     (let tbl = tableExprForRowDialect d (aq_table req);
          pairs = aq_identityEq req @ aq_filterEq req;
          whereClause = join '' AND '' (eq_conds d (nextPlaceholderSqlRow d) tbl 1 pairs);
          projCols = sorted_set (map ip_column pairs);
          selectList = join '', '' (map (\<lambda>c. tbl @ ''.'' @ quoteIdent d c) projCols)
      in \<lparr>pl_countSql = ''SELECT COUNT(*) AS v FROM '' @ tbl @ '' WHERE '' @ whereClause,
          pl_sampleSql = ''SELECT '' @ selectList @ '' FROM '' @ tbl @ '' WHERE '' @ whereClause
             @ '' LIMIT '' @ nat_str MAX_VERIFICATION_SAMPLE_ROWS,
          pl_values = map ip_value pairs\<rparr>)"

section \<open>Relational queries\<close>

definition rel_conds :: "dialect \<Rightarrow> string \<Rightarrow> nat \<Rightarrow> identity_pair list \<Rightarrow> string list" where
  "rel_conds d tbl n ps = eq_conds d (nextPlaceholderRelational d) tbl n ps"

definition related_exists_sql :: "dialect \<Rightarrow> related_exists_check \<Rightarrow> string \<times> string list" where
  "related_exists_sql d c =
     (let t = quoteIdent d (rx_childTable c)
      in (''SELECT EXISTS (SELECT 1 FROM '' @ t @ '' WHERE ''
            @ join '' AND '' (rel_conds d t 1 (rx_matchEq c)) @ '' LIMIT 1) AS v'',
          map ip_value (rx_matchEq c)))"

text \<open>The tables, the join condition and the filter of an anti-join, shared by the count and the sample.\<close>

definition anti_join_from_where :: "dialect \<Rightarrow> anti_join_check \<Rightarrow> string" where
  "anti_join_from_where d c =
     (let condsOn = (''A.'' @ quoteIdent d (aj_anchorColumn c) @ '' = L.'' @ quoteIdent d (aj_lookupColumn c))
            # rel_conds d ''L'' 1 (aj_filterEqLookup c);
          whereParts = (''L.'' @ quoteIdent d (aj_lookupPresenceColumn c) @ '' IS NULL'')
            # rel_conds d ''A'' (Suc (length (aj_filterEqLookup c))) (aj_filterEqAnchor c)
      in '' FROM '' @ quoteIdent d (aj_anchorTable c) @ '' AS A LEFT JOIN ''
         @ quoteIdent d (aj_lookupTable c) @ '' AS L ON '' @ join '' AND '' condsOn
         @ '' WHERE '' @ join '' AND '' whereParts)"

definition anti_join_values :: "anti_join_check \<Rightarrow> string list" where
  "anti_join_values c = map ip_value (aj_filterEqLookup c @ aj_filterEqAnchor c)"

definition anti_join_sql :: "dialect \<Rightarrow> anti_join_check \<Rightarrow> string \<times> string list" where
  "anti_join_sql d c = (''SELECT COUNT(*) AS v'' @ anti_join_from_where d c, anti_join_values c)"

definition buildAntiJoinSampleSql :: "dialect \<Rightarrow> anti_join_check \<Rightarrow> string \<times> string list" where
  "buildAntiJoinSampleSql d c =
     (let proj = sorted_set (aj_anchorColumn c # map ip_column (aj_filterEqAnchor c))
      in (''SELECT '' @ join '', '' (map (\<lambda>x. ''A.'' @ quoteIdent d x) proj)
            @ anti_join_from_where d c @ '' LIMIT '' @ nat_str MAX_VERIFICATION_SAMPLE_ROWS,
          anti_join_values c))"

definition where_suffix :: "string list \<Rightarrow> string" where
  "where_suffix conds = (if conds = [] then '''' else '' WHERE '' @ join '' AND '' conds)"

definition aggregate_sql :: "dialect \<Rightarrow> aggregate_check \<Rightarrow> js_error + (string \<times> string list)" where
  "aggregate_sql d c =
     (let tbl = quoteIdent d (ag_table c);
          conds = rel_conds d tbl 1 (ag_whereEq c);
          vals = map ip_value (ag_whereEq c)
      in case ag_fn c of
           AggCountStar \<Rightarrow> Inr (''SELECT COUNT(*) AS v FROM '' @ tbl @ where_suffix conds, vals)
         | AggSum \<Rightarrow>
             (case ag_sumColumn c of
                None \<Rightarrow> Inl (JsError ''SUM requires sumColumn'')
              | Some col \<Rightarrow>
                  if col = [] then Inl (JsError ''SUM requires sumColumn'')
                  else Inr (''SELECT COALESCE(SUM('' @ quoteIdent d col @ ''), 0) AS v FROM '' @ tbl
                              @ where_suffix conds, vals)))"

definition side_alias :: "table_side \<Rightarrow> string" where
  "side_alias s = (case s of SideLeft \<Rightarrow> ''L'' | SideRight \<Rightarrow> ''R'')"

definition join_count_sql :: "dialect \<Rightarrow> join_count_check \<Rightarrow> string \<times> string list" where
  "join_count_sql d c =
     (let base = ''SELECT COUNT(*) AS v FROM '' @ quoteIdent d (jc_leftTable c) @ '' AS L INNER JOIN ''
            @ quoteIdent d (jc_rightTable c) @ '' AS R ON L.'' @ quoteIdent d (jc_leftJoinColumn c)
            @ '' = R.'' @ quoteIdent d (jc_rightJoinColumn c);
          conds = map (\<lambda>(i, s, p). side_alias s @ ''.'' @ quoteIdent d (ip_column p) @ '' = ''
                     @ nextPlaceholderRelational d i) (List.enumerate 1 (jc_whereEq c))
      in (base @ where_suffix conds, map (ip_value \<circ> snd) (jc_whereEq c)))"

fun buildRelationalScalarSql ::
  "dialect \<Rightarrow> relational_check \<Rightarrow> js_error + (string \<times> string list)" where
  "buildRelationalScalarSql d (RelatedExists c) = Inr (related_exists_sql d c)"
| "buildRelationalScalarSql d (AntiJoin c) = Inr (anti_join_sql d c)"
| "buildRelationalScalarSql d (Aggregate c) = aggregate_sql d c"
| "buildRelationalScalarSql d (JoinCount c) = Inr (join_count_sql d c)"

definition buildRelatedExistsSql :: "dialect \<Rightarrow> string \<Rightarrow> string \<Rightarrow> string" where
  "buildRelatedExistsSql d childTable fkColumn =
     fst (related_exists_sql d \<lparr>rx_id = ''_'', rx_childTable = childTable,
            rx_matchEq = [\<lparr>ip_column = fkColumn, ip_value = ''_''\<rparr>]\<rparr>)"

section \<open>Quoting identifiers\<close>

lemma double_char_simps [simp]:
  "double_char q [] = []"
  "double_char q (c # s) = (if c = q then [q, q] else [c]) @ double_char q s"
  by (simp_all add: double_char_def)

lemma quoteIdent_plain: "IDENT i \<Longrightarrow> quoteIdent d i = open_quote d # i @ [close_quote d]"
proof -
  assume "IDENT i"
  then have "\<forall>c \<in> set i. ident_start c \<or> is_digit c"
    by (cases i) (auto simp: IDENT_def list_all_iff)
  moreover have "\<not> ident_start (close_quote d) \<and> \<not> is_digit (close_quote d)"
    by (cases d) (simp_all add: ident_start_def is_digit_def Let_def)
  ultimately have "close_quote d \<notin> set i" by auto
  then have "double_char (close_quote d) i = i" by (induction i) auto
  then show ?thesis by (simp add: quoteIdent_def)
qed

text \<open>
  What the statements of a resolved request look like: an identifier stands between the quotes of the
  dialect as it is, and values are placeholders. An identifier that resolves is not empty and has letters,
  digits and underscores only, so no quote of any dialect and no backslash.
\<close>

definition delimited :: "dialect \<Rightarrow> string \<Rightarrow> string" where
  "delimited d i = open_quote d # i @ [close_quote d]"

definition verbatim :: "string \<Rightarrow> bool" where
  "verbatim i \<longleftrightarrow> i \<noteq> [] \<and> list_all (\<lambda>c. ident_start c \<or> is_digit c) i
     \<and> set i \<inter> {CHR 0x22, CHR 0x27, CHR 0x5B, CHR 0x5C, CHR 0x5D, CHR 0x60} = {}"

definition row_conditions :: "dialect \<Rightarrow> string \<Rightarrow> identity_pair list \<Rightarrow> string" where
  "row_conditions d table ps = join '' AND '' (map (\<lambda>(n, p).
     delimited d table @ ''.'' @ delimited d (ip_column p) @ '' = '' @ nextPlaceholderSqlRow d n) (enumerate 1 ps))"

definition row_quoted :: "dialect \<Rightarrow> row_request \<Rightarrow> string \<times> string list \<Rightarrow> bool" where
  "row_quoted d r statement \<longleftrightarrow> list_all verbatim (rq_table r # map ip_column (rq_identityEq r))
     \<and> statement =
         (''SELECT * FROM '' @ delimited d (rq_table r) @ '' WHERE '' @ row_conditions d (rq_table r) (rq_identityEq r) @ '' LIMIT 2'',
          map ip_value (rq_identityEq r))"

definition absence_quoted :: "dialect \<Rightarrow> absent_request \<Rightarrow> bool" where
  "absence_quoted d a \<longleftrightarrow> (let ps = aq_identityEq a @ aq_filterEq a; t = delimited d (aq_table a) in
     list_all verbatim (aq_table a # map ip_column ps)
     \<and> buildRowAbsentSqlPlan d a =
         \<lparr>pl_countSql = ''SELECT COUNT(*) AS v FROM '' @ t @ '' WHERE '' @ row_conditions d (aq_table a) ps,
          pl_sampleSql = ''SELECT '' @ join '', '' (map (\<lambda>c. t @ ''.'' @ delimited d c) (sorted_set (map ip_column ps)))
            @ '' FROM '' @ t @ '' WHERE '' @ row_conditions d (aq_table a) ps @ '' LIMIT 3'',
          pl_values = map ip_value ps\<rparr>)"

lemma ident_verbatim: "IDENT i \<Longrightarrow> verbatim i"
proof -
  assume "IDENT i"
  then have word: "\<forall>c \<in> set i. ident_start c \<or> is_digit c" and "i \<noteq> []"
    by (cases i; auto simp: IDENT_def list_all_iff)+
  moreover have "\<not> ident_start c \<and> \<not> is_digit c" if "c \<in> {CHR 0x22, CHR 0x27, CHR 0x5B, CHR 0x5C, CHR 0x5D, CHR 0x60}" for c
    using that by (auto simp: ident_start_def is_digit_def Let_def)
  ultimately show ?thesis unfolding verbatim_def list_all_iff by blast
qed

lemma ident_delimited: "IDENT i \<Longrightarrow> quoteIdent d i = delimited d i"
  by (simp add: quoteIdent_plain delimited_def)

text \<open>A table name without a dot is one part on BigQuery.\<close>

lemma bigquery_table: "IDENT i \<Longrightarrow> tableExprForRowDialect d i = delimited d i"
proof (cases "d = Bigquery")
  case True
  assume i: "IDENT i"
  then have dot: "CHR ''.'' \<notin> set i" and ne: "i \<noteq> []"
    by (cases i; auto simp: IDENT_def list_all_iff ident_start_def is_digit_def Let_def)+
  have split: "split_on c s = [s]" if "c \<notin> set s" for c s
    using that by (induction s) auto
  show ?thesis
    using ident_delimited [OF i, of Bigquery] True ne split [OF dot]
    by (simp add: tableExprForRowDialect_def quoteBigQueryTableId_def quoteIdent_def)
qed (simp add: tableExprForRowDialect_def ident_delimited)

lemma eq_conds_delimited:
  "list_all (\<lambda>p. IDENT (ip_column p)) ps \<Longrightarrow>
     eq_conds d ph t n ps = map (\<lambda>(i, p). t @ ''.'' @ delimited d (ip_column p) @ '' = '' @ ph i) (enumerate n ps)"
  by (induction ps arbitrary: n) (simp_all add: eq_conds_def ident_delimited)

lemma wf_row_quoted: "wf_row_request r \<Longrightarrow> row_quoted d r (buildSelectByIdentitySql d r)"
  by (auto simp: row_quoted_def wf_row_request_def wf_identity_def wf_columns_def buildSelectByIdentitySql_def Let_def
      row_conditions_def eq_conds_delimited ident_delimited ident_verbatim list_all_iff)

lemma wf_absence_quoted: "wf_absent_request a \<Longrightarrow> absence_quoted d a"
proof -
  assume a: "wf_absent_request a"
  then have cols: "list_all (\<lambda>p. IDENT (ip_column p)) (aq_identityEq a @ aq_filterEq a)" and t: "IDENT (aq_table a)"
    by (auto simp: wf_absent_request_def wf_identity_def wf_columns_def list_all_iff)
  have proj: "map (\<lambda>c. x @ CHR ''.'' # quoteIdent d c) (sorted_set (map ip_column (aq_identityEq a @ aq_filterEq a)))
      = map (\<lambda>c. x @ CHR ''.'' # delimited d c) (sorted_set (map ip_column (aq_identityEq a @ aq_filterEq a)))" for x
    using cols by (auto simp: sorted_set_def list_all_iff ident_delimited)
  have "nat_str MAX_VERIFICATION_SAMPLE_ROWS = ''3''" by code_simp
  with cols t show ?thesis
    by (auto simp: absence_quoted_def Let_def buildRowAbsentSqlPlan_def bigquery_table proj eq_conds_delimited [OF cols]
        row_conditions_def ident_verbatim list_all_iff simp del: map_append)
qed

section \<open>Texts do not depend on values\<close>

lemma eq_conds_columns:
  "map ip_column ps = map ip_column qs \<Longrightarrow> eq_conds d ph tbl n ps = eq_conds d ph tbl n qs"
proof (induction ps arbitrary: qs n)
  case Nil
  then show ?case by (simp add: eq_conds_def)
next
  case (Cons p ps)
  then obtain q qs' where qs: "qs = q # qs'" "ip_column p = ip_column q"
    and "map ip_column ps = map ip_column qs'"
    by (cases qs) auto
  with Cons.IH [of qs' "Suc n"] show ?case by (simp add: eq_conds_def)
qed

lemma length_eq_conds [simp]: "length (eq_conds d ph tbl n ps) = length ps"
  by (simp add: eq_conds_def)

text \<open>A well-formed check always has a query.\<close>

lemma wf_check_has_sql: "wf_check c \<Longrightarrow> \<exists>t vs. buildRelationalScalarSql d c = Inr (t, vs)"
proof (cases c)
  case (Aggregate a)
  moreover assume "wf_check c"
  ultimately show ?thesis
    by (cases "ag_fn a") (auto simp: aggregate_sql_def Let_def IDENT_def split: option.splits)
qed (auto simp: related_exists_sql_def anti_join_sql_def join_count_sql_def Let_def)

end
