(* ===== verification/ValueVerification.thy ===== *)
theory ValueVerification
  imports FailureCatalog
begin

text \<open>
  Comparing an expected scalar with a stored value (\<open>src/valueVerification.ts\<close>): the
  tolerant equality (booleans against 0/1, integers against \<open>BigInt\<close>, numbers against
  their JSON text, strings up to surrounding white space), and the display forms that a
  mismatch reports.
\<close>

fun canonicalVerificationDisplayForExpected :: "host \<Rightarrow> scalar \<Rightarrow> string" where
  "canonicalVerificationDisplayForExpected h SNull = ''null''"
| "canonicalVerificationDisplayForExpected h (SBool b) = (if b then ''true'' else ''false'')"
| "canonicalVerificationDisplayForExpected h (SNum n) = num_to_string h n"
| "canonicalVerificationDisplayForExpected h (SStr s) = json_quote s"

fun canonicalVerificationDisplayForActual :: "host \<Rightarrow> jsval \<Rightarrow> string" where
  "canonicalVerificationDisplayForActual h VNull = ''null''"
| "canonicalVerificationDisplayForActual h VUndef = ''null''"
| "canonicalVerificationDisplayForActual h (VBool b) = (if b then ''true'' else ''false'')"
| "canonicalVerificationDisplayForActual h (VNum n) = num_to_string h n"
| "canonicalVerificationDisplayForActual h (VStr s) = json_quote s"
| "canonicalVerificationDisplayForActual h (VBig i) = json_quote (int_str i)"
| "canonicalVerificationDisplayForActual h (VDate (Some t)) = json_quote (h_isoString h t)"
| "canonicalVerificationDisplayForActual h v = json_quote (js_to_string h v)"

datatype compare_result = CmpOk | CmpFail string string

definition cmp_fail :: "host \<Rightarrow> scalar \<Rightarrow> jsval \<Rightarrow> compare_result" where
  "cmp_fail h expected actual =
     CmpFail (canonicalVerificationDisplayForExpected h expected)
             (canonicalVerificationDisplayForActual h actual)"

definition SAFE_INTEGER_MAX :: int where
  "SAFE_INTEGER_MAX = 9007199254740991"

definition safe_integer :: "rat \<Rightarrow> bool" where
  "safe_integer q \<longleftrightarrow> rat_is_int q \<and> - of_int SAFE_INTEGER_MAX \<le> q \<and> q \<le> of_int SAFE_INTEGER_MAX"

fun bool_matches :: "bool \<Rightarrow> jsval \<Rightarrow> bool" where
  "bool_matches e (VBool a) = (a = e)"
| "bool_matches e (VNum (Fin q)) = ((e \<and> q = 1) \<or> (\<not> e \<and> q = 0))"
| "bool_matches e _ = False"

fun number_matches :: "host \<Rightarrow> rat \<Rightarrow> jsval \<Rightarrow> bool" where
  "number_matches h e (VNum (Fin a)) = (a = e)"
| "number_matches h e (VBig i) = (safe_integer e \<and> i = \<lfloor>e\<rfloor>)"
| "number_matches h e (VStr s) =
     (case h_jsonParse h (js_trim s) of
        Some (VNum (Fin p)) \<Rightarrow> p = e \<and> json_num h (Fin p) = json_num h (Fin e)
      | _ \<Rightarrow> False)"
| "number_matches h e _ = False"

fun string_matches :: "host \<Rightarrow> string \<Rightarrow> jsval \<Rightarrow> bool" where
  "string_matches h e (VStr a) = (js_trim a = e)"
| "string_matches h e (VNum (Fin q)) = (e = json_num h (Fin q))"
| "string_matches h e (VBool b) = (e = (if b then ''true'' else ''false''))"
| "string_matches h e (VDate (Some t)) = (e = h_isoString h t)"
| "string_matches h e _ = False"

definition verificationScalarsEqual :: "host \<Rightarrow> scalar \<Rightarrow> jsval \<Rightarrow> compare_result" where
  "verificationScalarsEqual h expected actual =
     (if expected = SNull then
        (if nullish actual then CmpOk else cmp_fail h expected actual)
      else if nullish actual then cmp_fail h expected actual
      else
        (case expected of
           SBool e \<Rightarrow> if bool_matches e actual then CmpOk else cmp_fail h expected actual
         | SNum (Fin e) \<Rightarrow> if number_matches h e actual then CmpOk else cmp_fail h expected actual
         | SStr s \<Rightarrow> if string_matches h (js_trim s) actual then CmpOk else cmp_fail h expected actual
         | _ \<Rightarrow> cmp_fail h expected actual))"

section \<open>What the comparison accepts\<close>

definition scalars_match :: "host \<Rightarrow> scalar \<Rightarrow> jsval \<Rightarrow> bool" where
  "scalars_match h e a \<longleftrightarrow> verificationScalarsEqual h e a = CmpOk"

lemma cmp_fail_not_ok [simp]: "cmp_fail h e a \<noteq> CmpOk"
  by (simp add: cmp_fail_def)

lemma scalars_equal_cases:
  "verificationScalarsEqual h e a = CmpOk \<or> verificationScalarsEqual h e a = cmp_fail h e a"
  by (auto simp: verificationScalarsEqual_def split: scalar.splits jsnum.splits)

lemma scalars_match_simps:
  "scalars_match h SNull a \<longleftrightarrow> nullish a"
  "scalars_match h (SBool b) a \<longleftrightarrow> bool_matches b a"
  "scalars_match h (SNum (Fin q)) a \<longleftrightarrow> number_matches h q a"
  "scalars_match h (SStr s) a \<longleftrightarrow> string_matches h (js_trim s) a"
  "\<not> num_is_finite n \<Longrightarrow> \<not> scalars_match h (SNum n) a"
  by (auto simp: scalars_match_def verificationScalarsEqual_def nullish_def split: jsnum.splits)

lemma dropWhile_ws_pad: "list_all is_ws p \<Longrightarrow> dropWhile is_ws (p @ s) = dropWhile is_ws s"
  by (induction p) simp_all

lemma dropWhile_all_ws: "list_all is_ws p \<Longrightarrow> dropWhile is_ws p = []"
  by (induction p) simp_all

lemma dropWhile_append_stop:
  "\<not> list_all P s \<Longrightarrow> dropWhile P (s @ q) = dropWhile P s @ q"
  by (induction s) auto

lemma js_trim_pad:
  assumes "list_all is_ws p" and "list_all is_ws q"
  shows "js_trim (p @ s @ q) = js_trim s"
proof (cases "list_all is_ws s")
  case True
  with assms show ?thesis
    by (simp add: js_trim_def dropWhile_ws_pad dropWhile_all_ws)
next
  case False
  then have "dropWhile is_ws (s @ q) = dropWhile is_ws s @ q"
    by (rule dropWhile_append_stop)
  with assms show ?thesis
    by (simp add: js_trim_def dropWhile_ws_pad rev_append list_all_iff)
qed

lemma dropWhile_idem: "dropWhile P (dropWhile P s) = dropWhile P s"
  by (induction s) auto

lemma js_trim_idem: "js_trim (js_trim s) = js_trim s"
proof -
  let ?d = "dropWhile is_ws s"
  have "dropWhile is_ws (rev (dropWhile is_ws (rev ?d))) = rev (dropWhile is_ws (rev ?d))"
  proof (cases "rev (dropWhile is_ws (rev ?d))")
    case Nil
    show ?thesis unfolding Nil by simp
  next
    case (Cons c r)
    obtain p where "rev ?d = p @ dropWhile is_ws (rev ?d)"
      by (metis takeWhile_dropWhile_id)
    then have d: "?d = rev (dropWhile is_ws (rev ?d)) @ rev p"
      by (metis rev_append rev_rev_ident)
    with Cons have "?d = c # r @ rev p" by simp
    then have "\<not> is_ws c"
      by (metis hd_dropWhile list.distinct(1) list.sel(1))
    with Cons show ?thesis by simp
  qed
  then show ?thesis
    by (simp add: js_trim_def dropWhile_idem)
qed

lemma scalars_match_string_pad:
  "list_all is_ws p \<Longrightarrow> list_all is_ws q \<Longrightarrow>
     scalars_match h (SStr (p @ s @ q)) a = scalars_match h (SStr s) a"
  by (simp add: scalars_match_simps js_trim_pad)

lemma scalars_match_string_actual_pad:
  "list_all is_ws p \<Longrightarrow> list_all is_ws q \<Longrightarrow>
     scalars_match h (SStr s) (VStr (p @ t @ q)) = scalars_match h (SStr s) (VStr t)"
  by (simp add: scalars_match_simps js_trim_pad)

text \<open>A scalar always matches its own stored form, but for \<open>NaN\<close> and the infinities.\<close>

lemma scalars_match_refl:
  "scalars_match h e (scalar_val e) \<longleftrightarrow> (\<forall>n. e = SNum n \<longrightarrow> num_is_finite n)"
proof (cases e)
  case (SNum n)
  then show ?thesis by (cases n) (auto simp: scalars_match_simps)
qed (simp_all add: scalars_match_simps)

end
