(* ===== verification/Diagnostics.thy ===== *)
theory Diagnostics
  imports ResolveExpectation
begin

text \<open>
  The classification of a failed step (\<open>src/verificationDiagnostics.ts\<close>), the one-line
  summary of what a step verified, the message for a run without steps
  (\<open>src/noStepsMessage.ts\<close>) and the consistency check of a stored run's codes
  (\<open>src/workflowRunLevelConsistency.ts\<close>).
\<close>

section \<open>Failure diagnostics\<close>

definition RECONCILER_INCOMPLETE_VERIFICATION_CODES :: "string list" where
  "RECONCILER_INCOMPLETE_VERIFICATION_CODES =
     [''CONNECTOR_ERROR'', ''ROW_SHAPE_MISMATCH'', ''UNREADABLE_VALUE'']"

definition EVENT_SEQUENCE_CODES :: "string list" where
  "EVENT_SEQUENCE_CODES = [CAPTURE_ORDER_CODE, TIMESTAMP_NOT_MONOTONIC_CODE]"

definition failureDiagnosticForRunLevelCode :: "string \<Rightarrow> failure_diagnostic" where
  "failureDiagnosticForRunLevelCode c = WorkflowExecution"

definition failureDiagnosticForEventSequenceCode :: "string \<Rightarrow> js_error + failure_diagnostic" where
  "failureDiagnosticForEventSequenceCode c =
     (if c \<in> set EVENT_SEQUENCE_CODES then Inr WorkflowExecution
      else Inl (JsError (''Unknown event-sequence reason code for failure diagnostic map: '' @ c)))"

definition setup_codes :: "string list" where
  "setup_codes = [''CONNECTOR_ERROR'', ''ROW_SHAPE_MISMATCH'', ''UNREADABLE_VALUE'',
     ''RELATIONAL_SCALAR_UNUSABLE'']"

definition witness_setup_codes :: "string list" where
  "witness_setup_codes = [''STATE_WITNESS_UNAVAILABLE_IN_SQLITE_FILE_MODE'', ''STATE_WITNESS_SETUP_ERROR'',
     ''VECTOR_PROVIDER_ERROR'', ''HTTP_WITNESS_NETWORK_ERROR'']"

definition failureDiagnosticForIncompleteVerification ::
  "reason list \<Rightarrow> js_error + failure_diagnostic" where
  "failureDiagnosticForIncompleteVerification reasons =
     (let C = map rs_code reasons; has = (\<lambda>cs. list_ex (\<lambda>c. c \<in> set cs) C)
      in if has [''RETRY_OBSERVATIONS_DIVERGE''] then Inr WorkflowExecution
         else if has [''MULTI_EFFECT_INCOMPLETE''] then Inr VerificationSetup
         else if has [''UNKNOWN_TOOL''] then Inr VerificationSetup
         else if has RESOLVE_FAILURE_CODES then Inr VerificationSetup
         else if has setup_codes then Inr VerificationSetup
         else if has witness_setup_codes then Inr VerificationSetup
         else Inl (JsError (''Unreachable incomplete_verification classification; add mapping for codes: ''
                @ join '', '' (js_sort compareUtf16Id (remdups C)))))"

fun failureDiagnosticForStep :: "step_status \<Rightarrow> reason list \<Rightarrow> js_error + failure_diagnostic option" where
  "failureDiagnosticForStep Verified reasons = Inr None"
| "failureDiagnosticForStep Uncertain reasons = Inr (Some ObservationUncertainty)"
| "failureDiagnosticForStep Missing reasons = Inr (Some WorkflowExecution)"
| "failureDiagnosticForStep Inconsistent reasons = Inr (Some WorkflowExecution)"
| "failureDiagnosticForStep PartiallyVerified reasons = Inr (Some WorkflowExecution)"
| "failureDiagnosticForStep IncompleteVerification reasons =
     throws_bind (failureDiagnosticForIncompleteVerification reasons) (\<lambda>d. Inr (Some d))"

definition withFailureDiagnostic :: "step_outcome \<Rightarrow> js_error + step_outcome" where
  "withFailureDiagnostic step =
     throws_bind (failureDiagnosticForStep (so_status step) (so_reasons step)) (\<lambda>fd.
       Inr (if so_status step = Verified then step\<lparr>so_failureDiagnostic := None\<rparr>
            else step\<lparr>so_failureDiagnostic := fd\<rparr>))"

definition stripFailureDiagnostic :: "step_outcome \<Rightarrow> step_outcome" where
  "stripFailureDiagnostic step = step\<lparr>so_failureDiagnostic := None\<rparr>"

definition enrichStepsWithFailureDiagnostics :: "step_outcome list \<Rightarrow> js_error + step_outcome list" where
  "enrichStepsWithFailureDiagnostics steps =
     throws_map (\<lambda>s. withFailureDiagnostic (stripFailureDiagnostic s)) steps"

section \<open>One-line summaries\<close>

text \<open>\<open>value.replace(/\r\n|\r|\n/g, c)\<close>: a pair CR LF is one line break.\<close>

fun replace_breaks :: "char \<Rightarrow> string \<Rightarrow> string" where
  "replace_breaks c (a # b # s) =
     (if (of_char a :: nat) = 13 \<and> (of_char b :: nat) = 10 then c # replace_breaks c s
      else if (of_char a :: nat) = 13 \<or> (of_char a :: nat) = 10 then c # replace_breaks c (b # s)
      else a # replace_breaks c (b # s))"
| "replace_breaks c [a] = (if (of_char a :: nat) = 13 \<or> (of_char a :: nat) = 10 then [c] else [a])"
| "replace_breaks c [] = []"

definition line_breaks_to_blank :: "string \<Rightarrow> string" where
  "line_breaks_to_blank = replace_breaks (CHR '' '')"

definition sanitizeOneLine :: "string \<Rightarrow> string" where
  "sanitizeOneLine v = formatOperationalMessage (js_trim (collapse_blanks (line_breaks_to_blank v)))"

definition fieldNamesSorted :: "host \<Rightarrow> (string \<times> scalar) list \<Rightarrow> string" where
  "fieldNamesSorted h fs = join '', '' (js_sort (h_localeCompare h) (map fst fs))"

definition identityEqOneLine :: "identity_pair list \<Rightarrow> string" where
  "identityEqOneLine ps =
     join '', '' (map (\<lambda>p. sanitizeOneLine (ip_column p) @ ''='' @ sanitizeOneLine (ip_value p))
       (js_sort (\<lambda>a b. compareUtf16Id (ip_column a) (ip_column b)) ps))"

definition check_summary :: "relational_check \<Rightarrow> string" where
  "check_summary c = check_id c @ '':'' @ sanitizeOneLine (check_kind c)
     @ (case c of RelatedExists x \<Rightarrow>
          if length (rx_matchEq x) > 1 then '':m'' @ nat_str (length (rx_matchEq x)) else ''''
        | _ \<Rightarrow> '''')"

fun provider_text :: "vector_provider \<Rightarrow> string" where
  "provider_text Pinecone = ''pinecone''"
| "provider_text Weaviate = ''weaviate''"
| "provider_text Chroma = ''chroma''"

fun method_text :: "http_method \<Rightarrow> string" where
  "method_text GET = ''GET''"
| "method_text POST = ''POST''"

fun witness_summary :: "host \<Rightarrow> witness_request \<Rightarrow> string" where
  "witness_summary h (WVector r) =
     ''vector_document provider='' @ provider_text (vq_provider r) @ '' index=''
       @ sanitizeOneLine (vq_indexName r) @ '' id='' @ sanitizeOneLine (vq_documentId r)"
| "witness_summary h (WObject r) =
     ''object_storage bucket='' @ sanitizeOneLine (oq_bucket r) @ '' key='' @ sanitizeOneLine (oq_key r)"
| "witness_summary h (WHttp r) =
     ''http_witness '' @ method_text (hq_method r) @ '' '' @ sanitizeOneLine (hq_url r) @ '' expect=''
       @ num_to_string h (hq_expectedStatus r)"
| "witness_summary h (WMongo r) = ''mongo_document collection='' @ sanitizeOneLine (mq_collection r)"

fun formatVerificationTargetSummary :: "host \<Rightarrow> step_request option \<Rightarrow> string option" where
  "formatVerificationTargetSummary h None = None"
| "formatVerificationTargetSummary h (Some (QSqlRow r)) =
     Some (formatOperationalMessage (''table='' @ sanitizeOneLine (rq_table r) @ '' identity=[''
       @ identityEqOneLine (rq_identityEq r) @ ''] required_fields=['' @ fieldNamesSorted h (rq_requiredFields r) @ '']''))"
| "formatVerificationTargetSummary h (Some (QSqlRowAbsent r)) =
     Some (formatOperationalMessage (''sql_row_absent table='' @ sanitizeOneLine (aq_table r) @ '' identity=[''
       @ identityEqOneLine (aq_identityEq r) @ ''] filter=['' @ identityEqOneLine (aq_filterEq r) @ '']''))"
| "formatVerificationTargetSummary h (Some (QSqlRelational cs)) =
     Some (truncate_message (''sql_relational count='' @ nat_str (length cs) @ '' ''
       @ join ''; '' (map check_summary (js_sort (\<lambda>a b. compareUtf16Id (check_id a) (check_id b)) cs))))"
| "formatVerificationTargetSummary h (Some (QSqlEffects es)) =
     Some (truncate_message (''sql_effects count='' @ nat_str (length es) @ '' ''
       @ join ''; '' (map (\<lambda>e. ef_id e @ '':'' @ sanitizeOneLine (rq_table (ef_request e)) @ '' identity=[''
             @ identityEqOneLine (rq_identityEq (ef_request e)) @ '']'')
           (js_sort (\<lambda>a b. compareUtf16Id (ef_id a) (ef_id b)) es))))"
| "formatVerificationTargetSummary h (Some (QWitness w)) = Some (formatOperationalMessage (witness_summary h w))"

section \<open>Runs without steps\<close>

definition formatNoStepsForWorkflowMessage :: "string \<Rightarrow> event_file_counts \<Rightarrow> string" where
  "formatNoStepsForWorkflowMessage workflowId c =
     ''No tool_observed events for workflowId '' @ json_quote workflowId
     @ '' after filtering. event_file_non_empty_lines='' @ nat_str (ec_nonEmptyLines c)
     @ '' schema_valid_events='' @ nat_str (ec_schemaValidEvents c)
     @ '' tool_observed_for_workflow='' @ nat_str (ec_toolObservedRequested c)
     @ '' tool_observed_other_workflows='' @ nat_str (ec_toolObservedOther c) @ ''.''"

definition enrichNoStepsRunLevelReasons ::
  "string \<Rightarrow> reason list \<Rightarrow> event_file_counts \<Rightarrow> reason list" where
  "enrichNoStepsRunLevelReasons workflowId reasons c =
     map (\<lambda>r. if rs_code r = ''NO_STEPS_FOR_WORKFLOW''
              then r\<lparr>rs_message := formatNoStepsForWorkflowMessage workflowId c\<rparr> else r) reasons"

section \<open>Stored runs\<close>

definition isV9RunLevelCodesInconsistent :: "jsval \<Rightarrow> bool" where
  "isV9RunLevelCodesInconsistent v =
     (if \<not> is_object v then False
      else if get_prop v ''schemaVersion'' \<noteq> VInt 9 then False
      else (case (get_prop v ''runLevelCodes'', get_prop v ''runLevelReasons'') of
          (VArr rc, VArr rr) \<Rightarrow>
            length rc \<noteq> length rr \<or>
            \<not> list_all2 (\<lambda>c item. is_object item
                 \<and> (case c of VStr s \<Rightarrow> get_prop item ''code'' = VStr s | _ \<Rightarrow> False)) rc rr
        | _ \<Rightarrow> True))"

section \<open>Facts\<close>

text \<open>The codes with which a single check can be incomplete.\<close>

definition INCOMPLETE_CODES :: "string list" where
  "INCOMPLETE_CODES = setup_codes @ witness_setup_codes"

lemma incomplete_codes_member [simp]:
  "''CONNECTOR_ERROR'' \<in> set INCOMPLETE_CODES" "''ROW_SHAPE_MISMATCH'' \<in> set INCOMPLETE_CODES"
  "''UNREADABLE_VALUE'' \<in> set INCOMPLETE_CODES" "''RELATIONAL_SCALAR_UNUSABLE'' \<in> set INCOMPLETE_CODES"
  "''STATE_WITNESS_UNAVAILABLE_IN_SQLITE_FILE_MODE'' \<in> set INCOMPLETE_CODES"
  "''STATE_WITNESS_SETUP_ERROR'' \<in> set INCOMPLETE_CODES" "''VECTOR_PROVIDER_ERROR'' \<in> set INCOMPLETE_CODES"
  "''HTTP_WITNESS_NETWORK_ERROR'' \<in> set INCOMPLETE_CODES"
  by (simp_all add: INCOMPLETE_CODES_def setup_codes_def witness_setup_codes_def)

text \<open>
  The codes a single check gives with each status, and those a whole step can have besides
  (rollups, polling windows).
\<close>

fun check_codes :: "step_status \<Rightarrow> string list" where
  "check_codes Missing =
     [''ROW_ABSENT'', ''RELATED_ROWS_ABSENT'', ''VECTOR_NOT_FOUND'', ''OBJECT_MISSING'',
      ''MONGO_DOCUMENT_MISSING'']"
| "check_codes Inconsistent =
     [''VALUE_MISMATCH'', ''DUPLICATE_ROWS'', ''ROW_PRESENT_WHEN_FORBIDDEN'', ''ORPHAN_ROW_DETECTED'',
      ''RELATIONAL_EXPECTATION_MISMATCH'', ''VECTOR_METADATA_MISMATCH'', ''OBJECT_SIZE_MISMATCH'',
      ''OBJECT_METADATA_MISMATCH'', ''OBJECT_DIGEST_MISMATCH'', ''OBJECT_TOO_LARGE_FOR_HASH'',
      ''MONGO_VALUE_MISMATCH'',
      ''HTTP_WITNESS_STATUS_MISMATCH'', ''HTTP_WITNESS_ASSERTION_MISMATCH'']"
| "check_codes IncompleteVerification = INCOMPLETE_CODES"
| "check_codes _ = []"

fun rollup_codes :: "step_status \<Rightarrow> string list" where
  "rollup_codes Inconsistent = [''MULTI_EFFECT_ALL_FAILED'']"
| "rollup_codes PartiallyVerified = [''MULTI_EFFECT_PARTIAL'']"
| "rollup_codes IncompleteVerification = [''MULTI_EFFECT_INCOMPLETE'']"
| "rollup_codes Uncertain =
     [''ROW_NOT_OBSERVED_WITHIN_WINDOW'', ''FORBIDDEN_ROWS_STILL_PRESENT_WITHIN_WINDOW'',
      ''MULTI_EFFECT_UNCERTAIN_WITHIN_WINDOW'']"
| "rollup_codes _ = []"

lemma failureDiagnosticForStep_total:
  assumes "s = IncompleteVerification \<Longrightarrow>
    \<exists>r \<in> set rs. rs_code r \<in> set (''RETRY_OBSERVATIONS_DIVERGE'' # ''MULTI_EFFECT_INCOMPLETE'' # ''UNKNOWN_TOOL''
      # RESOLVE_FAILURE_CODES @ INCOMPLETE_CODES)"
  shows "\<exists>d. failureDiagnosticForStep s rs = Inr d \<and> (d = None \<longleftrightarrow> s = Verified)"
proof (cases s)
  case IncompleteVerification
  then obtain r where "r \<in> set rs" and "rs_code r \<in> set (''RETRY_OBSERVATIONS_DIVERGE''
      # ''MULTI_EFFECT_INCOMPLETE'' # ''UNKNOWN_TOOL'' # RESOLVE_FAILURE_CODES @ INCOMPLETE_CODES)"
    using assms by blast
  then have "\<exists>d. failureDiagnosticForIncompleteVerification rs = Inr d"
    unfolding failureDiagnosticForIncompleteVerification_def Let_def list_ex_iff set_map INCOMPLETE_CODES_def
    by (auto simp del: set_simps) (auto | blast)+
  with IncompleteVerification show ?thesis by auto
qed simp_all

text \<open>A diagnostic is on every step that is not verified and on no other.\<close>

definition diagnosed :: "step_outcome \<Rightarrow> bool" where
  "diagnosed s \<longleftrightarrow> (so_failureDiagnostic s = None \<longleftrightarrow> so_status s = Verified)
     \<and> failureDiagnosticForStep (so_status s) (so_reasons s) = Inr (so_failureDiagnostic s)"

lemma withFailureDiagnostic_diagnosed:
  assumes "withFailureDiagnostic s = Inr s'"
  shows "diagnosed s'" and "s' = s\<lparr>so_failureDiagnostic := so_failureDiagnostic s'\<rparr>"
proof -
  obtain fd where fd: "failureDiagnosticForStep (so_status s) (so_reasons s) = Inr fd"
    and s': "s' = (if so_status s = Verified then s\<lparr>so_failureDiagnostic := None\<rparr>
            else s\<lparr>so_failureDiagnostic := fd\<rparr>)"
    using assms by (auto simp: withFailureDiagnostic_def throws_bind_Inr_iff)
  show "s' = s\<lparr>so_failureDiagnostic := so_failureDiagnostic s'\<rparr>"
    by (simp add: s')
  show "diagnosed s'"
    using fd by (cases "so_status s") (auto simp: diagnosed_def s' throws_bind_Inr_iff)
qed

lemma enrich_diagnosed:
  assumes "\<forall>s \<in> set steps. diagnosed s"
  shows "enrichStepsWithFailureDiagnostics steps = Inr steps"
proof -
  have one: "withFailureDiagnostic (stripFailureDiagnostic s) = Inr s" if "diagnosed s" for s
    using that by (auto simp: withFailureDiagnostic_def stripFailureDiagnostic_def diagnosed_def)
  show ?thesis
    using assms unfolding enrichStepsWithFailureDiagnostics_def throws_map_Inr_list_all2
    by (simp add: one list_all2_same)
qed

end
