(* ===== verification/Reconciler.thy ===== *)
theory Reconciler
  imports Effects SqlText ValueVerification Diagnostics
begin

text \<open>
  Deciding a single row check (\<open>src/reconciler.ts\<close>) from the rows a database returns:
  \<open>reconcileFromRows\<close> for a row that must exist with given values, and the absence check.
  The database is a parameter: a query function over the state of the outside.
\<close>

section \<open>Messages\<close>

definition pair_text :: "identity_pair \<Rightarrow> string" where
  "pair_text p = formatOperationalMessage (ip_column p) @ ''='' @ formatOperationalMessage (ip_value p)"

definition rowKeyContext :: "row_request \<Rightarrow> string" where
  "rowKeyContext req = ''table='' @ formatOperationalMessage (rq_table req) @ '' ''
     @ join '' '' (map pair_text (rq_identityEq req))"

definition absentKeyContext :: "absent_request \<Rightarrow> string" where
  "absentKeyContext req = ''table='' @ formatOperationalMessage (aq_table req)
     @ '' identity=['' @ join '' '' (map pair_text (aq_identityEq req)) @ '']''
     @ (if aq_filterEq req = [] then ''''
        else '' filter=['' @ join '' '' (map pair_text (aq_filterEq req)) @ '']'')"

definition mk_output :: "step_status \<Rightarrow> reason list \<Rightarrow> evidence \<Rightarrow> reconcile_output" where
  "mk_output s rs ev = \<lparr>ro_status = s, ro_reasons = rs, ro_evidence = ev\<rparr>"

lemma mk_output_sel [simp]:
  "ro_status (mk_output s rs ev) = s" "ro_reasons (mk_output s rs ev) = rs"
  "ro_evidence (mk_output s rs ev) = ev"
  by (simp_all add: mk_output_def)

section \<open>The rule table\<close>

fun is_date :: "jsval \<Rightarrow> bool" where
  "is_date (VDate _) = True"
| "is_date _ = False"

definition field_reason :: "string \<Rightarrow> string \<Rightarrow> string \<Rightarrow> reason" where
  "field_reason c m f = \<lparr>rs_code = c, rs_message = m, rs_field = Some f\<rparr>"

lemma field_reason_code [simp]: "rs_code (field_reason c m f) = c"
  by (simp add: field_reason_def)

text \<open>The loop over the required fields; the first that does not hold decides.\<close>

fun check_fields ::
  "host \<Rightarrow> string \<Rightarrow> row \<Rightarrow> (string \<times> scalar) list \<Rightarrow> reconcile_output" where
  "check_fields h ctx row [] = mk_output Verified [] [(''rowCount'', VInt 1)]"
| "check_fields h ctx row ((k, expectedVal) # fs) =
     (let col = toLowerCase k; actual = get_prop (VObj row) col
      in if \<not> has_prop row col then
           mk_output IncompleteVerification
             [mk_reason ''ROW_SHAPE_MISMATCH'' (''Column not in row: '' @ k @ '' ('' @ ctx @ '')'')]
             [(''rowCount'', VInt 1), (''rowKeys'', VArr (map (VStr \<circ> fst) row))]
         else if is_object actual \<and> \<not> is_date actual then
           mk_output IncompleteVerification
             [field_reason ''UNREADABLE_VALUE'' (''Non-scalar value for '' @ k @ '' ('' @ ctx @ '')'') k]
             [(''rowCount'', VInt 1), (''field'', VStr k)]
         else
           (case verificationScalarsEqual h expectedVal actual of
              CmpOk \<Rightarrow> check_fields h ctx row fs
            | CmpFail e a \<Rightarrow>
                mk_output Inconsistent
                  [field_reason ''VALUE_MISMATCH''
                     (''Expected '' @ e @ '' but found '' @ a @ '' for field '' @ k @ '' ('' @ ctx @ '')'') k]
                  [(''rowCount'', VInt 1), (''field'', VStr k), (''expected'', VStr e), (''actual'', VStr a)]))"

definition sort_fields :: "host \<Rightarrow> (string \<times> scalar) list \<Rightarrow> (string \<times> scalar) list" where
  "sort_fields h = js_sort (\<lambda>a b. h_localeCompare h (fst a) (fst b))"

definition reconcileFromRows :: "host \<Rightarrow> row list \<Rightarrow> row_request \<Rightarrow> reconcile_output" where
  "reconcileFromRows h rows req =
     (let ctx = rowKeyContext req
      in case rows of
           [] \<Rightarrow> mk_output Missing
                   [mk_reason ''ROW_ABSENT'' (''No row matched key ('' @ ctx @ '')'')]
                   [(''rowCount'', VInt 0)]
         | [row] \<Rightarrow> check_fields h ctx row (sort_fields h (rq_requiredFields req))
         | _ \<Rightarrow> mk_output Inconsistent
                   [mk_reason ''DUPLICATE_ROWS'' (''More than one row matched key ('' @ ctx @ '')'')]
                   [(''rowCount'', VInt (int (length rows)))])"

section \<open>Fetching\<close>

definition fetchRowsForVerification ::
  "'w sqlite_db \<Rightarrow> row_request \<Rightarrow> ('w, row list) io" where
  "fetchRowsForVerification db req =
     (case buildSelectByIdentitySqlSqlite req of (text, values) \<Rightarrow>
        io_catch (io_bind (db_all db text values) (\<lambda>rows. io_return (map lower_row rows)))
          (\<lambda>e. io_throw (ConnectorError (err_message e))))"

definition connector_output :: "string \<Rightarrow> evidence \<Rightarrow> reconcile_output" where
  "connector_output msg ev =
     mk_output IncompleteVerification [mk_reason ''CONNECTOR_ERROR'' (formatOperationalMessage msg)] ev"

definition catch_connector ::
  "('w, reconcile_output) io \<Rightarrow> ('w, reconcile_output) io" where
  "catch_connector m = io_catch m (\<lambda>e. case e of
       ConnectorError msg \<Rightarrow>
         io_return (connector_output msg [(''rowCount'', VNull), (''error'', VBool True)])
     | _ \<Rightarrow> io_throw e)"

definition reconcileSqlRow ::
  "host \<Rightarrow> 'w sqlite_db \<Rightarrow> row_request \<Rightarrow> ('w, reconcile_output) io" where
  "reconcileSqlRow h db req =
     catch_connector (io_bind (fetchRowsForVerification db req)
       (\<lambda>rows. io_return (reconcileFromRows h rows req)))"

text \<open>\<open>SqlReadBackend\<close>, and the one over a Postgres client (\<open>src/sqlReadBackend.ts\<close>).\<close>

record 'w sql_read_backend =
  sb_fetchRows :: "row_request \<Rightarrow> ('w, row list) io"
  sb_reconcileRowAbsent :: "absent_request \<Rightarrow> ('w, reconcile_output) io"

definition reconcileSqlRowAsync ::
  "host \<Rightarrow> 'w sql_read_backend \<Rightarrow> row_request \<Rightarrow> ('w, reconcile_output) io" where
  "reconcileSqlRowAsync h backend req =
     catch_connector (io_bind (sb_fetchRows backend req)
       (\<lambda>rows. io_return (reconcileFromRows h rows req)))"

section \<open>Absence\<close>

definition big_safe :: "int \<Rightarrow> bool" where
  "big_safe i \<longleftrightarrow> - SAFE_INTEGER_MAX \<le> i \<and> i \<le> SAFE_INTEGER_MAX"

fun normalizeCountV :: "jsval \<Rightarrow> jsnum option" where
  "normalizeCountV (VBig i) = (if big_safe i then Some (num_of_int i) else None)"
| "normalizeCountV (VNum n) = (if num_is_finite n then Some n else None)"
| "normalizeCountV _ = None"

text \<open>\<open>a ?? b\<close>.\<close>

definition js_coalesce :: "jsval \<Rightarrow> jsval \<Rightarrow> jsval" where
  "js_coalesce a b = (if nullish a then b else a)"

definition absent_unusable :: "absent_request \<Rightarrow> jsval \<Rightarrow> reconcile_output" where
  "absent_unusable req vRaw =
     mk_output IncompleteVerification
       [mk_reason ''RELATIONAL_SCALAR_UNUSABLE''
          (formatOperationalMessage (''Absent check: unusable count ('' @ absentKeyContext req @ '')''))]
       [(''rowCount'', VNull), (''raw'', vRaw)]"

definition absent_present ::
  "host \<Rightarrow> absent_request \<Rightarrow> jsnum \<Rightarrow> row list \<Rightarrow> reconcile_output" where
  "absent_present h req cnt sampleRows =
     mk_output Inconsistent
       [mk_reason ''ROW_PRESENT_WHEN_FORBIDDEN''
          (formatOperationalMessage (''Row present when forbidden ('' @ absentKeyContext req
             @ ''); matched '' @ num_to_string h cnt))]
       [(''matchedRowCount'', VNum cnt), (''sampleRows'', VArr (map VObj sampleRows))]"

text \<open>The body both executors share, from the count the first query gave.\<close>

definition absent_verdict ::
  "host \<Rightarrow> absent_request \<Rightarrow> jsval \<Rightarrow> ('w, row list) io \<Rightarrow> ('w, reconcile_output) io" where
  "absent_verdict h req vRaw sample =
     (case normalizeCountV vRaw of
        None \<Rightarrow> io_return (absent_unusable req vRaw)
      | Some cnt \<Rightarrow>
          if num_eq cnt (num_of_int 0)
          then io_return (mk_output Verified [] [(''matchedRowCount'', VInt 0)])
          else io_bind sample (\<lambda>rows. io_return (absent_present h req cnt (map lower_row rows))))"

definition catch_query ::
  "evidence \<Rightarrow> ('w, reconcile_output) io \<Rightarrow> ('w, reconcile_output) io" where
  "catch_query ev m = io_catch m (\<lambda>e. io_return (connector_output (err_message e) ev))"

definition reconcileSqlRowAbsent ::
  "host \<Rightarrow> 'w sqlite_db \<Rightarrow> absent_request \<Rightarrow> ('w, reconcile_output) io" where
  "reconcileSqlRowAbsent h db req =
     (let plan = buildRowAbsentSqlPlan Sqlite req
      in catch_query [(''error'', VBool True)]
           (io_bind (db_get db (pl_countSql plan) (pl_values plan)) (\<lambda>countRow.
              let vRaw = (case countRow of None \<Rightarrow> VUndef
                          | Some r \<Rightarrow> js_coalesce (get_prop (VObj r) ''v'') (get_prop (VObj r) ''V''))
              in absent_verdict h req vRaw (db_all db (pl_sampleSql plan) (pl_values plan)))))"

definition executeRowAbsentRemote ::
  "host \<Rightarrow> dialect \<Rightarrow> 'w query \<Rightarrow> absent_request \<Rightarrow> ('w, reconcile_output) io" where
  "executeRowAbsentRemote h d q req =
     (let plan = buildRowAbsentSqlPlan d req
      in catch_query [(''error'', VBool True)]
           (io_bind (q (pl_countSql plan) (pl_values plan)) (\<lambda>rows.
              let vRaw = (case rows of [] \<Rightarrow> VUndef | r # _ \<Rightarrow> get_prop (VObj (lower_row r)) ''v'')
              in absent_verdict h req vRaw (q (pl_sampleSql plan) (pl_values plan)))))"

definition executeRowAbsentPostgres ::
  "host \<Rightarrow> 'w query \<Rightarrow> absent_request \<Rightarrow> ('w, reconcile_output) io" where
  "executeRowAbsentPostgres h q req = executeRowAbsentRemote h Postgresql q req"

definition createPostgresSqlReadBackend :: "host \<Rightarrow> 'w query \<Rightarrow> 'w sql_read_backend" where
  "createPostgresSqlReadBackend h q =
     \<lparr>sb_fetchRows = (\<lambda>req. case buildSelectByIdentitySqlPostgres req of (text, values) \<Rightarrow>
        io_catch (io_bind (q text values) (\<lambda>rows. io_return (map lower_row rows)))
          (\<lambda>e. io_throw (ConnectorError (err_message e)))),
      sb_reconcileRowAbsent = executeRowAbsentPostgres h q\<rparr>"

section \<open>When a row is verified\<close>

text \<open>A required field holds of a row.\<close>

definition field_holds :: "host \<Rightarrow> row \<Rightarrow> string \<times> scalar \<Rightarrow> bool" where
  "field_holds h row f =
     (let col = toLowerCase (fst f); actual = get_prop (VObj row) col
      in has_prop row col \<and> \<not> (is_object actual \<and> \<not> is_date actual) \<and> scalars_match h (snd f) actual)"

lemma check_fields_verified:
  "ro_status (check_fields h ctx row fs) = Verified \<longleftrightarrow> list_all (field_holds h row) fs"
  by (induction h ctx row fs rule: check_fields.induct)
    (auto simp: field_holds_def scalars_match_def Let_def simp del: get_prop.simps split: compare_result.split)

lemma set_sort_fields [simp]: "set (sort_fields h fs) = set fs"
  by (simp add: sort_fields_def)

lemma reconcileFromRows_verified:
  "ro_status (reconcileFromRows h rows req) = Verified \<longleftrightarrow>
     (\<exists>row. rows = [row] \<and> list_all (field_holds h row) (rq_requiredFields req))"
  by (cases rows rule: remdups_adj.cases)
    (auto simp: reconcileFromRows_def check_fields_verified list_all_iff)

lemma check_fields_status:
  "ro_status (check_fields h ctx row fs) \<in> {Verified, Inconsistent, IncompleteVerification}"
  by (induction h ctx row fs rule: check_fields.induct)
    (auto simp: Let_def simp del: get_prop.simps split: compare_result.split)

lemma check_fields_reasons:
  "ro_reasons (check_fields h ctx row fs) = [] \<longleftrightarrow> ro_status (check_fields h ctx row fs) = Verified"
  by (induction h ctx row fs rule: check_fields.induct)
    (auto simp: Let_def simp del: get_prop.simps split: compare_result.split)

text \<open>
  Evidence is plain when what the reports quote of it (the compared field, both values, the row
  count) is no object, so that it has a text, when the effects it lists have the shape of
  effects, and when it is not the evidence of a plan transition.
\<close>

definition effect_shaped :: "jsval \<Rightarrow> bool" where
  "effect_shaped v \<longleftrightarrow> (\<exists>i s rs e. v = VObj [(''id'', VStr i), (''status'', VStr s),
     (''reasons'', VArr (map reason_val rs)), (''evidenceSummary'', VObj e)])"

fun plain_entry :: "string \<times> jsval \<Rightarrow> bool" where
  "plain_entry (k, v) \<longleftrightarrow> k \<noteq> ''planTransition''
     \<and> (k \<in> {''field'', ''expected'', ''actual'', ''rowCount''} \<longrightarrow> \<not> is_object v)
     \<and> (k = ''effects'' \<longrightarrow> (\<exists>rows. v = VArr rows \<and> list_all effect_shaped rows))"

definition plain_evidence :: "evidence \<Rightarrow> bool" where
  "plain_evidence = list_all plain_entry"

lemma plain_evidence_simps [simp]:
  "plain_evidence []" "plain_evidence (e # ev) \<longleftrightarrow> plain_entry e \<and> plain_evidence ev"
  "plain_evidence (ev @ ev') \<longleftrightarrow> plain_evidence ev \<and> plain_evidence ev'"
  by (simp_all add: plain_evidence_def)

text \<open>
  An output is coherent: reasons are listed exactly when it is not verified, at most one,
  their codes are those of its status, and its evidence is plain.
\<close>

definition coherent_output :: "reconcile_output \<Rightarrow> bool" where
  "coherent_output out \<longleftrightarrow>
     ro_status out \<in> {Verified, Missing, Inconsistent, IncompleteVerification}
     \<and> (ro_status out = Verified \<longleftrightarrow> ro_reasons out = []) \<and> length (ro_reasons out) \<le> 1
     \<and> list_all (\<lambda>r. rs_code r \<in> set (check_codes (ro_status out))) (ro_reasons out)
     \<and> plain_evidence (ro_evidence out)"

lemma coherent_mk_output [simp]:
  "coherent_output (mk_output s rs ev) \<longleftrightarrow>
     s \<in> {Verified, Missing, Inconsistent, IncompleteVerification} \<and> (s = Verified \<longleftrightarrow> rs = [])
     \<and> length rs \<le> 1
     \<and> list_all (\<lambda>r. rs_code r \<in> set (check_codes s)) rs \<and> plain_evidence ev"
  by (simp add: coherent_output_def)

lemma coherent_check_fields: "coherent_output (check_fields h ctx row fs)"
  by (induction h ctx row fs rule: check_fields.induct)
    (auto simp: Let_def simp del: get_prop.simps split: compare_result.split)

lemma coherent_reconcileFromRows: "coherent_output (reconcileFromRows h rows req)"
  by (cases rows rule: remdups_adj.cases) (simp_all add: reconcileFromRows_def coherent_check_fields)

lemma coherent_connector_output [simp]: "coherent_output (connector_output msg ev) \<longleftrightarrow> plain_evidence ev"
  by (simp add: connector_output_def)

section \<open>Every outcome is coherent, and every executor returns\<close>

lemma coherent_catch_query:
  "returns coherent_output m \<Longrightarrow> plain_evidence ev \<Longrightarrow> returns coherent_output (catch_query ev m)"
  by (simp add: catch_query_def returns_catch)

lemma never_throws_catch_query: "never_throws (catch_query ev m)"
  by (simp add: catch_query_def never_throws_catch)

lemma returns_absent_verdict: "returns coherent_output (absent_verdict h req vRaw sample)"
  by (auto simp: absent_verdict_def absent_unusable_def absent_present_def returns_bind
      split: option.split)

lemma returns_reconcileSqlRow: "returns coherent_output (reconcileSqlRow h db req)"
  unfolding reconcileSqlRow_def catch_connector_def
  by (rule returns_catch)
    (auto simp: coherent_reconcileFromRows intro!: returns_bind split: js_error.split)

lemma fetchRows_throws_connector:
  "fetchRowsForVerification db req w = (Inl e, w') \<Longrightarrow> \<exists>msg. e = ConnectorError msg"
  by (auto simp: fetchRowsForVerification_def io_catch_def split: prod.splits sum.splits)

lemma reconcileSqlRow_never_throws: "never_throws (reconcileSqlRow h db req)"
  unfolding never_throws_def
proof
  fix w
  obtain r w' where m: "fetchRowsForVerification db req w = (r, w')"
    by (cases "fetchRowsForVerification db req w")
  show "\<exists>x w'. reconcileSqlRow h db req w = (Inr x, w')"
    using m by (cases r)
      (auto simp: reconcileSqlRow_def catch_connector_def io_catch_def io_bind_def
        dest!: fetchRows_throws_connector)
qed

lemma reconcileSqlRowAbsent_total:
  "returns coherent_output (reconcileSqlRowAbsent h db req)"
  "never_throws (reconcileSqlRowAbsent h db req)"
  by (simp_all add: reconcileSqlRowAbsent_def Let_def coherent_catch_query returns_bind
      returns_absent_verdict never_throws_catch_query)

lemma executeRowAbsentRemote_total:
  "returns coherent_output (executeRowAbsentRemote h d q req)"
  "never_throws (executeRowAbsentRemote h d q req)"
  by (simp_all add: executeRowAbsentRemote_def Let_def coherent_catch_query returns_bind
      returns_absent_verdict never_throws_catch_query)

end
