(* ===== verification/RelationalInvariant.thy ===== *)
theory RelationalInvariant
  imports Reconciler
begin

text \<open>
  Relational checks (\<open>src/relationalInvariant.ts\<close>): a scalar query per check, the reading
  of its result, and, for an anti-join that found orphans, a sample of them.
\<close>

section \<open>Reading the scalar\<close>

fun normalizeNumericActual :: "jsval \<Rightarrow> jsnum option" where
  "normalizeNumericActual (VBool b) = Some (num_of_int (if b then 1 else 0))"
| "normalizeNumericActual (VNum n) = (if num_is_finite n then Some n else None)"
| "normalizeNumericActual (VBig i) = (if big_safe i then Some (num_of_int i) else None)"
| "normalizeNumericActual _ = None"

fun compareExpect :: "jsnum \<Rightarrow> expect_op \<Rightarrow> jsnum \<Rightarrow> bool" where
  "compareExpect actual OpEq expected = num_eq actual expected"
| "compareExpect actual OpGte expected = num_leq expected actual"
| "compareExpect actual OpLte expected = num_leq actual expected"

fun op_text :: "expect_op \<Rightarrow> string" where
  "op_text OpEq = ''eq''"
| "op_text OpGte = ''gte''"
| "op_text OpLte = ''lte''"

definition check_evidence :: "relational_check \<Rightarrow> evidence \<Rightarrow> evidence" where
  "check_evidence c ev =
     [(''checkId'', VStr (check_id c)), (''checkKind'', VStr (check_kind c))] @ ev"

definition rel_message :: "relational_check \<Rightarrow> string \<Rightarrow> string" where
  "rel_message c m = formatOperationalMessage (''Relational check '' @ check_id c @ '': '' @ m)"

definition rel_unusable :: "relational_check \<Rightarrow> string \<Rightarrow> evidence \<Rightarrow> reconcile_output" where
  "rel_unusable c m ev =
     mk_output IncompleteVerification [mk_reason ''RELATIONAL_SCALAR_UNUSABLE'' (rel_message c m)]
       (check_evidence c ev)"

definition related_exists_verdict :: "relational_check \<Rightarrow> jsval \<Rightarrow> reconcile_output" where
  "related_exists_verdict c vRaw =
     (let unusable = rel_unusable c ''EXISTS result not boolean/0/1'' [(''raw'', vRaw)]
      in case normalizeNumericActual vRaw of
           None \<Rightarrow> unusable
         | Some n \<Rightarrow>
             if \<not> num_eq n (num_of_int 0) \<and> \<not> num_eq n (num_of_int 1) then unusable
             else if num_eq n (num_of_int 1)
             then mk_output Verified [] (check_evidence c [(''v'', VInt 1)])
             else mk_output Missing
                    [mk_reason ''RELATED_ROWS_ABSENT'' (rel_message c ''related row does not exist'')]
                    (check_evidence c [(''v'', VInt 0)]))"

definition anti_join_verdict :: "host \<Rightarrow> relational_check \<Rightarrow> jsval \<Rightarrow> reconcile_output" where
  "anti_join_verdict h c vRaw =
     (case normalizeNumericActual vRaw of
        None \<Rightarrow> rel_unusable c ''non-numeric anti_join count'' [(''raw'', vRaw)]
      | Some n \<Rightarrow>
          if num_eq n (num_of_int 0)
          then mk_output Verified [] (check_evidence c [(''orphanRowCount'', VInt 0)])
          else mk_output Inconsistent
                 [mk_reason ''ORPHAN_ROW_DETECTED'' (rel_message c (num_to_string h n @ '' orphan row(s)''))]
                 (check_evidence c [(''orphanRowCount'', VNum n)]))"

definition expectation_verdict ::
  "host \<Rightarrow> relational_check \<Rightarrow> expect_op \<Rightarrow> jsnum \<Rightarrow> jsval \<Rightarrow> reconcile_output" where
  "expectation_verdict h c expectOp expectValue vRaw =
     (case normalizeNumericActual vRaw of
        None \<Rightarrow> rel_unusable c ''non-numeric aggregate result'' [(''raw'', vRaw)]
      | Some n \<Rightarrow>
          let ev = check_evidence c [(''actual'', VNum n), (''expected'', VNum expectValue),
                     (''op'', VStr (op_text expectOp))]
          in if compareExpect n expectOp expectValue then mk_output Verified [] ev
             else mk_output Inconsistent
                    [mk_reason ''RELATIONAL_EXPECTATION_MISMATCH''
                       (rel_message c (''expected '' @ op_text expectOp @ '' ''
                          @ num_to_string h expectValue @ '' but actual '' @ num_to_string h n))]
                    ev)"

definition reconcileRelationalRow ::
  "host \<Rightarrow> row option \<Rightarrow> relational_check \<Rightarrow> reconcile_output" where
  "reconcileRelationalRow h ro c =
     (case ro of
        None \<Rightarrow> rel_unusable c ''no result row'' []
      | Some r \<Rightarrow>
          let vRaw = js_coalesce (get_prop (VObj r) ''v'') (get_prop (VObj r) ''V'')
          in case c of
               RelatedExists _ \<Rightarrow> related_exists_verdict c vRaw
             | AntiJoin _ \<Rightarrow> anti_join_verdict h c vRaw
             | Aggregate a \<Rightarrow> expectation_verdict h c (ag_expectOp a) (ag_expectValue a) vRaw
             | JoinCount j \<Rightarrow> expectation_verdict h c (jc_expectOp j) (jc_expectValue j) vRaw)"

section \<open>Executing a check\<close>

definition mergeAntiJoinSamples :: "reconcile_output \<Rightarrow> row list \<Rightarrow> reconcile_output" where
  "mergeAntiJoinSamples base sampleRows =
     base\<lparr>ro_evidence := AList.update ''sampleRows'' (VArr (map VObj sampleRows)) (ro_evidence base)\<rparr>"

definition first_code :: "reason list \<Rightarrow> string option" where
  "first_code rs = (case rs of [] \<Rightarrow> None | r # _ \<Rightarrow> Some (rs_code r))"

text \<open>The sampling step: only an anti-join that reported orphans is sampled.\<close>

definition with_orphan_sample ::
  "dialect \<Rightarrow> 'w query \<Rightarrow> relational_check \<Rightarrow> reconcile_output \<Rightarrow> ('w, reconcile_output) io" where
  "with_orphan_sample d q c out =
     (case c of
        AntiJoin a \<Rightarrow>
          if ro_status out = Inconsistent \<and> first_code (ro_reasons out) = Some ''ORPHAN_ROW_DETECTED''
          then (case buildAntiJoinSampleSql d a of (st, sv) \<Rightarrow>
                  io_bind (q st sv) (\<lambda>rows. io_return (mergeAntiJoinSamples out (map lower_row rows))))
          else io_return out
      | _ \<Rightarrow> io_return out)"

text \<open>
  Both executors build the statement outside the \<open>try\<close>: an impossible check (a sum with no
  column) throws, a failing query is an incomplete verification.
\<close>

definition run_relational ::
  "host \<Rightarrow> dialect \<Rightarrow> (string \<Rightarrow> string list \<Rightarrow> ('w, row option) io) \<Rightarrow> 'w query \<Rightarrow>
     relational_check \<Rightarrow> ('w, reconcile_output) io" where
  "run_relational h d get q c =
     io_bind (io_lift (buildRelationalScalarSql d c)) (\<lambda>(text, values).
       catch_query (check_evidence c [(''error'', VBool True)])
         (io_bind (get text values) (\<lambda>ro.
            with_orphan_sample d q c (reconcileRelationalRow h (map_option lower_row ro) c))))"

definition reconcileRelationalSqlite ::
  "host \<Rightarrow> 'w sqlite_db \<Rightarrow> relational_check \<Rightarrow> ('w, reconcile_output) io" where
  "reconcileRelationalSqlite h db c = run_relational h Sqlite (db_get db) (db_all db) c"

definition first_row :: "'w query \<Rightarrow> string \<Rightarrow> string list \<Rightarrow> ('w, row option) io" where
  "first_row q text values = io_bind (q text values)
     (\<lambda>rows. io_return (case rows of [] \<Rightarrow> None | r # _ \<Rightarrow> Some r))"

definition reconcileRelationalQuery ::
  "host \<Rightarrow> dialect \<Rightarrow> 'w query \<Rightarrow> relational_check \<Rightarrow> ('w, reconcile_output) io" where
  "reconcileRelationalQuery h d q c = run_relational h d (first_row q) q c"

definition reconcileRelationalPostgres ::
  "host \<Rightarrow> 'w query \<Rightarrow> relational_check \<Rightarrow> ('w, reconcile_output) io" where
  "reconcileRelationalPostgres h q c = reconcileRelationalQuery h Postgresql q c"

definition reconcileRelationalMysql2 ::
  "host \<Rightarrow> 'w query \<Rightarrow> relational_check \<Rightarrow> ('w, reconcile_output) io" where
  "reconcileRelationalMysql2 h pool c = reconcileRelationalQuery h Mysql pool c"

section \<open>Verdicts\<close>

lemma plain_evidence_samples [simp]:
  "plain_evidence (AList.update ''sampleRows'' v ev) \<longleftrightarrow> plain_evidence ev"
  by (induction ev) auto

lemma plain_check_evidence [simp]: "plain_evidence (check_evidence c ev) \<longleftrightarrow> plain_evidence ev"
  by (simp add: check_evidence_def)

lemma coherent_reconcileRelationalRow: "coherent_output (reconcileRelationalRow h ro c)"
  by (auto simp: reconcileRelationalRow_def rel_unusable_def related_exists_verdict_def
      anti_join_verdict_def expectation_verdict_def Let_def split: option.split relational_check.split)

lemma mergeAntiJoinSamples_sel [simp]:
  "ro_status (mergeAntiJoinSamples b s) = ro_status b"
  "ro_reasons (mergeAntiJoinSamples b s) = ro_reasons b"
  "coherent_output (mergeAntiJoinSamples b s) = coherent_output b"
  by (simp_all add: mergeAntiJoinSamples_def coherent_output_def)

lemma returns_with_orphan_sample:
  "coherent_output out \<Longrightarrow> returns coherent_output (with_orphan_sample d q c out)"
  by (auto simp: with_orphan_sample_def returns_bind split: relational_check.split prod.split)

lemma returns_run_relational: "returns coherent_output (run_relational h d get q c)"
  unfolding run_relational_def
  by (rule returns_bind)
    (auto simp: coherent_catch_query returns_bind returns_with_orphan_sample
      coherent_reconcileRelationalRow)

text \<open>A well-formed check never throws.\<close>

lemma run_relational_never_throws:
  assumes "\<And>d. \<exists>t vs. buildRelationalScalarSql d c = Inr (t, vs)"
  shows "never_throws (run_relational h d get q c)"
proof -
  obtain t vs where "buildRelationalScalarSql d c = Inr (t, vs)" using assms by blast
  then show ?thesis
    using never_throws_catch_query
    by (simp add: run_relational_def io_bind_def never_throws_def)
qed

text \<open>What it takes for the row of each kind of check to be verified.\<close>

fun scalar_expected :: "relational_check \<Rightarrow> jsnum \<Rightarrow> bool" where
  "scalar_expected (RelatedExists _) n \<longleftrightarrow> num_eq n (num_of_int 1)"
| "scalar_expected (AntiJoin _) n \<longleftrightarrow> num_eq n (num_of_int 0)"
| "scalar_expected (Aggregate a) n \<longleftrightarrow> compareExpect n (ag_expectOp a) (ag_expectValue a)"
| "scalar_expected (JoinCount j) n \<longleftrightarrow> compareExpect n (jc_expectOp j) (jc_expectValue j)"

lemma reconcileRelationalRow_verified:
  "ro_status (reconcileRelationalRow h ro c) = Verified \<longleftrightarrow>
     (\<exists>r n. ro = Some r \<and> scalar_expected c n
        \<and> normalizeNumericActual (js_coalesce (get_prop (VObj r) ''v'') (get_prop (VObj r) ''V'')) = Some n)"
  by (cases c)
    (auto simp: reconcileRelationalRow_def rel_unusable_def related_exists_verdict_def
      anti_join_verdict_def expectation_verdict_def Let_def simp del: get_prop.simps
      split: option.split)

end
