(* ===== verification/MultiEffectRollup.thy ===== *)
theory MultiEffectRollup
  imports RelationalInvariant
begin

text \<open>
  Several checks in one step (\<open>src/multiEffectRollup.ts\<close>): each is reconciled, the
  results are ordered by id and rolled up into one status.
\<close>

record effect_row =
  xr_id :: string
  xr_status :: step_status
  xr_reasons :: "reason list"
  xr_evidence :: evidence

text \<open>\<open>PolicyExecutionOutput\<close>, of which the two rollup outputs are instances.\<close>

record policy_output =
  po_request :: step_request
  po_status :: step_status
  po_reasons :: "reason list"
  po_evidence :: evidence

definition with_request :: "step_request \<Rightarrow> reconcile_output \<Rightarrow> policy_output" where
  "with_request req rec =
     \<lparr>po_request = req, po_status = ro_status rec, po_reasons = ro_reasons rec,
      po_evidence = ro_evidence rec\<rparr>"

definition sort_ids :: "string list \<Rightarrow> string list" where
  "sort_ids = js_sort compareUtf16Id"

definition formatPerEffectFailureCodes :: "effect_row list \<Rightarrow> string" where
  "formatPerEffectFailureCodes rows =
     join ''; '' (map (\<lambda>e. xr_id e @ '' (''
         @ (case first_code (xr_reasons e) of Some c \<Rightarrow> c | None \<Rightarrow> ''UNKNOWN'') @ '')'')
       (js_sort (\<lambda>a b. compareUtf16Id (xr_id a) (xr_id b)) rows))"

definition status_in :: "step_status list \<Rightarrow> effect_row \<Rightarrow> bool" where
  "status_in ss e \<longleftrightarrow> xr_status e \<in> set ss"

definition computeMultiCheckRollupStatus :: "effect_row list \<Rightarrow> step_status \<times> reason list" where
  "computeMultiCheckRollupStatus rows =
     (let n = length rows;
          incomplete = filter (status_in [IncompleteVerification]) rows;
          verified = filter (status_in [Verified]) rows
      in if length incomplete > 0 then
           (IncompleteVerification,
            [mk_reason ''MULTI_EFFECT_INCOMPLETE''
               (''Incomplete verification for effects: '' @ join '', '' (sort_ids (map xr_id incomplete)))])
         else if length verified = n then (Verified, [])
         else if length verified = 0 then
           (Inconsistent,
            [mk_reason ''MULTI_EFFECT_ALL_FAILED''
               (formatOperationalMessage (''All '' @ nat_str n @ '' effects failed: ''
                  @ join '', '' (sort_ids (map xr_id rows)) @ ''. Per effect: ''
                  @ formatPerEffectFailureCodes rows))])
         else
           (let badRows = filter (status_in [Missing, Inconsistent]) rows
            in (PartiallyVerified,
                [mk_reason ''MULTI_EFFECT_PARTIAL''
                   (formatOperationalMessage (''Verified '' @ nat_str (length verified) @ '' of ''
                      @ nat_str n @ '' effects; not verified: ''
                      @ join '', '' (sort_ids (map xr_id badRows)) @ ''. Per effect: ''
                      @ formatPerEffectFailureCodes badRows))])))"

definition effect_row_val :: "effect_row \<Rightarrow> jsval" where
  "effect_row_val e = VObj [(''id'', VStr (xr_id e)), (''status'', VStr (status_text (xr_status e))),
     (''reasons'', VArr (map reason_val (xr_reasons e))), (''evidenceSummary'', VObj (xr_evidence e))]"

definition rollup_evidence :: "effect_row list \<Rightarrow> evidence" where
  "rollup_evidence rows =
     [(''effectCount'', VInt (int (length rows))), (''effects'', VArr (map effect_row_val rows))]"

definition mk_effect_row :: "string \<Rightarrow> reconcile_output \<Rightarrow> effect_row" where
  "mk_effect_row i rec =
     \<lparr>xr_id = i, xr_status = ro_status rec, xr_reasons = ro_reasons rec, xr_evidence = ro_evidence rec\<rparr>"

lemma mk_effect_row_sel [simp]:
  "xr_id (mk_effect_row i rec) = i" "xr_status (mk_effect_row i rec) = ro_status rec"
  "xr_reasons (mk_effect_row i rec) = ro_reasons rec"
  by (simp_all add: mk_effect_row_def)

definition roll :: "step_request \<Rightarrow> effect_row list \<Rightarrow> policy_output" where
  "roll req rows =
     (case computeMultiCheckRollupStatus rows of (s, rs) \<Rightarrow>
        \<lparr>po_request = req, po_status = s, po_reasons = rs, po_evidence = rollup_evidence rows\<rparr>)"

section \<open>Effects\<close>

text \<open>An effect with what its reconciliation gave.\<close>

type_synonym reconciled_effect = "resolved_effect \<times> reconcile_output"

definition sort_reconciled :: "reconciled_effect list \<Rightarrow> reconciled_effect list" where
  "sort_reconciled = js_sort (\<lambda>a b. compareUtf16Id (ef_id (fst a)) (ef_id (fst b)))"

definition effect_rows :: "reconciled_effect list \<Rightarrow> effect_row list" where
  "effect_rows = map (\<lambda>(e, rec). mk_effect_row (ef_id e) rec)"

definition buildRollup :: "reconciled_effect list \<Rightarrow> policy_output" where
  "buildRollup rs = roll (QSqlEffects (map fst rs)) (effect_rows rs)"

definition rollupMultiEffectsFromReconciledRows :: "reconciled_effect list \<Rightarrow> policy_output" where
  "rollupMultiEffectsFromReconciledRows rows = buildRollup (sort_reconciled rows)"

definition rollupMultiEffectsSync ::
  "host \<Rightarrow> 'w sqlite_db \<Rightarrow> resolved_effect list \<Rightarrow> ('w, policy_output) io" where
  "rollupMultiEffectsSync h db effects =
     io_bind (io_map (\<lambda>e. reconcileSqlRow h db (ef_request e)) effects)
       (\<lambda>recs. io_return (buildRollup (sort_reconciled (zip effects recs))))"

definition rollupMultiEffectsAsync ::
  "host \<Rightarrow> 'w sql_read_backend \<Rightarrow> resolved_effect list \<Rightarrow> ('w, policy_output) io" where
  "rollupMultiEffectsAsync h backend effects =
     io_bind (io_all (\<lambda>e. reconcileSqlRowAsync h backend (ef_request e)) effects)
       (\<lambda>recs. io_return (buildRollup (sort_reconciled (zip effects recs))))"

section \<open>Relational checks\<close>

type_synonym reconciled_check = "relational_check \<times> reconcile_output"

definition sort_check_pairs :: "reconciled_check list \<Rightarrow> reconciled_check list" where
  "sort_check_pairs = js_sort (\<lambda>a b. compareUtf16Id (check_id (fst a)) (check_id (fst b)))"

definition check_rows :: "reconciled_check list \<Rightarrow> effect_row list" where
  "check_rows = map (\<lambda>(c, rec). mk_effect_row (check_id c) rec)"

definition rollupRelationalMulti :: "relational_check list \<Rightarrow> effect_row list \<Rightarrow> policy_output" where
  "rollupRelationalMulti sortedChecks rows = roll (QSqlRelational sortedChecks) rows"

definition rollupSqlRelationalFromReconciled ::
  "relational_check list \<Rightarrow> reconcile_output list \<Rightarrow> policy_output" where
  "rollupSqlRelationalFromReconciled checks recs =
     (let pairs = sort_check_pairs (zip checks recs)
      in rollupRelationalMulti (map fst pairs) (check_rows pairs))"

definition rollupSqlRelationalSync ::
  "host \<Rightarrow> 'w sqlite_db \<Rightarrow> relational_check list \<Rightarrow> ('w, policy_output) io" where
  "rollupSqlRelationalSync h db checks =
     io_bind (io_map (reconcileRelationalSqlite h db) checks)
       (\<lambda>recs. io_return (rollupSqlRelationalFromReconciled checks recs))"

definition rollupSqlRelationalAsync ::
  "(relational_check \<Rightarrow> ('w, reconcile_output) io) \<Rightarrow> relational_check list \<Rightarrow>
     ('w, policy_output) io" where
  "rollupSqlRelationalAsync reconcile checks =
     io_bind (io_all reconcile checks)
       (\<lambda>recs. io_return (rollupSqlRelationalFromReconciled checks recs))"

section \<open>The status of a rollup\<close>

text \<open>The abstract rule: which statuses are present decides.\<close>

definition rollup_spec :: "step_status list \<Rightarrow> step_status" where
  "rollup_spec ss =
     (if IncompleteVerification \<in> set ss then IncompleteVerification
      else if \<forall>s \<in> set ss. s = Verified then Verified
      else if Verified \<notin> set ss then Inconsistent else PartiallyVerified)"

lemma length_filter_eq_iff: "length (filter P xs) = length xs \<longleftrightarrow> (\<forall>x \<in> set xs. P x)"
  by (metis length_filter_less less_irrefl filter_True)

lemma rollup_status:
  "fst (computeMultiCheckRollupStatus rows) = rollup_spec (map xr_status rows)"
proof -
  have mem: "x \<in> set (map xr_status rows) \<longleftrightarrow> (\<exists>e \<in> set rows. xr_status e = x)" for x
    by auto
  show ?thesis
    unfolding rollup_spec_def mem
    by (auto simp: computeMultiCheckRollupStatus_def Let_def status_in_def
        length_filter_eq_iff filter_empty_conv simp del: length_filter_le)
qed

lemma rollup_reasons:
  "snd (computeMultiCheckRollupStatus rows) = [] \<longleftrightarrow> rollup_spec (map xr_status rows) = Verified"
  unfolding rollup_status [symmetric]
  by (simp add: computeMultiCheckRollupStatus_def Let_def)

lemma length_rollup_reasons: "length (snd (computeMultiCheckRollupStatus rows)) \<le> 1"
  by (simp add: computeMultiCheckRollupStatus_def Let_def)

lemma rollup_code:
  "list_all (\<lambda>r. rs_code r \<in> set (rollup_codes (rollup_spec (map xr_status rows))))
     (snd (computeMultiCheckRollupStatus rows))"
  unfolding rollup_status [symmetric]
  by (simp add: computeMultiCheckRollupStatus_def Let_def)

lemma rollup_spec_set_cong: "set ss = set ts \<Longrightarrow> rollup_spec ss = rollup_spec ts"
  by (simp add: rollup_spec_def)

text \<open>A policy output is coherent when reasons are listed exactly if it is not verified.\<close>

definition coherent_policy_output :: "policy_output \<Rightarrow> bool" where
  "coherent_policy_output out \<longleftrightarrow>
     (po_status out = Verified \<longleftrightarrow> po_reasons out = []) \<and> length (po_reasons out) \<le> 1
     \<and> list_all (\<lambda>r. rs_code r \<in> set (check_codes (po_status out) @ rollup_codes (po_status out)))
          (po_reasons out)"

lemma roll_sel [simp]:
  "po_status (roll req rows) = rollup_spec (map xr_status rows)"
  "po_request (roll req rows) = req"
  by (simp_all add: roll_def rollup_status [symmetric] split: prod.split)

lemma coherent_roll [simp]: "coherent_policy_output (roll req rows)"
  using rollup_reasons [of rows] length_rollup_reasons [of rows] rollup_code [of rows]
  by (cases "computeMultiCheckRollupStatus rows")
    (simp add: coherent_policy_output_def rollup_status, simp add: roll_def list_all_iff)

lemma coherent_with_request [simp]:
  "coherent_output rec \<Longrightarrow> coherent_policy_output (with_request req rec)"
  by (auto simp: coherent_policy_output_def coherent_output_def with_request_def list_all_iff)

lemma rollup_effects_status:
  assumes "length recs = length effects"
  shows "po_status (rollupMultiEffectsFromReconciledRows (zip effects recs))
     = rollup_spec (map ro_status recs)"
proof -
  have "set (map xr_status (effect_rows (sort_reconciled (zip effects recs)))) = ro_status ` snd ` set (zip effects recs)"
    by (force simp: effect_rows_def sort_reconciled_def)
  also have "snd ` set (zip effects recs) = set recs"
    using assms by (metis list.set_map map_snd_zip)
  finally have "rollup_spec (map xr_status (effect_rows (sort_reconciled (zip effects recs))))
      = rollup_spec (map ro_status recs)"
    by (intro rollup_spec_set_cong) simp
  then show ?thesis
    by (simp add: rollupMultiEffectsFromReconciledRows_def buildRollup_def)
qed

lemma rollup_relational_status:
  assumes "length recs = length checks"
  shows "po_status (rollupSqlRelationalFromReconciled checks recs) = rollup_spec (map ro_status recs)"
proof -
  have "set (map xr_status (check_rows (sort_check_pairs (zip checks recs)))) = ro_status ` snd ` set (zip checks recs)"
    by (force simp: check_rows_def sort_check_pairs_def)
  also have "snd ` set (zip checks recs) = set recs"
    using assms by (metis list.set_map map_snd_zip)
  finally have "rollup_spec (map xr_status (check_rows (sort_check_pairs (zip checks recs))))
      = rollup_spec (map ro_status recs)"
    by (intro rollup_spec_set_cong) simp
  then show ?thesis
    by (simp add: rollupSqlRelationalFromReconciled_def rollupRelationalMulti_def Let_def)
qed

text \<open>The order in which the effects are listed does not matter when their ids differ.\<close>

lemma sort_reconciled_permutation:
  assumes "mset xs = mset ys" and "distinct (map (ef_id \<circ> fst) xs)"
  shows "sort_reconciled xs = sort_reconciled ys"
  unfolding sort_reconciled_def
proof (rule utf16.sort_permutation_invariant [OF assms(1)])
  fix x y assume "x \<in> set xs" "y \<in> set xs" "compareUtf16Id (ef_id (fst x)) (ef_id (fst y)) \<le> 0"
    "compareUtf16Id (ef_id (fst y)) (ef_id (fst x)) \<le> 0"
  with assms(2) show "x = y"
    by (auto simp: compareUtf16Id_le distinct_map inj_on_def)
qed

end
