(* ===== verification/VerificationPolicy.thy ===== *)
theory VerificationPolicy
  imports MultiEffectRollup
begin

text \<open>
  Executing a resolved verification under a consistency policy
  (\<open>src/verificationPolicy.ts\<close>): once for a strong policy, by polling until the
  expected state is observed or the window has passed for the others. A polling loop may
  run forever (the clock is a parameter), so it is a partial function: \<open>None\<close> is not
  returning.
\<close>

section \<open>Policies\<close>

definition DEFAULT_VERIFICATION_POLICY :: policy where
  "DEFAULT_VERIFICATION_POLICY = PolicyStrong (num_of_int 0) (num_of_int 0)"

fun normalizeVerificationPolicy :: "policy \<Rightarrow> policy" where
  "normalizeVerificationPolicy (PolicyStrong _ _) = PolicyStrong (num_of_int 0) (num_of_int 0)"
| "normalizeVerificationPolicy (PolicyBounded wnd poll stale) = PolicyBounded wnd poll stale"
| "normalizeVerificationPolicy (PolicyEventual wnd poll) = PolicyEventual wnd poll"

definition positive_integer :: "jsnum \<Rightarrow> bool" where
  "positive_integer n \<longleftrightarrow> num_is_integer n \<and> \<not> num_less n (num_of_int 1)"

definition policy_invalid :: "string \<Rightarrow> js_error" where
  "policy_invalid m = TruthLayerError ''VERIFICATION_POLICY_INVALID'' m"

definition assert_polling :: "policy \<Rightarrow> js_error + unit" where
  "assert_polling p =
     (if \<not> positive_integer (p_window p)
      then Inl (policy_invalid ''eventual mode requires integer verificationWindowMs >= 1'')
      else if \<not> positive_integer (p_poll p)
      then Inl (policy_invalid ''eventual mode requires integer pollIntervalMs >= 1'')
      else if num_less (p_window p) (p_poll p)
      then Inl (policy_invalid ''pollIntervalMs must be <= verificationWindowMs'')
      else Inr ())"

fun assertValidVerificationPolicy :: "policy \<Rightarrow> js_error + unit" where
  "assertValidVerificationPolicy (PolicyStrong _ _) = Inr ()"
| "assertValidVerificationPolicy (PolicyEventual wnd poll) = assert_polling (PolicyEventual wnd poll)"
| "assertValidVerificationPolicy (PolicyBounded wnd poll stale) =
     throws_bind (assert_polling (PolicyBounded wnd poll stale)) (\<lambda>_.
       if \<not> positive_integer stale
       then Inl (policy_invalid ''bounded mode requires integer maxStalenessMs >= 1'')
       else Inr ())"

definition resolveVerificationPolicyInput :: "policy option \<Rightarrow> js_error + policy" where
  "resolveVerificationPolicyInput input =
     (let merged = (case input of None \<Rightarrow> DEFAULT_VERIFICATION_POLICY | Some p \<Rightarrow> p);
          normalized = normalizeVerificationPolicy merged
      in throws_bind (assertValidVerificationPolicy normalized) (\<lambda>_. Inr normalized))"

fun is_strong :: "policy \<Rightarrow> bool" where
  "is_strong (PolicyStrong _ _) = True"
| "is_strong _ = False"

fun is_bounded :: "policy \<Rightarrow> bool" where
  "is_bounded (PolicyBounded _ _ _) = True"
| "is_bounded _ = False"

section \<open>Classifying one round of a multi-check\<close>

datatype classified = PendingAllMissing | ClassDone policy_output

definition any_status :: "step_status \<Rightarrow> ('a \<times> reconcile_output) list \<Rightarrow> bool" where
  "any_status s rows \<longleftrightarrow> list_ex (\<lambda>r. ro_status (snd r) = s) rows"

definition all_status :: "step_status \<Rightarrow> ('a \<times> reconcile_output) list \<Rightarrow> bool" where
  "all_status s rows \<longleftrightarrow> list_all (\<lambda>r. ro_status (snd r) = s) rows"

definition classifyMultiEffectAfterReconcile ::
  "resolved_effect list \<Rightarrow> reconcile_output list \<Rightarrow> classified" where
  "classifyMultiEffectAfterReconcile effects recs =
     (let rows = sort_reconciled (zip effects recs);
          finished = ClassDone (rollupMultiEffectsFromReconciledRows rows)
      in if any_status IncompleteVerification rows then finished
         else if all_status Verified rows then finished
         else if all_status Missing rows then PendingAllMissing
         else finished)"

definition classifyMultiRelationalAfterReconcile ::
  "relational_check list \<Rightarrow> reconcile_output list \<Rightarrow> classified" where
  "classifyMultiRelationalAfterReconcile checks recs =
     (let pairs = sort_check_pairs (zip checks recs);
          finished = ClassDone (rollupSqlRelationalFromReconciled checks recs)
      in if any_status IncompleteVerification pairs then finished
         else if all_status Verified pairs then finished
         else if all_status Missing pairs then PendingAllMissing
         else finished)"

section \<open>Giving up\<close>

definition poll_evidence :: "nat \<Rightarrow> int \<Rightarrow> policy \<Rightarrow> evidence" where
  "poll_evidence attempts elapsedMs p =
     [(''attempts'', VInt (int attempts)), (''elapsedMs'', VInt elapsedMs),
      (''verificationWindowMs'', VNum (p_window p)), (''pollIntervalMs'', VNum (p_poll p))]"

definition uncertain :: "step_request \<Rightarrow> string \<Rightarrow> string \<Rightarrow> evidence \<Rightarrow> policy_output" where
  "uncertain req c m ev =
     \<lparr>po_request = req, po_status = Uncertain, po_reasons = [mk_reason c m], po_evidence = ev\<rparr>"

definition row_not_observed :: string where
  "row_not_observed =
     ''No row matched the key within the verification window; replication or processing delay is possible.''"

definition buildUncertainSqlRow :: "row_request \<Rightarrow> nat \<Rightarrow> int \<Rightarrow> policy \<Rightarrow> policy_output" where
  "buildUncertainSqlRow req attempts elapsedMs p =
     uncertain (QSqlRow req) ''ROW_NOT_OBSERVED_WITHIN_WINDOW'' row_not_observed
       (poll_evidence attempts elapsedMs p)"

fun count_or_one :: "jsval \<Rightarrow> jsval" where
  "count_or_one (VNum n) = (if num_leq (num_of_int 1) n then VNum n else VInt 1)"
| "count_or_one _ = VInt 1"

definition buildUncertainSqlRowAbsent ::
  "absent_request \<Rightarrow> nat \<Rightarrow> int \<Rightarrow> policy \<Rightarrow> reconcile_output \<Rightarrow> policy_output" where
  "buildUncertainSqlRowAbsent req attempts elapsedMs p lastRec =
     (let mc = get_prop (VObj (ro_evidence lastRec)) ''matchedRowCount'';
          sr = get_prop (VObj (ro_evidence lastRec)) ''sampleRows''
      in uncertain (QSqlRowAbsent req) ''FORBIDDEN_ROWS_STILL_PRESENT_WITHIN_WINDOW''
           ''Forbidden row(s) still present within the verification window; replication or processing delay is possible.''
           (poll_evidence attempts elapsedMs p
              @ [(''matchedRowCount'', count_or_one mc),
                 (''sampleRows'', if is_array sr then sr else VArr [])]))"

definition not_all_observable :: "string list \<Rightarrow> string" where
  "not_all_observable ids =
     ''Not all effects were observable within the verification window; replication or processing delay is possible (effects: ''
       @ join '', '' (sort_ids ids) @ '').''"

definition buildUncertainSqlEffects ::
  "resolved_effect list \<Rightarrow> reconcile_output list \<Rightarrow> nat \<Rightarrow> int \<Rightarrow> policy \<Rightarrow> policy_output" where
  "buildUncertainSqlEffects effects recs attempts elapsedMs p =
     (let rows = sort_reconciled (zip effects recs)
      in uncertain (QSqlEffects (map fst rows)) ''MULTI_EFFECT_UNCERTAIN_WITHIN_WINDOW''
           (not_all_observable (map (ef_id \<circ> fst) rows))
           (rollup_evidence (effect_rows rows) @ poll_evidence attempts elapsedMs p))"

definition buildUncertainSqlRelational ::
  "relational_check list \<Rightarrow> reconcile_output list \<Rightarrow> nat \<Rightarrow> int \<Rightarrow> policy \<Rightarrow> policy_output" where
  "buildUncertainSqlRelational checks recs attempts elapsedMs p =
     (let pairs = sort_check_pairs (zip checks recs)
      in uncertain (QSqlRelational (map fst pairs)) ''MULTI_EFFECT_UNCERTAIN_WITHIN_WINDOW''
           (not_all_observable (map (check_id \<circ> fst) pairs))
           (rollup_evidence (check_rows pairs) @ poll_evidence attempts elapsedMs p))"

definition buildUncertainSqlRelationalSingle ::
  "relational_check \<Rightarrow> nat \<Rightarrow> int \<Rightarrow> policy \<Rightarrow> policy_output" where
  "buildUncertainSqlRelationalSingle c attempts elapsedMs p =
     uncertain (QSqlRelational [c]) ''ROW_NOT_OBSERVED_WITHIN_WINDOW'' row_not_observed
       (poll_evidence attempts elapsedMs p)"

definition buildUncertainStateWitness ::
  "witness_request \<Rightarrow> nat \<Rightarrow> int \<Rightarrow> policy \<Rightarrow> policy_output" where
  "buildUncertainStateWitness req attempts elapsedMs p =
     uncertain (QWitness req) ''ROW_NOT_OBSERVED_WITHIN_WINDOW''
       ''Expected state was not observed within the verification window; replication or processing delay is possible.''
       (poll_evidence attempts elapsedMs p)"

section \<open>Polling\<close>

text \<open>\<open>TimingDeps\<close>, and \<open>PolicyReconcileContext\<close>.\<close>

record 'w timing =
  tm_now :: "'w \<Rightarrow> int \<times> 'w"
  tm_sleep :: "jsnum \<Rightarrow> 'w \<Rightarrow> 'w"

record 'w policy_context =
  pc_reconcileRow :: "row_request \<Rightarrow> ('w, reconcile_output) io"
  pc_reconcileRowAbsent :: "absent_request \<Rightarrow> ('w, reconcile_output) io"
  pc_reconcileRelationalCheck :: "relational_check \<Rightarrow> ('w, reconcile_output) io"
  pc_reconcileStateWitness :: "witness_request \<Rightarrow> ('w, reconcile_output) io"

text \<open>
  \<open>defaultTiming\<close> (\<open>Date.now\<close>, \<open>setTimeout\<close>) over a world with a clock: a timer fires
  after its delay, by an arbitrary lag late; which lag each timer has is part of the world.
\<close>

record world =
  wd_clock :: int
  wd_lag :: "nat \<Rightarrow> nat"
  wd_timers :: nat

text \<open>\<open>setTimeout\<close> runs a delay outside 1 to \<open>2 ^ 31 - 1\<close> milliseconds as one of 1 millisecond.\<close>

definition TIMEOUT_MAX :: rat where
  "TIMEOUT_MAX = 2147483647"

fun delay_ms :: "jsnum \<Rightarrow> int" where
  "delay_ms (Fin q) = (if 1 \<le> q \<and> q \<le> TIMEOUT_MAX then \<lfloor>q\<rfloor> else 1)"
| "delay_ms _ = 1"

definition defaultTiming :: "'a world_scheme timing" where
  "defaultTiming =
     \<lparr>tm_now = (\<lambda>w. (wd_clock w, w)),
      tm_sleep = (\<lambda>ms w. w\<lparr>wd_clock := wd_clock w + delay_ms ms + int (wd_lag w (wd_timers w)),
                             wd_timers := Suc (wd_timers w)\<rparr>)\<rparr>"

text \<open>
  The loop of the six executors: one attempt per round; a decided result is returned,
  otherwise the window is checked, and past it the executor gives up with the number of
  attempts and a second reading of the clock.
\<close>

partial_function (option) poll_loop ::
  "'w timing \<Rightarrow> policy \<Rightarrow> int \<Rightarrow> ('w, 'a) io \<Rightarrow> ('a \<Rightarrow> policy_output option) \<Rightarrow>
     ('a \<Rightarrow> nat \<Rightarrow> int \<Rightarrow> policy_output) \<Rightarrow> nat \<Rightarrow> 'w \<Rightarrow> ((js_error + policy_output) \<times> 'w) option" where
  "poll_loop tm p start attempt decide giveup attempts w =
     (case attempt w of
        (Inl e, w1) \<Rightarrow> Some (Inl e, w1)
      | (Inr r, w1) \<Rightarrow>
          (case decide r of
             Some out \<Rightarrow> Some (Inr out, w1)
           | None \<Rightarrow>
               (case tm_now tm w1 of (t, w2) \<Rightarrow>
                  if num_leq (p_window p) (num_of_int (t - start))
                  then (case tm_now tm w2 of (t', w3) \<Rightarrow>
                          Some (Inr (giveup r (Suc attempts) (t' - start)), w3))
                  else poll_loop tm p start attempt decide giveup (Suc attempts)
                         (tm_sleep tm (p_poll p) w2))))"

definition poll_until ::
  "'w timing \<Rightarrow> policy \<Rightarrow> ('w, 'a) io \<Rightarrow> ('a \<Rightarrow> policy_output option) \<Rightarrow>
     ('a \<Rightarrow> nat \<Rightarrow> int \<Rightarrow> policy_output) \<Rightarrow> 'w \<Rightarrow> ((js_error + policy_output) \<times> 'w) option" where
  "poll_until tm p attempt decide giveup w =
     (case tm_now tm w of (start, w1) \<Rightarrow> poll_loop tm p start attempt decide giveup 0 w1)"

definition unless_missing :: "step_request \<Rightarrow> reconcile_output \<Rightarrow> policy_output option" where
  "unless_missing req rec = (if ro_status rec \<noteq> Missing then Some (with_request req rec) else None)"

definition executeStateWitnessEventual where
  "executeStateWitnessEventual req p ctx tm =
     poll_until tm p (pc_reconcileStateWitness ctx req) (unless_missing (QWitness req))
       (\<lambda>_ attempts elapsed. buildUncertainStateWitness req attempts elapsed p)"

definition executeSqlRowEventual where
  "executeSqlRowEventual req p ctx tm =
     poll_until tm p (pc_reconcileRow ctx req) (unless_missing (QSqlRow req))
       (\<lambda>_ attempts elapsed. buildUncertainSqlRow req attempts elapsed p)"

definition decide_absent :: "absent_request \<Rightarrow> reconcile_output \<Rightarrow> policy_output option" where
  "decide_absent req rec =
     (if ro_status rec = Verified then Some (with_request (QSqlRowAbsent req) rec)
      else if ro_status rec \<noteq> Inconsistent
        \<or> first_code (ro_reasons rec) \<noteq> Some ''ROW_PRESENT_WHEN_FORBIDDEN''
      then Some (with_request (QSqlRowAbsent req) rec)
      else None)"

definition executeSqlRowAbsentEventual where
  "executeSqlRowAbsentEventual req p ctx tm =
     poll_until tm p (pc_reconcileRowAbsent ctx req) (decide_absent req)
       (\<lambda>rec attempts elapsed. buildUncertainSqlRowAbsent req attempts elapsed p rec)"

fun classified_out :: "classified \<Rightarrow> policy_output option" where
  "classified_out PendingAllMissing = None"
| "classified_out (ClassDone out) = Some out"

definition executeSqlEffectsEventual where
  "executeSqlEffectsEventual effects p ctx tm =
     poll_until tm p (io_all (\<lambda>e. pc_reconcileRow ctx (ef_request e)) effects)
       (\<lambda>recs. classified_out (classifyMultiEffectAfterReconcile effects recs))
       (\<lambda>recs attempts elapsed. buildUncertainSqlEffects effects recs attempts elapsed p)"

definition executeSqlRelationalSingleEventual where
  "executeSqlRelationalSingleEventual c p ctx tm =
     poll_until tm p (pc_reconcileRelationalCheck ctx c) (unless_missing (QSqlRelational [c]))
       (\<lambda>_ attempts elapsed. buildUncertainSqlRelationalSingle c attempts elapsed p)"

definition executeSqlRelationalEventual where
  "executeSqlRelationalEventual checks p ctx tm =
     poll_until tm p (io_all (pc_reconcileRelationalCheck ctx) checks)
       (\<lambda>recs. classified_out (classifyMultiRelationalAfterReconcile checks recs))
       (\<lambda>recs attempts elapsed. buildUncertainSqlRelational checks recs attempts elapsed p)"

section \<open>The two entry points\<close>

definition witness_in_file_mode :: "witness_request \<Rightarrow> policy_output" where
  "witness_in_file_mode w =
     \<lparr>po_request = QWitness w, po_status = IncompleteVerification,
      po_reasons = [mk_reason ''STATE_WITNESS_UNAVAILABLE_IN_SQLITE_FILE_MODE''
        ''State store verification (vector, object storage, HTTP witness, MongoDB) requires the async verification runtime with a remote database URL, not SQLite file mode.''],
      po_evidence = [(''verificationKind'', VStr (witness_kind w))]\<rparr>"

definition io_with_request ::
  "step_request \<Rightarrow> ('w, reconcile_output) io \<Rightarrow> ('w, policy_output) io" where
  "io_with_request req m = io_bind m (\<lambda>rec. io_return (with_request req rec))"

fun strong_sync :: "host \<Rightarrow> 'w sqlite_db \<Rightarrow> resolved \<Rightarrow> ('w, policy_output) io" where
  "strong_sync h db (RdWitness w) = io_return (witness_in_file_mode w)"
| "strong_sync h db (RdSqlEffects es) = rollupMultiEffectsSync h db es"
| "strong_sync h db (RdSqlRelational [c]) =
     io_with_request (QSqlRelational [c]) (reconcileRelationalSqlite h db c)"
| "strong_sync h db (RdSqlRelational cs) = rollupSqlRelationalSync h db cs"
| "strong_sync h db (RdSqlRowAbsent req) =
     io_with_request (QSqlRowAbsent req) (reconcileSqlRowAbsent h db req)"
| "strong_sync h db (RdSqlRow req) = io_with_request (QSqlRow req) (reconcileSqlRow h db req)"

definition executeVerificationWithPolicySync ::
  "host \<Rightarrow> 'w sqlite_db \<Rightarrow> resolved \<Rightarrow> policy \<Rightarrow> ('w, policy_output) io" where
  "executeVerificationWithPolicySync h db rd pol =
     io_bind (io_lift (resolveVerificationPolicyInput (Some pol))) (\<lambda>p.
       if \<not> is_strong p
       then io_throw (TruthLayerError ''INTERNAL_ERROR''
              ''executeVerificationWithPolicySync requires strong consistency mode'')
       else strong_sync h db rd)"

fun strong_async :: "'w policy_context \<Rightarrow> resolved \<Rightarrow> ('w, policy_output) io" where
  "strong_async ctx (RdSqlEffects es) =
     io_bind (io_all (\<lambda>e. pc_reconcileRow ctx (ef_request e)) es)
       (\<lambda>recs. io_return (rollupMultiEffectsFromReconciledRows (zip es recs)))"
| "strong_async ctx (RdWitness w) = io_with_request (QWitness w) (pc_reconcileStateWitness ctx w)"
| "strong_async ctx (RdSqlRelational [c]) =
     io_with_request (QSqlRelational [c]) (pc_reconcileRelationalCheck ctx c)"
| "strong_async ctx (RdSqlRelational cs) = rollupSqlRelationalAsync (pc_reconcileRelationalCheck ctx) cs"
| "strong_async ctx (RdSqlRowAbsent req) =
     io_with_request (QSqlRowAbsent req) (pc_reconcileRowAbsent ctx req)"
| "strong_async ctx (RdSqlRow req) = io_with_request (QSqlRow req) (pc_reconcileRow ctx req)"

fun eventual_async ::
  "resolved \<Rightarrow> policy \<Rightarrow> 'w policy_context \<Rightarrow> 'w timing \<Rightarrow> 'w \<Rightarrow>
     ((js_error + policy_output) \<times> 'w) option" where
  "eventual_async (RdSqlRowAbsent req) p ctx tm = executeSqlRowAbsentEventual req p ctx tm"
| "eventual_async (RdWitness w) p ctx tm = executeStateWitnessEventual w p ctx tm"
| "eventual_async (RdSqlRow req) p ctx tm = executeSqlRowEventual req p ctx tm"
| "eventual_async (RdSqlEffects es) p ctx tm = executeSqlEffectsEventual es p ctx tm"
| "eventual_async (RdSqlRelational [c]) p ctx tm = executeSqlRelationalSingleEventual c p ctx tm"
| "eventual_async (RdSqlRelational cs) p ctx tm = executeSqlRelationalEventual cs p ctx tm"

definition executeVerificationWithPolicyAsync ::
  "resolved \<Rightarrow> policy \<Rightarrow> 'w policy_context \<Rightarrow> 'w timing \<Rightarrow> 'w \<Rightarrow>
     ((js_error + policy_output) \<times> 'w) option" where
  "executeVerificationWithPolicyAsync rd pol ctx tm w =
     (case resolveVerificationPolicyInput (Some pol) of
        Inl e \<Rightarrow> Some (Inl e, w)
      | Inr p \<Rightarrow> if is_strong p then Some (strong_async ctx rd w) else eventual_async rd p ctx tm w)"

definition createSqlitePolicyContext :: "host \<Rightarrow> 'w sqlite_db \<Rightarrow> 'w policy_context" where
  "createSqlitePolicyContext h db =
     \<lparr>pc_reconcileRow = reconcileSqlRow h db,
      pc_reconcileRowAbsent = reconcileSqlRowAbsent h db,
      pc_reconcileRelationalCheck = reconcileRelationalSqlite h db,
      pc_reconcileStateWitness = (\<lambda>_. io_return (mk_output IncompleteVerification
        [mk_reason ''STATE_WITNESS_UNAVAILABLE_IN_SQLITE_FILE_MODE''
           ''State store verification is not available in SQLite file mode; use a remote database URL for the verify run.'']
        []))\<rparr>"

end
