(* ===== verification/PolicyProperties.thy ===== *)
theory PolicyProperties
  imports VerificationPolicy
begin

text \<open>
  What the policy executors guarantee: which policies are accepted, that polling ends and
  how many attempts it makes (under a clock that does not run backwards), that a result
  is \<open>uncertain\<close> only after the window, and that a run keeps whatever \<open>SELECT\<close> statements
  keep.
\<close>

section \<open>Policies\<close>

lemma normalize_policy_idem:
  "normalizeVerificationPolicy (normalizeVerificationPolicy p) = normalizeVerificationPolicy p"
  by (cases p) simp_all

text \<open>The policies that pass, by constructor.\<close>

fun policy_ok :: "policy \<Rightarrow> bool" where
  "policy_ok (PolicyStrong _ _) \<longleftrightarrow> True"
| "policy_ok (PolicyEventual wnd poll) \<longleftrightarrow>
     (\<exists>w d. wnd = num_of_int w \<and> poll = num_of_int d \<and> 1 \<le> d \<and> d \<le> w)"
| "policy_ok (PolicyBounded wnd poll stale) \<longleftrightarrow>
     (\<exists>w d s. wnd = num_of_int w \<and> poll = num_of_int d \<and> stale = num_of_int s \<and> 1 \<le> d \<and> d \<le> w \<and> 1 \<le> s)"

lemma positive_integer_iff: "positive_integer n \<longleftrightarrow> (\<exists>i. n = num_of_int i \<and> 1 \<le> i)"
  by (auto simp: positive_integer_def elim!: num_is_integerE)

lemma assert_polling_ok:
  "assert_polling p = Inr u \<longleftrightarrow>
     (\<exists>w d. p_window p = num_of_int w \<and> p_poll p = num_of_int d \<and> 1 \<le> d \<and> d \<le> w)"
  by (auto simp: assert_polling_def positive_integer_iff)

lemma assertValid_ok: "assertValidVerificationPolicy p = Inr u \<longleftrightarrow> policy_ok p"
  by (cases p)
    (auto simp: throws_bind_Inr_iff assert_polling_ok positive_integer_iff split: if_splits)

lemma resolve_policy_ok:
  "resolveVerificationPolicyInput (Some p) = Inr q \<longleftrightarrow> policy_ok p \<and> q = normalizeVerificationPolicy p"
proof -
  have "policy_ok (normalizeVerificationPolicy p) = policy_ok p" by (cases p) simp_all
  then show ?thesis
    by (auto simp: resolveVerificationPolicyInput_def Let_def throws_bind_Inr_iff assertValid_ok
        intro: exI [of _ "()"])
qed

lemma policy_ok_normalize [simp]: "policy_ok (normalizeVerificationPolicy p) \<longleftrightarrow> policy_ok p"
  by (cases p) simp_all

lemma is_strong_normalize [simp]: "is_strong (normalizeVerificationPolicy p) \<longleftrightarrow> is_strong p"
  by (cases p) simp_all

lemma policy_okE:
  assumes "policy_ok p" and "\<not> is_strong p"
  obtains w d where "p_window p = num_of_int w" "p_poll p = num_of_int d" "1 \<le> d" "d \<le> w"
  using assms by (cases p) auto

lemma resolve_policy_error_code:
  "resolveVerificationPolicyInput i = Inl e \<Longrightarrow> err_code e = ''VERIFICATION_POLICY_INVALID''"
proof -
  have a: "assert_polling p = Inl e \<Longrightarrow> err_code e = ''VERIFICATION_POLICY_INVALID''" for p e
    by (auto simp: assert_polling_def policy_invalid_def split: if_splits)
  have "assertValidVerificationPolicy p = Inl e \<Longrightarrow> err_code e = ''VERIFICATION_POLICY_INVALID''" for p e
    by (cases p) (auto simp: throws_bind_def policy_invalid_def split: sum.splits if_splits dest: a)
  then show "resolveVerificationPolicyInput i = Inl e \<Longrightarrow> ?thesis"
    by (auto simp: resolveVerificationPolicyInput_def Let_def throws_bind_def split: sum.splits)
qed

section \<open>What a polling loop returns\<close>

text \<open>A timing whose two operations keep \<open>I\<close>.\<close>

definition timing_keeps :: "('w \<Rightarrow> bool) \<Rightarrow> 'w timing \<Rightarrow> bool" where
  "timing_keeps I tm \<longleftrightarrow>
     (\<forall>w. I w \<longrightarrow> I (snd (tm_now tm w)) \<and> (\<forall>ms. I (tm_sleep tm ms w)))"

text \<open>The result of a round that decided, and of one that gave up past the window.\<close>

definition poll_outcome ::
  "policy \<Rightarrow> int \<Rightarrow> ('w, 'a) io \<Rightarrow> ('a \<Rightarrow> policy_output option) \<Rightarrow>
     ('a \<Rightarrow> nat \<Rightarrow> int \<Rightarrow> policy_output) \<Rightarrow> policy_output \<Rightarrow> bool" where
  "poll_outcome p start attempt decide giveup out \<longleftrightarrow>
     (\<exists>r w1 w2. attempt w1 = (Inr r, w2) \<and>
       (decide r = Some out \<or> (decide r = None \<and>
         (\<exists>k t e. out = giveup r k e \<and> num_leq (p_window p) (num_of_int (t - start))))))"

lemma poll_outcome_decided:
  "attempt w1 = (Inr r, w2) \<Longrightarrow> decide r = Some out \<Longrightarrow> poll_outcome p start attempt decide giveup out"
  by (auto simp: poll_outcome_def)

lemma poll_outcome_gave_up:
  "attempt w1 = (Inr r, w2) \<Longrightarrow> decide r = None \<Longrightarrow> num_leq (p_window p) (num_of_int (t - start)) \<Longrightarrow>
     poll_outcome p start attempt decide giveup (giveup r k e)"
  by (auto simp: poll_outcome_def)

lemma poll_round_cases:
  "(\<exists>e. ar = Inl e) \<or> (\<exists>r out. ar = Inr r \<and> decide r = Some out)
    \<or> (\<exists>r. ar = Inr r \<and> decide r = None \<and> b) \<or> (\<exists>r. ar = Inr r \<and> decide r = None \<and> \<not> b)"
  by (cases ar) auto

lemma poll_loop_rule:
  assumes "poll_loop tm p start attempt decide giveup n w = Some res"
  shows "(\<forall>out. fst res = Inr out \<longrightarrow> poll_outcome p start attempt decide giveup out)
    \<and> (\<forall>I. timing_keeps I tm \<longrightarrow> keeps I attempt \<longrightarrow> I w \<longrightarrow> I (snd res))"
proof -
  define P where "P tm p start attempt decide giveup n w res \<longleftrightarrow>
     (\<forall>out. fst res = Inr out \<longrightarrow> poll_outcome p start attempt decide giveup out)
      \<and> (\<forall>I. timing_keeps I tm \<longrightarrow> keeps I attempt \<longrightarrow> I w \<longrightarrow> I (snd res))"
    for tm :: "'a timing" and p start and attempt :: "('a, 'b) io" and decide
      and giveup :: "'b \<Rightarrow> nat \<Rightarrow> int \<Rightarrow> policy_output" and n :: nat and w :: 'a
      and res :: "(js_error + policy_output) \<times> 'a"
  have "P tm p start attempt decide giveup n w res"
    using _ assms
  proof (rule poll_loop.raw_induct)
    fix loop :: "'a timing \<Rightarrow> policy \<Rightarrow> int \<Rightarrow> ('a, 'b) io \<Rightarrow> ('b \<Rightarrow> policy_output option) \<Rightarrow>
        ('b \<Rightarrow> nat \<Rightarrow> int \<Rightarrow> policy_output) \<Rightarrow> nat \<Rightarrow> 'a \<Rightarrow> ((js_error + policy_output) \<times> 'a) option"
      and tm p start attempt decide giveup n w res
    assume IH: "\<And>tm p start attempt decide giveup n w y.
        loop tm p start attempt decide giveup n w = Some y \<Longrightarrow> P tm p start attempt decide giveup n w y"
      and step: "(case attempt w of
        (Inl e, w1) \<Rightarrow> Some (Inl e, w1)
      | (Inr r, w1) \<Rightarrow>
          (case decide r of
             Some out \<Rightarrow> Some (Inr out, w1)
           | None \<Rightarrow>
               (case tm_now tm w1 of (t, w2) \<Rightarrow>
                  if num_leq (p_window p) (num_of_int (t - start))
                  then (case tm_now tm w2 of (t', w3) \<Rightarrow>
                          Some (Inr (giveup r (Suc n) (t' - start)), w3))
                  else loop tm p start attempt decide giveup (Suc n) (tm_sleep tm (p_poll p) w2)))) = Some res"
    obtain ar w1 where at: "attempt w = (ar, w1)" by (cases "attempt w")
    obtain t w2 where now1: "tm_now tm w1 = (t, w2)" by (cases "tm_now tm w1")
    obtain t' w3 where now2: "tm_now tm w2 = (t', w3)" by (cases "tm_now tm w2")
    have kept: "I w1 \<and> I w2 \<and> I w3 \<and> I (tm_sleep tm (p_poll p) w2)"
      if "timing_keeps I tm" "keeps I attempt" "I w" for I
      using that at now1 now2 unfolding timing_keeps_def keeps_def by (metis snd_conv)
    consider (thrown) e where "ar = Inl e"
      | (decided) r out where "ar = Inr r" "decide r = Some out"
      | (over) r where "ar = Inr r" "decide r = None" "num_leq (p_window p) (num_of_int (t - start))"
      | (again) r where "ar = Inr r" "decide r = None" "\<not> num_leq (p_window p) (num_of_int (t - start))"
      using poll_round_cases [of ar decide "num_leq (p_window p) (num_of_int (t - start))"] by blast
    then show "P tm p start attempt decide giveup n w res"
    proof cases
      case thrown
      with step at have "res = (Inl e, w1)" by simp
      with kept show ?thesis unfolding P_def by (metis Inr_not_Inl fst_conv snd_conv)
    next
      case decided
      with step at have "res = (Inr out, w1)" by simp
      with decided at kept show ?thesis by (auto simp: P_def intro: poll_outcome_decided)
    next
      case over
      with step at now1 now2 have "res = (Inr (giveup r (Suc n) (t' - start)), w3)" by simp
      with over at kept show ?thesis by (auto simp: P_def intro: poll_outcome_gave_up)
    next
      case again
      with step at now1 have "P tm p start attempt decide giveup (Suc n) (tm_sleep tm (p_poll p) w2) res"
        by (intro IH) simp
      with kept show ?thesis by (auto simp: P_def)
    qed
  qed
  then show ?thesis unfolding P_def .
qed

lemma poll_until_outcome:
  assumes "poll_until tm p attempt decide giveup w = Some (Inr out, w')"
  shows "\<exists>start. poll_outcome p start attempt decide giveup out"
  using assms poll_loop_rule by (fastforce simp: poll_until_def split: prod.splits)

lemma poll_until_keeps:
  assumes "poll_until tm p attempt decide giveup w = Some (res, w')"
    and "timing_keeps I tm" and "keeps I attempt" and "I w"
  shows "I w'"
proof -
  obtain start w1 where now: "tm_now tm w = (start, w1)" by (cases "tm_now tm w")
  with assms(1) have loop: "poll_loop tm p start attempt decide giveup 0 w1 = Some (res, w')"
    by (simp add: poll_until_def)
  have "I w1" using assms(2,4) now unfolding timing_keeps_def by (metis snd_conv)
  with poll_loop_rule [OF loop] assms(2,3) show ?thesis by auto
qed

section \<open>Polling ends\<close>

text \<open>
  The contract of a clock: a reading is the time at which it is taken, and time never
  runs backwards; sleeping for \<open>i\<close> takes at least \<open>waits i\<close>.
\<close>

locale polling_clock =
  fixes tm :: "'w timing" and clk :: "'w \<Rightarrow> int" and waits :: "int \<Rightarrow> int"
  assumes now_reads: "tm_now tm w = (t, w') \<Longrightarrow> t = clk w' \<and> clk w \<le> clk w'"
    and sleep_waits: "1 \<le> i \<Longrightarrow> 1 \<le> waits i \<and> clk w + waits i \<le> clk (tm_sleep tm (num_of_int i) w)"
begin

text \<open>
  Under it every polling loop returns, and when it gives up after \<open>k\<close> attempts, the window
  had passed at the last reading while \<open>k - 2\<close> full waits had not.
\<close>

lemma poll_loop_ends:
  assumes attempt: "\<And>w. clk w \<le> clk (snd (attempt w))"
    and window: "p_window p = num_of_int wnd" and poll: "p_poll p = num_of_int d" and d: "1 \<le> d"
    and "start + int n * waits d \<le> clk w" and "(int n - 1) * waits d < wnd"
  shows "\<exists>res w'. poll_loop tm p start attempt decide giveup n w = Some (res, w') \<and>
     (\<forall>out. res = Inr out \<longrightarrow>
        (\<exists>r w1 w2. attempt w1 = (Inr r, w2) \<and> decide r = Some out) \<or>
        (\<exists>r k e. decide r = None \<and> out = giveup r k e \<and> wnd \<le> e \<and> (int k - 2) * waits d < wnd))"
  using assms(5,6)
proof (induction "nat (wnd - (clk w - start))" arbitrary: n w rule: less_induct)
  case less
  obtain ar w1 where at: "attempt w = (ar, w1)" by (cases "attempt w")
  obtain t w2 where now1: "tm_now tm w1 = (t, w2)" by (cases "tm_now tm w1")
  obtain t' w3 where now2: "tm_now tm w2 = (t', w3)" by (cases "tm_now tm w2")
  have le: "clk w \<le> clk w1" using attempt [of w] at by simp
  have t: "t = clk w2" "clk w1 \<le> t" using now_reads [OF now1] by auto
  have t': "t \<le> t'" using now_reads [OF now2] t by simp
  consider (thrown) e where "ar = Inl e"
    | (decided) r out where "ar = Inr r" "decide r = Some out"
    | (over) r where "ar = Inr r" "decide r = None" "wnd \<le> t - start"
    | (again) r where "ar = Inr r" "decide r = None" "\<not> wnd \<le> t - start"
    using poll_round_cases [of ar decide "wnd \<le> t - start"] by blast
  then show ?case
  proof cases
    case thrown
    with at show ?thesis by (auto simp: poll_loop.simps [of tm])
  next
    case decided
    with at show ?thesis by (auto simp: poll_loop.simps [of tm])
  next
    case over
    then have "poll_loop tm p start attempt decide giveup n w
        = Some (Inr (giveup r (Suc n) (t' - start)), w3)"
      using at now1 now2 by (simp add: poll_loop.simps [of tm] window)
    moreover have "(int (Suc n) - 2) * waits d < wnd" using less.prems(2) by (simp add: algebra_simps)
    moreover have "wnd \<le> t' - start" using over t' by simp
    ultimately show ?thesis using over by blast
  next
    case again
    let ?w = "tm_sleep tm (num_of_int d) w2"
    have one: "1 \<le> waits d" using sleep_waits [OF d, of w2] by simp
    have more: "clk w + waits d \<le> clk ?w"
      using sleep_waits [OF d, of w2] le t by simp
    have "poll_loop tm p start attempt decide giveup n w
        = poll_loop tm p start attempt decide giveup (Suc n) ?w"
      using at now1 again by (simp add: poll_loop.simps [of tm p start attempt decide giveup n] window poll)
    moreover have "nat (wnd - (clk ?w - start)) < nat (wnd - (clk w - start))"
      using more one again le t by simp
    moreover have "start + int (Suc n) * waits d \<le> clk ?w"
      using less.prems(1) more by (simp add: algebra_simps)
    moreover have "(int (Suc n) - 1) * waits d < wnd"
      using again less.prems(1) le t by simp
    ultimately show ?thesis using less.hyps [of ?w "Suc n"] by simp
  qed
qed

lemma poll_until_ends:
  assumes "\<And>w. clk w \<le> clk (snd (attempt w))"
    and "p_window p = num_of_int wnd" and "p_poll p = num_of_int d" and "1 \<le> d" and "d \<le> wnd"
  shows "\<exists>res w'. poll_until tm p attempt decide giveup w = Some (res, w') \<and>
     (\<forall>out. res = Inr out \<longrightarrow>
        (\<exists>r w1 w2. attempt w1 = (Inr r, w2) \<and> decide r = Some out) \<or>
        (\<exists>r k e. decide r = None \<and> out = giveup r k e \<and> wnd \<le> e \<and> (int k - 2) * waits d < wnd))"
proof -
  obtain start w1 where now: "tm_now tm w = (start, w1)" by (cases "tm_now tm w")
  then have "start = clk w1" using now_reads by blast
  then have "start + int 0 * waits d \<le> clk w1" "(int 0 - 1) * waits d < wnd"
    using assms(4,5) sleep_waits [OF assms(4), of w] by auto
  from poll_loop_ends [OF assms(1-4) this, where decide = decide and giveup = giveup] now
  show ?thesis by (simp add: poll_until_def)
qed

end

text \<open>What \<open>defaultTiming\<close> waits at least for an interval of \<open>i\<close> milliseconds.\<close>

definition timer_wait :: "int \<Rightarrow> int" where
  "timer_wait i = (if i \<le> 2147483647 then i else 1)"

lemma delay_num_of_int: "1 \<le> i \<Longrightarrow> delay_ms (num_of_int i) = timer_wait i"
proof -
  have le: "rat_of_int i \<le> 2147483647 \<longleftrightarrow> i \<le> 2147483647"
    using of_int_le_iff [where 'a = rat, of i 2147483647] by simp
  assume "1 \<le> i"
  with le show ?thesis by (simp add: num_of_int_def TIMEOUT_MAX_def timer_wait_def)
qed

interpretation wall: polling_clock "defaultTiming :: 'a world_scheme timing" wd_clock timer_wait
  by unfold_locales (auto simp: defaultTiming_def delay_num_of_int timer_wait_def)

end
