(* ===== verification/PolicyExecution.thy ===== *)
theory PolicyExecution
  imports PolicyProperties
begin

text \<open>
  The two entry points of \<open>src/verificationPolicy.ts\<close> as a whole: every execution over a
  working clock returns, its output is either settled or an honest \<open>uncertain\<close>; a strong
  policy never yields \<open>uncertain\<close>; the synchronous and the asynchronous entry point agree
  on a SQLite file; and a run leaves everything alone that \<open>SELECT\<close> statements leave alone.
\<close>

section \<open>Settled outputs\<close>

definition settled :: "policy_output \<Rightarrow> bool" where
  "settled out \<longleftrightarrow> coherent_policy_output out \<and> po_status out \<noteq> Uncertain"

definition gave_up :: "nat \<Rightarrow> int \<Rightarrow> policy_output \<Rightarrow> bool" where
  "gave_up k e out \<longleftrightarrow> po_status out = Uncertain \<and> length (po_reasons out) = 1
     \<and> list_all (\<lambda>r. rs_code r \<in> set (rollup_codes Uncertain)) (po_reasons out)
     \<and> map_of (po_evidence out) ''attempts'' = Some (VInt (int k))
     \<and> map_of (po_evidence out) ''elapsedMs'' = Some (VInt e)"

lemma settled_with_request: "coherent_output rec \<Longrightarrow> settled (with_request req rec)"
  by (simp add: settled_def) (auto simp: with_request_def coherent_output_def)

lemma rollup_spec_not_uncertain: "rollup_spec ss \<noteq> Uncertain" "rollup_spec ss \<noteq> Missing"
  by (simp_all add: rollup_spec_def)

lemma settled_roll: "settled (roll req rows)"
  by (simp add: settled_def rollup_spec_not_uncertain)

lemma settled_rollups:
  "settled (rollupMultiEffectsFromReconciledRows rows)"
  "settled (rollupSqlRelationalFromReconciled cs recs)"
  "settled (buildRollup rows)"
  by (simp_all add: rollupMultiEffectsFromReconciledRows_def buildRollup_def Let_def
      rollupSqlRelationalFromReconciled_def rollupRelationalMulti_def settled_roll)

lemma settled_classified:
  "classified_out (classifyMultiEffectAfterReconcile es recs) = Some out \<Longrightarrow> settled out"
  "classified_out (classifyMultiRelationalAfterReconcile cs recs) = Some out \<Longrightarrow> settled out"
  by (auto simp: classifyMultiEffectAfterReconcile_def classifyMultiRelationalAfterReconcile_def
      Let_def settled_rollups split: if_splits)

lemma gave_up_builders:
  "gave_up k e (buildUncertainSqlRow r k e p)"
  "gave_up k e (buildUncertainSqlRowAbsent a k e p rec)"
  "gave_up k e (buildUncertainSqlEffects es recs k e p)"
  "gave_up k e (buildUncertainSqlRelational cs recs k e p)"
  "gave_up k e (buildUncertainSqlRelationalSingle c k e p)"
  "gave_up k e (buildUncertainStateWitness q k e p)"
  by (simp_all add: gave_up_def uncertain_def poll_evidence_def Let_def rollup_evidence_def
      buildUncertainSqlRow_def buildUncertainSqlRowAbsent_def buildUncertainSqlEffects_def
      buildUncertainSqlRelational_def buildUncertainSqlRelationalSingle_def
      buildUncertainStateWitness_def)

context polling_clock
begin

text \<open>A loop whose decided outputs are settled and whose fallback reports its attempts.\<close>

lemma poll_until_settles:
  assumes "\<And>w. clk w \<le> clk (snd (attempt w))"
    and "p_window p = num_of_int wnd" and "p_poll p = num_of_int d" and "1 \<le> d" and "d \<le> wnd"
    and "\<And>r w1 w2 out. attempt w1 = (Inr r, w2) \<Longrightarrow> decide r = Some out \<Longrightarrow> settled out"
    and "\<And>r k e. gave_up k e (giveup r k e)"
  shows "\<exists>res w'. poll_until tm p attempt decide giveup w = Some (res, w') \<and>
     (\<forall>out. res = Inr out \<longrightarrow> settled out
        \<or> (\<exists>k e. gave_up k e out \<and> wnd \<le> e \<and> (int k - 2) * waits d < wnd))"
proof -
  obtain res w' where run: "poll_until tm p attempt decide giveup w = Some (res, w')"
    and alt: "\<forall>out. res = Inr out \<longrightarrow>
        (\<exists>r w1 w2. attempt w1 = (Inr r, w2) \<and> decide r = Some out) \<or>
        (\<exists>r k e. decide r = None \<and> out = giveup r k e \<and> wnd \<le> e \<and> (int k - 2) * waits d < wnd)"
    using poll_until_ends [OF assms(1-5), where decide = decide and giveup = giveup and w = w] by blast
  have "settled out \<or> (\<exists>k e. gave_up k e out \<and> wnd \<le> e \<and> (int k - 2) * waits d < wnd)"
    if "res = Inr out" for out
    using alt that assms(6,7) by blast
  with run show ?thesis by blast
qed

end

section \<open>The contract of a reconcile context\<close>

text \<open>
  What the executors rely on: every reconciliation gives a coherent output (a status a
  single check can have, with reasons exactly when it is not verified).
\<close>

locale reconcile_context =
  fixes ctx :: "'w policy_context"
  assumes row_coherent: "returns coherent_output (pc_reconcileRow ctx req)"
    and absent_coherent: "returns coherent_output (pc_reconcileRowAbsent ctx areq)"
    and relational_coherent: "returns coherent_output (pc_reconcileRelationalCheck ctx c)"
    and witness_coherent: "returns coherent_output (pc_reconcileStateWitness ctx q)"
begin

lemma decided_row:
  "pc_reconcileRow ctx req w = (Inr rec, w') \<Longrightarrow> unless_missing sreq rec = Some out \<Longrightarrow> settled out"
  using row_coherent [of req]
  by (auto simp: returns_def unless_missing_def intro: settled_with_request split: if_splits)

lemma decided_relational:
  "pc_reconcileRelationalCheck ctx c w = (Inr rec, w') \<Longrightarrow> unless_missing sreq rec = Some out \<Longrightarrow> settled out"
  using relational_coherent [of c]
  by (auto simp: returns_def unless_missing_def intro: settled_with_request split: if_splits)

lemma decided_witness:
  "pc_reconcileStateWitness ctx q w = (Inr rec, w') \<Longrightarrow> unless_missing sreq rec = Some out \<Longrightarrow> settled out"
  using witness_coherent [of q]
  by (auto simp: returns_def unless_missing_def intro: settled_with_request split: if_splits)

lemma decided_absent:
  "pc_reconcileRowAbsent ctx areq w = (Inr rec, w') \<Longrightarrow> decide_absent areq rec = Some out \<Longrightarrow> settled out"
  using absent_coherent [of areq]
  by (auto simp: returns_def decide_absent_def intro: settled_with_request split: if_splits)

lemma strong_settled: "returns settled (strong_async ctx rd)"
proof -
  have one: "returns coherent_output m \<Longrightarrow> returns settled (io_with_request req m)" for req m
    by (auto simp: returns_def io_with_request_def io_bind_Inr_iff intro: settled_with_request)
  have many: "returns settled (io_bind m (\<lambda>recs. io_return (rollupMultiEffectsFromReconciledRows (f recs))))"
    "returns settled (io_bind m (\<lambda>recs. io_return (rollupSqlRelationalFromReconciled cs recs)))"
    for m :: "('a, reconcile_output list) io" and f cs
    by (rule returns_bind, simp add: settled_rollups)+
  show ?thesis
    by (cases "(ctx, rd)" rule: strong_async.cases)
      (auto simp: one many row_coherent absent_coherent relational_coherent witness_coherent
        rollupSqlRelationalAsync_def simp del: io_all.simps)
qed

end

interpretation sqlite_ctx: reconcile_context "createSqlitePolicyContext h db" for h and db :: "'w sqlite_db"
  by unfold_locales
    (simp_all add: createSqlitePolicyContext_def returns_reconcileSqlRow reconcileSqlRowAbsent_total
      reconcileRelationalSqlite_def returns_run_relational)

section \<open>Contexts that keep an invariant of the world\<close>

definition context_keeps :: "('w \<Rightarrow> bool) \<Rightarrow> 'w policy_context \<Rightarrow> bool" where
  "context_keeps I ctx \<longleftrightarrow>
     (\<forall>r. keeps I (pc_reconcileRow ctx r)) \<and> (\<forall>r. keeps I (pc_reconcileRowAbsent ctx r))
     \<and> (\<forall>c. keeps I (pc_reconcileRelationalCheck ctx c)) \<and> (\<forall>q. keeps I (pc_reconcileStateWitness ctx q))"

lemma keeps_io_with_request [keeps_intros]: "keeps I m \<Longrightarrow> keeps I (io_with_request req m)"
  unfolding io_with_request_def by (intro keeps_intros)

lemma keeps_strong_async:
  assumes "context_keeps I ctx"
  shows "keeps I (strong_async ctx rd)"
  using assms unfolding context_keeps_def
  by (cases "(ctx, rd)" rule: strong_async.cases)
    (auto simp: rollupSqlRelationalAsync_def simp del: io_all.simps intro!: keeps_intros)

lemma eventual_async_keeps:
  assumes "eventual_async rd p ctx tm w = Some (res, w')"
    and "context_keeps I ctx" and "timing_keeps I tm" and "I w"
  shows "I w'"
proof -
  have k: "keeps I (pc_reconcileRow ctx r)" "keeps I (pc_reconcileRowAbsent ctx a)"
    "keeps I (pc_reconcileRelationalCheck ctx c)" "keeps I (pc_reconcileStateWitness ctx q)"
    "keeps I (io_all (\<lambda>e. pc_reconcileRow ctx (ef_request e)) es)"
    "keeps I (io_all (pc_reconcileRelationalCheck ctx) cs)" for r a c q es cs
    using assms(2) unfolding context_keeps_def by (auto intro!: keeps_all)
  note unfold = executeSqlRowEventual_def executeSqlRowAbsentEventual_def
    executeStateWitnessEventual_def executeSqlEffectsEventual_def
    executeSqlRelationalSingleEventual_def executeSqlRelationalEventual_def
  show ?thesis
    using assms(1) poll_until_keeps [OF _ assms(3) k(1) assms(4)]
      poll_until_keeps [OF _ assms(3) k(2) assms(4)] poll_until_keeps [OF _ assms(3) k(3) assms(4)]
      poll_until_keeps [OF _ assms(3) k(4) assms(4)] poll_until_keeps [OF _ assms(3) k(5) assms(4)]
      poll_until_keeps [OF _ assms(3) k(6) assms(4)]
    by (cases "(rd, p, ctx, tm)" rule: eventual_async.cases)
      (auto simp: unfold simp del: io_all.simps)
qed

section \<open>SELECT statements only\<close>

definition is_select :: "string \<Rightarrow> bool" where
  "is_select text \<longleftrightarrow> starts_with ''SELECT '' text"

definition selects_keep :: "('w \<Rightarrow> bool) \<Rightarrow> 'w sqlite_db \<Rightarrow> bool" where
  "selects_keep I db \<longleftrightarrow>
     (\<forall>t vs. is_select t \<longrightarrow> keeps I (db_all db t vs) \<and> keeps I (db_get db t vs))"

lemma is_select_texts:
  "is_select (fst (buildSelectByIdentitySql d req))"
  "is_select (pl_countSql (buildRowAbsentSqlPlan d areq))"
  "is_select (pl_sampleSql (buildRowAbsentSqlPlan d areq))"
  "is_select (fst (buildAntiJoinSampleSql d aj))"
  by (simp_all add: is_select_def starts_with_def buildSelectByIdentitySql_def Let_def
      buildRowAbsentSqlPlan_def buildAntiJoinSampleSql_def)

lemma is_select_relational: "buildRelationalScalarSql d c = Inr (t, vs) \<Longrightarrow> is_select t"
  by (cases c)
    (auto simp: is_select_def starts_with_def related_exists_sql_def anti_join_sql_def Let_def
      aggregate_sql_def join_count_sql_def split: agg_fn.splits option.splits if_splits)

lemma keeps_reconcileSqlRow:
  assumes "selects_keep I db"
  shows "keeps I (reconcileSqlRow h db req)"
proof -
  have "is_select (fst (buildSelectByIdentitySqlSqlite req))"
    by (simp add: buildSelectByIdentitySqlSqlite_def is_select_texts)
  then have "keeps I (fetchRowsForVerification db req)"
    using assms unfolding fetchRowsForVerification_def
    by (cases "buildSelectByIdentitySqlSqlite req") (auto simp: selects_keep_def intro!: keeps_intros)
  then show ?thesis
    unfolding reconcileSqlRow_def catch_connector_def
    by (intro keeps_intros) (auto intro!: keeps_intros split: js_error.split)
qed

lemma keeps_absent_verdict:
  "keeps I sample \<Longrightarrow> keeps I (absent_verdict h req v sample)"
  by (auto simp: absent_verdict_def intro!: keeps_intros split: option.split)

lemma keeps_reconcileSqlRowAbsent:
  assumes "selects_keep I db"
  shows "keeps I (reconcileSqlRowAbsent h db req)"
  unfolding reconcileSqlRowAbsent_def Let_def catch_query_def
  by (intro keeps_intros keeps_absent_verdict)
    (use assms is_select_texts in \<open>auto simp: selects_keep_def\<close>)

lemma keeps_run_relational:
  assumes "\<And>t vs. is_select t \<Longrightarrow> keeps I (get t vs)" and "\<And>t vs. is_select t \<Longrightarrow> keeps I (q t vs)"
  shows "keeps I (run_relational h d get q c)"
proof -
  have sample: "keeps I (with_orphan_sample d q c out)" for out
  proof (cases c)
    case (AntiJoin a)
    have "is_select (fst (buildAntiJoinSampleSql d a))" by (rule is_select_texts)
    with AntiJoin assms(2) show ?thesis
      by (cases "buildAntiJoinSampleSql d a") (auto simp: with_orphan_sample_def intro!: keeps_intros)
  qed (simp_all add: with_orphan_sample_def keeps_return)
  show ?thesis
  proof (cases "buildRelationalScalarSql d c")
    case (Inl e)
    then show ?thesis by (simp add: run_relational_def keeps_def io_bind_def)
  next
    case (Inr tv)
    obtain t vs where tv: "tv = (t, vs)" by (cases tv)
    with Inr have "is_select t" by (auto dest: is_select_relational)
    then have "keeps I (get t vs)" by (rule assms(1))
    then have "keeps I (catch_query ev (io_bind (get t vs) (\<lambda>ro. with_orphan_sample d q c (f ro))))" for ev f
      unfolding catch_query_def by (intro keeps_intros sample)
    then show ?thesis
      using Inr tv by (simp add: run_relational_def io_bind_def [of "io_lift _"] keeps_def)
  qed
qed

lemma keeps_reconcileRelationalSqlite:
  assumes "selects_keep I db"
  shows "keeps I (reconcileRelationalSqlite h db c)"
  using assms unfolding reconcileRelationalSqlite_def
  by (intro keeps_run_relational) (auto simp: selects_keep_def)

lemma sqlite_context_keeps: "selects_keep I db \<Longrightarrow> context_keeps I (createSqlitePolicyContext h db)"
  by (auto simp: context_keeps_def createSqlitePolicyContext_def keeps_return
      keeps_reconcileSqlRow keeps_reconcileSqlRowAbsent keeps_reconcileRelationalSqlite)

lemma execution_keeps:
  assumes "executeVerificationWithPolicyAsync rd pol ctx tm w = Some (res, w')"
    and "context_keeps I ctx" and "timing_keeps I tm" and "I w"
  shows "I w'"
  using assms keeps_strong_async [OF assms(2)] eventual_async_keeps [OF _ assms(2,3,4)]
  by (auto simp: executeVerificationWithPolicyAsync_def keeps_def split: sum.splits if_splits)
    (metis snd_conv)

section \<open>The two entry points agree on a SQLite file\<close>

fun is_witness :: "resolved \<Rightarrow> bool" where
  "is_witness (RdWitness _) = True"
| "is_witness _ = False"

lemma strong_sync_async:
  assumes "wf_resolved rd" and "\<not> is_witness rd"
  shows "strong_sync h db rd = strong_async (createSqlitePolicyContext h db) rd"
proof -
  have checks: "io_map (reconcileRelationalSqlite h db) cs = io_all (reconcileRelationalSqlite h db) cs"
    if "list_all wf_check cs" for cs
    using that unfolding reconcileRelationalSqlite_def list_all_iff
    by (intro io_map_eq_io_all run_relational_never_throws) (auto intro: wf_check_has_sql)
  have effects: "io_map (\<lambda>e. reconcileSqlRow h db (ef_request e)) es
      = io_all (\<lambda>e. reconcileSqlRow h db (ef_request e)) es" for es
    by (intro io_map_eq_io_all reconcileSqlRow_never_throws)
  show ?thesis
    using assms
    by (cases "(h, db, rd)" rule: strong_sync.cases)
      (simp_all add: createSqlitePolicyContext_def rollupMultiEffectsSync_def
        rollupMultiEffectsFromReconciledRows_def rollupSqlRelationalSync_def
        rollupSqlRelationalAsync_def effects checks del: io_all.simps io_map.simps)
qed

section \<open>Every execution over a working clock returns\<close>

definition turns_no_clock_back :: "('a world_scheme) policy_context \<Rightarrow> bool" where
  "turns_no_clock_back ctx \<longleftrightarrow> (\<forall>c. context_keeps (\<lambda>w. c \<le> wd_clock w) ctx)"

lemma attempt_monotone:
  assumes "\<And>c. keeps (\<lambda>w. c \<le> wd_clock w) attempt"
  shows "wd_clock w \<le> wd_clock (snd (attempt w))"
  using assms [of "wd_clock w"] by (simp add: keeps_def)

lemma eventual_settles:
  assumes coh: "reconcile_context ctx" and mono: "turns_no_clock_back ctx"
    and window: "p_window p = num_of_int wnd" and poll: "p_poll p = num_of_int d"
    and d: "1 \<le> d" "d \<le> wnd"
  shows "\<exists>res w'. eventual_async rd p ctx defaultTiming w = Some (res, w') \<and>
     (\<forall>out. res = Inr out \<longrightarrow> settled out
        \<or> (\<exists>k e. gave_up k e out \<and> wnd \<le> e \<and> (int k - 2) * timer_wait d < wnd))"
proof -
  have k: "keeps (\<lambda>w. c \<le> wd_clock w) (pc_reconcileRow ctx r)"
    "keeps (\<lambda>w. c \<le> wd_clock w) (pc_reconcileRowAbsent ctx a)"
    "keeps (\<lambda>w. c \<le> wd_clock w) (pc_reconcileRelationalCheck ctx q)"
    "keeps (\<lambda>w. c \<le> wd_clock w) (pc_reconcileStateWitness ctx v)" for c r a q v
    using mono by (auto simp: turns_no_clock_back_def context_keeps_def)
  have m: "wd_clock w \<le> wd_clock (snd (pc_reconcileRow ctx r w))"
    "wd_clock w \<le> wd_clock (snd (pc_reconcileRowAbsent ctx a w))"
    "wd_clock w \<le> wd_clock (snd (pc_reconcileRelationalCheck ctx q w))"
    "wd_clock w \<le> wd_clock (snd (pc_reconcileStateWitness ctx v w))"
    "wd_clock w \<le> wd_clock (snd (io_all (\<lambda>e. pc_reconcileRow ctx (ef_request e)) es w))"
    "wd_clock w \<le> wd_clock (snd (io_all (pc_reconcileRelationalCheck ctx) cs w))" for w r a q v es cs
    by (rule attempt_monotone, (intro keeps_all)?, rule k)+
  note settle = wall.poll_until_settles [OF _ window poll d]
  note dec = reconcile_context.decided_row [OF coh] reconcile_context.decided_absent [OF coh]
    reconcile_context.decided_relational [OF coh] reconcile_context.decided_witness [OF coh]
  show ?thesis
  proof (cases rd)
    case (RdSqlRow req)
    show ?thesis
      unfolding RdSqlRow eventual_async.simps executeSqlRowEventual_def
      by (intro settle m; auto intro: dec gave_up_builders)
  next
    case (RdSqlRowAbsent req)
    show ?thesis
      unfolding RdSqlRowAbsent eventual_async.simps executeSqlRowAbsentEventual_def
      by (intro settle m; auto intro: dec gave_up_builders)
  next
    case (RdSqlEffects es)
    show ?thesis
      unfolding RdSqlEffects eventual_async.simps executeSqlEffectsEventual_def
      by (intro settle m; auto intro: settled_classified gave_up_builders)
  next
    case (RdSqlRelational cs)
    show ?thesis
    proof (cases "\<exists>c. cs = [c]")
      case True
      then obtain c where c: "cs = [c]" by blast
      show ?thesis
        unfolding RdSqlRelational c eventual_async.simps executeSqlRelationalSingleEventual_def
        by (intro settle m; auto intro: dec gave_up_builders)
    next
      case False
      then have unf: "eventual_async rd p ctx defaultTiming w = executeSqlRelationalEventual cs p ctx defaultTiming w"
        using RdSqlRelational by (cases cs rule: remdups_adj.cases) auto
      show ?thesis
        unfolding unf executeSqlRelationalEventual_def
        by (intro settle m; auto intro: settled_classified gave_up_builders)
    qed
  next
    case (RdWitness q)
    show ?thesis
      unfolding RdWitness eventual_async.simps executeStateWitnessEventual_def
      by (intro settle m; auto intro: dec gave_up_builders)
  qed
qed

end
