(* ===== verification/EventPlanning.thy ===== *)
theory EventPlanning
  imports CanonicalJson FailureCatalog "HOL-Library.AList"
begin

text \<open>
  From the captured lines to the steps to verify: reading the event file
  (\<open>src/loadEvents.ts\<close>), the sequence analysis (\<open>src/eventSequenceIntegrity.ts\<close>,
  \<open>src/prepareWorkflowEvents.ts\<close>), one logical step per sequence number
  (\<open>src/planLogicalSteps.ts\<close>) and the digest of the run
  (\<open>src/verificationRunContext.ts\<close>).
\<close>

section \<open>Logical steps\<close>

definition observationsMatchForDivergence :: "host \<Rightarrow> tool_event \<Rightarrow> tool_event \<Rightarrow> bool" where
  "observationsMatchForDivergence h a b \<longleftrightarrow> te_toolId a = te_toolId b
     \<and> canonicalJsonForParams h (te_params a) = canonicalJsonForParams h (te_params b)"

definition stableSortEventsBySeq :: "tool_event list \<Rightarrow> tool_event list" where
  "stableSortEventsBySeq = js_sort (\<lambda>a b. te_seq a - te_seq b)"

record logical_step_plan =
  lp_seq :: int
  lp_observations :: "tool_event list"
  lp_last :: tool_event
  lp_repeatObservationCount :: nat
  lp_divergent :: bool

text \<open>The map \<open>bySeq\<close>, in insertion order.\<close>

definition group_add :: "(int \<times> tool_event list) list \<Rightarrow> tool_event \<Rightarrow> (int \<times> tool_event list) list" where
  "group_add m ev =
     (case map_of m (te_seq ev) of
        Some evs \<Rightarrow> AList.update (te_seq ev) (evs @ [ev]) m
      | None \<Rightarrow> m @ [(te_seq ev, [ev])])"

definition group_by_seq :: "tool_event list \<Rightarrow> (int \<times> tool_event list) list" where
  "group_by_seq evs = foldl group_add [] evs"

definition build_plan :: "host \<Rightarrow> int \<Rightarrow> tool_event list \<Rightarrow> logical_step_plan" where
  "build_plan h s observations =
     (let final = last observations
      in \<lparr>lp_seq = s, lp_observations = observations, lp_last = final,
          lp_repeatObservationCount = length observations,
          lp_divergent = length observations \<ge> 2
            \<and> list_ex (\<lambda>e. \<not> observationsMatchForDivergence h e final) (butlast observations)\<rparr>)"

definition planLogicalSteps :: "host \<Rightarrow> tool_event list \<Rightarrow> logical_step_plan list" where
  "planLogicalSteps h events =
     (let bySeq = group_by_seq (stableSortEventsBySeq events);
          seqs = js_sort (\<lambda>a b. a - b) (map fst bySeq)
      in List.map_filter (\<lambda>s. map_option (build_plan h s) (map_of bySeq s)) seqs)"

section \<open>Sequence integrity\<close>

definition parseTimestampMs :: "host \<Rightarrow> string option \<Rightarrow> int option" where
  "parseTimestampMs h ts = (case ts of None \<Rightarrow> None | Some s \<Rightarrow> h_dateParse h s)"

text \<open>The scan for a sequence number below the largest seen (\<open>None\<close> is \<open>-Infinity\<close>).\<close>

fun capture_irregular :: "int option \<Rightarrow> tool_event list \<Rightarrow> bool" where
  "capture_irregular maxSeqSeen [] = False"
| "capture_irregular maxSeqSeen (ev # evs) =
     ((case maxSeqSeen of None \<Rightarrow> False | Some m \<Rightarrow> te_seq ev < m)
      \<or> capture_irregular (Some (case maxSeqSeen of None \<Rightarrow> te_seq ev | Some m \<Rightarrow> max m (te_seq ev))) evs)"

fun first_timestamp_drop :: "host \<Rightarrow> tool_event list \<Rightarrow> (int \<times> int) option" where
  "first_timestamp_drop h (a # b # evs) =
     (case (parseTimestampMs h (te_timestamp a), parseTimestampMs h (te_timestamp b)) of
        (Some ta, Some tb) \<Rightarrow> if ta > tb then Some (te_seq a, te_seq b) else first_timestamp_drop h (b # evs)
      | _ \<Rightarrow> first_timestamp_drop h (b # evs))"
| "first_timestamp_drop h _ = None"

definition analyzeEventSequenceIntegrity :: "host \<Rightarrow> tool_event list \<Rightarrow> event_integrity" where
  "analyzeEventSequenceIntegrity h captureOrder =
     (if captureOrder = [] then IntegrityNormal
      else
        (let reasons = (if capture_irregular None captureOrder then [eventSequenceIssue] else [])
               @ (case first_timestamp_drop h (stableSortEventsBySeq captureOrder) of
                    None \<Rightarrow> [] | Some (a, b) \<Rightarrow> [eventSequenceTimestampNotMonotonicReason a b])
         in if reasons = [] then IntegrityNormal else IntegrityIrregular reasons))"

definition prepareWorkflowEvents :: "host \<Rightarrow> tool_event list \<Rightarrow> tool_event list \<times> event_integrity" where
  "prepareWorkflowEvents h captureOrder =
     (stableSortEventsBySeq captureOrder, analyzeEventSequenceIntegrity h captureOrder)"

section \<open>Reading the event file\<close>

text \<open>\<open>raw.split(/\r?\n/)\<close>: a carriage return right before a line feed belongs to the separator.\<close>

definition strip_cr :: "string \<Rightarrow> string" where
  "strip_cr s = (if s \<noteq> [] \<and> (of_char (last s) :: nat) = 13 then butlast s else s)"

definition split_lines :: "string \<Rightarrow> string list" where
  "split_lines raw = (let parts = split_on (CHR 0x0A) raw in map strip_cr (butlast parts) @ [last parts])"

record load_result =
  ld_events :: "tool_event list"
  ld_runEvents :: "run_event list"
  ld_runLevelReasons :: "reason list"
  ld_eventSequenceIntegrity :: event_integrity
  ld_malformedEventLineCount :: nat
  ld_counts :: event_file_counts

fun as_tool_observed :: "run_event \<Rightarrow> tool_event option" where
  "as_tool_observed (ToolObserved ev) = Some ev"
| "as_tool_observed _ = None"

definition isToolObserved :: "run_event \<Rightarrow> bool" where
  "isToolObserved ev \<longleftrightarrow> event_type ev = ''tool_observed''"

text \<open>
  What a line yields: blank lines are skipped; \<open>decode\<close> is the schema validator of the
  event schema together with the reading of a valid document as a \<open>RunEvent\<close>.
\<close>

datatype line_result = BlankLine | MalformedLine | EventLine run_event

definition read_line :: "host \<Rightarrow> (jsval \<Rightarrow> run_event option) \<Rightarrow> string \<Rightarrow> line_result" where
  "read_line h decode line =
     (if js_trim line = [] then BlankLine
      else (case h_jsonParse h line of
          None \<Rightarrow> MalformedLine
        | Some parsed \<Rightarrow> (case decode parsed of None \<Rightarrow> MalformedLine | Some ev \<Rightarrow> EventLine ev)))"

text \<open>The state of the loop over the lines, and its body.\<close>

record load_acc =
  la_toolCandidates :: "tool_event list"
  la_runEvents :: "run_event list"
  la_runLevelReasons :: "reason list"
  la_malformed :: nat
  la_schemaValid :: nat
  la_requested :: nat
  la_other :: nat

definition load_step :: "string \<Rightarrow> load_acc \<Rightarrow> line_result \<Rightarrow> load_acc" where
  "load_step workflowId acc line =
     (case line of
        BlankLine \<Rightarrow> acc
      | MalformedLine \<Rightarrow>
          acc\<lparr>la_malformed := la_malformed acc + 1,
              la_runLevelReasons := la_runLevelReasons acc @ [runLevelIssue MALFORMED_EVENT_LINE]\<rparr>
      | EventLine ev \<Rightarrow>
          (let mine = event_workflowId ev = workflowId;
               acc1 = acc\<lparr>la_schemaValid := la_schemaValid acc + 1\<rparr>;
               acc2 = (if \<not> isToolObserved ev then acc1
                       else if mine then acc1\<lparr>la_requested := la_requested acc1 + 1\<rparr>
                       else acc1\<lparr>la_other := la_other acc1 + 1\<rparr>)
           in if \<not> mine then acc2
              else
                (let acc3 = acc2\<lparr>la_runEvents := la_runEvents acc2 @ [ev]\<rparr>
                 in case as_tool_observed ev of
                      None \<Rightarrow> acc3
                    | Some te \<Rightarrow> acc3\<lparr>la_toolCandidates := la_toolCandidates acc3 @ [te]\<rparr>)))"

definition load_start :: load_acc where
  "load_start = \<lparr>la_toolCandidates = [], la_runEvents = [], la_runLevelReasons = [],
     la_malformed = 0, la_schemaValid = 0, la_requested = 0, la_other = 0\<rparr>"

definition load_text ::
  "host \<Rightarrow> (jsval \<Rightarrow> run_event option) \<Rightarrow> string \<Rightarrow> string \<Rightarrow> load_result" where
  "load_text h decode workflowId raw =
     (let allLines = split_lines raw;
          acc = foldl (load_step workflowId) load_start (map (read_line h decode) allLines);
          prepared = prepareWorkflowEvents h (la_toolCandidates acc)
      in \<lparr>ld_events = fst prepared, ld_runEvents = la_runEvents acc,
          ld_runLevelReasons = la_runLevelReasons acc,
          ld_eventSequenceIntegrity = snd prepared,
          ld_malformedEventLineCount = la_malformed acc,
          ld_counts = \<lparr>ec_nonEmptyLines = length (filter (\<lambda>l. js_trim l \<noteq> []) allLines),
             ec_schemaValidEvents = la_schemaValid acc,
             ec_toolObservedRequested = la_requested acc, ec_toolObservedOther = la_other acc\<rparr>\<rparr>)"

text \<open>
  \<open>file\<close> is the outcome of reading the path. \<open>inject\<close> is the test hook
  \<open>AGENTSKEPTIC_TEST_THROW_ON_LOAD_EVENTS\<close>, which makes the second call of a process throw;
  \<open>calls\<close> is its counter.
\<close>

definition loadEventsForWorkflow ::
  "host \<Rightarrow> (jsval \<Rightarrow> run_event option) \<Rightarrow> bool \<Rightarrow> js_error + string \<Rightarrow> string \<Rightarrow> nat \<Rightarrow>
     (js_error + load_result) \<times> nat" where
  "loadEventsForWorkflow h decode inject file workflowId calls =
     (let calls' = (if inject then calls + 1 else calls)
      in if inject \<and> calls' = 2 then (Inl (JsError ''INJECTED_SECRET_MARKER''), calls')
         else (case file of
             Inl e \<Rightarrow> (Inl (TruthLayerError ''EVENTS_READ_FAILED'' (err_message e)), calls')
           | Inr raw \<Rightarrow> (Inr (load_text h decode workflowId raw), calls')))"

definition lineSignalsV3ToolObservedForWorkflow :: "jsval \<Rightarrow> string \<Rightarrow> bool" where
  "lineSignalsV3ToolObservedForWorkflow parsed workflowId \<longleftrightarrow>
     is_object parsed \<and> get_prop parsed ''workflowId'' = VStr workflowId
     \<and> get_prop parsed ''type'' = VStr ''tool_observed'' \<and> get_prop parsed ''schemaVersion'' = VInt 3
     \<and> is_object (get_prop parsed ''langgraphCheckpoint'')"

definition line_is_v3 :: "host \<Rightarrow> (jsval \<Rightarrow> run_event option) \<Rightarrow> string \<Rightarrow> string \<Rightarrow> bool" where
  "line_is_v3 h decode workflowId line \<longleftrightarrow>
     js_trim line \<noteq> [] \<and>
     (case h_jsonParse h line of
        None \<Rightarrow> False
      | Some parsed \<Rightarrow>
          (case decode parsed of
             None \<Rightarrow> lineSignalsV3ToolObservedForWorkflow parsed workflowId
           | Some ev \<Rightarrow> isToolObserved ev \<and> event_workflowId ev = workflowId \<and> event_schemaVersion ev = 3))"

definition eventsFileHasSchemaV3ToolObservedForWorkflow ::
  "host \<Rightarrow> (jsval \<Rightarrow> run_event option) \<Rightarrow> js_error + string \<Rightarrow> string \<Rightarrow> bool" where
  "eventsFileHasSchemaV3ToolObservedForWorkflow h decode file workflowId =
     (case file of Inl _ \<Rightarrow> False | Inr raw \<Rightarrow> list_ex (line_is_v3 h decode workflowId) (split_lines raw))"

section \<open>The digest of a run\<close>

definition createEmptyVerificationRunContext :: run_context where
  "createEmptyVerificationRunContext =
     \<lparr>rc_maxWireSchemaVersion = 1, rc_retrievalEvents = [], rc_controlEvents = [],
      rc_modelTurnEvents = [], rc_toolSkippedEvents = [], rc_toolObservedIngestIndexBySeq = Map.empty,
      rc_firstToolObservedIngestIndex = None, rc_hasRunCompletedControl = False, rc_lastRunEvent = None\<rparr>"

definition lastEventSummary :: "run_event list \<Rightarrow> last_run_event option" where
  "lastEventSummary evs =
     (if evs = [] then None
      else Some \<lparr>lr_ingestIndex = length evs - 1, lr_type = event_type (last evs),
             lr_modelTurnStatus = (case last evs of ModelTurn _ s _ \<Rightarrow> Some s | _ \<Rightarrow> None)\<rparr>)"

definition context_wire :: "nat \<Rightarrow> nat \<Rightarrow> nat" where
  "context_wire maxWire sv = (if sv = 2 then 2 else if sv = 3 then 3 else maxWire)"

fun context_event :: "run_context \<Rightarrow> nat \<Rightarrow> run_event \<Rightarrow> run_context" where
  "context_event c i (Retrieval eh source status _ hitCount) =
     c\<lparr>rc_retrievalEvents := rc_retrievalEvents c @ [(i, eh_runEventId eh, source, status, hitCount)]\<rparr>"
| "context_event c i (Control eh kind label decision) =
     c\<lparr>rc_hasRunCompletedControl := (rc_hasRunCompletedControl c \<or> kind = CkRunCompleted),
       rc_controlEvents := rc_controlEvents c @ [(i, eh_runEventId eh, kind, decision, label)]\<rparr>"
| "context_event c i (ModelTurn eh status _) =
     c\<lparr>rc_modelTurnEvents := rc_modelTurnEvents c @ [(i, eh_runEventId eh, status)]\<rparr>"
| "context_event c i (ToolSkipped eh toolId why) =
     c\<lparr>rc_toolSkippedEvents := rc_toolSkippedEvents c @ [(i, toolId, why)]\<rparr>"
| "context_event c i (ToolObserved ev) =
     c\<lparr>rc_toolObservedIngestIndexBySeq := (rc_toolObservedIngestIndexBySeq c)(int_str (te_seq ev) \<mapsto> i),
       rc_firstToolObservedIngestIndex :=
         (case rc_firstToolObservedIngestIndex c of
            None \<Rightarrow> Some i | Some j \<Rightarrow> if i < j then Some i else Some j)\<rparr>"

definition context_step :: "run_context \<Rightarrow> nat \<times> run_event \<Rightarrow> run_context" where
  "context_step c ie = (case ie of (i, ev) \<Rightarrow>
     context_event (c\<lparr>rc_maxWireSchemaVersion :=
       context_wire (rc_maxWireSchemaVersion c) (event_schemaVersion ev)\<rparr>) i ev)"

definition buildVerificationRunContext :: "run_event list \<Rightarrow> run_context" where
  "buildVerificationRunContext runEvents =
     (foldl context_step createEmptyVerificationRunContext (List.enumerate 0 runEvents))
       \<lparr>rc_lastRunEvent := lastEventSummary runEvents\<rparr>"

end
