(* ===== verification/EventProperties.thy ===== *)
theory EventProperties
  imports EventPlanning
begin

text \<open>
  What the planning of a run guarantees: one step per sequence number, in ascending order,
  with exactly its observations in capture order; the integrity analysis is normal exactly
  on ordered captures; every non-blank line of the event file is accounted for; and the
  digest of the run records each event at its position.
\<close>

section \<open>Sorting by sequence number\<close>

lemma stableSort_filter:
  "filter (\<lambda>e. te_seq e = s) (stableSortEventsBySeq evs) = filter (\<lambda>e. te_seq e = s) evs"
proof (cases "\<exists>k \<in> set evs. te_seq k = s")
  case True
  then obtain k :: tool_event where k: "te_seq k = s" by blast
  have eq: "(\<lambda>e. te_seq e = s) = (\<lambda>e. te_seq e - te_seq k \<le> 0 \<and> te_seq k - te_seq e \<le> 0)"
    using k by auto
  show ?thesis
    unfolding eq stableSortEventsBySeq_def by (rule byInt.sort_stable)
next
  case False
  then show ?thesis by (auto simp: stableSortEventsBySeq_def filter_empty_conv)
qed

lemma stableSort_sorted: "sorted (map te_seq (stableSortEventsBySeq evs))"
  using byInt.sort_sorted [of te_seq evs] by (simp add: stableSortEventsBySeq_def sorted_wrt_map)

lemma set_stableSort [simp]: "set (stableSortEventsBySeq evs) = set evs"
  by (simp add: stableSortEventsBySeq_def)

lemma mset_stableSort [simp]: "mset (stableSortEventsBySeq evs) = mset evs"
  by (simp add: stableSortEventsBySeq_def)

section \<open>Grouping\<close>

definition group_of :: "int \<Rightarrow> tool_event list \<Rightarrow> tool_event list option" where
  "group_of s evs = (let os = filter (\<lambda>e. te_seq e = s) evs in if os = [] then None else Some os)"

lemma map_of_append_new:
  "map_of m k = None \<Longrightarrow> map_of (m @ [(k, v)]) = (map_of m)(k \<mapsto> v)"
  by (auto simp: map_of_append map_add_def fun_eq_iff split: option.split)

lemma group_add_map_of:
  assumes "\<forall>s. map_of m s = group_of s evs"
  shows "map_of (group_add m ev) s = group_of s (evs @ [ev])"
proof (cases "map_of m (te_seq ev)")
  case None
  then have new: "map_of (m @ [(te_seq ev, [ev])]) = (map_of m)(te_seq ev \<mapsto> [ev])"
    by (rule map_of_append_new)
  from assms None have empty: "filter (\<lambda>e. te_seq e = te_seq ev) evs = []"
    by (simp add: group_of_def Let_def split: if_splits)
  from None new assms empty show ?thesis
    by (auto simp: group_add_def group_of_def Let_def)
next
  case (Some os)
  then have "os = filter (\<lambda>e. te_seq e = te_seq ev) evs" "os \<noteq> []"
    using assms by (auto simp: group_of_def Let_def split: if_splits)
  with Some assms show ?thesis
    by (auto simp: group_add_def group_of_def Let_def update_conv' filter_empty_conv)
qed

lemma map_of_group_by_seq: "map_of (group_by_seq evs) s = group_of s evs"
proof -
  have "\<forall>s. map_of (foldl group_add [] evs) s = group_of s evs"
  proof (induction evs rule: rev_induct)
    case Nil
    show ?case by (simp add: group_of_def)
  next
    case (snoc ev evs)
    then show ?case using group_add_map_of by simp
  qed
  then show ?thesis by (simp add: group_by_seq_def)
qed

lemma distinct_group_by_seq: "distinct (map fst (group_by_seq evs))"
proof -
  have step: "distinct (map fst m) \<Longrightarrow> distinct (map fst (group_add m ev))" for m ev
    by (auto simp: group_add_def distinct_update map_of_eq_None_iff split: option.split)
  have "distinct (map fst (foldl group_add [] evs))"
    by (induction evs rule: rev_induct) (auto intro: step)
  then show ?thesis by (simp add: group_by_seq_def)
qed

lemma keys_group_by_seq: "fst ` set (group_by_seq evs) = te_seq ` set evs"
proof -
  have "fst ` set (group_by_seq evs) = dom (map_of (group_by_seq evs))"
    by (rule dom_map_of_conv_image_fst [symmetric])
  also have "\<dots> = te_seq ` set evs"
    by (auto simp: dom_def map_of_group_by_seq group_of_def Let_def filter_empty_conv split: if_splits)
  finally show ?thesis .
qed

section \<open>The plan\<close>

text \<open>The specification: for each sequence number in ascending order, its observations.\<close>

definition plan_spec :: "host \<Rightarrow> tool_event list \<Rightarrow> logical_step_plan list" where
  "plan_spec h events =
     map (\<lambda>s. build_plan h s (filter (\<lambda>e. te_seq e = s) events)) (sorted_list_of_set (te_seq ` set events))"

lemma sort_keys_sorted_list_of_set:
  fixes xs :: "int list"
  assumes "distinct xs"
  shows "js_sort (\<lambda>a b. a - b) xs = sorted_list_of_set (set xs)"
proof -
  have "sorted (js_sort (\<lambda>a b. a - b) xs)"
    using byInt.sort_sorted [of "\<lambda>x. x" xs] by simp
  then have "sorted_wrt (<) (js_sort (\<lambda>a b. a - b) xs)"
    using assms by (simp add: strict_sorted_iff)
  then show ?thesis
    by (metis sorted_list_of_set.idem_if_sorted_distinct set_js_sort strict_sorted_iff)
qed

lemma map_filter_Some: "(\<And>x. x \<in> set xs \<Longrightarrow> f x = Some (g x)) \<Longrightarrow> List.map_filter f xs = map g xs"
  by (induction xs) (simp_all add: map_filter_simps)

lemma plan_is_spec: "planLogicalSteps h events = plan_spec h events"
proof -
  let ?m = "group_by_seq (stableSortEventsBySeq events)"
  let ?S = "te_seq ` set events"
  have keys: "js_sort (\<lambda>a b. a - b) (map fst ?m) = sorted_list_of_set ?S"
    using sort_keys_sorted_list_of_set [OF distinct_group_by_seq] keys_group_by_seq
    by (metis list.set_map set_stableSort)
  have grp: "map_of ?m s = Some (filter (\<lambda>e. te_seq e = s) events)" if "s \<in> ?S" for s
    using that
    by (auto simp: map_of_group_by_seq group_of_def Let_def stableSort_filter filter_empty_conv)
  have "List.map_filter (\<lambda>s. map_option (build_plan h s) (map_of ?m s)) (sorted_list_of_set ?S)
      = map (\<lambda>s. build_plan h s (filter (\<lambda>e. te_seq e = s) events)) (sorted_list_of_set ?S)"
    by (rule map_filter_Some) (simp add: grp)
  then show ?thesis
    by (simp add: planLogicalSteps_def plan_spec_def Let_def keys)
qed

lemma build_plan_sel [simp]:
  "lp_seq (build_plan h s os) = s" "lp_observations (build_plan h s os) = os"
  "lp_last (build_plan h s os) = last os" "lp_repeatObservationCount (build_plan h s os) = length os"
  by (simp_all add: build_plan_def Let_def)

lemma plan_seqs: "map lp_seq (planLogicalSteps h events) = sorted_list_of_set (te_seq ` set events)"
  by (simp add: plan_is_spec plan_spec_def comp_def)

lemma plan_member:
  assumes "p \<in> set (planLogicalSteps h events)"
  shows "lp_observations p = filter (\<lambda>e. te_seq e = lp_seq p) events" "lp_observations p \<noteq> []"
    "lp_last p = last (lp_observations p)" "lp_repeatObservationCount p = length (lp_observations p)"
    "lp_divergent p \<longleftrightarrow> (\<exists>e \<in> set (lp_observations p). \<not> observationsMatchForDivergence h e (lp_last p))"
proof -
  obtain s where s: "s \<in> te_seq ` set events"
    and p: "p = build_plan h s (filter (\<lambda>e. te_seq e = s) events)"
    using assms by (auto simp: plan_is_spec plan_spec_def)
  let ?os = "filter (\<lambda>e. te_seq e = s) events"
  have ne: "?os \<noteq> []" using s by (auto simp: filter_empty_conv)
  show "lp_observations p = filter (\<lambda>e. te_seq e = lp_seq p) events" "lp_observations p \<noteq> []"
    "lp_last p = last (lp_observations p)" "lp_repeatObservationCount p = length (lp_observations p)"
    using ne by (simp_all add: p)
  have refl: "observationsMatchForDivergence h (last ?os) (last ?os)"
    by (simp add: observationsMatchForDivergence_def)
  have split: "set ?os = insert (last ?os) (set (butlast ?os))"
    using ne by (metis append_butlast_last_id list.simps(15) rotate1.simps(2) set_rotate1)
  have short: "butlast ?os \<noteq> [] \<longleftrightarrow> 2 \<le> length ?os"
    using ne by (cases ?os rule: remdups_adj.cases) auto
  have "lp_divergent p \<longleftrightarrow> (\<exists>e \<in> set (butlast ?os). \<not> observationsMatchForDivergence h e (last ?os))"
    using short by (auto simp: p build_plan_def Let_def list_ex_iff simp del: set_filter)
  also have "\<dots> \<longleftrightarrow> (\<exists>e \<in> set ?os. \<not> observationsMatchForDivergence h e (last ?os))"
    unfolding split using refl by blast
  finally show "lp_divergent p \<longleftrightarrow> (\<exists>e \<in> set (lp_observations p). \<not> observationsMatchForDivergence h e (lp_last p))"
    by (simp add: p)
qed

section \<open>Integrity\<close>

lemma capture_irregular_Some:
  "capture_irregular (Some m) evs \<longleftrightarrow> \<not> sorted (m # map te_seq evs)"
proof (induction evs arbitrary: m)
  case Nil
  show ?case by simp
next
  case (Cons ev evs)
  show ?case
  proof (cases "te_seq ev < m")
    case True
    then show ?thesis by auto
  next
    case False
    then have "m \<le> te_seq ev" "max m (te_seq ev) = te_seq ev" by simp_all
    with False Cons.IH [of "te_seq ev"] show ?thesis by (auto intro: order_trans)
  qed
qed

lemma capture_irregular_None: "capture_irregular None evs \<longleftrightarrow> \<not> sorted (map te_seq evs)"
  by (cases evs) (simp_all add: capture_irregular_Some)

text \<open>A drop: two neighbours in sequence order with readable, decreasing timestamps.\<close>

definition timestamp_drop :: "host \<Rightarrow> tool_event \<Rightarrow> tool_event \<Rightarrow> bool" where
  "timestamp_drop h a b \<longleftrightarrow> (\<exists>ta tb. parseTimestampMs h (te_timestamp a) = Some ta
     \<and> parseTimestampMs h (te_timestamp b) = Some tb \<and> tb < ta)"

lemma first_timestamp_drop_None:
  "first_timestamp_drop h evs = None \<longleftrightarrow>
     (\<forall>i. Suc i < length evs \<longrightarrow> \<not> timestamp_drop h (evs ! i) (evs ! Suc i))"
proof (induction evs rule: induct_list012)
  case (3 a b evs)
  have idx: "(\<forall>i. Suc i < length (a # b # evs) \<longrightarrow> P ((a # b # evs) ! i) ((a # b # evs) ! Suc i))
      \<longleftrightarrow> P a b \<and> (\<forall>i. Suc i < length (b # evs) \<longrightarrow> P ((b # evs) ! i) ((b # evs) ! Suc i))" for P
  proof (intro iffI conjI allI impI)
    assume all: "\<forall>i. Suc i < length (a # b # evs) \<longrightarrow> P ((a # b # evs) ! i) ((a # b # evs) ! Suc i)"
    from all [rule_format, of 0] show "P a b" by simp
    fix i assume "Suc i < length (b # evs)"
    with all [rule_format, of "Suc i"] show "P ((b # evs) ! i) ((b # evs) ! Suc i)" by simp
  next
    fix i assume "P a b \<and> (\<forall>i. Suc i < length (b # evs) \<longrightarrow> P ((b # evs) ! i) ((b # evs) ! Suc i))"
      and "Suc i < length (a # b # evs)"
    then show "P ((a # b # evs) ! i) ((a # b # evs) ! Suc i)" by (cases i) auto
  qed
  show ?case
  proof (cases "timestamp_drop h a b")
    case True
    then have "first_timestamp_drop h (a # b # evs) \<noteq> None" by (auto simp: timestamp_drop_def)
    with True idx [of "\<lambda>x y. \<not> timestamp_drop h x y"] show ?thesis by blast
  next
    case False
    then have "first_timestamp_drop h (a # b # evs) = first_timestamp_drop h (b # evs)"
      by (auto simp: timestamp_drop_def split: option.split)
    with False 3(2) idx [of "\<lambda>x y. \<not> timestamp_drop h x y"] show ?thesis by presburger
  qed
qed simp_all

lemma integrity_normal_iff:
  "analyzeEventSequenceIntegrity h evs = IntegrityNormal \<longleftrightarrow>
     sorted (map te_seq evs) \<and>
     (let os = stableSortEventsBySeq evs
      in \<forall>i. Suc i < length os \<longrightarrow> \<not> timestamp_drop h (os ! i) (os ! Suc i))"
  by (auto simp: analyzeEventSequenceIntegrity_def capture_irregular_None Let_def
      first_timestamp_drop_None [symmetric] stableSortEventsBySeq_def split: option.splits)

section \<open>Loading\<close>

text \<open>The totals of the loop, from the classified lines.\<close>

definition load_events_of :: "line_result list \<Rightarrow> run_event list" where
  "load_events_of ls = List.map_filter (\<lambda>l. case l of EventLine ev \<Rightarrow> Some ev | _ \<Rightarrow> None) ls"

definition load_inv :: "string \<Rightarrow> line_result list \<Rightarrow> load_acc \<Rightarrow> bool" where
  "load_inv wid ls acc \<longleftrightarrow>
     la_schemaValid acc = length (load_events_of ls)
     \<and> la_malformed acc = length (filter ((=) MalformedLine) ls)
     \<and> la_runLevelReasons acc = replicate (la_malformed acc) (runLevelIssue MALFORMED_EVENT_LINE)
     \<and> la_runEvents acc = filter (\<lambda>e. event_workflowId e = wid) (load_events_of ls)
     \<and> la_toolCandidates acc = List.map_filter as_tool_observed (la_runEvents acc)
     \<and> la_requested acc = length (la_toolCandidates acc)
     \<and> la_requested acc + la_other acc = length (filter isToolObserved (load_events_of ls))"

lemma load_events_of_snoc [simp]:
  "load_events_of (ls @ [BlankLine]) = load_events_of ls"
  "load_events_of (ls @ [MalformedLine]) = load_events_of ls"
  "load_events_of (ls @ [EventLine ev]) = load_events_of ls @ [ev]"
  by (simp_all add: load_events_of_def map_filter_def)

lemma as_tool_observed_iff: "isToolObserved ev \<longleftrightarrow> as_tool_observed ev \<noteq> None"
  by (cases ev) (simp_all add: isToolObserved_def)

lemma map_filter_snoc: "List.map_filter f (xs @ [x]) = List.map_filter f xs @ (case f x of None \<Rightarrow> [] | Some y \<Rightarrow> [y])"
  by (simp add: map_filter_def split: option.split)

lemma load_inv_step: "load_inv wid ls acc \<Longrightarrow> load_inv wid (ls @ [l]) (load_step wid acc l)"
  by (cases l)
    (auto simp: load_inv_def load_step_def Let_def replicate_append_same as_tool_observed_iff
      map_filter_snoc split: option.split)

lemma load_inv_all: "load_inv wid ls (foldl (load_step wid) load_start ls)"
proof (induction ls rule: rev_induct)
  case Nil
  show ?case by (simp add: load_inv_def load_start_def load_events_of_def map_filter_def)
next
  case (snoc l ls)
  then show ?case by (simp add: load_inv_step)
qed

lemma read_line_blank: "read_line h decode l = BlankLine \<longleftrightarrow> js_trim l = []"
  by (auto simp: read_line_def split: option.split)

lemma line_partition:
  "length (filter (\<lambda>l. l \<noteq> BlankLine) ls) = length (filter ((=) MalformedLine) ls) + length (load_events_of ls)"
proof (induction ls rule: rev_induct)
  case Nil
  show ?case by (simp add: load_events_of_def map_filter_def)
next
  case (snoc l ls)
  then show ?case by (cases l) simp_all
qed

lemma load_text_accounts:
  fixes h decode raw wid
  defines "r \<equiv> load_text h decode wid raw"
  shows "ec_nonEmptyLines (ld_counts r) = ld_malformedEventLineCount r + ec_schemaValidEvents (ld_counts r)"
    and "ld_runLevelReasons r = replicate (ld_malformedEventLineCount r) (runLevelIssue MALFORMED_EVENT_LINE)"
    and "ld_events r = stableSortEventsBySeq (List.map_filter as_tool_observed (ld_runEvents r))"
    and "ec_toolObservedRequested (ld_counts r) = length (ld_events r)"
    and "\<forall>e \<in> set (ld_runEvents r). event_workflowId e = wid"
proof -
  let ?ls = "map (read_line h decode) (split_lines raw)"
  have inv: "load_inv wid ?ls (foldl (load_step wid) load_start ?ls)" by (rule load_inv_all)
  have "length (filter (\<lambda>l. js_trim l \<noteq> []) (split_lines raw)) = length (filter (\<lambda>l. l \<noteq> BlankLine) ?ls)"
    by (simp add: filter_map comp_def read_line_blank)
  with inv line_partition [of ?ls]
  show "ec_nonEmptyLines (ld_counts r) = ld_malformedEventLineCount r + ec_schemaValidEvents (ld_counts r)"
    by (simp add: r_def load_text_def Let_def load_inv_def)
  show "ld_runLevelReasons r = replicate (ld_malformedEventLineCount r) (runLevelIssue MALFORMED_EVENT_LINE)"
    "ld_events r = stableSortEventsBySeq (List.map_filter as_tool_observed (ld_runEvents r))"
    "ec_toolObservedRequested (ld_counts r) = length (ld_events r)"
    "\<forall>e \<in> set (ld_runEvents r). event_workflowId e = wid"
    using inv by (simp_all add: r_def load_text_def Let_def load_inv_def prepareWorkflowEvents_def
        stableSortEventsBySeq_def)
qed

section \<open>The digest\<close>

lemma context_fold:
  "foldl context_step createEmptyVerificationRunContext (List.enumerate 0 (evs @ [ev]))
     = context_step (foldl context_step createEmptyVerificationRunContext (List.enumerate 0 evs)) (length evs, ev)"
  by (simp add: enumerate_append_eq)

lemma context_event_wire [simp]:
  "rc_maxWireSchemaVersion (context_event c i ev) = rc_maxWireSchemaVersion c"
  by (cases ev) simp_all

lemma context_step_wire [simp]:
  "rc_maxWireSchemaVersion (context_step c (i, ev))
     = context_wire (rc_maxWireSchemaVersion c) (event_schemaVersion ev)"
  by (simp add: context_step_def)

lemma context_step_index [simp]:
  "rc_toolObservedIngestIndexBySeq (context_step c (i, ev))
     = (case ev of ToolObserved te \<Rightarrow> (rc_toolObservedIngestIndexBySeq c)(int_str (te_seq te) \<mapsto> i)
        | _ \<Rightarrow> rc_toolObservedIngestIndexBySeq c)"
  by (cases ev) (simp_all add: context_step_def)

lemma wire_schemaVersion_cases: "wire_schemaVersion v \<in> {1, 2, 3}"
  by (cases v) simp_all

lemma event_schemaVersion_cases: "event_schemaVersion ev \<in> {1, 2, 3}"
  using wire_schemaVersion_cases by (cases ev) simp_all

lemma last_version:
  "(case fs @ [ev] of [] \<Rightarrow> 1 | g # gs \<Rightarrow> event_schemaVersion (last (g # gs))) = event_schemaVersion ev"
  by (cases fs) auto

text \<open>The recorded wire version is that of the last event that is not version 1.\<close>

lemma context_wire_last:
  "rc_maxWireSchemaVersion (buildVerificationRunContext evs)
     = (case filter (\<lambda>e. event_schemaVersion e \<noteq> 1) evs of [] \<Rightarrow> 1 | fs \<Rightarrow> event_schemaVersion (last fs))"
proof -
  have "rc_maxWireSchemaVersion (foldl context_step createEmptyVerificationRunContext (List.enumerate 0 evs))
     = (case filter (\<lambda>e. event_schemaVersion e \<noteq> 1) evs of [] \<Rightarrow> 1 | fs \<Rightarrow> event_schemaVersion (last fs))"
  proof (induction evs rule: rev_induct)
    case Nil
    show ?case by (simp add: createEmptyVerificationRunContext_def)
  next
    case (snoc ev evs)
    show ?case
    proof (cases "event_schemaVersion ev = 1")
      case True
      then show ?thesis unfolding context_fold using snoc by (simp add: context_wire_def)
    next
      case False
      then have "context_wire m (event_schemaVersion ev) = event_schemaVersion ev" for m
        using event_schemaVersion_cases [of ev] by (auto simp: context_wire_def)
      moreover have "filter (\<lambda>e. event_schemaVersion e \<noteq> 1) (evs @ [ev])
          = filter (\<lambda>e. event_schemaVersion e \<noteq> 1) evs @ [ev]" using False by simp
      ultimately show ?thesis
        unfolding context_fold by (simp only: context_step_wire last_version)
    qed
  qed
  then show ?thesis by (simp add: buildVerificationRunContext_def)
qed

text \<open>Each tool observation's sequence number maps to its last position; the first is recorded.\<close>

definition last_index :: "run_event list \<Rightarrow> int \<Rightarrow> nat option" where
  "last_index evs s =
     (case filter (\<lambda>(i, e). \<exists>te. e = ToolObserved te \<and> te_seq te = s) (List.enumerate 0 evs) of
        [] \<Rightarrow> None | fs \<Rightarrow> Some (fst (last fs)))"

lemma context_index:
  "rc_toolObservedIngestIndexBySeq (buildVerificationRunContext evs) (int_str s) = last_index evs s"
proof -
  have "rc_toolObservedIngestIndexBySeq (foldl context_step createEmptyVerificationRunContext
      (List.enumerate 0 evs)) (int_str s) = last_index evs s"
  proof (induction evs rule: rev_induct)
    case Nil
    show ?case by (simp add: createEmptyVerificationRunContext_def last_index_def)
  next
    case (snoc ev evs)
    show ?case
      unfolding context_fold using snoc
      by (cases ev)
        (auto simp: last_index_def enumerate_append_eq split: list.split dest: int_str_inj)
  qed
  then show ?thesis by (simp add: buildVerificationRunContext_def)
qed

end
