(* ===== verification/Connections.thy ===== *)
theory Connections
  imports RelationalInvariant
begin

text \<open>
  Opening a verification database (\<open>src/verificationConnections.ts\<close>,
  \<open>connectPostgresVerificationClient\<close> of \<open>src/sqlReadBackend.ts\<close>). The drivers are
  parameters: how a client is made, connected and ended.
\<close>

record 'w client =
  cl_connect :: "('w, unit) io"
  cl_query :: "'w query"
  cl_end :: "('w, unit) io"

record 'w drivers =
  dr_pgClient :: "string \<Rightarrow> 'w client"
  dr_mysqlPool :: "string \<Rightarrow> ('w, 'w client) io"

record 'w sql_target =
  tg_sqlRead :: "'w sql_read_backend"
  tg_reconcileRelationalCheck :: "relational_check \<Rightarrow> ('w, reconcile_output) io"
  tg_close :: "('w, unit) io"

datatype verification_database = VerificationDatabase (vd_kind: database_kind) (vd_location: string)

definition READ_ONLY_GUARD :: string where
  "READ_ONLY_GUARD = ''SET SESSION CHARACTERISTICS AS TRANSACTION READ ONLY''"

definition applyPostgresVerificationSessionGuards :: "'w client \<Rightarrow> ('w, unit) io" where
  "applyPostgresVerificationSessionGuards c =
     io_bind (cl_query c READ_ONLY_GUARD []) (\<lambda>_. io_return ())"

text \<open>\<open>try { m } catch {}\<close>.\<close>

definition io_ignore :: "('w, unit) io \<Rightarrow> ('w, unit) io" where
  "io_ignore m = io_catch m (\<lambda>_. io_return ())"

definition connectPostgresVerificationClient ::
  "'w drivers \<Rightarrow> string \<Rightarrow> ('w, 'w client) io" where
  "connectPostgresVerificationClient dr connectionString =
     (let c = dr_pgClient dr connectionString
      in io_bind (cl_connect c) (\<lambda>_.
         io_bind (io_catch
             (io_bind (applyPostgresVerificationSessionGuards c) (\<lambda>_.
                io_bind (cl_query c ''SELECT 1'' []) (\<lambda>_. io_return ())))
             (\<lambda>e. io_bind (io_ignore (cl_end c)) (\<lambda>_. io_throw e)))
           (\<lambda>_. io_return c)))"

definition connector_not_shipped :: "string \<Rightarrow> js_error" where
  "connector_not_shipped kind = TruthLayerError ''VERIFICATION_CONNECTOR_NOT_SHIPPED''
     (''Verification connector '' @ [CHR 0x22] @ kind @ [CHR 0x22] @ '' is not shipped in this package build.'')"

definition buildSelectByIdentitySqlMysql :: "row_request \<Rightarrow> string \<times> string list" where
  "buildSelectByIdentitySqlMysql = buildSelectByIdentitySql Mysql"

definition mysql_backend :: "host \<Rightarrow> 'w query \<Rightarrow> 'w sql_read_backend" where
  "mysql_backend h q =
     \<lparr>sb_fetchRows = (\<lambda>req. case buildSelectByIdentitySqlMysql req of (text, values) \<Rightarrow>
        io_catch (io_bind (q text values) (\<lambda>rows. io_return (map lower_row rows)))
          (\<lambda>e. io_throw (ConnectorError (err_message e)))),
      sb_reconcileRowAbsent = executeRowAbsentRemote h Mysql q\<rparr>"

text \<open>A SQLite location never reaches this function: it is the one kind it does not support.\<close>

definition openVerificationSqlTarget ::
  "host \<Rightarrow> 'w drivers \<Rightarrow> verification_database \<Rightarrow> ('w, 'w sql_target) io" where
  "openVerificationSqlTarget h dr db =
     (case vd_kind db of
        DbBigquery \<Rightarrow> io_throw (connector_not_shipped ''bigquery'')
      | DbSqlserver \<Rightarrow> io_throw (connector_not_shipped ''sqlserver'')
      | DbPostgres \<Rightarrow>
          io_bind (connectPostgresVerificationClient dr (vd_location db)) (\<lambda>c.
            io_return \<lparr>tg_sqlRead = createPostgresSqlReadBackend h (cl_query c),
              tg_reconcileRelationalCheck = reconcileRelationalPostgres h (cl_query c),
              tg_close = io_ignore (cl_end c)\<rparr>)
      | DbMysql \<Rightarrow>
          io_bind (dr_mysqlPool dr (vd_location db)) (\<lambda>c.
            io_return \<lparr>tg_sqlRead = mysql_backend h (cl_query c),
              tg_reconcileRelationalCheck = reconcileRelationalMysql2 h (cl_query c),
              tg_close = cl_end c\<rparr>)
      | DbSqlite \<Rightarrow> io_throw (JsError ''openVerificationSqlTarget: unsupported database kind sqlite''))"

section \<open>What an opened target guarantees\<close>

text \<open>
  The fetch functions of the three connectors wrap every failure in a \<open>ConnectorError\<close>,
  which \<open>reconcileSqlRowAsync\<close> turns into an incomplete verification.
\<close>

definition fetch_wraps :: "'w sql_read_backend \<Rightarrow> bool" where
  "fetch_wraps b \<longleftrightarrow>
     (\<forall>req w e w'. sb_fetchRows b req w = (Inl e, w') \<longrightarrow> (\<exists>msg. e = ConnectorError msg))"

lemma backends_wrap:
  "fetch_wraps (createPostgresSqlReadBackend h q)" "fetch_wraps (mysql_backend h q)"
  by (auto simp: fetch_wraps_def createPostgresSqlReadBackend_def mysql_backend_def io_catch_def
      split: prod.splits sum.splits)

lemma backends_absent_coherent:
  "returns coherent_output (sb_reconcileRowAbsent (createPostgresSqlReadBackend h q) req)"
  "returns coherent_output (sb_reconcileRowAbsent (mysql_backend h q) req)"
  by (simp_all add: createPostgresSqlReadBackend_def mysql_backend_def executeRowAbsentPostgres_def
      executeRowAbsentRemote_total)

lemma reconcileSqlRowAsync_coherent: "returns coherent_output (reconcileSqlRowAsync h b req)"
  unfolding reconcileSqlRowAsync_def catch_connector_def
  by (rule returns_catch)
    (auto simp: coherent_reconcileFromRows intro!: returns_bind split: js_error.split)

lemma reconcileSqlRowAsync_never_throws:
  assumes "fetch_wraps b"
  shows "never_throws (reconcileSqlRowAsync h b req)"
  unfolding never_throws_def
proof
  fix w
  obtain r w' where m: "sb_fetchRows b req w = (r, w')" by (cases "sb_fetchRows b req w")
  show "\<exists>x w'. reconcileSqlRowAsync h b req w = (Inr x, w')"
  proof (cases r)
    case (Inl e)
    with assms m obtain msg where "e = ConnectorError msg" unfolding fetch_wraps_def by metis
    with m Inl show ?thesis
      by (simp add: reconcileSqlRowAsync_def catch_connector_def io_catch_def io_bind_def)
  next
    case (Inr rows)
    with m show ?thesis
      by (simp add: reconcileSqlRowAsync_def catch_connector_def io_catch_def io_bind_def)
  qed
qed

lemma openVerificationSqlTarget_coherent:
  assumes "openVerificationSqlTarget h dr db w = (Inr tg, w')"
  shows "returns coherent_output (sb_reconcileRowAbsent (tg_sqlRead tg) req)"
    and "returns coherent_output (tg_reconcileRelationalCheck tg c)"
    and "fetch_wraps (tg_sqlRead tg)"
proof -
  have "\<exists>q. tg_sqlRead tg = createPostgresSqlReadBackend h q
        \<and> tg_reconcileRelationalCheck tg = reconcileRelationalPostgres h q
      \<or> tg_sqlRead tg = mysql_backend h q \<and> tg_reconcileRelationalCheck tg = reconcileRelationalMysql2 h q"
    using assms
    by (cases "vd_kind db") (auto simp: openVerificationSqlTarget_def io_bind_Inr_iff)
  then obtain q where "tg_sqlRead tg = createPostgresSqlReadBackend h q
        \<and> tg_reconcileRelationalCheck tg = reconcileRelationalPostgres h q
      \<or> tg_sqlRead tg = mysql_backend h q \<and> tg_reconcileRelationalCheck tg = reconcileRelationalMysql2 h q" ..
  then show "returns coherent_output (sb_reconcileRowAbsent (tg_sqlRead tg) req)"
    "returns coherent_output (tg_reconcileRelationalCheck tg c)" "fetch_wraps (tg_sqlRead tg)"
    by (auto simp: backends_wrap backends_absent_coherent reconcileRelationalPostgres_def
        reconcileRelationalMysql2_def reconcileRelationalQuery_def returns_run_relational)
qed

text \<open>A Postgres client is handed out only after the read-only guard and a probe ran on it.\<close>

lemma connect_runs_guard:
  assumes "connectPostgresVerificationClient dr s w = (Inr c, w')"
  shows "\<exists>w1 w2 r1 r2. cl_connect c w = (Inr (), w1) \<and> cl_query c READ_ONLY_GUARD [] w1 = (Inr r1, w2)
    \<and> cl_query c ''SELECT 1'' [] w2 = (Inr r2, w') \<and> c = dr_pgClient dr s"
proof -
  have rethrow: "io_catch m (\<lambda>e. io_bind f (\<lambda>_. io_throw e)) w1 = (Inr x, w2) \<Longrightarrow> m w1 = (Inr x, w2)"
    for m :: "('a, unit) io" and f :: "('a, unit) io" and x w1 w2
    by (auto simp: io_catch_def io_bind_def split: prod.splits sum.splits)
  obtain w1 where conn: "cl_connect (dr_pgClient dr s) w = (Inr (), w1)"
    and guarded: "io_bind (applyPostgresVerificationSessionGuards (dr_pgClient dr s)) (\<lambda>_.
        io_bind (cl_query (dr_pgClient dr s) ''SELECT 1'' []) (\<lambda>_. io_return ())) w1 = (Inr (), w')"
    and c: "c = dr_pgClient dr s"
    using assms
    by (auto simp: connectPostgresVerificationClient_def Let_def io_bind_Inr_iff [where f = "\<lambda>_. io_bind _ _"]
        io_bind_Inr_iff [where f = "\<lambda>_. io_return _"] dest!: rethrow)
  from conn guarded c show ?thesis
    by (auto simp: io_bind_Inr_iff applyPostgresVerificationSessionGuards_def)
qed

end
