(* ===== verification/StateWitness.thy ===== *)
theory StateWitness
  imports Reconciler JsonPaths
begin

text \<open>
  Witnesses outside SQL (\<open>src/stateWitness.ts\<close>): a vector index, an object store, an HTTP
  endpoint, a MongoDB document. The services, the environment variables, the URL parser and
  the hash are parameters. The empty-set sign of one message is written \<open>(none)\<close>.
\<close>

section \<open>What the witnesses use of the outside\<close>

record http_call =
  hc_method :: string
  hc_url :: string
  hc_headers :: "(string \<times> string) list"
  hc_body :: "string option"

record http_response =
  hr_status :: int
  hr_text :: "js_error + string"

text \<open>The fields of a thrown value that \<open>isAwsObjectNotFound\<close> and \<open>errMessage\<close> read.\<close>

record aws_error =
  ae_name :: "string option"
  ae_Code :: "string option"
  ae_code :: "string option"
  ae_httpStatusCode :: "int option"
  ae_message :: string

record head_output =
  ho_ContentLength :: "jsnum option"
  ho_ETag :: "string option"

text \<open>The body of a fetched object: none or unreadable, a failing read, or its bytes.\<close>

record get_output =
  go_Body :: "(aws_error + string) option"

record s3_target =
  st_region :: string
  st_endpoint :: "string option"
  st_bucket :: string
  st_key :: string

record 'w witness_env =
  we_env :: "string \<Rightarrow> string option"
  we_urlProtocol :: "string \<Rightarrow> string option"
  we_encodeURIComponent :: "string \<Rightarrow> string"
  we_fetch :: "http_call \<Rightarrow> nat \<Rightarrow> ('w, http_response) io"
  we_headObject :: "s3_target \<Rightarrow> nat \<Rightarrow> 'w \<Rightarrow> (aws_error + head_output) \<times> 'w"
  we_getObject :: "s3_target \<Rightarrow> nat \<Rightarrow> 'w \<Rightarrow> (aws_error + get_output) \<times> 'w"
  we_sha256hex :: "string \<Rightarrow> string"
  we_mongoConnect :: "string \<Rightarrow> ('w, unit) io"
  we_mongoFindOne :: "string \<Rightarrow> jsval \<Rightarrow> ('w, jsval) io"
  we_mongoClose :: "('w, unit) io"

section \<open>Shared helpers\<close>

definition setupError :: "string \<Rightarrow> reconcile_output" where
  "setupError msg = mk_output IncompleteVerification [mk_reason ''STATE_WITNESS_SETUP_ERROR'' msg] []"

text \<open>\<open>fetch\<close> aborted after the deadline.\<close>

definition fetchWithDeadline :: "'w witness_env \<Rightarrow> http_call \<Rightarrow> nat \<Rightarrow> ('w, http_response) io" where
  "fetchWithDeadline env call deadlineMs = we_fetch env call deadlineMs"

definition isAbsoluteHttpOrHttps :: "'w witness_env \<Rightarrow> string \<Rightarrow> bool" where
  "isAbsoluteHttpOrHttps env s \<longleftrightarrow>
     we_urlProtocol env s = Some ''http:'' \<or> we_urlProtocol env s = Some ''https:''"

definition vectorProviderBaseFromHost :: "'w witness_env \<Rightarrow> string \<Rightarrow> string" where
  "vectorProviderBaseFromHost env hostname =
     (let t = js_trim hostname in if isAbsoluteHttpOrHttps env t then t else ''https://'' @ t)"

definition strip_slash :: "string \<Rightarrow> string" where
  "strip_slash s = (if s \<noteq> [] \<and> last s = CHR ''/'' then butlast s else s)"

definition response_ok :: "http_response \<Rightarrow> bool" where
  "response_ok r \<longleftrightarrow> 200 \<le> hr_status r \<and> hr_status r \<le> 299"

text \<open>\<open>v[k]\<close> with the elements of an array and the characters of a string.\<close>

fun get_member :: "jsval \<Rightarrow> string \<Rightarrow> jsval" where
  "get_member (VArr xs) k =
     (if k = ''length'' then VInt (int (length xs))
      else (case array_index k (length xs) of Some i \<Rightarrow> xs ! i | None \<Rightarrow> inherited k))"
| "get_member (VStr s) k =
     (if k = ''length'' then VInt (int (length s))
      else (case array_index k (length s) of Some i \<Rightarrow> VStr [s ! i] | None \<Rightarrow> inherited k))"
| "get_member v k = get_prop v k"

definition js_truthy :: "jsval \<Rightarrow> bool" where
  "js_truthy v = (case v of
       VUndef \<Rightarrow> False | VNull \<Rightarrow> False | VBool b \<Rightarrow> b
     | VNum n \<Rightarrow> \<not> num_eq n (num_of_int 0) \<and> n \<noteq> NaN | VStr s \<Rightarrow> s \<noteq> []
     | VBig i \<Rightarrow> i \<noteq> 0 | _ \<Rightarrow> True)"

text \<open>\<open>v.k\<close>, which throws on \<open>null\<close> and \<open>undefined\<close>; \<open>v?.[k]\<close>, which does not.\<close>

definition read_member :: "jsval \<Rightarrow> string \<Rightarrow> js_error + jsval" where
  "read_member v k =
     (if nullish v
      then Inl (JsTypeError (''Cannot read properties of '' @ (if v = VNull then ''null'' else ''undefined'')
             @ '' (reading '' @ CHR 0x27 # k @ CHR 0x27 # '')''))
      else Inr (get_member v k))"

definition optional_member :: "jsval \<Rightarrow> string \<Rightarrow> jsval" where
  "optional_member v k = (if nullish v then VUndef else get_member v k)"

text \<open>\<open>r.json()\<close>.\<close>

definition response_json :: "host \<Rightarrow> http_response \<Rightarrow> js_error + jsval" where
  "response_json h r = throws_bind (hr_text r) (\<lambda>text.
     case h_jsonParse h text of None \<Rightarrow> Inl (JsError ''invalid JSON'') | Some v \<Rightarrow> Inr v)"

definition json_body :: "host \<Rightarrow> jsval \<Rightarrow> string option" where
  "json_body h v = json_text h v"

section \<open>Vector indexes\<close>

definition provider_name :: "vector_provider \<Rightarrow> string" where
  "provider_name p = (case p of Pinecone \<Rightarrow> ''pinecone'' | Weaviate \<Rightarrow> ''weaviate'' | Chroma \<Rightarrow> ''chroma'')"

definition provider_host_env :: "vector_provider \<Rightarrow> string" where
  "provider_host_env p = (case p of Pinecone \<Rightarrow> ''PINECONE_INDEX_HOST'' | Weaviate \<Rightarrow> ''WEAVIATE_HOST''
     | Chroma \<Rightarrow> ''CHROMA_HOST'')"

definition provider_api_key :: "'w witness_env \<Rightarrow> vector_provider \<Rightarrow> string option" where
  "provider_api_key env p =
     (case p of
        Pinecone \<Rightarrow> we_env env ''PINECONE_API_KEY''
      | Weaviate \<Rightarrow> we_env env ''WEAVIATE_API_KEY''
      | Chroma \<Rightarrow> (case we_env env ''CHROMA_TENANT_AUTH_TOKEN'' of
          Some t \<Rightarrow> Some t | None \<Rightarrow> we_env env ''CHROMA_API_KEY''))"

definition provider_error :: "string \<Rightarrow> evidence \<Rightarrow> reconcile_output" where
  "provider_error msg ev =
     mk_output IncompleteVerification [mk_reason ''VECTOR_PROVIDER_ERROR'' msg] ev"

definition http_error :: "host \<Rightarrow> string \<Rightarrow> http_response \<Rightarrow> reconcile_output" where
  "http_error h what r = provider_error (what @ int_str (hr_status r)) [(''httpStatus'', VInt (hr_status r))]"

definition vector_missing :: "string \<Rightarrow> evidence \<Rightarrow> reconcile_output" where
  "vector_missing msg ev = mk_output Missing [mk_reason ''VECTOR_NOT_FOUND'' msg] ev"

fun check_metadata :: "host \<Rightarrow> jsval \<Rightarrow> (string \<times> scalar) list \<Rightarrow> reconcile_output option" where
  "check_metadata h metadata [] = None"
| "check_metadata h metadata ((k, e) # kvs) =
     (case verificationScalarsEqual h e (optional_member metadata k) of
        CmpOk \<Rightarrow> check_metadata h metadata kvs
      | CmpFail ex ac \<Rightarrow>
          Some (mk_output Inconsistent
            [mk_reason ''VECTOR_METADATA_MISMATCH''
               (''metadata.'' @ k @ '': expected '' @ ex @ '' found '' @ ac)]
            [(''field'', VStr k)]))"

definition pinecone_verdict :: "host \<Rightarrow> vector_request \<Rightarrow> jsval \<Rightarrow> js_error + reconcile_output" where
  "pinecone_verdict h req body =
     throws_bind (read_member body ''vectors'') (\<lambda>vectors.
       let vec = optional_member vectors (vq_documentId req)
       in if \<not> js_truthy vec
          then Inr (vector_missing ''Vector id not found in index'' [(''provider'', VStr ''pinecone'')])
          else Inr (case check_metadata h (get_member vec ''metadata'')
                       (case vq_metadataSubset req of None \<Rightarrow> [] | Some m \<Rightarrow> m) of
                 Some out \<Rightarrow> out
               | None \<Rightarrow> mk_output Verified [] [(''provider'', VStr ''pinecone''), (''vector'', VBool True)]))"

definition pinecone_call :: "host \<Rightarrow> vector_request \<Rightarrow> string \<Rightarrow> string \<Rightarrow> http_call" where
  "pinecone_call h req base apiKey =
     \<lparr>hc_method = ''POST'', hc_url = strip_slash base @ ''/vectors/fetch'',
      hc_headers = [(''Content-Type'', ''application/json''), (''Api-Key'', apiKey)],
      hc_body = json_body h (VObj ((''ids'', VArr [VStr (vq_documentId req)])
        # (case vq_namespace req of
             Some ns \<Rightarrow> if ns \<noteq> [] then [(''namespace'', VStr ns)] else [] | None \<Rightarrow> [])))\<rparr>"

definition weaviate_call :: "'w witness_env \<Rightarrow> vector_request \<Rightarrow> string \<Rightarrow> string \<Rightarrow> http_call" where
  "weaviate_call env req base apiKey =
     \<lparr>hc_method = ''GET'', hc_url = strip_slash base @ ''/v1/objects/''
        @ we_encodeURIComponent env (vq_indexName req) @ ''/'' @ we_encodeURIComponent env (vq_documentId req),
      hc_headers = [(''Authorization'', ''Bearer '' @ apiKey)], hc_body = None\<rparr>"

definition weaviate_verdict :: "host \<Rightarrow> http_response \<Rightarrow> reconcile_output" where
  "weaviate_verdict h r =
     (if hr_status r = 404 then vector_missing ''Weaviate object not found'' []
      else if \<not> response_ok r then http_error h ''Weaviate HTTP '' r
      else mk_output Verified [] [(''provider'', VStr ''weaviate'')])"

definition chroma_call :: "host \<Rightarrow> 'w witness_env \<Rightarrow> vector_request \<Rightarrow> string \<Rightarrow> string \<Rightarrow> http_call" where
  "chroma_call h env req base apiKey =
     \<lparr>hc_method = ''POST'', hc_url = strip_slash base @ ''/api/v1/collections/''
        @ we_encodeURIComponent env (vq_indexName req) @ ''/get'',
      hc_headers = (''Content-Type'', ''application/json'')
        # (if apiKey \<noteq> [] then [(''Authorization'', ''Bearer '' @ apiKey)] else []),
      hc_body = json_body h (VObj [(''ids'', VArr [VStr (vq_documentId req)])])\<rparr>"

definition chroma_verdict :: "host \<Rightarrow> vector_request \<Rightarrow> jsval \<Rightarrow> js_error + reconcile_output" where
  "chroma_verdict h req body =
     throws_bind (read_member body ''ids'') (\<lambda>ids.
       throws_bind
         (case ids of
            VArr xs \<Rightarrow> Inr (VStr (vq_documentId req) \<in> set xs)
          | VStr s \<Rightarrow> Inr (js_includes (vq_documentId req) s)
          | v \<Rightarrow> if nullish v then Inr False
                 else Inl (JsTypeError ''body.ids?.includes is not a function''))
         (\<lambda>found. Inr (if \<not> found then vector_missing ''Chroma id not returned'' []
            else mk_output Verified [] [(''provider'', VStr ''chroma'')])))"

definition query_provider ::
  "host \<Rightarrow> 'w witness_env \<Rightarrow> vector_request \<Rightarrow> string \<Rightarrow> string \<Rightarrow> ('w, reconcile_output) io" where
  "query_provider h env req base apiKey =
     (case vq_provider req of
        Pinecone \<Rightarrow>
          io_bind (fetchWithDeadline env (pinecone_call h req base apiKey) 8000) (\<lambda>r.
            if \<not> response_ok r then io_return (http_error h ''Pinecone fetch HTTP '' r)
            else io_lift (throws_bind (response_json h r) (pinecone_verdict h req)))
      | Weaviate \<Rightarrow>
          io_bind (fetchWithDeadline env (weaviate_call env req base apiKey) 8000) (\<lambda>r.
            io_return (weaviate_verdict h r))
      | Chroma \<Rightarrow>
          io_bind (fetchWithDeadline env (chroma_call h env req base apiKey) 8000) (\<lambda>r.
            if \<not> response_ok r then io_return (http_error h ''Chroma HTTP '' r)
            else io_lift (throws_bind (response_json h r) (chroma_verdict h req))))"

definition reconcileVectorDocument ::
  "host \<Rightarrow> 'w witness_env \<Rightarrow> vector_request \<Rightarrow> ('w, reconcile_output) io" where
  "reconcileVectorDocument h env req =
     (let pname = provider_name (vq_provider req);
          hostname = (case vq_host req of Some s \<Rightarrow> Some s
                      | None \<Rightarrow> we_env env (provider_host_env (vq_provider req)));
          apiKey = provider_api_key env (vq_provider req)
      in if vq_expectPayloadSha256 req \<noteq> None \<and> vq_expectPayloadSha256 req \<noteq> Some []
         then io_return (setupError ''vector_document: expectPayloadSha256 is not supported yet; use metadataEq'')
         else (case hostname of
             None \<Rightarrow> io_return (setupError (''vector_document ('' @ pname
               @ ''): missing host in registry or env (PINECONE_INDEX_HOST / WEAVIATE_HOST / CHROMA_HOST)''))
           | Some hst \<Rightarrow>
               if hst = [] then io_return (setupError (''vector_document ('' @ pname
                 @ ''): missing host in registry or env (PINECONE_INDEX_HOST / WEAVIATE_HOST / CHROMA_HOST)''))
               else (case apiKey of
                   None \<Rightarrow> io_return (setupError (''vector_document ('' @ pname @ ''): missing API key env''))
                 | Some key \<Rightarrow>
                     if key = [] then io_return (setupError (''vector_document ('' @ pname @ ''): missing API key env''))
                     else io_catch (query_provider h env req (vectorProviderBaseFromHost env hst) key)
                       (\<lambda>e. io_return (provider_error (err_message e) [(''error'', VBool True)])))))"

section \<open>Object storage\<close>

definition OBJECT_HEAD_DEADLINE_MS :: nat where "OBJECT_HEAD_DEADLINE_MS = 8000"
definition OBJECT_GET_DEADLINE_MS :: nat where "OBJECT_GET_DEADLINE_MS = 30000"
definition OBJECT_MAX_HASH_BYTES :: nat where "OBJECT_MAX_HASH_BYTES = 10 * 1024 * 1024"

definition normalizeS3Etag :: "string option \<Rightarrow> string option" where
  "normalizeS3Etag etag =
     (case etag of
        None \<Rightarrow> None
      | Some e \<Rightarrow>
          if e = [] then None
          else (let t = js_trim e
                in if length t \<ge> 2 \<and> hd t = CHR 0x22 \<and> last t = CHR 0x22
                   then Some (butlast (tl t)) else Some t))"

definition isAwsObjectNotFound :: "aws_error \<Rightarrow> bool" where
  "isAwsObjectNotFound e \<longleftrightarrow> ae_name e = Some ''NotFound'' \<or> ae_Code e = Some ''NotFound''
     \<or> ae_code e = Some ''NotFound'' \<or> ae_httpStatusCode e = Some 404"

definition trimmed_env :: "'w witness_env \<Rightarrow> string \<Rightarrow> string option" where
  "trimmed_env env k =
     (case we_env env k of None \<Rightarrow> None
      | Some v \<Rightarrow> if js_trim v = [] then None else Some (js_trim v))"

definition first_some :: "'a option list \<Rightarrow> 'a option" where
  "first_some xs = foldr (\<lambda>x rest. case x of None \<Rightarrow> rest | Some v \<Rightarrow> Some v) xs None"

definition s3_target_of :: "'w witness_env \<Rightarrow> object_request \<Rightarrow> s3_target" where
  "s3_target_of env req =
     \<lparr>st_region = (case first_some [trimmed_env env ''AWS_REGION'', trimmed_env env ''AWS_DEFAULT_REGION''] of
        None \<Rightarrow> ''us-east-1'' | Some r \<Rightarrow> r),
      st_endpoint = (case oq_endpoint req of None \<Rightarrow> None
        | Some e \<Rightarrow> if js_trim e = [] then None else Some (js_trim e)),
      st_bucket = oq_bucket req, st_key = oq_key req\<rparr>"

abbreviation s3_evidence :: evidence where
  "s3_evidence \<equiv> [(''s3'', VBool True)]"

definition object_missing :: "string \<Rightarrow> reconcile_output" where
  "object_missing msg = mk_output Missing [mk_reason ''OBJECT_MISSING'' msg] s3_evidence"

definition object_failed :: "string \<Rightarrow> aws_error \<Rightarrow> reconcile_output" where
  "object_failed what e =
     mk_output IncompleteVerification
       [mk_reason ''STATE_WITNESS_SETUP_ERROR''
          (''object_storage: '' @ what @ '' failed ('' @ ae_message e @ '')'')]
       ((''error'', VBool True) # s3_evidence)"

definition object_mismatch :: "string \<Rightarrow> string \<Rightarrow> evidence \<Rightarrow> reconcile_output" where
  "object_mismatch code msg ev = mk_output Inconsistent [mk_reason code msg] (ev @ s3_evidence)"

definition length_evidence :: "jsnum \<Rightarrow> evidence" where
  "length_evidence n = [(''contentLength'', VNum n)]"

definition size_mismatch :: "host \<Rightarrow> object_request \<Rightarrow> head_output \<Rightarrow> reconcile_output option" where
  "size_mismatch h req head =
     (case (oq_expectSizeBytes req, ho_ContentLength head) of
        (Some want, Some got) \<Rightarrow>
          if num_eq got want then None
          else Some (object_mismatch ''OBJECT_SIZE_MISMATCH''
            (''expected size '' @ num_to_string h want @ '' bytes, HeadObject reports '' @ num_to_string h got)
            (length_evidence got))
      | _ \<Rightarrow> None)"

definition etag_mismatch :: "object_request \<Rightarrow> head_output \<Rightarrow> reconcile_output option" where
  "etag_mismatch req head =
     (case oq_expectEtag req of
        None \<Rightarrow> None
      | Some e \<Rightarrow>
          let want = normalizeS3Etag (Some e); got = normalizeS3Etag (ho_ETag head);
              show_tag = (\<lambda>t. case t of None \<Rightarrow> ''(none)'' | Some s \<Rightarrow> s)
          in if want = got then None
             else Some (object_mismatch ''OBJECT_METADATA_MISMATCH''
               (''ETag mismatch (expected '' @ show_tag want @ '', got '' @ show_tag got @ '')'') []))"

definition too_large :: "string \<Rightarrow> jsnum \<Rightarrow> reconcile_output" where
  "too_large what n = object_mismatch ''OBJECT_TOO_LARGE_FOR_HASH''
     (what @ '' exceeds hash cap ('' @ nat_str OBJECT_MAX_HASH_BYTES @ '' bytes)'') (length_evidence n)"

text \<open>Fetching the body and comparing its digest.\<close>

definition digest_of_body ::
  "host \<Rightarrow> 'w witness_env \<Rightarrow> object_request \<Rightarrow> string \<Rightarrow> 'w \<Rightarrow>
     (aws_error + reconcile_output option) \<times> 'w" where
  "digest_of_body h env req want w =
     (case we_getObject env (s3_target_of env req) OBJECT_GET_DEADLINE_MS w of
        (Inl e, w') \<Rightarrow>
          (Inr (Some (if isAwsObjectNotFound e then object_missing ''S3 object not found on GetObject''
                      else object_failed ''GetObject'' e)), w')
      | (Inr got, w') \<Rightarrow>
          (case go_Body got of
             None \<Rightarrow> (Inr (Some (setupError ''object_storage: GetObject returned unreadable body'')), w')
           | Some (Inl e) \<Rightarrow> (Inl e, w')
           | Some (Inr bytes) \<Rightarrow>
               let n = num_of_int (int (length bytes))
               in (Inr (if length bytes > OBJECT_MAX_HASH_BYTES
                        then Some (too_large (''object body ('' @ num_to_string h n @ '' bytes)'') n)
                        else if toLowerCase (we_sha256hex env bytes) \<noteq> want
                        then Some (object_mismatch ''OBJECT_DIGEST_MISMATCH''
                               ''SHA-256 digest does not match expected value'' (length_evidence n))
                        else None), w')))"

text \<open>The digest step: an object that the head already reports as too large is not fetched.\<close>

definition object_digest ::
  "host \<Rightarrow> 'w witness_env \<Rightarrow> object_request \<Rightarrow> head_output \<Rightarrow> 'w \<Rightarrow>
     (aws_error + reconcile_output option) \<times> 'w" where
  "object_digest h env req head w =
     (case oq_expectSha256 req of
        None \<Rightarrow> (Inr None, w)
      | Some sha \<Rightarrow>
          (let cap = num_of_int (int OBJECT_MAX_HASH_BYTES);
               fetch = digest_of_body h env req (toLowerCase (js_trim sha)) w
           in case ho_ContentLength head of
                None \<Rightarrow> fetch
              | Some n \<Rightarrow>
                  if num_less cap n
                  then (Inr (Some (too_large (''object Content-Length '' @ num_to_string h n) n)), w)
                  else fetch))"

definition head_failed :: "aws_error \<Rightarrow> reconcile_output" where
  "head_failed e = (if isAwsObjectNotFound e then object_missing ''S3 object not found (HeadObject)''
     else object_failed ''HeadObject'' e)"

definition reconcileObjectStorage ::
  "host \<Rightarrow> 'w witness_env \<Rightarrow> object_request \<Rightarrow> ('w, reconcile_output) io" where
  "reconcileObjectStorage h env req w =
     (case we_headObject env (s3_target_of env req) OBJECT_HEAD_DEADLINE_MS w of
        (Inl e, w1) \<Rightarrow> (Inr (head_failed e), w1)
      | (Inr head, w1) \<Rightarrow>
          (case first_some [size_mismatch h req head, etag_mismatch req head] of
             Some out \<Rightarrow> (Inr out, w1)
           | None \<Rightarrow>
               (case object_digest h env req head w1 of
                  (Inl e, w2) \<Rightarrow> (Inr (head_failed e), w2)
                | (Inr (Some out), w2) \<Rightarrow> (Inr out, w2)
                | (Inr None, w2) \<Rightarrow> (Inr (mk_output Verified [] s3_evidence), w2))))"

section \<open>MongoDB\<close>

fun check_document :: "host \<Rightarrow> jsval \<Rightarrow> (string \<times> scalar) list \<Rightarrow> reconcile_output" where
  "check_document h doc [] = mk_output Verified [] [(''mongo'', VBool True)]"
| "check_document h doc ((field, expected) # fs) =
     (case verificationScalarsEqual h expected (get_prop doc field) of
        CmpOk \<Rightarrow> check_document h doc fs
      | CmpFail e a \<Rightarrow>
          mk_output Inconsistent
            [field_reason ''MONGO_VALUE_MISMATCH'' (field @ '': expected '' @ e @ '' found '' @ a) field]
            [(''field'', VStr field), (''mongo'', VBool True)])"

definition mongo_verdict :: "host \<Rightarrow> mongo_request \<Rightarrow> jsval \<Rightarrow> reconcile_output" where
  "mongo_verdict h req doc =
     (if \<not> js_truthy doc
      then mk_output Missing [mk_reason ''MONGO_DOCUMENT_MISSING'' ''No MongoDB document matched the filter''] []
      else check_document h doc (mq_requiredFields req))"

text \<open>\<open>try { m } finally { try { await client?.close() } catch {} }\<close>.\<close>

definition then_close :: "'w witness_env \<Rightarrow> ('w, 'a) io \<Rightarrow> ('w, 'a) io" where
  "then_close env m = (\<lambda>w. case m w of (r, w1) \<Rightarrow> (r, snd (we_mongoClose env w1)))"

definition reconcileMongoDocument ::
  "host \<Rightarrow> 'w witness_env \<Rightarrow> mongo_request \<Rightarrow> ('w, reconcile_output) io" where
  "reconcileMongoDocument h env req =
     (case first_some [trimmed_env env ''AGENTSKEPTIC_MONGO_URL'', trimmed_env env ''MONGODB_URI''] of
        None \<Rightarrow> io_return (setupError ''mongo_document: set AGENTSKEPTIC_MONGO_URL or MONGODB_URI'')
      | Some uri \<Rightarrow>
          then_close env (io_catch
            (io_bind (we_mongoConnect env uri) (\<lambda>_.
             io_bind (we_mongoFindOne env (mq_collection req) (mq_filter req)) (\<lambda>doc.
               io_return (mongo_verdict h req doc))))
            (\<lambda>e. io_return (mk_output IncompleteVerification
               [mk_reason ''STATE_WITNESS_SETUP_ERROR'' (''mongo_document: '' @ err_message e)]
               [(''error'', VBool True)]))))"

section \<open>HTTP\<close>

definition assertion_pointer :: "string \<Rightarrow> string" where
  "assertion_pointer p = (if starts_with ''/'' p then p else CHR ''/'' # p)"

fun check_assertions :: "host \<Rightarrow> jsval \<Rightarrow> (string \<times> scalar) list \<Rightarrow> js_error + reconcile_output option" where
  "check_assertions h doc [] = Inr None"
| "check_assertions h doc ((p, v) # as) =
     throws_bind (getPointer doc (assertion_pointer p)) (\<lambda>act.
       case verificationScalarsEqual h v act of
         CmpOk \<Rightarrow> check_assertions h doc as
       | CmpFail e a \<Rightarrow>
           Inr (Some (mk_output Inconsistent
             [mk_reason ''HTTP_WITNESS_ASSERTION_MISMATCH''
                (''Assertion '' @ assertion_pointer p @ '': expected '' @ e @ '' found '' @ a)]
             [(''jsonPointer'', VStr (assertion_pointer p))])))"

text \<open>A text that is not JSON is kept as a string.\<close>

definition parse_or_text :: "host \<Rightarrow> string \<Rightarrow> jsval" where
  "parse_or_text h text = (case h_jsonParse h text of Some v \<Rightarrow> v | None \<Rightarrow> VStr text)"

definition http_verdict :: "host \<Rightarrow> http_request \<Rightarrow> http_response \<Rightarrow> js_error + reconcile_output" where
  "http_verdict h req r =
     (let status = num_of_int (hr_status r)
      in if \<not> num_eq status (hq_expectedStatus req)
         then Inr (mk_output Inconsistent
                [mk_reason ''HTTP_WITNESS_STATUS_MISMATCH''
                   (''HTTP status '' @ int_str (hr_status r) @ '', expected ''
                      @ num_to_string h (hq_expectedStatus req))]
                [(''httpStatus'', VNum status)])
         else throws_bind (hr_text r) (\<lambda>text.
           let parsed = parse_or_text h text;
               assertions = (case hq_assertions req of None \<Rightarrow> [] | Some as \<Rightarrow> as);
               verified = mk_output Verified [] [(''http'', VBool True)]
           in if assertions = [] then Inr verified
              else if \<not> is_object parsed
              then Inr (mk_output Inconsistent
                     [mk_reason ''HTTP_WITNESS_ASSERTION_MISMATCH''
                        ''Response is not a JSON object; cannot apply assertions''] [])
              else throws_bind (check_assertions h parsed assertions) (\<lambda>bad.
                Inr (case bad of None \<Rightarrow> verified | Some out \<Rightarrow> out))))"

definition http_call_of :: "http_request \<Rightarrow> http_call" where
  "http_call_of req =
     \<lparr>hc_method = (case hq_method req of GET \<Rightarrow> ''GET'' | POST \<Rightarrow> ''POST''), hc_url = hq_url req,
      hc_headers = [(''Accept'', ''application/json'')], hc_body = None\<rparr>"

definition reconcileHttpWitness ::
  "host \<Rightarrow> 'w witness_env \<Rightarrow> http_request \<Rightarrow> ('w, reconcile_output) io" where
  "reconcileHttpWitness h env req =
     io_catch (io_bind (fetchWithDeadline env (http_call_of req) 8000) (\<lambda>r. io_lift (http_verdict h req r)))
       (\<lambda>e. io_return (mk_output IncompleteVerification
          [mk_reason ''HTTP_WITNESS_NETWORK_ERROR'' (err_message e)] []))"

fun reconcileStateWitness ::
  "host \<Rightarrow> 'w witness_env \<Rightarrow> witness_request \<Rightarrow> ('w, reconcile_output) io" where
  "reconcileStateWitness h env (WVector r) = reconcileVectorDocument h env r"
| "reconcileStateWitness h env (WObject r) = reconcileObjectStorage h env r"
| "reconcileStateWitness h env (WHttp r) = reconcileHttpWitness h env r"
| "reconcileStateWitness h env (WMongo r) = reconcileMongoDocument h env r"

section \<open>Every witness returns a classified outcome\<close>

lemma plain_length_evidence [simp]: "plain_evidence (length_evidence n)"
  by (simp add: length_evidence_def)

lemma coherent_parts [simp]:
  "coherent_output (setupError m)" "coherent_output (provider_error m ev) \<longleftrightarrow> plain_evidence ev"
  "coherent_output (vector_missing m ev) \<longleftrightarrow> plain_evidence ev"
  "coherent_output (http_error h m r)" "coherent_output (object_missing m)" "coherent_output (object_failed m e)"
  "coherent_output (object_mismatch c m ev) \<longleftrightarrow> c \<in> set (check_codes Inconsistent) \<and> plain_evidence ev"
  "coherent_output (too_large m n)" "coherent_output (head_failed e)"
  by (simp_all add: setupError_def provider_error_def vector_missing_def http_error_def object_missing_def
      object_failed_def object_mismatch_def too_large_def head_failed_def)

lemma check_metadata_output: "check_metadata h m kvs = Some out \<Longrightarrow> coherent_output out"
  by (induction h m kvs rule: check_metadata.induct) (auto split: compare_result.splits)

lemma vector_verdicts:
  "pinecone_verdict h req body = Inr out \<Longrightarrow> coherent_output out"
  "chroma_verdict h req body = Inr out \<Longrightarrow> coherent_output out"
  "coherent_output (weaviate_verdict h r)"
  by (auto simp: pinecone_verdict_def chroma_verdict_def weaviate_verdict_def throws_bind_Inr_iff Let_def
      split: option.splits if_splits dest: check_metadata_output)

lemma returns_lift: "(\<And>x. r = Inr x \<Longrightarrow> P x) \<Longrightarrow> returns P (io_lift r)"
  by (simp add: returns_def)

lemma returns_query_provider: "returns coherent_output (query_provider h env req base key)"
  by (auto simp: query_provider_def throws_bind_Inr_iff vector_verdicts
      split: vector_provider.split intro!: returns_bind returns_lift)

lemma vector_returns:
  "returns coherent_output (reconcileVectorDocument h env req)" "never_throws (reconcileVectorDocument h env req)"
  unfolding reconcileVectorDocument_def Let_def
  by (auto split: option.split intro!: returns_catch returns_query_provider never_throws_catch)

lemma object_parts:
  "size_mismatch h req head = Some out \<Longrightarrow> coherent_output out"
  "etag_mismatch req head = Some out \<Longrightarrow> coherent_output out"
  "digest_of_body h env req want w = (Inr (Some out), w') \<Longrightarrow> coherent_output out"
  by (auto simp: size_mismatch_def etag_mismatch_def digest_of_body_def Let_def
      split: option.splits if_splits prod.splits sum.splits)

lemma object_digest_output: "object_digest h env req head w = (Inr (Some out), w') \<Longrightarrow> coherent_output out"
  by (auto simp: object_digest_def Let_def split: option.splits if_splits dest: object_parts)

lemma object_returns:
  "returns coherent_output (reconcileObjectStorage h env req)" "never_throws (reconcileObjectStorage h env req)"
  by (auto simp: returns_def never_throws_def reconcileObjectStorage_def first_some_def
      split: prod.splits sum.splits option.splits dest: object_parts object_digest_output)

lemma check_document_output: "coherent_output (check_document h doc fs)"
  by (induction h doc fs rule: check_document.induct) (auto simp: field_reason_def split: compare_result.split)

lemma then_close_result: "then_close env m w = (r, w') \<Longrightarrow> \<exists>w1. m w = (r, w1)"
  by (auto simp: then_close_def split: prod.splits)

lemma mongo_returns:
  "returns coherent_output (reconcileMongoDocument h env req)" "never_throws (reconcileMongoDocument h env req)"
proof -
  have close: "returns coherent_output (then_close env m)" if "returns coherent_output m" for m
    using that by (auto simp: returns_def dest!: then_close_result)
  have "never_throws (then_close env m)" if "never_throws m" for m :: "('a, reconcile_output) io"
    using that by (auto simp: never_throws_def then_close_def split: prod.splits) (metis prod.inject)
  moreover have "never_throws (io_catch m (\<lambda>e. io_return (g e)))" for g and m :: "('a, reconcile_output) io"
    by (auto intro!: never_throws_catch)
  ultimately show "never_throws (reconcileMongoDocument h env req)"
    by (simp add: reconcileMongoDocument_def split: option.split)
  show "returns coherent_output (reconcileMongoDocument h env req)"
    by (auto simp: reconcileMongoDocument_def mongo_verdict_def check_document_output
        intro!: close returns_catch returns_bind split: option.split)
qed

text \<open>A pointer made absolute always has a value, so assertions never throw.\<close>

lemma assertion_pointer_value: "\<exists>act. getPointer doc (assertion_pointer p) = Inr act"
proof -
  have "\<exists>q. assertion_pointer p = CHR ''/'' # q"
    by (cases p) (auto simp: assertion_pointer_def starts_with_def)
  then show ?thesis by (auto simp: getPointer_slash)
qed

lemma check_assertions_output: "check_assertions h doc as = Inr (Some out) \<Longrightarrow> coherent_output out"
proof (induction as)
  case Nil
  then show ?case by simp
next
  case (Cons pv as)
  obtain p v where pv: "pv = (p, v)" by (cases pv)
  obtain act where act: "getPointer doc (assertion_pointer p) = Inr act"
    using assertion_pointer_value by blast
  show ?case
    using Cons act by (cases "verificationScalarsEqual h v act") (auto simp: pv)
qed

lemma http_verdict_output: "http_verdict h req r = Inr out \<Longrightarrow> coherent_output out"
  by (auto simp: http_verdict_def Let_def throws_bind_Inr_iff split: if_splits option.splits
      dest: check_assertions_output)

lemma http_returns:
  "returns coherent_output (reconcileHttpWitness h env req)" "never_throws (reconcileHttpWitness h env req)"
  unfolding reconcileHttpWitness_def
  by (auto intro!: returns_catch returns_bind returns_lift never_throws_catch dest: http_verdict_output)

lemma witness_returns:
  "returns coherent_output (reconcileStateWitness h env q)" "never_throws (reconcileStateWitness h env q)"
  by (cases q; simp add: vector_returns object_returns mongo_returns http_returns)+

text \<open>An HTTP witness is verified exactly when the status and every assertion hold.\<close>

lemma check_assertions_None:
  "check_assertions h doc as = Inr None \<longleftrightarrow>
     (\<forall>(p, v) \<in> set as. \<exists>act. getPointer doc (assertion_pointer p) = Inr act \<and> scalars_match h v act)"
proof (induction as)
  case Nil
  then show ?case by simp
next
  case (Cons pv as)
  obtain p v where pv: "pv = (p, v)" by (cases pv)
  obtain act where act: "getPointer doc (assertion_pointer p) = Inr act"
    using assertion_pointer_value by blast
  show ?case
    using Cons act by (cases "verificationScalarsEqual h v act") (auto simp: pv scalars_match_def)
qed

lemma http_verdict_verified:
  "http_verdict h req r = Inr out \<and> ro_status out = Verified \<longleftrightarrow>
     out = mk_output Verified [] [(''http'', VBool True)]
     \<and> num_eq (num_of_int (hr_status r)) (hq_expectedStatus req)
     \<and> (\<exists>text. hr_text r = Inr text \<and> (case hq_assertions req of None \<Rightarrow> True | Some as \<Rightarrow> as = [] \<or>
          is_object (parse_or_text h text) \<and> check_assertions h (parse_or_text h text) as = Inr None))"
proof -
  have bad: "check_assertions h doc as = Inr (Some out) \<Longrightarrow> ro_status out = Inconsistent" for doc as out
  proof (induction as)
    case (Cons a as)
    obtain p v where a: "a = (p, v)" by (cases a)
    with Cons.prems obtain act where "getPointer doc (assertion_pointer p) = Inr act"
      by (auto simp: throws_bind_Inr_iff)
    with Cons a show ?case by (cases "verificationScalarsEqual h v act") auto
  qed simp
  show ?thesis
  proof (cases "num_eq (num_of_int (hr_status r)) (hq_expectedStatus req)")
    case True
    show ?thesis
    proof (cases "hr_text r")
      case (Inr body)
      show ?thesis
      proof (cases "hq_assertions req")
        case (Some as)
        with True Inr show ?thesis
          by (cases "check_assertions h (parse_or_text h body) as")
            (auto simp: http_verdict_def Let_def bad split: option.splits)
      qed (use True Inr in \<open>auto simp: http_verdict_def Let_def\<close>)
    qed (use True in \<open>simp add: http_verdict_def Let_def\<close>)
  qed (auto simp: http_verdict_def Let_def)
qed

end
