(* ===== verification/Pipeline.thy ===== *)
theory Pipeline
  imports PolicyExecution EventProperties Connections StateWitness
begin

text \<open>
  A verification run (\<open>src/pipeline.ts\<close>, \<open>src/aggregate.ts\<close>): each planned step is
  resolved, executed under the policy and classified; the outcomes are aggregated into the
  status of the workflow. The synchronous executor (SQLite, strong policy) and the
  asynchronous one share their text in the source but for the call that executes a
  request; here they share a definition with that call as its argument.
\<close>

section \<open>Computations that may not return\<close>

type_synonym ('w, 'a) pio = "'w \<Rightarrow> ((js_error + 'a) \<times> 'w) option"

definition pio_of :: "('w, 'a) io \<Rightarrow> ('w, 'a) pio" where
  "pio_of m = (\<lambda>w. Some (m w))"

definition pio_bind :: "('w, 'a) pio \<Rightarrow> ('a \<Rightarrow> ('w, 'b) pio) \<Rightarrow> ('w, 'b) pio" where
  "pio_bind m f = (\<lambda>w. case m w of
       None \<Rightarrow> None
     | Some (Inl e, w') \<Rightarrow> Some (Inl e, w')
     | Some (Inr x, w') \<Rightarrow> f x w')"

abbreviation pio_return :: "'a \<Rightarrow> ('w, 'a) pio" where
  "pio_return x \<equiv> pio_of (io_return x)"

fun pio_map :: "('a \<Rightarrow> ('w, 'b) pio) \<Rightarrow> 'a list \<Rightarrow> ('w, 'b list) pio" where
  "pio_map f [] = pio_return []"
| "pio_map f (x # xs) = pio_bind (f x) (\<lambda>y. pio_bind (pio_map f xs) (\<lambda>ys. pio_return (y # ys)))"

text \<open>\<open>try { m } finally { f }\<close>.\<close>

definition pio_finally :: "('w, 'a) pio \<Rightarrow> ('w, unit) io \<Rightarrow> ('w, 'a) pio" where
  "pio_finally m f = (\<lambda>w. case m w of
       None \<Rightarrow> None
     | Some (r, w1) \<Rightarrow> (case f w1 of (Inl e, w2) \<Rightarrow> Some (Inl e, w2) | (Inr _, w2) \<Rightarrow> Some (r, w2)))"

lemma pio_of_apply [simp]: "pio_of m w = Some (m w)"
  by (simp add: pio_of_def)

lemma pio_bind_Inr_iff:
  "pio_bind m f w = Some (Inr y, w'') \<longleftrightarrow>
     (\<exists>x w'. m w = Some (Inr x, w') \<and> f x w' = Some (Inr y, w''))"
  by (auto simp: pio_bind_def split: option.splits prod.splits sum.splits)

section \<open>Steps\<close>

definition registryReleaseCritical :: "registry_entry option \<Rightarrow> bool" where
  "registryReleaseCritical entry =
     (case entry of None \<Rightarrow> False | Some e \<Rightarrow> re_releaseCritical e = Some True)"

text \<open>\<open>`${threadId}\u001f${checkpointNs}\u001f${checkpointId}`\<close> for a version 3 observation.\<close>

definition langgraphCheckpointKeyFromToolObserved :: "tool_event \<Rightarrow> string option" where
  "langgraphCheckpointKeyFromToolObserved ev =
     (case te_wire ev of
        WireV3 _ _ c \<Rightarrow> Some (ck_threadId c @ [CHR 0x1F] @ ck_checkpointNs c @ [CHR 0x1F] @ ck_checkpointId c)
      | _ \<Rightarrow> None)"

definition withOptionalLanggraphCheckpointKey :: "step_outcome \<Rightarrow> tool_event \<Rightarrow> step_outcome" where
  "withOptionalLanggraphCheckpointKey outcome ev =
     (case langgraphCheckpointKeyFromToolObserved ev of
        None \<Rightarrow> outcome | Some key \<Rightarrow> outcome\<lparr>so_langgraphCheckpointKey := Some key\<rparr>)"

definition intendedEffectNarrative ::
  "host \<Rightarrow> registry_entry option \<Rightarrow> string \<Rightarrow> jsval \<Rightarrow> js_error + string" where
  "intendedEffectNarrative h entry toolId params =
     (case entry of
        Some e \<Rightarrow> renderIntendedEffect h (re_effectDescriptionTemplate e) params
      | None \<Rightarrow> Inr (''Unknown tool: '' @ toolId))"

text \<open>The outcome record of a step, from its parts.\<close>

definition mk_outcome ::
  "host \<Rightarrow> int \<Rightarrow> tool_event \<Rightarrow> bool \<Rightarrow> string \<Rightarrow> nat \<Rightarrow> step_request option \<Rightarrow> step_status \<Rightarrow>
     reason list \<Rightarrow> evidence \<Rightarrow> step_outcome" where
  "mk_outcome h s ev crit narrative n req status reasons evid =
     \<lparr>so_seq = s, so_toolId = te_toolId ev, so_releaseCritical = crit, so_narrative = narrative,
      so_paramsCanonical = canonicalJsonForParams h (te_params ev), so_request = req,
      so_status = status, so_reasons = reasons, so_evidence = evid,
      so_repeatObservationCount = n, so_evaluatedObservationOrdinal = n,
      so_failureDiagnostic = None, so_langgraphCheckpointKey = None\<rparr>"

definition buildDivergentStepOutcome ::
  "host \<Rightarrow> logical_step_plan \<Rightarrow> registry \<Rightarrow> js_error + step_outcome" where
  "buildDivergentStepOutcome h plan reg =
     (let final = lp_last plan; entry = reg (te_toolId final)
      in throws_bind (intendedEffectNarrative h entry (te_toolId final) (te_params final)) (\<lambda>narrative.
           Inr (withOptionalLanggraphCheckpointKey
             (mk_outcome h (lp_seq plan) final (registryReleaseCritical entry) narrative
                (lp_repeatObservationCount plan) None IncompleteVerification
                [mk_reason ''RETRY_OBSERVATIONS_DIVERGE'' RETRY_OBSERVATIONS_DIVERGE_MESSAGE] [])
             final)))"

text \<open>The line written for a step: the outcome without its criticality and checkpoint key.\<close>

record step_log_line =
  sl_workflowId :: string
  sl_outcome :: step_outcome

definition step_log :: "string \<Rightarrow> step_outcome \<Rightarrow> step_log_line" where
  "step_log workflowId outcome =
     \<lparr>sl_workflowId = workflowId,
      sl_outcome = outcome\<lparr>so_releaseCritical := False, so_langgraphCheckpointKey := None\<rparr>\<rparr>"

type_synonym 'w logger = "step_log_line \<Rightarrow> ('w, unit) io"

definition logStepOutcome :: "'w logger \<Rightarrow> string \<Rightarrow> step_outcome \<Rightarrow> ('w, step_outcome) io" where
  "logStepOutcome logStep workflowId outcome =
     io_bind (logStep (step_log workflowId outcome)) (\<lambda>_. io_return outcome)"

text \<open>\<open>withOptionalLanggraphCheckpointKey(withFailureDiagnostic(outcome), ev)\<close>, logged and returned.\<close>

definition finish_step ::
  "'w logger \<Rightarrow> string \<Rightarrow> tool_event \<Rightarrow> step_outcome \<Rightarrow> ('w, step_outcome) io" where
  "finish_step logStep workflowId ev outcome =
     io_bind (io_lift (withFailureDiagnostic outcome)) (\<lambda>o1.
       logStepOutcome logStep workflowId (withOptionalLanggraphCheckpointKey o1 ev))"

definition verify_step_with ::
  "host \<Rightarrow> 'w logger \<Rightarrow> (resolved \<Rightarrow> ('w, policy_output) pio) \<Rightarrow> string \<Rightarrow> registry \<Rightarrow>
     database_kind option \<Rightarrow> tool_event \<Rightarrow> nat \<Rightarrow> ('w, step_outcome) pio" where
  "verify_step_with h logStep exec workflowId reg target ev n =
     (case reg (te_toolId ev) of
        None \<Rightarrow>
          pio_of (io_bind (io_lift (intendedEffectNarrative h None (te_toolId ev) (te_params ev))) (\<lambda>narrative.
            finish_step logStep workflowId ev
              (mk_outcome h (te_seq ev) ev False narrative n None IncompleteVerification
                 [mk_reason ''UNKNOWN_TOOL'' (''Unknown toolId: '' @ te_toolId ev)] [])))
      | Some entry \<Rightarrow>
          pio_bind (pio_of (io_lift (intendedEffectNarrative h (Some entry) (te_toolId ev) (te_params ev))))
            (\<lambda>narrative.
              let crit = registryReleaseCritical (Some entry)
              in case resolveVerificationRequest h entry (te_params ev) target of
                   RThrow e \<Rightarrow> pio_of (io_throw e)
                 | RFail code msg \<Rightarrow>
                     pio_of (finish_step logStep workflowId ev
                       (mk_outcome h (te_seq ev) ev crit narrative n None IncompleteVerification
                          [mk_reason code msg] []))
                 | ROk rd \<Rightarrow>
                     pio_bind (exec rd) (\<lambda>out.
                       pio_of (finish_step logStep workflowId ev
                         (mk_outcome h (te_seq ev) ev crit narrative n (Some (po_request out))
                            (po_status out) (po_reasons out) (po_evidence out))))))"

definition verifyToolObservedStep ::
  "host \<Rightarrow> 'w logger \<Rightarrow> 'w sqlite_db \<Rightarrow> policy \<Rightarrow> string \<Rightarrow> registry \<Rightarrow> database_kind option \<Rightarrow>
     tool_event \<Rightarrow> nat \<Rightarrow> ('w, step_outcome) pio" where
  "verifyToolObservedStep h logStep db pol =
     verify_step_with h logStep (\<lambda>rd. pio_of (executeVerificationWithPolicySync h db rd pol))"

definition verifyToolObservedStepAsync ::
  "host \<Rightarrow> 'w logger \<Rightarrow> 'w policy_context \<Rightarrow> 'w timing \<Rightarrow> policy \<Rightarrow> string \<Rightarrow> registry \<Rightarrow>
     database_kind option \<Rightarrow> tool_event \<Rightarrow> nat \<Rightarrow> ('w, step_outcome) pio" where
  "verifyToolObservedStepAsync h logStep ctx tm pol =
     verify_step_with h logStep (\<lambda>rd. executeVerificationWithPolicyAsync rd pol ctx tm)"

section \<open>All steps\<close>

text \<open>The loop body over the plans: a divergent step is not executed.\<close>

definition run_plan ::
  "host \<Rightarrow> 'w logger \<Rightarrow> string \<Rightarrow> registry \<Rightarrow> (tool_event \<Rightarrow> nat \<Rightarrow> ('w, step_outcome) pio) \<Rightarrow>
     logical_step_plan \<Rightarrow> ('w, step_outcome) pio" where
  "run_plan h logStep workflowId reg verify plan =
     (if lp_divergent plan
      then pio_of (io_bind (io_lift (throws_bind (buildDivergentStepOutcome h plan reg) withFailureDiagnostic))
             (logStepOutcome logStep workflowId))
      else verify (lp_last plan) (lp_repeatObservationCount plan))"

definition runLogicalStepsVerificationSync ::
  "host \<Rightarrow> 'w logger \<Rightarrow> 'w sqlite_db \<Rightarrow> policy \<Rightarrow> string \<Rightarrow> registry \<Rightarrow> database_kind \<Rightarrow>
     tool_event list \<Rightarrow> ('w, step_outcome list) pio" where
  "runLogicalStepsVerificationSync h logStep db pol workflowId reg target events =
     pio_map (run_plan h logStep workflowId reg
       (verifyToolObservedStep h logStep db pol workflowId reg (Some target))) (planLogicalSteps h events)"

definition runLogicalStepsVerificationAsync ::
  "host \<Rightarrow> 'w logger \<Rightarrow> 'w policy_context \<Rightarrow> 'w timing \<Rightarrow> policy \<Rightarrow> string \<Rightarrow> registry \<Rightarrow> database_kind \<Rightarrow>
     tool_event list \<Rightarrow> ('w, step_outcome list) pio" where
  "runLogicalStepsVerificationAsync h logStep ctx tm pol workflowId reg target events =
     pio_map (run_plan h logStep workflowId reg
       (verifyToolObservedStepAsync h logStep ctx tm pol workflowId reg (Some target)))
       (planLogicalSteps h events)"

section \<open>Aggregation\<close>

definition any_step :: "step_status list \<Rightarrow> step_outcome list \<Rightarrow> bool" where
  "any_step ss steps \<longleftrightarrow> list_ex (\<lambda>s. so_status s \<in> set ss) steps"

definition workflow_status_of :: "reason list \<Rightarrow> step_outcome list \<Rightarrow> workflow_status" where
  "workflow_status_of runLevelReasons steps =
     (if runLevelReasons \<noteq> [] \<or> steps = [] \<or> any_step [IncompleteVerification] steps then Incomplete
      else if any_step [Missing, Inconsistent, PartiallyVerified] steps then InconsistentWorkflow
      else if list_all (\<lambda>s. so_status s = Verified) steps then Complete
      else Incomplete)"

definition aggregateWorkflow ::
  "string \<Rightarrow> step_outcome list \<Rightarrow> reason list \<Rightarrow> policy \<Rightarrow> event_integrity \<Rightarrow> js_error + engine_result" where
  "aggregateWorkflow workflowId steps incoming pol integrity =
     (let runLevelReasons = incoming @ (if steps = [] then [runLevelIssue NO_STEPS_FOR_WORKFLOW] else [])
      in throws_bind (enrichStepsWithFailureDiagnostics steps) (\<lambda>enriched.
           Inr \<lparr>er_workflowId = workflowId, er_status = workflow_status_of runLevelReasons steps,
                er_runLevelReasons = runLevelReasons, er_verificationPolicy = pol,
                er_eventSequenceIntegrity = integrity, er_steps = enriched,
                er_verificationRunContext = createEmptyVerificationRunContext\<rparr>))"

section \<open>The run\<close>

text \<open>What the run uses of the outside.\<close>

record 'w runtime =
  rt_timing :: "'w timing"
  rt_openSqlite :: "string \<Rightarrow> ('w, 'w sqlite_db) io"
  rt_closeSqlite :: "'w sqlite_db \<Rightarrow> ('w, unit) io"
  rt_drivers :: "'w drivers"
  rt_witness :: "'w witness_env"

text \<open>\<open>try { ... } catch (e) { throw new TruthLayerError(code, e.message) }\<close>.\<close>

definition io_rethrow :: "string \<Rightarrow> ('w, 'a) io \<Rightarrow> ('w, 'a) io" where
  "io_rethrow code m = io_catch m (\<lambda>e. io_throw (TruthLayerError code (err_message e)))"

definition remote_context :: "host \<Rightarrow> 'w witness_env \<Rightarrow> 'w sql_target \<Rightarrow> 'w policy_context" where
  "remote_context h env tg =
     \<lparr>pc_reconcileRow = reconcileSqlRowAsync h (tg_sqlRead tg),
      pc_reconcileRowAbsent = sb_reconcileRowAbsent (tg_sqlRead tg),
      pc_reconcileRelationalCheck = tg_reconcileRelationalCheck tg,
      pc_reconcileStateWitness = reconcileStateWitness h env\<rparr>"

definition run_steps ::
  "host \<Rightarrow> 'w runtime \<Rightarrow> 'w logger \<Rightarrow> verification_database \<Rightarrow> policy \<Rightarrow> string \<Rightarrow> registry \<Rightarrow>
     tool_event list \<Rightarrow> ('w, step_outcome list) pio" where
  "run_steps h rt logStep database pol workflowId reg events =
     (if vd_kind database = DbSqlite then
        pio_bind (pio_of (io_rethrow ''SQLITE_DATABASE_OPEN_FAILED'' (rt_openSqlite rt (vd_location database))))
          (\<lambda>db. pio_finally
             (if is_strong pol
              then runLogicalStepsVerificationSync h logStep db pol workflowId reg DbSqlite events
              else runLogicalStepsVerificationAsync h logStep (createSqlitePolicyContext h db) (rt_timing rt)
                     pol workflowId reg DbSqlite events)
             (rt_closeSqlite rt db))
      else
        pio_bind (pio_of (io_rethrow ''POSTGRES_CLIENT_SETUP_FAILED''
            (openVerificationSqlTarget h (rt_drivers rt) database)))
          (\<lambda>tg. pio_finally
             (runLogicalStepsVerificationAsync h logStep (remote_context h (rt_witness rt) tg) (rt_timing rt)
                pol workflowId reg (vd_kind database) events)
             (tg_close tg)))"

text \<open>
  \<open>verifyRunStateFromEvents\<close> up to the engine result; the truth report it then prints and
  attaches is a rendering of this result.
\<close>

definition verifyRunStateFromEvents ::
  "host \<Rightarrow> 'w runtime \<Rightarrow> 'w logger \<Rightarrow> verification_database \<Rightarrow> policy \<Rightarrow> string \<Rightarrow> registry \<Rightarrow>
     load_result \<Rightarrow> ('w, engine_result) pio" where
  "verifyRunStateFromEvents h rt logStep database pol workflowId reg ld =
     pio_bind (run_steps h rt logStep database pol workflowId reg (ld_events ld)) (\<lambda>steps.
       pio_of (io_lift (throws_bind
         (aggregateWorkflow workflowId steps (ld_runLevelReasons ld) pol (ld_eventSequenceIntegrity ld))
         (\<lambda>base. Inr (base
            \<lparr>er_runLevelReasons := enrichNoStepsRunLevelReasons workflowId (er_runLevelReasons base) (ld_counts ld),
             er_verificationRunContext := buildVerificationRunContext (ld_runEvents ld)\<rparr>)))))"

text \<open>
  \<open>verifyWorkflow\<close>: the policy first, then the events, then the registry
  (\<open>loadRegistryEntriesAfterSchema\<close> of \<open>src/toolsRegistryLoad.ts\<close>, whose schema validator
  \<open>decodeReg\<close> either gives the entries or the text of its errors).
\<close>

definition loadRegistryEntriesAfterSchema ::
  "host \<Rightarrow> (jsval \<Rightarrow> string + registry_entry list) \<Rightarrow> js_error + string \<Rightarrow> js_error + registry_entry list" where
  "loadRegistryEntriesAfterSchema h decodeReg file =
     (case file of
        Inl e \<Rightarrow> Inl (TruthLayerError ''REGISTRY_READ_FAILED'' (err_message e))
      | Inr raw \<Rightarrow>
          (case h_jsonParse h raw of
             None \<Rightarrow> Inl (TruthLayerError ''REGISTRY_JSON_SYNTAX'' ''invalid JSON'')
           | Some parsed \<Rightarrow>
               (case decodeReg parsed of
                  Inl errs \<Rightarrow> Inl (TruthLayerError ''REGISTRY_SCHEMA_INVALID'' errs)
                | Inr entries \<Rightarrow> Inr entries)))"

definition loadToolsRegistry ::
  "host \<Rightarrow> (jsval \<Rightarrow> string + registry_entry list) \<Rightarrow> js_error + string \<Rightarrow> js_error + registry" where
  "loadToolsRegistry h decodeReg file =
     throws_bind (loadRegistryEntriesAfterSchema h decodeReg file) buildRegistryMap"

definition verifyWorkflow ::
  "host \<Rightarrow> 'w runtime \<Rightarrow> 'w logger \<Rightarrow> (jsval \<Rightarrow> run_event option) \<Rightarrow> (jsval \<Rightarrow> string + registry_entry list) \<Rightarrow>
     verification_database \<Rightarrow> policy option \<Rightarrow> string \<Rightarrow> js_error + string \<Rightarrow> js_error + string \<Rightarrow>
     ('w, engine_result) pio" where
  "verifyWorkflow h rt logStep decode decodeReg database input workflowId eventsFile registryFile =
     pio_bind (pio_of (io_lift (resolveVerificationPolicyInput input))) (\<lambda>pol.
     pio_bind (pio_of (io_lift (fst (loadEventsForWorkflow h decode False eventsFile workflowId 0)))) (\<lambda>ld.
     pio_bind (pio_of (io_lift (loadToolsRegistry h decodeReg registryFile))) (\<lambda>reg.
       verifyRunStateFromEvents h rt logStep database pol workflowId reg ld)))"

end
