(* ===== verification/EffectEvidence.thy ===== *)
theory EffectEvidence
  imports PolicyExecution
begin

text \<open>
  What a rolled-up outcome carries: whenever a step reports one of the four rollup codes, its
  evidence lists the effects with their own outcomes, one of them not verified, each explained
  by a code of its status. The analysis of failures reads these rows back.
\<close>

section \<open>The rows behind a rollup code\<close>

definition MULTI_EFFECT_ROLLUP_CODES :: "string list" where
  "MULTI_EFFECT_ROLLUP_CODES = [''MULTI_EFFECT_PARTIAL'', ''MULTI_EFFECT_ALL_FAILED'',
     ''MULTI_EFFECT_INCOMPLETE'', ''MULTI_EFFECT_UNCERTAIN_WITHIN_WINDOW'']"

definition coherent_row :: "effect_row \<Rightarrow> bool" where
  "coherent_row x \<longleftrightarrow> (xr_status x = Verified \<longleftrightarrow> xr_reasons x = []) \<and> length (xr_reasons x) \<le> 1
     \<and> list_all (\<lambda>r. rs_code r \<in> set (check_codes (xr_status x))) (xr_reasons x)"

definition failing_rows :: "effect_row list \<Rightarrow> bool" where
  "failing_rows rows \<longleftrightarrow> list_all coherent_row rows \<and> list_ex (\<lambda>x. xr_status x \<noteq> Verified) rows"

definition effects_listed :: "reason list \<Rightarrow> evidence \<Rightarrow> bool" where
  "effects_listed rs ev \<longleftrightarrow> list_all (\<lambda>r. rs_code r \<in> set MULTI_EFFECT_ROLLUP_CODES \<longrightarrow>
     (\<exists>rows. failing_rows rows \<and> map_of ev ''effects'' = Some (VArr (map effect_row_val rows)))) rs"

lemma check_codes_not_rollup: "c \<in> set (check_codes s) \<Longrightarrow> c \<notin> set MULTI_EFFECT_ROLLUP_CODES"
proof -
  have "list_all (\<lambda>s. list_all (\<lambda>c. c \<notin> set MULTI_EFFECT_ROLLUP_CODES) (check_codes s))
      [Verified, Missing, Inconsistent, IncompleteVerification, PartiallyVerified, Uncertain]"
    by code_simp
  then have "list_all (\<lambda>c. c \<notin> set MULTI_EFFECT_ROLLUP_CODES) (check_codes s)"
    by (cases s) simp_all
  then show "c \<in> set (check_codes s) \<Longrightarrow> c \<notin> set MULTI_EFFECT_ROLLUP_CODES"
    by (auto simp: list_all_iff)
qed

definition listed :: "policy_output \<Rightarrow> bool" where
  "listed out \<longleftrightarrow> effects_listed (po_reasons out) (po_evidence out) \<and> plain_evidence (po_evidence out)"

lemma listed_with_request: "coherent_output rec \<Longrightarrow> listed (with_request req rec)"
  using check_codes_not_rollup
  by (auto simp: listed_def effects_listed_def coherent_output_def with_request_def list_all_iff)

lemma coherent_row_of: "coherent_output rec \<Longrightarrow> coherent_row (mk_effect_row i rec)"
  by (simp add: coherent_row_def coherent_output_def)

lemma plain_rollup_evidence [simp]: "plain_evidence (rollup_evidence rows)"
  by (auto simp: rollup_evidence_def effect_shaped_def effect_row_val_def list_all_iff)

lemma plain_poll_evidence [simp]: "plain_evidence (poll_evidence k e p)"
  by (simp add: poll_evidence_def)

lemma rollup_evidence_effects:
  "map_of (rollup_evidence rows @ ev) ''effects'' = Some (VArr (map effect_row_val rows))"
  "map_of (rollup_evidence rows) ''effects'' = Some (VArr (map effect_row_val rows))"
  by (simp_all add: rollup_evidence_def)

lemma listed_roll:
  assumes "list_all coherent_row rows"
  shows "listed (roll req rows)"
proof -
  have "failing_rows rows" if "r \<in> set (po_reasons (roll req rows))" for r
  proof -
    have "rollup_spec (map xr_status rows) \<noteq> Verified"
      using that rollup_reasons [of rows] by (auto simp: roll_def split: prod.splits)
    with assms show ?thesis
      by (force simp: failing_rows_def rollup_spec_def list_ex_iff split: if_splits)
  qed
  moreover have "po_evidence (roll req rows) = rollup_evidence rows"
    by (simp add: roll_def split: prod.split)
  ultimately show ?thesis
    by (auto simp: listed_def effects_listed_def list_all_iff rollup_evidence_effects)
qed

text \<open>The rows of reconciled effects and checks.\<close>

lemma coherent_effect_rows:
  "list_all coherent_output recs \<Longrightarrow> list_all coherent_row (effect_rows (sort_reconciled (zip es recs)))"
  by (auto simp: list_all_iff effect_rows_def sort_reconciled_def intro!: coherent_row_of dest: set_zip_rightD)

lemma coherent_check_rows:
  "list_all coherent_output recs \<Longrightarrow> list_all coherent_row (check_rows (sort_check_pairs (zip cs recs)))"
  by (auto simp: list_all_iff check_rows_def sort_check_pairs_def intro!: coherent_row_of dest: set_zip_rightD)

lemma sort_reconciled_idem: "sort_reconciled (sort_reconciled xs) = sort_reconciled xs"
  unfolding sort_reconciled_def by (rule utf16.sort_idem)

lemma listed_rollups:
  assumes "list_all coherent_output recs"
  shows "listed (rollupMultiEffectsFromReconciledRows (zip es recs))"
    and "listed (rollupMultiEffectsFromReconciledRows (sort_reconciled (zip es recs)))"
    and "listed (rollupSqlRelationalFromReconciled cs recs)"
    and "listed (buildRollup (sort_reconciled (zip es recs)))"
  using assms
  by (simp_all add: rollupMultiEffectsFromReconciledRows_def sort_reconciled_idem buildRollup_def
      rollupSqlRelationalFromReconciled_def rollupRelationalMulti_def Let_def listed_roll
      coherent_effect_rows coherent_check_rows)

lemma listed_classified:
  assumes "list_all coherent_output recs"
  shows "classified_out (classifyMultiEffectAfterReconcile es recs) = Some out \<Longrightarrow> listed out"
    and "classified_out (classifyMultiRelationalAfterReconcile cs recs) = Some out \<Longrightarrow> listed out"
  using listed_rollups [OF assms]
  by (auto simp: classifyMultiEffectAfterReconcile_def classifyMultiRelationalAfterReconcile_def
      Let_def split: if_splits)

section \<open>Giving up\<close>

lemma not_all_verified:
  "\<not> all_status Verified rows \<Longrightarrow> list_ex (\<lambda>r. ro_status (snd r) \<noteq> Verified) rows"
  by (auto simp: all_status_def list_all_iff list_ex_iff)

lemma listed_uncertain_effects:
  assumes "list_all coherent_output recs"
    and "classified_out (classifyMultiEffectAfterReconcile es recs) = None"
  shows "listed (buildUncertainSqlEffects es recs k e p)"
proof -
  let ?rows = "sort_reconciled (zip es recs)"
  have "\<not> all_status Verified ?rows"
    using assms(2) by (auto simp: classifyMultiEffectAfterReconcile_def Let_def split: if_splits)
  from not_all_verified [OF this] coherent_effect_rows [OF assms(1), of es]
  have "failing_rows (effect_rows ?rows)"
    by (force simp: failing_rows_def effect_rows_def list_ex_iff)
  then show ?thesis
    by (auto simp: listed_def effects_listed_def buildUncertainSqlEffects_def uncertain_def Let_def
        rollup_evidence_effects)
qed

lemma listed_uncertain_checks:
  assumes "list_all coherent_output recs"
    and "classified_out (classifyMultiRelationalAfterReconcile cs recs) = None"
  shows "listed (buildUncertainSqlRelational cs recs k e p)"
proof -
  let ?rows = "sort_check_pairs (zip cs recs)"
  have "\<not> all_status Verified ?rows"
    using assms(2) by (auto simp: classifyMultiRelationalAfterReconcile_def Let_def split: if_splits)
  from not_all_verified [OF this] coherent_check_rows [OF assms(1), of cs]
  have "failing_rows (check_rows ?rows)"
    by (force simp: failing_rows_def check_rows_def list_ex_iff)
  then show ?thesis
    by (auto simp: listed_def effects_listed_def buildUncertainSqlRelational_def uncertain_def Let_def
        rollup_evidence_effects)
qed

lemma listed_uncertain_single:
  "listed (buildUncertainSqlRow r k e p)" "listed (buildUncertainSqlRowAbsent a k e p rec)"
  "listed (buildUncertainSqlRelationalSingle c k e p)" "listed (buildUncertainStateWitness q k e p)"
  by (simp_all add: listed_def effects_listed_def uncertain_def Let_def MULTI_EFFECT_ROLLUP_CODES_def
      buildUncertainSqlRow_def buildUncertainSqlRowAbsent_def buildUncertainSqlRelationalSingle_def
      buildUncertainStateWitness_def)

section \<open>The executors\<close>

lemma returnsD: "returns P m \<Longrightarrow> m w = (Inr x, w') \<Longrightarrow> P x"
  by (auto simp: returns_def)

lemma returnsI: "(\<And>w x w'. m w = (Inr x, w') \<Longrightarrow> P x) \<Longrightarrow> returns P m"
  by (auto simp: returns_def)

lemma returns_io_all:
  "(\<And>x. x \<in> set xs \<Longrightarrow> returns P (f x)) \<Longrightarrow> returns (list_all P) (io_all f xs)"
proof (induction xs)
  case (Cons x xs)
  then have one: "returns P (f x)" and rest: "returns (list_all P) (io_all f xs)" by auto
  show ?case
  proof (rule returnsI)
    fix w zs w'' assume "io_all f (x # xs) w = (Inr zs, w'')"
    then obtain y ys w' where "zs = y # ys" "f x w = (Inr y, w')" "io_all f xs w' = (Inr ys, w'')"
      unfolding io_all_Cons_Inr by blast
    with returnsD [OF one] returnsD [OF rest] show "list_all P zs" by simp
  qed
qed simp

lemma returns_io_map:
  "(\<And>x. x \<in> set xs \<Longrightarrow> returns P (f x)) \<Longrightarrow> returns (list_all P) (io_map f xs)"
proof (induction xs)
  case (Cons x xs)
  then have one: "returns P (f x)" and rest: "returns (list_all P) (io_map f xs)" by auto
  show ?case
  proof (rule returnsI)
    fix w zs w'' assume "io_map f (x # xs) w = (Inr zs, w'')"
    then obtain y ys w' where "zs = y # ys" "f x w = (Inr y, w')" "io_map f xs w' = (Inr ys, w'')"
      by (auto simp: io_bind_Inr_iff)
    with returnsD [OF one] returnsD [OF rest] show "list_all P zs" by simp
  qed
qed simp

lemma returns_then:
  "returns Q m \<Longrightarrow> (\<And>x. Q x \<Longrightarrow> P (g x)) \<Longrightarrow> returns P (io_bind m (\<lambda>x. io_return (g x)))"
  by (auto simp: returns_def io_bind_Inr_iff)

lemma listed_io_with_request: "returns coherent_output m \<Longrightarrow> returns listed (io_with_request req m)"
  unfolding io_with_request_def by (erule returns_then) (rule listed_with_request)

lemma poll_until_listed:
  assumes run: "poll_until tm p attempt decide giveup w = Some (Inr out, w')"
    and att: "returns Q attempt"
    and dec: "\<And>r out. Q r \<Longrightarrow> decide r = Some out \<Longrightarrow> listed out"
    and give: "\<And>r k e. Q r \<Longrightarrow> decide r = None \<Longrightarrow> listed (giveup r k e)"
  shows "listed out"
proof -
  obtain start where "poll_outcome p start attempt decide giveup out"
    using poll_until_outcome [OF run] by blast
  then obtain r w1 w2 where at: "attempt w1 = (Inr r, w2)"
    and alt: "decide r = Some out \<or> (\<exists>k e. decide r = None \<and> out = giveup r k e)"
    unfolding poll_outcome_def by blast
  have "Q r" using att at by (rule returnsD)
  with alt dec give show ?thesis by blast
qed

context reconcile_context
begin

lemma all_rows_coherent: "returns (list_all coherent_output) (io_all (\<lambda>e. pc_reconcileRow ctx (ef_request e)) es)"
  by (intro returns_io_all row_coherent)

lemma all_checks_coherent: "returns (list_all coherent_output) (io_all (pc_reconcileRelationalCheck ctx) cs)"
  by (intro returns_io_all relational_coherent)

lemma strong_listed: "returns listed (strong_async ctx rd)"
proof -
  have "returns listed (rollupSqlRelationalAsync (pc_reconcileRelationalCheck ctx) cs)" for cs
    unfolding rollupSqlRelationalAsync_def
    by (rule returns_then [OF all_checks_coherent]) (rule listed_rollups)
  moreover have "returns listed (io_bind (io_all (\<lambda>e. pc_reconcileRow ctx (ef_request e)) es)
       (\<lambda>recs. io_return (rollupMultiEffectsFromReconciledRows (zip es recs))))" for es
    by (rule returns_then [OF all_rows_coherent]) (rule listed_rollups)
  ultimately show ?thesis
    by (cases "(ctx, rd)" rule: strong_async.cases)
      (auto simp: row_coherent absent_coherent relational_coherent witness_coherent
        simp del: io_all.simps intro: listed_io_with_request)
qed

lemma unless_missing_listed:
  "coherent_output r \<Longrightarrow> unless_missing sreq r = Some out \<Longrightarrow> listed out"
  by (auto simp: unless_missing_def intro: listed_with_request split: if_splits)

lemma eventual_listed:
  assumes "eventual_async rd p ctx tm w = Some (Inr out, w')"
  shows "listed out"
proof (cases rd)
  case (RdSqlRow req)
  show ?thesis
    by (rule poll_until_listed [OF assms [unfolded RdSqlRow eventual_async.simps executeSqlRowEventual_def]
          row_coherent])
      (auto simp: listed_uncertain_single intro: unless_missing_listed)
next
  case (RdSqlRowAbsent req)
  show ?thesis
    by (rule poll_until_listed [OF assms [unfolded RdSqlRowAbsent eventual_async.simps
            executeSqlRowAbsentEventual_def] absent_coherent])
      (auto simp: listed_uncertain_single decide_absent_def intro: listed_with_request split: if_splits)
next
  case (RdSqlEffects es)
  show ?thesis
    by (rule poll_until_listed [OF assms [unfolded RdSqlEffects eventual_async.simps
            executeSqlEffectsEventual_def] all_rows_coherent])
      (auto intro: listed_classified listed_uncertain_effects)
next
  case (RdWitness q)
  show ?thesis
    by (rule poll_until_listed [OF assms [unfolded RdWitness eventual_async.simps
            executeStateWitnessEventual_def] witness_coherent])
      (auto simp: listed_uncertain_single intro: unless_missing_listed)
next
  case (RdSqlRelational cs)
  show ?thesis
  proof (cases "\<exists>c. cs = [c]")
    case True
    then obtain c where c: "cs = [c]" by blast
    show ?thesis
      by (rule poll_until_listed [OF assms [unfolded RdSqlRelational c eventual_async.simps
              executeSqlRelationalSingleEventual_def] relational_coherent])
        (auto simp: listed_uncertain_single intro: unless_missing_listed)
  next
    case False
    then have unf: "eventual_async rd p ctx tm w = executeSqlRelationalEventual cs p ctx tm w"
      using RdSqlRelational by (cases cs rule: remdups_adj.cases) auto
    show ?thesis
      by (rule poll_until_listed [OF assms [unfolded unf executeSqlRelationalEventual_def]
            all_checks_coherent])
        (auto intro: listed_classified listed_uncertain_checks)
  qed
qed

lemma async_listed:
  assumes "executeVerificationWithPolicyAsync rd pol ctx tm w = Some (Inr out, w')"
  shows "listed out"
  using assms strong_listed [of rd]
  by (auto simp: executeVerificationWithPolicyAsync_def returns_def split: sum.splits if_splits
      intro: eventual_listed)

end

lemma strong_sync_listed: "returns listed (strong_sync h db rd)"
proof -
  have "returns (list_all coherent_output) (io_map (\<lambda>e. reconcileSqlRow h db (ef_request e)) es)" for es
    by (intro returns_io_map returns_reconcileSqlRow)
  then have effects: "returns listed (rollupMultiEffectsSync h db es)" for es
    unfolding rollupMultiEffectsSync_def by (rule returns_then) (rule listed_rollups)
  have "returns (list_all coherent_output) (io_map (reconcileRelationalSqlite h db) cs)" for cs
    unfolding reconcileRelationalSqlite_def by (intro returns_io_map returns_run_relational)
  then have checks: "returns listed (rollupSqlRelationalSync h db cs)" for cs
    unfolding rollupSqlRelationalSync_def by (rule returns_then) (rule listed_rollups)
  have witness: "listed (witness_in_file_mode q)" for q
    by (simp add: listed_def effects_listed_def MULTI_EFFECT_ROLLUP_CODES_def witness_in_file_mode_def)
  show ?thesis
    by (cases "(h, db, rd)" rule: strong_sync.cases)
      (simp_all add: effects checks witness listed_io_with_request returns_reconcileSqlRow
        reconcileSqlRowAbsent_total reconcileRelationalSqlite_def returns_run_relational)
qed

lemma sync_listed:
  assumes "executeVerificationWithPolicySync h db rd pol w = (Inr out, w')"
  shows "listed out"
  using assms strong_sync_listed [of h db rd]
  by (auto simp: executeVerificationWithPolicySync_def io_bind_Inr_iff returns_def split: if_splits)

end
