(* ===== verification/PipelineProperties.thy ===== *)
theory PipelineProperties
  imports Pipeline EffectEvidence
begin

text \<open>
  What a run guarantees: the classifier knows every incomplete outcome the engine can
  produce, each planned step has exactly one outcome in ascending order of sequence
  numbers, and the status of the workflow is decided by the run-level reasons and the
  statuses of the steps alone.
\<close>

section \<open>Every output can be classified\<close>

text \<open>The codes of a step: those of its checks, of a rollup or a window, and those of a step not executed.\<close>

definition step_codes :: "step_status \<Rightarrow> string list" where
  "step_codes s = check_codes s @ rollup_codes s
     @ (if s = IncompleteVerification
        then [''RETRY_OBSERVATIONS_DIVERGE'', ''UNKNOWN_TOOL''] @ RESOLVE_FAILURE_CODES else [])"

text \<open>
  A step is explained when it is verified or has one reason, with a code of its status, and
  a rollup lists its effects in the evidence, which is plain.
\<close>

definition explained :: "step_status \<Rightarrow> reason list \<Rightarrow> evidence \<Rightarrow> bool" where
  "explained s rs ev \<longleftrightarrow> (s = Verified \<longleftrightarrow> rs = []) \<and> length rs \<le> 1
     \<and> list_all (\<lambda>r. rs_code r \<in> set (step_codes s)) rs \<and> effects_listed rs ev
     \<and> plain_evidence ev"

definition NOT_EXECUTED_CODES :: "string list" where
  "NOT_EXECUTED_CODES = [''RETRY_OBSERVATIONS_DIVERGE'', ''UNKNOWN_TOOL''] @ RESOLVE_FAILURE_CODES"

lemma explained_not_executed:
  assumes "c \<in> set NOT_EXECUTED_CODES" and "plain_evidence ev"
  shows "explained IncompleteVerification [mk_reason c m] ev"
proof -
  have "list_all (\<lambda>c. c \<notin> set MULTI_EFFECT_ROLLUP_CODES) NOT_EXECUTED_CODES"
    by code_simp
  with assms show ?thesis
    by (auto simp: explained_def step_codes_def effects_listed_def list_all_iff NOT_EXECUTED_CODES_def)
qed

definition classifiable :: "step_status \<Rightarrow> reason list \<Rightarrow> bool" where
  "classifiable s rs \<longleftrightarrow> (\<exists>d. failureDiagnosticForStep s rs = Inr d)"

lemma explained_classifiable:
  assumes "explained s rs ev"
  shows "classifiable s rs"
proof -
  have "\<exists>r \<in> set rs. rs_code r \<in> set (''RETRY_OBSERVATIONS_DIVERGE'' # ''MULTI_EFFECT_INCOMPLETE''
      # ''UNKNOWN_TOOL'' # RESOLVE_FAILURE_CODES @ INCOMPLETE_CODES)"
    if "s = IncompleteVerification"
    using assms that by (cases rs) (auto simp: explained_def step_codes_def)
  from failureDiagnosticForStep_total [OF this] show ?thesis
    unfolding classifiable_def by blast
qed

lemma settled_explained: "settled out \<Longrightarrow> listed out \<Longrightarrow> explained (po_status out) (po_reasons out) (po_evidence out)"
  by (auto simp: settled_def coherent_policy_output_def explained_def step_codes_def listed_def list_all_iff)

lemma gave_up_explained: "gave_up k e out \<Longrightarrow> listed out \<Longrightarrow> explained (po_status out) (po_reasons out) (po_evidence out)"
  by (auto simp: gave_up_def explained_def step_codes_def listed_def)

lemma resolver_failure_explained:
  assumes "resolveVerificationRequest h entry params target = RFail c m"
    and "plain_evidence ev"
  shows "explained IncompleteVerification [mk_reason c m] ev"
  using coded_resolveVerificationRequest [of h entry params target] assms
  by (intro explained_not_executed) (simp add: coded_def NOT_EXECUTED_CODES_def)

lemma poll_until_settled_or_uncertain:
  assumes run: "poll_until tm p attempt decide giveup w = Some (Inr out, w')"
    and dec: "\<And>r w1 w2 out. attempt w1 = (Inr r, w2) \<Longrightarrow> decide r = Some out \<Longrightarrow> settled out"
    and give: "\<And>r k e. gave_up k e (giveup r k e)"
  shows "settled out \<or> (\<exists>k e. gave_up k e out)"
proof -
  obtain start where "poll_outcome p start attempt decide giveup out"
    using poll_until_outcome [OF run] by blast
  then obtain r w1 w2 where at: "attempt w1 = (Inr r, w2)"
    and alt: "decide r = Some out \<or> (\<exists>k e. out = giveup r k e)"
    unfolding poll_outcome_def by blast
  from alt show ?thesis
  proof
    assume "decide r = Some out"
    with at dec show ?thesis by blast
  next
    assume "\<exists>k e. out = giveup r k e"
    with give show ?thesis by blast
  qed
qed

context reconcile_context
begin

lemma eventual_settled_or_uncertain:
  assumes "eventual_async rd p ctx tm w = Some (Inr out, w')"
  shows "settled out \<or> (\<exists>k e. gave_up k e out)"
proof (cases rd)
  case (RdSqlRow req)
  show ?thesis
    by (rule poll_until_settled_or_uncertain
        [OF assms [unfolded RdSqlRow eventual_async.simps executeSqlRowEventual_def]])
      (auto intro: decided_row gave_up_builders)
next
  case (RdSqlRowAbsent req)
  show ?thesis
    by (rule poll_until_settled_or_uncertain
        [OF assms [unfolded RdSqlRowAbsent eventual_async.simps executeSqlRowAbsentEventual_def]])
      (auto intro: decided_absent gave_up_builders)
next
  case (RdSqlEffects es)
  show ?thesis
    by (rule poll_until_settled_or_uncertain
        [OF assms [unfolded RdSqlEffects eventual_async.simps executeSqlEffectsEventual_def]])
      (auto intro: settled_classified gave_up_builders)
next
  case (RdWitness q)
  show ?thesis
    by (rule poll_until_settled_or_uncertain
        [OF assms [unfolded RdWitness eventual_async.simps executeStateWitnessEventual_def]])
      (auto intro: decided_witness gave_up_builders)
next
  case (RdSqlRelational cs)
  show ?thesis
  proof (cases "\<exists>c. cs = [c]")
    case True
    then obtain c where c: "cs = [c]" by blast
    show ?thesis
      by (rule poll_until_settled_or_uncertain
          [OF assms [unfolded RdSqlRelational c eventual_async.simps executeSqlRelationalSingleEventual_def]])
        (auto intro: decided_relational gave_up_builders)
  next
    case False
    then have unf: "eventual_async rd p ctx tm w = executeSqlRelationalEventual cs p ctx tm w"
      using RdSqlRelational by (cases cs rule: remdups_adj.cases) auto
    show ?thesis
      by (rule poll_until_settled_or_uncertain
          [OF assms [unfolded unf executeSqlRelationalEventual_def]])
        (auto intro: settled_classified gave_up_builders)
  qed
qed

lemma async_explained:
  assumes "executeVerificationWithPolicyAsync rd pol ctx tm w = Some (Inr out, w')"
  shows "explained (po_status out) (po_reasons out) (po_evidence out)"
proof -
  have "settled out \<or> (\<exists>k e. gave_up k e out)"
  proof (cases "resolveVerificationPolicyInput (Some pol)")
    case (Inl e)
    with assms show ?thesis by (simp add: executeVerificationWithPolicyAsync_def)
  next
    case (Inr p)
    show ?thesis
    proof (cases "is_strong p")
      case True
      with assms Inr have "strong_async ctx rd w = (Inr out, w')"
        by (simp add: executeVerificationWithPolicyAsync_def)
      with strong_settled [of rd] show ?thesis by (auto simp: returns_def)
    next
      case False
      with assms Inr have "eventual_async rd p ctx tm w = Some (Inr out, w')"
        by (simp add: executeVerificationWithPolicyAsync_def)
      then show ?thesis by (rule eventual_settled_or_uncertain)
    qed
  qed
  then show ?thesis using settled_explained gave_up_explained async_listed [OF assms] by blast
qed

lemma async_strong_settled:
  assumes "executeVerificationWithPolicyAsync rd pol ctx tm w = Some (Inr out, w')" and "is_strong pol"
  shows "settled out"
proof -
  obtain p where "resolveVerificationPolicyInput (Some pol) = Inr p"
    using assms(1) by (cases "resolveVerificationPolicyInput (Some pol)") (auto simp: executeVerificationWithPolicyAsync_def)
  moreover from this have "is_strong p" using assms(2) by (simp add: resolve_policy_ok)
  ultimately show ?thesis
    using assms(1) strong_settled [of rd] by (auto simp: returns_def executeVerificationWithPolicyAsync_def)
qed

end

text \<open>The synchronous executor, and the contexts of the two kinds of run.\<close>

lemma returns_strong_sync: "returns settled (strong_sync h db rd)"
proof -
  have one: "returns coherent_output m \<Longrightarrow> returns settled (io_with_request req m)"
    for req and m :: "('a, reconcile_output) io"
    by (auto simp: returns_def io_with_request_def io_bind_Inr_iff intro: settled_with_request)
  have witness: "settled (witness_in_file_mode q)" for q
    by (simp add: settled_def coherent_policy_output_def witness_in_file_mode_def)
  show ?thesis
    by (cases "(h, db, rd)" rule: strong_sync.cases)
      (auto simp: one witness returns_reconcileSqlRow reconcileSqlRowAbsent_total
        reconcileRelationalSqlite_def returns_run_relational rollupMultiEffectsSync_def
        rollupSqlRelationalSync_def settled_rollups returns_bind)
qed

lemma sync_settled:
  assumes "executeVerificationWithPolicySync h db rd pol w = (Inr out, w')"
  shows "settled out"
  using assms returns_strong_sync [of h db rd]
  by (auto simp: executeVerificationWithPolicySync_def io_bind_Inr_iff returns_def split: if_splits)

lemma remote_context_contract:
  assumes "openVerificationSqlTarget h dr db w = (Inr tg, w')"
  shows "reconcile_context (remote_context h env tg)"
  by unfold_locales
    (simp_all add: remote_context_def reconcileSqlRowAsync_coherent witness_returns
      openVerificationSqlTarget_coherent [OF assms])

section \<open>Steps\<close>

text \<open>An executor whose outputs are explained, and the step it is used for.\<close>

definition exec_explained :: "(resolved \<Rightarrow> ('w, policy_output) pio) \<Rightarrow> bool" where
  "exec_explained exec \<longleftrightarrow>
     (\<forall>rd w out w'. exec rd w = Some (Inr out, w') \<longrightarrow> explained (po_status out) (po_reasons out) (po_evidence out))"

lemma exec_explainedD:
  "exec_explained exec \<Longrightarrow> exec rd w = Some (Inr out, w') \<Longrightarrow> explained (po_status out) (po_reasons out) (po_evidence out)"
  by (auto simp: exec_explained_def)

lemma sync_exec_explained: "exec_explained (\<lambda>rd. pio_of (executeVerificationWithPolicySync h db rd pol))"
  by (auto simp: exec_explained_def intro: settled_explained sync_settled sync_listed)

lemma async_exec_explained:
  "reconcile_context ctx \<Longrightarrow> exec_explained (\<lambda>rd. executeVerificationWithPolicyAsync rd pol ctx tm)"
  by (auto simp: exec_explained_def intro: reconcile_context.async_explained)

lemma mk_outcome_sel [simp]:
  "so_seq (mk_outcome h s ev crit nar n req st rs evid) = s"
  "so_status (mk_outcome h s ev crit nar n req st rs evid) = st"
  "so_reasons (mk_outcome h s ev crit nar n req st rs evid) = rs"
  "so_toolId (mk_outcome h s ev crit nar n req st rs evid) = te_toolId ev"
  "so_releaseCritical (mk_outcome h s ev crit nar n req st rs evid) = crit"
  "so_repeatObservationCount (mk_outcome h s ev crit nar n req st rs evid) = n"
  "so_request (mk_outcome h s ev crit nar n req st rs evid) = req"
  "so_evidence (mk_outcome h s ev crit nar n req st rs evid) = evid"
  by (simp_all add: mk_outcome_def)

lemma withKey_sel [simp]:
  "so_seq (withOptionalLanggraphCheckpointKey s ev) = so_seq s"
  "so_status (withOptionalLanggraphCheckpointKey s ev) = so_status s"
  "so_reasons (withOptionalLanggraphCheckpointKey s ev) = so_reasons s"
  "so_toolId (withOptionalLanggraphCheckpointKey s ev) = so_toolId s"
  "so_releaseCritical (withOptionalLanggraphCheckpointKey s ev) = so_releaseCritical s"
  "so_repeatObservationCount (withOptionalLanggraphCheckpointKey s ev) = so_repeatObservationCount s"
  "so_failureDiagnostic (withOptionalLanggraphCheckpointKey s ev) = so_failureDiagnostic s"
  "so_request (withOptionalLanggraphCheckpointKey s ev) = so_request s"
  "so_evidence (withOptionalLanggraphCheckpointKey s ev) = so_evidence s"
  by (simp_all add: withOptionalLanggraphCheckpointKey_def split: option.split)

lemma diagnosed_withKey [simp]: "diagnosed (withOptionalLanggraphCheckpointKey s ev) = diagnosed s"
  by (simp add: diagnosed_def)

lemma classifiable_with_diagnostic:
  "classifiable (so_status s) (so_reasons s) \<Longrightarrow> \<exists>s'. withFailureDiagnostic s = Inr s'"
  by (auto simp: classifiable_def withFailureDiagnostic_def)

text \<open>What the diagnostic leaves unchanged.\<close>

definition same_step :: "step_outcome \<Rightarrow> step_outcome \<Rightarrow> bool" where
  "same_step a b \<longleftrightarrow> so_seq a = so_seq b \<and> so_status a = so_status b \<and> so_toolId a = so_toolId b
     \<and> so_reasons a = so_reasons b \<and> so_releaseCritical a = so_releaseCritical b
     \<and> so_repeatObservationCount a = so_repeatObservationCount b \<and> so_request a = so_request b
     \<and> so_evidence a = so_evidence b"

lemma withFailureDiagnostic_same: "withFailureDiagnostic s = Inr s' \<Longrightarrow> same_step s' s"
  by (auto simp: withFailureDiagnostic_def throws_bind_Inr_iff same_step_def split: if_splits)

lemma finish_step_result:
  assumes "finish_step logStep wid ev s w = (Inr s', w')"
  shows "diagnosed s'" and "same_step s' s"
proof -
  obtain o1 where o1: "withFailureDiagnostic s = Inr o1" and s': "s' = withOptionalLanggraphCheckpointKey o1 ev"
    using assms by (auto simp: finish_step_def logStepOutcome_def io_bind_Inr_iff)
  show "diagnosed s'" using withFailureDiagnostic_diagnosed(1) [OF o1] by (simp add: s')
  show "same_step s' s" using withFailureDiagnostic_same [OF o1] by (simp add: s' same_step_def)
qed

lemma verify_step_result:
  assumes "verify_step_with h logStep exec wid reg target ev n w = Some (Inr s, w')"
    and exec: "exec_explained exec"
  shows "diagnosed s \<and> explained (so_status s) (so_reasons s) (so_evidence s) \<and> so_seq s = te_seq ev \<and> so_toolId s = te_toolId ev \<and> so_repeatObservationCount s = n
     \<and> so_releaseCritical s = registryReleaseCritical (reg (te_toolId ev))"
proof -
  obtain s0 w0 where fin: "finish_step logStep wid ev s0 w0 = (Inr s, w')"
    and s0: "so_seq s0 = te_seq ev" "so_toolId s0 = te_toolId ev" "so_repeatObservationCount s0 = n"
      "so_releaseCritical s0 = registryReleaseCritical (reg (te_toolId ev))"
      "explained (so_status s0) (so_reasons s0) (so_evidence s0)"
  proof (cases "reg (te_toolId ev)")
    case None
    then obtain nar w1 where "finish_step logStep wid ev (mk_outcome h (te_seq ev) ev False nar n None
        IncompleteVerification [mk_reason ''UNKNOWN_TOOL'' (''Unknown toolId: '' @ te_toolId ev)] []) w1 = (Inr s, w')"
      using assms by (auto simp: verify_step_with_def io_bind_Inr_iff)
    then show ?thesis
      by (rule that) (simp_all add: None registryReleaseCritical_def explained_not_executed NOT_EXECUTED_CODES_def)
  next
    case (Some entry)
    obtain nar req st rs evid w1 where fin: "finish_step logStep wid ev (mk_outcome h (te_seq ev) ev
        (registryReleaseCritical (Some entry)) nar n req st rs evid) w1 = (Inr s, w')"
      and ex: "explained st rs evid"
      using assms Some resolver_failure_explained [of h entry "te_params ev" target]
      by (cases "resolveVerificationRequest h entry (te_params ev) target")
        (auto simp: verify_step_with_def pio_bind_Inr_iff Let_def intro: that dest: exec_explainedD [OF exec])
    show ?thesis by (rule that [OF fin]) (simp_all add: Some ex)
  qed
  from finish_step_result [OF fin] s0 show ?thesis by (simp add: same_step_def)
qed

lemma divergent_result:
  assumes "throws_bind (buildDivergentStepOutcome h plan reg) withFailureDiagnostic = Inr s"
  shows "diagnosed s \<and> explained (so_status s) (so_reasons s) (so_evidence s) \<and> so_seq s = lp_seq plan \<and> so_toolId s = te_toolId (lp_last plan)
     \<and> so_repeatObservationCount s = lp_repeatObservationCount plan \<and> so_status s = IncompleteVerification
     \<and> so_releaseCritical s = registryReleaseCritical (reg (te_toolId (lp_last plan)))"
proof -
  obtain s0 where s0: "buildDivergentStepOutcome h plan reg = Inr s0" and s: "withFailureDiagnostic s0 = Inr s"
    using assms by (auto simp: throws_bind_Inr_iff)
  from s0 have "so_seq s0 = lp_seq plan \<and> so_toolId s0 = te_toolId (lp_last plan)
      \<and> so_repeatObservationCount s0 = lp_repeatObservationCount plan \<and> so_status s0 = IncompleteVerification
      \<and> so_releaseCritical s0 = registryReleaseCritical (reg (te_toolId (lp_last plan)))
      \<and> explained (so_status s0) (so_reasons s0) (so_evidence s0)"
    by (auto simp: buildDivergentStepOutcome_def Let_def throws_bind_Inr_iff explained_not_executed NOT_EXECUTED_CODES_def)
  with withFailureDiagnostic_same [OF s] withFailureDiagnostic_diagnosed(1) [OF s]
  show ?thesis by (auto simp: same_step_def)
qed

text \<open>The outcome of a plan.\<close>

definition outcome_of_plan :: "registry \<Rightarrow> logical_step_plan \<Rightarrow> step_outcome \<Rightarrow> bool" where
  "outcome_of_plan reg plan s \<longleftrightarrow> diagnosed s \<and> explained (so_status s) (so_reasons s) (so_evidence s) \<and> so_seq s = lp_seq plan
     \<and> so_toolId s = te_toolId (lp_last plan)
     \<and> so_repeatObservationCount s = lp_repeatObservationCount plan
     \<and> so_releaseCritical s = registryReleaseCritical (reg (te_toolId (lp_last plan)))
     \<and> (lp_divergent plan \<longrightarrow> so_status s = IncompleteVerification)"

lemma run_plan_result:
  assumes "run_plan h logStep wid reg (verify_step_with h logStep exec wid reg target) plan w = Some (Inr s, w')"
    and "te_seq (lp_last plan) = lp_seq plan" and "exec_explained exec"
  shows "outcome_of_plan reg plan s"
proof (cases "lp_divergent plan")
  case True
  with assms(1) have "throws_bind (buildDivergentStepOutcome h plan reg) withFailureDiagnostic = Inr s"
    by (auto simp: run_plan_def io_bind_Inr_iff logStepOutcome_def)
  from divergent_result [OF this] show ?thesis by (auto simp: outcome_of_plan_def)
next
  case False
  with assms(1) have "verify_step_with h logStep exec wid reg target (lp_last plan)
      (lp_repeatObservationCount plan) w = Some (Inr s, w')"
    by (simp add: run_plan_def)
  from verify_step_result [OF this assms(3)] False assms(2) show ?thesis by (simp add: outcome_of_plan_def)
qed

lemma pio_map_result:
  "pio_map f xs w = Some (Inr ys, w') \<Longrightarrow> (\<And>x y w w'. x \<in> set xs \<Longrightarrow> f x w = Some (Inr y, w') \<Longrightarrow> P x y) \<Longrightarrow>
     list_all2 P xs ys"
proof (induction xs arbitrary: w ys)
  case Nil
  then show ?case by simp
next
  case (Cons x xs)
  from Cons.prems(1) obtain y ys' w1 where f: "f x w = Some (Inr y, w1)"
    and rest: "pio_map f xs w1 = Some (Inr ys', w')" and ys: "ys = y # ys'"
    by (auto simp: pio_bind_Inr_iff)
  have "P x y" using Cons.prems(2) f by simp
  moreover have "list_all2 P xs ys'"
    by (rule Cons.IH [OF rest]) (use Cons.prems(2) in auto)
  ultimately show ?case by (simp add: ys)
qed

lemma plan_last_seq: "p \<in> set (planLogicalSteps h events) \<Longrightarrow> te_seq (lp_last p) = lp_seq p"
proof -
  assume p: "p \<in> set (planLogicalSteps h events)"
  have "last (lp_observations p) \<in> set (lp_observations p)" using plan_member(2) [OF p] by simp
  with plan_member(1,3) [OF p] show ?thesis by auto
qed

text \<open>Whatever executor runs the steps, the outcomes answer the plans one by one.\<close>

lemma steps_answer_plans:
  assumes "exec_explained exec" and "pio_map (run_plan h logStep wid reg (verify_step_with h logStep exec wid reg target))
      (planLogicalSteps h events) w = Some (Inr steps, w')"
  shows "list_all2 (outcome_of_plan reg) (planLogicalSteps h events) steps"
proof (rule pio_map_result [OF assms(2)])
  fix p s v v'
  assume "p \<in> set (planLogicalSteps h events)"
    and "run_plan h logStep wid reg (verify_step_with h logStep exec wid reg target) p v = Some (Inr s, v')"
  then show "outcome_of_plan reg p s" using assms(1) by (intro run_plan_result plan_last_seq)
qed

lemma pio_finally_Inr: "pio_finally m f w = Some (Inr x, w') \<Longrightarrow> \<exists>w1. m w = Some (Inr x, w1)"
  by (auto simp: pio_finally_def split: option.splits prod.splits sum.splits)

lemma io_rethrow_Inr: "io_rethrow code m w = (Inr x, w') \<Longrightarrow> m w = (Inr x, w')"
  by (auto simp: io_rethrow_def io_catch_def io_throw_def split: prod.splits sum.splits)

lemma rethrow_Inr: "pio_of (io_rethrow code m) w = Some (Inr x, w') \<Longrightarrow> m w = (Inr x, w')"
  by (auto dest: io_rethrow_Inr)

lemma run_steps_answer_plans:
  assumes "run_steps h rt logStep database pol wid reg events w = Some (Inr steps, w')"
  shows "list_all2 (outcome_of_plan reg) (planLogicalSteps h events) steps"
  using assms
  unfolding run_steps_def runLogicalStepsVerificationSync_def runLogicalStepsVerificationAsync_def
    verifyToolObservedStep_def verifyToolObservedStepAsync_def
  by (auto simp: pio_bind_Inr_iff split: if_splits dest!: pio_finally_Inr io_rethrow_Inr
      intro: steps_answer_plans sync_exec_explained async_exec_explained
        remote_context_contract sqlite_ctx.reconcile_context_axioms)

lemma answers_seqs: "list_all2 (outcome_of_plan reg) plans steps \<Longrightarrow> map so_seq steps = map lp_seq plans"
  by (induction rule: list_all2_induct) (simp_all add: outcome_of_plan_def)

lemma answers_diagnosed: "list_all2 (outcome_of_plan reg) plans steps \<Longrightarrow> \<forall>s \<in> set steps. diagnosed s"
  by (induction rule: list_all2_induct) (simp_all add: outcome_of_plan_def)

section \<open>Aggregation\<close>

lemma workflow_status_Complete:
  "workflow_status_of rs steps = Complete \<longleftrightarrow> rs = [] \<and> steps \<noteq> [] \<and> (\<forall>s \<in> set steps. so_status s = Verified)"
  by (auto simp: workflow_status_of_def any_step_def list_ex_iff list_all_iff)

lemma workflow_status_Inconsistent:
  "workflow_status_of rs steps = InconsistentWorkflow \<longleftrightarrow> rs = []
     \<and> (\<forall>s \<in> set steps. so_status s \<noteq> IncompleteVerification)
     \<and> (\<exists>s \<in> set steps. so_status s \<in> {Missing, Inconsistent, PartiallyVerified})"
  by (auto simp: workflow_status_of_def any_step_def list_ex_iff list_all_iff)

lemma aggregate_of_diagnosed:
  assumes "\<forall>s \<in> set steps. diagnosed s"
  shows "\<exists>r. aggregateWorkflow wid steps rs pol integ = Inr r \<and> er_steps r = steps
     \<and> er_status r = workflow_status_of (rs @ (if steps = [] then [runLevelIssue NO_STEPS_FOR_WORKFLOW] else [])) steps"
  using enrich_diagnosed [OF assms] by (simp add: aggregateWorkflow_def Let_def)

lemma workflow_status_no_steps: "workflow_status_of (rs @ r # rs') steps = Incomplete"
  by (simp add: workflow_status_of_def)

text \<open>The engine result of a run in terms of its steps.\<close>

lemma verifyRun_result:
  assumes "verifyRunStateFromEvents h rt logStep database pol wid reg ld w = Some (Inr r, w')"
  shows "list_all2 (outcome_of_plan reg) (planLogicalSteps h (ld_events ld)) (er_steps r)"
    and "er_status r = workflow_status_of (ld_runLevelReasons ld) (er_steps r)"
    and "er_workflowId r = wid"
    and "er_eventSequenceIntegrity r = ld_eventSequenceIntegrity ld"
    and "er_verificationRunContext r = buildVerificationRunContext (ld_runEvents ld)"
proof -
  obtain steps w1 where run: "run_steps h rt logStep database pol wid reg (ld_events ld) w = Some (Inr steps, w1)"
    and agg: "throws_bind (aggregateWorkflow wid steps (ld_runLevelReasons ld) pol (ld_eventSequenceIntegrity ld))
         (\<lambda>base. Inr (base
            \<lparr>er_runLevelReasons := enrichNoStepsRunLevelReasons wid (er_runLevelReasons base) (ld_counts ld),
             er_verificationRunContext := buildVerificationRunContext (ld_runEvents ld)\<rparr>)) = Inr r"
    using assms by (auto simp: verifyRunStateFromEvents_def pio_bind_Inr_iff)
  note ans = run_steps_answer_plans [OF run]
  obtain r0 where r0: "aggregateWorkflow wid steps (ld_runLevelReasons ld) pol (ld_eventSequenceIntegrity ld) = Inr r0"
    and r0_steps: "er_steps r0 = steps" and r0_status: "er_status r0 = workflow_status_of
      (ld_runLevelReasons ld @ (if steps = [] then [runLevelIssue NO_STEPS_FOR_WORKFLOW] else [])) steps"
    using aggregate_of_diagnosed [OF answers_diagnosed [OF ans]] by blast
  have steps: "er_steps r = steps"
    and status: "er_status r = workflow_status_of
      (ld_runLevelReasons ld @ (if steps = [] then [runLevelIssue NO_STEPS_FOR_WORKFLOW] else [])) steps"
    using agg r0_steps r0_status by (auto simp: r0)
  show "list_all2 (outcome_of_plan reg) (planLogicalSteps h (ld_events ld)) (er_steps r)"
    using ans by (simp add: steps)
  show "er_status r = workflow_status_of (ld_runLevelReasons ld) (er_steps r)"
    unfolding status steps by (cases steps) (auto simp: workflow_status_of_def)
  show "er_workflowId r = wid" "er_eventSequenceIntegrity r = ld_eventSequenceIntegrity ld"
    "er_verificationRunContext r = buildVerificationRunContext (ld_runEvents ld)"
    using agg by (auto simp: throws_bind_Inr_iff aggregateWorkflow_def Let_def)
qed

end
