(* ===== verification/RunTermination.thy ===== *)
theory RunTermination
  imports PipelineProperties
begin

text \<open>
  A run always comes back: over a clock that moves, every step of a run (polling
  included) ends in a result or in an exception, so the run itself does.
\<close>

named_theorems total_intros

definition pio_total :: "('w, 'a) pio \<Rightarrow> bool" where
  "pio_total m \<longleftrightarrow> (\<forall>w. m w \<noteq> None)"

lemma total_pio_of [total_intros]: "pio_total (pio_of m)"
  by (simp add: pio_total_def)

lemma total_bind [total_intros]:
  assumes "pio_total m" and "\<And>x w w'. m w = Some (Inr x, w') \<Longrightarrow> pio_total (f x)"
  shows "pio_total (pio_bind m f)"
  unfolding pio_total_def
proof
  fix w
  obtain r w' where m: "m w = Some (r, w')" using assms(1) by (force simp: pio_total_def)
  with assms(2) [of w] show "pio_bind m f w \<noteq> None"
    by (cases r) (auto simp: pio_bind_def pio_total_def)
qed

lemma total_finally [total_intros]: "pio_total m \<Longrightarrow> pio_total (pio_finally m f)"
  by (auto simp: pio_total_def pio_finally_def split: option.splits prod.splits sum.splits)

lemma total_map [total_intros]: "(\<And>x. pio_total (f x)) \<Longrightarrow> pio_total (pio_map f xs)"
  by (induction xs) (auto intro!: total_intros)

section \<open>Steps\<close>

lemma total_verify_step [total_intros]:
  "(\<And>rd. pio_total (exec rd)) \<Longrightarrow> pio_total (verify_step_with h lg exec wid reg target ev n)"
  by (auto simp: verify_step_with_def Let_def intro!: total_intros split: option.splits resolve.splits)

lemma total_run_plan [total_intros]:
  "(\<And>ev n. pio_total (verify ev n)) \<Longrightarrow> pio_total (run_plan h lg wid reg verify plan)"
  by (simp add: run_plan_def total_intros)

lemma total_sync [total_intros]: "pio_total (runLogicalStepsVerificationSync h lg db pol wid reg k evs)"
  by (auto simp: runLogicalStepsVerificationSync_def verifyToolObservedStep_def intro!: total_intros)

lemma async_execution_total:
  assumes "is_strong pol \<or> reconcile_context ctx \<and> turns_no_clock_back ctx \<and> tm = defaultTiming"
  shows "pio_total (executeVerificationWithPolicyAsync rd pol ctx tm)"
  unfolding pio_total_def
proof
  fix w
  show "executeVerificationWithPolicyAsync rd pol ctx tm w \<noteq> None"
  proof (cases "resolveVerificationPolicyInput (Some pol)")
    case (Inr p)
    then have ok: "policy_ok p" "is_strong p = is_strong pol" by (auto simp: resolve_policy_ok)
    show ?thesis
    proof (cases "is_strong p")
      case False
      then obtain wnd d where "p_window p = num_of_int wnd" "p_poll p = num_of_int d" "1 \<le> d" "d \<le> wnd"
        using policy_okE [OF ok(1)] by blast
      with eventual_settles [of ctx p wnd d rd w] assms ok(2) False Inr show ?thesis
        by (auto simp: executeVerificationWithPolicyAsync_def)
    qed (simp add: executeVerificationWithPolicyAsync_def Inr)
  qed (simp add: executeVerificationWithPolicyAsync_def)
qed

lemma total_async:
  assumes "is_strong pol \<or> reconcile_context ctx \<and> turns_no_clock_back ctx \<and> tm = defaultTiming"
  shows "pio_total (runLogicalStepsVerificationAsync h lg ctx tm pol wid reg k evs)"
  unfolding runLogicalStepsVerificationAsync_def verifyToolObservedStepAsync_def
  by (intro total_intros async_execution_total assms)

section \<open>The run\<close>

text \<open>Nothing the run opens turns the clock back.\<close>

definition clock_forward :: "host \<Rightarrow> ('a world_scheme) runtime \<Rightarrow> bool" where
  "clock_forward h rt \<longleftrightarrow>
     (\<forall>path w db w'. rt_openSqlite rt path w = (Inr db, w') \<longrightarrow>
        turns_no_clock_back (createSqlitePolicyContext h db)) \<and>
     (\<forall>vd w tg w'. openVerificationSqlTarget h (rt_drivers rt) vd w = (Inr tg, w') \<longrightarrow>
        turns_no_clock_back (remote_context h (rt_witness rt) tg))"

lemma total_run_steps:
  assumes "is_strong pol \<or> clock_forward h rt \<and> rt_timing rt = defaultTiming"
  shows "pio_total (run_steps h rt lg database pol wid reg evs)"
proof -
  have remote: "is_strong pol \<or> reconcile_context (remote_context h (rt_witness rt) tg)
      \<and> turns_no_clock_back (remote_context h (rt_witness rt) tg) \<and> rt_timing rt = defaultTiming"
    if "openVerificationSqlTarget h (rt_drivers rt) database w = (Inr tg, w')" for tg w w'
    using assms that remote_context_contract [OF that] unfolding clock_forward_def by blast
  have sqlite: "is_strong pol \<or> reconcile_context (createSqlitePolicyContext h db)
      \<and> turns_no_clock_back (createSqlitePolicyContext h db) \<and> rt_timing rt = defaultTiming"
    if "rt_openSqlite rt path w = (Inr db, w')" for db path w w'
    using assms that sqlite_ctx.reconcile_context_axioms unfolding clock_forward_def by blast
  have opened: "pio_total (pio_finally
      (if is_strong pol then runLogicalStepsVerificationSync h lg db pol wid reg DbSqlite evs
       else runLogicalStepsVerificationAsync h lg (createSqlitePolicyContext h db) (rt_timing rt) pol wid reg DbSqlite evs)
      (rt_closeSqlite rt db))" if "rt_openSqlite rt path w = (Inr db, w')" for db path w w'
    by (cases "is_strong pol") (simp_all add: total_finally total_sync total_async [OF sqlite [OF that]])
  have server: "pio_total (pio_finally
      (runLogicalStepsVerificationAsync h lg (remote_context h (rt_witness rt) tg) (rt_timing rt) pol wid reg k evs)
      (tg_close tg))" if "openVerificationSqlTarget h (rt_drivers rt) database w = (Inr tg, w')" for tg w w' k
    by (intro total_finally total_async remote [OF that])
  show ?thesis
  proof (cases "vd_kind database = DbSqlite")
    case True
    show ?thesis
      unfolding run_steps_def if_P [OF True]
      by (rule total_bind [OF total_pio_of]) (drule rethrow_Inr, erule opened)
  next
    case False
    show ?thesis
      unfolding run_steps_def if_not_P [OF False]
      by (rule total_bind [OF total_pio_of]) (drule rethrow_Inr, erule server)
  qed
qed

lemma run_returns:
  assumes "is_strong pol \<or> clock_forward h rt \<and> rt_timing rt = defaultTiming"
  shows "pio_total (verifyRunStateFromEvents h rt lg database pol wid reg ld)"
  unfolding verifyRunStateFromEvents_def by (intro total_intros total_run_steps assms)

lemma workflow_returns:
  assumes "clock_forward h rt" and "rt_timing rt = defaultTiming"
  shows "pio_total (verifyWorkflow h rt lg decode decodeReg database input wid eventsFile registryFile)"
  unfolding verifyWorkflow_def by (intro total_intros run_returns disjI2 conjI assms)

section \<open>What a whole run computes\<close>

lemma plan_Nil_iff: "planLogicalSteps h events = [] \<longleftrightarrow> events = []"
proof -
  have "planLogicalSteps h events = [] \<longleftrightarrow> sorted_list_of_set (te_seq ` set events) = []"
    using plan_seqs [of h events] by (metis Nil_is_map_conv)
  then show ?thesis by simp
qed

lemma verifyWorkflow_result:
  assumes "verifyWorkflow h rt lg decode decodeReg database input wid eventsFile registryFile w = Some (Inr r, w')"
  obtains raw pol reg w1 where "eventsFile = Inr raw" and "resolveVerificationPolicyInput input = Inr pol"
    and "loadToolsRegistry h decodeReg registryFile = Inr reg"
    and "verifyRunStateFromEvents h rt lg database pol wid reg (load_text h decode wid raw) w1 = Some (Inr r, w')"
  using assms
  by (auto simp: verifyWorkflow_def pio_bind_Inr_iff loadEventsForWorkflow_def split: sum.splits)

lemma verifyWorkflow_verdict:
  assumes "verifyWorkflow h rt lg decode decodeReg database input wid (Inr raw) registryFile w = Some (Inr r, w')"
  defines "ld \<equiv> load_text h decode wid raw"
  shows "er_status r = Complete \<longleftrightarrow> ld_malformedEventLineCount ld = 0 \<and> ld_events ld \<noteq> []
      \<and> list_all (\<lambda>s. so_status s = Verified) (er_steps r)" (is ?complete)
    and "\<exists>reg. loadToolsRegistry h decodeReg registryFile = Inr reg
      \<and> list_all2 (outcome_of_plan reg) (planLogicalSteps h (ld_events ld)) (er_steps r)" (is ?steps)
proof -
  obtain pol reg w1 where reg: "loadToolsRegistry h decodeReg registryFile = Inr reg"
    and run: "verifyRunStateFromEvents h rt lg database pol wid reg ld w1 = Some (Inr r, w')"
    by (rule verifyWorkflow_result [OF assms(1)]) (auto intro: that simp: ld_def)
  note res = verifyRun_result [OF run]
  have "er_steps r = [] \<longleftrightarrow> ld_events ld = []"
    using list_all2_lengthD [OF res(1)] plan_Nil_iff [of h "ld_events ld"] by fastforce
  moreover have "ld_runLevelReasons ld = [] \<longleftrightarrow> ld_malformedEventLineCount ld = 0"
    using load_text_accounts(2) [of h decode wid raw] by (simp add: ld_def)
  ultimately show ?complete
    using res(2) by (simp add: workflow_status_Complete list_all_iff)
  show ?steps using reg res(1) by blast
qed

end
