(* ===== verification/ReadOnly.thy ===== *)
theory ReadOnly
  imports RunTermination
begin

text \<open>
  What a run does to the outside. Whatever a database keeps under \<open>SELECT\<close> statements (and,
  on Postgres, under the guard that makes the session read-only), a whole run keeps: the
  program sends no other statement.
\<close>

section \<open>Remote databases\<close>

definition queries_keep :: "('w \<Rightarrow> bool) \<Rightarrow> 'w query \<Rightarrow> bool" where
  "queries_keep I q \<longleftrightarrow> (\<forall>t vs. is_select t \<or> t = READ_ONLY_GUARD \<longrightarrow> keeps I (q t vs))"

lemma queries_keepD: "queries_keep I q \<Longrightarrow> is_select t \<Longrightarrow> keeps I (q t vs)"
  by (simp add: queries_keep_def)

lemma keeps_first_row: "queries_keep I q \<Longrightarrow> is_select t \<Longrightarrow> keeps I (first_row q t vs)"
  unfolding first_row_def by (intro keeps_intros queries_keepD)

lemma keeps_executeRowAbsentRemote:
  assumes "queries_keep I q"
  shows "keeps I (executeRowAbsentRemote h d q req)"
  unfolding executeRowAbsentRemote_def Let_def catch_query_def
  by (intro keeps_intros keeps_absent_verdict queries_keepD [OF assms] is_select_texts)

lemma keeps_fetch:
  assumes "queries_keep I q"
  shows "keeps I (sb_fetchRows (createPostgresSqlReadBackend h q) req)"
    and "keeps I (sb_fetchRows (mysql_backend h q) req)"
proof -
  have "keeps I (case buildSelectByIdentitySql d req of (text, values) \<Rightarrow>
      io_catch (io_bind (q text values) (\<lambda>rows. io_return (map lower_row rows)))
        (\<lambda>e. io_throw (ConnectorError (err_message e))))" for d
    using is_select_texts(1) [of d req] queries_keepD [OF assms]
    by (cases "buildSelectByIdentitySql d req") (auto intro!: keeps_intros)
  then show "keeps I (sb_fetchRows (createPostgresSqlReadBackend h q) req)"
    "keeps I (sb_fetchRows (mysql_backend h q) req)"
    by (simp_all add: createPostgresSqlReadBackend_def mysql_backend_def
        buildSelectByIdentitySqlPostgres_def buildSelectByIdentitySqlMysql_def)
qed

lemma keeps_reconcileSqlRowAsync:
  "keeps I (sb_fetchRows b req) \<Longrightarrow> keeps I (reconcileSqlRowAsync h b req)"
  unfolding reconcileSqlRowAsync_def catch_connector_def
  by (intro keeps_intros) (auto intro!: keeps_intros split: js_error.split)

text \<open>A driver that keeps \<open>I\<close> while connecting, closing and running the allowed statements.\<close>

definition client_keeps :: "('w \<Rightarrow> bool) \<Rightarrow> 'w client \<Rightarrow> bool" where
  "client_keeps I c \<longleftrightarrow> keeps I (cl_connect c) \<and> keeps I (cl_end c) \<and> queries_keep I (cl_query c)"

definition drivers_keep :: "('w \<Rightarrow> bool) \<Rightarrow> 'w drivers \<Rightarrow> bool" where
  "drivers_keep I dr \<longleftrightarrow> (\<forall>s. client_keeps I (dr_pgClient dr s)) \<and> (\<forall>s. keeps I (dr_mysqlPool dr s))
     \<and> (\<forall>s w c w'. dr_mysqlPool dr s w = (Inr c, w') \<longrightarrow> client_keeps I c)"

definition target_keeps :: "('w \<Rightarrow> bool) \<Rightarrow> 'w sql_target \<Rightarrow> bool" where
  "target_keeps I tg \<longleftrightarrow> (\<forall>r. keeps I (sb_fetchRows (tg_sqlRead tg) r))
     \<and> (\<forall>r. keeps I (sb_reconcileRowAbsent (tg_sqlRead tg) r))
     \<and> (\<forall>c. keeps I (tg_reconcileRelationalCheck tg c)) \<and> keeps I (tg_close tg)"

lemma keeps_relational_remote:
  assumes "queries_keep I q"
  shows "keeps I (reconcileRelationalPostgres h q c)" and "keeps I (reconcileRelationalMysql2 h q c)"
  unfolding reconcileRelationalPostgres_def reconcileRelationalMysql2_def reconcileRelationalQuery_def
  by (intro keeps_run_relational keeps_first_row [OF assms] queries_keepD [OF assms]; assumption)+

lemma keeps_ignore: "keeps I m \<Longrightarrow> keeps I (io_ignore m)"
  unfolding io_ignore_def by (intro keeps_intros)

lemma keeps_connect:
  assumes "drivers_keep I dr"
  shows "keeps I (connectPostgresVerificationClient dr s)"
proof -
  have c: "keeps I (cl_connect (dr_pgClient dr s))" "keeps I (cl_end (dr_pgClient dr s))"
    "keeps I (cl_query (dr_pgClient dr s) READ_ONLY_GUARD [])" "keeps I (cl_query (dr_pgClient dr s) ''SELECT 1'' [])"
    using assms by (auto simp: drivers_keep_def client_keeps_def queries_keep_def is_select_def starts_with_def)
  show ?thesis
    unfolding connectPostgresVerificationClient_def applyPostgresVerificationSessionGuards_def Let_def
    by (intro keeps_intros keeps_ignore c)
qed

lemma keeps_open:
  assumes "drivers_keep I dr"
  shows "keeps I (openVerificationSqlTarget h dr db)"
  using assms keeps_connect [OF assms]
  by (auto simp: openVerificationSqlTarget_def drivers_keep_def intro!: keeps_intros
      split: database_kind.split)

lemma opened_target_keeps:
  assumes "openVerificationSqlTarget h dr db w = (Inr tg, w')" and "drivers_keep I dr"
  shows "target_keeps I tg"
proof (cases "vd_kind db")
  case DbPostgres
  then obtain w1 where conn: "connectPostgresVerificationClient dr (vd_location db) w = (Inr (dr_pgClient dr (vd_location db)), w1)"
    and tg: "tg = \<lparr>tg_sqlRead = createPostgresSqlReadBackend h (cl_query (dr_pgClient dr (vd_location db))),
        tg_reconcileRelationalCheck = reconcileRelationalPostgres h (cl_query (dr_pgClient dr (vd_location db))),
        tg_close = io_ignore (cl_end (dr_pgClient dr (vd_location db)))\<rparr>"
    using assms(1) connect_runs_guard [of dr "vd_location db" w]
    by (auto simp: openVerificationSqlTarget_def io_bind_Inr_iff)
  have "client_keeps I (dr_pgClient dr (vd_location db))"
    using assms(2) by (simp add: drivers_keep_def)
  then show ?thesis
    by (auto simp: tg target_keeps_def client_keeps_def keeps_fetch keeps_relational_remote keeps_ignore
        createPostgresSqlReadBackend_def executeRowAbsentPostgres_def keeps_executeRowAbsentRemote
        intro: keeps_fetch(1) [unfolded createPostgresSqlReadBackend_def, simplified])
next
  case DbMysql
  then obtain c w1 where pool: "dr_mysqlPool dr (vd_location db) w = (Inr c, w1)"
    and tg: "tg = \<lparr>tg_sqlRead = mysql_backend h (cl_query c),
        tg_reconcileRelationalCheck = reconcileRelationalMysql2 h (cl_query c), tg_close = cl_end c\<rparr>"
    using assms(1) by (auto simp: openVerificationSqlTarget_def io_bind_Inr_iff)
  have "client_keeps I c" using pool assms(2) unfolding drivers_keep_def by blast
  then show ?thesis
    by (auto simp: tg target_keeps_def client_keeps_def keeps_relational_remote
        mysql_backend_def keeps_executeRowAbsentRemote
        intro: keeps_fetch(2) [unfolded mysql_backend_def, simplified])
qed (use assms(1) in \<open>auto simp: openVerificationSqlTarget_def\<close>)

section \<open>State witnesses\<close>

definition env_keeps :: "('w \<Rightarrow> bool) \<Rightarrow> 'w witness_env \<Rightarrow> bool" where
  "env_keeps I env \<longleftrightarrow> (\<forall>c n. keeps I (we_fetch env c n))
     \<and> (\<forall>t n w. I w \<longrightarrow> I (snd (we_headObject env t n w)))
     \<and> (\<forall>t n w. I w \<longrightarrow> I (snd (we_getObject env t n w)))
     \<and> (\<forall>s. keeps I (we_mongoConnect env s)) \<and> (\<forall>c q. keeps I (we_mongoFindOne env c q))
     \<and> keeps I (we_mongoClose env)"

lemma keeps_query_provider: "env_keeps I env \<Longrightarrow> keeps I (query_provider h env req base key)"
  by (auto simp: query_provider_def fetchWithDeadline_def env_keeps_def intro!: keeps_intros
      split: vector_provider.split)

lemma keeps_vector: "env_keeps I env \<Longrightarrow> keeps I (reconcileVectorDocument h env req)"
  by (auto simp: reconcileVectorDocument_def Let_def intro!: keeps_intros keeps_query_provider
      split: option.split)

lemma keeps_digest:
  assumes "env_keeps I env" and "I w"
  shows "I (snd (object_digest h env req head w))"
proof -
  have "I (snd (digest_of_body h env req want w))" for want
  proof -
    obtain r w1 where got: "we_getObject env (s3_target_of env req) OBJECT_GET_DEADLINE_MS w = (r, w1)"
      by (cases "we_getObject env (s3_target_of env req) OBJECT_GET_DEADLINE_MS w")
    with assms have "I w1" unfolding env_keeps_def by (metis snd_conv)
    with got show ?thesis
      by (auto simp: digest_of_body_def Let_def split: sum.split option.split)
  qed
  with assms(2) show ?thesis by (auto simp: object_digest_def Let_def split: option.split)
qed

lemma keeps_object:
  assumes "env_keeps I env"
  shows "keeps I (reconcileObjectStorage h env req)"
  unfolding keeps_def
proof (intro allI impI)
  fix w assume w: "I w"
  obtain r w1 where head: "we_headObject env (s3_target_of env req) OBJECT_HEAD_DEADLINE_MS w = (r, w1)"
    by (cases "we_headObject env (s3_target_of env req) OBJECT_HEAD_DEADLINE_MS w")
  with assms w have w1: "I w1" unfolding env_keeps_def by (metis snd_conv)
  show "I (snd (reconcileObjectStorage h env req w))"
  proof (cases r)
    case (Inr hd_out)
    obtain d w2 where dig: "object_digest h env req hd_out w1 = (d, w2)"
      by (cases "object_digest h env req hd_out w1")
    with keeps_digest [OF assms w1, of h req hd_out] have "I w2" by simp
    with w1 head Inr dig show ?thesis
      by (auto simp: reconcileObjectStorage_def split: option.split sum.split)
  qed (use w1 head in \<open>simp add: reconcileObjectStorage_def\<close>)
qed

lemma keeps_then_close: "env_keeps I env \<Longrightarrow> keeps I m \<Longrightarrow> keeps I (then_close env m)"
  by (auto simp: then_close_def keeps_def env_keeps_def split: prod.split)

lemma keeps_mongo: "env_keeps I env \<Longrightarrow> keeps I (reconcileMongoDocument h env req)"
  by (auto simp: reconcileMongoDocument_def env_keeps_def intro!: keeps_intros keeps_then_close
      split: option.split)

lemma keeps_http: "env_keeps I env \<Longrightarrow> keeps I (reconcileHttpWitness h env req)"
  by (auto simp: reconcileHttpWitness_def fetchWithDeadline_def env_keeps_def intro!: keeps_intros)

lemma keeps_witness: "env_keeps I env \<Longrightarrow> keeps I (reconcileStateWitness h env q)"
  by (cases q) (simp_all add: keeps_vector keeps_object keeps_http keeps_mongo)

lemma remote_context_keeps: "target_keeps I tg \<Longrightarrow> env_keeps I env \<Longrightarrow> context_keeps I (remote_context h env tg)"
  by (simp add: context_keeps_def remote_context_def target_keeps_def keeps_reconcileSqlRowAsync keeps_witness)

section \<open>The run\<close>

named_theorems pio_keeps_intros

definition pio_keeps :: "('w \<Rightarrow> bool) \<Rightarrow> ('w, 'a) pio \<Rightarrow> bool" where
  "pio_keeps I m \<longleftrightarrow> (\<forall>w res w'. I w \<longrightarrow> m w = Some (res, w') \<longrightarrow> I w')"

lemma pio_keeps_of [pio_keeps_intros]: "keeps I m \<Longrightarrow> pio_keeps I (pio_of m)"
  by (auto simp: pio_keeps_def keeps_def)

lemma pio_keeps_bind [pio_keeps_intros]:
  assumes "pio_keeps I m" and "\<And>x w w'. m w = Some (Inr x, w') \<Longrightarrow> pio_keeps I (f x)"
  shows "pio_keeps I (pio_bind m f)"
  unfolding pio_keeps_def
proof (intro allI impI)
  fix w res w' assume w: "I w" and run: "pio_bind m f w = Some (res, w')"
  then obtain r w1 where m: "m w = Some (r, w1)" by (auto simp: pio_bind_def split: option.splits)
  with assms(1) w have w1: "I w1" unfolding pio_keeps_def by blast
  show "I w'"
  proof (cases r)
    case (Inr x)
    with m run have "f x w1 = Some (res, w')" by (simp add: pio_bind_def)
    with assms(2) [of w x w1] m Inr w1 show ?thesis unfolding pio_keeps_def by blast
  qed (use m run w1 in \<open>simp add: pio_bind_def\<close>)
qed

lemma pio_keeps_finally [pio_keeps_intros]:
  assumes "pio_keeps I m" and "keeps I f"
  shows "pio_keeps I (pio_finally m f)"
  unfolding pio_keeps_def
proof (intro allI impI)
  fix w res w' assume w: "I w" and run: "pio_finally m f w = Some (res, w')"
  then obtain r w1 where m: "m w = Some (r, w1)" by (auto simp: pio_finally_def split: option.splits)
  with assms(1) w have "I w1" unfolding pio_keeps_def by blast
  with assms(2) have "I (snd (f w1))" by (simp add: keeps_def)
  moreover have "w' = snd (f w1)"
    using run m by (auto simp: pio_finally_def split: prod.splits sum.splits)
  ultimately show "I w'" by simp
qed

lemma pio_keeps_map [pio_keeps_intros]: "(\<And>x. pio_keeps I (f x)) \<Longrightarrow> pio_keeps I (pio_map f xs)"
  by (induction xs) (auto intro!: pio_keeps_intros keeps_intros)

text \<open>The step log may keep \<open>I\<close> too; then so does every step, and the run.\<close>

lemma keeps_logStepOutcome: "(\<And>l. keeps I (lg l)) \<Longrightarrow> keeps I (logStepOutcome lg wid s)"
  unfolding logStepOutcome_def by (intro keeps_intros)

lemma keeps_finish_step: "(\<And>l. keeps I (lg l)) \<Longrightarrow> keeps I (finish_step lg wid ev s)"
  unfolding finish_step_def by (intro keeps_intros keeps_logStepOutcome)

lemma pio_keeps_verify_step:
  "(\<And>l. keeps I (lg l)) \<Longrightarrow> (\<And>rd. pio_keeps I (exec rd)) \<Longrightarrow>
     pio_keeps I (verify_step_with h lg exec wid reg target ev n)"
  by (auto simp: verify_step_with_def Let_def intro!: pio_keeps_intros keeps_intros keeps_finish_step
      split: option.splits resolve.splits)

lemma pio_keeps_run_plan:
  "(\<And>l. keeps I (lg l)) \<Longrightarrow> (\<And>ev n. pio_keeps I (verify ev n)) \<Longrightarrow>
     pio_keeps I (run_plan h lg wid reg verify plan)"
  by (auto simp: run_plan_def intro!: pio_keeps_intros keeps_intros keeps_logStepOutcome)

lemma pio_keeps_async:
  assumes "\<And>l. keeps I (lg l)" and "context_keeps I ctx" and "timing_keeps I tm"
  shows "pio_keeps I (runLogicalStepsVerificationAsync h lg ctx tm pol wid reg k evs)"
proof -
  have "pio_keeps I (executeVerificationWithPolicyAsync rd pol ctx tm)" for rd
    unfolding pio_keeps_def using execution_keeps [OF _ assms(2,3)] by blast
  then show ?thesis
    unfolding runLogicalStepsVerificationAsync_def verifyToolObservedStepAsync_def
    by (intro pio_keeps_map pio_keeps_run_plan pio_keeps_verify_step assms(1))
qed

lemma keeps_sync_execution:
  assumes "selects_keep I db"
  shows "keeps I (executeVerificationWithPolicySync h db rd pol)"
proof -
  have "keeps I (strong_sync h db rd)"
    using assms
    by (cases "(h, db, rd)" rule: strong_sync.cases)
      (auto simp: rollupMultiEffectsSync_def rollupSqlRelationalSync_def simp del: io_map.simps
        intro!: keeps_intros keeps_reconcileSqlRow keeps_reconcileSqlRowAbsent keeps_reconcileRelationalSqlite)
  then show ?thesis
    unfolding executeVerificationWithPolicySync_def by (intro keeps_intros) simp_all
qed

lemma pio_keeps_sync:
  assumes "\<And>l. keeps I (lg l)" and "selects_keep I db"
  shows "pio_keeps I (runLogicalStepsVerificationSync h lg db pol wid reg k evs)"
  unfolding runLogicalStepsVerificationSync_def verifyToolObservedStep_def
  by (intro pio_keeps_map pio_keeps_run_plan pio_keeps_verify_step pio_keeps_of keeps_sync_execution assms)

text \<open>Everything the run opens or calls keeps \<open>I\<close> under the statements it may send.\<close>

definition runtime_keeps :: "('w \<Rightarrow> bool) \<Rightarrow> 'w runtime \<Rightarrow> bool" where
  "runtime_keeps I rt \<longleftrightarrow> timing_keeps I (rt_timing rt) \<and> (\<forall>path. keeps I (rt_openSqlite rt path))
     \<and> (\<forall>path w db w'. rt_openSqlite rt path w = (Inr db, w') \<longrightarrow>
          selects_keep I db \<and> keeps I (rt_closeSqlite rt db))
     \<and> drivers_keep I (rt_drivers rt) \<and> env_keeps I (rt_witness rt)"

lemma keeps_rethrow: "keeps I m \<Longrightarrow> keeps I (io_rethrow code m)"
  unfolding io_rethrow_def by (intro keeps_intros)

lemma pio_keeps_run_steps:
  assumes log: "\<And>l. keeps I (lg l)" and rt: "runtime_keeps I rt"
  shows "pio_keeps I (run_steps h rt lg database pol wid reg evs)"
proof -
  have tm: "timing_keeps I (rt_timing rt)" and dr: "drivers_keep I (rt_drivers rt)"
    and env: "env_keeps I (rt_witness rt)" and sq: "\<And>path. keeps I (rt_openSqlite rt path)"
    using rt by (auto simp: runtime_keeps_def)
  have opened: "pio_keeps I (pio_finally
      (if is_strong pol then runLogicalStepsVerificationSync h lg db pol wid reg DbSqlite evs
       else runLogicalStepsVerificationAsync h lg (createSqlitePolicyContext h db) (rt_timing rt) pol wid reg DbSqlite evs)
      (rt_closeSqlite rt db))" if "rt_openSqlite rt path w = (Inr db, w')" for db path w w'
  proof -
    have "selects_keep I db" "keeps I (rt_closeSqlite rt db)"
      using rt that unfolding runtime_keeps_def by blast+
    then show ?thesis
      by (cases "is_strong pol")
        (simp_all add: pio_keeps_finally pio_keeps_sync pio_keeps_async log tm sqlite_context_keeps)
  qed
  have server: "pio_keeps I (pio_finally
      (runLogicalStepsVerificationAsync h lg (remote_context h (rt_witness rt) tg) (rt_timing rt) pol wid reg k evs)
      (tg_close tg))" if "openVerificationSqlTarget h (rt_drivers rt) database w = (Inr tg, w')" for tg w w' k
    using opened_target_keeps [OF that dr]
    by (simp add: pio_keeps_finally pio_keeps_async log tm env remote_context_keeps target_keeps_def)
  show ?thesis
  proof (cases "vd_kind database = DbSqlite")
    case True
    show ?thesis
      unfolding run_steps_def if_P [OF True]
      by (rule pio_keeps_bind [OF pio_keeps_of [OF keeps_rethrow [OF sq]]]) (drule rethrow_Inr, erule opened)
  next
    case False
    show ?thesis
      unfolding run_steps_def if_not_P [OF False]
      by (rule pio_keeps_bind [OF pio_keeps_of [OF keeps_rethrow [OF keeps_open [OF dr]]]])
        (drule rethrow_Inr, erule server)
  qed
qed

lemma pio_keeps_run:
  assumes "\<And>l. keeps I (lg l)" and "runtime_keeps I rt"
  shows "pio_keeps I (verifyRunStateFromEvents h rt lg database pol wid reg ld)"
  unfolding verifyRunStateFromEvents_def
  by (intro pio_keeps_bind pio_keeps_run_steps assms pio_keeps_of keeps_lift)

lemma pio_keeps_verifyWorkflow:
  assumes "\<And>l. keeps I (lg l)" and "runtime_keeps I rt"
  shows "pio_keeps I (verifyWorkflow h rt lg decode decodeReg database input wid eventsFile registryFile)"
  unfolding verifyWorkflow_def
  by (intro pio_keeps_bind pio_keeps_run assms pio_keeps_of keeps_lift)

end
