(* ===== verification/Examples.thy ===== *)
theory Examples
  imports ReadOnly
begin

text \<open>
  Concrete inputs on which the properties are applied: a host, a database that answers
  every query alike, a registry with one tool, a captured event and a runtime.
\<close>

definition demo_host :: host where
  "demo_host = \<lparr>h_numStr = (\<lambda>q. ''0.5''), h_localeCompare = compareUtf16Id, h_dateParse = (\<lambda>s. None),
     h_isoString = (\<lambda>t. ''1970-01-01T00:00:00.000Z''), h_jsonParse = (\<lambda>s. None),
     h_objString = (\<lambda>v. ''[object Object]'')\<rparr>"

definition demo_params :: jsval where
  "demo_params = VObj [(''id'', VStr ''7''), (''f'', VObj [(''name'', VStr ''Ann'')])]"

definition demo_event :: tool_event where
  "demo_event = \<lparr>te_wire = WireV1, te_workflowId = ''w'', te_seq = 0, te_toolId = ''t'',
     te_params = demo_params, te_timestamp = None\<rparr>"

definition demo_row_spec :: sql_row_spec where
  "demo_row_spec = \<lparr>srs_table = \<lparr>sp_const = Some ''c'', sp_pointer = None\<rparr>,
     srs_identityEq = [\<lparr>rp_column = \<lparr>sp_const = Some ''id'', sp_pointer = None\<rparr>,
        rp_value = \<lparr>sp_const = None, sp_pointer = Some ''/id''\<rparr>\<rparr>],
     srs_requiredFields = ''/f''\<rparr>"

definition demo_entry :: registry_entry where
  "demo_entry = \<lparr>re_toolId = ''t'', re_effectDescriptionTemplate = ''writes'', re_releaseCritical = Some True,
     re_verification = VSqlRow demo_row_spec\<rparr>"

definition demo_request :: row_request where
  "demo_request = \<lparr>rq_table = ''c'', rq_identityEq = [\<lparr>ip_column = ''id'', ip_value = ''7''\<rparr>],
     rq_requiredFields = [(''name'', SStr ''Ann'')]\<rparr>"

text \<open>A database whose queries all answer \<open>rows\<close>, and one that also logs what it is sent.\<close>

definition const_db :: "row list \<Rightarrow> 'w sqlite_db" where
  "const_db rows = \<lparr>db_all = (\<lambda>t vs. io_return rows), db_get = (\<lambda>t vs. io_return (Some (rows ! 0)))\<rparr>"

definition logging_db :: "row list \<Rightarrow> (string list) sqlite_db" where
  "logging_db rows = \<lparr>db_all = (\<lambda>t vs log. (Inr rows, t # log)),
     db_get = (\<lambda>t vs log. (Inr (Some (rows ! 0)), t # log))\<rparr>"

definition ann_row :: row where
  "ann_row = [(''id'', VInt 7), (''name'', VStr ''Ann'')]"

definition demo_client :: "'w client" where
  "demo_client = \<lparr>cl_connect = io_return (), cl_query = (\<lambda>t vs. io_return []), cl_end = io_return ()\<rparr>"

definition demo_drivers :: "'w drivers" where
  "demo_drivers = \<lparr>dr_pgClient = (\<lambda>s. demo_client), dr_mysqlPool = (\<lambda>s. io_return demo_client)\<rparr>"

definition demo_env :: "'w witness_env" where
  "demo_env = \<lparr>we_env = (\<lambda>s. None), we_urlProtocol = (\<lambda>s. None), we_encodeURIComponent = (\<lambda>s. s),
     we_fetch = (\<lambda>c n. io_throw (JsError ''offline'')),
     we_headObject = (\<lambda>t n w. (Inr \<lparr>ho_ContentLength = None, ho_ETag = None\<rparr>, w)),
     we_getObject = (\<lambda>t n w. (Inr \<lparr>go_Body = None\<rparr>, w)), we_sha256hex = (\<lambda>s. s),
     we_mongoConnect = (\<lambda>s. io_return ()), we_mongoFindOne = (\<lambda>c q. io_return VNull),
     we_mongoClose = io_return ()\<rparr>"

definition runtime_on :: "'w sqlite_db \<Rightarrow> 'w runtime" where
  "runtime_on db = \<lparr>rt_timing = \<lparr>tm_now = (\<lambda>w. (0, w)), tm_sleep = (\<lambda>ms w. w)\<rparr>,
     rt_openSqlite = (\<lambda>path. io_return db), rt_closeSqlite = (\<lambda>db. io_return ()),
     rt_drivers = demo_drivers, rt_witness = demo_env\<rparr>"

definition demo_runtime :: "row list \<Rightarrow> unit runtime" where
  "demo_runtime rows = runtime_on (const_db rows)"

definition demo_load :: load_result where
  "demo_load = \<lparr>ld_events = [demo_event], ld_runEvents = [ToolObserved demo_event], ld_runLevelReasons = [],
     ld_eventSequenceIntegrity = IntegrityNormal, ld_malformedEventLineCount = 0,
     ld_counts = \<lparr>ec_nonEmptyLines = 1, ec_schemaValidEvents = 1, ec_toolObservedRequested = 1,
        ec_toolObservedOther = 0\<rparr>\<rparr>"

definition demo_run :: "(unit, engine_result) pio" where
  "demo_run = verifyRunStateFromEvents demo_host (demo_runtime [ann_row]) (\<lambda>l. io_return ())
     (VerificationDatabase DbSqlite ''app.db'') DEFAULT_VERIFICATION_POLICY ''w'' [''t'' \<mapsto> demo_entry] demo_load"

definition run_succeeds :: "((js_error + engine_result) \<times> unit) option \<Rightarrow> bool" where
  "run_succeeds r = (case r of Some (Inr e, _) \<Rightarrow> er_status e = Complete | _ \<Rightarrow> False)"

lemma demo_run_succeeds: "run_succeeds (demo_run ())"
  by code_simp

text \<open>The resolver on the example: the request the tool's parameters ask for.\<close>

lemma demo_resolved:
  "resolveVerificationRequest demo_host demo_entry demo_params (Some DbSqlite) = ROk (RdSqlRow demo_request)"
  by code_simp

section \<open>A world with a clock\<close>

definition demo_world :: world where
  "demo_world = \<lparr>wd_clock = 0, wd_lag = (\<lambda>n. 0), wd_timers = 0\<rparr>"

text \<open>A database that never answers with a row, and a runtime over it whose servers are down.\<close>

definition clock_runtime :: "world runtime" where
  "clock_runtime = (runtime_on (const_db []))\<lparr>rt_timing := defaultTiming,
     rt_drivers := \<lparr>dr_pgClient = (\<lambda>s. demo_client\<lparr>cl_connect := io_throw (JsError ''refused'')\<rparr>),
        dr_mysqlPool = (\<lambda>s. io_throw (JsError ''refused''))\<rparr>\<rparr>"

lemma const_db_keeps: "selects_keep I (const_db rows)"
  by (simp add: selects_keep_def const_db_def keeps_return)

lemma const_db_clock: "turns_no_clock_back (createSqlitePolicyContext h (const_db rows))"
  unfolding turns_no_clock_back_def by (intro allI sqlite_context_keeps const_db_keeps)

lemma clock_runtime_forward: "clock_forward h clock_runtime"
proof -
  have "openVerificationSqlTarget h (rt_drivers clock_runtime) vd w \<noteq> (Inr tg, w')" for vd w tg w'
    by (cases "vd_kind vd") (simp_all add: openVerificationSqlTarget_def clock_runtime_def Let_def
        connectPostgresVerificationClient_def connector_not_shipped_def io_bind_def)
  then show ?thesis by (auto simp: clock_forward_def clock_runtime_def runtime_on_def const_db_clock)
qed

lemma logging_db_keeps: "selects_keep (list_all is_select) (logging_db rows)"
  by (simp add: selects_keep_def logging_db_def keeps_def)

section \<open>A whole workflow\<close>

text \<open>The files hold one event and a registry of one tool; the parser knows their two texts.\<close>

definition file_host :: host where
  "file_host = demo_host\<lparr>h_jsonParse := (\<lambda>s. if s = ''event'' then Some (VInt 1)
     else if s = ''registry'' then Some (VInt 2) else None)\<rparr>"

definition demo_decode :: "jsval \<Rightarrow> run_event option" where
  "demo_decode v = (case v of VNum n \<Rightarrow> if num_eq n (num_of_int 1) then Some (ToolObserved demo_event) else None
     | _ \<Rightarrow> None)"

definition demo_workflow :: "((js_error + engine_result) \<times> unit) option" where
  "demo_workflow = verifyWorkflow file_host (demo_runtime [ann_row]) (\<lambda>l. io_return ())
     demo_decode (\<lambda>v. Inr [demo_entry]) (VerificationDatabase DbSqlite ''app.db'') None ''w''
     (Inr ''event'') (Inr ''registry'') ()"

lemma demo_workflow_succeeds: "run_succeeds demo_workflow"
  by code_simp

text \<open>The same run over the logging database: it keeps what its database keeps under selects.\<close>

lemma runtime_on_keeps: "selects_keep I db \<Longrightarrow> runtime_keeps I (runtime_on db)"
  by (auto simp: runtime_keeps_def runtime_on_def timing_keeps_def drivers_keep_def client_keeps_def
      demo_drivers_def demo_client_def queries_keep_def env_keeps_def demo_env_def
      intro!: keeps_return keeps_throw)

definition logged_workflow :: "((js_error + engine_result) \<times> string list) option" where
  "logged_workflow = verifyWorkflow file_host (runtime_on (logging_db [ann_row])) (\<lambda>l. io_return ())
     demo_decode (\<lambda>v. Inr [demo_entry]) (VerificationDatabase DbSqlite ''app.db'') None ''w''
     (Inr ''event'') (Inr ''registry'') []"

text \<open>A run under a bounded policy whose events file has no line that parses.\<close>

definition bounded_workflow :: "((js_error + engine_result) \<times> unit) option" where
  "bounded_workflow = verifyWorkflow file_host (demo_runtime [ann_row]) (\<lambda>l. io_return ())
     demo_decode (\<lambda>v. Inr [demo_entry]) (VerificationDatabase DbSqlite ''app.db'')
     (Some (PolicyBounded (num_of_int 50) (num_of_int 10) (num_of_int 5))) ''w''
     (Inr ''unreadable'') (Inr ''registry'') ()"

text \<open>A run whose row is missing.\<close>

definition missing_workflow :: "((js_error + engine_result) \<times> unit) option" where
  "missing_workflow = verifyWorkflow file_host (demo_runtime []) (\<lambda>l. io_return ())
     demo_decode (\<lambda>v. Inr [demo_entry]) (VerificationDatabase DbSqlite ''app.db'') None ''w''
     (Inr ''event'') (Inr ''registry'') ()"

definition run_gives :: "(engine_result \<Rightarrow> bool) \<Rightarrow> ((js_error + engine_result) \<times> unit) option \<Rightarrow> bool" where
  "run_gives P x = (case x of Some (Inr e, _) \<Rightarrow> P e | _ \<Rightarrow> False)"

lemma run_givesE:
  assumes "run_gives P x"
  obtains r w' where "x = Some (Inr r, w')" and "P r"
  using assms by (auto simp: run_gives_def split: option.splits prod.splits sum.splits)

lemma bounded_workflow_fails:
  "run_gives (\<lambda>r. er_status r \<noteq> Complete \<and> is_bounded (er_verificationPolicy r)) bounded_workflow"
  by code_simp

lemma missing_workflow_fails:
  "run_gives (\<lambda>r. er_status r = InconsistentWorkflow
     \<and> map (\<lambda>s. map rs_code (so_reasons s)) (er_steps r) = [[''ROW_ABSENT'']]) missing_workflow"
  by code_simp

end
