(* ===== verification/FailureOrigins.thy ===== *)
theory FailureOrigins
  imports PipelineProperties
begin

text \<open>
  Where a failure comes from: the tables of \<open>src/failureOriginCatalog.ts\<close> from reason codes
  to origins, over the codes of \<open>src/wireReasonCodes.ts\<close>, and the classification of what
  blocks a run of \<open>src/workflowFailureSignals.ts\<close>. A table is an association list; a later
  member of an object literal replaces an earlier one, so what the source spreads last comes
  first. Codes are constants of the program, never names of \<open>Object.prototype\<close> members.
\<close>

section \<open>Helpers for sets of strings\<close>

text \<open>\<open>[...new Set(xs)]\<close>: first occurrences, in order.\<close>

definition js_unique :: "'a list \<Rightarrow> 'a list" where
  "js_unique xs = foldl (\<lambda>seen x. if x \<in> set seen then seen else seen @ [x]) [] xs"

lemma js_unique_snoc:
  "js_unique (xs @ [x]) = (if x \<in> set (js_unique xs) then js_unique xs else js_unique xs @ [x])"
  by (simp add: js_unique_def)

lemma js_unique_Nil [simp]: "js_unique [] = []"
  by (simp add: js_unique_def)

lemma set_js_unique [simp]: "set (js_unique xs) = set xs"
  by (induction xs rule: rev_induct) (auto simp: js_unique_snoc)

lemma distinct_js_unique [simp]: "distinct (js_unique xs)"
  by (induction xs rule: rev_induct) (simp_all add: js_unique_snoc)

lemma js_unique_distinct: "distinct xs \<Longrightarrow> js_unique xs = xs"
  by (induction xs rule: rev_induct) (simp_all add: js_unique_snoc)

lemma js_unique_eq_Nil [simp]: "js_unique xs = [] \<longleftrightarrow> xs = []"
  by (metis set_js_unique set_empty)

text \<open>\<open>[...new Set(codes)].sort((a, b) => a.localeCompare(b))\<close>.\<close>

definition sortUniqueCodes :: "host \<Rightarrow> string list \<Rightarrow> string list" where
  "sortUniqueCodes h codes = js_sort (h_localeCompare h) (js_unique codes)"

lemma sortUniqueCodes_facts [simp]:
  "set (sortUniqueCodes h cs) = set cs" "distinct (sortUniqueCodes h cs)"
  "sortUniqueCodes h cs = [] \<longleftrightarrow> cs = []" "sortUniqueCodes h [] = []" "sortUniqueCodes h [c] = [c]"
  by (simp_all add: sortUniqueCodes_def js_unique_distinct)

section \<open>Reason codes\<close>

text \<open>The values of \<open>SQL_VERIFICATION_OUTCOME_CODE\<close>.\<close>

definition SQL_VERIFICATION_OUTCOME_CODES :: "string list" where
  "SQL_VERIFICATION_OUTCOME_CODES =
     [''ROW_ABSENT'', ''DUPLICATE_ROWS'', ''ROW_SHAPE_MISMATCH'', ''UNREADABLE_VALUE'', ''VALUE_MISMATCH'',
      ''CONNECTOR_ERROR'', ''MULTI_EFFECT_INCOMPLETE'', ''MULTI_EFFECT_ALL_FAILED'', ''MULTI_EFFECT_PARTIAL'',
      ''ROW_NOT_OBSERVED_WITHIN_WINDOW'', ''MULTI_EFFECT_UNCERTAIN_WITHIN_WINDOW'', ''UNKNOWN_TOOL'',
      ''RETRY_OBSERVATIONS_DIVERGE'', ''RELATED_ROWS_ABSENT'', ''RELATIONAL_EXPECTATION_MISMATCH'',
      ''RELATIONAL_SCALAR_UNUSABLE'', ''ROW_PRESENT_WHEN_FORBIDDEN'', ''ORPHAN_ROW_DETECTED'',
      ''FORBIDDEN_ROWS_STILL_PRESENT_WITHIN_WINDOW'', ''STATE_WITNESS_UNAVAILABLE_IN_SQLITE_FILE_MODE'',
      ''STATE_WITNESS_SETUP_ERROR'', ''VECTOR_NOT_FOUND'', ''VECTOR_METADATA_MISMATCH'',
      ''VECTOR_PAYLOAD_MISMATCH'', ''VECTOR_PROVIDER_ERROR'', ''OBJECT_MISSING'', ''OBJECT_DIGEST_MISMATCH'',
      ''OBJECT_SIZE_MISMATCH'', ''OBJECT_METADATA_MISMATCH'', ''OBJECT_TOO_LARGE_FOR_HASH'',
      ''HTTP_WITNESS_STATUS_MISMATCH'', ''HTTP_WITNESS_ASSERTION_MISMATCH'', ''HTTP_WITNESS_NETWORK_ERROR'',
      ''MONGO_DOCUMENT_MISSING'', ''MONGO_VALUE_MISMATCH'', ''RELATIONAL_UNSUPPORTED_DIALECT'',
      ''BOUNDED_WINDOW_EXPIRED_WITHOUT_OBSERVATION'', ''BOUNDED_MODE_UNSUPPORTED_FOR_CONNECTOR'',
      ''CONNECTOR_UNSUPPORTED_IN_SCOPE'']"

section \<open>Origins\<close>

datatype failure_origin =
    DecisionMaking
  | InputsOrigin
  | RetrievalOrigin
  | ToolUse
  | WorkflowFlow
  | DownstreamSystemState

fun origin_text :: "failure_origin \<Rightarrow> string" where
  "origin_text DecisionMaking = ''decision_making''"
| "origin_text InputsOrigin = ''inputs''"
| "origin_text RetrievalOrigin = ''retrieval''"
| "origin_text ToolUse = ''tool_use''"
| "origin_text WorkflowFlow = ''workflow_flow''"
| "origin_text DownstreamSystemState = ''downstream_system_state''"

definition STEP_NO_REASON_CODE :: string where
  "STEP_NO_REASON_CODE = ''STEP_NO_REASON''"

definition TEST_BLOCKING_CODE :: string where
  "TEST_BLOCKING_CODE = ''TEST_BLOCKING_CODE''"

definition REASON_CODE_TO_ORIGIN :: "(string \<times> failure_origin) list" where
  "REASON_CODE_TO_ORIGIN = map (\<lambda>c. (c, InputsOrigin)) RESOLVE_FAILURE_CODES @
     [(STEP_NO_REASON_CODE, WorkflowFlow), (TEST_BLOCKING_CODE, WorkflowFlow),
      (''ROW_ABSENT'', DownstreamSystemState), (''RELATED_ROWS_ABSENT'', DownstreamSystemState),
      (''RELATIONAL_EXPECTATION_MISMATCH'', DownstreamSystemState),
      (''RELATIONAL_SCALAR_UNUSABLE'', DownstreamSystemState), (''DUPLICATE_ROWS'', DownstreamSystemState),
      (''VALUE_MISMATCH'', DownstreamSystemState), (''ROW_NOT_OBSERVED_WITHIN_WINDOW'', DownstreamSystemState),
      (''MULTI_EFFECT_UNCERTAIN_WITHIN_WINDOW'', DownstreamSystemState),
      (''ROW_PRESENT_WHEN_FORBIDDEN'', DownstreamSystemState), (''ORPHAN_ROW_DETECTED'', DownstreamSystemState),
      (''FORBIDDEN_ROWS_STILL_PRESENT_WITHIN_WINDOW'', DownstreamSystemState),
      (''CONNECTOR_ERROR'', DownstreamSystemState), (''ROW_SHAPE_MISMATCH'', DownstreamSystemState),
      (''UNREADABLE_VALUE'', DownstreamSystemState),
      (''UNKNOWN_TOOL'', ToolUse), (''RETRY_OBSERVATIONS_DIVERGE'', ToolUse),
      (''MULTI_EFFECT_PARTIAL'', DownstreamSystemState), (''MULTI_EFFECT_ALL_FAILED'', DownstreamSystemState),
      (''MULTI_EFFECT_INCOMPLETE'', DownstreamSystemState),
      (''STATE_WITNESS_UNAVAILABLE_IN_SQLITE_FILE_MODE'', WorkflowFlow),
      (''STATE_WITNESS_SETUP_ERROR'', InputsOrigin), (''VECTOR_NOT_FOUND'', DownstreamSystemState),
      (''VECTOR_METADATA_MISMATCH'', DownstreamSystemState), (''VECTOR_PAYLOAD_MISMATCH'', DownstreamSystemState),
      (''VECTOR_PROVIDER_ERROR'', DownstreamSystemState), (''OBJECT_MISSING'', DownstreamSystemState),
      (''OBJECT_DIGEST_MISMATCH'', DownstreamSystemState), (''OBJECT_SIZE_MISMATCH'', DownstreamSystemState),
      (''OBJECT_METADATA_MISMATCH'', DownstreamSystemState), (''OBJECT_TOO_LARGE_FOR_HASH'', DownstreamSystemState),
      (''HTTP_WITNESS_STATUS_MISMATCH'', DownstreamSystemState),
      (''HTTP_WITNESS_ASSERTION_MISMATCH'', DownstreamSystemState),
      (''HTTP_WITNESS_NETWORK_ERROR'', DownstreamSystemState),
      (''MONGO_DOCUMENT_MISSING'', DownstreamSystemState), (''MONGO_VALUE_MISMATCH'', DownstreamSystemState),
      (''BOUNDED_WINDOW_EXPIRED_WITHOUT_OBSERVATION'', DownstreamSystemState),
      (''BOUNDED_MODE_UNSUPPORTED_FOR_CONNECTOR'', InputsOrigin), (''CONNECTOR_UNSUPPORTED_IN_SCOPE'', WorkflowFlow),
      (''PLAN_RULE_ROW_KIND_MISMATCH'', WorkflowFlow), (''PLAN_RULE_FORBIDDEN_ROW'', WorkflowFlow),
      (''PLAN_RULE_REQUIRED_ROW_MISSING'', WorkflowFlow), (''PLAN_RULE_ALLOWLIST_VIOLATION'', WorkflowFlow),
      (''PLAN_RULE_RENAME_MISMATCH'', WorkflowFlow)]"

definition RUN_LEVEL_CODE_TO_ORIGIN :: "(string \<times> failure_origin) list" where
  "RUN_LEVEL_CODE_TO_ORIGIN =
     [(''MALFORMED_EVENT_LINE'', InputsOrigin), (''NO_STEPS_FOR_WORKFLOW'', WorkflowFlow),
      (''LANGGRAPH_CHECKPOINT_TRUST_NON_V3_TOOL_OBSERVED'', InputsOrigin), (TEST_BLOCKING_CODE, WorkflowFlow)]"

definition EVENT_SEQUENCE_CODE_TO_ORIGIN :: "(string \<times> failure_origin) list" where
  "EVENT_SEQUENCE_CODE_TO_ORIGIN =
     [(CAPTURE_ORDER_CODE, WorkflowFlow), (TIMESTAMP_NOT_MONOTONIC_CODE, WorkflowFlow)]"

text \<open>The three lookups that throw on an unknown code.\<close>

definition origin_lookup :: "string \<Rightarrow> (string \<times> failure_origin) list \<Rightarrow> string \<Rightarrow> js_error + failure_origin" where
  "origin_lookup name table code =
     (case map_of table code of
        None \<Rightarrow> Inl (JsError (name @ '' missing required code: '' @ code))
      | Some origin \<Rightarrow> Inr origin)"

definition originForStepReasonCode :: "string \<Rightarrow> js_error + failure_origin" where
  "originForStepReasonCode = origin_lookup ''REASON_CODE_TO_ORIGIN'' REASON_CODE_TO_ORIGIN"

definition originForRunLevelCode :: "string \<Rightarrow> js_error + failure_origin" where
  "originForRunLevelCode = origin_lookup ''RUN_LEVEL_CODE_TO_ORIGIN'' RUN_LEVEL_CODE_TO_ORIGIN"

definition originForEventSequenceCode :: "string \<Rightarrow> js_error + failure_origin" where
  "originForEventSequenceCode = origin_lookup ''EVENT_SEQUENCE_CODE_TO_ORIGIN'' EVENT_SEQUENCE_CODE_TO_ORIGIN"

definition PRODUCTION_STEP_REASON_CODES :: "string list" where
  "PRODUCTION_STEP_REASON_CODES =
     filter (\<lambda>c. c \<noteq> STEP_NO_REASON_CODE \<and> c \<noteq> TEST_BLOCKING_CODE) (map fst REASON_CODE_TO_ORIGIN)"

section \<open>What blocks a run\<close>

fun integrity_reasons :: "event_integrity \<Rightarrow> reason list" where
  "integrity_reasons IntegrityNormal = []"
| "integrity_reasons (IntegrityIrregular rs) = rs"

fun is_irregular :: "event_integrity \<Rightarrow> bool" where
  "is_irregular IntegrityNormal = False"
| "is_irregular (IntegrityIrregular _) = True"

definition collectWorkflowCodes :: "engine_result \<Rightarrow> string list" where
  "collectWorkflowCodes r =
     js_unique (map rs_code (er_runLevelReasons r)
       @ map rs_code (integrity_reasons (er_eventSequenceIntegrity r))
       @ concat (map (\<lambda>s. map rs_code (so_reasons s)) (er_steps r)))"

datatype evidence_gap =
    GapNone
  | PreviewLane
  | IngestEmpty
  | IngestUnstructured
  | RegistryUnknownTool
  | RegistryResolution
  | DatabaseAccess
  | TimingOrWindow
  | WitnessUnavailable
  | StateMismatch
  | VerificationIncompleteGap
  | EventSequenceGap
  | ControlFlowContext
  | GapUnclassified

definition context_blocked :: "run_context \<Rightarrow> bool" where
  "context_blocked ctx \<longleftrightarrow> rc_toolSkippedEvents ctx \<noteq> []
     \<or> list_ex (\<lambda>(_, _, _, decision, _). decision = Some Skipped) (rc_controlEvents ctx)
     \<or> list_ex (\<lambda>(_, _, status). status \<noteq> MtCompleted) (rc_modelTurnEvents ctx)"

definition classifyWorkflowBlocker :: "engine_result \<Rightarrow> evidence_gap" where
  "classifyWorkflowBlocker r =
     (let C = collectWorkflowCodes r; has = (\<lambda>c. c \<in> set C)
      in if has ''NO_STEPS_FOR_WORKFLOW'' then IngestEmpty
         else if has ''MALFORMED_EVENT_LINE'' then IngestUnstructured
         else if is_irregular (er_eventSequenceIntegrity r) then EventSequenceGap
         else if context_blocked (er_verificationRunContext r) then ControlFlowContext
         else if has ''UNKNOWN_TOOL'' then RegistryUnknownTool
         else if list_ex (\<lambda>c. c \<in> set RESOLVE_FAILURE_CODES) C then RegistryResolution
         else if list_ex has [''STATE_WITNESS_UNAVAILABLE_IN_SQLITE_FILE_MODE'', ''STATE_WITNESS_SETUP_ERROR'']
              then WitnessUnavailable
         else if list_ex has [''CONNECTOR_ERROR'', ''ROW_SHAPE_MISMATCH'', ''UNREADABLE_VALUE'',
                ''VECTOR_PROVIDER_ERROR'', ''HTTP_WITNESS_NETWORK_ERROR''] then DatabaseAccess
         else if list_ex has [''ROW_NOT_OBSERVED_WITHIN_WINDOW'', ''MULTI_EFFECT_UNCERTAIN_WITHIN_WINDOW'',
                ''FORBIDDEN_ROWS_STILL_PRESENT_WITHIN_WINDOW'', ''BOUNDED_WINDOW_EXPIRED_WITHOUT_OBSERVATION'']
              then TimingOrWindow
         else if er_status r = InconsistentWorkflow then StateMismatch
         else if er_status r = Incomplete then VerificationIncompleteGap
         else GapNone)"

section \<open>Every code the engine emits has an origin\<close>

lemma step_codes_have_origin: "c \<in> set (step_codes s) \<Longrightarrow> map_of REASON_CODE_TO_ORIGIN c \<noteq> None"
proof -
  have "list_all (\<lambda>s. list_all (\<lambda>c. map_of REASON_CODE_TO_ORIGIN c \<noteq> None) (step_codes s))
      [Verified, Missing, Inconsistent, IncompleteVerification, PartiallyVerified, Uncertain]"
    by code_simp
  then have "list_all (\<lambda>c. map_of REASON_CODE_TO_ORIGIN c \<noteq> None) (step_codes s)"
    by (cases s) simp_all
  then show "c \<in> set (step_codes s) \<Longrightarrow> map_of REASON_CODE_TO_ORIGIN c \<noteq> None"
    by (auto simp: list_all_iff)
qed

lemma origin_lookup_total: "map_of t c \<noteq> None \<Longrightarrow> \<exists>g. origin_lookup n t c = Inr g"
  by (auto simp: origin_lookup_def)

lemma step_code_origin: "c \<in> set (step_codes s) \<Longrightarrow> \<exists>g. originForStepReasonCode c = Inr g"
  unfolding originForStepReasonCode_def by (intro origin_lookup_total step_codes_have_origin)

lemma blocker_none_iff:
  "classifyWorkflowBlocker r = GapNone \<Longrightarrow> er_status r = Complete"
  by (cases "er_status r") (simp_all add: classifyWorkflowBlocker_def Let_def split: if_splits)

end
