(* ===== verification/ExecutionPath.thy ===== *)
theory ExecutionPath
  imports FailureOrigins
begin

text \<open>
  The findings about the path of a run (\<open>src/executionPathFindings.ts\<close>): what was recorded
  of retrievals, model turns, controls and tools, apart from the verdict on the state. They
  are built in a fixed order, deduplicated, and checked against the codes a finding may have;
  the two internal errors of that check never occur.
\<close>

section \<open>Evidence and findings\<close>

datatype evidence_scope = ScopeRunContext | ScopeRunLevel | ScopeEventSequence | ScopeStep | ScopeEffect

text \<open>An item of evidence; every item the program builds lists its codes.\<close>

record evidence_item =
  ei_scope :: evidence_scope
  ei_codes :: "string list"
  ei_ingestIndex :: "nat option"
  ei_seq :: "int option"
  ei_toolId :: "string option"
  ei_effectId :: "string option"
  ei_source :: "string option"
  ei_runEventId :: "string option"

definition evidence_of :: "evidence_scope \<Rightarrow> string list \<Rightarrow> evidence_item" where
  "evidence_of scope codes =
     \<lparr>ei_scope = scope, ei_codes = codes, ei_ingestIndex = None, ei_seq = None, ei_toolId = None,
      ei_effectId = None, ei_source = None, ei_runEventId = None\<rparr>"

definition context_evidence :: "nat \<Rightarrow> string \<Rightarrow> string \<Rightarrow> evidence_item" where
  "context_evidence i runEventId code =
     (evidence_of ScopeRunContext [code])\<lparr>ei_ingestIndex := Some i, ei_runEventId := Some runEventId\<rparr>"

definition step_evidence :: "step_outcome \<Rightarrow> string \<Rightarrow> evidence_item" where
  "step_evidence s code =
     (evidence_of ScopeStep [code])\<lparr>ei_seq := Some (so_seq s), ei_toolId := Some (so_toolId s)\<rparr>"

datatype level = High | Medium | Low

datatype path_concern =
    ContextQuality
  | DecisionExecution
  | ToolSelectionExecution
  | ActionInputsInvalid
  | WorkflowCompleteness
  | CaptureIntegrity

record path_finding =
  pf_code :: string
  pf_severity :: level
  pf_concernCategory :: path_concern
  pf_message :: string
  pf_evidence :: evidence_item

definition mk_finding ::
  "string \<Rightarrow> level \<Rightarrow> path_concern \<Rightarrow> string \<Rightarrow> evidence_item \<Rightarrow> path_finding" where
  "mk_finding code severity category message ev =
     \<lparr>pf_code = code, pf_severity = severity, pf_concernCategory = category, pf_message = message,
      pf_evidence = ev\<rparr>"

lemma mk_finding_code [simp]: "pf_code (mk_finding c s g m e) = c"
  by (simp add: mk_finding_def)

definition ACTION_INPUT_REASON_CODES :: "string list" where
  "ACTION_INPUT_REASON_CODES = ''UNKNOWN_TOOL'' # RESOLVE_FAILURE_CODES"

definition RECONCILER_STEP_REASON_CODES :: "string list" where
  "RECONCILER_STEP_REASON_CODES = SQL_VERIFICATION_OUTCOME_CODES"

definition EXECUTION_PATH_FINDING_CODES :: "string list" where
  "EXECUTION_PATH_FINDING_CODES =
     [''RETRIEVAL_EMPTY'', ''RETRIEVAL_ERROR'', ''RETRIEVAL_THIN_HITS'', ''NO_RETRIEVAL_EVENTS'',
      ''MODEL_TURN_ABNORMAL'', ''CONTROL_INTERRUPT'', ''BRANCH_OR_GATE_SKIPPED'', ''TOOL_SKIPPED'',
      ''ACTION_INPUT_RESOLUTION_FAILED'', ''MISSING_RUN_COMPLETED'', ''LOGICAL_STEP_RETRIES'',
      ''RETRY_OBSERVATIONS_DIVERGE'', ''LAST_EVENT_MODEL_ABNORMAL'', ''RUN_LEVEL_INGEST_ISSUES'',
      ''EVENT_SEQUENCE_IRREGULAR'']"

definition RECONCILER_CODE_OK_AS_PATH_FINDING_CODE :: "string list" where
  "RECONCILER_CODE_OK_AS_PATH_FINDING_CODE = [''RETRY_OBSERVATIONS_DIVERGE'']"

section \<open>Building the findings\<close>

fun model_status_text :: "model_turn_status \<Rightarrow> string" where
  "model_status_text MtCompleted = ''completed''"
| "model_status_text MtError = ''error''"
| "model_status_text MtAborted = ''aborted''"
| "model_status_text MtIncomplete = ''incomplete''"

text \<open>\<open>`MODEL_TURN_${status.toUpperCase()}`\<close>, \<open>`CONTROL_${kind.toUpperCase()}_SKIPPED`\<close>.\<close>

fun model_turn_code :: "model_turn_status \<Rightarrow> string" where
  "model_turn_code MtCompleted = ''MODEL_TURN_COMPLETED''"
| "model_turn_code MtError = ''MODEL_TURN_ERROR''"
| "model_turn_code MtAborted = ''MODEL_TURN_ABORTED''"
| "model_turn_code MtIncomplete = ''MODEL_TURN_INCOMPLETE''"

fun control_text :: "control_kind \<Rightarrow> string" where
  "control_text CkBranch = ''branch''"
| "control_text CkLoop = ''loop''"
| "control_text CkInterrupt = ''interrupt''"
| "control_text CkGate = ''gate''"
| "control_text CkRunCompleted = ''run_completed''"

fun control_skipped_code :: "control_kind \<Rightarrow> string" where
  "control_skipped_code CkBranch = ''CONTROL_BRANCH_SKIPPED''"
| "control_skipped_code CkLoop = ''CONTROL_LOOP_SKIPPED''"
| "control_skipped_code CkInterrupt = ''CONTROL_INTERRUPT_SKIPPED''"
| "control_skipped_code CkGate = ''CONTROL_GATE_SKIPPED''"
| "control_skipped_code CkRunCompleted = ''CONTROL_RUN_COMPLETED_SKIPPED''"

definition run_level_findings :: "host \<Rightarrow> engine_result \<Rightarrow> path_finding list" where
  "run_level_findings h engine =
     (if er_runLevelReasons engine = [] then []
      else
        (let codes = sortUniqueCodes h (map rs_code (er_runLevelReasons engine))
         in [mk_finding ''RUN_LEVEL_INGEST_ISSUES'' High CaptureIntegrity
               (''Run-level ingest or parse issues ('' @ join '', '' codes @ '').'')
               (evidence_of ScopeRunLevel codes)]))"

definition sequence_findings :: "host \<Rightarrow> engine_result \<Rightarrow> path_finding list" where
  "sequence_findings h engine =
     (case er_eventSequenceIntegrity engine of
        IntegrityNormal \<Rightarrow> []
      | IntegrityIrregular reasons \<Rightarrow>
          (let codes = sortUniqueCodes h (map rs_code reasons)
           in [mk_finding ''EVENT_SEQUENCE_IRREGULAR'' Medium CaptureIntegrity
                 (''Event capture order or timestamps were irregular ('' @ join '', '' codes @ '').'')
                 (evidence_of ScopeEventSequence codes)]))"

definition retrieval_finding ::
  "nat \<times> string \<times> string \<times> retrieval_status \<times> int option \<Rightarrow> path_finding list" where
  "retrieval_finding r =
     (case r of (i, runEventId, source, status, hitCount) \<Rightarrow>
        (let finding = (\<lambda>code severity msg. mk_finding code severity ContextQuality
               (''Retrieval from '' @ [CHR 0x22] @ source @ [CHR 0x22] @ msg)
               ((context_evidence i runEventId code)\<lparr>ei_source := Some source\<rparr>))
         in case status of
              RtEmpty \<Rightarrow> [finding ''RETRIEVAL_EMPTY'' High '' returned empty.'']
            | RtError \<Rightarrow> [finding ''RETRIEVAL_ERROR'' High '' failed.'']
            | RtOk \<Rightarrow>
                (if hitCount = Some 0
                 then [finding ''RETRIEVAL_THIN_HITS'' Medium '' reported ok with hitCount 0.''] else [])))"

definition wire_with_graph :: "run_context \<Rightarrow> bool" where
  "wire_with_graph ctx \<longleftrightarrow> rc_maxWireSchemaVersion ctx = 2 \<or> rc_maxWireSchemaVersion ctx = 3"

definition no_retrieval_finding :: "run_context \<Rightarrow> path_finding list" where
  "no_retrieval_finding ctx =
     (if wire_with_graph ctx \<and> rc_retrievalEvents ctx = [] \<and> rc_firstToolObservedIngestIndex ctx \<noteq> None
      then [mk_finding ''NO_RETRIEVAL_EVENTS'' Low ContextQuality
              ''No retrieval events recorded before tool observations (coarse missing-context signal).''
              (evidence_of ScopeRunContext [''NO_RETRIEVAL_EVENTS''])]
      else [])"

definition model_turn_finding :: "nat \<times> string \<times> model_turn_status \<Rightarrow> path_finding list" where
  "model_turn_finding m =
     (case m of (i, runEventId, status) \<Rightarrow>
        (if status = MtCompleted then []
         else [mk_finding ''MODEL_TURN_ABNORMAL'' High DecisionExecution
                 (''Model turn ended with status '' @ model_status_text status @ ''.'')
                 (context_evidence i runEventId (model_turn_code status))]))"

definition control_finding ::
  "nat \<times> string \<times> control_kind \<times> control_decision option \<times> string option \<Rightarrow> path_finding list" where
  "control_finding c =
     (case c of (i, runEventId, kind, decision, _) \<Rightarrow>
        (if kind = CkInterrupt
         then [mk_finding ''CONTROL_INTERRUPT'' High DecisionExecution
                 ''Control interrupt recorded in run graph.''
                 (context_evidence i runEventId ''CONTROL_INTERRUPT'')]
         else if (kind = CkBranch \<or> kind = CkGate) \<and> decision = Some Skipped
         then [mk_finding ''BRANCH_OR_GATE_SKIPPED'' Medium DecisionExecution
                 (control_text kind @ '' path was skipped.'')
                 (context_evidence i runEventId (control_skipped_code kind))]
         else []))"

definition tool_skipped_finding :: "nat \<times> string \<times> string \<Rightarrow> path_finding" where
  "tool_skipped_finding s =
     (case s of (i, toolId, _) \<Rightarrow>
        mk_finding ''TOOL_SKIPPED'' Medium ToolSelectionExecution (''Tool '' @ toolId @ '' was skipped.'')
          ((evidence_of ScopeRunContext [''TOOL_SKIPPED''])
             \<lparr>ei_ingestIndex := Some i, ei_toolId := Some toolId\<rparr>))"

definition unresolved_finding :: "step_outcome \<Rightarrow> path_finding list" where
  "unresolved_finding s =
     (if so_status s \<noteq> IncompleteVerification then []
      else (case first_code (so_reasons s) of
          None \<Rightarrow> []
        | Some primary \<Rightarrow>
            (if primary \<in> set ACTION_INPUT_REASON_CODES
             then [mk_finding ''ACTION_INPUT_RESOLUTION_FAILED'' High ActionInputsInvalid
                     (''Tool '' @ so_toolId s @ '' at seq '' @ int_str (so_seq s)
                        @ '': parameter/registry resolution failed ('' @ primary @ '').'')
                     (step_evidence s primary)]
             else if primary = ''RETRY_OBSERVATIONS_DIVERGE''
             then [mk_finding ''RETRY_OBSERVATIONS_DIVERGE'' Medium WorkflowCompleteness
                     (''Seq '' @ int_str (so_seq s) @ '' tool '' @ so_toolId s
                        @ '': repeated observations diverged.'')
                     (step_evidence s primary)]
             else [])))"

definition step_findings :: "step_outcome \<Rightarrow> path_finding list" where
  "step_findings s = unresolved_finding s @
     (if so_repeatObservationCount s > 1
      then [mk_finding ''LOGICAL_STEP_RETRIES'' Low WorkflowCompleteness
              (''Seq '' @ int_str (so_seq s) @ '' tool '' @ so_toolId s @ '': ''
                 @ nat_str (so_repeatObservationCount s) @ '' observations for one logical step.'')
              (step_evidence s ''LOGICAL_STEP_RETRIES'')]
      else [])"

definition missing_completion_finding :: "run_context \<Rightarrow> path_finding list" where
  "missing_completion_finding ctx =
     (if wire_with_graph ctx \<and> rc_firstToolObservedIngestIndex ctx \<noteq> None \<and> \<not> rc_hasRunCompletedControl ctx
      then [mk_finding ''MISSING_RUN_COMPLETED'' Medium WorkflowCompleteness
              ''No run_completed control event after tool observations (v2 graph).''
              (evidence_of ScopeRunContext [''MISSING_RUN_COMPLETED''])]
      else [])"

definition last_event_finding :: "run_context \<Rightarrow> path_finding list" where
  "last_event_finding ctx =
     (case rc_lastRunEvent ctx of
        None \<Rightarrow> []
      | Some final \<Rightarrow>
          (case lr_modelTurnStatus final of
             None \<Rightarrow> []
           | Some status \<Rightarrow>
               (if lr_type final = ''model_turn'' \<and> status \<noteq> MtCompleted
                then [mk_finding ''LAST_EVENT_MODEL_ABNORMAL'' High WorkflowCompleteness
                        (''Last captured event is model_turn with status '' @ model_status_text status @ ''.'')
                        ((evidence_of ScopeRunContext [model_turn_code status])
                           \<lparr>ei_ingestIndex := Some (lr_ingestIndex final)\<rparr>)]
                else [])))"

definition all_findings :: "host \<Rightarrow> engine_result \<Rightarrow> path_finding list" where
  "all_findings h engine =
     (let ctx = er_verificationRunContext engine
      in run_level_findings h engine @ sequence_findings h engine
         @ concat (map retrieval_finding (rc_retrievalEvents ctx)) @ no_retrieval_finding ctx
         @ concat (map model_turn_finding (rc_modelTurnEvents ctx))
         @ concat (map control_finding (rc_controlEvents ctx))
         @ map tool_skipped_finding (rc_toolSkippedEvents ctx)
         @ concat (map step_findings (er_steps engine))
         @ missing_completion_finding ctx @ last_event_finding ctx)"

section \<open>Deduplication and the check of the codes\<close>

text \<open>\<open>`${f.code}\0${ingestIndex ?? -1}\0${seq ?? -1}\0${toolId ?? ""}`\<close>.\<close>

definition finding_key :: "path_finding \<Rightarrow> string" where
  "finding_key f =
     (let e = pf_evidence f
      in pf_code f @ [CHR 0x00] @ (case ei_ingestIndex e of None \<Rightarrow> ''-1'' | Some i \<Rightarrow> nat_str i)
         @ [CHR 0x00] @ (case ei_seq e of None \<Rightarrow> ''-1'' | Some n \<Rightarrow> int_str n)
         @ [CHR 0x00] @ (case ei_toolId e of None \<Rightarrow> [] | Some t \<Rightarrow> t))"

definition dedupe_step :: "string list \<times> path_finding list \<Rightarrow> path_finding \<Rightarrow> string list \<times> path_finding list" where
  "dedupe_step acc f =
     (case acc of (seen, out) \<Rightarrow>
        (let key = finding_key f
         in if key \<in> set seen then (seen, out) else (key # seen, out @ [f])))"

definition dedupeFindings :: "path_finding list \<Rightarrow> path_finding list" where
  "dedupeFindings findings = snd (foldl dedupe_step ([], []) findings)"

definition check_finding_code :: "path_finding \<Rightarrow> js_error + unit" where
  "check_finding_code f =
     (if pf_code f \<notin> set EXECUTION_PATH_FINDING_CODES
      then Inl (JsError (''Internal error: unknown execution path finding code '' @ pf_code f))
      else if pf_code f \<in> set RECONCILER_STEP_REASON_CODES
              \<and> pf_code f \<notin> set RECONCILER_CODE_OK_AS_PATH_FINDING_CODE
      then Inl (JsError (''Internal error: reconciler code leaked into path finding: '' @ pf_code f))
      else Inr ())"

definition buildExecutionPathFindings :: "host \<Rightarrow> engine_result \<Rightarrow> js_error + path_finding list" where
  "buildExecutionPathFindings h engine =
     (let deduped = dedupeFindings (all_findings h engine)
      in throws_bind (throws_map check_finding_code deduped) (\<lambda>_. Inr deduped))"

definition buildExecutionPathSummary :: "host \<Rightarrow> path_finding list \<Rightarrow> nat \<Rightarrow> string" where
  "buildExecutionPathSummary h findings maxWireSchemaVersion =
     (if findings = [] then
        (if maxWireSchemaVersion = 1
         then ''Full upstream execution-path visibility requires schemaVersion 2 run events (retrieval, model_turn, control, tool_skipped) with run graph fields.''
         else ''No execution-path concerns detected under current rules.'')
      else ''execution_path_concerns='' @ nat_str (length findings) @ ''; codes=''
         @ join '','' (sortUniqueCodes h (map pf_code findings)))"

section \<open>What the findings are\<close>

text \<open>The first finding of each key stays, in order.\<close>

fun first_of_each :: "('a \<Rightarrow> 'k) \<Rightarrow> 'a list \<Rightarrow> 'a list" where
  "first_of_each key [] = []"
| "first_of_each key (x # xs) = x # filter (\<lambda>y. key y \<noteq> key x) (first_of_each key xs)"

lemma dedupe_step_pair:
  "dedupe_step (seen, out) f =
     (if finding_key f \<in> set seen then (seen, out) else (finding_key f # seen, out @ [f]))"
  by (simp add: dedupe_step_def Let_def)

lemma dedupe_fold:
  "snd (foldl dedupe_step (seen, out) fs)
     = out @ filter (\<lambda>f. finding_key f \<notin> set seen) (first_of_each finding_key fs)"
proof (induction fs arbitrary: seen out)
  case (Cons f fs)
  show ?case
    by (auto simp: dedupe_step_pair Cons.IH intro!: filter_cong)
qed simp

lemma dedupe_first_of_each: "dedupeFindings fs = first_of_each finding_key fs"
  by (simp add: dedupeFindings_def dedupe_fold)

lemma set_first_of_each: "set (first_of_each key xs) \<subseteq> set xs"
  by (induction xs) auto

lemma first_of_each_distinct: "distinct (map key (first_of_each key xs))"
  by (induction xs) (auto simp: distinct_map_filter)

lemma first_of_each_keys: "key ` set (first_of_each key xs) = key ` set xs"
proof (induction xs)
  case (Cons x xs)
  have "key ` set (x # xs) = insert (key x) (key ` set (first_of_each key xs))"
    by (simp add: Cons.IH)
  then show ?case by auto
qed simp

definition finding_codes_ok :: "path_finding list \<Rightarrow> bool" where
  "finding_codes_ok fs \<longleftrightarrow> list_all (\<lambda>f. pf_code f \<in> set EXECUTION_PATH_FINDING_CODES) fs"

lemma finding_codes_append [simp]:
  "finding_codes_ok (xs @ ys) \<longleftrightarrow> finding_codes_ok xs \<and> finding_codes_ok ys"
  "finding_codes_ok []"
  by (simp_all add: finding_codes_ok_def)

lemma finding_codes_concat: "(\<And>x. finding_codes_ok (f x)) \<Longrightarrow> finding_codes_ok (concat (map f xs))"
  by (induction xs) simp_all

lemma finding_code_members:
  "list_all (\<lambda>c. c \<in> set EXECUTION_PATH_FINDING_CODES)
     [''RUN_LEVEL_INGEST_ISSUES'', ''EVENT_SEQUENCE_IRREGULAR'', ''RETRIEVAL_EMPTY'', ''RETRIEVAL_ERROR'',
      ''RETRIEVAL_THIN_HITS'', ''NO_RETRIEVAL_EVENTS'', ''MODEL_TURN_ABNORMAL'', ''CONTROL_INTERRUPT'',
      ''BRANCH_OR_GATE_SKIPPED'', ''TOOL_SKIPPED'', ''ACTION_INPUT_RESOLUTION_FAILED'',
      ''RETRY_OBSERVATIONS_DIVERGE'', ''LOGICAL_STEP_RETRIES'', ''MISSING_RUN_COMPLETED'',
      ''LAST_EVENT_MODEL_ABNORMAL'']"
  by code_simp

lemma all_findings_codes: "finding_codes_ok (all_findings h engine)"
proof -
  note mem = finding_code_members [unfolded list.pred_inject]
  have "finding_codes_ok (retrieval_finding r)" for r
    using mem by (cases r) (simp add: retrieval_finding_def Let_def finding_codes_ok_def split: retrieval_status.split)
  moreover have "finding_codes_ok (model_turn_finding m)" for m
    using mem by (cases m) (simp add: model_turn_finding_def finding_codes_ok_def)
  moreover have "finding_codes_ok (control_finding c)" for c
    using mem by (cases c) (simp add: control_finding_def finding_codes_ok_def)
  moreover have "finding_codes_ok (map tool_skipped_finding ts)" for ts
    using mem by (induction ts) (auto simp: tool_skipped_finding_def finding_codes_ok_def split: prod.split)
  moreover have "finding_codes_ok (step_findings s)" for s
    using mem by (simp add: step_findings_def unresolved_finding_def finding_codes_ok_def split: option.split)
  moreover have "finding_codes_ok (run_level_findings h engine)" "finding_codes_ok (sequence_findings h engine)"
    "finding_codes_ok (no_retrieval_finding ctx)" "finding_codes_ok (missing_completion_finding ctx)"
    "finding_codes_ok (last_event_finding ctx)" for ctx
    using mem by (simp_all add: run_level_findings_def sequence_findings_def no_retrieval_finding_def
        missing_completion_finding_def last_event_finding_def Let_def finding_codes_ok_def
        split: event_integrity.split option.split)
  ultimately show ?thesis
    by (simp add: all_findings_def Let_def finding_codes_concat)
qed

lemma allowed_codes_pass:
  "list_all (\<lambda>c. c \<in> set RECONCILER_STEP_REASON_CODES \<longrightarrow> c \<in> set RECONCILER_CODE_OK_AS_PATH_FINDING_CODE)
     EXECUTION_PATH_FINDING_CODES"
  by code_simp

lemma check_finding_code_ok: "pf_code f \<in> set EXECUTION_PATH_FINDING_CODES \<Longrightarrow> check_finding_code f = Inr ()"
  using allowed_codes_pass by (auto simp: check_finding_code_def list_all_iff)

lemma check_all_findings:
  "finding_codes_ok fs \<Longrightarrow> throws_map check_finding_code fs = Inr (map (\<lambda>_. ()) fs)"
  by (induction fs) (simp_all add: finding_codes_ok_def check_finding_code_ok)

lemma findings_result:
  "buildExecutionPathFindings h engine = Inr (first_of_each finding_key (all_findings h engine))"
proof -
  have "finding_codes_ok (dedupeFindings (all_findings h engine))"
    using all_findings_codes [of h engine] set_first_of_each [of finding_key "all_findings h engine"]
    by (auto simp: finding_codes_ok_def list_all_iff dedupe_first_of_each)
  then show ?thesis
    by (simp add: buildExecutionPathFindings_def Let_def check_all_findings dedupe_first_of_each)
qed

end
