(* ===== verification/FailureAnalysis.thy ===== *)
theory FailureAnalysis
  imports ExecutionPath "HOL-Library.Product_Lexorder"
begin

text \<open>
  The attribution of an unsuccessful run (\<open>src/failureAnalysis.ts\<close>): run-level issues first,
  then what the recorded context shows before the failing observation, then the order of the
  events, and at last the failing step itself. The analysis never throws on a result of the
  engine and never meets a code without an origin.
\<close>

section \<open>Statuses in order of severity\<close>

fun STATUS_RANK :: "step_status \<Rightarrow> int" where
  "STATUS_RANK IncompleteVerification = 0"
| "STATUS_RANK Missing = 1"
| "STATUS_RANK Inconsistent = 2"
| "STATUS_RANK PartiallyVerified = 3"
| "STATUS_RANK Uncertain = 4"
| "STATUS_RANK Verified = 99"

lemma STATUS_RANK_inj [simp]: "STATUS_RANK a = STATUS_RANK b \<longleftrightarrow> a = b"
  by (cases a; cases b) simp_all

text \<open>The table orders the statuses: the least is the worst.\<close>

instantiation step_status :: linorder
begin

definition less_eq_step_status :: "step_status \<Rightarrow> step_status \<Rightarrow> bool" where
  "less_eq_step_status a b \<longleftrightarrow> STATUS_RANK a \<le> STATUS_RANK b"

definition less_step_status :: "step_status \<Rightarrow> step_status \<Rightarrow> bool" where
  "less_step_status a b \<longleftrightarrow> STATUS_RANK a < STATUS_RANK b"

instance
  by standard (auto simp: less_eq_step_status_def less_step_status_def antisym)

end

section \<open>Reading a failed step\<close>

definition failingSeqSet :: "step_outcome list \<Rightarrow> int list" where
  "failingSeqSet steps = js_unique (map so_seq (filter (\<lambda>s. so_status s \<noteq> Verified) steps))"

fun min_of :: "nat list \<Rightarrow> nat option" where
  "min_of [] = None"
| "min_of (i # is) = Some (fold min is i)"

definition iFailForF :: "int list \<Rightarrow> run_context \<Rightarrow> nat option" where
  "iFailForF F ctx =
     min_of (List.map_filter (\<lambda>seq. rc_toolObservedIngestIndexBySeq ctx (int_str seq)) F)"

text \<open>A row of \<open>evidenceSummary.effects\<close>; the elements of its reasons are not inspected.\<close>

record parsed_effect =
  pe_id :: string
  pe_status :: string
  pe_reasons :: "jsval list"

definition parse_effect :: "jsval \<Rightarrow> parsed_effect option" where
  "parse_effect row =
     (if \<not> is_object row then None
      else (case (get_prop row ''id'', get_prop row ''status'', get_prop row ''reasons'') of
          (VStr i, VStr st, VArr rs) \<Rightarrow> Some \<lparr>pe_id = i, pe_status = st, pe_reasons = rs\<rparr>
        | _ \<Rightarrow> None))"

definition parseEffects :: "evidence \<Rightarrow> parsed_effect list" where
  "parseEffects evidenceSummary =
     (case get_prop (VObj evidenceSummary) ''effects'' of
        VArr rows \<Rightarrow> List.map_filter parse_effect rows
      | _ \<Rightarrow> [])"

definition failing_effects :: "host \<Rightarrow> step_outcome \<Rightarrow> parsed_effect list" where
  "failing_effects h step =
     js_sort (\<lambda>a b. h_localeCompare h (pe_id a) (pe_id b))
       (filter (\<lambda>e. pe_status e \<noteq> ''verified'') (parseEffects (so_evidence step)))"

definition is_rollup :: "step_outcome \<Rightarrow> bool" where
  "is_rollup step \<longleftrightarrow>
     (case first_code (so_reasons step) of None \<Rightarrow> False | Some c \<Rightarrow> c \<in> set MULTI_EFFECT_ROLLUP_CODES)"

definition own_code :: "step_outcome \<Rightarrow> string" where
  "own_code step = (case first_code (so_reasons step) of None \<Rightarrow> STEP_NO_REASON_CODE | Some c \<Rightarrow> c)"

text \<open>
  \<open>first.reasons[0]!.code\<close>: the cast to a string is a conversion here; reading a member of
  \<open>null\<close> throws.
\<close>

definition reason_code :: "host \<Rightarrow> jsval \<Rightarrow> js_error + string" where
  "reason_code h r =
     (if r = VNull then Inl (JsTypeError ''Cannot read properties of null (reading 'code')'')
      else Inr (js_to_string h (get_prop r ''code'')))"

definition primaryCodeForStep :: "host \<Rightarrow> step_outcome \<Rightarrow> js_error + string" where
  "primaryCodeForStep h step =
     (if is_rollup step then
        (case failing_effects h step of
           [] \<Rightarrow> Inr (own_code step)
         | first # _ \<Rightarrow>
             (case pe_reasons first of
                [] \<Rightarrow> Inr (own_code step)
              | r # _ \<Rightarrow> if r = VUndef then Inr (own_code step) else reason_code h r))
      else Inr (own_code step))"

definition driver_compare :: "host \<Rightarrow> step_outcome \<Rightarrow> step_outcome \<Rightarrow> int" where
  "driver_compare h a b =
     (let ra = STATUS_RANK (so_status a); rb = STATUS_RANK (so_status b)
      in if ra \<noteq> rb then ra - rb
         else if so_seq a \<noteq> so_seq b then so_seq a - so_seq b
         else h_localeCompare h (so_toolId a) (so_toolId b))"

text \<open>\<open>bad[0]\<close>, \<open>undefined\<close> when every step is verified.\<close>

definition normativeDriverStep :: "host \<Rightarrow> step_outcome list \<Rightarrow> step_outcome option" where
  "normativeDriverStep h steps =
     (case js_sort (driver_compare h) (filter (\<lambda>s. so_status s \<noteq> Verified) steps) of
        [] \<Rightarrow> None | d # _ \<Rightarrow> Some d)"

section \<open>The analysis\<close>

record failure_alternative =
  fl_primaryOrigin :: failure_origin
  fl_rationale :: string

record failure_analysis =
  fa_summary :: string
  fa_primaryOrigin :: failure_origin
  fa_confidence :: level
  fa_unknownReasonCodes :: "string list"
  fa_evidence :: "evidence_item list"
  fa_alternativeHypotheses :: "failure_alternative list option"

definition mk_analysis ::
  "string \<Rightarrow> failure_origin \<Rightarrow> level \<Rightarrow> string list \<Rightarrow> evidence_item list \<Rightarrow>
     failure_alternative list option \<Rightarrow> failure_analysis" where
  "mk_analysis summary origin confidence unknown evid alts =
     \<lparr>fa_summary = summary, fa_primaryOrigin = origin, fa_confidence = confidence,
      fa_unknownReasonCodes = unknown, fa_evidence = evid, fa_alternativeHypotheses = alts\<rparr>"

lemma mk_analysis_sel [simp]:
  "fa_unknownReasonCodes (mk_analysis s g c u e a) = u" "fa_primaryOrigin (mk_analysis s g c u e a) = g"
  "fa_confidence (mk_analysis s g c u e a) = c" "fa_evidence (mk_analysis s g c u e a) = e"
  by (simp_all add: mk_analysis_def)

definition alternative :: "failure_origin \<Rightarrow> string \<Rightarrow> failure_alternative" where
  "alternative g r = \<lparr>fl_primaryOrigin = g, fl_rationale = r\<rparr>"

definition alternativesForCode :: "string \<Rightarrow> failure_alternative list option" where
  "alternativesForCode primaryCode =
     (if primaryCode = ''ROW_ABSENT'' then Some
        [alternative DownstreamSystemState
           ''The database has no row at the verified key; the tool log may not have committed a write, or replication lag prevented observation.'',
         alternative ToolUse
           ''The database has no row at the verified key; the registry key/value or pointer resolution from tool params may not match the row that was written.'']
      else if primaryCode = ''VALUE_MISMATCH'' then Some
        [alternative DownstreamSystemState
           ''Stored column values differ from required fields; the live database state may have diverged from what the tool reported.'',
         alternative InputsOrigin
           ''Stored column values differ from required fields; registry pointers or consts used to build the verification request may not match the observation payload.'']
      else None)"

datatype summary_phase =
    PhaseRunLevel "string list"
  | PhaseRetrieval string
  | PhaseModelOrControl
  | PhaseBranchSkipped
  | PhaseToolSkipped
  | PhaseEventSequence string
  | PhaseStep step_outcome string

fun buildSummary :: "failure_origin \<Rightarrow> summary_phase \<Rightarrow> string" where
  "buildSummary origin (PhaseRunLevel codes) =
     ''Run-level ingest or planning issue ('' @ join '', '' codes @ ''); origin: '' @ origin_text origin @ ''.''"
| "buildSummary origin (PhaseRetrieval retrievalLabel) =
     ''A retrieval step failed before the failing tool observation ('' @ retrievalLabel @ ''); origin: retrieval.''"
| "buildSummary origin PhaseModelOrControl =
     ''A model or control event indicates the run did not complete normally before the failing tool observation; origin: ''
       @ origin_text origin @ ''.''"
| "buildSummary origin PhaseBranchSkipped =
     ''A branch or gate was skipped before the failing tool observation; decision-making may explain downstream behavior (see alternatives).''"
| "buildSummary origin PhaseToolSkipped =
     ''A tool was skipped before the failing tool observation; origin: tool_use.''"
| "buildSummary origin (PhaseEventSequence eventCode) =
     ''Event capture order or timestamps were irregular ('' @ eventCode @ ''); origin: workflow_flow.''"
| "buildSummary origin (PhaseStep st pc) =
     ''Primary failure at seq '' @ int_str (so_seq st) @ '' tool '' @ so_toolId st @ '' (code '' @ pc
       @ ''); origin: '' @ origin_text origin @ ''.''
       @ (if is_rollup st
          then '' Multi-effect verification: authoritative per-effect outcomes are under workflowTruthReport.steps[].effects.''
          else [])"

text \<open>
  The codes of a phase against a table: the first known one in collation order decides the
  origin, unknown ones make it \<open>workflow_flow\<close>.
\<close>

definition unknown_in :: "host \<Rightarrow> (string \<times> failure_origin) list \<Rightarrow> string list \<Rightarrow> string list" where
  "unknown_in h table codes = sortUniqueCodes h (filter (\<lambda>c. c \<notin> set (map fst table)) codes)"

definition known_in :: "(string \<times> failure_origin) list \<Rightarrow> string list \<Rightarrow> string list" where
  "known_in table codes = filter (\<lambda>c. c \<in> set (map fst table)) codes"

definition minLex :: "host \<Rightarrow> string list \<Rightarrow> string" where
  "minLex h codes = (case sortUniqueCodes h codes of [] \<Rightarrow> ''undefined'' | c # _ \<Rightarrow> c)"

definition first_of_table :: "host \<Rightarrow> (string \<times> failure_origin) list \<Rightarrow> string list \<Rightarrow> string" where
  "first_of_table h table codes =
     (if known_in table codes \<noteq> [] then minLex h (known_in table codes) else minLex h codes)"

definition origin_in :: "(string \<times> failure_origin) list \<Rightarrow> string \<Rightarrow> failure_origin" where
  "origin_in table c = (case map_of table c of None \<Rightarrow> WorkflowFlow | Some g \<Rightarrow> g)"

definition analyse_run_level :: "host \<Rightarrow> reason list \<Rightarrow> failure_analysis" where
  "analyse_run_level h reasons =
     (let codes = map rs_code reasons;
          unique = sortUniqueCodes h codes;
          unknownReasonCodes = unknown_in h RUN_LEVEL_CODE_TO_ORIGIN unique;
          origin = origin_in RUN_LEVEL_CODE_TO_ORIGIN (first_of_table h RUN_LEVEL_CODE_TO_ORIGIN unique);
          confidence = (if unknownReasonCodes \<noteq> [] then Low
                        else if length (js_unique codes) = 1 then High else Medium)
      in mk_analysis (buildSummary origin (PhaseRunLevel unique)) origin confidence unknownReasonCodes
           [evidence_of ScopeRunLevel unique] None)"

definition branch_or_gate_skipped ::
  "nat \<times> string \<times> control_kind \<times> control_decision option \<times> string option \<Rightarrow> bool" where
  "branch_or_gate_skipped e =
     (case e of (_, _, kind, decision, _) \<Rightarrow> (kind = CkBranch \<or> kind = CkGate) \<and> decision = Some Skipped)"

text \<open>Phases 1 to 3: what was recorded before the failing observation at \<open>iFail\<close>.\<close>

definition before :: "nat \<Rightarrow> nat \<times> 'a \<Rightarrow> bool" where
  "before iFail e \<longleftrightarrow> fst e < iFail"

definition analyse_context :: "run_context \<Rightarrow> nat \<Rightarrow> failure_analysis option" where
  "analyse_context ctx iFail =
     (let errRetrievals = filter (\<lambda>e. (case e of (_, _, _, status, _) \<Rightarrow> status = RtError) \<and> before iFail e)
            (rc_retrievalEvents ctx)
      in case errRetrievals of
           (_, _, source0, _, _) # _ \<Rightarrow>
             Some (mk_analysis (buildSummary RetrievalOrigin (PhaseRetrieval source0)) RetrievalOrigin High []
               (map (\<lambda>(i, runEventId, source, _, _).
                  (context_evidence i runEventId ''RETRIEVAL_ERROR'')\<lparr>ei_source := Some source\<rparr>) errRetrievals) None)
         | [] \<Rightarrow>
      (case List.find (\<lambda>e. snd (snd e) \<in> {MtError, MtAborted, MtIncomplete} \<and> before iFail e) (rc_modelTurnEvents ctx) of
           Some (i, runEventId, status) \<Rightarrow>
             Some (mk_analysis (buildSummary DecisionMaking PhaseModelOrControl) DecisionMaking High []
               [context_evidence i runEventId (model_turn_code status)] None)
         | None \<Rightarrow>
      (case List.find (\<lambda>e. (case e of (_, _, kind, _, _) \<Rightarrow> kind = CkInterrupt) \<and> before iFail e) (rc_controlEvents ctx) of
           Some (i, runEventId, _, _, _) \<Rightarrow>
             Some (mk_analysis (buildSummary DecisionMaking PhaseModelOrControl) DecisionMaking High []
               [context_evidence i runEventId ''CONTROL_INTERRUPT''] None)
         | None \<Rightarrow>
      (case List.find (\<lambda>e. branch_or_gate_skipped e \<and> before iFail e) (rc_controlEvents ctx) of
           Some (i, runEventId, kind, _, _) \<Rightarrow>
             Some (mk_analysis (buildSummary DecisionMaking PhaseBranchSkipped) DecisionMaking Medium []
               [context_evidence i runEventId (control_skipped_code kind)]
               (Some [alternative WorkflowFlow
                  ''A branch or gate was skipped earlier in capture order; sequencing or capture may also explain the later verification outcome.'']))
         | None \<Rightarrow>
      (case List.find (before iFail) (rc_toolSkippedEvents ctx) of
           Some (i, toolId, _) \<Rightarrow>
             Some (mk_analysis (buildSummary ToolUse PhaseToolSkipped) ToolUse Medium []
               [(evidence_of ScopeRunContext [''TOOL_SKIPPED''])
                  \<lparr>ei_ingestIndex := Some i, ei_toolId := Some toolId\<rparr>] None)
         | None \<Rightarrow> None)))))"

definition analyse_sequence :: "host \<Rightarrow> reason list \<Rightarrow> failure_analysis" where
  "analyse_sequence h reasons =
     (let esCodes = sortUniqueCodes h (map rs_code reasons);
          unknownReasonCodes = unknown_in h EVENT_SEQUENCE_CODE_TO_ORIGIN esCodes;
          firstCode = first_of_table h EVENT_SEQUENCE_CODE_TO_ORIGIN esCodes;
          origin = origin_in EVENT_SEQUENCE_CODE_TO_ORIGIN firstCode
      in mk_analysis (buildSummary origin (PhaseEventSequence firstCode)) origin
           (if unknownReasonCodes \<noteq> [] then Low else High) unknownReasonCodes
           [evidence_of ScopeEventSequence esCodes] None)"

definition effect_evidence :: "host \<Rightarrow> step_outcome \<Rightarrow> string \<Rightarrow> evidence_item list" where
  "effect_evidence h driver primaryCode =
     (if is_rollup driver \<and> Some primaryCode \<noteq> first_code (so_reasons driver) then
        (case failing_effects h driver of
           [] \<Rightarrow> []
         | failing # _ \<Rightarrow>
             [(evidence_of ScopeEffect [primaryCode])
                \<lparr>ei_effectId := Some (pe_id failing), ei_seq := Some (so_seq driver)\<rparr>])
      else [])"

definition analyse_step :: "host \<Rightarrow> step_outcome \<Rightarrow> string \<Rightarrow> failure_analysis" where
  "analyse_step h driver primaryCode =
     (let mappedOrigin = map_of REASON_CODE_TO_ORIGIN primaryCode;
          origin = origin_in REASON_CODE_TO_ORIGIN primaryCode;
          alts = alternativesForCode primaryCode;
          confidence = (if primaryCode = STEP_NO_REASON_CODE \<or> mappedOrigin = None then Low
                        else if alts \<noteq> None then Medium else High)
      in mk_analysis (buildSummary origin (PhaseStep driver primaryCode)) origin confidence
           (unknown_in h REASON_CODE_TO_ORIGIN [primaryCode])
           (step_evidence driver primaryCode # effect_evidence h driver primaryCode) alts)"

definition analyse_steps :: "host \<Rightarrow> step_outcome list \<Rightarrow> js_error + failure_analysis" where
  "analyse_steps h steps =
     (if steps = [] then
        Inr (mk_analysis ''No verification steps were produced; origin: workflow_flow.'' WorkflowFlow High []
               [evidence_of ScopeStep [''NO_STEPS_FOR_WORKFLOW'']] None)
      else (case normativeDriverStep h steps of
          None \<Rightarrow> Inl (JsTypeError ''Cannot read properties of undefined (reading 'reasons')'')
        | Some driver \<Rightarrow>
            throws_bind (primaryCodeForStep h driver) (\<lambda>pc. Inr (analyse_step h driver pc))))"

definition buildFailureAnalysis :: "host \<Rightarrow> engine_result \<Rightarrow> js_error + failure_analysis option" where
  "buildFailureAnalysis h engine =
     (if er_status engine = Complete then Inr None
      else
        (let ctx = er_verificationRunContext engine;
             F = failingSeqSet (er_steps engine);
             iFail = (if F \<noteq> [] then iFailForF F ctx else None)
         in if er_runLevelReasons engine \<noteq> [] then Inr (Some (analyse_run_level h (er_runLevelReasons engine)))
            else (case (case iFail of None \<Rightarrow> None | Some i \<Rightarrow> analyse_context ctx i) of
                Some fa \<Rightarrow> Inr (Some fa)
              | None \<Rightarrow>
                  (case er_eventSequenceIntegrity engine of
                     IntegrityIrregular reasons \<Rightarrow> Inr (Some (analyse_sequence h reasons))
                   | IntegrityNormal \<Rightarrow>
                       throws_bind (analyse_steps h (er_steps engine)) (\<lambda>fa. Inr (Some fa))))))"

section \<open>The driver is the worst step, the first of them in sequence\<close>

lemma js_insert_cong: "(\<And>y. y \<in> set ys \<Longrightarrow> c x y = c' x y) \<Longrightarrow> js_insert c x ys = js_insert c' x ys"
  by (induction ys) auto

lemma js_sort_cong_on:
  assumes "\<And>x y. x \<in> set xs \<Longrightarrow> y \<in> set xs \<Longrightarrow> k x \<noteq> k y \<Longrightarrow> c x y = c' x y" and "distinct (map k xs)"
  shows "js_sort c xs = js_sort c' xs"
  using assms
proof (induction xs)
  case (Cons x xs)
  then have "js_sort c xs = js_sort c' xs" by simp
  moreover have "c x y = c' x y" if "y \<in> set xs" for y
  proof -
    have "k x \<noteq> k y" using that Cons.prems(2) by auto
    with that Cons.prems(1) show ?thesis by simp
  qed
  ultimately show ?case by (auto intro!: js_insert_cong)
qed simp

definition severity_compare :: "step_outcome \<Rightarrow> step_outcome \<Rightarrow> int" where
  "severity_compare a b =
     (if so_status a \<noteq> so_status b then STATUS_RANK (so_status a) - STATUS_RANK (so_status b)
      else so_seq a - so_seq b)"

lemma severity_compare_le:
  "severity_compare a b \<le> 0 \<longleftrightarrow> (so_status a, so_seq a) \<le> (so_status b, so_seq b)"
  by (auto simp: severity_compare_def less_eq_step_status_def less_step_status_def)

interpretation severity: comparator severity_compare
proof
  fix x y z
  show "0 < severity_compare x y \<Longrightarrow> severity_compare y x \<le> 0"
    by (metis severity_compare_le linear not_le)
  show "severity_compare x y \<le> 0 \<Longrightarrow> severity_compare y z \<le> 0 \<Longrightarrow> severity_compare x z \<le> 0"
    unfolding severity_compare_le by (rule order_trans)
qed

lemma driver_least:
  assumes "distinct (map so_seq steps)"
  shows "normativeDriverStep h steps = Some d \<longleftrightarrow> d \<in> set steps \<and> so_status d \<noteq> Verified
    \<and> (\<forall>s \<in> set steps. so_status s \<noteq> Verified \<longrightarrow> (so_status d, so_seq d) \<le> (so_status s, so_seq s))"
proof -
  let ?bad = "filter (\<lambda>s. so_status s \<noteq> Verified) steps"
  let ?least = "\<lambda>d. d \<in> set ?bad \<and> (\<forall>s \<in> set ?bad. (so_status d, so_seq d) \<le> (so_status s, so_seq s))"
  have sort: "js_sort (driver_compare h) ?bad = js_sort severity_compare ?bad"
    using assms
    by (intro js_sort_cong_on [where k = so_seq])
      (auto simp: driver_compare_def severity_compare_def distinct_map_filter)
  have uniq: "d = e" if "?least d" "?least e" for d e
  proof -
    have "so_seq d = so_seq e" using that by (metis antisym prod.inject)
    with that assms show ?thesis by (auto simp: distinct_map inj_on_def)
  qed
  show ?thesis
  proof (cases "js_sort severity_compare ?bad")
    case Nil
    then have "?bad = []" by simp
    with Nil sort show ?thesis by (auto simp: normativeDriverStep_def filter_empty_conv)
  next
    case (Cons e es)
    have "\<forall>s \<in> set es. severity_compare e s \<le> 0"
      using severity.sort_sorted [of ?bad] by (simp add: Cons)
    moreover have "set ?bad = insert e (set es)"
      by (metis Cons list.set(2) set_js_sort)
    ultimately have "?least e" by (simp add: severity_compare_le)
    with uniq have "e = d \<longleftrightarrow> ?least d" by blast
    with Cons sort show ?thesis by (auto simp: normativeDriverStep_def)
  qed
qed

lemma driver_exists: "normativeDriverStep h steps = None \<longleftrightarrow> (\<forall>s \<in> set steps. so_status s = Verified)"
proof -
  have "js_sort (driver_compare h) (filter (\<lambda>s. so_status s \<noteq> Verified) steps) = []
      \<longleftrightarrow> (\<forall>s \<in> set steps. so_status s = Verified)"
    by (simp add: filter_empty_conv)
  then show ?thesis by (auto simp: normativeDriverStep_def split: list.split)
qed

lemma driver_member:
  assumes "normativeDriverStep h steps = Some d"
  shows "d \<in> set steps \<and> so_status d \<noteq> Verified"
proof -
  let ?bad = "filter (\<lambda>s. so_status s \<noteq> Verified) steps"
  obtain ds where "js_sort (driver_compare h) ?bad = d # ds"
    using assms by (auto simp: normativeDriverStep_def split: list.splits)
  then have "d \<in> set ?bad" by (metis list.set_intros(1) set_js_sort)
  then show ?thesis by simp
qed

end
