(* ===== verification/AnalysisProperties.thy ===== *)
theory AnalysisProperties
  imports FailureAnalysis RunTermination
begin

text \<open>
  What the reports rely on: an engine result is \<open>accounted\<close> when its status follows from
  its reasons and steps, every step is explained, and every code is one of the catalogue.
  A finished run gives such a result, and on such a result the attribution of a failure never
  throws and leaves no code without an origin.
\<close>

section \<open>Results of the engine\<close>

definition accounted :: "engine_result \<Rightarrow> bool" where
  "accounted r \<longleftrightarrow> er_status r = workflow_status_of (er_runLevelReasons r) (er_steps r)
     \<and> (er_steps r = [] \<longrightarrow> er_runLevelReasons r \<noteq> [])
     \<and> list_all (\<lambda>s. explained (so_status s) (so_reasons s) (so_evidence s)) (er_steps r)
     \<and> sorted_wrt (<) (map so_seq (er_steps r))
     \<and> list_all (\<lambda>x. rs_code x \<in> {''MALFORMED_EVENT_LINE'', ''NO_STEPS_FOR_WORKFLOW''}) (er_runLevelReasons r)
     \<and> list_all (\<lambda>x. rs_code x \<in> {CAPTURE_ORDER_CODE, TIMESTAMP_NOT_MONOTONIC_CODE})
         (integrity_reasons (er_eventSequenceIntegrity r))
     \<and> er_eventSequenceIntegrity r \<noteq> IntegrityIrregular []"

lemma integrity_codes:
  "list_all (\<lambda>x. rs_code x \<in> {CAPTURE_ORDER_CODE, TIMESTAMP_NOT_MONOTONIC_CODE})
     (integrity_reasons (analyzeEventSequenceIntegrity h evs))"
  "analyzeEventSequenceIntegrity h evs \<noteq> IntegrityIrregular []"
  by (auto simp: analyzeEventSequenceIntegrity_def Let_def eventSequenceIssue_def
      eventSequenceTimestampNotMonotonicReason_def split: option.split prod.split)

lemma enrich_codes:
  "map rs_code (enrichNoStepsRunLevelReasons wid rs c) = map rs_code rs"
  "enrichNoStepsRunLevelReasons wid rs c = [] \<longleftrightarrow> rs = []"
  by (simp_all add: enrichNoStepsRunLevelReasons_def)

lemma workflow_status_cong:
  "(rs = []) = (rs' = []) \<Longrightarrow> workflow_status_of rs steps = workflow_status_of rs' steps"
  by (simp add: workflow_status_of_def)

lemma answers_explained:
  "list_all2 (outcome_of_plan reg) plans steps \<Longrightarrow>
     list_all (\<lambda>s. explained (so_status s) (so_reasons s) (so_evidence s)) steps"
  by (induction rule: list_all2_induct) (simp_all add: outcome_of_plan_def)

text \<open>
  What is loaded for a run, from a file or from the buffer of a gate: malformed inputs are its
  only run-level reasons, and its integrity is that of some events.
\<close>

definition sound_load :: "host \<Rightarrow> load_result \<Rightarrow> bool" where
  "sound_load h ld \<longleftrightarrow> list_all (\<lambda>x. rs_code x = ''MALFORMED_EVENT_LINE'') (ld_runLevelReasons ld)
     \<and> (\<exists>evs. ld_eventSequenceIntegrity ld = analyzeEventSequenceIntegrity h evs)"

lemma load_text_sound: "sound_load h (load_text h decode wid raw)"
proof -
  have "ld_eventSequenceIntegrity (load_text h decode wid raw) = analyzeEventSequenceIntegrity h (la_toolCandidates
      (foldl (load_step wid) load_start (map (read_line h decode) (split_lines raw))))"
    by (simp add: load_text_def Let_def prepareWorkflowEvents_def)
  then show ?thesis
    using load_text_accounts [of h decode wid raw] by (auto simp: sound_load_def list_all_iff)
qed

lemma verifyRun_accounted:
  assumes "verifyRunStateFromEvents h rt lg database pol wid reg ld w = Some (Inr r, w')" and sound: "sound_load h ld"
  shows "accounted r"
proof -
  note res = verifyRun_result [OF assms(1)]
  obtain steps w1 where run: "run_steps h rt lg database pol wid reg (ld_events ld) w = Some (Inr steps, w1)"
    and agg: "throws_bind (aggregateWorkflow wid steps (ld_runLevelReasons ld) pol (ld_eventSequenceIntegrity ld))
         (\<lambda>base. Inr (base
            \<lparr>er_runLevelReasons := enrichNoStepsRunLevelReasons wid (er_runLevelReasons base) (ld_counts ld),
             er_verificationRunContext := buildVerificationRunContext (ld_runEvents ld)\<rparr>)) = Inr r"
    using assms(1) by (auto simp: verifyRunStateFromEvents_def pio_bind_Inr_iff)
  have diag: "enrichStepsWithFailureDiagnostics steps = Inr steps"
    by (rule enrich_diagnosed [OF answers_diagnosed [OF run_steps_answer_plans [OF run]]])
  define more where "more = (if steps = [] then [runLevelIssue NO_STEPS_FOR_WORKFLOW] else [])"
  have reasons: "er_runLevelReasons r = enrichNoStepsRunLevelReasons wid (ld_runLevelReasons ld @ more) (ld_counts ld)"
    and steps: "er_steps r = steps"
    and status: "er_status r = workflow_status_of (ld_runLevelReasons ld @ more) steps"
    using agg diag by (auto simp: aggregateWorkflow_def Let_def more_def)
  have codes: "list_all (\<lambda>x. x \<in> {''MALFORMED_EVENT_LINE'', ''NO_STEPS_FOR_WORKFLOW''})
      (map rs_code (ld_runLevelReasons ld @ more))"
    using sound by (auto simp: sound_load_def more_def list_all_iff)
  obtain evs where "ld_eventSequenceIntegrity ld = analyzeEventSequenceIntegrity h evs"
    using sound by (auto simp: sound_load_def)
  with integrity_codes res(4) have integ:
    "list_all (\<lambda>x. rs_code x \<in> {CAPTURE_ORDER_CODE, TIMESTAMP_NOT_MONOTONIC_CODE})
       (integrity_reasons (er_eventSequenceIntegrity r))"
    "er_eventSequenceIntegrity r \<noteq> IntegrityIrregular []" by metis+
  have "sorted_wrt (<) (map so_seq (er_steps r))"
    using answers_seqs [OF res(1)] plan_seqs [of h "ld_events ld"] by simp
  moreover have "er_steps r = [] \<longrightarrow> er_runLevelReasons r \<noteq> []"
    by (simp add: reasons steps more_def enrich_codes)
  moreover have "er_status r = workflow_status_of (er_runLevelReasons r) (er_steps r)"
    unfolding status steps reasons by (rule workflow_status_cong) (simp add: enrich_codes)
  moreover have "list_all (\<lambda>x. rs_code x \<in> {''MALFORMED_EVENT_LINE'', ''NO_STEPS_FOR_WORKFLOW''})
      (er_runLevelReasons r)"
  proof -
    have "map rs_code (er_runLevelReasons r) = map rs_code (ld_runLevelReasons ld @ more)"
      unfolding reasons by (rule enrich_codes)
    from codes [folded this] show ?thesis by (simp add: list.pred_map comp_def)
  qed
  ultimately show ?thesis
    using answers_explained [OF res(1)] integ unfolding accounted_def by blast
qed

lemma verifyWorkflow_accounted:
  assumes "verifyWorkflow h rt lg decode decodeReg database input wid eventsFile registryFile w = Some (Inr r, w')"
  shows "accounted r"
  by (rule verifyWorkflow_result [OF assms]) (erule verifyRun_accounted [OF _ load_text_sound])

section \<open>Reading a rollup back\<close>

lemma parse_effect_row:
  "parse_effect (effect_row_val x)
     = Some \<lparr>pe_id = xr_id x, pe_status = status_text (xr_status x), pe_reasons = map reason_val (xr_reasons x)\<rparr>"
  by (simp add: parse_effect_def effect_row_val_def)

definition parsed_row :: "effect_row \<Rightarrow> parsed_effect" where
  "parsed_row x = \<lparr>pe_id = xr_id x, pe_status = status_text (xr_status x), pe_reasons = map reason_val (xr_reasons x)\<rparr>"

lemma parsed_row_sel [simp]:
  "pe_id (parsed_row x) = xr_id x" "pe_status (parsed_row x) = status_text (xr_status x)"
  "pe_reasons (parsed_row x) = map reason_val (xr_reasons x)"
  by (simp_all add: parsed_row_def)

lemma parseEffects_listed:
  assumes "map_of ev ''effects'' = Some (VArr (map effect_row_val rows))"
  shows "parseEffects ev = map parsed_row rows"
proof -
  have "List.map_filter parse_effect (map effect_row_val rows) = map parsed_row rows"
    by (induction rows) (simp_all add: parse_effect_row parsed_row_def)
  with assms show ?thesis by (simp add: parseEffects_def)
qed

lemma verified_text: "status_text s = ''verified'' \<longleftrightarrow> s = Verified"
  by (cases s) simp_all

lemma reason_code_val: "reason_code h (reason_val r) = Inr (rs_code r)" "reason_val r \<noteq> VUndef"
  by (simp_all add: reason_code_def reason_val_def)

lemma is_rollup_iff: "so_reasons s = [r] \<Longrightarrow> is_rollup s \<longleftrightarrow> rs_code r \<in> set MULTI_EFFECT_ROLLUP_CODES"
  by (simp add: is_rollup_def first_code_def)

lemma failing_effect_of_rollup:
  assumes listed: "effects_listed (so_reasons s) (so_evidence s)" and rollup: "is_rollup s"
  obtains x xs where "failing_effects h s = parsed_row x # xs" and "coherent_row x" and "xr_status x \<noteq> Verified"
proof -
  obtain r rs where rs: "so_reasons s = r # rs" and code: "rs_code r \<in> set MULTI_EFFECT_ROLLUP_CODES"
    using rollup by (cases "so_reasons s") (auto simp: is_rollup_def first_code_def)
  obtain rows where rows: "failing_rows rows" and ev: "map_of (so_evidence s) ''effects'' = Some (VArr (map effect_row_val rows))"
    using listed code by (auto simp: effects_listed_def rs)
  let ?failing = "filter (\<lambda>e. pe_status e \<noteq> ''verified'') (parseEffects (so_evidence s))"
  have sub: "e \<in> parsed_row ` {x \<in> set rows. xr_status x \<noteq> Verified}" if "e \<in> set ?failing" for e
    using that by (auto simp: parseEffects_listed [OF ev] verified_text)
  have "?failing \<noteq> []"
    using rows by (auto simp: failing_rows_def list_ex_iff parseEffects_listed [OF ev] filter_empty_conv verified_text)
  then obtain e es where fe: "failing_effects h s = e # es"
    unfolding failing_effects_def by (metis js_sort_eq_Nil neq_Nil_conv)
  then have "e \<in> set ?failing" unfolding failing_effects_def by (metis list.set_intros(1) set_js_sort)
  with sub obtain x where "e = parsed_row x" "x \<in> set rows" "xr_status x \<noteq> Verified" by blast
  with fe rows that show ?thesis by (auto simp: failing_rows_def list_all_iff)
qed

text \<open>The primary code of an explained step is one of the catalogue.\<close>

lemma primary_code_of_explained:
  assumes ex: "explained (so_status s) (so_reasons s) (so_evidence s)" and bad: "so_status s \<noteq> Verified"
  obtains c t where "primaryCodeForStep h s = Inr c" and "c \<in> set (step_codes t)"
proof -
  obtain r where r: "so_reasons s = [r]"
    using ex bad by (cases "so_reasons s") (auto simp: explained_def)
  have own: "own_code s = rs_code r" "rs_code r \<in> set (step_codes (so_status s))"
    using ex by (simp_all add: own_code_def first_code_def r explained_def)
  show thesis
  proof (cases "is_rollup s")
    case False
    then show thesis using that own by (simp add: primaryCodeForStep_def)
  next
    case True
    obtain x xs where fe: "failing_effects h s = parsed_row x # xs" and x: "coherent_row x" "xr_status x \<noteq> Verified"
      using ex True by (auto simp: explained_def intro: failing_effect_of_rollup [of s h])
    obtain q where q: "xr_reasons x = [q]"
      using x by (cases "xr_reasons x") (auto simp: coherent_row_def)
    have "rs_code q \<in> set (step_codes (xr_status x))"
      using x q by (simp add: coherent_row_def step_codes_def)
    moreover have "primaryCodeForStep h s = Inr (rs_code q)"
      using True fe by (simp add: primaryCodeForStep_def q reason_code_val)
    ultimately show thesis by (rule that [rotated])
  qed
qed

section \<open>The attribution of a failed run\<close>

lemma analyse_run_level_known:
  assumes "list_all (\<lambda>x. rs_code x \<in> {''MALFORMED_EVENT_LINE'', ''NO_STEPS_FOR_WORKFLOW''}) rs"
  shows "fa_unknownReasonCodes (analyse_run_level h rs) = []"
proof -
  have "{''MALFORMED_EVENT_LINE'', ''NO_STEPS_FOR_WORKFLOW''} \<subseteq> set (map fst RUN_LEVEL_CODE_TO_ORIGIN)"
    by (simp add: RUN_LEVEL_CODE_TO_ORIGIN_def)
  with assms have "\<forall>c \<in> set (sortUniqueCodes h (map rs_code rs)). c \<in> set (map fst RUN_LEVEL_CODE_TO_ORIGIN)"
    unfolding list_all_iff sortUniqueCodes_facts set_map [of rs_code] by blast
  then have "filter (\<lambda>c. c \<notin> set (map fst RUN_LEVEL_CODE_TO_ORIGIN)) (sortUniqueCodes h (map rs_code rs)) = []"
    unfolding filter_empty_conv by blast
  then show ?thesis
    by (simp only: analyse_run_level_def Let_def unknown_in_def mk_analysis_sel sortUniqueCodes_facts)
qed

lemma analyse_sequence_known:
  assumes "list_all (\<lambda>x. rs_code x \<in> {CAPTURE_ORDER_CODE, TIMESTAMP_NOT_MONOTONIC_CODE}) rs"
  shows "fa_unknownReasonCodes (analyse_sequence h rs) = []"
  using assms
  by (auto simp: analyse_sequence_def Let_def unknown_in_def filter_empty_conv list_all_iff
      EVENT_SEQUENCE_CODE_TO_ORIGIN_def)

lemma analyse_context_known: "analyse_context ctx i = Some fa \<Longrightarrow> fa_unknownReasonCodes fa = []"
  by (auto simp: analyse_context_def Let_def split: list.splits option.splits prod.splits)

lemma analyse_step_known:
  assumes "c \<in> set (step_codes t)"
  shows "fa_unknownReasonCodes (analyse_step h d c) = []"
    and "Inr (fa_primaryOrigin (analyse_step h d c)) = originForStepReasonCode c"
proof -
  obtain g where g: "map_of REASON_CODE_TO_ORIGIN c = Some g"
    using step_codes_have_origin [OF assms] by blast
  then have "c \<in> fst ` set REASON_CODE_TO_ORIGIN" by (metis map_of_eq_None_iff not_Some_eq)
  then show "fa_unknownReasonCodes (analyse_step h d c) = []"
    by (simp add: analyse_step_def Let_def unknown_in_def)
  show "Inr (fa_primaryOrigin (analyse_step h d c)) = originForStepReasonCode c"
    by (simp add: analyse_step_def Let_def origin_in_def originForStepReasonCode_def origin_lookup_def g)
qed

lemma accounted_driver:
  assumes "accounted r" and "er_status r \<noteq> Complete" and "er_runLevelReasons r = []"
  obtains d c t where "normativeDriverStep h (er_steps r) = Some d" and "primaryCodeForStep h d = Inr c"
    and "c \<in> set (step_codes t)"
proof -
  have "\<exists>s \<in> set (er_steps r). so_status s \<noteq> Verified"
    using assms workflow_status_Complete [of "er_runLevelReasons r" "er_steps r"] by (auto simp: accounted_def)
  then obtain d where d: "normativeDriverStep h (er_steps r) = Some d"
    by (metis driver_exists not_None_eq)
  with driver_member [OF d] assms(1)
  have "explained (so_status d) (so_reasons d) (so_evidence d)" "so_status d \<noteq> Verified"
    by (auto simp: accounted_def list_all_iff)
  then obtain c t where "primaryCodeForStep h d = Inr c" "c \<in> set (step_codes t)"
    by (rule primary_code_of_explained)
  with d show thesis by (rule that)
qed

text \<open>The four places a failure is attributed to, in the order in which they are looked at.\<close>

inductive attributed :: "host \<Rightarrow> engine_result \<Rightarrow> failure_analysis \<Rightarrow> bool" for h r where
  at_run_level: "er_runLevelReasons r \<noteq> [] \<Longrightarrow> attributed h r (analyse_run_level h (er_runLevelReasons r))"
| at_context: "analyse_context (er_verificationRunContext r) i = Some fa \<Longrightarrow> attributed h r fa"
| at_sequence: "er_eventSequenceIntegrity r = IntegrityIrregular rs \<Longrightarrow> attributed h r (analyse_sequence h rs)"
| at_step: "normativeDriverStep h (er_steps r) = Some d \<Longrightarrow> primaryCodeForStep h d = Inr c \<Longrightarrow>
     c \<in> set (step_codes t) \<Longrightarrow> attributed h r (analyse_step h d c)"

lemma analysis_attributed:
  assumes acc: "accounted r" and bad: "er_status r \<noteq> Complete"
  obtains fa where "buildFailureAnalysis h r = Inr (Some fa)" and "attributed h r fa"
proof (cases "er_runLevelReasons r = []")
  case False
  then show ?thesis
    using bad that [OF _ at_run_level] by (simp add: buildFailureAnalysis_def Let_def)
next
  case none: True
  have steps: "er_steps r \<noteq> []" using acc none by (auto simp: accounted_def)
  define cause where "cause = (case (if failingSeqSet (er_steps r) \<noteq> []
      then iFailForF (failingSeqSet (er_steps r)) (er_verificationRunContext r) else None) of
      None \<Rightarrow> None | Some i \<Rightarrow> analyse_context (er_verificationRunContext r) i)"
  show ?thesis
  proof (cases cause)
    case (Some fa)
    then obtain i where "analyse_context (er_verificationRunContext r) i = Some fa"
      by (auto simp: cause_def split: option.splits if_splits)
    with Some bad none show ?thesis
      by (intro that [OF _ at_context]) (auto simp: buildFailureAnalysis_def Let_def cause_def)
  next
    case None
    show ?thesis
    proof (cases "er_eventSequenceIntegrity r")
      case (IntegrityIrregular rs)
      with None bad none show ?thesis
        by (intro that [OF _ at_sequence]) (auto simp: buildFailureAnalysis_def Let_def cause_def)
    next
      case IntegrityNormal
      obtain d c t where d: "normativeDriverStep h (er_steps r) = Some d" "primaryCodeForStep h d = Inr c"
        and c: "c \<in> set (step_codes t)"
        by (rule accounted_driver [OF acc bad none])
      then have "analyse_steps h (er_steps r) = Inr (analyse_step h d c)"
        using steps by (simp add: analyse_steps_def)
      with IntegrityNormal None bad none show ?thesis
        by (intro that [OF _ at_step [OF d c]]) (simp add: buildFailureAnalysis_def Let_def cause_def)
    qed
  qed
qed

lemma attributed_known: "attributed h r fa \<Longrightarrow> accounted r \<Longrightarrow> fa_unknownReasonCodes fa = []"
  by (induction rule: attributed.induct)
    (auto simp: accounted_def intro: analyse_run_level_known analyse_context_known analyse_sequence_known
      analyse_step_known)

lemma analysis_of_accounted:
  assumes acc: "accounted r"
  shows "\<exists>fa. buildFailureAnalysis h r = Inr fa \<and> (fa = None \<longleftrightarrow> er_status r = Complete)
     \<and> pred_option (\<lambda>a. fa_unknownReasonCodes a = []) fa"
proof (cases "er_status r = Complete")
  case True
  then show ?thesis by (simp add: buildFailureAnalysis_def)
next
  case False
  then obtain fa where "buildFailureAnalysis h r = Inr (Some fa)" "attributed h r fa"
    using analysis_attributed [OF acc] by metis
  with False attributed_known acc show ?thesis by auto
qed

end
