(* ===== verification/ActionableFailure.thy ===== *)
theory ActionableFailure
  imports AnalysisProperties
begin

text \<open>
  What a failure asks for (\<open>src/actionableFailure.ts\<close>, first half): from the analysis of a
  run to a category, a severity and a recommended action. The source's tables from codes are
  written here by value: all codes of one category or one action together.
\<close>

section \<open>Categories and actions\<close>

datatype failure_category =
    DecisionError
  | BadInput
  | RetrievalFailure
  | ControlFlowProblem
  | StateInconsistency
  | DownstreamExecutionFailure
  | Ambiguous
  | Unclassified

datatype recommended_action =
    NoAction
  | ManualReview
  | Deduplicate
  | ReconcileDownstreamState
  | CorrectVerificationInputs
  | ImproveReadConnectivity
  | ResolveMultiEffectFailures
  | AlignToolObservations
  | FixEventIngestAndSteps
  | FixEventSequenceOrder
  | FixRunContextControls
  | FixCliUsage
  | FixRegistryEventsOrCompareFiles
  | FixVerificationDatabaseConnection
  | FixSavedWorkflowJson
  | FixCompareWorkflowInputs
  | FixExecutionTraceStructure
  | FixVerificationPolicyAndHook
  | FixPlanDocumentAndPatterns
  | FixPlanTransitionCliAndRefs
  | UpgradeGitOrRetryGit

record remediation_row =
  rr_recommendedAction :: recommended_action
  rr_automationSafe :: bool

definition remediation :: "recommended_action \<Rightarrow> bool \<Rightarrow> remediation_row" where
  "remediation action safe = \<lparr>rr_recommendedAction = action, rr_automationSafe = safe\<rparr>"

definition MANUAL_REMEDIATION :: remediation_row where
  "MANUAL_REMEDIATION = remediation ManualReview False"

text \<open>All the codes of a list with one value.\<close>

definition with_value :: "'v \<Rightarrow> string list \<Rightarrow> (string \<times> 'v) list" where
  "with_value v codes = map (\<lambda>c. (c, v)) codes"

section \<open>Tables\<close>

definition RUN_CONTEXT_CODE_TO_CATEGORY :: "(string \<times> failure_category) list" where
  "RUN_CONTEXT_CODE_TO_CATEGORY =
     with_value RetrievalFailure [''RETRIEVAL_ERROR'']
     @ with_value DecisionError [''MODEL_TURN_ERROR'', ''MODEL_TURN_ABORTED'', ''MODEL_TURN_INCOMPLETE'',
         ''CONTROL_INTERRUPT'']
     @ with_value ControlFlowProblem [''CONTROL_BRANCH_SKIPPED'', ''CONTROL_GATE_SKIPPED'', ''TOOL_SKIPPED'']"

definition EVENT_SEQUENCE_TO_CATEGORY :: "(string \<times> failure_category) list" where
  "EVENT_SEQUENCE_TO_CATEGORY = with_value ControlFlowProblem [CAPTURE_ORDER_CODE, TIMESTAMP_NOT_MONOTONIC_CODE]"

definition RUN_CONTEXT_CODE_TO_REMEDIATION :: "(string \<times> remediation_row) list" where
  "RUN_CONTEXT_CODE_TO_REMEDIATION = with_value (remediation FixRunContextControls False)
     [''RETRIEVAL_ERROR'', ''MODEL_TURN_ERROR'', ''MODEL_TURN_ABORTED'', ''MODEL_TURN_INCOMPLETE'',
      ''CONTROL_INTERRUPT'', ''CONTROL_BRANCH_SKIPPED'', ''CONTROL_GATE_SKIPPED'', ''TOOL_SKIPPED'']"

definition EVENT_SEQUENCE_CODE_TO_REMEDIATION :: "(string \<times> remediation_row) list" where
  "EVENT_SEQUENCE_CODE_TO_REMEDIATION =
     with_value (remediation FixEventSequenceOrder False) [CAPTURE_ORDER_CODE, TIMESTAMP_NOT_MONOTONIC_CODE]"

definition PLAN_RULE_CODES :: "string list" where
  "PLAN_RULE_CODES = [''PLAN_RULE_ROW_KIND_MISMATCH'', ''PLAN_RULE_FORBIDDEN_ROW'',
     ''PLAN_RULE_REQUIRED_ROW_MISSING'', ''PLAN_RULE_ALLOWLIST_VIOLATION'', ''PLAN_RULE_RENAME_MISMATCH'']"

text \<open>Codes of a state that differs from the expected one; both tables treat them alike.\<close>

definition STATE_MISMATCH_CODES :: "string list" where
  "STATE_MISMATCH_CODES =
     [''ROW_ABSENT'', ''RELATED_ROWS_ABSENT'', ''RELATIONAL_EXPECTATION_MISMATCH'', ''VALUE_MISMATCH'',
      ''ROW_PRESENT_WHEN_FORBIDDEN'', ''ORPHAN_ROW_DETECTED'', ''VECTOR_NOT_FOUND'', ''VECTOR_METADATA_MISMATCH'',
      ''VECTOR_PAYLOAD_MISMATCH'', ''OBJECT_MISSING'', ''OBJECT_DIGEST_MISMATCH'', ''OBJECT_SIZE_MISMATCH'',
      ''OBJECT_METADATA_MISMATCH'', ''HTTP_WITNESS_STATUS_MISMATCH'', ''HTTP_WITNESS_ASSERTION_MISMATCH'',
      ''MONGO_DOCUMENT_MISSING'', ''MONGO_VALUE_MISMATCH''] @ PLAN_RULE_CODES"

definition STEP_CODE_TO_CATEGORY :: "(string \<times> failure_category) list" where
  "STEP_CODE_TO_CATEGORY =
     with_value BadInput RESOLVE_FAILURE_CODES
     @ with_value DecisionError [''RETRY_OBSERVATIONS_DIVERGE'']
     @ with_value BadInput [''UNKNOWN_TOOL'', ''MULTI_EFFECT_INCOMPLETE'',
         ''STATE_WITNESS_UNAVAILABLE_IN_SQLITE_FILE_MODE'', ''STATE_WITNESS_SETUP_ERROR'',
         ''OBJECT_TOO_LARGE_FOR_HASH'', ''BOUNDED_MODE_UNSUPPORTED_FOR_CONNECTOR'']
     @ with_value StateInconsistency (''DUPLICATE_ROWS'' # STATE_MISMATCH_CODES)
     @ with_value DownstreamExecutionFailure [''RELATIONAL_SCALAR_UNUSABLE'',
         ''FORBIDDEN_ROWS_STILL_PRESENT_WITHIN_WINDOW'', ''ROW_NOT_OBSERVED_WITHIN_WINDOW'',
         ''MULTI_EFFECT_UNCERTAIN_WITHIN_WINDOW'', ''CONNECTOR_ERROR'', ''ROW_SHAPE_MISMATCH'',
         ''UNREADABLE_VALUE'', ''MULTI_EFFECT_PARTIAL'', ''MULTI_EFFECT_ALL_FAILED'', ''VECTOR_PROVIDER_ERROR'',
         ''HTTP_WITNESS_NETWORK_ERROR'', ''BOUNDED_WINDOW_EXPIRED_WITHOUT_OBSERVATION'']
     @ with_value ControlFlowProblem [''CONNECTOR_UNSUPPORTED_IN_SCOPE'', STEP_NO_REASON_CODE, TEST_BLOCKING_CODE]"

definition STEP_CODE_TO_REMEDIATION :: "(string \<times> remediation_row) list" where
  "STEP_CODE_TO_REMEDIATION =
     with_value (remediation CorrectVerificationInputs False) RESOLVE_FAILURE_CODES
     @ with_value (remediation AlignToolObservations False) [''RETRY_OBSERVATIONS_DIVERGE'']
     @ with_value (remediation CorrectVerificationInputs False) [''UNKNOWN_TOOL'', ''MULTI_EFFECT_INCOMPLETE'',
         ''STATE_WITNESS_SETUP_ERROR'', ''OBJECT_TOO_LARGE_FOR_HASH'', ''BOUNDED_MODE_UNSUPPORTED_FOR_CONNECTOR'']
     @ with_value (remediation ReconcileDownstreamState False) STATE_MISMATCH_CODES
     @ with_value (remediation Deduplicate False) [''DUPLICATE_ROWS'']
     @ with_value (remediation ImproveReadConnectivity True) [''CONNECTOR_ERROR'']
     @ with_value (remediation ImproveReadConnectivity False) [''RELATIONAL_SCALAR_UNUSABLE'',
         ''FORBIDDEN_ROWS_STILL_PRESENT_WITHIN_WINDOW'', ''ROW_NOT_OBSERVED_WITHIN_WINDOW'',
         ''MULTI_EFFECT_UNCERTAIN_WITHIN_WINDOW'', ''ROW_SHAPE_MISMATCH'', ''UNREADABLE_VALUE'',
         ''VECTOR_PROVIDER_ERROR'', ''HTTP_WITNESS_NETWORK_ERROR'', ''BOUNDED_WINDOW_EXPIRED_WITHOUT_OBSERVATION'']
     @ with_value (remediation ResolveMultiEffectFailures False) [''MULTI_EFFECT_PARTIAL'', ''MULTI_EFFECT_ALL_FAILED'']
     @ with_value (remediation FixVerificationDatabaseConnection False)
         [''STATE_WITNESS_UNAVAILABLE_IN_SQLITE_FILE_MODE'']
     @ with_value (remediation ManualReview False) [''CONNECTOR_UNSUPPORTED_IN_SCOPE'']
     @ with_value (remediation FixEventIngestAndSteps False) [STEP_NO_REASON_CODE, TEST_BLOCKING_CODE]"

section \<open>Lookups\<close>

definition run_level_only :: "string \<Rightarrow> bool" where
  "run_level_only code \<longleftrightarrow>
     code \<in> set (map fst RUN_LEVEL_CODE_TO_ORIGIN) \<and> code \<notin> set (map fst REASON_CODE_TO_ORIGIN)"

definition production_lookup :: "string \<Rightarrow> string \<Rightarrow> (string \<times> 'v) list \<Rightarrow> string \<Rightarrow> js_error + 'v" where
  "production_lookup name missing table code =
     (if run_level_only code
      then Inl (JsError (name @ '': run-level-only code '' @ code @ '' is not a production step reason code''))
      else (case map_of table code of
          None \<Rightarrow> Inl (JsError (name @ '': missing '' @ missing @ '' for code '' @ code))
        | Some v \<Rightarrow> Inr v))"

definition productionStepReasonCodeToActionableCategory :: "string \<Rightarrow> js_error + failure_category" where
  "productionStepReasonCodeToActionableCategory =
     production_lookup ''productionStepReasonCodeToActionableCategory'' ''partition'' STEP_CODE_TO_CATEGORY"

definition productionStepReasonCodeToRemediation :: "string \<Rightarrow> js_error + remediation_row" where
  "productionStepReasonCodeToRemediation =
     production_lookup ''productionStepReasonCodeToRemediation'' ''remediation'' STEP_CODE_TO_REMEDIATION"

definition classifyRunLevelItem :: "string list \<Rightarrow> failure_category" where
  "classifyRunLevelItem codes =
     (if ''MALFORMED_EVENT_LINE'' \<in> set codes then BadInput
      else if ''NO_STEPS_FOR_WORKFLOW'' \<in> set codes then ControlFlowProblem
      else if TEST_BLOCKING_CODE \<in> set codes then ControlFlowProblem
      else Unclassified)"

text \<open>The value of the first code of the list that a table knows.\<close>

fun first_in :: "(string \<times> 'v) list \<Rightarrow> 'v \<Rightarrow> string list \<Rightarrow> 'v" where
  "first_in table d [] = d"
| "first_in table d (c # cs) = (case map_of table c of None \<Rightarrow> first_in table d cs | Some v \<Rightarrow> v)"

definition classifyRunContextItem :: "string list \<Rightarrow> failure_category" where
  "classifyRunContextItem = first_in RUN_CONTEXT_CODE_TO_CATEGORY Unclassified"

definition classifyEventSequenceItem :: "string list \<Rightarrow> failure_category" where
  "classifyEventSequenceItem codes =
     (if list_ex (\<lambda>c. map_of EVENT_SEQUENCE_TO_CATEGORY c \<noteq> None) codes then ControlFlowProblem else Unclassified)"

definition classifyStepOrEffectItem :: "string list \<Rightarrow> failure_category" where
  "classifyStepOrEffectItem codes =
     (case codes of
        [] \<Rightarrow> Unclassified
      | primary # _ \<Rightarrow>
          if primary \<in> set (map fst RUN_LEVEL_CODE_TO_ORIGIN) then classifyRunLevelItem codes
          else (case map_of STEP_CODE_TO_CATEGORY primary of None \<Rightarrow> Unclassified | Some c \<Rightarrow> c))"

definition remediationForRunLevelItem :: "string list \<Rightarrow> remediation_row" where
  "remediationForRunLevelItem codes =
     (if list_ex (\<lambda>c. c \<in> set codes) [''MALFORMED_EVENT_LINE'', ''NO_STEPS_FOR_WORKFLOW'', TEST_BLOCKING_CODE]
      then remediation FixEventIngestAndSteps False else MANUAL_REMEDIATION)"

definition remediationForRunContextItem :: "string list \<Rightarrow> remediation_row" where
  "remediationForRunContextItem = first_in RUN_CONTEXT_CODE_TO_REMEDIATION MANUAL_REMEDIATION"

definition remediationForEventSequenceItem :: "string list \<Rightarrow> remediation_row" where
  "remediationForEventSequenceItem = first_in EVENT_SEQUENCE_CODE_TO_REMEDIATION MANUAL_REMEDIATION"

definition remediationForStepOrEffectItem :: "string list \<Rightarrow> remediation_row" where
  "remediationForStepOrEffectItem codes =
     (case codes of
        [] \<Rightarrow> MANUAL_REMEDIATION
      | primary # _ \<Rightarrow>
          if run_level_only primary then remediationForRunLevelItem codes
          else (case map_of STEP_CODE_TO_REMEDIATION primary of None \<Rightarrow> MANUAL_REMEDIATION | Some r \<Rightarrow> r))"

section \<open>From the analysis to an action\<close>

text \<open>Every scope has a branch, so only the first item of the evidence counts.\<close>

fun remediation_of_item :: "evidence_item \<Rightarrow> remediation_row" where
  "remediation_of_item ev =
     (case ei_scope ev of
        ScopeRunLevel \<Rightarrow> remediationForRunLevelItem (ei_codes ev)
      | ScopeRunContext \<Rightarrow> remediationForRunContextItem (ei_codes ev)
      | ScopeEventSequence \<Rightarrow> remediationForEventSequenceItem (ei_codes ev)
      | ScopeStep \<Rightarrow> remediationForStepOrEffectItem (ei_codes ev)
      | ScopeEffect \<Rightarrow> remediationForStepOrEffectItem (ei_codes ev))"

definition deriveRemediationFromEvidence :: "failure_analysis \<Rightarrow> remediation_row" where
  "deriveRemediationFromEvidence fa =
     (case fa_evidence fa of [] \<Rightarrow> MANUAL_REMEDIATION | ev # _ \<Rightarrow> remediation_of_item ev)"

fun category_of_item :: "evidence_item \<Rightarrow> failure_category" where
  "category_of_item ev =
     (case ei_scope ev of
        ScopeRunLevel \<Rightarrow> classifyRunLevelItem (ei_codes ev)
      | ScopeRunContext \<Rightarrow> classifyRunContextItem (ei_codes ev)
      | ScopeEventSequence \<Rightarrow> classifyEventSequenceItem (ei_codes ev)
      | ScopeStep \<Rightarrow> classifyStepOrEffectItem (ei_codes ev)
      | ScopeEffect \<Rightarrow> classifyStepOrEffectItem (ei_codes ev))"

definition has_alternatives :: "failure_analysis \<Rightarrow> bool" where
  "has_alternatives fa \<longleftrightarrow> (case fa_alternativeHypotheses fa of None \<Rightarrow> False | Some alts \<Rightarrow> alts \<noteq> [])"

definition deriveActionableCategory :: "failure_analysis \<Rightarrow> failure_category" where
  "deriveActionableCategory fa =
     (if fa_unknownReasonCodes fa \<noteq> [] then Unclassified
      else if has_alternatives fa then Ambiguous
      else if fa_confidence fa = Low then Ambiguous
      else (case fa_evidence fa of [] \<Rightarrow> Unclassified | ev # _ \<Rightarrow> category_of_item ev))"

definition deriveSeverityWorkflow :: "engine_result \<Rightarrow> level" where
  "deriveSeverityWorkflow engine =
     (if er_status engine = InconsistentWorkflow then High
      else if list_ex (\<lambda>s. so_status s \<in> {Missing, Inconsistent, PartiallyVerified}) (er_steps engine) then High
      else Medium)"

record actionable_failure =
  af_category :: failure_category
  af_severity :: level
  af_recommendedAction :: recommended_action
  af_automationSafe :: bool

definition mk_actionable :: "failure_category \<Rightarrow> level \<Rightarrow> remediation_row \<Rightarrow> actionable_failure" where
  "mk_actionable category severity row =
     \<lparr>af_category = category, af_severity = severity, af_recommendedAction = rr_recommendedAction row,
      af_automationSafe = rr_automationSafe row\<rparr>"

definition deriveActionableFailureWorkflow :: "engine_result \<Rightarrow> failure_analysis \<Rightarrow> actionable_failure" where
  "deriveActionableFailureWorkflow engine fa =
     (let category = deriveActionableCategory fa; severity = deriveSeverityWorkflow engine
      in if category = Ambiguous \<or> category = Unclassified
         then mk_actionable category severity MANUAL_REMEDIATION
         else mk_actionable category severity (deriveRemediationFromEvidence fa))"

section \<open>Recurrence over runs\<close>

record per_run_actionable =
  pr_runIndex :: int
  pr_category :: string
  pr_severity :: level
  pr_recommendedAction :: recommended_action
  pr_automationSafe :: bool

text \<open>Longest run of consecutive integers in an ascending list: the loop with its two counters.\<close>

fun streak_loop :: "nat \<Rightarrow> nat \<Rightarrow> int \<Rightarrow> int list \<Rightarrow> nat" where
  "streak_loop best cur p [] = best"
| "streak_loop best cur p (x # xs) =
     (if x = p + 1 then streak_loop (max best (cur + 1)) (cur + 1) x xs else streak_loop best 1 x xs)"

fun maxConsecutiveStreak :: "int list \<Rightarrow> nat" where
  "maxConsecutiveStreak [] = 0"
| "maxConsecutiveStreak (x # xs) = streak_loop 1 1 x xs"

record recurrence_row =
  rw_category :: string
  rw_runIndicesAscending :: "int list"
  rw_runsHitCount :: nat
  rw_maxConsecutiveRunStreak :: nat

definition indices_add :: "(string \<times> int list) list \<Rightarrow> per_run_actionable \<Rightarrow> (string \<times> int list) list" where
  "indices_add m r =
     (if pr_category r = ''complete'' then m
      else AList.update (pr_category r)
             ((case map_of m (pr_category r) of None \<Rightarrow> [] | Some xs \<Rightarrow> xs) @ [pr_runIndex r]) m)"

definition recurrence_of :: "string \<times> int list \<Rightarrow> recurrence_row" where
  "recurrence_of e =
     (let asc = js_sort (\<lambda>a b. a - b) (js_unique (snd e))
      in \<lparr>rw_category = fst e, rw_runIndicesAscending = asc, rw_runsHitCount = length asc,
          rw_maxConsecutiveRunStreak = maxConsecutiveStreak asc\<rparr>)"

definition buildActionableCategoryRecurrence :: "host \<Rightarrow> per_run_actionable list \<Rightarrow> recurrence_row list" where
  "buildActionableCategoryRecurrence h perRun =
     js_sort (\<lambda>a b. h_localeCompare h (rw_category a) (rw_category b))
       (map recurrence_of (foldl indices_add [] perRun))"

definition count_add :: "(string \<times> nat) list \<Rightarrow> per_run_actionable \<Rightarrow> (string \<times> nat) list" where
  "count_add m r =
     AList.update (pr_category r) ((case map_of m (pr_category r) of None \<Rightarrow> 0 | Some n \<Rightarrow> n) + 1) m"

definition buildCategoryHistogram :: "host \<Rightarrow> per_run_actionable list \<Rightarrow> (string \<times> nat) list" where
  "buildCategoryHistogram h perRun =
     js_sort (\<lambda>a b. h_localeCompare h (fst a) (fst b)) (foldl count_add [] perRun)"

section \<open>Every code of a step has a category and an action\<close>

lemma step_codes_partitioned:
  assumes "c \<in> set (step_codes s)"
  shows "\<exists>cat. productionStepReasonCodeToActionableCategory c = Inr cat \<and> cat \<noteq> Ambiguous \<and> cat \<noteq> Unclassified"
    and "\<exists>row. productionStepReasonCodeToRemediation c = Inr row"
    and "\<not> run_level_only c"
proof -
  have "list_all (\<lambda>s. list_all (\<lambda>c. \<not> run_level_only c
      \<and> (case map_of STEP_CODE_TO_CATEGORY c of None \<Rightarrow> False | Some cat \<Rightarrow> cat \<noteq> Ambiguous \<and> cat \<noteq> Unclassified)
      \<and> map_of STEP_CODE_TO_REMEDIATION c \<noteq> None) (step_codes s))
      [Verified, Missing, Inconsistent, IncompleteVerification, PartiallyVerified, Uncertain]"
    by code_simp
  then have "list_all (\<lambda>c. \<not> run_level_only c
      \<and> (case map_of STEP_CODE_TO_CATEGORY c of None \<Rightarrow> False | Some cat \<Rightarrow> cat \<noteq> Ambiguous \<and> cat \<noteq> Unclassified)
      \<and> map_of STEP_CODE_TO_REMEDIATION c \<noteq> None) (step_codes s)"
    by (cases s) simp_all
  with assms have only: "\<not> run_level_only c"
    and cat: "case map_of STEP_CODE_TO_CATEGORY c of None \<Rightarrow> False | Some cat \<Rightarrow> cat \<noteq> Ambiguous \<and> cat \<noteq> Unclassified"
    and row: "map_of STEP_CODE_TO_REMEDIATION c \<noteq> None"
    by (auto simp: list_all_iff)
  show "\<not> run_level_only c" by (rule only)
  from only cat show "\<exists>cat. productionStepReasonCodeToActionableCategory c = Inr cat \<and> cat \<noteq> Ambiguous \<and> cat \<noteq> Unclassified"
    by (auto simp: productionStepReasonCodeToActionableCategory_def production_lookup_def split: option.splits)
  from only row show "\<exists>row. productionStepReasonCodeToRemediation c = Inr row"
    by (auto simp: productionStepReasonCodeToRemediation_def production_lookup_def)
qed

text \<open>Nothing is ever declared safe to automate but retrying a read after a connector error.\<close>

lemma automation_safe_rows:
  "map_of STEP_CODE_TO_REMEDIATION c = Some row \<Longrightarrow> rr_automationSafe row \<longleftrightarrow> c = ''CONNECTOR_ERROR''"
proof -
  have "list_all (\<lambda>(c, row). rr_automationSafe row \<longleftrightarrow> c = ''CONNECTOR_ERROR'') STEP_CODE_TO_REMEDIATION"
    by code_simp
  then show "map_of STEP_CODE_TO_REMEDIATION c = Some row \<Longrightarrow> rr_automationSafe row \<longleftrightarrow> c = ''CONNECTOR_ERROR''"
    by (auto simp: list_all_iff dest!: map_of_SomeD)
qed

section \<open>Histogram and streak\<close>

lemma count_add_apply [simp]:
  "map_of (count_add m r) c
     = (if pr_category r = c then Some ((case map_of m c of None \<Rightarrow> 0 | Some n \<Rightarrow> n) + 1) else map_of m c)"
  by (auto simp: count_add_def update_conv')

lemma count_add_keys [simp]: "distinct (map fst m) \<Longrightarrow> distinct (map fst (count_add m r))"
  by (simp add: count_add_def distinct_update)

lemma count_add_map:
  "map_of (foldl count_add m rs) c
     = (let n = length (filter (\<lambda>r. pr_category r = c) rs)
        in if n = 0 then map_of m c else Some ((case map_of m c of None \<Rightarrow> 0 | Some k \<Rightarrow> k) + n))"
  by (induction rs arbitrary: m) (auto simp: Let_def split: option.split)

lemma count_add_distinct: "distinct (map fst m) \<Longrightarrow> distinct (map fst (foldl count_add m rs))"
  by (induction rs arbitrary: m) simp_all

lemma histogram_counts:
  "(c, n) \<in> set (buildCategoryHistogram h perRun)
     \<longleftrightarrow> n = length (filter (\<lambda>r. pr_category r = c) perRun) \<and> n \<noteq> 0"
proof -
  let ?m = "foldl count_add [] perRun"
  have "distinct (map fst ?m)" by (rule count_add_distinct) simp
  then have "(c, n) \<in> set ?m \<longleftrightarrow> map_of ?m c = Some n" by simp
  also have "\<dots> \<longleftrightarrow> n = length (filter (\<lambda>r. pr_category r = c) perRun) \<and> n \<noteq> 0"
    by (auto simp: count_add_map Let_def split: if_splits)
  finally show ?thesis by (simp add: buildCategoryHistogram_def)
qed

text \<open>The \<open>n\<close> integers from \<open>a\<close> on, all in a set.\<close>

definition run_at :: "int set \<Rightarrow> int \<Rightarrow> nat \<Rightarrow> bool" where
  "run_at S a n \<longleftrightarrow> (\<forall>i < n. a + int i \<in> S)"

lemma run_at_less: "run_at S a n \<Longrightarrow> m \<le> n \<Longrightarrow> run_at S a m"
  by (simp add: run_at_def)

lemma run_at_Suc: "run_at S a (Suc n) \<longleftrightarrow> run_at S a n \<and> a + int n \<in> S"
  by (auto simp: run_at_def less_Suc_eq)

text \<open>
  The loop at \<open>p\<close>: \<open>cur\<close> is the longest run that ends there, \<open>best\<close> the longest that ends
  there or before. The first lemma exhibits a run of the result, the second bounds all runs.
\<close>

lemma streak_loop_run:
  assumes "\<exists>a. run_at S a best" and "run_at S (p + 1 - int cur) cur" and "set xs \<subseteq> S"
  shows "\<exists>a. run_at S a (streak_loop best cur p xs)"
  using assms
proof (induction best cur p xs rule: streak_loop.induct)
  case (2 best cur p x xs)
  show ?case
  proof (cases "x = p + 1")
    case True
    have "run_at S (x + 1 - int (cur + 1)) (cur + 1)"
      using "2.prems"(2,3) True by (simp add: run_at_Suc algebra_simps)
    moreover from this "2.prems"(1) have "\<exists>a. run_at S a (max best (cur + 1))" by (auto simp: max_def)
    ultimately show ?thesis using "2.IH"(1) True "2.prems"(3) by simp
  next
    case False
    have "run_at S (x + 1 - int 1) 1" using "2.prems"(3) by (simp add: run_at_def)
    with "2.IH"(2) False "2.prems"(1,3) show ?thesis by simp
  qed
qed simp

definition longest_before :: "int set \<Rightarrow> int \<Rightarrow> nat \<Rightarrow> bool" where
  "longest_before S p best \<longleftrightarrow> (\<forall>a n. run_at S a (Suc n) \<longrightarrow> a + int n \<le> p \<longrightarrow> Suc n \<le> best)"

definition longest_to :: "int set \<Rightarrow> int \<Rightarrow> nat \<Rightarrow> bool" where
  "longest_to S p cur \<longleftrightarrow> (\<forall>a n. run_at S a (Suc n) \<longrightarrow> a + int n = p \<longrightarrow> Suc n \<le> cur)"

lemma streak_loop_bound:
  assumes "\<forall>y \<in> S. y \<le> p \<or> y \<in> set xs" and "sorted_wrt (<) (p # xs)"
    and "longest_before S p best" and "longest_to S p cur" and "run_at S a n" and "1 \<le> best"
  shows "n \<le> streak_loop best cur p xs"
  using assms
proof (induction best cur p xs rule: streak_loop.induct)
  case (1 best cur p)
  then show ?case by (cases n) (auto simp: longest_before_def run_at_Suc)
next
  case (2 best cur p x xs)
  have ge: "\<forall>y \<in> S. y \<le> x \<or> y \<in> set xs" and asc: "sorted_wrt (<) (x # xs)"
    using "2.prems"(1,2) by auto
  have split: "y \<le> p \<or> y = x" if "y \<in> S" "y \<le> x" for y
    using that "2.prems"(1,2) by fastforce
  have before: "longest_before S x (max best k)" if k: "longest_to S x k" for k
    unfolding longest_before_def
  proof (intro allI impI)
    fix a n assume run: "run_at S a (Suc n)" and le: "a + int n \<le> x"
    have "a + int n \<in> S" using run by (simp add: run_at_Suc)
    from split [OF this le] show "Suc n \<le> max best k"
      using run k "2.prems"(3) by (auto simp: longest_before_def longest_to_def le_max_iff_disj)
  qed
  show ?case
  proof (cases "x = p + 1")
    case True
    have "longest_to S x (cur + 1)"
      unfolding longest_to_def
    proof (intro allI impI)
      fix a n assume run: "run_at S a (Suc n)" and eq: "a + int n = x"
      show "Suc n \<le> cur + 1"
        using run eq True "2.prems"(4) by (cases n) (auto simp: longest_to_def run_at_Suc)
    qed
    with before have "longest_before S x (max best (cur + 1))" "longest_to S x (cur + 1)" by auto
    with "2.IH"(1) True ge asc "2.prems"(5) show ?thesis by simp
  next
    case False
    have to: "longest_to S x 1"
      unfolding longest_to_def
    proof (intro allI impI)
      fix a n assume run: "run_at S a (Suc n)" and eq: "a + int n = x"
      show "Suc n \<le> 1"
      proof (cases n)
        case (Suc m)
        have "a + int m \<in> S" using run Suc by (simp add: run_at_Suc)
        with split [of "a + int m"] eq Suc have "a + int m \<le> p" by auto
        with eq Suc False "2.prems"(2) show ?thesis by auto
      qed simp
    qed
    from before [OF to] "2.prems"(6) have "longest_before S x best" by (simp add: max_def)
    with to "2.IH"(2) False ge asc "2.prems"(5,6) show ?thesis by simp
  qed
qed

lemma streak_is_longest_run:
  assumes "sorted_wrt (<) xs"
  shows "(\<exists>a. run_at (set xs) a (maxConsecutiveStreak xs))
    \<and> (run_at (set xs) a n \<longrightarrow> n \<le> maxConsecutiveStreak xs)"
proof (cases xs)
  case Nil
  then show ?thesis by (cases n) (auto simp: run_at_def)
next
  case (Cons x ys)
  have one: "run_at (set xs) (x + 1 - int 1) 1" by (simp add: run_at_def Cons)
  have least: "x \<le> y" if "y \<in> set xs" for y using that assms by (auto simp: Cons)
  have len: "Suc k \<le> 1" if "run_at (set xs) b (Suc k)" "b + int k \<le> x" for b k
    using that least [of b] by (simp add: run_at_def) (metis add.right_neutral less_Suc_eq_0_disj of_nat_0
        of_nat_le_0_iff add_le_cancel_left order_trans)
  have "longest_before (set xs) x 1" "longest_to (set xs) x 1"
    using len by (auto simp: longest_before_def longest_to_def)
  then have "n \<le> streak_loop 1 1 x ys" if "run_at (set xs) a n"
    by (intro streak_loop_bound [of "set xs" x ys 1 1 a n]) (use assms that in \<open>auto simp: Cons\<close>)
  moreover have "\<exists>a. run_at (set xs) a (streak_loop 1 1 x ys)"
    by (rule streak_loop_run) (use one in \<open>auto simp: Cons\<close>)
  ultimately show ?thesis by (simp add: Cons)
qed

end
