(* ===== verification/UserPhrases.thy ===== *)
theory UserPhrases
  imports FailureOrigins
begin

text \<open>
  The phrases users read for the machine codes (\<open>src/verificationUserPhrases.ts\<close>). Characters are
  bytes in this library: the apostrophe U+2019 and the dash U+2014 of three phrases stand as
  0x92 and 0x97.
\<close>

section \<open>Tables\<close>

definition SQL_VERIFICATION_PHRASES :: "(string \<times> string) list" where
  "SQL_VERIFICATION_PHRASES =
     [(''ROW_ABSENT'', ''Success was implied, but no matching row was found in the database.''),
      (''DUPLICATE_ROWS'', ''Duplicate or conflicting rows matched the same key.''),
      (''ROW_SHAPE_MISMATCH'', (''The row'' @ [CHR 0x92] @ ''s shape or columns did not match what verification expected.'')),
      (''UNREADABLE_VALUE'', ''A stored value could not be read or compared reliably.''),
      (''VALUE_MISMATCH'', ''Wrong value in the database for a required field.''),
      (''CONNECTOR_ERROR'', ''Database query failed during verification.''),
      (''MULTI_EFFECT_INCOMPLETE'', ''Not all intended effects for this step could be verified.''),
      (''MULTI_EFFECT_ALL_FAILED'', ''All intended effects for this step failed verification.''),
      (''MULTI_EFFECT_PARTIAL'', ''Some intended effects matched; others did not.''),
      (''ROW_NOT_OBSERVED_WITHIN_WINDOW'', ''The expected row did not show up within the verification window.''),
      (''MULTI_EFFECT_UNCERTAIN_WITHIN_WINDOW'', ''Effects could not be fully confirmed within the verification window.''),
      (''UNKNOWN_TOOL'', ''The tool is not defined in the registry (or could not be resolved).''),
      (''RETRY_OBSERVATIONS_DIVERGE'', ''Multiple observations for this sequence do not agree.''),
      (''RELATED_ROWS_ABSENT'', ''A related row required by the check is missing.''),
      (''RELATIONAL_EXPECTATION_MISMATCH'', ''A relational check did not match the database.''),
      (''RELATIONAL_SCALAR_UNUSABLE'', ''A relational scalar value could not be used for comparison.''),
      (''ROW_PRESENT_WHEN_FORBIDDEN'', ''A row is still present when verification expected it to be gone.''),
      (''ORPHAN_ROW_DETECTED'', ''An orphan or unexpected related row was detected.''),
      (''FORBIDDEN_ROWS_STILL_PRESENT_WITHIN_WINDOW'', ''Rows that should have been removed were still present within the verification window.''),
      (''RELATIONAL_UNSUPPORTED_DIALECT'', ''This relational verification shape is not supported for the selected database dialect.''),
      (''STATE_WITNESS_UNAVAILABLE_IN_SQLITE_FILE_MODE'', ''Vector, object storage, HTTP witness, or Mongo verification requires a remote database URL, not SQLite file mode.''),
      (''STATE_WITNESS_SETUP_ERROR'', ''State verification could not run (missing credentials, URL, or provider configuration).''),
      (''VECTOR_NOT_FOUND'', ''The vector or document id was not found in the index.''),
      (''VECTOR_METADATA_MISMATCH'', ''Vector metadata did not match the expected subset.''),
      (''VECTOR_PAYLOAD_MISMATCH'', ''Vector payload or content hash did not match.''),
      (''VECTOR_PROVIDER_ERROR'', ''The vector provider returned an error or unusable response.''),
      (''OBJECT_MISSING'', ''The object was not found in object storage.''),
      (''OBJECT_DIGEST_MISMATCH'', ''Checksum or ETag did not match the stored object.''),
      (''OBJECT_SIZE_MISMATCH'', ''Object size did not match the expected Content-Length.''),
      (''OBJECT_METADATA_MISMATCH'', ''Object metadata did not match expectations.''),
      (''OBJECT_TOO_LARGE_FOR_HASH'', ''The object is too large to hash within verification limits.''),
      (''HTTP_WITNESS_STATUS_MISMATCH'', ''HTTP witness response status did not match the expected code.''),
      (''HTTP_WITNESS_ASSERTION_MISMATCH'', ''HTTP witness JSON assertion did not match the live response.''),
      (''HTTP_WITNESS_NETWORK_ERROR'', ''HTTP witness request failed (network, TLS, or timeout).''),
      (''MONGO_DOCUMENT_MISSING'', ''No MongoDB document matched the declared filter.''),
      (''MONGO_VALUE_MISMATCH'', ''A required field on the MongoDB document did not match.''),
      (''BOUNDED_WINDOW_EXPIRED_WITHOUT_OBSERVATION'', ''No sufficiently fresh observation was found before the bounded verification window expired.''),
      (''BOUNDED_MODE_UNSUPPORTED_FOR_CONNECTOR'', ''Bounded consistency mode is not supported for this connector due to missing timestamp evidence.''),
      (''CONNECTOR_UNSUPPORTED_IN_SCOPE'', ''This connector behavior is intentionally out of supported scope in the current release.'')]"

definition REGISTRY_RESOLVER_PHRASES :: "(string \<times> string) list" where
  "REGISTRY_RESOLVER_PHRASES =
     [(''CONST_STRING_EMPTY'', ''Registry constant string is empty.''),
      (''STRING_SPEC_POINTER_MISSING'', ''Registry string spec is missing a JSON Pointer path.''),
      (''STRING_SPEC_TYPE'', ''Registry string spec has an invalid type.''),
      (''STRING_SPEC_EMPTY'', ''Registry string spec resolved to an empty value.''),
      (''KEY_VALUE_POINTER_MISSING'', ''Registry key/value spec is missing a pointer.''),
      (''KEY_VALUE_NOT_SCALAR'', ''Registry key/value pointer did not resolve to a scalar.''),
      (''KEY_VALUE_SPEC_INVALID'', ''Registry key/value spec is invalid.''),
      (''TABLE_POINTER_INVALID'', ''Registry table pointer is invalid.''),
      (''TABLE_SPEC_INVALID'', ''Registry table spec is invalid.''),
      (''INVALID_IDENTIFIER'', ''Registry contains an invalid SQL identifier.''),
      (''REQUIRED_FIELDS_POINTER_MISSING'', ''Registry required-fields pointer is missing.''),
      (''REQUIRED_FIELDS_NOT_OBJECT'', ''Registry required-fields did not resolve to an object.''),
      (''REQUIRED_FIELDS_VALUE_UNDEFINED'', ''A required field value is undefined in the registry.''),
      (''REQUIRED_FIELDS_VALUE_NOT_SCALAR'', ''A required field value is not a scalar.''),
      (''UNSUPPORTED_VERIFICATION_KIND'', ''This verification kind is not supported for the tool.''),
      (''DUPLICATE_EFFECT_ID'', ''Duplicate effect id in the registry.''),
      (''RELATIONAL_EXPECT_VALUE_INVALID'', ''Relational expectation value in the registry is invalid.''),
      (''RELATIONAL_SUM_COLUMN_REQUIRED'', ''Relational sum check requires a column in the registry.''),
      (''EQUALITY_DUPLICATE_COLUMN'', ''Duplicate column in an equality spec.''),
      (''FILTER_EQ_OVERLAPS_IDENTITY'', ''Filter equality overlaps identity columns.''),
      (''RELATIONAL_UNSUPPORTED_DIALECT'', ''Relational checks are not supported for this database URL (e.g. BigQuery row-only mode).'')]"

definition INGEST_AND_QUICK_MISC_PHRASES :: "(string \<times> string) list" where
  "INGEST_AND_QUICK_MISC_PHRASES =
     [(''INGEST_NO_ACTIONS'', (''No tool calls detected in input. This tool only ingests structured tool activity (JSON with tool names and parameters)'' @ [CHR 0x97] @ ''not arbitrary logs.'')),
      (''INGEST_NO_STRUCTURED_TOOL_ACTIVITY'', (''No structured tool activity was found. Input must be JSON/NDJSON describing tool calls and parameters that match the ingest model (see docs)'' @ [CHR 0x97] @ ''not generic log lines.'')),
      (''INGEST_INPUT_TOO_LARGE'', ''Input exceeded the maximum allowed size.''),
      (''INGEST_ACTION_CAP'', ''Action limit reached; extra tool calls were ignored.''),
      (''MALFORMED_LINE'', ''One or more lines could not be parsed as JSON.'')]"

definition RUN_CONTEXT_FAILURE_PHRASES :: "(string \<times> string) list" where
  "RUN_CONTEXT_FAILURE_PHRASES =
     [(''RETRIEVAL_ERROR'', ''A retrieval step failed before the failing tool observation.''),
      (''MODEL_TURN_ERROR'', ''A model turn reported an error before the failing tool observation.''),
      (''MODEL_TURN_ABORTED'', ''A model turn was aborted before the failing tool observation.''),
      (''MODEL_TURN_INCOMPLETE'', ''A model turn was incomplete before the failing tool observation.''),
      (''CONTROL_INTERRUPT'', ''An interrupt control event occurred before the failing tool observation.''),
      (''CONTROL_BRANCH_SKIPPED'', ''A branch was skipped before the failing tool observation.''),
      (''CONTROL_GATE_SKIPPED'', ''A gate was skipped before the failing tool observation.''),
      (''TOOL_SKIPPED'', ''A tool was skipped before the failing tool observation.'')]"

definition RUN_AND_EVENT_PHRASES :: "(string \<times> string) list" where
  "RUN_AND_EVENT_PHRASES =
     map (\<lambda>c. (rs_code (runLevelIssue c), rs_message (runLevelIssue c)))
       [MALFORMED_EVENT_LINE, NO_STEPS_FOR_WORKFLOW, LANGGRAPH_CHECKPOINT_TRUST_NON_V3_TOOL_OBSERVED]
     @ [(rs_code eventSequenceIssue, rs_message eventSequenceIssue)]
     @ RUN_CONTEXT_FAILURE_PHRASES
     @ [(TIMESTAMP_NOT_MONOTONIC_CODE,
         ''Timestamps decreased between steps in sequence order (ordering may be unreliable).'')]"

section \<open>Looking up a phrase\<close>

definition FALLBACK_PREFIX :: string where
  "FALLBACK_PREFIX = ''Verification issue (code ''"

definition fallback_phrase :: "string \<Rightarrow> string" where
  "fallback_phrase code =
     (if starts_with ''MAPPING_'' code
      then ''Mapping: '' @ map (\<lambda>c. if c = CHR ''_'' then CHR '' '' else c) (toLowerCase (drop 8 code)) @ ''.''
      else FALLBACK_PREFIX @ code @ '').'')"

fun first_phrase :: "(string \<times> string) list list \<Rightarrow> string \<Rightarrow> string" where
  "first_phrase [] code = fallback_phrase code"
| "first_phrase (t # ts) code = (case map_of t code of Some p \<Rightarrow> p | None \<Rightarrow> first_phrase ts code)"

definition userPhraseForReasonCode :: "string \<Rightarrow> string" where
  "userPhraseForReasonCode code =
     first_phrase [SQL_VERIFICATION_PHRASES, REGISTRY_RESOLVER_PHRASES, INGEST_AND_QUICK_MISC_PHRASES,
       RUN_AND_EVENT_PHRASES] code"

definition isFallbackUserPhrase :: "string \<Rightarrow> bool" where
  "isFallbackUserPhrase phrase \<longleftrightarrow> starts_with FALLBACK_PREFIX phrase"

section \<open>Every code of the program has a phrase of its own\<close>

lemma step_code_phrase:
  assumes "c \<in> set (step_codes s)"
  shows "\<not> isFallbackUserPhrase (userPhraseForReasonCode c)"
proof -
  have "list_all (\<lambda>s. list_all (\<lambda>c. \<not> isFallbackUserPhrase (userPhraseForReasonCode c)) (step_codes s))
      [Verified, Missing, Inconsistent, IncompleteVerification, PartiallyVerified, Uncertain]"
    by code_simp
  with assms show ?thesis by (cases s) (auto simp: list_all_iff)
qed

end
