(* ===== verification/Explanation.thy ===== *)
theory Explanation
  imports ActionableFailure UserPhrases
begin

text \<open>
  The explanation of a failed run (\<open>src/failureExplanation.ts\<close>): what was expected, what was
  observed and where the two diverge, as filled templates, with the facts it rests on. Also
  the data of the truth report it reads (\<open>src/types.ts\<close>).
\<close>

section \<open>The data of the report\<close>

record truth_issue =
  ti_code :: string
  ti_message :: string
  ti_category :: failure_diagnostic

record truth_effect =
  tf_id :: string
  tf_outcomeLabel :: string
  tf_reasons :: "reason list"

record truth_step =
  ts_seq :: int
  ts_toolId :: string
  ts_releaseCritical :: bool
  ts_outcomeLabel :: string
  ts_evaluatedOrdinal :: nat
  ts_repeatCount :: nat
  ts_reasons :: "reason list"
  ts_narrative :: string
  ts_paramsCanonical :: string
  ts_failureCategory :: "failure_diagnostic option"
  ts_verifyTarget :: "string option"
  ts_observedStateSummary :: string
  ts_effects :: "truth_effect list option"

text \<open>The report before its explanation and correctness definition; \<open>None\<close> is a normal sequence.\<close>

record truth_base =
  wt_workflowId :: string
  wt_workflowStatus :: workflow_status
  wt_trustSummary :: string
  wt_runLevelIssues :: "truth_issue list"
  wt_eventSequence :: "truth_issue list option"
  wt_steps :: "truth_step list"
  wt_failureAnalysis :: "(failure_analysis \<times> actionable_failure) option"
  wt_executionPathFindings :: "path_finding list"
  wt_executionPathSummary :: string

record failure_explanation =
  fe_expected :: string
  fe_observed :: string
  fe_divergence :: string
  fe_knownFacts :: "(string \<times> string) list"
  fe_unknowns :: "(string \<times> string) list"

fun scope_text :: "evidence_scope \<Rightarrow> string" where
  "scope_text ScopeRunContext = ''run_context''"
| "scope_text ScopeRunLevel = ''run_level''"
| "scope_text ScopeEventSequence = ''event_sequence''"
| "scope_text ScopeStep = ''step''"
| "scope_text ScopeEffect = ''effect''"

fun level_text :: "level \<Rightarrow> string" where
  "level_text High = ''high''"
| "level_text Medium = ''medium''"
| "level_text Low = ''low''"

fun workflow_status_text :: "workflow_status \<Rightarrow> string" where
  "workflow_status_text Complete = ''complete''"
| "workflow_status_text Incomplete = ''incomplete''"
| "workflow_status_text InconsistentWorkflow = ''inconsistent''"

section \<open>Templates\<close>

text \<open>\<open>out.split(p).join(v)\<close> for a pattern that is not empty.\<close>

fun replace_all :: "string \<Rightarrow> string \<Rightarrow> string \<Rightarrow> string" where
  "replace_all p v [] = []"
| "replace_all p v (c # cs) =
     (if p \<noteq> [] \<and> starts_with p (c # cs) then v @ replace_all p v (drop (length p - 1) cs)
      else c # replace_all p v cs)"

definition placeholder :: "string \<Rightarrow> string" where
  "placeholder k = ''<'' @ k @ ''>''"

definition fillTemplate :: "string \<Rightarrow> (string \<times> string) list \<Rightarrow> string" where
  "fillTemplate template vars = foldl (\<lambda>out (k, v). replace_all (placeholder k) v out) template vars"

definition normMessage :: "string \<Rightarrow> string" where
  "normMessage s =
     (let t = js_trim (collapse_blanks (line_breaks_to_blank s))
      in if t = [] then ''(no message)'' else formatOperationalMessage t)"

definition scalarToDetail :: "host \<Rightarrow> jsval \<Rightarrow> js_error + string" where
  "scalarToDetail h v =
     (if nullish v then Inr ''null''
      else if is_object v
      then throws_bind (json_stringify h v) (\<lambda>t. Inr (case t of None \<Rightarrow> ''undefined'' | Some s \<Rightarrow> s))
      else Inr (js_to_string h v))"

definition FE_RUN_LEVEL_EXPECTED :: string where
  "FE_RUN_LEVEL_EXPECTED = ''Verification expected a valid captured run for workflowId=<workflowId> under policy [<P>] with no run-level ingest or planning failures.''"

definition FE_RUN_LEVEL_OBSERVED :: string where
  "FE_RUN_LEVEL_OBSERVED = ''Run-level failure: code=<firstCode> detail=<detail>.''"

definition FE_RUN_LEVEL_DIVERGENCE :: string where
  "FE_RUN_LEVEL_DIVERGENCE = ''Divergence at run_level: code=<firstCode> meaning=<meaning>''"

definition FE_EVENT_SEQUENCE_EXPECTED :: string where
  "FE_EVENT_SEQUENCE_EXPECTED = ''Verification expected monotonic, well-formed event capture for workflowId=<workflowId> under policy [<P>].''"

definition FE_EVENT_SEQUENCE_OBSERVED :: string where
  "FE_EVENT_SEQUENCE_OBSERVED = ''Event-sequence irregularity: code=<firstCode> detail=<detail>.''"

definition FE_EVENT_SEQUENCE_DIVERGENCE :: string where
  "FE_EVENT_SEQUENCE_DIVERGENCE = ''Divergence at event_sequence: code=<firstCode> meaning=<meaning>''"

definition FE_RUN_CONTEXT_EXPECTED :: string where
  "FE_RUN_CONTEXT_EXPECTED = ''Verification expected upstream run context through ingest_index=<ingestIndex> to allow fair evaluation of the failing tool observation under policy [<P>].''"

definition FE_RUN_CONTEXT_OBSERVED :: string where
  "FE_RUN_CONTEXT_OBSERVED = ''Run-context signal before the failing observation: code=<C> <detail>.''"

definition FE_RUN_CONTEXT_DIVERGENCE :: string where
  "FE_RUN_CONTEXT_DIVERGENCE = ''Divergence at run_context before the failing tool observation: code=<C> meaning=<meaning>''"

definition FE_STEP_EXPECTED :: string where
  "FE_STEP_EXPECTED = ''Verification expected downstream state to satisfy verify_target \"<verifyTargetOrLiteralNull>\" and intended_effect \"<narrative>\" for seq=<seq> toolId=<toolId> under policy [<P>].''"

definition FE_STEP_OBSERVED :: string where
  "FE_STEP_OBSERVED = ''Step verification outcome: code=<primaryCode> detail=<detail><suffix>''"

definition FE_STEP_DIVERGENCE :: string where
  "FE_STEP_DIVERGENCE = ''Divergence at step seq=<seq> toolId=<toolId>: primary_code=<primaryCode> meaning=<meaning>''"

definition FE_NO_STEPS_OBSERVED :: string where
  "FE_NO_STEPS_OBSERVED = ''No tool_observed steps were produced for workflowId=<workflowId>.''"

definition FE_NO_STEPS_DIVERGENCE :: string where
  "FE_NO_STEPS_DIVERGENCE = ''Divergence: no steps to verify against registry-backed expectations under policy [<P>]''"

section \<open>Parts\<close>

definition policy_invalid_for_explanation :: js_error where
  "policy_invalid_for_explanation =
     InvariantError ''EXPLANATION_VERIFICATION_POLICY_INVALID''
       ''Verification policy is missing or invalid for failure explanation.''"

definition codes_empty :: js_error where
  "codes_empty = InvariantError ''EXPLANATION_EVIDENCE_CODES_EMPTY'' ''Primary failure analysis evidence had empty codes.''"

definition step_truth_mismatch :: js_error where
  "step_truth_mismatch = InvariantError ''EXPLANATION_STEP_TRUTH_MISMATCH''
     ''Truth report step missing for failure explanation driver step.''"

definition policy_text :: "host \<Rightarrow> string \<Rightarrow> jsnum \<Rightarrow> jsnum \<Rightarrow> js_error + string" where
  "policy_text h mode window poll =
     (if \<not> num_is_finite window then Inl policy_invalid_for_explanation
      else if \<not> num_is_finite poll then Inl policy_invalid_for_explanation
      else Inr (''consistencyMode='' @ mode @ ''; verificationWindowMs='' @ num_to_string h window
        @ ''; pollIntervalMs='' @ num_to_string h poll))"

fun policyFragment_of :: "host \<Rightarrow> policy \<Rightarrow> js_error + string" where
  "policyFragment_of h (PolicyStrong window poll) = policy_text h ''strong'' window poll"
| "policyFragment_of h (PolicyEventual window poll) = policy_text h ''eventual'' window poll"
| "policyFragment_of h (PolicyBounded _ _ _) = Inl policy_invalid_for_explanation"

definition policyFragment :: "host \<Rightarrow> engine_result \<Rightarrow> js_error + string" where
  "policyFragment h engine = policyFragment_of h (er_verificationPolicy engine)"

definition record_missing :: string where
  "record_missing = ''run_context_record_missing=true''"

definition control_found :: "run_context \<Rightarrow> nat \<Rightarrow> control_kind \<Rightarrow> (control_decision option \<Rightarrow> bool) \<Rightarrow> bool" where
  "control_found ctx i kind ok \<longleftrightarrow>
     list_ex (\<lambda>(j, _, k, d, _). j = i \<and> k = kind \<and> ok d) (rc_controlEvents ctx)"

definition buildRunContextDetail :: "run_context \<Rightarrow> nat \<Rightarrow> string \<Rightarrow> string" where
  "buildRunContextDetail ctx i C =
     (if C = ''RETRIEVAL_ERROR'' then
        (case List.find (\<lambda>(j, _, _, status, _). j = i \<and> status = RtError) (rc_retrievalEvents ctx) of
           None \<Rightarrow> record_missing
         | Some (_, _, source, _, _) \<Rightarrow> ''source='' @ source @ '' status=error'')
      else if starts_with ''MODEL_TURN_'' C then
        (case List.find (\<lambda>(j, _, status). j = i \<and> model_status_text status = toLowerCase (drop 11 C))
                (rc_modelTurnEvents ctx) of
           None \<Rightarrow> record_missing
         | Some (_, _, status) \<Rightarrow> ''status='' @ model_status_text status)
      else if C = ''CONTROL_INTERRUPT'' then
        (if control_found ctx i CkInterrupt (\<lambda>_. True) then ''controlKind=interrupt'' else record_missing)
      else if C = ''CONTROL_BRANCH_SKIPPED'' then
        (if control_found ctx i CkBranch (\<lambda>d. d = Some Skipped)
         then ''controlKind=branch decision=skipped'' else record_missing)
      else if C = ''CONTROL_GATE_SKIPPED'' then
        (if control_found ctx i CkGate (\<lambda>d. d = Some Skipped)
         then ''controlKind=gate decision=skipped'' else record_missing)
      else if C = ''TOOL_SKIPPED'' then
        (case List.find (\<lambda>(j, _, _). j = i) (rc_toolSkippedEvents ctx) of
           None \<Rightarrow> record_missing
         | Some (_, toolId, _) \<Rightarrow> ''toolId='' @ toolId)
      else record_missing)"

text \<open>
  The message of the reason behind the primary code. The rows of a rollup are cast, not
  checked: reading a member of \<open>null\<close> and normalising what is no string both throw.
\<close>

definition own_message :: "step_outcome \<Rightarrow> string" where
  "own_message driver = (case so_reasons driver of [] \<Rightarrow> [] | r # _ \<Rightarrow> rs_message r)"

definition cast_message :: "jsval \<Rightarrow> js_error + string" where
  "cast_message r =
     (if r = VNull then Inl (JsTypeError ''Cannot read properties of null (reading 'message')'')
      else (case get_prop r ''message'' of
          VStr m \<Rightarrow> Inr m
        | VUndef \<Rightarrow> Inl (JsTypeError ''Cannot read properties of undefined (reading 'replace')'')
        | VNull \<Rightarrow> Inl (JsTypeError ''Cannot read properties of null (reading 'replace')'')
        | _ \<Rightarrow> Inl (JsTypeError ''s.replace is not a function'')))"

definition msgReasonForDriverStep :: "host \<Rightarrow> step_outcome \<Rightarrow> string \<Rightarrow> js_error + string" where
  "msgReasonForDriverStep h driver primaryCode =
     (if is_rollup driver \<and> Some primaryCode \<noteq> first_code (so_reasons driver) then
        (case failing_effects h driver of
           [] \<Rightarrow> Inr (own_message driver)
         | failing # _ \<Rightarrow>
             (case pe_reasons failing of
                [] \<Rightarrow> Inr (own_message driver)
              | r # _ \<Rightarrow> if r = VUndef then Inr (own_message driver) else cast_message r))
      else Inr (own_message driver))"

definition own_members :: "evidence \<Rightarrow> (string \<times> jsval) list" where
  "own_members ev = List.map_filter (\<lambda>k. map_option (Pair k) (map_of ev k))
     [''field'', ''expected'', ''actual'', ''rowCount'']"

definition describe_members :: "host \<Rightarrow> evidence \<Rightarrow> js_error + (string \<times> string) list" where
  "describe_members h ev =
     throws_map (\<lambda>(k, v). throws_bind (scalarToDetail h v) (\<lambda>d. Inr (k, d))) (own_members ev)"

definition evidenceSummarySuffix :: "(string \<times> string) list \<Rightarrow> string" where
  "evidenceSummarySuffix described =
     (if described = [] then [] else ''; '' @ join ''; '' (map (\<lambda>(k, d). k @ ''='' @ d) described))"

definition evidence_fact :: "string \<times> string \<Rightarrow> string \<times> string" where
  "evidence_fact kd = (''evidence_summary_'' @ (if fst kd = ''rowCount'' then ''row_count'' else fst kd), snd kd)"

definition buildUnknowns :: "host \<Rightarrow> failure_analysis \<Rightarrow> (string \<times> string) list" where
  "buildUnknowns h fa =
     js_sort (\<lambda>a b. h_localeCompare h (snd a) (snd b))
       (map (\<lambda>c. (''unknown_reason_code'', ''code='' @ c @ ''|meaning='' @ userPhraseForReasonCode c))
         (fa_unknownReasonCodes fa))
     @ (if fa_confidence fa = Medium \<or> fa_confidence fa = Low
        then [(''classification_confidence_band'', level_text (fa_confidence fa))] else [])
     @ (case fa_alternativeHypotheses fa of
          None \<Rightarrow> []
        | Some alts \<Rightarrow> map (\<lambda>alt. (''competing_hypothesis'',
            ''origin='' @ origin_text (fl_primaryOrigin alt) @ ''|rationale='' @ normMessage (fl_rationale alt))) alts)"

definition KNOWN_FACT_ORDER :: "string list" where
  "KNOWN_FACT_ORDER =
     [''trust_summary'', ''workflow_status'', ''verification_policy'', ''primary_origin'',
      ''classification_confidence'', ''failure_analysis_summary'', ''primary_scope'', ''primary_codes'',
      ''primary_ingest_index'', ''primary_tool_id'', ''primary_source'', ''primary_run_event_id'',
      ''primary_seq'', ''primary_effect_id'', ''verify_target'', ''intended_effect_narrative'',
      ''evidence_summary_field'', ''evidence_summary_expected'', ''evidence_summary_actual'',
      ''evidence_summary_row_count'']"

text \<open>Every fact is set once, so the map is a list of pairs.\<close>

definition assembleKnownFacts :: "(string \<times> string) list \<Rightarrow> (string \<times> string) list" where
  "assembleKnownFacts m = List.map_filter (\<lambda>fid. map_option (Pair fid) (map_of m fid)) KNOWN_FACT_ORDER"

definition opt_fact :: "string \<Rightarrow> string option \<Rightarrow> (string \<times> string) list" where
  "opt_fact fid v = (case v of None \<Rightarrow> [] | Some s \<Rightarrow> [(fid, s)])"

definition second_effect :: "failure_analysis \<Rightarrow> string option" where
  "second_effect fa =
     (case fa_evidence fa of
        _ # e1 # _ \<Rightarrow> if ei_scope e1 = ScopeEffect then ei_effectId e1 else None
      | _ \<Rightarrow> None)"

definition addPrimaryEvidenceFacts :: "host \<Rightarrow> evidence_item \<Rightarrow> failure_analysis \<Rightarrow> (string \<times> string) list" where
  "addPrimaryEvidenceFacts h e0 fa =
     [(''primary_scope'', scope_text (ei_scope e0))]
     @ (if ei_codes e0 \<noteq> [] then [(''primary_codes'', join '','' (sortUniqueCodes h (ei_codes e0)))] else [])
     @ opt_fact ''primary_ingest_index'' (map_option nat_str (ei_ingestIndex e0))
     @ opt_fact ''primary_tool_id'' (ei_toolId e0)
     @ opt_fact ''primary_source'' (ei_source e0)
     @ opt_fact ''primary_run_event_id'' (ei_runEventId e0)
     @ opt_fact ''primary_seq'' (map_option int_str (ei_seq e0))
     @ opt_fact ''primary_effect_id'' (second_effect fa)"

section \<open>The four scopes\<close>

text \<open>The three texts, and the facts a branch adds.\<close>

type_synonym explained_texts = "string \<times> string \<times> string \<times> (string \<times> string) list"

definition message_of_code :: "reason list \<Rightarrow> string \<Rightarrow> string" where
  "message_of_code reasons code =
     (case List.find (\<lambda>r. rs_code r = code) reasons of None \<Rightarrow> [] | Some r \<Rightarrow> rs_message r)"

definition explain_run_level :: "host \<Rightarrow> engine_result \<Rightarrow> string \<Rightarrow> string list \<Rightarrow> explained_texts" where
  "explain_run_level h engine P codes =
     (let firstCode = first_of_table h RUN_LEVEL_CODE_TO_ORIGIN (sortUniqueCodes h codes);
          detail = normMessage (message_of_code (er_runLevelReasons engine) firstCode)
      in (fillTemplate FE_RUN_LEVEL_EXPECTED [(''workflowId'', er_workflowId engine), (''P'', P)],
          fillTemplate FE_RUN_LEVEL_OBSERVED [(''firstCode'', firstCode), (''detail'', detail)],
          fillTemplate FE_RUN_LEVEL_DIVERGENCE
            [(''firstCode'', firstCode), (''meaning'', userPhraseForReasonCode firstCode)], []))"

definition explain_event_sequence :: "host \<Rightarrow> engine_result \<Rightarrow> string \<Rightarrow> string list \<Rightarrow> explained_texts" where
  "explain_event_sequence h engine P codes =
     (let firstCode = minLex h (sortUniqueCodes h codes);
          detail = normMessage (message_of_code (integrity_reasons (er_eventSequenceIntegrity engine)) firstCode)
      in (fillTemplate FE_EVENT_SEQUENCE_EXPECTED [(''workflowId'', er_workflowId engine), (''P'', P)],
          fillTemplate FE_EVENT_SEQUENCE_OBSERVED [(''firstCode'', firstCode), (''detail'', detail)],
          fillTemplate FE_EVENT_SEQUENCE_DIVERGENCE
            [(''firstCode'', firstCode), (''meaning'', userPhraseForReasonCode firstCode)], []))"

definition explain_run_context ::
  "host \<Rightarrow> engine_result \<Rightarrow> string \<Rightarrow> evidence_item \<Rightarrow> js_error + explained_texts" where
  "explain_run_context h engine P e0 =
     (case ei_ingestIndex e0 of
        None \<Rightarrow> Inl (InvariantError ''EXPLANATION_RUN_CONTEXT_INDEX_MISSING''
                  ''Run-context failure explanation requires ingestIndex on primary evidence.'')
      | Some i \<Rightarrow>
          let C = minLex h (ei_codes e0);
              detail = buildRunContextDetail (er_verificationRunContext engine) i C
          in Inr (fillTemplate FE_RUN_CONTEXT_EXPECTED [(''ingestIndex'', nat_str i), (''P'', P)],
                  fillTemplate FE_RUN_CONTEXT_OBSERVED [(''C'', C), (''detail'', detail)],
                  fillTemplate FE_RUN_CONTEXT_DIVERGENCE [(''C'', C), (''meaning'', userPhraseForReasonCode C)], []))"

definition null_or :: "string option \<Rightarrow> string" where
  "null_or v = (case v of None \<Rightarrow> ''null'' | Some s \<Rightarrow> s)"

definition explain_driver ::
  "host \<Rightarrow> string \<Rightarrow> step_outcome \<Rightarrow> truth_step \<Rightarrow> string \<Rightarrow> js_error + explained_texts" where
  "explain_driver h P driver ts primaryCode =
     (let sq = int_str (so_seq driver); toolId = so_toolId driver;
          target = null_or (map_option normMessage (ts_verifyTarget ts));
          narrative = normMessage (ts_narrative ts)
      in throws_bind (msgReasonForDriverStep h driver primaryCode) (\<lambda>message.
         throws_bind (describe_members h (so_evidence driver)) (\<lambda>described. Inr
           (fillTemplate FE_STEP_EXPECTED [(''verifyTargetOrLiteralNull'', target), (''narrative'', narrative),
              (''seq'', sq), (''toolId'', toolId), (''P'', P)],
            fillTemplate FE_STEP_OBSERVED [(''primaryCode'', primaryCode), (''detail'', normMessage message),
              (''suffix'', evidenceSummarySuffix described)],
            fillTemplate FE_STEP_DIVERGENCE [(''seq'', sq), (''toolId'', toolId), (''primaryCode'', primaryCode),
              (''meaning'', userPhraseForReasonCode primaryCode)],
            [(''verify_target'', null_or (ts_verifyTarget ts)), (''intended_effect_narrative'', narrative)]
              @ map evidence_fact described))))"

definition explain_step ::
  "host \<Rightarrow> engine_result \<Rightarrow> truth_step list \<Rightarrow> string \<Rightarrow> evidence_item \<Rightarrow> string \<Rightarrow> js_error + explained_texts" where
  "explain_step h engine truthSteps P e0 primaryCode =
     (if primaryCode = ''NO_STEPS_FOR_WORKFLOW'' then
        Inr (fillTemplate FE_RUN_LEVEL_EXPECTED [(''workflowId'', er_workflowId engine), (''P'', P)],
             fillTemplate FE_NO_STEPS_OBSERVED [(''workflowId'', er_workflowId engine)],
             fillTemplate FE_NO_STEPS_DIVERGENCE [(''P'', P)], [])
      else (case (ei_seq e0, ei_toolId e0) of
          (Some sq, Some toolId) \<Rightarrow>
            (case (List.find (\<lambda>s. so_seq s = sq \<and> so_toolId s = toolId) (er_steps engine),
                   List.find (\<lambda>s. ts_seq s = sq \<and> ts_toolId s = toolId) truthSteps) of
               (Some driver, Some ts) \<Rightarrow> explain_driver h P driver ts primaryCode
             | _ \<Rightarrow> Inl step_truth_mismatch)
        | _ \<Rightarrow> Inl step_truth_mismatch))"

definition explain_scope ::
  "host \<Rightarrow> engine_result \<Rightarrow> truth_step list \<Rightarrow> string \<Rightarrow> evidence_item \<Rightarrow> js_error + explained_texts" where
  "explain_scope h engine truthSteps P e0 =
     (case ei_scope e0 of
        ScopeEffect \<Rightarrow> Inl (InvariantError ''EXPLANATION_PRIMARY_EVIDENCE_SCOPE_EFFECT''
                          ''Primary failure analysis evidence must not be scope effect.'')
      | ScopeRunLevel \<Rightarrow> Inr (explain_run_level h engine P (ei_codes e0))
      | ScopeEventSequence \<Rightarrow> Inr (explain_event_sequence h engine P (ei_codes e0))
      | ScopeRunContext \<Rightarrow> explain_run_context h engine P e0
      | ScopeStep \<Rightarrow> explain_step h engine truthSteps P e0 (minLex h (ei_codes e0)))"

definition base_facts ::
  "host \<Rightarrow> truth_base \<Rightarrow> string \<Rightarrow> failure_analysis \<Rightarrow> evidence_item \<Rightarrow> (string \<times> string) list" where
  "base_facts h truth P fa e0 =
     [(''trust_summary'', wt_trustSummary truth),
      (''workflow_status'', workflow_status_text (wt_workflowStatus truth)),
      (''verification_policy'', P),
      (''primary_origin'', origin_text (fa_primaryOrigin fa)),
      (''classification_confidence'', level_text (fa_confidence fa)),
      (''failure_analysis_summary'', normMessage (fa_summary fa))]
     @ addPrimaryEvidenceFacts h e0 fa"

definition explain_analysis ::
  "host \<Rightarrow> engine_result \<Rightarrow> truth_base \<Rightarrow> string \<Rightarrow> failure_analysis \<Rightarrow> js_error + failure_explanation" where
  "explain_analysis h engine truth P fa =
     (case fa_evidence fa of
        [] \<Rightarrow> Inl (JsTypeError ''Cannot read properties of undefined (reading 'scope')'')
      | e0 # _ \<Rightarrow>
          if ei_scope e0 \<noteq> ScopeEffect \<and> ei_codes e0 = [] then Inl codes_empty
          else throws_bind (explain_scope h engine (wt_steps truth) P e0) (\<lambda>(expected, observed, divergence, facts).
            Inr \<lparr>fe_expected = formatOperationalMessage expected,
                 fe_observed = formatOperationalMessage observed,
                 fe_divergence = formatOperationalMessage divergence,
                 fe_knownFacts = assembleKnownFacts (base_facts h truth P fa e0 @ facts),
                 fe_unknowns = buildUnknowns h fa\<rparr>))"

definition buildFailureExplanation ::
  "host \<Rightarrow> engine_result \<Rightarrow> truth_base \<Rightarrow> js_error + failure_explanation option" where
  "buildFailureExplanation h engine truth =
     (if er_status engine = Complete then Inr None
      else throws_bind (policyFragment h engine) (\<lambda>P.
           throws_bind (buildFailureAnalysis h engine) (\<lambda>fa. case fa of
               None \<Rightarrow> Inl codes_empty
             | Some a \<Rightarrow> throws_bind (explain_analysis h engine truth P a) (\<lambda>e. Inr (Some e)))))"

end
