(* ===== verification/Correctness.thy ===== *)
theory Correctness
  imports Explanation
begin

text \<open>
  The forward-looking contract attached to a failed run (\<open>src/correctnessDefinition.ts\<close>,
  \<open>src/correctnessDefinitionTemplates.ts\<close>): what must hold for the run not to fail again, as
  text and as a projection a program can enforce. The verification request inside a projection
  is the JavaScript value it is serialised from.
\<close>

section \<open>Requests as JavaScript values\<close>

definition opt_member :: "string \<Rightarrow> jsval option \<Rightarrow> (string \<times> jsval) list" where
  "opt_member k v = (case v of None \<Rightarrow> [] | Some x \<Rightarrow> [(k, x)])"

definition pair_val :: "identity_pair \<Rightarrow> jsval" where
  "pair_val p = VObj [(''column'', VStr (ip_column p)), (''value'', VStr (ip_value p))]"

definition pairs_val :: "identity_pair list \<Rightarrow> jsval" where
  "pairs_val ps = VArr (map pair_val ps)"

definition scalars_val :: "(string \<times> scalar) list \<Rightarrow> jsval" where
  "scalars_val fs = VObj (map (\<lambda>(k, s). (k, scalar_val s)) fs)"

definition row_members :: "row_request \<Rightarrow> (string \<times> jsval) list" where
  "row_members r = [(''kind'', VStr ''sql_row''), (''table'', VStr (rq_table r)),
     (''identityEq'', pairs_val (rq_identityEq r)), (''requiredFields'', scalars_val (rq_requiredFields r))]"

fun fn_val :: "agg_fn \<Rightarrow> jsval" where
  "fn_val AggCountStar = VStr ''COUNT_STAR''"
| "fn_val AggSum = VStr ''SUM''"

fun side_val :: "table_side \<Rightarrow> jsval" where
  "side_val SideLeft = VStr ''left''"
| "side_val SideRight = VStr ''right''"

fun check_val :: "relational_check \<Rightarrow> jsval" where
  "check_val (RelatedExists c) = VObj [(''checkKind'', VStr ''related_exists''), (''id'', VStr (rx_id c)),
     (''childTable'', VStr (rx_childTable c)), (''matchEq'', pairs_val (rx_matchEq c))]"
| "check_val (Aggregate c) = VObj ([(''checkKind'', VStr ''aggregate''), (''id'', VStr (ag_id c)),
     (''table'', VStr (ag_table c)), (''fn'', fn_val (ag_fn c))]
     @ opt_member ''sumColumn'' (map_option VStr (ag_sumColumn c))
     @ [(''whereEq'', pairs_val (ag_whereEq c)), (''expectOp'', VStr (op_text (ag_expectOp c))),
        (''expectValue'', VNum (ag_expectValue c))])"
| "check_val (JoinCount c) = VObj [(''checkKind'', VStr ''join_count''), (''id'', VStr (jc_id c)),
     (''leftTable'', VStr (jc_leftTable c)), (''rightTable'', VStr (jc_rightTable c)),
     (''leftJoinColumn'', VStr (jc_leftJoinColumn c)), (''rightJoinColumn'', VStr (jc_rightJoinColumn c)),
     (''whereEq'', VArr (map (\<lambda>(side, p). VObj [(''side'', side_val side), (''column'', VStr (ip_column p)),
        (''value'', VStr (ip_value p))]) (jc_whereEq c))),
     (''expectOp'', VStr (op_text (jc_expectOp c))), (''expectValue'', VNum (jc_expectValue c))]"
| "check_val (AntiJoin c) = VObj [(''checkKind'', VStr ''anti_join''), (''id'', VStr (aj_id c)),
     (''anchorTable'', VStr (aj_anchorTable c)), (''lookupTable'', VStr (aj_lookupTable c)),
     (''anchorColumn'', VStr (aj_anchorColumn c)), (''lookupColumn'', VStr (aj_lookupColumn c)),
     (''lookupPresenceColumn'', VStr (aj_lookupPresenceColumn c)),
     (''filterEqAnchor'', pairs_val (aj_filterEqAnchor c)), (''filterEqLookup'', pairs_val (aj_filterEqLookup c))]"

fun witness_val :: "witness_request \<Rightarrow> jsval" where
  "witness_val (WVector r) = VObj ([(''kind'', VStr ''vector_document''),
     (''provider'', VStr (provider_text (vq_provider r))), (''documentId'', VStr (vq_documentId r)),
     (''indexName'', VStr (vq_indexName r))]
     @ opt_member ''namespace'' (map_option VStr (vq_namespace r)) @ opt_member ''host'' (map_option VStr (vq_host r))
     @ opt_member ''metadataSubset'' (map_option scalars_val (vq_metadataSubset r))
     @ opt_member ''expectPayloadSha256'' (map_option VStr (vq_expectPayloadSha256 r)))"
| "witness_val (WObject r) = VObj ([(''kind'', VStr ''object_storage_object''), (''bucket'', VStr (oq_bucket r)),
     (''key'', VStr (oq_key r))]
     @ opt_member ''endpoint'' (map_option VStr (oq_endpoint r))
     @ opt_member ''expectSizeBytes'' (map_option VNum (oq_expectSizeBytes r))
     @ opt_member ''expectSha256'' (map_option VStr (oq_expectSha256 r))
     @ opt_member ''expectEtag'' (map_option VStr (oq_expectEtag r)))"
| "witness_val (WHttp r) = VObj ([(''kind'', VStr ''http_witness''), (''method'', VStr (method_text (hq_method r))),
     (''url'', VStr (hq_url r)), (''expectedStatus'', VNum (hq_expectedStatus r))]
     @ opt_member ''assertions'' (map_option (\<lambda>as. VArr (map (\<lambda>(p, v).
          VObj [(''jsonPointer'', VStr p), (''value'', scalar_val v)]) as)) (hq_assertions r)))"
| "witness_val (WMongo r) = VObj [(''kind'', VStr ''mongo_document''), (''collection'', VStr (mq_collection r)),
     (''filter'', mq_filter r), (''requiredFields'', scalars_val (mq_requiredFields r))]"

fun request_val :: "step_request \<Rightarrow> jsval" where
  "request_val (QSqlRow r) = VObj (row_members r)"
| "request_val (QSqlRowAbsent r) = VObj [(''kind'', VStr ''sql_row_absent''), (''table'', VStr (aq_table r)),
     (''identityEq'', pairs_val (aq_identityEq r)), (''filterEq'', pairs_val (aq_filterEq r))]"
| "request_val (QSqlEffects es) = VObj [(''kind'', VStr ''sql_effects''),
     (''effects'', VArr (map (\<lambda>e. VObj ((''id'', VStr (ef_id e)) # row_members (ef_request e))) es))]"
| "request_val (QSqlRelational cs) = VObj [(''kind'', VStr ''sql_relational''), (''checks'', VArr (map check_val cs))]"
| "request_val (QWitness q) = witness_val q"

definition opt_request_val :: "step_request option \<Rightarrow> jsval" where
  "opt_request_val r = (case r of None \<Rightarrow> VNull | Some q \<Rightarrow> request_val q)"

section \<open>Definitions of correctness\<close>

text \<open>The projection is kept as the object it is, its \<open>projectionKind\<close> first.\<close>

record correctness_definition =
  cd_enforcementKind :: string
  cd_mustAlwaysHold :: string
  cd_enforceAs :: "string list"
  cd_enforceableProjection :: jsval
  cd_remediationAlignment :: remediation_row

definition mk_correctness ::
  "string \<Rightarrow> string \<Rightarrow> string list \<Rightarrow> (string \<times> jsval) list \<Rightarrow> remediation_row \<Rightarrow> correctness_definition" where
  "mk_correctness kind must enforce members row =
     \<lparr>cd_enforcementKind = kind, cd_mustAlwaysHold = formatOperationalMessage must,
      cd_enforceAs = map formatOperationalMessage enforce,
      cd_enforceableProjection = VObj ((''projectionKind'', VStr kind) # members),
      cd_remediationAlignment = row\<rparr>"

lemma mk_correctness_sel [simp]:
  "cd_enforcementKind (mk_correctness k m e ms r) = k"
  "cd_mustAlwaysHold (mk_correctness k m e ms r) = formatOperationalMessage m"
  "cd_enforceAs (mk_correctness k m e ms r) = map formatOperationalMessage e"
  "cd_remediationAlignment (mk_correctness k m e ms r) = r"
  "cd_enforceableProjection (mk_correctness k m e ms r) = VObj ((''projectionKind'', VStr k) # ms)"
  by (simp_all add: mk_correctness_def)

definition codes_val :: "string list \<Rightarrow> jsval" where
  "codes_val codes = VArr (map VStr codes)"

definition templateRunIngestMustHold :: "string \<Rightarrow> string \<Rightarrow> string \<Rightarrow> bool \<Rightarrow> string" where
  "templateRunIngestMustHold workflowId P codes nonEmptySteps =
     fillTemplate (''Must: ingest for workflowId=<workflowId> SHALL deliver a valid captured run under policy [<P>] with no blocking run-level failures (codes: <codes>).''
       @ (if nonEmptySteps then '' The stream SHALL yield at least one tool_observed step for verification.'' else []))
       [(''workflowId'', workflowId), (''P'', P), (''codes'', codes)]"

definition templateRunIngestEnforceAs :: "string \<Rightarrow> string list" where
  "templateRunIngestEnforceAs codes =
     [''Ingest pipelines SHALL validate each event line against the wire event contract before verification.'',
      fillTemplate ''CI or preflight SHALL reject captures that surface primary failure codes <codes> for this workflow under the same policy.''
        [(''codes'', codes)]]"

definition templateEventCaptureMustHold :: "string \<Rightarrow> string \<Rightarrow> string \<Rightarrow> string" where
  "templateEventCaptureMustHold workflowId P codes =
     fillTemplate ''Must: event capture for workflowId=<workflowId> SHALL preserve monotonic, well-formed ordering under policy [<P>] and SHALL NOT emit event-sequence fault codes <codes>.''
       [(''workflowId'', workflowId), (''P'', P), (''codes'', codes)]"

definition templateEventCaptureEnforceAs :: "string \<Rightarrow> string list" where
  "templateEventCaptureEnforceAs codes =
     [''Capture agents SHALL preserve capture-order and timestamp monotonicity rules required for seq-sorted verification.'',
      fillTemplate ''Automated checks SHALL fail runs that include codes <codes> in the event_sequence integrity set.''
        [(''codes'', codes)]]"

definition templateRunContextMustHold :: "string \<Rightarrow> string \<Rightarrow> string \<Rightarrow> string \<Rightarrow> string \<Rightarrow> string" where
  "templateRunContextMustHold workflowId P I C codes =
     fillTemplate ''Must: before evaluating the failing tool observation at ingest_index=<I>, upstream run context SHALL satisfy contract <C> under policy [<P>] for workflowId=<workflowId> (primary codes: <codes>).''
       [(''workflowId'', workflowId), (''P'', P), (''I'', I), (''C'', C), (''codes'', codes)]"

definition templateRunContextEnforceAs :: "string \<Rightarrow> string list" where
  "templateRunContextEnforceAs C =
     [''Orchestration SHALL record retrieval, model turns, controls, and tool_skipped events so fairness can be checked at the failing ingest index.'',
      fillTemplate ''Replays SHALL not evaluate downstream tool_observed steps when <C> is violated for that index.'' [(''C'', C)]]"

definition templateStepRegistryMustHold :: "string \<Rightarrow> string \<Rightarrow> string \<Rightarrow> string \<Rightarrow> string" where
  "templateStepRegistryMustHold W S T P =
     fillTemplate ''Must: after tool_observed seq=<S> toolId=<T>, authoritative downstream state SHALL satisfy the verification contract in verificationRequest under policy [<P>] for workflowId=<W>.''
       [(''W'', W), (''S'', S), (''T'', T), (''P'', P)]"

definition templateStepRegistryEnforceAs :: "string \<Rightarrow> string list" where
  "templateStepRegistryEnforceAs S =
     [fillTemplate ''Registry (or synthetic events plus registry) SHALL keep verificationRequest aligned with declared tool parameters for seq=<S>.''
        [(''S'', S)],
      ''Read-only verification reads at verify time (SQL, HTTP witnesses, object metadata, vector fetches, Mongo findOne, etc.) SHALL match verificationRequest.'']"

definition templatePlanTransitionMustHold :: "string \<Rightarrow> string \<Rightarrow> string \<Rightarrow> string \<Rightarrow> string \<Rightarrow> string" where
  "templatePlanTransitionMustHold W S T P codes =
     fillTemplate ''Must: plan-validation step seq=<S> toolId=<T> SHALL satisfy declared plan rules under policy [<P>] for workflowId=<W> (primary codes: <codes>).''
       [(''W'', W), (''S'', S), (''T'', T), (''P'', P), (''codes'', codes)]"

definition templatePlanTransitionEnforceAs :: "string list" where
  "templatePlanTransitionEnforceAs =
     [''Plan.md rules and git transition inputs SHALL remain aligned with the verification target for this step.'',
      ''CI SHALL re-run plan-transition verification after changing patterns or git refs implicated by this failure.'']"

definition PLAN_TRANSITION_WORKFLOW_ID :: string where
  "PLAN_TRANSITION_WORKFLOW_ID = ''wf_plan_transition''"

definition mapRunContextCodeToContract :: "string \<Rightarrow> js_error + string" where
  "mapRunContextCodeToContract code =
     (if code = ''RETRIEVAL_ERROR'' then Inr ''retrieval_ok_before_observation''
      else if code \<in> {''MODEL_TURN_ERROR'', ''MODEL_TURN_ABORTED'', ''MODEL_TURN_INCOMPLETE''}
      then Inr ''model_turn_completed_before_observation''
      else if code = ''CONTROL_INTERRUPT'' then Inr ''no_interrupt_before_observation''
      else if code = ''CONTROL_BRANCH_SKIPPED'' then Inr ''branch_not_skipped_before_observation''
      else if code = ''CONTROL_GATE_SKIPPED'' then Inr ''gate_not_skipped_before_observation''
      else if code = ''TOOL_SKIPPED'' then Inr ''tool_not_skipped_before_observation''
      else Inl (InvariantError ''CORRECTNESS_UNKNOWN_RUN_CONTEXT_CODE''
             (''Unknown run_context primary code for correctness contract: '' @ code)))"

definition scope_missing :: "string \<Rightarrow> js_error" where
  "scope_missing m = InvariantError ''CORRECTNESS_PRIMARY_SCOPE_MISSING'' m"

definition ingest_correctness ::
  "string \<Rightarrow> string \<Rightarrow> string list \<Rightarrow> bool \<Rightarrow> remediation_row \<Rightarrow> correctness_definition" where
  "ingest_correctness workflowId P codes nonEmptySteps row =
     (let codesStr = join '','' codes
      in mk_correctness ''run_ingest_integrity''
           (templateRunIngestMustHold workflowId P codesStr nonEmptySteps) (templateRunIngestEnforceAs codesStr)
           [(''workflowId'', VStr workflowId), (''verificationPolicyFragment'', VStr P),
            (''primaryFailureCodes'', codes_val codes),
            (''ingestContractRequirement'',
               VStr (if nonEmptySteps then ''non_empty_tool_observed_steps'' else ''no_run_level_failures''))] row)"

definition capture_correctness ::
  "string \<Rightarrow> string \<Rightarrow> string list \<Rightarrow> remediation_row \<Rightarrow> correctness_definition" where
  "capture_correctness workflowId P codes row =
     (let codesStr = join '','' codes
      in mk_correctness ''event_capture_integrity''
           (templateEventCaptureMustHold workflowId P codesStr) (templateEventCaptureEnforceAs codesStr)
           [(''workflowId'', VStr workflowId), (''verificationPolicyFragment'', VStr P),
            (''forbiddenEventSequenceCodes'', codes_val codes)] row)"

definition context_correctness ::
  "string \<Rightarrow> string \<Rightarrow> nat option \<Rightarrow> string list \<Rightarrow> remediation_row \<Rightarrow> js_error + correctness_definition" where
  "context_correctness workflowId P ingestIndex codes row =
     (case ingestIndex of
        None \<Rightarrow> Inl (InvariantError ''CORRECTNESS_RUN_CONTEXT_INDEX_MISSING''
                  ''run_context correctness requires ingestIndex on primary evidence'')
      | Some i \<Rightarrow>
          throws_bind (mapRunContextCodeToContract (case codes of [] \<Rightarrow> [] | c # _ \<Rightarrow> c)) (\<lambda>contract.
            Inr (mk_correctness ''run_context_fairness''
              (templateRunContextMustHold workflowId P (nat_str i) contract (join '','' codes))
              (templateRunContextEnforceAs contract)
              [(''workflowId'', VStr workflowId), (''verificationPolicyFragment'', VStr P),
               (''ingestIndex'', VInt (int i)), (''requiredUpstreamContract'', VStr contract),
               (''primaryRunContextCodes'', codes_val codes)] row)))"

definition step_correctness ::
  "string \<Rightarrow> string \<Rightarrow> step_outcome \<Rightarrow> truth_step \<Rightarrow> string list \<Rightarrow> remediation_row \<Rightarrow> correctness_definition" where
  "step_correctness W P driver ts codes row =
     (let S = int_str (so_seq driver); T = so_toolId driver;
          common = [(''workflowId'', VStr W), (''verificationPolicyFragment'', VStr P),
                    (''seq'', VInt (so_seq driver)), (''toolId'', VStr T)]
      in if W = PLAN_TRANSITION_WORKFLOW_ID
         then mk_correctness ''plan_transition_expectation''
                (templatePlanTransitionMustHold W S T P (join '','' codes)) templatePlanTransitionEnforceAs
                (common @ [(''verifyTarget'', case ts_verifyTarget ts of None \<Rightarrow> VNull | Some v \<Rightarrow> VStr v),
                           (''primaryCodes'', codes_val codes)]) row
         else mk_correctness ''step_registry_expectation''
                (templateStepRegistryMustHold W S T P) (templateStepRegistryEnforceAs S)
                (common @ [(''verificationRequest'', opt_request_val (so_request driver))]) row)"

definition driver_correctness ::
  "engine_result \<Rightarrow> truth_step list \<Rightarrow> string \<Rightarrow> evidence_item \<Rightarrow> string list \<Rightarrow> remediation_row \<Rightarrow>
     js_error + correctness_definition" where
  "driver_correctness engine truthSteps P e0 codes row =
     (case (ei_seq e0, ei_toolId e0) of
        (Some sq, Some toolId) \<Rightarrow>
          (case List.find (\<lambda>s. so_seq s = sq \<and> so_toolId s = toolId) (er_steps engine) of
             None \<Rightarrow> Inl (scope_missing ''step correctness driver not found in engine.steps'')
           | Some driver \<Rightarrow>
               (case List.find (\<lambda>s. ts_seq s = sq \<and> ts_toolId s = toolId) truthSteps of
                  None \<Rightarrow> Inl (scope_missing ''step correctness truth step not found'')
                | Some ts \<Rightarrow> Inr (step_correctness (er_workflowId engine) P driver ts codes row)))
      | _ \<Rightarrow> Inl (scope_missing ''step correctness requires seq and toolId on primary evidence''))"

definition buildWorkflowCorrectnessDefinition ::
  "host \<Rightarrow> engine_result \<Rightarrow> failure_explanation \<Rightarrow> failure_analysis \<times> actionable_failure \<Rightarrow> truth_step list \<Rightarrow>
     js_error + correctness_definition" where
  "buildWorkflowCorrectnessDefinition h engine fe analysed truthSteps =
     (case map_of (fe_knownFacts fe) ''primary_scope'' of
        None \<Rightarrow> Inl (scope_missing ''failureExplanation.knownFacts missing primary_scope'')
      | Some scopeRaw \<Rightarrow>
          throws_bind (policyFragment h engine) (\<lambda>P.
            case fa_evidence (fst analysed) of
              [] \<Rightarrow> Inl (JsTypeError ''Cannot read properties of undefined (reading 'codes')'')
            | e0 # _ \<Rightarrow>
                let W = er_workflowId engine; codes = sortUniqueCodes h (ei_codes e0);
                    row = remediation (af_recommendedAction (snd analysed)) (af_automationSafe (snd analysed))
                in if scopeRaw = ''step'' \<and> ''NO_STEPS_FOR_WORKFLOW'' \<in> set codes
                   then Inr (ingest_correctness W P codes True row)
                   else if scopeRaw = ''run_level'' then Inr (ingest_correctness W P codes False row)
                   else if scopeRaw = ''event_sequence'' then Inr (capture_correctness W P codes row)
                   else if scopeRaw = ''run_context'' then context_correctness W P (ei_ingestIndex e0) codes row
                   else if scopeRaw = ''step'' then driver_correctness engine truthSteps P e0 codes row
                   else Inl (scope_missing (''Unsupported primary_scope for correctness: '' @ scopeRaw))))"

section \<open>Units of the quick verification\<close>

text \<open>\<open>deriveQuickRemediationAlignment\<close> (\<open>src/actionableFailure.ts\<close>): the first code decides.\<close>

definition sortUniqueStrings :: "host \<Rightarrow> string list \<Rightarrow> string list" where
  "sortUniqueStrings h vs = sortUniqueCodes h (filter (\<lambda>v. v \<noteq> []) vs)"

definition deriveQuickRemediationAlignment :: "host \<Rightarrow> string list \<Rightarrow> remediation_row" where
  "deriveQuickRemediationAlignment h reasonCodes =
     (let c = (case sortUniqueStrings h reasonCodes of [] \<Rightarrow> [] | x # _ \<Rightarrow> x)
      in if c = ''CONNECTOR_ERROR'' then remediation ImproveReadConnectivity False
         else if c = ''MAPPING_FAILED'' \<or> starts_with ''RESOLVE_'' c \<or> js_includes ''REGISTRY'' c \<or> c = ''UNKNOWN_TOOL''
         then remediation CorrectVerificationInputs False
         else if c \<in> {''ROW_ABSENT'', ''VALUE_MISMATCH'', ''DUPLICATE_ROWS'', ''RELATIONAL_EXPECTATION_MISMATCH'',
             ''RELATIONAL_SCALAR_UNUSABLE'', ''ROW_PRESENT_WHEN_FORBIDDEN''}
         then remediation ReconcileDownstreamState False
         else remediation ManualReview False)"

datatype quick_kind =
    QuickRow "row_request option"
  | QuickRelatedExists related_exists_check

record quick_unit =
  qu_unitId :: string
  qu_kind :: quick_kind
  qu_toolName :: string
  qu_actionIndex :: nat
  qu_table :: string
  qu_reasonCodes :: "string list"

definition templateQuickRowMustHold :: "string \<Rightarrow> string \<Rightarrow> string \<Rightarrow> string" where
  "templateQuickRowMustHold toolName A table =
     fillTemplate ''Must: when tool <toolName> actionIndex=<A> is treated as successful for quick verification, table <table> SHALL satisfy the inferred sql_row contract (provisional, not a signed export) under read-only SQL checks.''
       [(''toolName'', toolName), (''A'', A), (''table'', table)]"

definition templateQuickRowEnforceAs :: "string \<Rightarrow> string list" where
  "templateQuickRowEnforceAs table =
     [fillTemplate ''Structured tool activity SHALL continue to expose parameters needed to infer identity and required fields for table <table>.''
        [(''table'', table)],
      ''For production enforcement, promote this check to contract verification via exported registry and synthetic events when eligible.'']"

definition templateQuickRelMustHold :: "string \<Rightarrow> string \<Rightarrow> string \<Rightarrow> string" where
  "templateQuickRelMustHold toolName A T =
     fillTemplate ''Must: when tool <toolName> actionIndex=<A> is treated as successful, related row existence for childTable=<T> SHALL hold as checked by the inferred related_exists contract (provisional).''
       [(''toolName'', toolName), (''A'', A), (''T'', T)]"

definition templateQuickRelEnforceAs :: "string \<Rightarrow> string list" where
  "templateQuickRelEnforceAs T =
     [fillTemplate ''Foreign-key or pointer fields in structured activity SHALL remain sufficient to infer match columns for <T>.''
        [(''T'', T)],
      ''For full contract coverage, add explicit sql_relational tooling in the registry; quick inference does not export all relational rules.'']"

definition templateQuickGapMustHold :: "string \<Rightarrow> string \<Rightarrow> string \<Rightarrow> string" where
  "templateQuickGapMustHold toolName A codes =
     fillTemplate (''Must: either structured tool activity for tool <toolName> actionIndex=<A> SHALL map to an inferrable sql_row check, or you SHALL add an explicit registry-backed expectation''
         @ [CHR 0x97] @ ''provisional quick verification cannot enforce this action until one path exists (reason codes: <codes>).'')
       [(''toolName'', toolName), (''A'', A), (''codes'', codes)]"

definition templateQuickGapEnforceAs :: "string list" where
  "templateQuickGapEnforceAs =
     [''Extend ingest fields or tool naming so row identity and required columns can be inferred, or author a registry tool for this action.'',
      ''Re-run quick verify; then use contract replay for exported row tools to lock the expectation in batch mode.'']"

definition quick_row_correctness :: "quick_unit \<Rightarrow> row_request \<Rightarrow> remediation_row \<Rightarrow> correctness_definition" where
  "quick_row_correctness u req row =
     mk_correctness ''quick_inferred_sql_row''
       (templateQuickRowMustHold (qu_toolName u) (nat_str (qu_actionIndex u)) (qu_table u))
       (templateQuickRowEnforceAs (qu_table u))
       [(''quickProvisional'', VBool True), (''unitId'', VStr (qu_unitId u)), (''toolName'', VStr (qu_toolName u)),
        (''actionIndex'', VInt (int (qu_actionIndex u))), (''table'', VStr (qu_table u)),
        (''sqlRowRequest'', VObj (row_members req))] row"

definition quick_gap_correctness ::
  "quick_unit \<Rightarrow> string list \<Rightarrow> remediation_row \<Rightarrow> correctness_definition" where
  "quick_gap_correctness u codes row =
     mk_correctness ''quick_mapping_gap''
       (templateQuickGapMustHold (qu_toolName u) (nat_str (qu_actionIndex u)) (join '','' codes))
       templateQuickGapEnforceAs
       [(''quickProvisional'', VBool True), (''toolName'', VStr (qu_toolName u)),
        (''actionIndex'', VInt (int (qu_actionIndex u))), (''reasonCodes'', codes_val codes),
        (''table'', if qu_table u = [] then VNull else VStr (qu_table u))] row"

definition quick_relational_correctness ::
  "quick_unit \<Rightarrow> related_exists_check \<Rightarrow> remediation_row \<Rightarrow> correctness_definition" where
  "quick_relational_correctness u c row =
     mk_correctness ''quick_inferred_relational''
       (templateQuickRelMustHold (qu_toolName u) (nat_str (qu_actionIndex u)) (rx_childTable c))
       (templateQuickRelEnforceAs (rx_childTable c))
       [(''quickProvisional'', VBool True), (''unitId'', VStr (qu_unitId u)), (''toolName'', VStr (qu_toolName u)),
        (''actionIndex'', VInt (int (qu_actionIndex u))), (''childTable'', VStr (rx_childTable c)),
        (''checkId'', VStr (rx_id c)), (''matchEq'', pairs_val (rx_matchEq c))] row"

definition buildQuickUnitCorrectnessDefinition :: "host \<Rightarrow> quick_unit \<Rightarrow> correctness_definition" where
  "buildQuickUnitCorrectnessDefinition h u =
     (let codes = sortUniqueCodes h (qu_reasonCodes u); row = deriveQuickRemediationAlignment h codes
      in case qu_kind u of
           QuickRow (Some req) \<Rightarrow> quick_row_correctness u req row
         | QuickRow None \<Rightarrow> quick_gap_correctness u codes row
         | QuickRelatedExists c \<Rightarrow> quick_relational_correctness u c row)"

end
