(* ===== verification/TruthReport.thy ===== *)
theory TruthReport
  imports Correctness
begin

text \<open>
  The truth report of a run (\<open>src/workflowTruthReport.ts\<close>), the lines it quotes
  (\<open>src/reconciliationPresentation.ts\<close>) and its human-readable form. Typographic dashes stand
  as 0x97, as in \<open>UserPhrases\<close>.
\<close>

section \<open>Observed state\<close>

definition EXPECTED_NONE_NO_SQL :: string where
  "EXPECTED_NONE_NO_SQL = ''(none '' @ [CHR 0x97] @ '' no resolvable registry expectation)''"

definition formatPlanTransitionEvidenceSummary :: "host \<Rightarrow> evidence \<Rightarrow> js_error + string" where
  "formatPlanTransitionEvidenceSummary h ev =
     throws_bind (json_stringify h (VObj (filter (\<lambda>(k, _). k \<noteq> ''planTransition'') ev))) (\<lambda>t.
       let json = (case t of None \<Rightarrow> [] | Some s \<Rightarrow> s)
       in Inr (if length json \<le> 500 then json else take 497 json @ ''...''))"

definition multi_effect_observed :: "host \<Rightarrow> evidence \<Rightarrow> string" where
  "multi_effect_observed h ev =
     ''multi_effect effect_rows='' @ (case get_prop (VObj ev) ''effects'' of
        VArr rows \<Rightarrow> nat_str (length rows)
      | _ \<Rightarrow> js_to_string h (js_coalesce (get_prop (VObj ev) ''effectCount'') (VInt 0)))"

definition row_observed :: "host \<Rightarrow> evidence \<Rightarrow> jsnum \<Rightarrow> string" where
  "row_observed h ev rowCount =
     (let field = get_prop (VObj ev) ''field''; expected = get_prop (VObj ev) ''expected'';
          actual = get_prop (VObj ev) ''actual''
      in ''rowCount='' @ num_to_string h rowCount
         @ (if field \<noteq> VUndef \<and> expected \<noteq> VUndef \<and> actual \<noteq> VUndef
            then '' field='' @ js_to_string h field @ '' expected='' @ js_to_string h expected
              @ '' actual='' @ js_to_string h actual
            else []))"

definition single_observed :: "host \<Rightarrow> evidence \<Rightarrow> string" where
  "single_observed h ev =
     (case get_prop (VObj ev) ''rowCount'' of
        VNum n \<Rightarrow> row_observed h ev n
      | _ \<Rightarrow> ''SQL evidence present (no rowCount in summary).'')"

definition relational_observed :: "evidence \<Rightarrow> string" where
  "relational_observed ev =
     (case (get_prop (VObj ev) ''checkKind'', get_prop (VObj ev) ''checkId'') of
        (VStr ck, VStr cid) \<Rightarrow> ''sql_relational check='' @ cid @ '' kind='' @ ck
      | _ \<Rightarrow> ''sql_relational (single check)'')"

fun request_observed :: "host \<Rightarrow> evidence \<Rightarrow> step_request option \<Rightarrow> string" where
  "request_observed h ev None = ''No SQL verification request (registry resolution or unknown tool).''"
| "request_observed h ev (Some (QSqlEffects _)) = multi_effect_observed h ev"
| "request_observed h ev (Some (QSqlRelational cs)) =
     (if length cs \<ge> 2 then multi_effect_observed h ev else relational_observed ev)"
| "request_observed h ev (Some _) = single_observed h ev"

definition formatBatchObservedStateSummary :: "host \<Rightarrow> step_outcome \<Rightarrow> js_error + string" where
  "formatBatchObservedStateSummary h step =
     throws_bind
       (if get_prop (VObj (so_evidence step)) ''planTransition'' = VBool True
        then formatPlanTransitionEvidenceSummary h (so_evidence step)
        else Inr (request_observed h (so_evidence step) (so_request step)))
       (\<lambda>raw. Inr (formatOperationalMessage raw))"

definition singleLineIntended :: "string \<Rightarrow> string" where
  "singleLineIntended effect = js_trim (collapse_blanks (line_breaks_to_blank effect))"

definition formatBatchDeclaredStderrValue :: "string \<Rightarrow> string \<Rightarrow> string \<Rightarrow> string" where
  "formatBatchDeclaredStderrValue toolId intentNarrative paramsCanonical =
     (let intent = (if js_trim intentNarrative = [] then ''(none)''
                    else js_trim (collapse_blanks (blank_controls intentNarrative)))
      in formatOperationalMessage
           (''tool='' @ toolId @ ''; intent='' @ intent @ ''; parameters_digest='' @ paramsCanonical))"

definition formatBatchExpectedStderrValue :: "string option \<Rightarrow> string" where
  "formatBatchExpectedStderrValue verifyTarget =
     (case verifyTarget of
        None \<Rightarrow> EXPECTED_NONE_NO_SQL
      | Some t \<Rightarrow> if t = [] then EXPECTED_NONE_NO_SQL else formatOperationalMessage t)"

definition formatBatchVerificationVerdictStderrValue :: "string \<Rightarrow> string \<Rightarrow> string option \<Rightarrow> string" where
  "formatBatchVerificationVerdictStderrValue outcomeLabel humanPhrase failureCategory =
     formatOperationalMessage (''outcome='' @ outcomeLabel @ ''; '' @ humanPhrase
       @ (case failureCategory of
            None \<Rightarrow> [] | Some c \<Rightarrow> if c = [] then [] else ''; failure_category='' @ c))"

section \<open>Labels and the trust line\<close>

fun step_label :: "step_status \<Rightarrow> string" where
  "step_label Verified = ''VERIFIED''"
| "step_label Missing = ''FAILED_ROW_MISSING''"
| "step_label Inconsistent = ''FAILED_VALUE_MISMATCH''"
| "step_label IncompleteVerification = ''INCOMPLETE_CANNOT_VERIFY''"
| "step_label PartiallyVerified = ''PARTIALLY_VERIFIED''"
| "step_label Uncertain = ''UNCERTAIN_NOT_OBSERVED_WITHIN_WINDOW''"

definition EFFECT_STATUS_TRUTH_LABELS :: "(string \<times> string) list" where
  "EFFECT_STATUS_TRUTH_LABELS =
     map (\<lambda>s. (status_text s, step_label s)) [Verified, Missing, Inconsistent, IncompleteVerification]"

definition TRUST_LINE_UNCERTAIN_WITHIN_WINDOW :: string where
  "TRUST_LINE_UNCERTAIN_WITHIN_WINDOW = ''NOT TRUSTED: At least one step could not be confirmed within the verification window (expected state not observed; replication or processing delay is possible).''"

definition TRUST_LINE_EVENT_SEQUENCE_IRREGULAR_SUFFIX :: string where
  "TRUST_LINE_EVENT_SEQUENCE_IRREGULAR_SUFFIX = ''Event capture or timestamps were irregular; verification used seq-sorted order. See event_sequence below.''"

fun TRUST_LINE_BY_STATUS :: "workflow_status \<Rightarrow> string" where
  "TRUST_LINE_BY_STATUS Complete = ''TRUSTED: Every step matched registry-backed expected state under the configured verification rules.''"
| "TRUST_LINE_BY_STATUS Incomplete = ''NOT TRUSTED: Verification is incomplete; the workflow cannot be fully confirmed.''"
| "TRUST_LINE_BY_STATUS InconsistentWorkflow = ''NOT TRUSTED: At least one step failed verification against expected downstream state (determinate failure).''"

fun TRUST_LINE_BY_STATUS_PLAN_TRANSITION :: "workflow_status \<Rightarrow> string" where
  "TRUST_LINE_BY_STATUS_PLAN_TRANSITION Complete = ''TRUSTED: Every plan-validation rule passed against the git diff.''"
| "TRUST_LINE_BY_STATUS_PLAN_TRANSITION Incomplete = ''NOT TRUSTED: Plan validation is incomplete; the transition cannot be fully confirmed.''"
| "TRUST_LINE_BY_STATUS_PLAN_TRANSITION InconsistentWorkflow = ''NOT TRUSTED: At least one plan-validation rule failed against the git diff (determinate failure).''"

definition only_uncertain :: "engine_result \<Rightarrow> bool" where
  "only_uncertain engine \<longleftrightarrow> er_status engine = Incomplete \<and> er_runLevelReasons engine = []
     \<and> list_ex (\<lambda>s. so_status s = Uncertain) (er_steps engine)
     \<and> \<not> list_ex (\<lambda>s. so_status s \<in> {Missing, Inconsistent, PartiallyVerified, IncompleteVerification})
           (er_steps engine)"

definition trustLineBaseForEngine :: "engine_result \<Rightarrow> string" where
  "trustLineBaseForEngine engine =
     (if only_uncertain engine then TRUST_LINE_UNCERTAIN_WITHIN_WINDOW
      else if er_workflowId engine = PLAN_TRANSITION_WORKFLOW_ID
      then TRUST_LINE_BY_STATUS_PLAN_TRANSITION (er_status engine)
      else TRUST_LINE_BY_STATUS (er_status engine))"

definition trustSummaryForEngine :: "engine_result \<Rightarrow> string" where
  "trustSummaryForEngine engine =
     trustLineBaseForEngine engine
     @ (if is_irregular (er_eventSequenceIntegrity engine)
        then '' '' @ TRUST_LINE_EVENT_SEQUENCE_IRREGULAR_SUFFIX else [])"

section \<open>Steps\<close>

definition sanitizeOneLineId :: "string \<Rightarrow> string" where
  "sanitizeOneLineId v = replace_breaks (CHR ''_'') v"

definition copyReason :: "reason \<Rightarrow> reason" where
  "copyReason r = r\<lparr>rs_field := (case rs_field r of Some (c # f) \<Rightarrow> Some (c # f) | _ \<Rightarrow> None)\<rparr>"

text \<open>
  The reasons of an effect are cast, not checked. What is copied of one that is no \<open>Reason\<close> is
  not modelled: it counts as an exception, as \<open>null\<close> is in the code.
\<close>

definition cast_reason :: "jsval \<Rightarrow> js_error + reason" where
  "cast_reason r =
     (case (get_prop r ''code'', get_prop r ''message'', get_prop r ''field'') of
        (VStr c, VStr m, VStr f) \<Rightarrow> Inr (copyReason \<lparr>rs_code = c, rs_message = m, rs_field = Some f\<rparr>)
      | (VStr c, VStr m, VUndef) \<Rightarrow> Inr \<lparr>rs_code = c, rs_message = m, rs_field = None\<rparr>
      | _ \<Rightarrow> Inl (JsTypeError ''effect reason is not a reason''))"

definition truth_effect_of :: "parsed_effect \<Rightarrow> js_error + truth_effect option" where
  "truth_effect_of e =
     (case map_of EFFECT_STATUS_TRUTH_LABELS (pe_status e) of
        None \<Rightarrow> Inr None
      | Some label \<Rightarrow> throws_bind (throws_map cast_reason (pe_reasons e)) (\<lambda>rs.
          Inr (Some \<lparr>tf_id = sanitizeOneLineId (pe_id e), tf_outcomeLabel = label, tf_reasons = rs\<rparr>)))"

definition truth_effects :: "evidence \<Rightarrow> js_error + truth_effect list" where
  "truth_effects ev =
     throws_bind (throws_map truth_effect_of (parseEffects ev)) (\<lambda>es. Inr (List.map_filter id es))"

definition failure_category_of :: "step_outcome \<Rightarrow> js_error + failure_diagnostic option" where
  "failure_category_of s =
     (if so_status s = Verified then Inr None
      else (case so_failureDiagnostic s of
          Some d \<Rightarrow> Inr (Some d)
        | None \<Rightarrow> failureDiagnosticForStep (so_status s) (so_reasons s)))"

definition buildTruthStep :: "host \<Rightarrow> step_outcome \<Rightarrow> js_error + truth_step" where
  "buildTruthStep h s =
     throws_bind (formatBatchObservedStateSummary h s) (\<lambda>observed.
     throws_bind (failure_category_of s) (\<lambda>category.
     throws_bind (truth_effects (so_evidence s)) (\<lambda>effects.
       Inr \<lparr>ts_seq = so_seq s, ts_toolId = so_toolId s, ts_releaseCritical = so_releaseCritical s,
            ts_outcomeLabel = step_label (so_status s),
            ts_evaluatedOrdinal = so_evaluatedObservationOrdinal s,
            ts_repeatCount = so_repeatObservationCount s,
            ts_reasons = map copyReason (so_reasons s),
            ts_narrative = singleLineIntended (so_narrative s),
            ts_paramsCanonical = singleLineIntended (so_paramsCanonical s),
            ts_failureCategory = category,
            ts_verifyTarget = formatVerificationTargetSummary h (so_request s),
            ts_observedStateSummary = observed,
            ts_effects = (if effects = [] then None else Some effects)\<rparr>)))"

section \<open>The report\<close>

text \<open>\<open>WorkflowTruthReport\<close>; the two last parts are \<open>null\<close> when the run is complete.\<close>

record truth_report = truth_base +
  wt_failureExplanation :: "failure_explanation option"
  wt_correctnessDefinition :: "correctness_definition option"

definition run_level_issue :: "reason \<Rightarrow> truth_issue" where
  "run_level_issue r =
     \<lparr>ti_code = rs_code r, ti_message = rs_message r,
      ti_category = failureDiagnosticForRunLevelCode (rs_code r)\<rparr>"

definition sequence_issue :: "reason \<Rightarrow> js_error + truth_issue" where
  "sequence_issue r =
     throws_bind (failureDiagnosticForEventSequenceCode (rs_code r)) (\<lambda>d.
       Inr \<lparr>ti_code = rs_code r, ti_message = rs_message r, ti_category = d\<rparr>)"

definition event_sequence_issues :: "event_integrity \<Rightarrow> js_error + truth_issue list option" where
  "event_sequence_issues integrity =
     (case integrity of
        IntegrityNormal \<Rightarrow> Inr None
      | IntegrityIrregular reasons \<Rightarrow>
          throws_bind (throws_map sequence_issue reasons) (\<lambda>issues. Inr (Some issues)))"

definition build_truth_base :: "host \<Rightarrow> engine_result \<Rightarrow> js_error + truth_base" where
  "build_truth_base h engine =
     throws_bind (event_sequence_issues (er_eventSequenceIntegrity engine)) (\<lambda>eventSequence.
     throws_bind (buildFailureAnalysis h engine) (\<lambda>fa.
     throws_bind (buildExecutionPathFindings h engine) (\<lambda>findings.
     throws_bind (throws_map (buildTruthStep h) (er_steps engine)) (\<lambda>steps.
       Inr \<lparr>wt_workflowId = er_workflowId engine, wt_workflowStatus = er_status engine,
            wt_trustSummary = trustSummaryForEngine engine,
            wt_runLevelIssues = map run_level_issue (er_runLevelReasons engine),
            wt_eventSequence = eventSequence, wt_steps = steps,
            wt_failureAnalysis = map_option (\<lambda>a. (a, deriveActionableFailureWorkflow engine a)) fa,
            wt_executionPathFindings = findings,
            wt_executionPathSummary = buildExecutionPathSummary h findings
              (rc_maxWireSchemaVersion (er_verificationRunContext engine))\<rparr>))))"

definition correctness_of ::
  "host \<Rightarrow> engine_result \<Rightarrow> truth_base \<Rightarrow> failure_explanation option \<Rightarrow> js_error + correctness_definition option" where
  "correctness_of h engine truth explanation =
     (case (explanation, wt_failureAnalysis truth) of
        (Some fe, Some fa) \<Rightarrow>
          throws_bind (buildWorkflowCorrectnessDefinition h engine fe fa (wt_steps truth)) (\<lambda>cd. Inr (Some cd))
      | _ \<Rightarrow> Inr None)"

definition buildWorkflowTruthReport :: "host \<Rightarrow> engine_result \<Rightarrow> js_error + truth_report" where
  "buildWorkflowTruthReport h engine =
     throws_bind (build_truth_base h engine) (\<lambda>truth.
     throws_bind (buildFailureExplanation h engine truth) (\<lambda>explanation.
     throws_bind (correctness_of h engine truth explanation) (\<lambda>correctness.
       Inr (truth_base.extend truth
              \<lparr>wt_failureExplanation = explanation, wt_correctnessDefinition = correctness\<rparr>))))"

text \<open>The emitted result is the engine's with the report attached.\<close>

record workflow_result =
  wr_engine :: engine_result
  wr_truth :: truth_report

definition finalizeEmittedWorkflowResult :: "host \<Rightarrow> engine_result \<Rightarrow> js_error + workflow_result" where
  "finalizeEmittedWorkflowResult h engine =
     throws_bind (buildWorkflowTruthReport h engine) (\<lambda>t. Inr \<lparr>wr_engine = engine, wr_truth = t\<rparr>)"

record verdict_surface =
  vs_status :: workflow_status
  vs_trustSummary :: string
  vs_stepStatusCounts :: "step_status \<Rightarrow> nat"

definition buildWorkflowVerdictSurface :: "workflow_result \<Rightarrow> verdict_surface" where
  "buildWorkflowVerdictSurface r =
     \<lparr>vs_status = er_status (wr_engine r), vs_trustSummary = wt_trustSummary (wr_truth r),
      vs_stepStatusCounts = foldl (\<lambda>counts s. counts(so_status s := counts (so_status s) + 1)) (\<lambda>_. 0)
        (er_steps (wr_engine r))\<rparr>"

section \<open>The human report\<close>

definition HUMAN_REPORT_RESULT_PHRASE :: "(string \<times> string) list" where
  "HUMAN_REPORT_RESULT_PHRASE =
     [(''VERIFIED'', ''Matched registry-backed expected state.''),
      (''FAILED_ROW_MISSING'', ''Expected state at the verification target was not found (for example a missing row or absent witness result).''),
      (''FAILED_VALUE_MISMATCH'', ''State was observed, but required values do not match.''),
      (''INCOMPLETE_CANNOT_VERIFY'', ''This step could not be fully verified (registry, connector, or data shape issue).''),
      (''PARTIALLY_VERIFIED'', ''Some intended registry effects matched; others did not.''),
      (''UNCERTAIN_NOT_OBSERVED_WITHIN_WINDOW'', ''The expected state did not appear within the verification window.'')]"

definition HUMAN_REPORT_PLAN_TRANSITION_PHRASE :: "(string \<times> string) list" where
  "HUMAN_REPORT_PLAN_TRANSITION_PHRASE =
     [(''VERIFIED'', ''Matched declared plan rules for the git transition.''),
      (''FAILED_ROW_MISSING'', ''Expected git change implied by the plan rule was not observed in the diff.''),
      (''FAILED_VALUE_MISMATCH'', ''A plan-validation rule failed against the git diff.''),
      (''INCOMPLETE_CANNOT_VERIFY'', ''This step could not be fully verified (plan or git diff processing issue).''),
      (''PARTIALLY_VERIFIED'', ''Some plan rules matched; others did not.''),
      (''UNCERTAIN_NOT_OBSERVED_WITHIN_WINDOW'', ''The git transition could not be fully confirmed within the configured window.'')]"

definition phrase_of :: "(string \<times> string) list \<Rightarrow> string \<Rightarrow> string" where
  "phrase_of phrases label = (case map_of phrases label of None \<Rightarrow> ''undefined'' | Some p \<Rightarrow> p)"

fun diagnostic_text :: "failure_diagnostic \<Rightarrow> string" where
  "diagnostic_text WorkflowExecution = ''workflow_execution''"
| "diagnostic_text VerificationSetup = ''verification_setup''"
| "diagnostic_text ObservationUncertainty = ''observation_uncertainty''"

fun concern_text :: "path_concern \<Rightarrow> string" where
  "concern_text ContextQuality = ''context_quality''"
| "concern_text DecisionExecution = ''decision_execution''"
| "concern_text ToolSelectionExecution = ''tool_selection_execution''"
| "concern_text ActionInputsInvalid = ''action_inputs_invalid''"
| "concern_text WorkflowCompleteness = ''workflow_completeness''"
| "concern_text CaptureIntegrity = ''capture_integrity''"

fun category_text :: "failure_category \<Rightarrow> string" where
  "category_text DecisionError = ''decision_error''"
| "category_text BadInput = ''bad_input''"
| "category_text RetrievalFailure = ''retrieval_failure''"
| "category_text ControlFlowProblem = ''control_flow_problem''"
| "category_text StateInconsistency = ''state_inconsistency''"
| "category_text DownstreamExecutionFailure = ''downstream_execution_failure''"
| "category_text Ambiguous = ''ambiguous''"
| "category_text Unclassified = ''unclassified''"

fun action_text :: "recommended_action \<Rightarrow> string" where
  "action_text NoAction = ''none''"
| "action_text ManualReview = ''manual_review''"
| "action_text Deduplicate = ''deduplicate''"
| "action_text ReconcileDownstreamState = ''reconcile_downstream_state''"
| "action_text CorrectVerificationInputs = ''correct_verification_inputs''"
| "action_text ImproveReadConnectivity = ''improve_read_connectivity''"
| "action_text ResolveMultiEffectFailures = ''resolve_multi_effect_failures''"
| "action_text AlignToolObservations = ''align_tool_observations''"
| "action_text FixEventIngestAndSteps = ''fix_event_ingest_and_steps''"
| "action_text FixEventSequenceOrder = ''fix_event_sequence_order''"
| "action_text FixRunContextControls = ''fix_run_context_controls''"
| "action_text FixCliUsage = ''fix_cli_usage''"
| "action_text FixRegistryEventsOrCompareFiles = ''fix_registry_events_or_compare_files''"
| "action_text FixVerificationDatabaseConnection = ''fix_verification_database_connection''"
| "action_text FixSavedWorkflowJson = ''fix_saved_workflow_json''"
| "action_text FixCompareWorkflowInputs = ''fix_compare_workflow_inputs''"
| "action_text FixExecutionTraceStructure = ''fix_execution_trace_structure''"
| "action_text FixVerificationPolicyAndHook = ''fix_verification_policy_and_hook''"
| "action_text FixPlanDocumentAndPatterns = ''fix_plan_document_and_patterns''"
| "action_text FixPlanTransitionCliAndRefs = ''fix_plan_transition_cli_and_refs''"
| "action_text UpgradeGitOrRetryGit = ''upgrade_git_or_retry_git''"

definition bool_text :: "bool \<Rightarrow> string" where
  "bool_text b = (if b then ''true'' else ''false'')"

text \<open>Evidence as \<open>key=value\<close> parts, absent members left out.\<close>

definition opt_part :: "string \<Rightarrow> string option \<Rightarrow> string list" where
  "opt_part k v = (case v of None \<Rightarrow> [] | Some s \<Rightarrow> [k @ ''='' @ s])"

definition evidence_parts :: "bool \<Rightarrow> evidence_item \<Rightarrow> string list" where
  "evidence_parts with_effect ev =
     [''scope='' @ scope_text (ei_scope ev), ''codes='' @ join '','' (ei_codes ev)]
     @ opt_part ''ingest_index'' (map_option nat_str (ei_ingestIndex ev))
     @ opt_part ''seq'' (map_option int_str (ei_seq ev))
     @ opt_part ''tool'' (map_option sanitizeOneLineId (ei_toolId ev))
     @ (if with_effect then opt_part ''effect_id'' (map_option sanitizeOneLineId (ei_effectId ev)) else [])
     @ opt_part ''source'' (map_option sanitizeOneLineId (ei_source ev))"

definition finding_lines :: "path_finding \<Rightarrow> string list" where
  "finding_lines pf =
     [''  - path_finding: '' @ join '' '' ([''code='' @ sanitizeOneLineId (pf_code pf),
         ''severity='' @ level_text (pf_severity pf), ''concern='' @ concern_text (pf_concernCategory pf)]
         @ evidence_parts False (pf_evidence pf)),
      ''    detail: '' @ js_trim (line_breaks_to_blank (pf_message pf))]"

definition diagnosis_lines :: "failure_analysis \<times> actionable_failure \<Rightarrow> string list" where
  "diagnosis_lines d =
     (case d of (fa, af) \<Rightarrow>
        [''diagnosis:'', ''  summary: '' @ fa_summary fa, ''  primary_origin: '' @ origin_text (fa_primaryOrigin fa),
         ''  confidence: '' @ level_text (fa_confidence fa),
         ''  actionable_failure: category='' @ category_text (af_category af) @ '' severity='' @ level_text (af_severity af)
           @ '' recommended_action='' @ action_text (af_recommendedAction af)
           @ '' automation_safe='' @ bool_text (af_automationSafe af)]
        @ map (\<lambda>ev. ''  - evidence: '' @ join '' '' (evidence_parts True ev)) (fa_evidence fa)
        @ (case fa_alternativeHypotheses fa of
             None \<Rightarrow> []
           | Some alts \<Rightarrow> concat (map (\<lambda>alt. [''  alternative_origin: '' @ origin_text (fl_primaryOrigin alt),
               ''    rationale: '' @ fl_rationale alt]) alts)))"

definition explanation_lines :: "failure_explanation \<Rightarrow> string list" where
  "explanation_lines fe =
     [''failure_explanation:'', ''expected: '' @ fe_expected fe, ''observed: '' @ fe_observed fe,
      ''divergence: '' @ fe_divergence fe, ''known_facts:'']
     @ map (\<lambda>(k, v). ''  - id='' @ k @ '' value='' @ v) (fe_knownFacts fe)
     @ [''unknowns:''] @ map (\<lambda>(k, v). ''  - id='' @ k @ '' value='' @ v) (fe_unknowns fe)"

definition correctness_lines :: "host \<Rightarrow> correctness_definition \<Rightarrow> js_error + string list" where
  "correctness_lines h cd =
     throws_bind (json_stringify h (cd_enforceableProjection cd)) (\<lambda>projection. Inr
       ([''correctness_definition:'', ''  enforcement_kind: '' @ cd_enforcementKind cd,
         ''  must_always_hold: '' @ cd_mustAlwaysHold cd, ''  enforce_as:'']
        @ map (\<lambda>line. ''    - '' @ line) (cd_enforceAs cd)
        @ [''  enforceable_projection: '' @ (case projection of None \<Rightarrow> ''undefined'' | Some t \<Rightarrow> t),
           ''  remediation_alignment: recommended_action=''
             @ action_text (rr_recommendedAction (cd_remediationAlignment cd))
             @ '' automation_safe='' @ bool_text (rr_automationSafe (cd_remediationAlignment cd))]))"

definition or_no_message :: "string \<Rightarrow> string" where
  "or_no_message m = (if js_trim m = [] then ''(no message)'' else js_trim m)"

definition issue_lines :: "truth_issue \<Rightarrow> string list" where
  "issue_lines r =
     [''  - detail: '' @ or_no_message (ti_message r), ''    category: '' @ diagnostic_text (ti_category r),
      ''    reference_code: '' @ ti_code r, ''    user_meaning: '' @ userPhraseForReasonCode (ti_code r)]"

definition human_reason_lines :: "string \<Rightarrow> reason \<Rightarrow> string list" where
  "human_reason_lines indent r =
     [indent @ ''detail: '' @ or_no_message (rs_message r)
        @ (case rs_field r of Some (c # f) \<Rightarrow> '' field='' @ c # f | _ \<Rightarrow> []),
      indent @ ''reference_code: '' @ rs_code r,
      indent @ ''user_meaning: '' @ userPhraseForReasonCode (rs_code r)]"

definition effect_lines :: "truth_effect \<Rightarrow> string list" where
  "effect_lines eff =
     (''    effect: id='' @ sanitizeOneLineId (tf_id eff) @ '' result=''
        @ phrase_of HUMAN_REPORT_RESULT_PHRASE (tf_outcomeLabel eff))
     # concat (map (human_reason_lines ''      '') (tf_reasons eff))"

definition step_lines :: "(string \<times> string) list \<Rightarrow> truth_step \<Rightarrow> string list" where
  "step_lines phrases s =
     (let toolId = sanitizeOneLineId (ts_toolId s)
      in [''  - seq='' @ int_str (ts_seq s) @ '' tool='' @ toolId,
          ''    declared: '' @ formatBatchDeclaredStderrValue toolId (ts_narrative s) (ts_paramsCanonical s),
          ''    expected: '' @ formatBatchExpectedStderrValue (ts_verifyTarget s),
          ''    observed_database: '' @ ts_observedStateSummary s,
          ''    verification_verdict: '' @ formatBatchVerificationVerdictStderrValue (ts_outcomeLabel s)
            (phrase_of phrases (ts_outcomeLabel s))
            (if ts_outcomeLabel s = ''VERIFIED'' then None else map_option diagnostic_text (ts_failureCategory s)),
          ''    observations: evaluated='' @ nat_str (ts_evaluatedOrdinal s) @ '' of '' @ nat_str (ts_repeatCount s)
            @ '' in_capture_order'']
         @ concat (map (human_reason_lines ''    '') (ts_reasons s))
         @ (case ts_effects s of None \<Rightarrow> [] | Some effs \<Rightarrow> concat (map effect_lines effs)))"

definition report_lines :: "host \<Rightarrow> truth_report \<Rightarrow> js_error + string list" where
  "report_lines h truth =
     throws_bind (case wt_correctnessDefinition truth of None \<Rightarrow> Inr [] | Some cd \<Rightarrow> correctness_lines h cd) (\<lambda>correctness. Inr
       ([''workflow_id: '' @ sanitizeOneLineId (wt_workflowId truth),
         ''workflow_status: '' @ workflow_status_text (wt_workflowStatus truth),
         ''trust: '' @ wt_trustSummary truth, ''execution_path: '' @ wt_executionPathSummary truth]
        @ concat (map finding_lines (wt_executionPathFindings truth))
        @ (case wt_failureAnalysis truth of None \<Rightarrow> [] | Some d \<Rightarrow> diagnosis_lines d)
        @ (case wt_failureExplanation truth of None \<Rightarrow> [] | Some fe \<Rightarrow> explanation_lines fe)
        @ correctness
        @ (if wt_runLevelIssues truth = [] then [''run_level: (none)'']
           else ''run_level:'' # concat (map issue_lines (wt_runLevelIssues truth)))
        @ (case wt_eventSequence truth of
             None \<Rightarrow> [''event_sequence: normal'']
           | Some issues \<Rightarrow> ''event_sequence: irregular'' # concat (map issue_lines issues))
        @ [''steps:'']
        @ concat (map (step_lines (if wt_workflowId truth = PLAN_TRANSITION_WORKFLOW_ID
              then HUMAN_REPORT_PLAN_TRANSITION_PHRASE else HUMAN_REPORT_RESULT_PHRASE)) (wt_steps truth))))"

definition formatWorkflowTruthReportStruct :: "host \<Rightarrow> truth_report \<Rightarrow> js_error + string" where
  "formatWorkflowTruthReportStruct h truth =
     throws_bind (report_lines h truth) (\<lambda>lines. Inr (join [CHR 0x0A] lines))"

definition formatWorkflowTruthReport :: "host \<Rightarrow> engine_result \<Rightarrow> js_error + string" where
  "formatWorkflowTruthReport h engine =
     throws_bind (buildWorkflowTruthReport h engine) (formatWorkflowTruthReportStruct h)"

end
