(* ===== verification/Redaction.thy ===== *)
theory Redaction
  imports ResolveExpectation Diagnostics
begin

text \<open>
  Evidence made fit to be shown (\<open>src/redactEvidenceString.ts\<close>): one line, tokens that look like
  secrets replaced, at most so many characters. The three regular expressions are functions that
  give the length of their match at the start of a text; a match starts and ends at a word boundary.
\<close>

definition word_char :: "char \<Rightarrow> bool" where
  "word_char c \<longleftrightarrow> ident_start c \<or> is_digit c"

definition alnum_char :: "char \<Rightarrow> bool" where
  "alnum_char c \<longleftrightarrow> word_char c \<and> c \<noteq> CHR ''_''"

definition upper_or_digit :: "char \<Rightarrow> bool" where
  "upper_or_digit c \<longleftrightarrow> is_digit c \<or> (let n = (of_char c :: nat) in 65 \<le> n \<and> n \<le> 90)"

definition bearer_char :: "char \<Rightarrow> bool" where
  "bearer_char c \<longleftrightarrow> word_char c \<or> c \<in> set ''.-+/=''"

text \<open>Whether a text starts with a word character: at its end there is none.\<close>

fun word_ahead :: "string \<Rightarrow> bool" where
  "word_ahead [] = False"
| "word_ahead (c # cs) = word_char c"

text \<open>\<open>sk_(live|test)_[a-zA-Z0-9]{8,}\b\<close>, ignoring case: a run cut short ends before an alphanumeric.\<close>

definition secret_key :: "string \<Rightarrow> nat option" where
  "secret_key s =
     (let run = takeWhile alnum_char (drop 8 s); n = 8 + length run
      in if toLowerCase (take 8 s) \<in> {''sk_live_'', ''sk_test_''} \<and> 8 \<le> length run \<and> \<not> word_ahead (drop n s)
         then Some n else None)"

text \<open>\<open>AKIA[0-9A-Z]{16}\b\<close>\<close>

definition access_key :: "string \<Rightarrow> nat option" where
  "access_key s =
     (let run = take 16 (drop 4 s)
      in if starts_with ''AKIA'' s \<and> length run = 16 \<and> list_all upper_or_digit run \<and> \<not> word_ahead (drop 20 s)
         then Some 20 else None)"

text \<open>
  \<open>Bearer\s+[a-zA-Z0-9._\-+/=]{20,}\b\<close>, ignoring case: of the run of token characters the longest
  part of at least 20 that ends at a word boundary.
\<close>

definition bearer_token :: "string \<Rightarrow> nat option" where
  "bearer_token s =
     (let blanks = takeWhile is_ws (drop 6 s); skipped = 6 + length blanks;
          run = takeWhile bearer_char (drop skipped s);
          ends = filter (\<lambda>n. word_char (s ! (skipped + n - 1)) \<noteq> word_ahead (drop (skipped + n) s))
            [20..<Suc (length run)]
      in if toLowerCase (take 6 s) = ''bearer'' \<and> blanks \<noteq> [] \<and> ends \<noteq> []
         then Some (skipped + last ends) else None)"

text \<open>
  \<open>s.replace(re, "[redacted]")\<close> for a global expression that starts with \<open>\b\<close> and a word character:
  \<open>after_word\<close> says whether the character before is one.
\<close>

definition REDACTED :: string where
  "REDACTED = ''[redacted]''"

fun replace_tokens :: "(string \<Rightarrow> nat option) \<Rightarrow> bool \<Rightarrow> string \<Rightarrow> string" where
  "replace_tokens m after_word [] = []"
| "replace_tokens m after_word (c # cs) =
     (case (if after_word then None else m (c # cs)) of
        Some (Suc n) \<Rightarrow> REDACTED @ replace_tokens m (word_char ((c # cs) ! n)) (drop n cs)
      | _ \<Rightarrow> c # replace_tokens m (word_char c) cs)"

definition strip_secrets :: "string \<Rightarrow> string" where
  "strip_secrets s = replace_tokens bearer_token False (replace_tokens access_key False
     (replace_tokens secret_key False s))"

text \<open>The cut ends in an ellipsis, one character.\<close>

definition ELLIPSIS :: char where
  "ELLIPSIS = CHR 0x85"

definition redactEvidenceString :: "string \<Rightarrow> nat \<Rightarrow> string" where
  "redactEvidenceString raw maxLen =
     (let s = strip_secrets (line_breaks_to_blank raw)
      in formatOperationalMessage (if maxLen < length s then take (maxLen - 1) s @ [ELLIPSIS] else s))"

section \<open>Length\<close>

lemma length_collapse_blanks: "length (collapse_blanks s) \<le> length s"
  by (induction s rule: collapse_blanks.induct) auto

lemma length_js_trim: "length (js_trim s) \<le> length s"
proof -
  have "length (dropWhile is_ws (rev (dropWhile is_ws s))) \<le> length (dropWhile is_ws s)"
    using length_dropWhile_le [of is_ws "rev (dropWhile is_ws s)"] by simp
  also have "\<dots> \<le> length s" by (rule length_dropWhile_le)
  finally show ?thesis by (simp add: js_trim_def)
qed

lemma formatOperationalMessage_shrinks: "length (formatOperationalMessage s) \<le> length s"
proof -
  have "length (js_trim (collapse_blanks (blank_controls s))) \<le> length (collapse_blanks (blank_controls s))"
    by (rule length_js_trim)
  also have "\<dots> \<le> length (blank_controls s)" by (rule length_collapse_blanks)
  also have "\<dots> = length s" by (simp add: blank_controls_def)
  finally show ?thesis
    by (simp add: formatOperationalMessage_def truncate_message_def OPERATIONAL_MESSAGE_MAX_CHARS_def)
qed

lemma redacted_length:
  assumes "0 < n"
  shows "length (redactEvidenceString s n) \<le> min n OPERATIONAL_MESSAGE_MAX_CHARS"
proof -
  let ?s = "strip_secrets (line_breaks_to_blank s)"
  let ?cut = "if n < length ?s then take (n - 1) ?s @ [ELLIPSIS] else ?s"
  have "length ?cut \<le> n" using assms by auto
  then have "length (formatOperationalMessage ?cut) \<le> n"
    using formatOperationalMessage_shrinks order_trans by blast
  then show ?thesis
    by (simp add: redactEvidenceString_def Let_def formatOperationalMessage_length)
qed

end
