(* ===== verification/Remediation.thy ===== *)
theory Remediation
  imports TruthReport Redaction
begin

text \<open>
  What to do about a failed run (\<open>src/actionableFailure.ts\<close>, second half, and
  \<open>src/remediationMessage.ts\<close>): the items to remedy, each with its action, its automation class
  and the way to run the verification again, and the decision made of them.
\<close>

section \<open>Data\<close>

datatype automation_class = ReadOnlyRetry | InputRegenerationCandidate | HumanWriteRequired | NeverAutoMutate

datatype rerun_path_type =
    SameInputVerify
  | AfterInputFixVerify
  | AfterStateFixVerify
  | AfterManualReviewVerify
  | NoRerunNeeded

datatype rerun_readiness =
    RerunReadySameInputs
  | FixInputsBeforeRerun
  | FixRegistryBeforeRerun
  | ReconcileStateBeforeRerun
  | ManualReviewBeforeRerun

datatype item_scope =
    ItemRunLevel
  | ItemEventSequence
  | ItemRunContext
  | ItemStep
  | ItemEffect
  | ItemQuickUnit
  | ItemQuickIngest

record rerun_path =
  rp_type :: rerun_path_type
  rp_sameInputs :: bool
  rp_prerequisite :: string
  rp_meaningfulWhen :: string
  rp_readinessLabel :: string

record item_automation =
  ia_class :: automation_class
  ia_label :: string
  ia_boundary :: string

record human_review =
  hr_required :: bool
  hr_decisionPrompt :: "string option"
  hr_hypotheses :: "string list option"
  hr_knownFacts :: "string list option"
  hr_evidenceToInspect :: "string list option"

record remediation_item =
  it_id :: string
  it_scope :: item_scope
  it_primary :: bool
  it_failedCheck :: string
  it_reasonCodes :: "string list"
  it_reason :: string
  it_recommendedAction :: recommended_action
  it_actionText :: string
  it_expectedSummary :: string
  it_projectionKind :: "string option"
  it_automation :: item_automation
  it_humanReview :: human_review
  it_rerunPath :: rerun_path

type_synonym next_action = "recommended_action \<times> string"

record remediation_decision =
  rd_actionableFailure :: actionable_failure
  rd_orderedNextActions :: "next_action list"
  rd_rerunReadiness :: rerun_readiness
  rd_remediationItems :: "remediation_item list"
  rd_rerunPath :: rerun_path

section \<open>Messages\<close>

definition AUTOMATION_BOUNDARY_CONNECTOR :: string where
  "AUTOMATION_BOUNDARY_CONNECTOR = ''Automation-safe here means retrying the same read-only verification (same events, registry, workflow, and read target) after a transient connector fault. It does not authorize changing application data, switching databases or workflows, or weakening verification policy.''"

fun remediationMessageForRecommendedAction :: "recommended_action \<Rightarrow> string" where
  "remediationMessageForRecommendedAction NoAction = ''No further verification action is required for this outcome under the configured rules.''"
| "remediationMessageForRecommendedAction ManualReview = ''Review the evidence completeness block and workflow truth report, then decide on a manual fix path.''"
| "remediationMessageForRecommendedAction Deduplicate = ''Resolve duplicate or conflicting rows that matched the same verification key, then rerun verify.''"
| "remediationMessageForRecommendedAction ReconcileDownstreamState = ''Fix downstream database or service state to match declared expectations, then rerun verify.''"
| "remediationMessageForRecommendedAction CorrectVerificationInputs = ''Correct registry, events, or tool parameters so expectations resolve, then rerun verify.''"
| "remediationMessageForRecommendedAction ImproveReadConnectivity = ''Restore read-only database or witness connectivity and credentials, then rerun verify.''"
| "remediationMessageForRecommendedAction ResolveMultiEffectFailures = ''Align multi-effect registry coverage or split steps so each effect is verifiable, then rerun verify.''"
| "remediationMessageForRecommendedAction AlignToolObservations = ''Align repeated tool observations so canonical params agree, then rerun verify.''"
| "remediationMessageForRecommendedAction FixEventIngestAndSteps = ''Repair NDJSON event capture so each line is schema-valid tool_observed for this workflow, then rerun verify.''"
| "remediationMessageForRecommendedAction FixEventSequenceOrder = ''Fix capture ordering or timestamps so the event sequence is coherent, then rerun verify.''"
| "remediationMessageForRecommendedAction FixRunContextControls = ''Fix model/retrieval/control ordering so observations are fairly evaluated, then rerun verify.''"
| "remediationMessageForRecommendedAction FixCliUsage = ''Fix CLI flags or paths (events, registry, database URL), then rerun verify.''"
| "remediationMessageForRecommendedAction FixRegistryEventsOrCompareFiles = ''Align registry JSON with events and database, then rerun verify.''"
| "remediationMessageForRecommendedAction FixVerificationDatabaseConnection = ''Point verify at a reachable read-only database URL (not SQLite file mode for remote witnesses), then rerun verify.''"
| "remediationMessageForRecommendedAction FixSavedWorkflowJson = ''Repair saved workflow JSON used for compare or replay, then rerun verify.''"
| "remediationMessageForRecommendedAction FixCompareWorkflowInputs = ''Fix compare inputs so both runs are compatible, then rerun compare.''"
| "remediationMessageForRecommendedAction FixExecutionTraceStructure = ''Repair execution trace structure used for analysis, then retry.''"
| "remediationMessageForRecommendedAction FixVerificationPolicyAndHook = ''Adjust verification policy timing or hooks, then rerun verify.''"
| "remediationMessageForRecommendedAction FixPlanDocumentAndPatterns = ''Fix plan document patterns referenced by plan-transition verification.''"
| "remediationMessageForRecommendedAction FixPlanTransitionCliAndRefs = ''Fix plan-transition CLI arguments and git refs, then rerun.''"
| "remediationMessageForRecommendedAction UpgradeGitOrRetryGit = ''Upgrade git tooling or retry after git transient errors.''"

definition nextActionEntry :: "recommended_action \<Rightarrow> next_action" where
  "nextActionEntry code = (code, redactEvidenceString (remediationMessageForRecommendedAction code) 500)"

fun AUTOMATION_LABELS :: "automation_class \<Rightarrow> string" where
  "AUTOMATION_LABELS ReadOnlyRetry = ''Safe automatic action: retry read-only verification with the same inputs.''"
| "AUTOMATION_LABELS InputRegenerationCandidate = ''Automation candidate: repair inputs outside the verifier; AgentSkeptic will not mutate external systems.''"
| "AUTOMATION_LABELS HumanWriteRequired = ''Human or external system must change state; AgentSkeptic will not mutate data.''"
| "AUTOMATION_LABELS NeverAutoMutate = ''Manual judgment required; do not automate mutation from this result.''"

definition AUTOMATION_BOUNDARY :: string where
  "AUTOMATION_BOUNDARY = ''AgentSkeptic is a read-only verifier. It does not mutate databases, rewrite inputs, or execute remediation.''"

fun RERUN_LABELS :: "rerun_path_type \<Rightarrow> string" where
  "RERUN_LABELS SameInputVerify = ''Rerun verify with the same inputs after the read-only prerequisite is restored.''"
| "RERUN_LABELS AfterInputFixVerify = ''Rerun verify after registry, events, tool parameters, or verification inputs are corrected.''"
| "RERUN_LABELS AfterStateFixVerify = ''Rerun verify after downstream state matches the expected state.''"
| "RERUN_LABELS AfterManualReviewVerify = ''Rerun verify after a human reviewer chooses and applies the correct fix path.''"
| "RERUN_LABELS NoRerunNeeded = ''No rerun is required for this trusted outcome.''"

section \<open>From an action to its automation and its rerun\<close>

fun automationClassForAction :: "remediation_row \<Rightarrow> string \<Rightarrow> automation_class" where
  "automationClassForAction row code =
     (if rr_automationSafe row \<and> rr_recommendedAction row = ImproveReadConnectivity then ReadOnlyRetry
      else (case rr_recommendedAction row of
          ReconcileDownstreamState \<Rightarrow> HumanWriteRequired
        | Deduplicate \<Rightarrow> HumanWriteRequired
        | ImproveReadConnectivity \<Rightarrow>
            (if code = ''CONNECTOR_ERROR'' then ReadOnlyRetry else InputRegenerationCandidate)
        | ManualReview \<Rightarrow> NeverAutoMutate
        | ResolveMultiEffectFailures \<Rightarrow> NeverAutoMutate
        | AlignToolObservations \<Rightarrow> NeverAutoMutate
        | NoAction \<Rightarrow> ReadOnlyRetry
        | _ \<Rightarrow> InputRegenerationCandidate))"

fun rerunPathTypeForAction :: "remediation_row \<Rightarrow> automation_class \<Rightarrow> rerun_path_type" where
  "rerunPathTypeForAction row cls =
     (if rr_recommendedAction row = NoAction then NoRerunNeeded
      else (case cls of
          ReadOnlyRetry \<Rightarrow> SameInputVerify
        | HumanWriteRequired \<Rightarrow> AfterStateFixVerify
        | NeverAutoMutate \<Rightarrow> AfterManualReviewVerify
        | InputRegenerationCandidate \<Rightarrow> AfterInputFixVerify))"

definition mk_rerun :: "rerun_path_type \<Rightarrow> bool \<Rightarrow> string \<Rightarrow> string \<Rightarrow> rerun_path" where
  "mk_rerun t same prerequisite meaningful =
     \<lparr>rp_type = t, rp_sameInputs = same, rp_prerequisite = prerequisite, rp_meaningfulWhen = meaningful,
      rp_readinessLabel = RERUN_LABELS t\<rparr>"

fun rerunPathForType :: "rerun_path_type \<Rightarrow> rerun_path" where
  "rerunPathForType SameInputVerify = mk_rerun SameInputVerify True
     ''Read-only database or witness connectivity is restored.''
     ''The same captured events, registry, workflow, and read target can be checked again.''"
| "rerunPathForType AfterInputFixVerify = mk_rerun AfterInputFixVerify False
     ''Registry, events, tool parameters, or verification inputs are corrected.''
     ''The corrected inputs express the expected state the verifier should check.''"
| "rerunPathForType AfterStateFixVerify = mk_rerun AfterStateFixVerify False
     ''Downstream state has been reconciled to the expected state.''
     ''The database or external witness state should now satisfy the verification expectation.''"
| "rerunPathForType AfterManualReviewVerify = mk_rerun AfterManualReviewVerify False
     ''A human reviewer chooses and applies the correct fix path.''
     ''The reviewer has resolved which hypothesis is true and updated state or inputs accordingly.''"
| "rerunPathForType NoRerunNeeded = mk_rerun NoRerunNeeded True
     ''Verification is already trusted under the configured rules.''
     ''No failed check blocks trust.''"

fun rowForCodes :: "item_scope \<Rightarrow> string list \<Rightarrow> remediation_row" where
  "rowForCodes ItemRunLevel codes = remediationForRunLevelItem codes"
| "rowForCodes ItemQuickIngest codes = remediationForRunLevelItem codes"
| "rowForCodes ItemEventSequence codes = remediationForEventSequenceItem codes"
| "rowForCodes ItemRunContext codes = remediationForRunContextItem codes"
| "rowForCodes ItemStep codes = remediationForStepOrEffectItem codes"
| "rowForCodes ItemEffect codes = remediationForStepOrEffectItem codes"
| "rowForCodes ItemQuickUnit codes = remediationForStepOrEffectItem codes"

definition itemAutomation :: "remediation_row \<Rightarrow> string \<Rightarrow> item_automation" where
  "itemAutomation row code =
     (let cls = automationClassForAction row code
      in \<lparr>ia_class = cls, ia_label = AUTOMATION_LABELS cls,
          ia_boundary = (if cls = ReadOnlyRetry then AUTOMATION_BOUNDARY_CONNECTOR else AUTOMATION_BOUNDARY)\<rparr>)"

section \<open>Items\<close>

type_synonym analysed = "failure_analysis \<times> actionable_failure"

definition mk_review ::
  "bool \<Rightarrow> string option \<Rightarrow> string list option \<Rightarrow> string list option \<Rightarrow> string list option \<Rightarrow> human_review" where
  "mk_review required prompt hypotheses facts inspect =
     \<lparr>hr_required = required, hr_decisionPrompt = prompt, hr_hypotheses = hypotheses, hr_knownFacts = facts,
      hr_evidenceToInspect = inspect\<rparr>"

definition hypotheses_of :: "analysed option \<Rightarrow> string list" where
  "hypotheses_of fa =
     (case fa of
        None \<Rightarrow> []
      | Some (a, _) \<Rightarrow> (case fa_alternativeHypotheses a of
            None \<Rightarrow> []
          | Some alts \<Rightarrow> take 6 (map (\<lambda>x. ''origin='' @ origin_text (fl_primaryOrigin x) @ '': '' @ fl_rationale x) alts)))"

definition review_facts :: "analysed \<Rightarrow> string list" where
  "review_facts fa =
     [''primary_origin='' @ origin_text (fa_primaryOrigin (fst fa)), ''confidence='' @ level_text (fa_confidence (fst fa)),
      ''summary='' @ fa_summary (fst fa)]"

definition reviewForItem :: "recommended_action \<Rightarrow> analysed option \<Rightarrow> string list \<Rightarrow> human_review" where
  "reviewForItem action fa evidenceToInspect =
     (if action \<noteq> ManualReview then mk_review False None None None None
      else mk_review True (Some ''Decide which hypothesis explains the mismatch before changing state or inputs.'')
        (if hypotheses_of fa = [] then None else Some (hypotheses_of fa)) (map_option review_facts fa)
        (Some (take 8 evidenceToInspect)))"

text \<open>The arguments of \<open>makeRemediationItem\<close>; the optional row is looked up when absent.\<close>

record item_opts =
  op_id :: string
  op_scope :: item_scope
  op_primary :: bool
  op_failedCheck :: string
  op_reasonCodes :: "string list"
  op_reason :: string
  op_expectedSummary :: string
  op_projectionKind :: "string option"
  op_row :: "remediation_row option"
  op_fa :: "analysed option"
  op_evidenceToInspect :: "string list"
  op_forceManualReview :: bool

definition or_text :: "string \<Rightarrow> string \<Rightarrow> string" where
  "or_text s fallback = (if s = [] then fallback else s)"

definition item_row :: "item_opts \<Rightarrow> string list \<Rightarrow> remediation_row" where
  "item_row opts codes =
     (if op_forceManualReview opts then MANUAL_REMEDIATION
      else (case op_row opts of None \<Rightarrow> rowForCodes (op_scope opts) codes | Some row \<Rightarrow> row))"

fun primaryCode :: "string list \<Rightarrow> string" where
  "primaryCode [] = []"
| "primaryCode (c # _) = c"

definition makeRemediationItem :: "host \<Rightarrow> item_opts \<Rightarrow> remediation_item" where
  "makeRemediationItem h opts =
     (let codes = take 8 (sortUniqueStrings h (op_reasonCodes opts)); row = item_row opts codes;
          automation = itemAutomation row (primaryCode codes)
      in \<lparr>it_id = redactEvidenceString (op_id opts) 128, it_scope = op_scope opts, it_primary = op_primary opts,
          it_failedCheck = redactEvidenceString (op_failedCheck opts) 256,
          it_reasonCodes = map (\<lambda>c. redactEvidenceString c 128) codes,
          it_reason = redactEvidenceString (or_text (op_reason opts) ''Verification check did not pass.'') 1024,
          it_recommendedAction = rr_recommendedAction row,
          it_actionText = redactEvidenceString (remediationMessageForRecommendedAction (rr_recommendedAction row)) 500,
          it_expectedSummary = redactEvidenceString
            (or_text (op_expectedSummary opts) ''Expected state must satisfy the verification contract.'') 1024,
          it_projectionKind = op_projectionKind opts, it_automation = automation,
          it_humanReview = reviewForItem (rr_recommendedAction row) (op_fa opts) (op_evidenceToInspect opts),
          it_rerunPath = rerunPathForType (rerunPathTypeForAction row (ia_class automation))\<rparr>)"

text \<open>The key of the first item of evidence.\<close>

definition evidence_key :: "evidence_item \<Rightarrow> string option" where
  "evidence_key ev =
     (case ei_scope ev of
        ScopeStep \<Rightarrow> map_option (\<lambda>n. ''step:'' @ int_str n) (ei_seq ev)
      | ScopeEffect \<Rightarrow> (case (ei_seq ev, ei_effectId ev) of
            (Some n, Some e) \<Rightarrow> Some (''effect:'' @ int_str n @ '':'' @ e)
          | _ \<Rightarrow> None)
      | ScopeRunLevel \<Rightarrow> Some ''run_level''
      | ScopeEventSequence \<Rightarrow> Some ''event_sequence''
      | ScopeRunContext \<Rightarrow> Some ''run_context'')"

definition primaryEvidenceKey :: "analysed option \<Rightarrow> string option" where
  "primaryEvidenceKey fa =
     (case fa of
        None \<Rightarrow> None
      | Some (a, _) \<Rightarrow> (case fa_evidence a of [] \<Rightarrow> None | ev # _ \<Rightarrow> evidence_key ev))"

definition target_text :: "truth_step \<Rightarrow> string" where
  "target_text s = (case ts_verifyTarget s of None \<Rightarrow> ts_narrative s | Some t \<Rightarrow> t)"

definition stepExpectedSummary :: "truth_step \<Rightarrow> string" where
  "stepExpectedSummary s = ''Expected state: '' @ target_text s @ ''; observed: '' @ ts_observedStateSummary s"

definition effectExpectedSummary :: "truth_step \<Rightarrow> string \<Rightarrow> string" where
  "effectExpectedSummary s effectId =
     ''Expected effect '' @ effectId @ '' within '' @ target_text s @ ''; observed: '' @ ts_observedStateSummary s"

definition first_message :: "reason list \<Rightarrow> string \<Rightarrow> string" where
  "first_message rs fallback = (case rs of [] \<Rightarrow> fallback | r # _ \<Rightarrow> rs_message r)"

section \<open>The items of a run\<close>

text \<open>What every item of a run is made with: the analysis, its key and the correctness definition.\<close>

record item_context =
  ic_fa :: "analysed option"
  ic_key :: "string option"
  ic_definition :: "correctness_definition option"

definition item_context_of :: "truth_report \<Rightarrow> item_context" where
  "item_context_of truth =
     \<lparr>ic_fa = wt_failureAnalysis truth, ic_key = primaryEvidenceKey (wt_failureAnalysis truth),
      ic_definition = wt_correctnessDefinition truth\<rparr>"

definition is_primary :: "item_context \<Rightarrow> string \<Rightarrow> bool" where
  "is_primary ctx k \<longleftrightarrow> ic_key ctx = Some k"

definition primary_kind :: "item_context \<Rightarrow> string \<Rightarrow> string option" where
  "primary_kind ctx k = (if is_primary ctx k then map_option cd_enforcementKind (ic_definition ctx) else None)"

definition primary_expected :: "item_context \<Rightarrow> string \<Rightarrow> string \<Rightarrow> string" where
  "primary_expected ctx k fallback =
     (case ic_definition ctx of
        None \<Rightarrow> fallback
      | Some cd \<Rightarrow> if is_primary ctx k then cd_mustAlwaysHold cd else fallback)"

definition scope_item ::
  "host \<Rightarrow> item_context \<Rightarrow> string \<Rightarrow> string \<Rightarrow> item_scope \<Rightarrow> string \<Rightarrow> string list \<Rightarrow> string \<Rightarrow> string \<Rightarrow>
     string list \<Rightarrow> remediation_item" where
  "scope_item h ctx k itemId scope check codes reason expected inspect =
     makeRemediationItem h \<lparr>op_id = itemId, op_scope = scope, op_primary = is_primary ctx k, op_failedCheck = check,
       op_reasonCodes = codes, op_reason = reason, op_expectedSummary = primary_expected ctx k expected,
       op_projectionKind = primary_kind ctx k, op_row = None, op_fa = ic_fa ctx, op_evidenceToInspect = inspect,
       op_forceManualReview = False\<rparr>"

definition run_level_items :: "host \<Rightarrow> item_context \<Rightarrow> truth_issue list \<Rightarrow> remediation_item list" where
  "run_level_items h ctx issues =
     (if issues = [] then []
      else [scope_item h ctx ''run_level'' ''run_level'' ItemRunLevel ''run-level verification input'' (map ti_code issues)
        (join ''; '' (map ti_message issues))
        ''Expected a valid captured run with no run-level ingest or planning failures.''
        [''workflowTruthReport.runLevelIssues'', ''workflowTruthReport.failureAnalysis'']])"

definition sequence_items :: "host \<Rightarrow> item_context \<Rightarrow> truth_issue list option \<Rightarrow> remediation_item list" where
  "sequence_items h ctx eventSequence =
     (case eventSequence of
        None \<Rightarrow> []
      | Some issues \<Rightarrow>
          [scope_item h ctx ''event_sequence'' ''event_sequence'' ItemEventSequence ''event sequence'' (map ti_code issues)
            (join ''; '' (map ti_message issues))
            ''Expected monotonic, coherent event capture for this workflow.''
            [''workflowTruthReport.eventSequence'', ''eventSequenceIntegrity'']])"

definition opt_nat_text :: "string \<Rightarrow> nat option \<Rightarrow> string" where
  "opt_nat_text fallback i = (case i of None \<Rightarrow> fallback | Some n \<Rightarrow> nat_str n)"

definition context_items :: "host \<Rightarrow> item_context \<Rightarrow> remediation_item list" where
  "context_items h ctx =
     (case ic_fa ctx of
        None \<Rightarrow> []
      | Some (a, _) \<Rightarrow>
          map (\<lambda>ev. scope_item h ctx ''run_context'' (''run_context:'' @ opt_nat_text ''0'' (ei_ingestIndex ev))
              ItemRunContext (''run context before ingest '' @ opt_nat_text ''unknown'' (ei_ingestIndex ev)) (ei_codes ev)
              (''Run context failed before the evaluated observation: '' @ join '','' (ei_codes ev))
              ''Expected retrieval, model, control, and tool context to allow fair verification.''
              [''workflowTruthReport.executionPathFindings'', ''verificationRunContext''])
            (filter (\<lambda>ev. ei_scope ev = ScopeRunContext) (fa_evidence a)))"

definition steps_path :: "truth_step \<Rightarrow> string" where
  "steps_path s = ''workflowTruthReport.steps[seq='' @ int_str (ts_seq s) @ '']''"

definition effect_key :: "truth_step \<Rightarrow> truth_effect \<Rightarrow> string" where
  "effect_key s e = ''effect:'' @ int_str (ts_seq s) @ '':'' @ tf_id e"

definition effect_item :: "host \<Rightarrow> item_context \<Rightarrow> truth_step \<Rightarrow> truth_effect \<Rightarrow> remediation_item" where
  "effect_item h ctx s e =
     makeRemediationItem h \<lparr>op_id = effect_key s e, op_scope = ItemEffect, op_primary = is_primary ctx (effect_key s e),
       op_failedCheck = ''Failed check: effect '' @ tf_id e @ '' on step '' @ int_str (ts_seq s),
       op_reasonCodes = map rs_code (tf_reasons e), op_reason = first_message (tf_reasons e) (tf_outcomeLabel e),
       op_expectedSummary = effectExpectedSummary s (tf_id e), op_projectionKind = None, op_row = None, op_fa = None,
       op_evidenceToInspect = [steps_path s @ ''.effects[id='' @ tf_id e @ '']'', steps_path s @ ''.observedStateSummary''],
       op_forceManualReview = False\<rparr>"

definition step_key :: "truth_step \<Rightarrow> string" where
  "step_key s = ''step:'' @ int_str (ts_seq s)"

definition asks_review :: "item_context \<Rightarrow> bool" where
  "asks_review ctx \<longleftrightarrow>
     (case ic_fa ctx of None \<Rightarrow> False | Some (_, af) \<Rightarrow> af_recommendedAction af = ManualReview)"

definition single_step_item :: "host \<Rightarrow> item_context \<Rightarrow> truth_step \<Rightarrow> remediation_item" where
  "single_step_item h ctx s =
     makeRemediationItem h \<lparr>op_id = step_key s, op_scope = ItemStep, op_primary = is_primary ctx (step_key s),
       op_failedCheck = ''Failed check: step '' @ int_str (ts_seq s)
         @ (if ts_toolId s = [] then [] else '' ('' @ ts_toolId s @ '')''),
       op_reasonCodes = map rs_code (ts_reasons s), op_reason = first_message (ts_reasons s) (ts_outcomeLabel s),
       op_expectedSummary = primary_expected ctx (step_key s) (stepExpectedSummary s),
       op_projectionKind = primary_kind ctx (step_key s), op_row = None,
       op_fa = (if is_primary ctx (step_key s) then ic_fa ctx else None),
       op_evidenceToInspect = [steps_path s, ''workflowTruthReport.failureExplanation'',
         ''workflowTruthReport.correctnessDefinition''],
       op_forceManualReview = (is_primary ctx (step_key s) \<and> asks_review ctx)\<rparr>"

definition step_items :: "host \<Rightarrow> item_context \<Rightarrow> truth_step \<Rightarrow> remediation_item list" where
  "step_items h ctx s =
     (if ts_outcomeLabel s = ''VERIFIED'' then []
      else (case ts_effects s of
          Some (e # es) \<Rightarrow> map (effect_item h ctx s) (filter (\<lambda>e. tf_outcomeLabel e \<noteq> ''VERIFIED'') (e # es))
        | _ \<Rightarrow> [single_step_item h ctx s]))"

definition analysis_item :: "host \<Rightarrow> item_context \<Rightarrow> analysed \<Rightarrow> remediation_item" where
  "analysis_item h ctx fa =
     makeRemediationItem h \<lparr>op_id = ''failure_analysis'', op_scope = ItemRunLevel, op_primary = True,
       op_failedCheck = ''verification failure analysis'',
       op_reasonCodes = (case fa_evidence (fst fa) of [] \<Rightarrow> [''UNCLASSIFIED_GAP''] | ev # _ \<Rightarrow> ei_codes ev),
       op_reason = fa_summary (fst fa),
       op_expectedSummary = (case ic_definition ctx of
           None \<Rightarrow> ''Expected state must satisfy the verification contract.'' | Some cd \<Rightarrow> cd_mustAlwaysHold cd),
       op_projectionKind = map_option cd_enforcementKind (ic_definition ctx), op_row = None, op_fa = Some fa,
       op_evidenceToInspect = [''workflowTruthReport.failureAnalysis''], op_forceManualReview = True\<rparr>"

definition buildWorkflowRemediationItems :: "host \<Rightarrow> workflow_result \<Rightarrow> remediation_item list" where
  "buildWorkflowRemediationItems h r =
     (let truth = wr_truth r; ctx = item_context_of truth;
          items = run_level_items h ctx (wt_runLevelIssues truth) @ sequence_items h ctx (wt_eventSequence truth)
            @ context_items h ctx @ concat (map (step_items h ctx) (wt_steps truth))
      in if er_status (wr_engine r) = Complete \<and> wt_failureAnalysis truth = None then []
         else take 32 (if items = [] then (case ic_fa ctx of None \<Rightarrow> [] | Some fa \<Rightarrow> [analysis_item h ctx fa])
           else items))"

section \<open>The decision\<close>

definition buildOrderedNextActionsWorkflow :: "workflow_result \<Rightarrow> recommended_action \<Rightarrow> next_action list" where
  "buildOrderedNextActionsWorkflow r primary =
     (let sec = FixRegistryEventsOrCompareFiles;
          asked = (''UNKNOWN_TOOL'' \<in> set (collectWorkflowCodes (wr_engine r)))
            \<or> \<not> (er_status (wr_engine r) = Complete \<and> primary = NoAction)
      in map nextActionEntry (primary # (if asked \<and> primary \<noteq> sec then [sec] else [])))"

fun readiness_of_gap :: "evidence_gap \<Rightarrow> rerun_readiness" where
  "readiness_of_gap IngestEmpty = FixInputsBeforeRerun"
| "readiness_of_gap IngestUnstructured = FixInputsBeforeRerun"
| "readiness_of_gap RegistryUnknownTool = FixRegistryBeforeRerun"
| "readiness_of_gap RegistryResolution = FixRegistryBeforeRerun"
| "readiness_of_gap StateMismatch = ReconcileStateBeforeRerun"
| "readiness_of_gap DatabaseAccess = ReconcileStateBeforeRerun"
| "readiness_of_gap _ = ManualReviewBeforeRerun"

definition retry_is_safe :: "actionable_failure \<Rightarrow> bool" where
  "retry_is_safe af \<longleftrightarrow> af_automationSafe af \<and> af_recommendedAction af = ImproveReadConnectivity"

definition deriveRerunReadinessWorkflow ::
  "actionable_failure \<Rightarrow> evidence_gap \<Rightarrow> workflow_status \<Rightarrow> rerun_readiness" where
  "deriveRerunReadinessWorkflow af blocker status =
     (if status = Complete \<and> af_recommendedAction af = NoAction then RerunReadySameInputs
      else if retry_is_safe af then RerunReadySameInputs
      else readiness_of_gap blocker)"

definition syntheticFailureBaseWorkflow :: "host \<Rightarrow> workflow_result \<Rightarrow> failure_analysis" where
  "syntheticFailureBaseWorkflow h r =
     (let codes = take 12 (js_sort (h_localeCompare h) (collectWorkflowCodes (wr_engine r)))
      in mk_analysis ''Synthetic failure analysis for evidence completeness fallback.'' WorkflowFlow Medium []
           (if codes = []
            then [(evidence_of ScopeStep [''UNCLASSIFIED_GAP''])\<lparr>ei_seq := Some 0, ei_toolId := Some []\<rparr>]
            else [evidence_of ScopeRunLevel codes]) None)"

definition path_of_items :: "remediation_item list \<Rightarrow> rerun_path" where
  "path_of_items items =
     (case List.find it_primary items of
        Some i \<Rightarrow> it_rerunPath i
      | None \<Rightarrow> (case items of [] \<Rightarrow> rerunPathForType AfterManualReviewVerify | i # _ \<Rightarrow> it_rerunPath i))"

definition no_remediation :: remediation_decision where
  "no_remediation =
     \<lparr>rd_actionableFailure = \<lparr>af_category = Unclassified, af_severity = Low, af_recommendedAction = NoAction,
        af_automationSafe = False\<rparr>,
      rd_orderedNextActions = [nextActionEntry NoAction], rd_rerunReadiness = RerunReadySameInputs,
      rd_remediationItems = [], rd_rerunPath = rerunPathForType NoRerunNeeded\<rparr>"

definition deriveRemediationDecisionFromWorkflowResult :: "host \<Rightarrow> workflow_result \<Rightarrow> remediation_decision" where
  "deriveRemediationDecisionFromWorkflowResult h r =
     (let engine = wr_engine r; fa = wt_failureAnalysis (wr_truth r);
          af = (case fa of
              Some (_, af) \<Rightarrow> af
            | None \<Rightarrow> deriveActionableFailureWorkflow engine (syntheticFailureBaseWorkflow h r));
          items = buildWorkflowRemediationItems h r
      in if fa = None \<and> er_status engine = Complete then no_remediation
         else \<lparr>rd_actionableFailure = af,
               rd_orderedNextActions = buildOrderedNextActionsWorkflow r (af_recommendedAction af),
               rd_rerunReadiness = deriveRerunReadinessWorkflow af (classifyWorkflowBlocker engine) (er_status engine),
               rd_remediationItems = items, rd_rerunPath = path_of_items items\<rparr>)"

end
