(* ===== verification/QuickReport.thy ===== *)
theory QuickReport
  imports Remediation CanonicalJson
begin

text \<open>
  The report of the quick verification as data (\<open>src/quickVerify/runQuickVerify.ts\<close>), what its
  units say of themselves (\<open>src/reconciliationPresentation.ts\<close>), its text for a reader
  (\<open>src/quickVerify/formatQuickVerifyHumanReport.ts\<close>), and the run it is turned into so that
  the analysis of failures applies to it (\<open>src/quickSyntheticWorkflow.ts\<close>).
\<close>

section \<open>Data\<close>

datatype unit_verdict = UnitVerified | UnitFail | UnitUncertain

fun unit_verdict_text :: "unit_verdict \<Rightarrow> string" where
  "unit_verdict_text UnitVerified = ''verified''"
| "unit_verdict_text UnitFail = ''fail''"
| "unit_verdict_text UnitUncertain = ''uncertain''"

datatype quick_verdict = QuickPass | QuickFail | QuickUncertain

fun quick_verdict_text :: "quick_verdict \<Rightarrow> string" where
  "quick_verdict_text QuickPass = ''pass''"
| "quick_verdict_text QuickFail = ''fail''"
| "quick_verdict_text QuickUncertain = ''uncertain''"

datatype unit_kind = UnitRow | UnitRelatedExists

fun unit_kind_text :: "unit_kind \<Rightarrow> string" where
  "unit_kind_text UnitRow = ''row''"
| "unit_kind_text UnitRelatedExists = ''related_exists''"

record unit_reconciliation =
  un_declared :: string
  un_expected :: string
  un_observed_database :: string
  un_verification_verdict :: string

record quick_unit_report =
  qr_unitId :: string
  qr_kind :: unit_kind
  qr_verdict :: unit_verdict
  qr_confidence :: jsnum
  qr_reasonCodes :: "string list"
  qr_toolName :: string
  qr_actionIndex :: nat
  qr_contractEligible :: bool
  qr_table :: string
  qr_rationale :: "string list"
  qr_alternates :: "(string \<times> rat) list option"
  qr_verification :: evidence
  qr_explanation :: string
  qr_reconciliation :: unit_reconciliation
  qr_correctnessDefinition :: "correctness_definition option"

text \<open>The report before its evidence completeness and its exported tools.\<close>

record quick_base =
  qv_verdict :: quick_verdict
  qv_summary :: string
  qv_ingestReasonCodes :: "string list"
  qv_malformedLineCount :: nat
  qv_ingestWarnings :: "string list option"
  qv_runHeaderReasonCodes :: "string list option"
  qv_contractReplayPartialCoverage :: bool
  qv_units :: "quick_unit_report list"

section \<open>Presentation of a unit\<close>

definition QUICK_OBSERVED_MAPPING_FAILED :: string where
  "QUICK_OBSERVED_MAPPING_FAILED = ''No database observation (verification not run).''"

definition QUICK_OBSERVED_CONNECTOR_EMPTY :: string where
  "QUICK_OBSERVED_CONNECTOR_EMPTY = ''No database observation recorded (query did not return evidence).''"

definition QUICK_OBSERVED_CONNECTOR_ERROR :: string where
  "QUICK_OBSERVED_CONNECTOR_ERROR = ''Connector error (no observation payload).''"

definition QUICK_RELATED_EXISTS_PRESENT :: string where
  "QUICK_RELATED_EXISTS_PRESENT = ''Related-exists scalar: present (1).''"

definition QUICK_RELATED_EXISTS_ABSENT :: string where
  "QUICK_RELATED_EXISTS_ABSENT = ''Related-exists scalar: absent (0).''"

definition QUICK_RELATED_EXISTS_UNUSABLE :: string where
  "QUICK_RELATED_EXISTS_UNUSABLE = ''Related-exists scalar: unusable.''"

definition formatQuickRowObservedDatabase :: "host \<Rightarrow> evidence \<Rightarrow> string" where
  "formatQuickRowObservedDatabase h verification =
     (case get_prop (VObj verification) ''rowCount'' of
        VNum n \<Rightarrow> formatOperationalMessage (row_observed h verification n)
      | _ \<Rightarrow>
          if verification = [] then QUICK_OBSERVED_CONNECTOR_EMPTY
          else formatOperationalMessage (''SQL evidence keys=''
            @ join '','' (js_sort compareUtf16Id (map fst verification))))"

text \<open>
  \<open>c.toFixed(3)\<close> of a number that is not negative: the nearest thousandth, the larger of two as
  near; then the zeros at the end go, and the point when nothing follows it.
\<close>

definition thousandths :: "rat \<Rightarrow> nat" where
  "thousandths q = nat \<lfloor>q * 1000 + 1 / 2\<rfloor>"

definition three_digits :: "nat \<Rightarrow> string" where
  "three_digits n = map digit_char [n div 100 mod 10, n div 10 mod 10, n mod 10]"

definition decimals :: "nat \<Rightarrow> string" where
  "decimals n = rev (dropWhile (\<lambda>c. c = CHR ''0'') (rev (three_digits n)))"

fun formatConfidence :: "host \<Rightarrow> jsnum \<Rightarrow> string" where
  "formatConfidence h (Fin q) =
     (let n = thousandths q; frac = decimals (n mod 1000)
      in nat_str (n div 1000) @ (if frac = [] then [] else CHR ''.'' # frac))"
| "formatConfidence h n = num_to_string h n"

datatype quick_unit_input =
    RowMappingFailed
  | RowVerified string row_request evidence
  | RowFailOrUncertain string row_request evidence unit_verdict "string list"
  | RelatedExistsInput related_exists_check unit_verdict "string list"

definition declaredLine :: "host \<Rightarrow> string \<Rightarrow> nat \<Rightarrow> (string \<times> jsval) list \<Rightarrow> js_error + string" where
  "declaredLine h toolName actionIndex flat =
     throws_bind (stableStringify h (VObj flat)) (\<lambda>digest.
       Inr (formatOperationalMessage (''tool='' @ toolName @ ''; action#='' @ nat_str actionIndex
         @ ''; parameters_digest='' @ digest)))"

definition outcome_line :: "host \<Rightarrow> unit_verdict \<Rightarrow> jsnum \<Rightarrow> string" where
  "outcome_line h v confidence =
     formatOperationalMessage (''outcome='' @ unit_verdict_text v @ ''; confidence='' @ formatConfidence h confidence)"

definition row_expected :: "host \<Rightarrow> string \<Rightarrow> row_request \<Rightarrow> string" where
  "row_expected h table request =
     (case formatVerificationTargetSummary h (Some (QSqlRow request)) of
        None \<Rightarrow> EXPECTED_NONE_NO_SQL
      | Some s \<Rightarrow> formatOperationalMessage (''table='' @ table @ ''; '' @ s))"

definition related_observed :: "unit_verdict \<Rightarrow> string list \<Rightarrow> string" where
  "related_observed v codes =
     (if ''CONNECTOR_ERROR'' \<in> set codes then QUICK_OBSERVED_CONNECTOR_ERROR
      else if ''RELATIONAL_SCALAR_UNUSABLE'' \<in> set codes then QUICK_RELATED_EXISTS_UNUSABLE
      else (case v of
          UnitVerified \<Rightarrow> QUICK_RELATED_EXISTS_PRESENT
        | UnitFail \<Rightarrow> QUICK_RELATED_EXISTS_ABSENT
        | UnitUncertain \<Rightarrow> QUICK_RELATED_EXISTS_UNUSABLE))"

definition failed_row_observed :: "host \<Rightarrow> evidence \<Rightarrow> string list \<Rightarrow> string" where
  "failed_row_observed h verification codes =
     (if verification = [] \<and> ''CONNECTOR_ERROR'' \<in> set codes then QUICK_OBSERVED_CONNECTOR_ERROR
      else formatQuickRowObservedDatabase h verification)"

text \<open>What was expected, what was observed and with which verdict, of each kind of unit.\<close>

fun unit_parts :: "host \<Rightarrow> quick_unit_input \<Rightarrow> string \<times> string \<times> unit_verdict" where
  "unit_parts h RowMappingFailed = (EXPECTED_NONE_NO_SQL, QUICK_OBSERVED_MAPPING_FAILED, UnitUncertain)"
| "unit_parts h (RelatedExistsInput check v codes) =
     (formatOperationalMessage (''related_exists; id='' @ rx_id check), related_observed v codes, v)"
| "unit_parts h (RowVerified table request verification) =
     (row_expected h table request, formatQuickRowObservedDatabase h verification, UnitVerified)"
| "unit_parts h (RowFailOrUncertain table request verification v codes) =
     (row_expected h table request, failed_row_observed h verification codes, v)"

definition buildQuickUnitReconciliation ::
  "host \<Rightarrow> string \<Rightarrow> nat \<Rightarrow> (string \<times> jsval) list \<Rightarrow> jsnum \<Rightarrow> quick_unit_input \<Rightarrow> js_error + unit_reconciliation" where
  "buildQuickUnitReconciliation h toolName actionIndex flat confidence input =
     throws_bind (declaredLine h toolName actionIndex flat) (\<lambda>declared.
       case unit_parts h input of (expected, observed, v) \<Rightarrow>
         Inr \<lparr>un_declared = declared, un_expected = expected, un_observed_database = observed,
              un_verification_verdict = outcome_line h v confidence\<rparr>)"

section \<open>The report for a reader\<close>

definition MSG_NO_TOOL_CALLS :: string where
  "MSG_NO_TOOL_CALLS = phrase_of INGEST_AND_QUICK_MISC_PHRASES ''INGEST_NO_ACTIONS''"

definition MSG_NO_STRUCTURED_TOOL_ACTIVITY :: string where
  "MSG_NO_STRUCTURED_TOOL_ACTIVITY = phrase_of INGEST_AND_QUICK_MISC_PHRASES ''INGEST_NO_STRUCTURED_TOOL_ACTIVITY''"

definition HUMAN_REPORT_BEGIN :: string where
  "HUMAN_REPORT_BEGIN = ''=== quick-verify human report ===''"

definition HUMAN_REPORT_END :: string where
  "HUMAN_REPORT_END = ''=== end quick-verify human report ===''"

definition verdictLine :: "quick_verdict \<Rightarrow> string" where
  "verdictLine v = ''Rollup (inferred, provisional): '' @ quick_verdict_text v"

definition INGEST_REASON_MESSAGES :: "(string \<times> string) list" where
  "INGEST_REASON_MESSAGES = map (\<lambda>k. (k, phrase_of INGEST_AND_QUICK_MISC_PHRASES k))
     [''INGEST_INPUT_TOO_LARGE'', ''INGEST_NO_ACTIONS'', ''INGEST_NO_STRUCTURED_TOOL_ACTIVITY'', ''MALFORMED_LINE'',
      ''INGEST_ACTION_CAP'']"

definition humanLineForIngestReasonCode :: "string \<Rightarrow> string" where
  "humanLineForIngestReasonCode code =
     (case map_of INGEST_REASON_MESSAGES code of None \<Rightarrow> ''Ingest: '' @ code | Some m \<Rightarrow> m)"

definition QUICK_VERIFY_BANNER :: "string list" where
  "QUICK_VERIFY_BANNER =
     [''Input must be structured tool activity (JSON describing tool calls and parameters)'' @ [CHR 0x97]
        @ ''not arbitrary logs or generic observability text.'',
      ''Quick Verify is inference-only: mapping and expectations are provisional; uncertain is a normal outcome, not an edge case.'',
      ''A rollup pass does not prove execution, does not prove a change occurred, and is not production safety'' @ [CHR 0x97]
        @ ''only that current state matched inferred expectations for the checked units.'']"

record quick_report_context =
  qx_workflowId :: "string option"
  qx_eventsPath :: "string option"
  qx_registryPath :: "string option"
  qx_dbFlag :: "string option"
  qx_postgresUrl :: bool

definition or_else :: "string option \<Rightarrow> string \<Rightarrow> string" where
  "or_else x d = (case x of None \<Rightarrow> d | Some s \<Rightarrow> s)"

definition quick_header_lines :: "quick_base \<Rightarrow> string list" where
  "quick_header_lines r =
     map humanLineForIngestReasonCode (js_unique (qv_ingestReasonCodes r))
     @ (if 0 < qv_malformedLineCount r then [''Malformed JSON lines: '' @ nat_str (qv_malformedLineCount r) @ ''.''] else [])
     @ (case qv_runHeaderReasonCodes r of
          Some (c # cs) \<Rightarrow> [''Run notes: '' @ join '', '' (c # cs) @ ''.'']
        | _ \<Rightarrow> [])
     @ [[], ''Units:'',
        ''Layer guide '' @ [CHR 0x97] @ '' Declared: tool activity in ingest (see sourceAction). Expected: inferred row/FK checks from declared params (quick mode). Observed: verification object (read-only SQL outcome).'']"

definition quick_definition_lines :: "host \<Rightarrow> correctness_definition \<Rightarrow> js_error + string list" where
  "quick_definition_lines h cd =
     throws_bind (json_stringify h (cd_enforceableProjection cd)) (\<lambda>projection. Inr
       ([''  correctness_definition: enforcement_kind='' @ cd_enforcementKind cd,
         ''    must_always_hold: '' @ cd_mustAlwaysHold cd]
        @ map (\<lambda>line. ''    enforce_as: '' @ line) (cd_enforceAs cd)
        @ [''    enforceable_projection: '' @ or_else projection ''undefined'']))"

definition codes_line :: "string list \<Rightarrow> string" where
  "codes_line codes =
     (let frag = join '' '' (map userPhraseForReasonCode codes)
      in ''  codes: '' @ (if codes = [] then ''none'' else join '', '' codes)
         @ (if frag = [] then [] else '' '' @ [CHR 0x97] @ '' '' @ frag))"

definition quick_unit_lines :: "host \<Rightarrow> quick_unit_report \<Rightarrow> js_error + string list" where
  "quick_unit_lines h u =
     throws_bind (case qr_correctnessDefinition u of None \<Rightarrow> Inr [] | Some cd \<Rightarrow> quick_definition_lines h cd) (\<lambda>more_lines. Inr
       ([''- ['' @ qr_unitId u @ ''] '' @ unit_kind_text (qr_kind u) @ '' table='' @ qr_table u @ '' tool='' @ qr_toolName u
           @ '' action#'' @ nat_str (qr_actionIndex u) @ '' verdict='' @ unit_verdict_text (qr_verdict u)
           @ '' confidence='' @ num_to_string h (qr_confidence u) @ '' contractEligible='' @ bool_text (qr_contractEligible u),
         ''  '' @ qr_explanation u, codes_line (qr_reasonCodes u),
         ''  declared: '' @ un_declared (qr_reconciliation u), ''  expected: '' @ un_expected (qr_reconciliation u),
         ''  observed_database: '' @ un_observed_database (qr_reconciliation u),
         ''  verification_verdict: '' @ un_verification_verdict (qr_reconciliation u)] @ more_lines))"

definition replay_line :: "quick_report_context \<Rightarrow> string" where
  "replay_line ctx =
     ''Optional contract replay (partial coverage '' @ [CHR 0x97]
     @ '' exported tools only, not full quick inferred parity): agentskeptic --workflow-id ''
     @ or_else (qx_workflowId ctx) ''<workflowId>'' @ '' --events '' @ or_else (qx_eventsPath ctx) ''<events.ndjson>''
     @ '' --registry '' @ or_else (qx_registryPath ctx) ''<registry.json>'' @ '' ''
     @ (if qx_postgresUrl ctx then ''--postgres-url \"<url>\"''
        else (case qx_dbFlag ctx of Some (c # cs) \<Rightarrow> ''--db '' @ c # cs | _ \<Rightarrow> ''--db <sqlitePath>''))"

definition formatQuickVerifyHumanReport :: "host \<Rightarrow> quick_base \<Rightarrow> quick_report_context \<Rightarrow> js_error + string" where
  "formatQuickVerifyHumanReport h r ctx =
     throws_bind (throws_map (quick_unit_lines h) (qv_units r)) (\<lambda>units. Inr
       (join [CHR 0x0A] [HUMAN_REPORT_BEGIN, verdictLine (qv_verdict r), HUMAN_REPORT_END] @ [CHR 0x0A]
        @ join [CHR 0x0A] QUICK_VERIFY_BANNER @ [CHR 0x0A, CHR 0x0A]
        @ join [CHR 0x0A] (quick_header_lines r @ concat units @ (if qv_units r = [] then [''(none)''] else [])
            @ [[], replay_line ctx]) @ [CHR 0x0A]))"

section \<open>The run a report stands for\<close>

fun synthetic_status :: "unit_verdict \<Rightarrow> step_status" where
  "synthetic_status UnitVerified = Verified"
| "synthetic_status UnitFail = Inconsistent"
| "synthetic_status UnitUncertain = Uncertain"

fun synthetic_workflow_status :: "quick_verdict \<Rightarrow> workflow_status" where
  "synthetic_workflow_status QuickFail = InconsistentWorkflow"
| "synthetic_workflow_status QuickPass = Complete"
| "synthetic_workflow_status QuickUncertain = Incomplete"

definition synthetic_reasons :: "quick_unit_report \<Rightarrow> reason list" where
  "synthetic_reasons u =
     (if qr_reasonCodes u \<noteq> [] then map (\<lambda>c. mk_reason c c) (qr_reasonCodes u)
      else if qr_verdict u \<noteq> UnitVerified then [mk_reason ''ROW_ABSENT'' ''quick synthetic absent'']
      else [])"

definition synthetic_step :: "nat \<Rightarrow> quick_unit_report \<Rightarrow> step_outcome" where
  "synthetic_step i u =
     \<lparr>so_seq = int i, so_toolId = qr_toolName u, so_releaseCritical = False, so_narrative = qr_explanation u,
      so_paramsCanonical = ''{}'',
      so_request = Some (QSqlRow \<lparr>rq_table = qr_table u,
        rq_identityEq = [\<lparr>ip_column = ''id'', ip_value = ''quick_synthetic''\<rparr>], rq_requiredFields = []\<rparr>),
      so_status = synthetic_status (qr_verdict u), so_reasons = synthetic_reasons u, so_evidence = [],
      so_repeatObservationCount = 1, so_evaluatedObservationOrdinal = 1,
      so_failureDiagnostic = (if qr_verdict u = UnitVerified then None else Some WorkflowExecution),
      so_langgraphCheckpointKey = None\<rparr>"

definition synthetic_steps :: "quick_unit_report list \<Rightarrow> step_outcome list" where
  "synthetic_steps us = map (\<lambda>(i, u). synthetic_step i u) (zip [0..<length us] us)"

definition quickVerifyReportToSyntheticEngine :: "quick_base \<Rightarrow> string \<Rightarrow> engine_result" where
  "quickVerifyReportToSyntheticEngine r workflowId =
     \<lparr>er_workflowId = workflowId, er_status = synthetic_workflow_status (qv_verdict r), er_runLevelReasons = [],
      er_verificationPolicy = DEFAULT_VERIFICATION_POLICY, er_eventSequenceIntegrity = IntegrityNormal,
      er_steps = synthetic_steps (qv_units r), er_verificationRunContext = createEmptyVerificationRunContext\<rparr>"

definition syntheticQuickFailureAnalysis :: "quick_base \<Rightarrow> failure_analysis" where
  "syntheticQuickFailureAnalysis r =
     mk_analysis (qv_summary r) WorkflowFlow Medium [] [evidence_of ScopeRunLevel [''QUICK_PREVIEW_SYNTHETIC'']] None"

section \<open>What to do about it\<close>

definition quick_ingest_item :: "host \<Rightarrow> quick_base \<Rightarrow> remediation_item" where
  "quick_ingest_item h r =
     (let codes = (if qv_ingestReasonCodes r = [] then [''INGEST_NO_STRUCTURED_TOOL_ACTIVITY''] else qv_ingestReasonCodes r)
      in makeRemediationItem h \<lparr>op_id = ''quick_ingest'', op_scope = ItemQuickIngest, op_primary = True,
           op_failedCheck = ''quick verify ingest'', op_reasonCodes = codes, op_reason = join '','' codes,
           op_expectedSummary = ''Expected structured tool activity that can be mapped into provisional read-only SQL checks.'',
           op_projectionKind = None, op_row = Some (deriveQuickRemediationAlignment h codes), op_fa = None,
           op_evidenceToInspect = [''quick.ingest.reasonCodes'', ''quick.units''], op_forceManualReview = False\<rparr>)"

definition quick_unit_item :: "host \<Rightarrow> bool \<Rightarrow> quick_unit_report \<Rightarrow> remediation_item" where
  "quick_unit_item h primary u =
     makeRemediationItem h \<lparr>op_id = ''quick:'' @ qr_unitId u, op_scope = ItemQuickUnit, op_primary = primary,
       op_failedCheck = ''Failed check: quick unit '' @ qr_unitId u,
       op_reasonCodes = (if qr_reasonCodes u = [] then [''quick_unit_'' @ unit_verdict_text (qr_verdict u)]
         else qr_reasonCodes u),
       op_reason = un_verification_verdict (qr_reconciliation u),
       op_expectedSummary = (case qr_correctnessDefinition u of
           None \<Rightarrow> un_expected (qr_reconciliation u) | Some cd \<Rightarrow> cd_mustAlwaysHold cd),
       op_projectionKind = map_option cd_enforcementKind (qr_correctnessDefinition u),
       op_row = Some (deriveQuickRemediationAlignment h (qr_reasonCodes u)), op_fa = None,
       op_evidenceToInspect = [''quick.units[id='' @ qr_unitId u @ '']'', ''quick.evidenceCompleteness''],
       op_forceManualReview = False\<rparr>"

definition failed_units :: "quick_base \<Rightarrow> quick_unit_report list" where
  "failed_units r = filter (\<lambda>u. qr_verdict u \<noteq> UnitVerified) (qv_units r)"

fun quick_unit_items :: "host \<Rightarrow> bool \<Rightarrow> quick_unit_report list \<Rightarrow> remediation_item list" where
  "quick_unit_items h none_yet [] = []"
| "quick_unit_items h none_yet (u # us) = quick_unit_item h none_yet u # quick_unit_items h False us"

definition buildQuickRemediationItems :: "host \<Rightarrow> quick_base \<Rightarrow> remediation_item list" where
  "buildQuickRemediationItems h r =
     (if qv_verdict r = QuickPass then []
      else let ingest = (if qv_ingestReasonCodes r \<noteq> [] \<or> qv_units r = [] then [quick_ingest_item h r] else [])
           in take 32 (ingest @ quick_unit_items h (ingest = []) (failed_units r)))"

datatype quick_signal =
    SignalNa
  | NoActions
  | NoStructuredActivity
  | NoSqlCandidates
  | SqlRanUncertain
  | SqlRanFailed
  | SqlRanPassed

fun quick_signal_text :: "quick_signal \<Rightarrow> string" where
  "quick_signal_text SignalNa = ''na''"
| "quick_signal_text NoActions = ''no_actions''"
| "quick_signal_text NoStructuredActivity = ''no_structured_activity''"
| "quick_signal_text NoSqlCandidates = ''no_sql_candidates''"
| "quick_signal_text SqlRanUncertain = ''sql_ran_uncertain''"
| "quick_signal_text SqlRanFailed = ''sql_ran_failed''"
| "quick_signal_text SqlRanPassed = ''sql_ran_passed''"

definition quickSignalFromReport :: "quick_base \<Rightarrow> quick_signal" where
  "quickSignalFromReport r =
     (if ''INGEST_NO_ACTIONS'' \<in> set (qv_ingestReasonCodes r) then NoActions
      else if ''INGEST_NO_STRUCTURED_TOOL_ACTIVITY'' \<in> set (qv_ingestReasonCodes r) then NoStructuredActivity
      else if qv_units r = [] then NoSqlCandidates
      else if filter (\<lambda>u. ''MAPPING_FAILED'' \<notin> set (qr_reasonCodes u)) (qv_units r) = [] then NoSqlCandidates
      else (case qv_verdict r of
          QuickPass \<Rightarrow> SqlRanPassed
        | QuickFail \<Rightarrow> SqlRanFailed
        | QuickUncertain \<Rightarrow> SqlRanUncertain))"

fun classifyQuickPreviewBlocker :: "quick_signal \<Rightarrow> quick_verdict \<Rightarrow> evidence_gap" where
  "classifyQuickPreviewBlocker NoActions v = IngestEmpty"
| "classifyQuickPreviewBlocker NoStructuredActivity v = IngestUnstructured"
| "classifyQuickPreviewBlocker NoSqlCandidates v = RegistryResolution"
| "classifyQuickPreviewBlocker SqlRanFailed v = StateMismatch"
| "classifyQuickPreviewBlocker _ QuickUncertain = VerificationIncompleteGap"
| "classifyQuickPreviewBlocker _ _ = PreviewLane"

definition buildOrderedNextActionsQuick :: "quick_base \<Rightarrow> recommended_action \<Rightarrow> next_action list" where
  "buildOrderedNextActionsQuick r primary =
     map nextActionEntry (primary # (if qv_verdict r \<noteq> QuickPass \<and> primary \<noteq> FixRegistryEventsOrCompareFiles
       then [FixRegistryEventsOrCompareFiles] else []))"

fun quick_readiness_of_gap :: "evidence_gap \<Rightarrow> rerun_readiness" where
  "quick_readiness_of_gap IngestEmpty = FixInputsBeforeRerun"
| "quick_readiness_of_gap IngestUnstructured = FixInputsBeforeRerun"
| "quick_readiness_of_gap RegistryResolution = FixRegistryBeforeRerun"
| "quick_readiness_of_gap StateMismatch = ReconcileStateBeforeRerun"
| "quick_readiness_of_gap _ = ManualReviewBeforeRerun"

definition deriveRerunReadinessQuick ::
  "evidence_gap \<Rightarrow> quick_verdict \<Rightarrow> actionable_failure \<Rightarrow> rerun_readiness" where
  "deriveRerunReadinessQuick blocker v af =
     (if v = QuickPass \<or> retry_is_safe af then RerunReadySameInputs else quick_readiness_of_gap blocker)"

definition deriveRemediationDecisionFromQuickReport :: "host \<Rightarrow> quick_base \<Rightarrow> string \<Rightarrow> js_error + remediation_decision" where
  "deriveRemediationDecisionFromQuickReport h r workflowId =
     (let engine = quickVerifyReportToSyntheticEngine r workflowId
      in throws_bind (buildFailureAnalysis h engine) (\<lambda>fa. Inr
          (let af = deriveActionableFailureWorkflow engine
                 (case fa of None \<Rightarrow> syntheticQuickFailureAnalysis r | Some a \<Rightarrow> a);
               items = buildQuickRemediationItems h r
           in \<lparr>rd_actionableFailure = af,
               rd_orderedNextActions = buildOrderedNextActionsQuick r (af_recommendedAction af),
               rd_rerunReadiness = deriveRerunReadinessQuick
                 (classifyQuickPreviewBlocker (quickSignalFromReport r) (qv_verdict r)) (qv_verdict r) af,
               rd_remediationItems = items,
               rd_rerunPath = (if qv_verdict r = QuickPass then rerunPathForType NoRerunNeeded else path_of_items items)\<rparr>)))"

end
