(* ===== verification/Certificate.thy ===== *)
theory Certificate
  imports QuickReport
begin

text \<open>
  The outcome certificate (\<open>src/outcomeCertificate.ts\<close>) with what it is made of: the rollup of
  witnesses (\<open>src/witnessCoverageRollup.ts\<close>), the evidence completeness
  (\<open>src/evidenceCompleteness.ts\<close>, \<open>src/formatEvidenceCompletenessHuman.ts\<close>), the failure spine
  (\<open>src/failureSpine.ts\<close>, \<open>src/formatFailureSpineHuman.ts\<close>) and the trust decision
  (\<open>src/trustDecision.ts\<close>, \<open>src/decisionBlocker.ts\<close>). The JSON schema validator is a parameter.
\<close>

section \<open>Witnesses\<close>

datatype coverage_kind = KindSql | KindHttpWitness | KindObjectStorage | KindVectorDocument | KindMongoDocument

fun coverage_kind_text :: "coverage_kind \<Rightarrow> string" where
  "coverage_kind_text KindSql = ''sql''"
| "coverage_kind_text KindHttpWitness = ''http_witness''"
| "coverage_kind_text KindObjectStorage = ''object_storage''"
| "coverage_kind_text KindVectorDocument = ''vector_document''"
| "coverage_kind_text KindMongoDocument = ''mongo_document''"

datatype support_label =
    MeaningfulMultiWitness
  | SqlOnlyContract
  | SingleNonSqlContract
  | ThinOrUnknown
  | CoverageIncompleteOrFailed

record witness_coverage =
  wc_exercisedKinds :: "coverage_kind list"
  wc_fullySatisfiedKinds :: "coverage_kind list"
  wc_notFullySatisfiedKinds :: "coverage_kind list"
  wc_supportLabel :: support_label
  wc_summaryLine :: string

text \<open>Farther from verified is more.\<close>

fun WITNESS_STATUS_RANK :: "step_status \<Rightarrow> nat" where
  "WITNESS_STATUS_RANK Verified = 0"
| "WITNESS_STATUS_RANK Uncertain = 1"
| "WITNESS_STATUS_RANK IncompleteVerification = 2"
| "WITNESS_STATUS_RANK PartiallyVerified = 3"
| "WITNESS_STATUS_RANK Missing = 4"
| "WITNESS_STATUS_RANK Inconsistent = 5"

definition sortedUniqueKinds :: "host \<Rightarrow> coverage_kind list \<Rightarrow> coverage_kind list" where
  "sortedUniqueKinds h ks =
     take 24 (js_sort (\<lambda>a b. h_localeCompare h (coverage_kind_text a) (coverage_kind_text b)) (js_unique ks))"

fun witnessKindsFromVerificationRequest :: "step_request option \<Rightarrow> coverage_kind list" where
  "witnessKindsFromVerificationRequest None = []"
| "witnessKindsFromVerificationRequest (Some (QWitness (WHttp _))) = [KindHttpWitness]"
| "witnessKindsFromVerificationRequest (Some (QWitness (WVector _))) = [KindVectorDocument]"
| "witnessKindsFromVerificationRequest (Some (QWitness (WObject _))) = [KindObjectStorage]"
| "witnessKindsFromVerificationRequest (Some (QWitness (WMongo _))) = [KindMongoDocument]"
| "witnessKindsFromVerificationRequest (Some _) = [KindSql]"

text \<open>The worst rank of each kind, in the order the kinds first occur.\<close>

definition worst_of :: "(coverage_kind \<times> nat) list \<Rightarrow> nat \<Rightarrow> coverage_kind \<Rightarrow> (coverage_kind \<times> nat) list" where
  "worst_of m r k = AList.update k (max r (case map_of m k of None \<Rightarrow> 0 | Some w \<Rightarrow> w)) m"

definition worst_step :: "(coverage_kind \<times> nat) list \<Rightarrow> step_outcome \<Rightarrow> (coverage_kind \<times> nat) list" where
  "worst_step m s =
     foldl (\<lambda>m. worst_of m (WITNESS_STATUS_RANK (so_status s))) m (witnessKindsFromVerificationRequest (so_request s))"

definition deriveSupportLabel :: "coverage_kind list \<Rightarrow> coverage_kind list \<Rightarrow> coverage_kind list \<Rightarrow> support_label" where
  "deriveSupportLabel exercised satisfied failed =
     (if exercised = [] then ThinOrUnknown
      else if failed \<noteq> [] then CoverageIncompleteOrFailed
      else if length satisfied = length exercised \<and> 2 \<le> length exercised then MeaningfulMultiWitness
      else if satisfied = [KindSql] \<and> length exercised = 1 then SqlOnlyContract
      else if length exercised = 1 \<and> length satisfied = 1 \<and> exercised \<noteq> [KindSql] then SingleNonSqlContract
      else CoverageIncompleteOrFailed)"

fun coverage_body :: "support_label \<Rightarrow> string" where
  "coverage_body MeaningfulMultiWitness = ''Multiple modalities satisfied.''"
| "coverage_body SqlOnlyContract = ''SQL-only contract checks satisfied.''"
| "coverage_body SingleNonSqlContract = ''Single non-SQL modality satisfied.''"
| "coverage_body ThinOrUnknown = ''Thin or unknown witness footprint.''"
| "coverage_body CoverageIncompleteOrFailed = ''One or more modalities incomplete, partial, mismatched, or failed.''"

definition kinds_text :: "coverage_kind list \<Rightarrow> string" where
  "kinds_text ks = join '','' (map coverage_kind_text ks)"

definition formatSummaryLine ::
  "coverage_kind list \<Rightarrow> coverage_kind list \<Rightarrow> coverage_kind list \<Rightarrow> support_label \<Rightarrow> string" where
  "formatSummaryLine exercised satisfied failed label =
     (if exercised = []
      then ''No verification modalities exercised on captured steps with resolved verification targets.''
      else let raw = ''['' @ coverage_body label @ ''] modalities_exercised='' @ kinds_text exercised
             @ '' modalities_fully_satisfied='' @ kinds_text satisfied
             @ '' modalities_not_fully_satisfied='' @ or_text (kinds_text failed) ''(none)''
           in if length raw \<le> 320 then raw else take 316 raw @ [ELLIPSIS])"

definition buildWitnessCoverageFromSteps :: "host \<Rightarrow> step_outcome list \<Rightarrow> witness_coverage" where
  "buildWitnessCoverageFromSteps h steps =
     (let worst = foldl worst_step [] steps; exercised = sortedUniqueKinds h (map fst worst);
          satisfied = filter (\<lambda>k. map_of worst k = Some 0) exercised;
          failed = filter (\<lambda>k. map_of worst k \<noteq> Some 0) exercised;
          label = deriveSupportLabel exercised satisfied failed
      in \<lparr>wc_exercisedKinds = exercised, wc_fullySatisfiedKinds = sortedUniqueKinds h satisfied,
          wc_notFullySatisfiedKinds = sortedUniqueKinds h failed, wc_supportLabel = label,
          wc_summaryLine = formatSummaryLine exercised satisfied failed label\<rparr>)"

section \<open>Trust\<close>

datatype run_kind = ContractSql | ContractSqlLanggraphCheckpointTrust | QuickPreview

fun run_kind_text :: "run_kind \<Rightarrow> string" where
  "run_kind_text ContractSql = ''contract_sql''"
| "run_kind_text ContractSqlLanggraphCheckpointTrust = ''contract_sql_langgraph_checkpoint_trust''"
| "run_kind_text QuickPreview = ''quick_preview''"

datatype state_relation = MatchesExpectations | DoesNotMatch | NotEstablished

fun state_relation_text :: "state_relation \<Rightarrow> string" where
  "state_relation_text MatchesExpectations = ''matches_expectations''"
| "state_relation_text DoesNotMatch = ''does_not_match''"
| "state_relation_text NotEstablished = ''not_established''"

datatype reliance = Permitted | Prohibited

fun reliance_text :: "reliance \<Rightarrow> string" where
  "reliance_text Permitted = ''permitted''"
| "reliance_text Prohibited = ''prohibited''"

datatype trust_decision = Safe | Unsafe | UnknownTrust

fun trust_decision_text :: "trust_decision \<Rightarrow> string" where
  "trust_decision_text Safe = ''safe''"
| "trust_decision_text Unsafe = ''unsafe''"
| "trust_decision_text UnknownTrust = ''unknown''"

datatype truth_check_label = Trusted | NotTrusted | UnknownVerdict

fun deriveHighStakesReliance :: "run_kind \<Rightarrow> state_relation \<Rightarrow> reliance" where
  "deriveHighStakesReliance k rel =
     (if k = QuickPreview then Prohibited
      else if rel = MatchesExpectations then Permitted
      else Prohibited)"

fun trustDecisionFromRelianceFields :: "run_kind \<Rightarrow> state_relation \<Rightarrow> reliance \<Rightarrow> trust_decision" where
  "trustDecisionFromRelianceFields k rel reliance =
     (if k = QuickPreview then UnknownTrust
      else if reliance = Permitted then Safe
      else if rel = DoesNotMatch then Unsafe
      else UnknownTrust)"

definition workflowResultToStateRelation :: "workflow_result \<Rightarrow> state_relation" where
  "workflowResultToStateRelation r =
     (case er_status (wr_engine r) of
        Complete \<Rightarrow> MatchesExpectations
      | InconsistentWorkflow \<Rightarrow> DoesNotMatch
      | Incomplete \<Rightarrow> NotEstablished)"

definition releaseCriticalVerdictFromWorkflowResult :: "workflow_result \<Rightarrow> truth_check_label" where
  "releaseCriticalVerdictFromWorkflowResult r =
     (let critical = filter so_releaseCritical (er_steps (wr_engine r));
          some_of = (\<lambda>S. list_ex (\<lambda>s. so_status s \<in> S) critical)
      in if critical = [] then Trusted
         else if some_of {Missing, Inconsistent} then NotTrusted
         else if some_of {IncompleteVerification, Uncertain, PartiallyVerified} then UnknownVerdict
         else Trusted)"

section \<open>Evidence completeness\<close>

record evidence_completeness =
  ec_blockerCategory :: evidence_gap
  ec_quickSignal :: quick_signal
  ec_verifiedClaims :: "string list"
  ec_unverifiedClaims :: "string list"
  ec_missingInputs :: "(string \<times> string) list"
  ec_nextActions :: "(string \<times> string) list"
  ec_rerunReadiness :: "rerun_readiness option"
  ec_rerunPath :: "rerun_path option"
  ec_remediationItems :: "remediation_item list option"
  ec_witnessCoverage :: "witness_coverage option"

definition capList :: "string list \<Rightarrow> nat \<Rightarrow> nat \<Rightarrow> string list" where
  "capList lines n eachMax = map (\<lambda>l. redactEvidenceString l eachMax) (take n lines)"

definition step_claim :: "truth_step \<Rightarrow> string" where
  "step_claim s =
     (let label = ts_toolId s @ '':seq='' @ int_str (ts_seq s)
      in redactEvidenceString (label @ '': '' @ (if ts_outcomeLabel s = ''VERIFIED'' then ''verified''
           else first_message (ts_reasons s) (ts_outcomeLabel s))) 160)"

definition missing_input :: "string \<Rightarrow> string \<times> string" where
  "missing_input code =
     (let phrase = userPhraseForReasonCode code
      in (redactEvidenceString code 72, redactEvidenceString (if phrase = [] then code else phrase) 400))"

definition decided_actions :: "remediation_decision \<Rightarrow> (string \<times> string) list" where
  "decided_actions d = map (\<lambda>(code, text). (action_text code, text)) (rd_orderedNextActions d)"

definition buildEvidenceCompletenessFromWorkflowResult ::
  "host \<Rightarrow> workflow_result \<Rightarrow> remediation_decision \<Rightarrow> evidence_completeness" where
  "buildEvidenceCompletenessFromWorkflowResult h r d =
     (let truth = wr_truth r; engine = wr_engine r;
          trusted = (er_status engine = Complete \<and> wt_failureAnalysis truth = None);
          verified = filter (\<lambda>s. ts_outcomeLabel s = ''VERIFIED'') (wt_steps truth);
          unverified = filter (\<lambda>s. ts_outcomeLabel s \<noteq> ''VERIFIED'') (wt_steps truth)
      in \<lparr>ec_blockerCategory = classifyWorkflowBlocker engine, ec_quickSignal = SignalNa,
          ec_verifiedClaims = capList (map step_claim verified) 24 160,
          ec_unverifiedClaims = capList (map step_claim unverified) 24 160,
          ec_missingInputs = map missing_input (take 8 (js_sort (h_localeCompare h) (collectWorkflowCodes engine))),
          ec_nextActions = decided_actions d,
          ec_rerunReadiness = (if trusted then None else Some (rd_rerunReadiness d)),
          ec_rerunPath = (if trusted then None else Some (rd_rerunPath d)),
          ec_remediationItems = (if trusted then None else Some (rd_remediationItems d)),
          ec_witnessCoverage = Some (buildWitnessCoverageFromSteps h (er_steps engine))\<rparr>)"

definition unit_claim :: "quick_unit_report \<Rightarrow> string" where
  "unit_claim u =
     redactEvidenceString (''unit='' @ qr_unitId u @ '' tool='' @ qr_toolName u
       @ (if qr_verdict u = UnitVerified then [] else '': '' @ un_verification_verdict (qr_reconciliation u))) 160"

definition quick_missing_inputs :: "quick_base \<Rightarrow> (string \<times> string) list" where
  "quick_missing_inputs r =
     (if qv_ingestReasonCodes r \<noteq> []
      then [(redactEvidenceString ''ingest'' 72, redactEvidenceString (join '','' (qv_ingestReasonCodes r)) 400)]
      else (case List.find (\<lambda>u. qr_reasonCodes u \<noteq> []) (qv_units r) of
          None \<Rightarrow> [(redactEvidenceString ''none_reported'' 72,
            redactEvidenceString ''No structured missing-field entries.'' 400)]
        | Some u \<Rightarrow> [(redactEvidenceString (hd (qr_reasonCodes u)) 72,
            redactEvidenceString (qr_unitId u @ '':'' @ qr_toolName u) 400)]))"

definition buildEvidenceCompletenessFromQuickReport ::
  "quick_base \<Rightarrow> remediation_decision \<Rightarrow> evidence_completeness" where
  "buildEvidenceCompletenessFromQuickReport r d =
     (let signal = quickSignalFromReport r; passed = (qv_verdict r = QuickPass)
      in \<lparr>ec_blockerCategory = classifyQuickPreviewBlocker signal (qv_verdict r), ec_quickSignal = signal,
          ec_verifiedClaims = capList (map unit_claim (filter (\<lambda>u. qr_verdict u = UnitVerified) (qv_units r))) 24 160,
          ec_unverifiedClaims = capList (map unit_claim (failed_units r)) 24 160,
          ec_missingInputs = quick_missing_inputs r, ec_nextActions = decided_actions d,
          ec_rerunReadiness = (if passed then None else Some (rd_rerunReadiness d)),
          ec_rerunPath = (if passed then None else Some (rd_rerunPath d)),
          ec_remediationItems = (if passed then None else Some (rd_remediationItems d)),
          ec_witnessCoverage = None\<rparr>)"

definition LANGGRAPH_ACTION_TEXT :: string where
  "LANGGRAPH_ACTION_TEXT = ''Repair NDJSON capture so checkpoint trust receives schema-valid schemaVersion 3 tool_observed lines for this workflow, then rerun verify.''"

definition ineligible_item :: "string \<Rightarrow> (string \<times> string) list \<Rightarrow> remediation_item" where
  "ineligible_item headline details =
     \<lparr>it_id = ''quick_ingest'', it_scope = ItemQuickIngest, it_primary = True,
      it_failedCheck = ''LangGraph checkpoint trust eligibility'',
      it_reasonCodes = map (\<lambda>(c, _). redactEvidenceString c 128) (take 8 details),
      it_reason = redactEvidenceString headline 1024, it_recommendedAction = FixEventIngestAndSteps,
      it_actionText = redactEvidenceString LANGGRAPH_ACTION_TEXT 500,
      it_expectedSummary = ''Expected schema-valid schemaVersion 3 tool_observed lines for this workflow.'',
      it_projectionKind = None,
      it_automation = \<lparr>ia_class = InputRegenerationCandidate, ia_label = AUTOMATION_LABELS InputRegenerationCandidate,
        ia_boundary = AUTOMATION_BOUNDARY\<rparr>,
      it_humanReview = mk_review False None None None None,
      it_rerunPath = rerunPathForType AfterInputFixVerify\<rparr>"

definition buildEvidenceCompletenessForIneligibleLangGraph ::
  "host \<Rightarrow> string \<Rightarrow> (string \<times> string) list \<Rightarrow> evidence_completeness" where
  "buildEvidenceCompletenessForIneligibleLangGraph h headline details =
     \<lparr>ec_blockerCategory = VerificationIncompleteGap, ec_quickSignal = SignalNa, ec_verifiedClaims = [],
      ec_unverifiedClaims = [redactEvidenceString headline 200],
      ec_missingInputs = map (\<lambda>(c, m). (redactEvidenceString c 72, redactEvidenceString m 400)) (take 8 details),
      ec_nextActions = [(''fix_langgraph_eligibility'', redactEvidenceString LANGGRAPH_ACTION_TEXT 500)],
      ec_rerunReadiness = Some FixInputsBeforeRerun, ec_rerunPath = Some (rerunPathForType AfterInputFixVerify),
      ec_remediationItems = Some [ineligible_item headline details],
      ec_witnessCoverage = Some (buildWitnessCoverageFromSteps h [])\<rparr>"

section \<open>Evidence completeness as text\<close>

fun gap_text :: "evidence_gap \<Rightarrow> string" where
  "gap_text GapNone = ''none''"
| "gap_text PreviewLane = ''preview_lane''"
| "gap_text IngestEmpty = ''ingest_empty''"
| "gap_text IngestUnstructured = ''ingest_unstructured''"
| "gap_text RegistryUnknownTool = ''registry_unknown_tool''"
| "gap_text RegistryResolution = ''registry_resolution''"
| "gap_text DatabaseAccess = ''database_access''"
| "gap_text TimingOrWindow = ''timing_or_window''"
| "gap_text WitnessUnavailable = ''witness_unavailable''"
| "gap_text StateMismatch = ''state_mismatch''"
| "gap_text VerificationIncompleteGap = ''verification_incomplete''"
| "gap_text EventSequenceGap = ''event_sequence''"
| "gap_text ControlFlowContext = ''control_flow_context''"
| "gap_text GapUnclassified = ''unclassified''"

fun readiness_text :: "rerun_readiness \<Rightarrow> string" where
  "readiness_text RerunReadySameInputs = ''rerun_ready_same_inputs''"
| "readiness_text FixInputsBeforeRerun = ''fix_inputs_before_rerun''"
| "readiness_text FixRegistryBeforeRerun = ''fix_registry_before_rerun''"
| "readiness_text ReconcileStateBeforeRerun = ''reconcile_state_before_rerun''"
| "readiness_text ManualReviewBeforeRerun = ''manual_review_before_rerun''"

definition EVIDENCE_COMPLETENESS_BEGIN :: string where
  "EVIDENCE_COMPLETENESS_BEGIN = ''=== evidence_completeness ===''"

definition EVIDENCE_COMPLETENESS_END :: string where
  "EVIDENCE_COMPLETENESS_END = ''=== end evidence_completeness ===''"

definition EVIDENCE_COMPLETENESS_MAX_LINES :: nat where
  "EVIDENCE_COMPLETENESS_MAX_LINES = 48"

text \<open>Lines are pushed while there is room for them; a heading is pushed in any case.\<close>

definition push_lines :: "string list \<Rightarrow> string list \<Rightarrow> string list" where
  "push_lines more_lines lines = lines @ take (1 + EVIDENCE_COMPLETENESS_MAX_LINES - length lines) more_lines"

definition push_group :: "string \<Rightarrow> string list \<Rightarrow> string list \<Rightarrow> string list" where
  "push_group heading items lines =
     (if items = [] then lines else push_lines (map (\<lambda>v. ''  - '' @ v) items) (lines @ [heading]))"

definition item_lines :: "remediation_item \<Rightarrow> string list" where
  "item_lines i =
     [''  - '' @ it_id i @ '': '' @ it_actionText i, ''    Failed check: '' @ it_failedCheck i,
      ''    Expected state: '' @ it_expectedSummary i, ''    Automation: '' @ ia_label (it_automation i),
      ''    Rerun: '' @ rp_readinessLabel (it_rerunPath i)]
     @ (if hr_required (it_humanReview i)
        then (case hr_decisionPrompt (it_humanReview i) of None \<Rightarrow> [] | Some p \<Rightarrow> [''    Manual review: '' @ p])
        else [])"

definition items_of :: "evidence_completeness \<Rightarrow> remediation_item list" where
  "items_of ec = (case ec_remediationItems ec of None \<Rightarrow> [] | Some items \<Rightarrow> items)"

definition push_items :: "evidence_completeness \<Rightarrow> string list \<Rightarrow> string list" where
  "push_items ec lines =
     (if items_of ec \<noteq> []
      then push_lines (concat (map item_lines (take 8 (items_of ec)))) (lines @ [''Remediation items:''])
      else push_lines
        ((case ec_rerunReadiness ec of None \<Rightarrow> [] | Some r \<Rightarrow> [''Rerun readiness: '' @ readiness_text r])
         @ (case ec_rerunPath ec of None \<Rightarrow> [] | Some p \<Rightarrow> [''Rerun: '' @ rp_readinessLabel p])) lines)"

definition trust_boundary :: "run_kind \<Rightarrow> reliance \<Rightarrow> string" where
  "trust_boundary k rel =
     ''Trust boundary: runKind='' @ run_kind_text k @ '' highStakesReliance='' @ reliance_text rel
     @ '' (see certificate fields for normative meaning).''"

definition completeness_lines :: "evidence_completeness \<Rightarrow> string list" where
  "completeness_lines ec =
     push_items ec
      (push_lines (map (\<lambda>(_, text). ''  - '' @ text) (ec_nextActions ec))
        (push_group ''Missing input:'' (map (\<lambda>(c, hint). c @ '': '' @ hint) (take 4 (ec_missingInputs ec)))
          (push_group ''Not verified:'' (take 8 (ec_unverifiedClaims ec))
            (push_group ''Verified:'' (take 8 (ec_verifiedClaims ec))
              [EVIDENCE_COMPLETENESS_BEGIN, ''Blocker: '' @ gap_text (ec_blockerCategory ec),
               ''Quick signal: '' @ quick_signal_text (ec_quickSignal ec)])) @ [''Next:'']))"

definition formatEvidenceCompletenessHuman :: "evidence_completeness \<Rightarrow> run_kind \<Rightarrow> reliance \<Rightarrow> string" where
  "formatEvidenceCompletenessHuman ec k rel =
     (let lines = take (1 + EVIDENCE_COMPLETENESS_MAX_LINES) (completeness_lines ec @ [trust_boundary k rel])
      in join [CHR 0x0A] (map (\<lambda>l. redactEvidenceString l 2048) (lines @ [EVIDENCE_COMPLETENESS_END])))"

section \<open>The failure spine\<close>

datatype spine_source = SpineWorkflow | SpineQuick | SpineIneligibleLanggraph

fun spine_source_text :: "spine_source \<Rightarrow> string" where
  "spine_source_text SpineWorkflow = ''workflow''"
| "spine_source_text SpineQuick = ''quick''"
| "spine_source_text SpineIneligibleLanggraph = ''ineligible_langgraph''"

record failure_spine =
  sp_trustDecision :: trust_decision
  sp_summary :: string
  sp_actionableFailure :: actionable_failure
  sp_primaryCodes :: "string list"
  sp_rerunGuidance :: string
  sp_source :: spine_source

definition mk_spine ::
  "trust_decision \<Rightarrow> string \<Rightarrow> actionable_failure \<Rightarrow> string list \<Rightarrow> spine_source \<Rightarrow> failure_spine" where
  "mk_spine td summary af codes src =
     \<lparr>sp_trustDecision = td, sp_summary = summary, sp_actionableFailure = af, sp_primaryCodes = codes,
      sp_rerunGuidance = redactEvidenceString (remediationMessageForRecommendedAction (af_recommendedAction af)) 500,
      sp_source = src\<rparr>"

definition capped_codes :: "host \<Rightarrow> string list \<Rightarrow> string list" where
  "capped_codes h codes = (if codes = [] then [''UNCLASSIFIED''] else take 24 (sortUniqueCodes h codes))"

definition primaryCodesForWorkflowResult :: "host \<Rightarrow> workflow_result \<Rightarrow> string list" where
  "primaryCodesForWorkflowResult h r =
     capped_codes h (case wt_failureAnalysis (wr_truth r) of
         None \<Rightarrow> collectWorkflowCodes (wr_engine r)
       | Some (a, _) \<Rightarrow> (case fa_evidence a of [] \<Rightarrow> [] | ev # _ \<Rightarrow> ei_codes ev))"

definition buildFailureSpineFromWorkflowResult ::
  "host \<Rightarrow> workflow_result \<Rightarrow> run_kind \<Rightarrow> state_relation \<Rightarrow> reliance \<Rightarrow> remediation_decision \<Rightarrow> failure_spine" where
  "buildFailureSpineFromWorkflowResult h r k rel reliance d =
     (case wt_failureAnalysis (wr_truth r) of
        None \<Rightarrow> mk_spine (trustDecisionFromRelianceFields k rel reliance) (wt_trustSummary (wr_truth r))
          (rd_actionableFailure d) (primaryCodesForWorkflowResult h r) SpineWorkflow
      | Some (a, af) \<Rightarrow> mk_spine (trustDecisionFromRelianceFields k rel reliance) (fa_summary a) af
          (primaryCodesForWorkflowResult h r) SpineWorkflow)"

definition primaryCodesQuick :: "host \<Rightarrow> quick_base \<Rightarrow> string list" where
  "primaryCodesQuick h r =
     (let codes = map (\<lambda>u. ''quick_unit_'' @ unit_verdict_text (qr_verdict u)) (failed_units r)
      in if codes = [] then [''UNCLASSIFIED''] else sortUniqueCodes h codes)"

definition buildFailureSpineFromQuickReport ::
  "host \<Rightarrow> quick_base \<Rightarrow> state_relation \<Rightarrow> reliance \<Rightarrow> remediation_decision \<Rightarrow> failure_spine" where
  "buildFailureSpineFromQuickReport h r rel reliance d =
     mk_spine (trustDecisionFromRelianceFields QuickPreview rel reliance) (qv_summary r) (rd_actionableFailure d)
       (primaryCodesQuick h r) SpineQuick"

definition ineligible_engine :: "string \<Rightarrow> reason list \<Rightarrow> engine_result" where
  "ineligible_engine workflowId reasons =
     \<lparr>er_workflowId = workflowId, er_status = Incomplete, er_runLevelReasons = reasons,
      er_verificationPolicy = DEFAULT_VERIFICATION_POLICY, er_eventSequenceIntegrity = IntegrityNormal,
      er_steps = [], er_verificationRunContext = createEmptyVerificationRunContext\<rparr>"

definition ineligible_base :: "string \<Rightarrow> reason list \<Rightarrow> failure_analysis" where
  "ineligible_base headline reasons =
     mk_analysis headline WorkflowFlow Low []
       [evidence_of ScopeRunLevel (if reasons = [] then [''LANGGRAPH_INELIGIBLE''] else map rs_code reasons)] None"

definition buildFailureSpineFromIneligibleLangGraph ::
  "host \<Rightarrow> string \<Rightarrow> reason list \<Rightarrow> string \<Rightarrow> state_relation \<Rightarrow> reliance \<Rightarrow> js_error + failure_spine" where
  "buildFailureSpineFromIneligibleLangGraph h workflowId reasons headline rel reliance =
     (let engine = ineligible_engine workflowId reasons
      in throws_bind (buildFailureAnalysis h engine) (\<lambda>fa. Inr
           (mk_spine (trustDecisionFromRelianceFields ContractSqlLanggraphCheckpointTrust rel reliance) headline
             (deriveActionableFailureWorkflow engine (case fa of None \<Rightarrow> ineligible_base headline reasons | Some a \<Rightarrow> a))
             (if reasons = [] then [''LANGGRAPH_INELIGIBLE'']
              else take 24 (sortUniqueCodes h (map rs_code reasons))) SpineIneligibleLanggraph)))"

definition formatFailureSpineHuman :: "failure_spine \<Rightarrow> string" where
  "formatFailureSpineHuman spine =
     (let af = sp_actionableFailure spine
      in join [CHR 0x0A]
        ([''failure_spine:'', ''  trust_decision: '' @ trust_decision_text (sp_trustDecision spine),
          ''  summary: '' @ formatOperationalMessage (sp_summary spine),
          ''  actionable_failure: category='' @ category_text (af_category af) @ '' severity='' @ level_text (af_severity af)
            @ '' recommended_action='' @ action_text (af_recommendedAction af)
            @ '' automation_safe='' @ bool_text (af_automationSafe af),
          ''  primary_codes: '' @ join '','' (sp_primaryCodes spine),
          ''  rerun_guidance: '' @ formatOperationalMessage (sp_rerunGuidance spine)]
         @ (if retry_is_safe af then [''  automation_boundary: '' @ AUTOMATION_BOUNDARY_CONNECTOR] else [])
         @ [''  source: '' @ spine_source_text (sp_source spine)]))"

section \<open>The certificate\<close>

record certificate_step =
  cs_seq :: int
  cs_toolId :: "string option"
  cs_releaseCritical :: bool
  cs_declaredAction :: string
  cs_expectedOutcome :: string
  cs_observedOutcome :: string

datatype checkpoint_state = CheckpointVerified | CheckpointInconsistent | CheckpointIncomplete

fun checkpoint_text :: "checkpoint_state \<Rightarrow> string" where
  "checkpoint_text CheckpointVerified = ''verified''"
| "checkpoint_text CheckpointInconsistent = ''inconsistent''"
| "checkpoint_text CheckpointIncomplete = ''incomplete''"

record checkpoint_verdict =
  cv_checkpointKey :: string
  cv_verdict :: checkpoint_state
  cv_seqs :: "int list"
  cv_productionMeaning :: string

record certificate =
  oc_workflowId :: string
  oc_runKind :: run_kind
  oc_stateRelation :: state_relation
  oc_highStakesReliance :: reliance
  oc_releaseCriticalVerdict :: truth_check_label
  oc_relianceRationale :: string
  oc_intentSummary :: string
  oc_headline :: string
  oc_details :: "(string \<times> string) list"
  oc_steps :: "certificate_step list"
  oc_humanReport :: string
  oc_evidenceCompleteness :: evidence_completeness
  oc_failureSpine :: failure_spine
  oc_checkpointVerdicts :: "checkpoint_verdict list option"
  oc_correctnessDefinition :: "correctness_definition option"

definition truthStepToCertificateStep :: "truth_step \<Rightarrow> certificate_step" where
  "truthStepToCertificateStep s =
     \<lparr>cs_seq = ts_seq s, cs_toolId = Some (ts_toolId s), cs_releaseCritical = ts_releaseCritical s,
      cs_declaredAction = ts_narrative s, cs_expectedOutcome = target_text s,
      cs_observedOutcome = ts_observedStateSummary s\<rparr>"

definition buildRelianceRationale :: "run_kind \<Rightarrow> state_relation \<Rightarrow> reliance \<Rightarrow> string" where
  "buildRelianceRationale k rel reliance =
     (if k = QuickPreview then
        ''Quick preview uses inferred, provisional checks. It is never sufficient as the sole basis for high-stakes ship, bill, compliance, or audit-final decisions''
        @ [CHR 0x97] @ ''even when state appears to match.''
      else if k = ContractSqlLanggraphCheckpointTrust then
        (if reliance = Permitted then ''Contract verification used your registry and read-only SQL; every captured step matched declared expectations under the configured rules, and every LangGraph checkpoint rollup verdict is verified. You may treat this artifact as decision-grade for those steps, subject to your own scope and retention policy.''
         else if rel = DoesNotMatch then ''At least one step failed verification against expected downstream state (missing row, wrong values, or partial multi-effect failure), or a LangGraph checkpoint rollup verdict is inconsistent. Do not treat this run as meeting its intended persisted outcome.''
         else ''LangGraph checkpoint trust mode did not establish a single approved production snapshot (ineligible wire, incomplete verification, incomplete checkpoint rollup, or sequence integrity). Do not treat absence of a mismatch as proof of success.'')
      else if reliance = Permitted then ''Contract verification used your registry and read-only SQL; every captured step matched declared expectations under the configured rules. You may treat this artifact as decision-grade for those steps, subject to your own scope and retention policy.''
      else if rel = DoesNotMatch then ''At least one step failed verification against expected downstream state (missing row, wrong values, or partial multi-effect failure). Do not treat this run as meeting its intended persisted outcome.''
      else ''Verification could not be completed or could not establish a determinate match (incomplete registry, empty capture, indeterminate window, or connector issue). Do not treat absence of a mismatch as proof of success.'')"

definition appendEvidenceCompletenessHuman :: "string \<Rightarrow> evidence_completeness \<Rightarrow> run_kind \<Rightarrow> reliance \<Rightarrow> string" where
  "appendEvidenceCompletenessHuman base ec k rel =
     base @ [CHR 0x0A, CHR 0x0A] @ formatEvidenceCompletenessHuman ec k rel"

definition detail_of :: "reason \<Rightarrow> string \<times> string" where
  "detail_of r = (rs_code r, rs_message r)"

definition headline_of :: "truth_report \<Rightarrow> string" where
  "headline_of truth =
     (case wt_failureAnalysis truth of
        Some (a, _) \<Rightarrow> fa_summary a
      | None \<Rightarrow> (case wt_failureExplanation truth of
            Some fe \<Rightarrow> fe_divergence fe @ '' '' @ [CHR 0x97] @ '' expected: '' @ fe_expected fe @ ''; observed: '' @ fe_observed fe
          | None \<Rightarrow> wt_trustSummary truth))"

definition details_of :: "workflow_result \<Rightarrow> (string \<times> string) list" where
  "details_of r =
     concat (map (\<lambda>s. map detail_of (ts_reasons s)) (wt_steps (wr_truth r)))
     @ map detail_of (er_runLevelReasons (wr_engine r))"

section \<open>Checkpoints\<close>

definition rollupCheckpointGroupVerdict :: "step_outcome list \<Rightarrow> checkpoint_state" where
  "rollupCheckpointGroupVerdict outcomes =
     (if list_ex (\<lambda>s. so_status s = IncompleteVerification) outcomes then CheckpointIncomplete
      else if list_ex (\<lambda>s. so_status s \<in> {Missing, Inconsistent, PartiallyVerified}) outcomes then CheckpointInconsistent
      else if list_all (\<lambda>s. so_status s = Verified) outcomes then CheckpointVerified
      else CheckpointIncomplete)"

fun checkpointProductionMeaning :: "checkpoint_state \<Rightarrow> string" where
  "checkpointProductionMeaning CheckpointVerified = ''Production may advance under this checkpoint identity.''"
| "checkpointProductionMeaning CheckpointInconsistent = ''Do not advance production for this checkpoint identity until traces and database agree.''"
| "checkpointProductionMeaning CheckpointIncomplete = ''Verification is incomplete for this checkpoint identity; production gate remains closed.''"

definition checkpoint_add :: "(string \<times> step_outcome list) list \<Rightarrow> step_outcome \<Rightarrow> (string \<times> step_outcome list) list" where
  "checkpoint_add m s =
     (case so_langgraphCheckpointKey s of
        None \<Rightarrow> m
      | Some k \<Rightarrow> AList.update k ((case map_of m k of None \<Rightarrow> [] | Some g \<Rightarrow> g) @ [s]) m)"

fun min_seq :: "step_outcome list \<Rightarrow> int" where
  "min_seq [] = 0"
| "min_seq (s # ss) = fold (\<lambda>t m. min (so_seq t) m) ss (so_seq s)"

definition checkpoint_compare ::
  "host \<Rightarrow> string \<times> step_outcome list \<Rightarrow> string \<times> step_outcome list \<Rightarrow> int" where
  "checkpoint_compare h a b =
     (let d = min_seq (snd a) - min_seq (snd b) in if d \<noteq> 0 then d else h_localeCompare h (fst a) (fst b))"

definition checkpoint_row :: "string \<times> step_outcome list \<Rightarrow> checkpoint_verdict" where
  "checkpoint_row g =
     (let v = rollupCheckpointGroupVerdict (snd g)
      in \<lparr>cv_checkpointKey = fst g, cv_verdict = v,
          cv_seqs = js_sort (\<lambda>x y. x - y) (js_unique (map so_seq (snd g))),
          cv_productionMeaning = checkpointProductionMeaning v\<rparr>)"

definition computeCheckpointVerdictsFromWorkflowResult :: "host \<Rightarrow> workflow_result \<Rightarrow> checkpoint_verdict list" where
  "computeCheckpointVerdictsFromWorkflowResult h r =
     map checkpoint_row (js_sort (checkpoint_compare h) (foldl checkpoint_add [] (er_steps (wr_engine r))))"

section \<open>Invariants of a certificate\<close>

text \<open>\<open>loadSchemaValidator\<close>: the text of its errors, or \<open>None\<close> when the certificate is valid.\<close>

type_synonym schema_validator = "certificate \<Rightarrow> string option"

definition assertOutcomeCertificateInvariants :: "schema_validator \<Rightarrow> certificate \<Rightarrow> js_error + unit" where
  "assertOutcomeCertificateInvariants errors c =
     (let expected = deriveHighStakesReliance (oc_runKind c) (oc_stateRelation c);
          ec = oc_evidenceCompleteness c
      in if oc_highStakesReliance c \<noteq> expected
         then Inl (JsError (''outcome_certificate: highStakesReliance '' @ reliance_text (oc_highStakesReliance c)
           @ '' !== derived '' @ reliance_text expected @ '' for runKind='' @ run_kind_text (oc_runKind c)
           @ '' stateRelation='' @ state_relation_text (oc_stateRelation c)))
         else if oc_stateRelation c \<noteq> MatchesExpectations \<and> items_of ec = []
         then Inl (JsError ''failed outcome certificate missing evidenceCompleteness.remediationItems'')
         else if oc_stateRelation c \<noteq> MatchesExpectations \<and> ec_rerunPath ec = None
         then Inl (JsError ''failed outcome certificate missing evidenceCompleteness.rerunPath'')
         else if \<not> js_includes EVIDENCE_COMPLETENESS_BEGIN (oc_humanReport c)
         then Inl (JsError ''outcome_certificate: humanReport must contain evidence_completeness anchors'')
         else (case errors c of
             None \<Rightarrow> Inr ()
           | Some t \<Rightarrow> Inl (JsError (''outcome_certificate: schema validation failed '' @ t))))"

definition asserted :: "schema_validator \<Rightarrow> certificate \<Rightarrow> js_error + certificate" where
  "asserted errors c = throws_bind (assertOutcomeCertificateInvariants errors c) (\<lambda>_. Inr c)"

section \<open>Building certificates\<close>

definition with_spine :: "string \<Rightarrow> failure_spine \<Rightarrow> string" where
  "with_spine human spine = human @ [CHR 0x0A, CHR 0x0A] @ formatFailureSpineHuman spine"

definition checkpoint_lines :: "checkpoint_verdict list \<Rightarrow> string" where
  "checkpoint_lines vs =
     (if vs = [] then []
      else [CHR 0x0A, CHR 0x0A] @ ''langgraph_checkpoint_verdicts:'' @ [CHR 0x0A]
        @ join [CHR 0x0A] (map (\<lambda>c. cv_checkpointKey c @ CHR 0x09 # checkpoint_text (cv_verdict c)
            @ CHR 0x09 # cv_productionMeaning c) vs))"

text \<open>The certificate of a run, over the verdicts of its checkpoints, if it has that kind.\<close>

definition workflow_certificate ::
  "host \<Rightarrow> schema_validator \<Rightarrow> workflow_result \<Rightarrow> run_kind \<Rightarrow> checkpoint_verdict list option \<Rightarrow> js_error + certificate" where
  "workflow_certificate h errors r k checkpoints =
     (let truth = wr_truth r; rel = workflowResultToStateRelation r; reliance = deriveHighStakesReliance k rel
      in throws_bind (formatWorkflowTruthReportStruct h truth) (\<lambda>base.
         let d = deriveRemediationDecisionFromWorkflowResult h r;
             ec = buildEvidenceCompletenessFromWorkflowResult h r d;
             spine = buildFailureSpineFromWorkflowResult h r k rel reliance d;
             human = base @ (case checkpoints of None \<Rightarrow> [] | Some vs \<Rightarrow> checkpoint_lines vs)
         in asserted errors
           \<lparr>oc_workflowId = er_workflowId (wr_engine r), oc_runKind = k, oc_stateRelation = rel,
            oc_highStakesReliance = reliance, oc_releaseCriticalVerdict = releaseCriticalVerdictFromWorkflowResult r,
            oc_relianceRationale = buildRelianceRationale k rel reliance, oc_intentSummary = wt_trustSummary truth,
            oc_headline = headline_of truth, oc_details = details_of r,
            oc_steps = map truthStepToCertificateStep (wt_steps truth),
            oc_humanReport = with_spine (appendEvidenceCompletenessHuman human ec k reliance) spine,
            oc_evidenceCompleteness = ec, oc_failureSpine = spine, oc_checkpointVerdicts = checkpoints,
            oc_correctnessDefinition = wt_correctnessDefinition truth\<rparr>))"

definition buildOutcomeCertificateFromWorkflowResult ::
  "host \<Rightarrow> schema_validator \<Rightarrow> workflow_result \<Rightarrow> js_error + certificate" where
  "buildOutcomeCertificateFromWorkflowResult h errors r = workflow_certificate h errors r ContractSql None"

definition buildOutcomeCertificateLangGraphCheckpointTrustFromWorkflowResult ::
  "host \<Rightarrow> schema_validator \<Rightarrow> workflow_result \<Rightarrow> js_error + certificate" where
  "buildOutcomeCertificateLangGraphCheckpointTrustFromWorkflowResult h errors r =
     workflow_certificate h errors r ContractSqlLanggraphCheckpointTrust
       (Some (computeCheckpointVerdictsFromWorkflowResult h r))"

definition INELIGIBLE_HEADLINE :: string where
  "INELIGIBLE_HEADLINE = ''LangGraph checkpoint trust: ineligible''"

definition ineligible_details :: "reason list \<Rightarrow> (string \<times> string) list" where
  "ineligible_details reasons =
     (if reasons = []
      then [(''LANGGRAPH_INELIGIBLE'', ''No schema-valid schemaVersion 3 tool_observed lines for this workflow in LangGraph checkpoint trust mode.'')]
      else map detail_of reasons)"

definition buildIneligibleLangGraphCheckpointTrustCertificate ::
  "host \<Rightarrow> schema_validator \<Rightarrow> string \<Rightarrow> reason list \<Rightarrow> js_error + certificate" where
  "buildIneligibleLangGraphCheckpointTrustCertificate h errors workflowId reasons =
     (let k = ContractSqlLanggraphCheckpointTrust; rel = NotEstablished; reliance = deriveHighStakesReliance k rel;
          details = ineligible_details reasons;
          human = INELIGIBLE_HEADLINE @ CHR 0x0A # join [CHR 0x0A] (map (\<lambda>(c, m). c @ '': '' @ m) details);
          ec = buildEvidenceCompletenessForIneligibleLangGraph h INELIGIBLE_HEADLINE details
      in throws_bind (buildFailureSpineFromIneligibleLangGraph h workflowId reasons INELIGIBLE_HEADLINE rel reliance)
        (\<lambda>spine. asserted errors
           \<lparr>oc_workflowId = workflowId, oc_runKind = k, oc_stateRelation = rel, oc_highStakesReliance = reliance,
            oc_releaseCriticalVerdict = Trusted, oc_relianceRationale = buildRelianceRationale k rel reliance,
            oc_intentSummary = INELIGIBLE_HEADLINE, oc_headline = INELIGIBLE_HEADLINE, oc_details = details, oc_steps = [],
            oc_humanReport = with_spine (appendEvidenceCompletenessHuman human ec k reliance) spine,
            oc_evidenceCompleteness = ec, oc_failureSpine = spine, oc_checkpointVerdicts = None,
            oc_correctnessDefinition = None\<rparr>))"

fun quickVerdictToStateRelation :: "quick_verdict \<Rightarrow> state_relation" where
  "quickVerdictToStateRelation QuickPass = MatchesExpectations"
| "quickVerdictToStateRelation QuickFail = DoesNotMatch"
| "quickVerdictToStateRelation QuickUncertain = NotEstablished"

definition quick_certificate_step :: "nat \<Rightarrow> quick_unit_report \<Rightarrow> certificate_step" where
  "quick_certificate_step i u =
     \<lparr>cs_seq = int i, cs_toolId = None, cs_releaseCritical = False,
      cs_declaredAction = qr_toolName u @ '' (unit '' @ qr_unitId u @ '')'',
      cs_expectedOutcome = un_expected (qr_reconciliation u),
      cs_observedOutcome = un_observed_database (qr_reconciliation u)\<rparr>"

definition quick_details :: "quick_base \<Rightarrow> (string \<times> string) list" where
  "quick_details r =
     map (\<lambda>u. (''quick_unit_'' @ unit_verdict_text (qr_verdict u), un_verification_verdict (qr_reconciliation u)))
       (failed_units r)"

definition first_definition :: "quick_base \<Rightarrow> correctness_definition option" where
  "first_definition r =
     (case List.find (\<lambda>u. qr_correctnessDefinition u \<noteq> None) (qv_units r) of
        None \<Rightarrow> None
      | Some u \<Rightarrow> qr_correctnessDefinition u)"

definition buildOutcomeCertificateFromQuickReport ::
  "host \<Rightarrow> schema_validator \<Rightarrow> quick_base \<Rightarrow> string \<Rightarrow> quick_report_context \<Rightarrow> js_error + certificate" where
  "buildOutcomeCertificateFromQuickReport h errors r workflowId ctx =
     (let rel = quickVerdictToStateRelation (qv_verdict r); reliance = deriveHighStakesReliance QuickPreview rel
      in throws_bind (deriveRemediationDecisionFromQuickReport h r workflowId) (\<lambda>d.
         throws_bind (formatQuickVerifyHumanReport h r ctx) (\<lambda>human.
         let ec = buildEvidenceCompletenessFromQuickReport r d;
             spine = buildFailureSpineFromQuickReport h r rel reliance d
         in asserted errors
           \<lparr>oc_workflowId = workflowId, oc_runKind = QuickPreview, oc_stateRelation = rel,
            oc_highStakesReliance = reliance, oc_releaseCriticalVerdict = Trusted,
            oc_relianceRationale = buildRelianceRationale QuickPreview rel reliance, oc_intentSummary = qv_summary r,
            oc_headline = qv_summary r, oc_details = quick_details r,
            oc_steps = map (\<lambda>(i, u). quick_certificate_step i u) (zip [0..<length (qv_units r)] (qv_units r)),
            oc_humanReport = with_spine (appendEvidenceCompletenessHuman human ec QuickPreview reliance) spine,
            oc_evidenceCompleteness = ec, oc_failureSpine = spine, oc_checkpointVerdicts = None,
            oc_correctnessDefinition = first_definition r\<rparr>)))"

definition truthCheckVerdictFromCertificate :: "certificate \<Rightarrow> truth_check_label" where
  "truthCheckVerdictFromCertificate c =
     (if oc_stateRelation c = MatchesExpectations \<and> oc_highStakesReliance c = Permitted then Trusted
      else if oc_stateRelation c = DoesNotMatch then NotTrusted
      else UnknownVerdict)"

definition trustDecisionFromCertificate :: "certificate \<Rightarrow> trust_decision" where
  "trustDecisionFromCertificate c =
     trustDecisionFromRelianceFields (oc_runKind c) (oc_stateRelation c) (oc_highStakesReliance c)"

section \<open>The step that blocks a decision\<close>

text \<open>\<open>/\browcount=0\b/\<close>: a place where neither side continues a word.\<close>

fun word_occurs :: "string \<Rightarrow> bool \<Rightarrow> string \<Rightarrow> bool" where
  "word_occurs w after_word [] = False"
| "word_occurs w after_word (c # cs) =
     (\<not> after_word \<and> starts_with w (c # cs) \<and> \<not> word_ahead (drop (length w) (c # cs))
      \<or> word_occurs w (word_char c) cs)"

datatype inferred_status = InferredMissing | InferredInconsistent | InferredVerified | NonVerified

definition inferStepStatus :: "certificate_step \<Rightarrow> inferred_status" where
  "inferStepStatus s =
     (let t = toLowerCase (cs_observedOutcome s)
      in if js_includes ''missing'' t \<or> js_includes ''row is missing'' t then InferredMissing
         else if word_occurs ''rowcount=0'' False t \<and> \<not> js_includes ''field='' t then InferredMissing
         else if js_includes ''mismatch'' t \<or> js_includes ''wrong'' t then InferredInconsistent
         else if js_includes ''matched'' t \<or> js_includes ''verified'' t then InferredVerified
         else NonVerified)"

definition firstProblemStepForCertificate :: "certificate \<Rightarrow> certificate_step option" where
  "firstProblemStepForCertificate c =
     (case js_sort (\<lambda>a b. cs_seq a - cs_seq b) (oc_steps c) of
        [] \<Rightarrow> None
      | s # ss \<Rightarrow>
          if trustDecisionFromCertificate c = Safe then Some s
          else (case List.find (\<lambda>x. inferStepStatus x \<noteq> InferredVerified) (s # ss) of
              None \<Rightarrow> Some s
            | Some x \<Rightarrow> Some x))"

end
