(* ===== verification/ExecutionTrace.thy ===== *)
theory ExecutionTrace
  imports Certificate
begin

text \<open>
  The execution trace of a captured run (\<open>src/executionTrace.ts\<close>): the graph of run events,
  what became of each, and the chain of ancestors of its end and of every verified step; and the
  comparison of two traces (\<open>src/executionTraceDiff.ts\<close>).
\<close>

section \<open>The graph of run events\<close>

fun head_of_event :: "run_event \<Rightarrow> event_head option" where
  "head_of_event (ToolObserved ev) = None"
| "head_of_event (ModelTurn e _ _) = Some e"
| "head_of_event (Retrieval e _ _ _ _) = Some e"
| "head_of_event (Control e _ _ _) = Some e"
| "head_of_event (ToolSkipped e _ _) = Some e"

fun wire_id :: "wire_version \<Rightarrow> string option" where
  "wire_id WireV1 = None"
| "wire_id (WireV2 i p) = Some i"
| "wire_id (WireV3 i p ck) = Some i"

fun wire_parent :: "wire_version \<Rightarrow> string option" where
  "wire_parent WireV1 = None"
| "wire_parent (WireV2 i p) = p"
| "wire_parent (WireV3 i p ck) = p"

text \<open>\<open>runEventId\<close> and \<open>parentRunEventId\<close> of an event of wire version 2 or 3.\<close>

definition graph_id :: "run_event \<Rightarrow> string option" where
  "graph_id ev =
     (case ev of ToolObserved t \<Rightarrow> wire_id (te_wire t) | _ \<Rightarrow> map_option eh_runEventId (head_of_event ev))"

definition graph_parent :: "run_event \<Rightarrow> string option" where
  "graph_parent ev =
     (case ev of ToolObserved t \<Rightarrow> wire_parent (te_wire t)
      | _ \<Rightarrow> (case head_of_event ev of None \<Rightarrow> None | Some e \<Rightarrow> eh_parentRunEventId e))"

text \<open>The first loop: the index of every identifier, an error at the first one seen before.\<close>

fun index_ids :: "nat \<Rightarrow> run_event list \<Rightarrow> (string \<times> nat) list \<Rightarrow> js_error + (string \<times> nat) list" where
  "index_ids i [] m = Inr m"
| "index_ids i (ev # evs) m =
     (case graph_id ev of
        None \<Rightarrow> index_ids (Suc i) evs m
      | Some k \<Rightarrow>
          if map_of m k \<noteq> None
          then Inl (TruthLayerError ''TRACE_DUPLICATE_RUN_EVENT_ID'' (''Duplicate runEventId: '' @ k))
          else index_ids (Suc i) evs (m @ [(k, i)]))"

text \<open>The second loop: every parent is the identifier of an earlier event.\<close>

fun check_parents :: "(string \<times> nat) list \<Rightarrow> nat \<Rightarrow> run_event list \<Rightarrow> js_error + unit" where
  "check_parents m i [] = Inr ()"
| "check_parents m i (ev # evs) =
     (case graph_parent ev of
        None \<Rightarrow> check_parents m (Suc i) evs
      | Some p \<Rightarrow>
          (case map_of m p of
             None \<Rightarrow> Inl (TruthLayerError ''TRACE_UNKNOWN_PARENT_RUN_EVENT_ID'' (''Unknown parentRunEventId: '' @ p))
           | Some k \<Rightarrow>
               if i \<le> k
               then Inl (TruthLayerError ''TRACE_PARENT_FORWARD_REFERENCE''
                 (''parentRunEventId must reference a strictly earlier event; offending child index '' @ nat_str i
                  @ '', parent index '' @ nat_str k @ ''.''))
               else check_parents m (Suc i) evs))"

definition assertValidRunEventParentGraph :: "run_event list \<Rightarrow> js_error + unit" where
  "assertValidRunEventParentGraph runEvents =
     throws_bind (index_ids 0 runEvents []) (\<lambda>m. check_parents m 0 runEvents)"

section \<open>Nodes\<close>

datatype trace_step_kind =
    KindSkipped
  | KindBranchTaken
  | KindBranchSkipped
  | KindFailed
  | KindSuccess
  | KindNeutral
  | KindDivergentObservations
  | KindRepeatedObservation

fun trace_kind_text :: "trace_step_kind \<Rightarrow> string" where
  "trace_kind_text KindSkipped = ''skipped''"
| "trace_kind_text KindBranchTaken = ''branch_taken''"
| "trace_kind_text KindBranchSkipped = ''branch_skipped''"
| "trace_kind_text KindFailed = ''failed''"
| "trace_kind_text KindSuccess = ''success''"
| "trace_kind_text KindNeutral = ''neutral''"
| "trace_kind_text KindDivergentObservations = ''divergent_observations''"
| "trace_kind_text KindRepeatedObservation = ''repeated_observation''"

record verification_link =
  vl_stepIndex :: nat
  vl_seq :: int
  vl_engineStepStatus :: step_status
  vl_truthOutcomeLabel :: string

record trace_node =
  tn_ingestIndex :: nat
  tn_runEventId :: string
  tn_wireSchemaVersion :: nat
  tn_wireType :: string
  tn_parentRunEventId :: "string option"
  tn_traceStepKind :: trace_step_kind
  tn_toolSeq :: "int option"
  tn_toolId :: "string option"
  tn_verificationLink :: "verification_link option"

datatype backward_path =
    WorkflowTerminal string "string list"
  | VerificationStep string "string list" nat int

fun path_chain :: "backward_path \<Rightarrow> string list" where
  "path_chain (WorkflowTerminal seed chain) = chain"
| "path_chain (VerificationStep seed chain i s) = chain"

record trace_view =
  tv_workflowId :: string
  tv_completed :: bool
  tv_malformedEventLineCount :: nat
  tv_nodes :: "trace_node list"
  tv_backwardPaths :: "backward_path list"

definition indexed :: "'a list \<Rightarrow> (nat \<times> 'a) list" where
  "indexed xs = zip [0..<length xs] xs"

definition tool_indices :: "run_event list \<Rightarrow> (int \<times> nat) list" where
  "tool_indices runEvents =
     List.map_filter (\<lambda>(i, ev). case ev of ToolObserved t \<Rightarrow> Some (te_seq t, i) | _ \<Rightarrow> None) (indexed runEvents)"

text \<open>The last index of each sequence number.\<close>

definition last_ingest :: "run_event list \<Rightarrow> int \<Rightarrow> nat option" where
  "last_ingest runEvents s = map_of (rev (tool_indices runEvents)) s"

fun control_step_kind :: "control_kind \<Rightarrow> control_decision option \<Rightarrow> trace_step_kind" where
  "control_step_kind k d =
     (if (k = CkBranch \<or> k = CkGate) \<and> d = Some Taken then KindBranchTaken
      else if (k = CkBranch \<or> k = CkGate) \<and> d = Some Skipped then KindBranchSkipped
      else if k = CkInterrupt then KindFailed
      else if k = CkRunCompleted then KindSuccess
      else KindNeutral)"

fun model_step_kind :: "model_turn_status \<Rightarrow> trace_step_kind" where
  "model_step_kind MtError = KindFailed"
| "model_step_kind MtCompleted = KindSuccess"
| "model_step_kind MtAborted = KindFailed"
| "model_step_kind MtIncomplete = KindFailed"

fun retrieval_step_kind :: "retrieval_status \<Rightarrow> trace_step_kind" where
  "retrieval_step_kind RtError = KindFailed"
| "retrieval_step_kind RtOk = KindSuccess"
| "retrieval_step_kind RtEmpty = KindNeutral"

definition tool_step_kind ::
  "bool \<Rightarrow> logical_step_plan option \<Rightarrow> verification_link option \<Rightarrow> trace_step_kind" where
  "tool_step_kind isLast plan link =
     (if (case plan of None \<Rightarrow> False | Some p \<Rightarrow> lp_divergent p) \<and> isLast then KindDivergentObservations
      else if (case plan of None \<Rightarrow> False | Some p \<Rightarrow> 1 < lp_repeatObservationCount p) \<and> \<not> isLast
      then KindRepeatedObservation
      else (case link of
          None \<Rightarrow> KindNeutral
        | Some l \<Rightarrow> if isLast then (if vl_engineStepStatus l = Verified then KindSuccess else KindFailed) else KindNeutral))"

definition deriveTraceStepKind ::
  "run_event \<Rightarrow> nat \<Rightarrow> (int \<Rightarrow> nat option) \<Rightarrow> logical_step_plan list \<Rightarrow> verification_link option \<Rightarrow> trace_step_kind" where
  "deriveTraceStepKind ev i last_of plans link =
     (case ev of
        ToolSkipped _ _ _ \<Rightarrow> KindSkipped
      | Control _ k _ d \<Rightarrow> control_step_kind k d
      | ModelTurn _ st _ \<Rightarrow> model_step_kind st
      | Retrieval _ _ st _ _ \<Rightarrow> retrieval_step_kind st
      | ToolObserved t \<Rightarrow> tool_step_kind (last_of (te_seq t) = Some i)
          (map_of (rev (map (\<lambda>p. (lp_seq p, p)) plans)) (te_seq t)) link)"

text \<open>Only events of wire version 2 keep their identifier and their parent.\<close>

definition nodeRunEventId :: "run_event \<Rightarrow> nat \<Rightarrow> string" where
  "nodeRunEventId ev i =
     (if event_schemaVersion ev = 2 then (case graph_id ev of None \<Rightarrow> [] | Some k \<Rightarrow> k) else ''syn:'' @ nat_str i)"

definition resolvedParentRunEventId :: "run_event \<Rightarrow> string option" where
  "resolvedParentRunEventId ev = (if event_schemaVersion ev \<noteq> 2 then None else graph_parent ev)"

text \<open>Walking up from an event until there is no parent, or one is met again.\<close>

function ancestor_chain :: "(string \<times> trace_node) list \<Rightarrow> string list \<Rightarrow> string \<Rightarrow> string list" where
  "ancestor_chain idToNode visited cur =
     (if cur \<in> set visited then []
      else cur # (case map_of idToNode cur of
          None \<Rightarrow> []
        | Some n \<Rightarrow> (case tn_parentRunEventId n of
            None \<Rightarrow> []
          | Some p \<Rightarrow> ancestor_chain idToNode (cur # visited) p)))"
  by pat_completeness auto
termination
proof (relation "measure (\<lambda>(m, visited, cur). card (set (map fst m) - set visited))", goal_cases)
  case 1
  then show ?case by simp
next
  case (2 m visited cur n p)
  then have "cur \<in> set (map fst m) - set visited" by (force dest: map_of_SomeD)
  then have "set (map fst m) - set (cur # visited) \<subset> set (map fst m) - set visited" by auto
  then show ?case by (simp add: psubset_card_mono)
qed

declare ancestor_chain.simps [simp del]

definition buildAncestorChain :: "string \<Rightarrow> (string \<times> trace_node) list \<Rightarrow> string list" where
  "buildAncestorChain seedId idToNode = ancestor_chain idToNode [] seedId"

section \<open>The view\<close>

text \<open>The link of the last observation of each step's sequence number; of two the later step's.\<close>

definition link_of :: "workflow_result \<Rightarrow> nat \<Rightarrow> step_outcome \<Rightarrow> verification_link" where
  "link_of r i step =
     \<lparr>vl_stepIndex = i, vl_seq = so_seq step, vl_engineStepStatus = so_status step,
      vl_truthOutcomeLabel = (if i < length (wt_steps (wr_truth r)) then ts_outcomeLabel (wt_steps (wr_truth r) ! i)
        else ''UNKNOWN'')\<rparr>"

definition links_of :: "(int \<Rightarrow> nat option) \<Rightarrow> workflow_result option \<Rightarrow> (nat \<times> verification_link) list" where
  "links_of last_of r =
     (case r of
        None \<Rightarrow> []
      | Some w \<Rightarrow> List.map_filter (\<lambda>(i, step). map_option (\<lambda>k. (k, link_of w i step)) (last_of (so_seq step)))
          (indexed (er_steps (wr_engine w))))"

definition build_node ::
  "(int \<Rightarrow> nat option) \<Rightarrow> logical_step_plan list \<Rightarrow> (nat \<times> verification_link) list \<Rightarrow> nat \<times> run_event \<Rightarrow> trace_node" where
  "build_node last_of plans links e =
     (case e of (i, ev) \<Rightarrow>
       let link = map_of (rev links) i
       in \<lparr>tn_ingestIndex = i, tn_runEventId = nodeRunEventId ev i, tn_wireSchemaVersion = event_schemaVersion ev,
           tn_wireType = event_type ev, tn_parentRunEventId = resolvedParentRunEventId ev,
           tn_traceStepKind = deriveTraceStepKind ev i last_of plans link,
           tn_toolSeq = (case ev of ToolObserved t \<Rightarrow> Some (te_seq t) | _ \<Rightarrow> None),
           tn_toolId = (case ev of ToolObserved t \<Rightarrow> Some (te_toolId t) | ToolSkipped _ t _ \<Rightarrow> Some t | _ \<Rightarrow> None),
           tn_verificationLink = (case ev of
               ToolObserved t \<Rightarrow> if last_of (te_seq t) = Some i then link else None
             | _ \<Rightarrow> None)\<rparr>)"

definition id_to_node :: "trace_node list \<Rightarrow> (string \<times> trace_node) list" where
  "id_to_node nodes = rev (map (\<lambda>n. (tn_runEventId n, n)) nodes)"

definition terminal_path :: "trace_node list \<Rightarrow> backward_path list" where
  "terminal_path nodes =
     (if nodes = [] then []
      else let seed = tn_runEventId (last nodes) in [WorkflowTerminal seed (buildAncestorChain seed (id_to_node nodes))])"

definition step_path ::
  "(int \<Rightarrow> nat option) \<Rightarrow> trace_node list \<Rightarrow> nat \<times> step_outcome \<Rightarrow> backward_path option" where
  "step_path last_of nodes e =
     (case e of (i, step) \<Rightarrow> map_option (\<lambda>k.
        let seed = tn_runEventId (nodes ! k)
        in VerificationStep seed (buildAncestorChain seed (id_to_node nodes)) i (so_seq step)) (last_of (so_seq step)))"

definition run_completed :: "run_event list \<Rightarrow> bool" where
  "run_completed runEvents =
     (if runEvents = [] then False
      else (case last runEvents of Control _ k _ _ \<Rightarrow> k = CkRunCompleted | _ \<Rightarrow> False))"

definition observed_tools :: "run_event list \<Rightarrow> tool_event list" where
  "observed_tools runEvents =
     List.map_filter (\<lambda>ev. case ev of ToolObserved t \<Rightarrow> Some t | _ \<Rightarrow> None) runEvents"

definition trace_nodes :: "host \<Rightarrow> run_event list \<Rightarrow> workflow_result option \<Rightarrow> trace_node list" where
  "trace_nodes h runEvents r =
     map (build_node (last_ingest runEvents) (planLogicalSteps h (observed_tools runEvents))
         (links_of (last_ingest runEvents) r)) (indexed runEvents)"

definition buildExecutionTraceView ::
  "host \<Rightarrow> string \<Rightarrow> run_event list \<Rightarrow> nat \<Rightarrow> workflow_result option \<Rightarrow> js_error + trace_view" where
  "buildExecutionTraceView h workflowId runEvents malformed r =
     throws_bind (assertValidRunEventParentGraph runEvents) (\<lambda>_.
       case (case r of None \<Rightarrow> None | Some w \<Rightarrow>
               if er_workflowId (wr_engine w) \<noteq> workflowId then Some (er_workflowId (wr_engine w)) else None) of
         Some other \<Rightarrow> Inl (TruthLayerError ''WORKFLOW_RESULT_SCHEMA_INVALID'' (''WorkflowResult.workflowId ('' @ other
           @ '') does not match trace workflowId ('' @ workflowId @ '').''))
       | None \<Rightarrow> let nodes = trace_nodes h runEvents r in Inr
           \<lparr>tv_workflowId = workflowId, tv_completed = run_completed runEvents,
            tv_malformedEventLineCount = malformed, tv_nodes = nodes,
            tv_backwardPaths = terminal_path nodes
              @ (case r of None \<Rightarrow> []
                 | Some w \<Rightarrow> List.map_filter (step_path (last_ingest runEvents) nodes) (indexed (er_steps (wr_engine w))))\<rparr>)"

section \<open>The trace as text\<close>

definition link_text :: "verification_link option \<Rightarrow> string" where
  "link_text l =
     (case l of None \<Rightarrow> []
      | Some v \<Rightarrow> '' step='' @ nat_str (vl_stepIndex v) @ '' engineStatus='' @ status_text (vl_engineStepStatus v)
          @ '' truth='' @ vl_truthOutcomeLabel v)"

definition node_line :: "trace_node \<Rightarrow> string" where
  "node_line n =
     ''  ['' @ nat_str (tn_ingestIndex n) @ ''] id='' @ tn_runEventId n @ '' type='' @ tn_wireType n
     @ '' kind='' @ trace_kind_text (tn_traceStepKind n) @ '' parent='' @ or_else (tn_parentRunEventId n) ''null''
     @ '' seq='' @ (case tn_toolSeq n of None \<Rightarrow> ''-'' | Some s \<Rightarrow> int_str s) @ link_text (tn_verificationLink n)"

fun path_line :: "backward_path \<Rightarrow> string" where
  "path_line (WorkflowTerminal seed chain) = ''  workflow_terminal seed='' @ seed @ '' chain='' @ join '' -> '' chain"
| "path_line (VerificationStep seed chain i s) =
     ''  verification_step stepIndex='' @ nat_str i @ '' seq='' @ int_str s @ '' seed='' @ seed
     @ '' chain='' @ join '' -> '' chain"

definition formatExecutionTraceText :: "trace_view \<Rightarrow> string" where
  "formatExecutionTraceText v =
     join [CHR 0x0A] ([''workflowId='' @ tv_workflowId v,
       ''runCompletion='' @ (if tv_completed v then ''completed'' else ''unknown_or_interrupted''),
       ''malformedEventLineCount='' @ nat_str (tv_malformedEventLineCount v), ''nodes:'']
       @ map node_line (tv_nodes v) @ [''backwardPaths:''] @ map path_line (tv_backwardPaths v)) @ [CHR 0x0A]"

section \<open>Two traces\<close>

record evaluated_node =
  en_ingestIndex :: nat
  en_traceStepKind :: trace_step_kind
  en_engineStepStatus :: "step_status option"
  en_truthOutcomeLabel :: "string option"
  en_toolId :: "string option"

datatype seq_class = OnlyInPrior | OnlyInCurrent | InBoth

record seq_row =
  sq_seq :: int
  sq_class :: seq_class
  sq_prior :: "evaluated_node option"
  sq_current :: "evaluated_node option"

definition summaryFromNode :: "trace_node \<Rightarrow> evaluated_node" where
  "summaryFromNode n =
     \<lparr>en_ingestIndex = tn_ingestIndex n, en_traceStepKind = tn_traceStepKind n,
      en_engineStepStatus = map_option vl_engineStepStatus (tn_verificationLink n),
      en_truthOutcomeLabel = map_option vl_truthOutcomeLabel (tn_verificationLink n), en_toolId = tn_toolId n\<rparr>"

text \<open>The observations of each sequence number, in insertion order.\<close>

definition seq_add :: "(int \<times> trace_node list) list \<Rightarrow> trace_node \<Rightarrow> (int \<times> trace_node list) list" where
  "seq_add m n =
     (case tn_toolSeq n of
        None \<Rightarrow> m
      | Some s \<Rightarrow> if tn_wireType n \<noteq> ''tool_observed'' then m
          else AList.update s ((case map_of m s of None \<Rightarrow> [] | Some ns \<Rightarrow> ns) @ [n]) m)"

definition chosen_node :: "trace_node list \<Rightarrow> trace_node" where
  "chosen_node ns =
     (case List.find (\<lambda>n. tn_verificationLink n \<noteq> None) ns of
        Some n \<Rightarrow> n
      | None \<Rightarrow> foldl (\<lambda>a b. if tn_ingestIndex b \<le> tn_ingestIndex a then a else b) (hd ns) (tl ns))"

definition buildSeqToEvaluated :: "trace_view \<Rightarrow> (int \<times> evaluated_node) list" where
  "buildSeqToEvaluated v =
     map (\<lambda>(s, ns). (s, summaryFromNode (chosen_node ns))) (foldl seq_add [] (tv_nodes v))"

definition type_add :: "(string \<times> nat) list \<Rightarrow> string \<Rightarrow> (string \<times> nat) list" where
  "type_add c k = AList.update k ((case map_of c k of None \<Rightarrow> 0 | Some n \<Rightarrow> n) + 1) c"

definition nonToolCountsForView :: "trace_view \<Rightarrow> (string \<times> nat) list" where
  "nonToolCountsForView v =
     foldl type_add [] (filter (\<lambda>k. k \<noteq> ''tool_observed'') (map tn_wireType (tv_nodes v)))"

definition seqTimelineList :: "(int \<times> evaluated_node) list \<Rightarrow> int list" where
  "seqTimelineList m =
     map fst (js_sort (\<lambda>a b. int (en_ingestIndex (snd a)) - int (en_ingestIndex (snd b)))
       (js_sort (\<lambda>a b. fst a - fst b) m))"

definition seq_row_of :: "(int \<times> evaluated_node) list \<Rightarrow> (int \<times> evaluated_node) list \<Rightarrow> int \<Rightarrow> seq_row" where
  "seq_row_of prior current s =
     (let p = map_of prior s; c = map_of current s
      in \<lparr>sq_seq = s,
          sq_class = (if p \<noteq> None \<and> c = None then OnlyInPrior else if p = None \<and> c \<noteq> None then OnlyInCurrent else InBoth),
          sq_prior = p, sq_current = c\<rparr>)"

record trace_pairwise =
  tw_priorRunIndex :: nat
  tw_currentRunIndex :: nat
  tw_prior :: trace_view
  tw_current :: trace_view
  tw_bySeq :: "seq_row list"
  tw_seqTimelineOrderDiverged :: bool
  tw_nonToolPrior :: "(string \<times> nat) list"
  tw_nonToolCurrent :: "(string \<times> nat) list"

definition buildTracePairwisePayload :: "trace_view \<Rightarrow> trace_view \<Rightarrow> nat \<Rightarrow> nat \<Rightarrow> trace_pairwise" where
  "buildTracePairwisePayload prior current priorRun currentRun =
     (let p = buildSeqToEvaluated prior; c = buildSeqToEvaluated current
      in \<lparr>tw_priorRunIndex = priorRun, tw_currentRunIndex = currentRun, tw_prior = prior, tw_current = current,
          tw_bySeq = map (seq_row_of p c) (js_sort (\<lambda>a b. a - b) (js_unique (map fst p @ map fst c))),
          tw_seqTimelineOrderDiverged = (seqTimelineList p \<noteq> seqTimelineList c),
          tw_nonToolPrior = nonToolCountsForView prior, tw_nonToolCurrent = nonToolCountsForView current\<rparr>)"

end
