(* ===== verification/Gate.thy ===== *)
theory Gate
  imports ExecutionTrace
begin

text \<open>
  The runtime gates (\<open>src/decisionGate.ts\<close>, \<open>src/langGraphCheckpointTrustGate.ts\<close>): run events
  are buffered, verified on demand, and an irreversible action is let through only on a
  certificate that permits it; otherwise a record of the decision is sent
  (\<open>src/finalizeIrreversibleTrustBlock.ts\<close>, \<open>src/commercial/trustDecisionRecord.ts\<close>) and the
  gate throws. Verification of the buffer is \<open>src/verifyRunStateFromBufferedRunEvents.ts\<close>.
\<close>

section \<open>The database a URL names\<close>

definition url_scheme :: "string list \<Rightarrow> string \<Rightarrow> bool" where
  "url_scheme schemes s \<longleftrightarrow> list_ex (\<lambda>p. starts_with (p @ ''://'') (toLowerCase s)) schemes"

definition parseVerificationDatabaseUrl :: "(string \<Rightarrow> string) \<Rightarrow> string \<Rightarrow> verification_database" where
  "parseVerificationDatabaseUrl resolve url =
     (let t = js_trim url
      in if url_scheme [''postgres'', ''postgresql''] t then VerificationDatabase DbPostgres t
         else if url_scheme [''mysql'', ''mysql2''] t then VerificationDatabase DbMysql t
         else if url_scheme [''bigquery''] t then VerificationDatabase DbBigquery t
         else if url_scheme [''sqlserver'', ''mssql''] t then VerificationDatabase DbSqlserver t
         else VerificationDatabase DbSqlite (resolve t))"

section \<open>The record of a blocked decision\<close>

datatype gate_kind = ContractSqlIrreversible | LanggraphCheckpointTerminal

record problem_snapshot =
  ps_seq :: int
  ps_tool_id :: string
  ps_observed_trunc :: string
  ps_expected_trunc :: string

record certificate_snapshot =
  sn_workflow_id :: string
  sn_run_kind :: run_kind
  sn_state_relation :: state_relation
  sn_high_stakes_reliance :: reliance
  sn_reason_codes :: "string list"
  sn_first_problem :: "problem_snapshot option"

record routing =
  ro_routing_key :: string
  ro_team :: "string option"
  ro_owner_slug :: "string option"

record trust_record =
  tr_trust_decision :: trust_decision
  tr_gate_kind :: gate_kind
  tr_routing :: routing
  tr_certificate_snapshot :: certificate_snapshot
  tr_human_blocker_lines :: "string list"

definition truncateUtf16CodeUnits :: "string \<Rightarrow> nat \<Rightarrow> string" where
  "truncateUtf16CodeUnits s n =
     (let t = (if length s \<le> n then s else take (n - 1) s @ [ELLIPSIS]) in if length t \<le> n then t else take n t)"

definition sortedUniqueReasonCodes :: "host \<Rightarrow> (string \<times> string) list \<Rightarrow> string list" where
  "sortedUniqueReasonCodes h details =
     take 24 (map (\<lambda>c. if 256 < length c then take 255 c @ [ELLIPSIS] else c) (sortUniqueCodes h (map fst details)))"

definition problem_of :: "certificate_step \<Rightarrow> problem_snapshot" where
  "problem_of s =
     \<lparr>ps_seq = cs_seq s, ps_tool_id = or_else (cs_toolId s) ''unknown'',
      ps_observed_trunc = truncateUtf16CodeUnits (cs_observedOutcome s) 512,
      ps_expected_trunc = truncateUtf16CodeUnits (cs_expectedOutcome s) 512\<rparr>"

definition buildCertificateSnapshotV1 :: "host \<Rightarrow> certificate \<Rightarrow> certificate_snapshot" where
  "buildCertificateSnapshotV1 h c =
     \<lparr>sn_workflow_id = oc_workflowId c, sn_run_kind = oc_runKind c, sn_state_relation = oc_stateRelation c,
      sn_high_stakes_reliance = oc_highStakesReliance c, sn_reason_codes = sortedUniqueReasonCodes h (oc_details c),
      sn_first_problem = map_option problem_of (firstProblemStepForCertificate c)\<rparr>"

text \<open>An optional text that is left out when it is empty.\<close>

definition non_empty :: "string option \<Rightarrow> string option" where
  "non_empty x = (case x of Some [] \<Rightarrow> None | _ \<Rightarrow> x)"

definition MAX_TRUST_DECISION_RECORD_UTF8 :: nat where
  "MAX_TRUST_DECISION_RECORD_UTF8 = 65536"

text \<open>\<open>bytes\<close> is the length of the record's JSON text in UTF-8.\<close>

definition buildTrustDecisionRecordV1 ::
  "host \<Rightarrow> (trust_record \<Rightarrow> nat) \<Rightarrow> certificate \<Rightarrow> gate_kind \<Rightarrow> string \<Rightarrow> string option \<Rightarrow> string option \<Rightarrow> string option
     \<Rightarrow> js_error + trust_record" where
  "buildTrustDecisionRecordV1 h bytes c kind fallback ownerKey team slug =
     (let r = \<lparr>tr_trust_decision = trustDecisionFromCertificate c, tr_gate_kind = kind,
            tr_routing = \<lparr>ro_routing_key = or_else ownerKey fallback, ro_team = non_empty team,
              ro_owner_slug = non_empty slug\<rparr>,
            tr_certificate_snapshot = buildCertificateSnapshotV1 h c,
            tr_human_blocker_lines = split_on (CHR 0x0A)
              (formatEvidenceCompletenessHuman (oc_evidenceCompleteness c) (oc_runKind c) (oc_highStakesReliance c))\<rparr>
      in if MAX_TRUST_DECISION_RECORD_UTF8 < bytes r
         then Inl (JsError (''buildTrustDecisionRecordV1: record exceeds MAX_TRUST_DECISION_RECORD_UTF8 (''
           @ nat_str (bytes r) @ '' > '' @ nat_str MAX_TRUST_DECISION_RECORD_UTF8 @ '')''))
         else Inr r)"

section \<open>A gate\<close>

text \<open>
  What a gate is created with: the database and policy it resolved, the readers of events and of
  the registry, the schema of certificates, the routing of its records, and \<open>post\<close>, the sending
  of a record, which never throws.
\<close>

record 'w gate_env =
  ge_runtime :: "'w runtime"
  ge_logStep :: "'w logger"
  ge_truthReport :: "string \<Rightarrow> ('w, unit) io"
  ge_decode :: "jsval \<Rightarrow> run_event option"
  ge_decodeReg :: "jsval \<Rightarrow> string + registry_entry list"
  ge_schema :: schema_validator
  ge_registryFile :: "js_error + string"
  ge_database :: verification_database
  ge_policy :: policy
  ge_workflowId :: string
  ge_ownerRoutingKey :: "string option"
  ge_routingTeam :: "string option"
  ge_ownerSlug :: "string option"
  ge_bytes :: "trust_record \<Rightarrow> nat"
  ge_post :: "trust_record \<Rightarrow> 'w \<Rightarrow> 'w"

definition create_gate :: "(string \<Rightarrow> string) \<Rightarrow> policy option \<Rightarrow> string \<Rightarrow> 'w gate_env \<Rightarrow> js_error + 'w gate_env" where
  "create_gate resolve input url env =
     throws_bind (resolveVerificationPolicyInput input) (\<lambda>pol.
       Inr (env\<lparr>ge_policy := pol, ge_database := parseVerificationDatabaseUrl resolve url\<rparr>))"

record gate_state =
  gs_bufferedRunEvents :: "run_event list"
  gs_runLevelReasons :: "reason list"

definition gate_empty :: gate_state where
  "gate_empty = \<lparr>gs_bufferedRunEvents = [], gs_runLevelReasons = []\<rparr>"

definition gate_malformed :: "gate_state \<Rightarrow> gate_state" where
  "gate_malformed s = s\<lparr>gs_runLevelReasons := gs_runLevelReasons s @ [runLevelIssue MALFORMED_EVENT_LINE]\<rparr>"

definition appendRunEvent :: "(jsval \<Rightarrow> run_event option) \<Rightarrow> string \<Rightarrow> gate_state \<Rightarrow> jsval \<Rightarrow> gate_state" where
  "appendRunEvent decode workflowId s v =
     (if \<not> is_object v then gate_malformed s
      else (case decode v of
          None \<Rightarrow> gate_malformed s
        | Some ev \<Rightarrow> if event_workflowId ev \<noteq> workflowId then s
            else s\<lparr>gs_bufferedRunEvents := gs_bufferedRunEvents s @ [ev]\<rparr>))"

text \<open>The states a gate can be in: those a sequence of calls of \<open>appendRunEvent\<close> leads to.\<close>

inductive gate_reachable :: "(jsval \<Rightarrow> run_event option) \<Rightarrow> string \<Rightarrow> gate_state \<Rightarrow> bool" for decode workflowId where
  created: "gate_reachable decode workflowId gate_empty"
| appended: "gate_reachable decode workflowId s \<Longrightarrow> gate_reachable decode workflowId (appendRunEvent decode workflowId s v)"

definition assertEmissionQuality :: "gate_state \<Rightarrow> js_error + unit" where
  "assertEmissionQuality s =
     (if gs_runLevelReasons s \<noteq> []
      then Inl (TruthLayerError ''EMIT_LINT_FAILED'' ''Buffered run events contain malformed inputs from appendRunEvent.'')
      else if gs_bufferedRunEvents s = []
      then Inl (TruthLayerError ''EMIT_LINT_FAILED'' ''No buffered run events are available for emission-quality checks.'')
      else assertValidRunEventParentGraph (gs_bufferedRunEvents s))"

section \<open>Verification of the buffer\<close>

definition emitWorkflowResult :: "host \<Rightarrow> (string \<Rightarrow> ('w, unit) io) \<Rightarrow> engine_result \<Rightarrow> ('w, workflow_result) io" where
  "emitWorkflowResult h truthReport engine =
     io_bind (io_lift (formatWorkflowTruthReport h engine)) (\<lambda>text.
     io_bind (truthReport text) (\<lambda>_. io_lift (finalizeEmittedWorkflowResult h engine)))"

definition buffered_load :: "host \<Rightarrow> gate_state \<Rightarrow> load_result" where
  "buffered_load h s =
     (if gs_bufferedRunEvents s = []
      then \<lparr>ld_events = [], ld_runEvents = [], ld_runLevelReasons = gs_runLevelReasons s,
        ld_eventSequenceIntegrity = IntegrityNormal, ld_malformedEventLineCount = 0,
        ld_counts = \<lparr>ec_nonEmptyLines = 0, ec_schemaValidEvents = 0, ec_toolObservedRequested = 0, ec_toolObservedOther = 0\<rparr>\<rparr>
      else let candidates = List.map_filter as_tool_observed (gs_bufferedRunEvents s);
               prepared = prepareWorkflowEvents h candidates
        in \<lparr>ld_events = fst prepared, ld_runEvents = gs_bufferedRunEvents s, ld_runLevelReasons = gs_runLevelReasons s,
          ld_eventSequenceIntegrity = snd prepared, ld_malformedEventLineCount = 0,
          ld_counts = \<lparr>ec_nonEmptyLines = 0, ec_schemaValidEvents = 0, ec_toolObservedRequested = length candidates,
            ec_toolObservedOther = 0\<rparr>\<rparr>)"

definition verifyRunStateFromBufferedRunEvents :: "host \<Rightarrow> 'w gate_env \<Rightarrow> gate_state \<Rightarrow> ('w, workflow_result) pio" where
  "verifyRunStateFromBufferedRunEvents h env s =
     (if gs_bufferedRunEvents s = [] \<and> gs_runLevelReasons s = []
      then pio_of (io_throw (JsError ''verifyRunStateFromBufferedRunEvents: empty buffer and no run-level reasons''))
      else pio_bind (pio_of (io_lift (loadToolsRegistry h (ge_decodeReg env) (ge_registryFile env)))) (\<lambda>reg.
           pio_bind (verifyRunStateFromEvents h (ge_runtime env) (ge_logStep env) (ge_database env) (ge_policy env)
               (ge_workflowId env) reg (buffered_load h s))
             (\<lambda>engine. pio_of (emitWorkflowResult h (ge_truthReport env) engine))))"

text \<open>A certificate is built, and validated once more before it is handed out.\<close>

definition validated :: "schema_validator \<Rightarrow> js_error + certificate \<Rightarrow> js_error + certificate" where
  "validated errors built =
     throws_bind built (\<lambda>c. case errors c of
         None \<Rightarrow> Inr c
       | Some t \<Rightarrow> Inl (TruthLayerError ''WORKFLOW_RESULT_SCHEMA_INVALID'' t))"

section \<open>Passing the gate\<close>

text \<open>\<open>GateBlocked\<close> is the \<open>TrustDecisionBlockedError\<close> the gate throws.\<close>

datatype gate_outcome = GateOpen | GateBlocked trust_record certificate

definition finalizeIrreversibleBlockThrow ::
  "host \<Rightarrow> 'w gate_env \<Rightarrow> gate_kind \<Rightarrow> string \<Rightarrow> certificate \<Rightarrow> ('w, gate_outcome) io" where
  "finalizeIrreversibleBlockThrow h env kind fallback c =
     io_bind (io_lift (buildTrustDecisionRecordV1 h (ge_bytes env) c kind fallback (ge_ownerRoutingKey env)
         (ge_routingTeam env) (ge_ownerSlug env)))
       (\<lambda>r w. (Inr (GateBlocked r c), ge_post env r w))"

definition gate_on ::
  "host \<Rightarrow> 'w gate_env \<Rightarrow> gate_kind \<Rightarrow> string \<Rightarrow> (certificate \<Rightarrow> bool) \<Rightarrow> certificate \<Rightarrow> ('w, gate_outcome) io" where
  "gate_on h env kind fallback passes c =
     (if passes c then io_return GateOpen else finalizeIrreversibleBlockThrow h env kind fallback c)"

section \<open>The decision gate\<close>

definition evaluate :: "host \<Rightarrow> 'w gate_env \<Rightarrow> gate_state \<Rightarrow> ('w, workflow_result) pio" where
  "evaluate h env s =
     (if gs_bufferedRunEvents s = [] \<and> gs_runLevelReasons s = []
      then pio_of (io_throw (TruthLayerError ''CLI_USAGE''
        ''DecisionGate.evaluate requires at least one buffered run event for the workflow.''))
      else verifyRunStateFromBufferedRunEvents h env s)"

definition evaluateCertificate :: "host \<Rightarrow> 'w gate_env \<Rightarrow> gate_state \<Rightarrow> ('w, certificate) pio" where
  "evaluateCertificate h env s =
     pio_bind (evaluate h env s) (\<lambda>r.
       pio_of (io_lift (validated (ge_schema env) (buildOutcomeCertificateFromWorkflowResult h (ge_schema env) r))))"

definition trust_safe :: "certificate \<Rightarrow> bool" where
  "trust_safe c \<longleftrightarrow> trustDecisionFromCertificate c = Safe"

definition assertSafeForIrreversibleAction :: "host \<Rightarrow> 'w gate_env \<Rightarrow> gate_state \<Rightarrow> ('w, gate_outcome) pio" where
  "assertSafeForIrreversibleAction h env s =
     pio_bind (evaluateCertificate h env s) (\<lambda>c.
       pio_of (gate_on h env ContractSqlIrreversible (ge_workflowId env) trust_safe c))"

section \<open>The LangGraph checkpoint gate\<close>

text \<open>\<open>None\<close> is eligible; otherwise the reasons of the certificate.\<close>

definition classifyLangGraphCheckpointTrustEligibility :: "reason list \<Rightarrow> tool_event list \<Rightarrow> reason list option" where
  "classifyLangGraphCheckpointTrustEligibility runLevelReasons tools =
     (if runLevelReasons \<noteq> [] then Some runLevelReasons
      else if tools = [] then Some [runLevelIssue NO_STEPS_FOR_WORKFLOW]
      else if list_ex (\<lambda>t. wire_schemaVersion (te_wire t) \<noteq> 3) tools
      then Some [runLevelIssue LANGGRAPH_CHECKPOINT_TRUST_NON_V3_TOOL_OBSERVED]
      else None)"

definition lgRowBPasses :: "certificate \<Rightarrow> bool" where
  "lgRowBPasses c \<longleftrightarrow>
     (case oc_checkpointVerdicts c of
        None \<Rightarrow> False
      | Some vs \<Rightarrow> vs \<noteq> [] \<and> list_all (\<lambda>v. cv_verdict v = CheckpointVerified) vs
          \<and> oc_stateRelation c = MatchesExpectations \<and> oc_highStakesReliance c = Permitted \<and> trust_safe c)"

definition runCheckpointTrust :: "host \<Rightarrow> 'w gate_env \<Rightarrow> gate_state \<Rightarrow> ('w, certificate) pio" where
  "runCheckpointTrust h env s =
     (if gs_bufferedRunEvents s = [] \<and> gs_runLevelReasons s = []
      then pio_of (io_throw (TruthLayerError ''CLI_USAGE''
        ''LangGraphCheckpointTrustGate.runCheckpointTrust requires at least one buffered run event for the workflow.''))
      else (case classifyLangGraphCheckpointTrustEligibility (gs_runLevelReasons s)
              (List.map_filter as_tool_observed (gs_bufferedRunEvents s)) of
          Some reasons \<Rightarrow> pio_of (io_lift (validated (ge_schema env)
            (buildIneligibleLangGraphCheckpointTrustCertificate h (ge_schema env) (ge_workflowId env) reasons)))
        | None \<Rightarrow> pio_bind (verifyRunStateFromBufferedRunEvents h env s) (\<lambda>r. pio_of (io_lift (validated (ge_schema env)
            (buildOutcomeCertificateLangGraphCheckpointTrustFromWorkflowResult h (ge_schema env) r))))))"

definition assertLangGraphCheckpointProductionGate ::
  "host \<Rightarrow> 'w gate_env \<Rightarrow> certificate \<Rightarrow> ('w, gate_outcome) io" where
  "assertLangGraphCheckpointProductionGate h env c =
     (if oc_runKind c \<noteq> ContractSqlLanggraphCheckpointTrust
      then io_throw (JsError ''assertLangGraphCheckpointProductionGate: certificate.runKind must be contract_sql_langgraph_checkpoint_trust'')
      else gate_on h env LanggraphCheckpointTerminal (oc_workflowId c) lgRowBPasses c)"

definition langGraphProductionGate :: "host \<Rightarrow> 'w gate_env \<Rightarrow> gate_state \<Rightarrow> ('w, gate_outcome) pio" where
  "langGraphProductionGate h env s =
     pio_bind (runCheckpointTrust h env s) (\<lambda>c. pio_of (assertLangGraphCheckpointProductionGate h env c))"

end
