(* ===== verification/ReportProperties.thy ===== *)
theory ReportProperties
  imports TruthReport AnalysisProperties
begin

text \<open>
  When a run can be reported: on the results of the engine everything the report quotes has a
  text, so that building it fails exactly when the policy has no text, which is the case of
  the bounded one.
\<close>

section \<open>Quoting evidence\<close>

lemma plain_member:
  "plain_evidence ev \<Longrightarrow> map_of ev k = Some v \<Longrightarrow> plain_entry (k, v)"
  unfolding plain_evidence_def list_all_iff by (drule map_of_SomeD) blast

lemma scalar_described: "\<not> is_object v \<Longrightarrow> \<exists>d. scalarToDetail h v = Inr d"
  by (simp add: scalarToDetail_def)

lemma throws_map_total: "(\<And>x. x \<in> set xs \<Longrightarrow> \<exists>y. f x = Inr y) \<Longrightarrow> \<exists>ys. throws_map f xs = Inr ys"
proof (induction xs)
  case (Cons x xs)
  obtain y where "f x = Inr y" using Cons.prems [of x] by auto
  moreover obtain ys where "throws_map f xs = Inr ys" using Cons by auto
  ultimately show ?case by simp
qed simp

lemma members_described:
  assumes "plain_evidence ev"
  shows "\<exists>d. describe_members h ev = Inr d"
  unfolding describe_members_def
proof (rule throws_map_total)
  fix kv assume "kv \<in> set (own_members ev)"
  then obtain k v where kv: "kv = (k, v)" and k: "k \<in> {''field'', ''expected'', ''actual'', ''rowCount''}"
    and v: "map_of ev k = Some v"
    unfolding own_members_def by (force simp: List.map_filter_def split: if_splits)
  from plain_member [OF assms v] k have "\<not> is_object v" by auto
  then obtain d where "scalarToDetail h v = Inr d" using scalar_described by blast
  then show "\<exists>y. (case kv of (k, v) \<Rightarrow> throws_bind (scalarToDetail h v) (\<lambda>d. Inr (k, d))) = Inr y"
    by (simp add: kv)
qed

lemma observed_state_total:
  assumes "plain_evidence (so_evidence s)"
  shows "\<exists>t. formatBatchObservedStateSummary h s = Inr t"
proof -
  have "map_of (so_evidence s) ''planTransition'' = None"
    using plain_member [OF assms, of "''planTransition''"] by (cases "map_of (so_evidence s) ''planTransition''") auto
  then have "get_prop (VObj (so_evidence s)) ''planTransition'' \<noteq> VBool True"
    by (simp add: inherited_def proto_methods_def)
  then show ?thesis by (simp add: formatBatchObservedStateSummary_def)
qed

lemma cast_reason_val: "\<exists>q. cast_reason (reason_val r) = Inr q"
  by (cases "rs_field r") (simp_all add: cast_reason_def reason_val_def inherited_def proto_methods_def)

lemma truth_effects_total:
  assumes "plain_evidence ev"
  shows "\<exists>es. truth_effects ev = Inr es"
proof -
  have "\<exists>y. truth_effect_of e = Inr y" if e: "e \<in> set (parseEffects ev)" for e
  proof -
    obtain rows where read: "get_prop (VObj ev) ''effects'' = VArr rows"
      and filtered: "e \<in> set (List.map_filter parse_effect rows)"
      using e by (cases "get_prop (VObj ev) ''effects''") (auto simp: parseEffects_def simp del: get_prop.simps)
    have own: "map_of ev ''effects'' = Some (VArr rows)"
      using read by (simp add: inherited_def proto_methods_def split: option.splits)
    obtain v where v: "v \<in> set rows" "parse_effect v = Some e"
      using filtered by (auto simp: List.map_filter_def)
    have "effect_shaped v"
      using plain_member [OF assms own] v(1) by (simp add: list_all_iff)
    then obtain rs where rs: "pe_reasons e = map reason_val rs"
      using v(2) by (auto simp: effect_shaped_def parse_effect_def)
    have "\<exists>qs. throws_map cast_reason (pe_reasons e) = Inr qs"
      unfolding rs using cast_reason_val by (intro throws_map_total) auto
    then show ?thesis by (auto simp: truth_effect_of_def split: option.split)
  qed
  then obtain es where "throws_map truth_effect_of (parseEffects ev) = Inr es"
    using throws_map_total [of "parseEffects ev"] by blast
  then show ?thesis by (simp add: truth_effects_def)
qed

definition explained_step :: "step_outcome \<Rightarrow> bool" where
  "explained_step s \<longleftrightarrow> explained (so_status s) (so_reasons s) (so_evidence s)"

lemma truth_step_total:
  assumes "explained_step s"
  obtains t where "buildTruthStep h s = Inr t" and "ts_seq t = so_seq s" and "ts_toolId t = so_toolId s"
    and "ts_outcomeLabel t = step_label (so_status s)"
proof -
  have plain: "plain_evidence (so_evidence s)" using assms by (simp add: explained_step_def explained_def)
  obtain d where d: "failureDiagnosticForStep (so_status s) (so_reasons s) = Inr d"
    using explained_classifiable [OF assms [unfolded explained_step_def]] by (auto simp: classifiable_def)
  have "\<exists>c. failure_category_of s = Inr c"
    using d by (simp add: failure_category_of_def split: option.split)
  then show thesis
    using observed_state_total [OF plain, of h] truth_effects_total [OF plain] that
    by (force simp: buildTruthStep_def)
qed

section \<open>Explaining a failure\<close>

lemma map_of_selected:
  "map_of (List.map_filter (\<lambda>k. map_option (Pair k) (map_of m k)) ks) k = (if k \<in> set ks then map_of m k else None)"
  by (induction ks) (auto simp: List.map_filter_simps split: option.split)

lemma known_fact:
  "k \<in> set KNOWN_FACT_ORDER \<Longrightarrow> map_of (assembleKnownFacts m) k = map_of m k"
  by (simp add: assembleKnownFacts_def map_of_selected)

lemma primary_scope_fact:
  "map_of (assembleKnownFacts (base_facts h truth P fa e0 @ facts)) ''primary_scope'' = Some (scope_text (ei_scope e0))"
proof -
  have "''primary_scope'' \<in> set KNOWN_FACT_ORDER" by (simp add: KNOWN_FACT_ORDER_def)
  then show ?thesis by (simp add: known_fact base_facts_def addPrimaryEvidenceFacts_def)
qed

definition CONTEXT_CODES :: "string list" where
  "CONTEXT_CODES = [''RETRIEVAL_ERROR'', ''MODEL_TURN_ERROR'', ''MODEL_TURN_ABORTED'', ''MODEL_TURN_INCOMPLETE'',
     ''CONTROL_INTERRUPT'', ''CONTROL_BRANCH_SKIPPED'', ''CONTROL_GATE_SKIPPED'', ''TOOL_SKIPPED'']"

text \<open>The primary item of the evidence, by the place a failure is attributed to.\<close>

definition primary_item :: "engine_result \<Rightarrow> evidence_item \<Rightarrow> bool" where
  "primary_item r e0 \<longleftrightarrow> ei_codes e0 \<noteq> [] \<and>
     (case ei_scope e0 of
        ScopeRunLevel \<Rightarrow> True
      | ScopeEventSequence \<Rightarrow> True
      | ScopeRunContext \<Rightarrow> ei_ingestIndex e0 \<noteq> None \<and> (\<exists>c \<in> set CONTEXT_CODES. ei_codes e0 = [c])
      | ScopeStep \<Rightarrow> (\<exists>d \<in> set (er_steps r). so_status d \<noteq> Verified \<and> ei_seq e0 = Some (so_seq d) \<and>
          ei_toolId e0 = Some (so_toolId d) \<and> (\<exists>c t. c \<in> set (step_codes t) \<and> ei_codes e0 = [c]))
      | ScopeEffect \<Rightarrow> False)"

lemma context_item:
  assumes "analyse_context ctx i = Some fa"
  obtains e0 es where "fa_evidence fa = e0 # es" and "primary_item r e0"
proof -
  have "\<exists>e0 es. fa_evidence fa = e0 # es \<and> primary_item r e0"
    using assms
    by (auto simp: analyse_context_def Let_def context_evidence_def evidence_of_def primary_item_def CONTEXT_CODES_def
        find_Some_iff branch_or_gate_skipped_def before_def split: list.splits option.splits prod.splits)
  then show thesis using that by blast
qed

lemma step_item:
  assumes "d \<in> set (er_steps r)" and "so_status d \<noteq> Verified" and "c \<in> set (step_codes t)"
  shows "primary_item r (step_evidence d c)"
  using assms by (auto simp: primary_item_def step_evidence_def evidence_of_def)

lemma analyse_step_evidence:
  "fa_evidence (analyse_step h d c) = step_evidence d c # effect_evidence h d c"
  by (simp add: analyse_step_def Let_def)

lemma attributed_item:
  assumes "attributed h r fa" and acc: "accounted r"
  obtains e0 es where "fa_evidence fa = e0 # es" and "primary_item r e0"
  using assms(1)
proof cases
  case at_run_level
  then show thesis
    by (intro that) (auto simp: analyse_run_level_def Let_def evidence_of_def primary_item_def)
next
  case (at_context i)
  then show thesis by (rule context_item) (rule that)
next
  case (at_sequence rs)
  then have "rs \<noteq> []" using acc by (auto simp: accounted_def)
  with at_sequence show thesis
    by (intro that) (auto simp: analyse_sequence_def Let_def evidence_of_def primary_item_def)
next
  case (at_step d c t)
  then have "primary_item r (step_evidence d c)" using driver_member by (blast intro: step_item)
  with at_step show thesis by (intro that) (simp_all add: analyse_step_evidence)
qed

lemma message_total:
  assumes "explained_step s"
  shows "\<exists>m. msgReasonForDriverStep h s c = Inr m"
proof (cases "is_rollup s \<and> Some c \<noteq> first_code (so_reasons s)")
  case True
  have "effects_listed (so_reasons s) (so_evidence s)" using assms by (simp add: explained_step_def explained_def)
  then obtain x xs where fe: "failing_effects h s = parsed_row x # xs"
    by (rule failing_effect_of_rollup [of s h]) (use True in auto)
  have "\<exists>m. cast_message (reason_val q) = Inr m" for q by (simp add: cast_message_def reason_val_def)
  with True fe show ?thesis
    by (auto simp: msgReasonForDriverStep_def reason_code_val split: list.split)
next
  case False
  then show ?thesis by (simp only: msgReasonForDriverStep_def if_False) blast
qed

lemma list_all2_partner: "list_all2 P xs ys \<Longrightarrow> x \<in> set xs \<Longrightarrow> \<exists>y \<in> set ys. P x y"
  by (induction rule: list_all2_induct) auto

lemma find_total: "x \<in> set xs \<Longrightarrow> P x \<Longrightarrow> \<exists>y. List.find P xs = Some y \<and> y \<in> set xs"
  by (induction xs) auto

text \<open>Steps of the engine and of the report, side by side.\<close>

definition reported_steps :: "host \<Rightarrow> engine_result \<Rightarrow> truth_step list \<Rightarrow> bool" where
  "reported_steps h r ts \<longleftrightarrow> throws_map (buildTruthStep h) (er_steps r) = Inr ts"

lemma accounted_steps: "accounted r \<Longrightarrow> s \<in> set (er_steps r) \<Longrightarrow> explained_step s"
  by (auto simp: accounted_def explained_step_def list_all_iff)

lemma reported_answer:
  assumes acc: "accounted r" and rep: "reported_steps h r ts"
  shows "list_all2 (\<lambda>s t. ts_seq t = so_seq s \<and> ts_toolId t = so_toolId s
      \<and> ts_outcomeLabel t = step_label (so_status s)) (er_steps r) ts"
  using rep unfolding reported_steps_def throws_map_Inr_list_all2
proof (rule list.rel_mono_strong)
  fix s t assume "s \<in> set (er_steps r)" and built: "buildTruthStep h s = Inr t"
  then have "explained_step s" using accounted_steps acc by blast
  from truth_step_total [OF this, of h] built
  show "ts_seq t = so_seq s \<and> ts_toolId t = so_toolId s \<and> ts_outcomeLabel t = step_label (so_status s)"
    by auto
qed

lemma driver_found:
  assumes acc: "accounted r" and rep: "reported_steps h r ts" and d: "d \<in> set (er_steps r)"
  obtains s t where "List.find (\<lambda>s. so_seq s = so_seq d \<and> so_toolId s = so_toolId d) (er_steps r) = Some s"
    and "List.find (\<lambda>s. ts_seq s = so_seq d \<and> ts_toolId s = so_toolId d) ts = Some t" and "explained_step s"
proof -
  obtain s where s: "List.find (\<lambda>s. so_seq s = so_seq d \<and> so_toolId s = so_toolId d) (er_steps r) = Some s"
    and "s \<in> set (er_steps r)"
    using find_total [OF d, of "\<lambda>s. so_seq s = so_seq d \<and> so_toolId s = so_toolId d"] by blast
  then have "explained_step s" using acc accounted_steps by blast
  moreover obtain t where "t \<in> set ts" "ts_seq t = so_seq d" "ts_toolId t = so_toolId d"
    using list_all2_partner [OF reported_answer [OF acc rep] d] by blast
  with find_total [of t ts "\<lambda>s. ts_seq s = so_seq d \<and> ts_toolId s = so_toolId d"] obtain t'
    where "List.find (\<lambda>s. ts_seq s = so_seq d \<and> ts_toolId s = so_toolId d) ts = Some t'" by blast
  ultimately show thesis using s that by blast
qed

lemma explain_driver_total: "explained_step s \<Longrightarrow> \<exists>x. explain_driver h P s t c = Inr x"
  using message_total [of s h c] members_described [of "so_evidence s" h]
  by (auto simp: explain_driver_def Let_def explained_step_def explained_def)

lemma explain_scope_total:
  assumes acc: "accounted r" and rep: "reported_steps h r ts" and item: "primary_item r e0"
  shows "\<exists>x. explain_scope h r ts P e0 = Inr x"
proof (cases "ei_scope e0")
  case ScopeRunContext
  with item show ?thesis
    by (auto simp: explain_scope_def explain_run_context_def Let_def primary_item_def)
next
  case ScopeStep
  with item obtain d where d: "d \<in> set (er_steps r)" and e0: "ei_seq e0 = Some (so_seq d)" "ei_toolId e0 = Some (so_toolId d)"
    by (auto simp: primary_item_def)
  obtain s t where "List.find (\<lambda>s. so_seq s = so_seq d \<and> so_toolId s = so_toolId d) (er_steps r) = Some s"
    "List.find (\<lambda>s. ts_seq s = so_seq d \<and> ts_toolId s = so_toolId d) ts = Some t" "explained_step s"
    by (rule driver_found [OF acc rep d])
  then show ?thesis
    using explain_driver_total [of s] by (simp add: explain_scope_def ScopeStep explain_step_def e0)
next
  case ScopeEffect
  with item show ?thesis by (simp add: primary_item_def)
qed (unfold explain_scope_def, simp_all only: evidence_scope.case sum.inject ex_simps simp_thms)

lemma explanation_total:
  assumes acc: "accounted r" and bad: "er_status r \<noteq> Complete" and pol: "policyFragment h r = Inr P"
    and rep: "reported_steps h r (wt_steps truth)" and fa: "buildFailureAnalysis h r = Inr (Some fa)"
    and ev: "fa_evidence fa = e0 # es" and item: "primary_item r e0"
  obtains fe where "buildFailureExplanation h r truth = Inr (Some fe)"
    and "map_of (fe_knownFacts fe) ''primary_scope'' = Some (scope_text (ei_scope e0))"
proof -
  obtain a b c facts where x: "explain_scope h r (wt_steps truth) P e0 = Inr (a, b, c, facts)"
    using explain_scope_total [OF acc rep item, of P] by auto
  have "ei_codes e0 \<noteq> []" using item by (simp add: primary_item_def)
  then show thesis
    by (intro that, simp add: buildFailureExplanation_def bad pol fa explain_analysis_def ev x)
      (simp add: primary_scope_fact)
qed

lemma contract_total: "c \<in> set CONTEXT_CODES \<Longrightarrow> \<exists>k. mapRunContextCodeToContract c = Inr k"
  by (auto simp: CONTEXT_CODES_def mapRunContextCodeToContract_def)

lemma correctness_alignment [simp]:
  "cd_remediationAlignment (ingest_correctness w p cs b row) = row"
  "cd_remediationAlignment (capture_correctness w p cs row) = row"
  "cd_remediationAlignment (step_correctness w p d t cs row) = row"
  by (simp_all add: ingest_correctness_def capture_correctness_def step_correctness_def Let_def)

lemma correctness_total:
  assumes acc: "accounted r" and pol: "policyFragment h r = Inr P" and rep: "reported_steps h r ts"
    and scope: "map_of (fe_knownFacts fe) ''primary_scope'' = Some (scope_text (ei_scope e0))"
    and ev: "fa_evidence fa = e0 # es" and item: "primary_item r e0"
  shows "\<exists>cd. buildWorkflowCorrectnessDefinition h r fe (fa, af) ts = Inr cd
    \<and> cd_remediationAlignment cd = remediation (af_recommendedAction af) (af_automationSafe af)"
proof (cases "ei_scope e0")
  case ScopeRunContext
  with item obtain i c where i: "ei_ingestIndex e0 = Some i" and c: "c \<in> set CONTEXT_CODES" "ei_codes e0 = [c]"
    by (auto simp: primary_item_def)
  obtain k where "mapRunContextCodeToContract c = Inr k" using contract_total [OF c(1)] by blast
  with ScopeRunContext i c show ?thesis
    by (simp add: buildWorkflowCorrectnessDefinition_def scope pol ev context_correctness_def Let_def)
next
  case ScopeStep
  with item obtain d where d: "d \<in> set (er_steps r)" and e0: "ei_seq e0 = Some (so_seq d)" "ei_toolId e0 = Some (so_toolId d)"
    by (auto simp: primary_item_def)
  obtain s t where "List.find (\<lambda>s. so_seq s = so_seq d \<and> so_toolId s = so_toolId d) (er_steps r) = Some s"
    "List.find (\<lambda>s. ts_seq s = so_seq d \<and> ts_toolId s = so_toolId d) ts = Some t"
    by (rule driver_found [OF acc rep d])
  with ScopeStep e0 show ?thesis
    by (simp add: buildWorkflowCorrectnessDefinition_def scope pol ev driver_correctness_def Let_def)
qed (use item in \<open>simp_all add: primary_item_def buildWorkflowCorrectnessDefinition_def scope pol ev Let_def\<close>)

section \<open>The report\<close>

lemma sequence_issues_total:
  assumes "accounted r"
  shows "\<exists>x. event_sequence_issues (er_eventSequenceIntegrity r) = Inr x"
proof (cases "er_eventSequenceIntegrity r")
  case (IntegrityIrregular rs)
  have "\<exists>y. sequence_issue q = Inr y" if "q \<in> set rs" for q
  proof -
    have "rs_code q \<in> {CAPTURE_ORDER_CODE, TIMESTAMP_NOT_MONOTONIC_CODE}"
      using assms that IntegrityIrregular by (auto simp: accounted_def list_all_iff)
    then show ?thesis
      by (auto simp: sequence_issue_def failureDiagnosticForEventSequenceCode_def EVENT_SEQUENCE_CODES_def)
  qed
  then have "\<exists>ys. throws_map sequence_issue rs = Inr ys" by (intro throws_map_total)
  with IntegrityIrregular show ?thesis by (auto simp: event_sequence_issues_def)
qed (simp add: event_sequence_issues_def)

lemma base_total:
  assumes acc: "accounted r" and fa: "buildFailureAnalysis h r = Inr fa"
  obtains truth where "build_truth_base h r = Inr truth" and "reported_steps h r (wt_steps truth)"
    and "wt_failureAnalysis truth = map_option (\<lambda>a. (a, deriveActionableFailureWorkflow r a)) fa"
    and "wt_trustSummary truth = trustSummaryForEngine r"
proof -
  have "\<exists>y. buildTruthStep h s = Inr y" if "s \<in> set (er_steps r)" for s
    by (rule truth_step_total [OF accounted_steps [OF acc that], of h]) blast
  then obtain ts where ts: "throws_map (buildTruthStep h) (er_steps r) = Inr ts"
    using throws_map_total [of "er_steps r"] by blast
  obtain x where "event_sequence_issues (er_eventSequenceIntegrity r) = Inr x"
    using sequence_issues_total [OF acc] by blast
  then have "\<exists>truth. build_truth_base h r = Inr truth \<and> reported_steps h r (wt_steps truth)
      \<and> wt_failureAnalysis truth = map_option (\<lambda>a. (a, deriveActionableFailureWorkflow r a)) fa
      \<and> wt_trustSummary truth = trustSummaryForEngine r"
    by (simp add: build_truth_base_def fa findings_result ts reported_steps_def)
  then show thesis using that by blast
qed

lemma trusted_iff: "starts_with ''TRUSTED'' (trustSummaryForEngine r) \<longleftrightarrow> er_status r = Complete"
  by (cases "er_status r")
    (simp_all add: trustSummaryForEngine_def trustLineBaseForEngine_def only_uncertain_def starts_with_def
      TRUST_LINE_UNCERTAIN_WITHIN_WINDOW_def)

text \<open>What a report says of the run it is built from.\<close>

definition report_answers :: "engine_result \<Rightarrow> truth_report \<Rightarrow> bool" where
  "report_answers r t \<longleftrightarrow>
     (wt_failureAnalysis t = None \<longleftrightarrow> er_status r = Complete)
     \<and> (wt_failureExplanation t = None \<longleftrightarrow> er_status r = Complete)
     \<and> (wt_correctnessDefinition t = None \<longleftrightarrow> er_status r = Complete)
     \<and> (starts_with ''TRUSTED'' (wt_trustSummary t) \<longleftrightarrow> er_status r = Complete)
     \<and> list_all2 (\<lambda>s q. ts_seq q = so_seq s \<and> ts_toolId q = so_toolId s
          \<and> ts_outcomeLabel q = step_label (so_status s)) (er_steps r) (wt_steps t)
     \<and> pred_option (\<lambda>cd. map_option (\<lambda>(a, f). remediation (af_recommendedAction f) (af_automationSafe f))
          (wt_failureAnalysis t) = Some (cd_remediationAlignment cd)) (wt_correctnessDefinition t)"

lemma report_complete:
  assumes acc: "accounted r" and complete: "er_status r = Complete"
  shows "\<exists>t. buildWorkflowTruthReport h r = Inr t \<and> report_answers r t"
proof -
  have none: "buildFailureAnalysis h r = Inr None" by (simp add: buildFailureAnalysis_def complete)
  obtain truth where "build_truth_base h r = Inr truth" and rep: "reported_steps h r (wt_steps truth)"
    and "wt_failureAnalysis truth = None" "wt_trustSummary truth = trustSummaryForEngine r"
    by (rule base_total [OF acc none]) simp
  with reported_answer [OF acc rep] complete show ?thesis
    by (simp add: buildWorkflowTruthReport_def buildFailureExplanation_def correctness_of_def report_answers_def
        truth_base.defs trusted_iff)
qed

lemma report_failed:
  assumes acc: "accounted r" and bad: "er_status r \<noteq> Complete"
  shows "case policyFragment h r of
      Inl e \<Rightarrow> buildWorkflowTruthReport h r = Inl e
    | Inr P \<Rightarrow> \<exists>t. buildWorkflowTruthReport h r = Inr t \<and> report_answers r t"
proof -
  obtain fa where fa: "buildFailureAnalysis h r = Inr (Some fa)" and att: "attributed h r fa"
    by (rule analysis_attributed [OF acc bad])
  obtain truth where base: "build_truth_base h r = Inr truth" and rep: "reported_steps h r (wt_steps truth)"
    and an: "wt_failureAnalysis truth = Some (fa, deriveActionableFailureWorkflow r fa)"
    and tr: "wt_trustSummary truth = trustSummaryForEngine r"
    by (rule base_total [OF acc fa]) simp
  obtain e0 es where ev: "fa_evidence fa = e0 # es" and item: "primary_item r e0"
    by (rule attributed_item [OF att acc])
  show ?thesis
  proof (cases "policyFragment h r")
    case (Inl e)
    then show ?thesis by (simp add: buildWorkflowTruthReport_def base buildFailureExplanation_def bad)
  next
    case (Inr P)
    obtain fe where fe: "buildFailureExplanation h r truth = Inr (Some fe)"
      and scope: "map_of (fe_knownFacts fe) ''primary_scope'' = Some (scope_text (ei_scope e0))"
      by (rule explanation_total [OF acc bad Inr rep fa ev item])
    obtain cd where cd: "buildWorkflowCorrectnessDefinition h r fe (fa, deriveActionableFailureWorkflow r fa)
        (wt_steps truth) = Inr cd"
      and al: "cd_remediationAlignment cd = remediation (af_recommendedAction (deriveActionableFailureWorkflow r fa))
        (af_automationSafe (deriveActionableFailureWorkflow r fa))"
      using correctness_total [OF acc Inr rep scope ev item] by blast
    show ?thesis
      using reported_answer [OF acc rep] bad
      by (simp add: Inr buildWorkflowTruthReport_def base fe correctness_of_def an cd al tr report_answers_def
          truth_base.defs trusted_iff)
  qed
qed

text \<open>The policy of a finished run is a valid one: only the bounded policy has no text.\<close>

lemma valid_policy_text:
  assumes "resolveVerificationPolicyInput input = Inr pol"
  shows "(\<exists>P. policyFragment_of h pol = Inr P) \<longleftrightarrow> \<not> is_bounded pol"
proof -
  have fin: "positive_integer n \<Longrightarrow> num_is_finite n" for n
    by (auto simp: positive_integer_def elim: num_is_integerE)
  show ?thesis
    using assms fin
    by (cases input; cases pol)
      (auto simp: resolveVerificationPolicyInput_def Let_def throws_bind_Inr_iff DEFAULT_VERIFICATION_POLICY_def
        assert_polling_def policy_text_def split: if_splits elim!: normalizeVerificationPolicy.elims)
qed

lemma verifyRun_policy:
  assumes "verifyRunStateFromEvents h rt lg database pol wid reg ld w = Some (Inr r, w')"
  shows "er_verificationPolicy r = pol"
  using assms
  by (auto simp: verifyRunStateFromEvents_def pio_bind_Inr_iff aggregateWorkflow_def Let_def throws_bind_Inr_iff)

lemma report_of_run:
  assumes "verifyWorkflow h rt lg decode decodeReg database input wid eventsFile registryFile w = Some (Inr r, w')"
  shows "case buildWorkflowTruthReport h r of
      Inr t \<Rightarrow> report_answers r t \<and> (er_status r = Complete \<or> \<not> is_bounded (er_verificationPolicy r))
    | Inl e \<Rightarrow> e = policy_invalid_for_explanation \<and> er_status r \<noteq> Complete
        \<and> is_bounded (er_verificationPolicy r)"
proof -
  have acc: "accounted r" by (rule verifyWorkflow_accounted [OF assms])
  have pol: "resolveVerificationPolicyInput input = Inr (er_verificationPolicy r)"
    by (rule verifyWorkflow_result [OF assms]) (simp add: verifyRun_policy)
  show ?thesis
  proof (cases "er_status r = Complete")
    case True
    then obtain t where "buildWorkflowTruthReport h r = Inr t" "report_answers r t"
      using report_complete [OF acc] by blast
    with True show ?thesis by simp
  next
    case False
    show ?thesis
    proof (cases "is_bounded (er_verificationPolicy r)")
      case bounded: True
      then have "policyFragment h r = Inl policy_invalid_for_explanation"
        by (cases "er_verificationPolicy r") (simp_all add: policyFragment_def)
      with report_failed [OF acc False, of h] bounded False show ?thesis by simp
    next
      case nb: False
      then obtain P where "policyFragment h r = Inr P"
        using valid_policy_text [OF pol, of h] by (auto simp: policyFragment_def)
      with report_failed [OF acc False, of h] nb show ?thesis by auto
    qed
  qed
qed

section \<open>Lines of the human report\<close>

lemma split_on_append: "split_on c (a @ c # b) = split_on c a @ split_on c b"
proof (induction a)
  case (Cons x a)
  then show ?case by (cases "split_on c a") auto
qed simp

lemma split_on_join: "xs \<noteq> [] \<Longrightarrow> split_on c (join [c] xs) = concat (map (split_on c) xs)"
proof (induction "[c]" xs rule: join.induct)
  case (3 x y xs)
  then show ?case by (simp add: split_on_append)
qed simp_all

lemma line_of_text:
  assumes "l \<in> set lines" and "l = a @ c # L @ c # b" and "c \<notin> set L"
  shows "L \<in> set (split_on c (join [c] lines))"
proof -
  have "L \<in> set (split_on c l)" by (simp add: assms(2,3) split_on_append split_on_no_sep)
  moreover have "lines \<noteq> []" using assms(1) by auto
  ultimately show ?thesis using assms(1) by (auto simp: split_on_join)
qed

lemma reason_line_in_report:
  assumes "report_lines h t = Inr lines" and "q \<in> set (wt_steps t)" and "x \<in> set (ts_reasons q)"
  shows "set (human_reason_lines ''    '' x) \<subseteq> set lines"
proof -
  have "set (human_reason_lines ''    '' x) \<subseteq> set (step_lines phrases q)" for phrases
    using assms(3) by (auto simp: step_lines_def Let_def)
  with assms(1,2) show ?thesis
    by (fastforce simp: report_lines_def throws_bind_Inr_iff)
qed

lemma trimmed: "\<not> is_ws a \<Longrightarrow> \<not> is_ws b \<Longrightarrow> js_trim (a # s @ [b]) = a # s @ [b]"
  by (simp add: js_trim_def)

text \<open>The rows of a message that a report prints unchanged.\<close>

lemma message_lines:
  assumes built: "formatWorkflowTruthReportStruct h t = Inr report" and q: "q \<in> set (wt_steps t)"
    and x: "mk_reason c (a # pre @ CHR 0x0A # L @ CHR 0x0A # post @ [b]) \<in> set (ts_reasons q)"
    and ws: "\<not> is_ws a" "\<not> is_ws b" and L: "CHR 0x0A \<notin> set L"
  shows "L \<in> set (split_on (CHR 0x0A) report)"
proof -
  let ?m = "a # (pre @ CHR 0x0A # L @ CHR 0x0A # post) @ [b]"
  obtain lines where lines: "report_lines h t = Inr lines" and report: "report = join [CHR 0x0A] lines"
    using built by (auto simp: formatWorkflowTruthReportStruct_def throws_bind_Inr_iff)
  have "or_no_message ?m = ?m" using trimmed [OF ws, of "pre @ CHR 0x0A # L @ CHR 0x0A # post"] by (simp add: or_no_message_def)
  then have "''    detail: '' @ ?m \<in> set (human_reason_lines ''    '' (mk_reason c ?m))"
    by (simp add: human_reason_lines_def)
  then have "''    detail: '' @ ?m \<in> set lines"
    using reason_line_in_report [OF lines q, of "mk_reason c ?m"] x by auto
  from line_of_text [OF this, of "''    detail: '' @ a # pre" "CHR 0x0A" L "post @ [b]"] L report
  show ?thesis by simp
qed

end
