(* ===== verification/CertificateProperties.thy ===== *)
theory CertificateProperties
  imports Certificate ReportProperties
begin

text \<open>
  A certificate is built for every run that has a report: none of the invariants it is checked
  for can fail but the JSON schema, and its trust decision is that of the run.
\<close>

section \<open>The completeness block\<close>

lemma js_includes_append: "js_includes p (a @ p @ b)"
proof (induction a)
  case Nil
  show ?case
  proof (cases "p @ b")
    case Nil
    then show ?thesis by simp
  next
    case (Cons c cs)
    have "starts_with p (p @ b)" by (simp add: starts_with_def)
    with Cons show ?thesis by simp
  qed
qed simp

lemma push_keeps_head:
  "\<exists>ys. push_lines more_lines (b # xs) = b # ys" "\<exists>ys. push_group heading items (b # xs) = b # ys"
  "\<exists>ys. push_items ec (b # xs) = b # ys"
  by (simp_all add: push_lines_def push_group_def push_items_def)

lemma completeness_begins: "\<exists>rest. completeness_lines ec = EVIDENCE_COMPLETENESS_BEGIN # rest"
proof -
  obtain a where a: "push_group ''Verified:'' (take 8 (ec_verifiedClaims ec))
      [EVIDENCE_COMPLETENESS_BEGIN, ''Blocker: '' @ gap_text (ec_blockerCategory ec),
       ''Quick signal: '' @ quick_signal_text (ec_quickSignal ec)] = EVIDENCE_COMPLETENESS_BEGIN # a"
    using push_keeps_head(2) by blast
  obtain b where b: "push_group ''Not verified:'' (take 8 (ec_unverifiedClaims ec)) (EVIDENCE_COMPLETENESS_BEGIN # a)
      = EVIDENCE_COMPLETENESS_BEGIN # b"
    using push_keeps_head(2) by blast
  obtain c where c: "push_group ''Missing input:'' (map (\<lambda>(c, hint). c @ '': '' @ hint) (take 4 (ec_missingInputs ec)))
      (EVIDENCE_COMPLETENESS_BEGIN # b) = EVIDENCE_COMPLETENESS_BEGIN # c"
    using push_keeps_head(2) by blast
  have "\<exists>ys. push_lines ls ((EVIDENCE_COMPLETENESS_BEGIN # c) @ xs) = EVIDENCE_COMPLETENESS_BEGIN # ys" for ls xs
    using push_keeps_head(1) by simp
  then obtain d where d: "push_lines (map (\<lambda>(_, text). ''  - '' @ text) (ec_nextActions ec))
      ((EVIDENCE_COMPLETENESS_BEGIN # c) @ [''Next:'']) = EVIDENCE_COMPLETENESS_BEGIN # d"
    by blast
  show ?thesis unfolding completeness_lines_def a b c d by (rule push_keeps_head(3))
qed

lemma begin_kept: "redactEvidenceString EVIDENCE_COMPLETENESS_BEGIN 2048 = EVIDENCE_COMPLETENESS_BEGIN"
  by code_simp

lemma block_begins: "\<exists>rest. formatEvidenceCompletenessHuman ec k rel = EVIDENCE_COMPLETENESS_BEGIN @ rest"
proof -
  obtain rest where rest: "completeness_lines ec = EVIDENCE_COMPLETENESS_BEGIN # rest"
    using completeness_begins by blast
  have join_head: "\<exists>ys. join s (x # xs) = x @ ys" for s x xs by (cases xs) simp_all
  show ?thesis
    unfolding formatEvidenceCompletenessHuman_def Let_def rest using join_head by (simp add: begin_kept)
qed

lemma anchors_present: "js_includes EVIDENCE_COMPLETENESS_BEGIN (with_spine (appendEvidenceCompletenessHuman base ec k rel) spine)"
proof -
  obtain rest where "formatEvidenceCompletenessHuman ec k rel = EVIDENCE_COMPLETENESS_BEGIN @ rest"
    using block_begins by blast
  then have "with_spine (appendEvidenceCompletenessHuman base ec k rel) spine
      = (base @ [CHR 0x0A, CHR 0x0A]) @ EVIDENCE_COMPLETENESS_BEGIN @ (rest @ [CHR 0x0A, CHR 0x0A] @ formatFailureSpineHuman spine)"
    by (simp add: with_spine_def appendEvidenceCompletenessHuman_def)
  then show ?thesis by (simp only: js_includes_append)
qed

section \<open>Remediation\<close>

lemma items_when_analysed:
  assumes "wt_failureAnalysis (wr_truth r) \<noteq> None"
  shows "rd_remediationItems (deriveRemediationDecisionFromWorkflowResult h r) \<noteq> []"
  using assms
  by (auto simp: deriveRemediationDecisionFromWorkflowResult_def buildWorkflowRemediationItems_def Let_def
      item_context_of_def split: option.split)

lemma completeness_of_failed:
  fixes h r
  defines "ec \<equiv> buildEvidenceCompletenessFromWorkflowResult h r (deriveRemediationDecisionFromWorkflowResult h r)"
  assumes "wt_failureAnalysis (wr_truth r) = None \<longleftrightarrow> er_status (wr_engine r) = Complete"
  shows "items_of ec = [] \<longleftrightarrow> er_status (wr_engine r) = Complete"
    and "ec_rerunPath ec = None \<longleftrightarrow> er_status (wr_engine r) = Complete"
proof -
  show "ec_rerunPath ec = None \<longleftrightarrow> er_status (wr_engine r) = Complete"
    using assms(2) by (simp add: ec_def buildEvidenceCompletenessFromWorkflowResult_def Let_def)
  show "items_of ec = [] \<longleftrightarrow> er_status (wr_engine r) = Complete"
    using assms(2) items_when_analysed [of r h]
    by (simp add: ec_def buildEvidenceCompletenessFromWorkflowResult_def Let_def items_of_def)
qed

section \<open>The certificate\<close>

definition trust_of_status :: "workflow_status \<Rightarrow> trust_decision" where
  "trust_of_status st = (case st of Complete \<Rightarrow> Safe | InconsistentWorkflow \<Rightarrow> Unsafe | Incomplete \<Rightarrow> UnknownTrust)"

lemma certificate_built:
  assumes truth: "wt_failureAnalysis (wr_truth r) = None \<longleftrightarrow> er_status (wr_engine r) = Complete"
    and printed: "formatWorkflowTruthReportStruct h (wr_truth r) = Inr report" and k: "k \<noteq> QuickPreview"
  shows "\<exists>c. workflow_certificate h errors r k vs
      = (case errors c of None \<Rightarrow> Inr c | Some t \<Rightarrow> Inl (JsError (''outcome_certificate: schema validation failed '' @ t)))
    \<and> trustDecisionFromCertificate c = trust_of_status (er_status (wr_engine r))
    \<and> (items_of (oc_evidenceCompleteness c) = [] \<longleftrightarrow> er_status (wr_engine r) = Complete)
    \<and> map cs_seq (oc_steps c) = map ts_seq (wt_steps (wr_truth r))"
proof -
  let ?d = "deriveRemediationDecisionFromWorkflowResult h r" and ?rel = "workflowResultToStateRelation r"
  let ?reliance = "deriveHighStakesReliance k ?rel"
  let ?ec = "buildEvidenceCompletenessFromWorkflowResult h r ?d"
  let ?spine = "buildFailureSpineFromWorkflowResult h r k ?rel ?reliance ?d"
  let ?c = "\<lparr>oc_workflowId = er_workflowId (wr_engine r), oc_runKind = k, oc_stateRelation = ?rel,
            oc_highStakesReliance = ?reliance, oc_releaseCriticalVerdict = releaseCriticalVerdictFromWorkflowResult r,
            oc_relianceRationale = buildRelianceRationale k ?rel ?reliance, oc_intentSummary = wt_trustSummary (wr_truth r),
            oc_headline = headline_of (wr_truth r), oc_details = details_of r,
            oc_steps = map truthStepToCertificateStep (wt_steps (wr_truth r)),
            oc_humanReport = with_spine (appendEvidenceCompletenessHuman
              (report @ (case vs of None \<Rightarrow> [] | Some vs \<Rightarrow> checkpoint_lines vs)) ?ec k ?reliance) ?spine,
            oc_evidenceCompleteness = ?ec, oc_failureSpine = ?spine, oc_checkpointVerdicts = vs,
            oc_correctnessDefinition = wt_correctnessDefinition (wr_truth r)\<rparr>"
  have built: "workflow_certificate h errors r k vs = asserted errors ?c"
    by (simp add: workflow_certificate_def printed Let_def)
  have rel: "?rel = MatchesExpectations \<longleftrightarrow> er_status (wr_engine r) = Complete"
    by (simp add: workflowResultToStateRelation_def split: workflow_status.split)
  have "assertOutcomeCertificateInvariants errors ?c
      = (case errors ?c of None \<Rightarrow> Inr () | Some t \<Rightarrow> Inl (JsError (''outcome_certificate: schema validation failed '' @ t)))"
    using completeness_of_failed [OF truth, of h] rel
    by (simp add: assertOutcomeCertificateInvariants_def Let_def anchors_present del: deriveHighStakesReliance.simps)
  then have "workflow_certificate h errors r k vs
      = (case errors ?c of None \<Rightarrow> Inr ?c | Some t \<Rightarrow> Inl (JsError (''outcome_certificate: schema validation failed '' @ t)))"
    unfolding built asserted_def by (simp split: option.split)
  moreover have "trustDecisionFromCertificate ?c = trust_of_status (er_status (wr_engine r))"
    using k by (cases "er_status (wr_engine r)")
      (simp_all add: trustDecisionFromCertificate_def trust_of_status_def workflowResultToStateRelation_def)
  moreover have "items_of (oc_evidenceCompleteness ?c) = [] \<longleftrightarrow> er_status (wr_engine r) = Complete"
    using completeness_of_failed [OF truth] by simp
  moreover have "map cs_seq (oc_steps ?c) = map ts_seq (wt_steps (wr_truth r))"
    by (simp add: truthStepToCertificateStep_def)
  ultimately show ?thesis by blast
qed

text \<open>A complete run has a printed report: there is no correctness definition to print.\<close>

lemma complete_report:
  assumes "accounted r" and "er_status r = Complete"
  obtains t report where "buildWorkflowTruthReport h r = Inr t" "wt_failureAnalysis t = None"
    "formatWorkflowTruthReportStruct h t = Inr report"
proof -
  from report_complete [OF assms] obtain t where t: "buildWorkflowTruthReport h r = Inr t" "report_answers r t" by blast
  with assms(2) have none: "wt_correctnessDefinition t = None" "wt_failureAnalysis t = None"
    by (simp_all add: report_answers_def)
  have "\<exists>report. formatWorkflowTruthReportStruct h t = Inr report"
    by (simp add: formatWorkflowTruthReportStruct_def report_lines_def none(1))
  with t(1) none(2) that show thesis by blast
qed

lemma certificate_of_complete:
  assumes "accounted r" and "er_status r = Complete" and "k \<noteq> QuickPreview" and accepted: "\<forall>c. errors c = None"
  obtains t report c where "buildWorkflowTruthReport h r = Inr t" "formatWorkflowTruthReportStruct h t = Inr report"
    "workflow_certificate h errors \<lparr>wr_engine = r, wr_truth = t\<rparr> k vs = Inr c" "trustDecisionFromCertificate c = Safe"
proof -
  obtain t report where t: "buildWorkflowTruthReport h r = Inr t" "wt_failureAnalysis t = None"
    "formatWorkflowTruthReportStruct h t = Inr report"
    by (rule complete_report [OF assms(1,2)])
  from certificate_built [of "\<lparr>wr_engine = r, wr_truth = t\<rparr>" h report k errors vs] t assms(2,3) obtain c where
    "workflow_certificate h errors \<lparr>wr_engine = r, wr_truth = t\<rparr> k vs
      = (case errors c of None \<Rightarrow> Inr c | Some t \<Rightarrow> Inl (JsError (''outcome_certificate: schema validation failed '' @ t)))"
    "trustDecisionFromCertificate c = trust_of_status (er_status r)" by auto
  with accepted assms(2) t that show thesis by (simp add: trust_of_status_def)
qed

end
