(* ===== verification/GateProperties.thy ===== *)
theory GateProperties
  imports Gate CertificateProperties
begin

text \<open>
  What a gate guarantees: its buffer holds events of its workflow only, and an action is let
  through only after a run in which every step was verified. The contract of a gate is a locale;
  the decision gate and the LangGraph gate provide it.
\<close>

section \<open>The buffer\<close>

lemma gate_buffer:
  assumes "gate_reachable decode workflow s"
  shows "list_all (\<lambda>e. event_workflowId e = workflow) (gs_bufferedRunEvents s)
    \<and> list_all (\<lambda>r. r = runLevelIssue MALFORMED_EVENT_LINE) (gs_runLevelReasons s)"
  using assms
  by induction (auto simp: gate_empty_def appendRunEvent_def gate_malformed_def split: option.split)

section \<open>The contract of a gate\<close>

locale trust_gate =
  fixes certify :: "'s \<Rightarrow> ('w, certificate) pio"
    and passes :: "certificate \<Rightarrow> bool"
    and block :: "certificate \<Rightarrow> ('w, gate_outcome) io"
    and decide :: "'s \<Rightarrow> ('w, gate_outcome) pio"
  assumes decide_def: "decide s = pio_bind (certify s) (\<lambda>c. pio_of (if passes c then io_return GateOpen else block c))"
    and block_closed: "block c w = (Inr out, w') \<Longrightarrow> \<exists>r. out = GateBlocked r c \<and> tr_trust_decision r = trustDecisionFromCertificate c"
    and passes_matching: "certify s w = Some (Inr c, w') \<Longrightarrow> passes c \<Longrightarrow> oc_stateRelation c = MatchesExpectations"
begin

lemma outcome:
  assumes "decide s w = Some (Inr out, w')"
  obtains c w1 where "certify s w = Some (Inr c, w1)" "out = GateOpen \<longleftrightarrow> passes c"
    "out = GateOpen \<or> (\<exists>r. out = GateBlocked r c \<and> tr_trust_decision r = trustDecisionFromCertificate c)"
proof -
  from assms obtain c w1 where c: "certify s w = Some (Inr c, w1)"
    and out: "(if passes c then io_return GateOpen else block c) w1 = (Inr out, w')"
    by (auto simp: decide_def pio_bind_Inr_iff)
  show thesis
  proof (rule that [OF c])
    show "out = GateOpen \<longleftrightarrow> passes c"
      using out block_closed [of c w1 out w'] by (auto simp: io_return_def split: if_splits)
    show "out = GateOpen \<or> (\<exists>r. out = GateBlocked r c \<and> tr_trust_decision r = trustDecisionFromCertificate c)"
      using out block_closed [of c w1 out w'] by (auto simp: io_return_def split: if_splits)
  qed
qed

lemma open_matches:
  assumes "decide s w = Some (Inr GateOpen, w')"
  obtains c w1 where "certify s w = Some (Inr c, w1)" "passes c" "oc_stateRelation c = MatchesExpectations"
  using outcome [OF assms] passes_matching by metis

end

section \<open>The two gates\<close>

lemma asserted_Inr: "asserted errors c = Inr c' \<Longrightarrow> c' = c"
  by (auto simp: asserted_def throws_bind_Inr_iff)

lemma validated_Inr: "validated errors built = Inr c \<Longrightarrow> built = Inr c"
  by (auto simp: validated_def throws_bind_Inr_iff split: option.splits)

lemma workflow_certificate_fields:
  assumes "workflow_certificate h errors r k vs = Inr c"
  shows "oc_runKind c = k" "oc_stateRelation c = workflowResultToStateRelation r"
    "oc_highStakesReliance c = deriveHighStakesReliance k (workflowResultToStateRelation r)"
    "oc_checkpointVerdicts c = vs"
  using assms by (auto simp: workflow_certificate_def throws_bind_Inr_iff Let_def dest!: asserted_Inr)

lemma blocked_outcome:
  "finalizeIrreversibleBlockThrow h env kind fallback c w = (Inr out, w')
     \<Longrightarrow> \<exists>r. out = GateBlocked r c \<and> tr_trust_decision r = trustDecisionFromCertificate c"
  by (auto simp: finalizeIrreversibleBlockThrow_def io_bind_Inr_iff io_lift_def buildTrustDecisionRecordV1_def Let_def
      split: if_splits)

lemma certificate_of_evaluation:
  assumes "evaluateCertificate h env s w = Some (Inr c, w')"
  obtains r where "evaluate h env s w = Some (Inr r, w')"
    "oc_stateRelation c = workflowResultToStateRelation r" "oc_runKind c = ContractSql"
    "oc_highStakesReliance c = deriveHighStakesReliance ContractSql (workflowResultToStateRelation r)"
proof -
  from assms obtain r w1 where r: "evaluate h env s w = Some (Inr r, w1)"
    and c: "io_lift (validated (ge_schema env) (buildOutcomeCertificateFromWorkflowResult h (ge_schema env) r)) w1 = (Inr c, w')"
    by (auto simp: evaluateCertificate_def pio_bind_Inr_iff)
  then have "workflow_certificate h (ge_schema env) r ContractSql None = Inr c" "w1 = w'"
    by (auto simp: io_lift_def buildOutcomeCertificateFromWorkflowResult_def dest: validated_Inr)
  with r workflow_certificate_fields [OF this(1)] show thesis by (intro that) auto
qed

lemma safe_iff_matching:
  "oc_runKind c = ContractSql \<Longrightarrow> oc_stateRelation c = rel \<Longrightarrow> oc_highStakesReliance c = deriveHighStakesReliance ContractSql rel
     \<Longrightarrow> trust_safe c \<longleftrightarrow> rel = MatchesExpectations"
  by (simp add: trust_safe_def trustDecisionFromCertificate_def)

interpretation decision: trust_gate "evaluateCertificate h env" trust_safe
  "finalizeIrreversibleBlockThrow h env ContractSqlIrreversible (ge_workflowId env)"
  "assertSafeForIrreversibleAction h env" for h env
proof
  show "assertSafeForIrreversibleAction h env s = pio_bind (evaluateCertificate h env s)
      (\<lambda>c. pio_of (if trust_safe c then io_return GateOpen
        else finalizeIrreversibleBlockThrow h env ContractSqlIrreversible (ge_workflowId env) c))" for s
    by (simp only: assertSafeForIrreversibleAction_def gate_on_def)
  show "\<exists>r. out = GateBlocked r c \<and> tr_trust_decision r = trustDecisionFromCertificate c"
    if "finalizeIrreversibleBlockThrow h env ContractSqlIrreversible (ge_workflowId env) c w = (Inr out, w')" for c w out w'
    using that by (rule blocked_outcome)
  show "oc_stateRelation c = MatchesExpectations"
    if "evaluateCertificate h env s w = Some (Inr c, w')" "trust_safe c" for s w c w'
    using certificate_of_evaluation [OF that(1)] safe_iff_matching that(2) by metis
qed

definition langGraph_passes :: "certificate \<Rightarrow> bool" where
  "langGraph_passes c \<longleftrightarrow> oc_runKind c = ContractSqlLanggraphCheckpointTrust \<and> lgRowBPasses c"

definition langGraph_block :: "host \<Rightarrow> 'w gate_env \<Rightarrow> certificate \<Rightarrow> ('w, gate_outcome) io" where
  "langGraph_block h env c =
     (if oc_runKind c \<noteq> ContractSqlLanggraphCheckpointTrust
      then io_throw (JsError ''assertLangGraphCheckpointProductionGate: certificate.runKind must be contract_sql_langgraph_checkpoint_trust'')
      else finalizeIrreversibleBlockThrow h env LanggraphCheckpointTerminal (oc_workflowId c) c)"

interpretation langGraph: trust_gate "runCheckpointTrust h env" langGraph_passes "langGraph_block h env"
  "langGraphProductionGate h env" for h env
proof
  have "assertLangGraphCheckpointProductionGate h env
      = (\<lambda>c. if langGraph_passes c then io_return GateOpen else langGraph_block h env c)"
    by (auto simp: fun_eq_iff assertLangGraphCheckpointProductionGate_def langGraph_passes_def langGraph_block_def gate_on_def)
  then show "langGraphProductionGate h env s = pio_bind (runCheckpointTrust h env s)
      (\<lambda>c. pio_of (if langGraph_passes c then io_return GateOpen else langGraph_block h env c))" for s
    by (simp add: langGraphProductionGate_def)
  show "\<exists>r. out = GateBlocked r c \<and> tr_trust_decision r = trustDecisionFromCertificate c"
    if "langGraph_block h env c w = (Inr out, w')" for c w out w'
    using that blocked_outcome by (auto simp: langGraph_block_def io_throw_def split: if_splits)
  show "oc_stateRelation c = MatchesExpectations" if "langGraph_passes c" for c
    using that by (auto simp: langGraph_passes_def lgRowBPasses_def split: option.splits)
qed

section \<open>What a gate rests on\<close>

lemma buffered_run:
  assumes "verifyRunStateFromBufferedRunEvents h env s w = Some (Inr r, w')"
  obtains reg engine w1 where "loadToolsRegistry h (ge_decodeReg env) (ge_registryFile env) = Inr reg"
    "verifyRunStateFromEvents h (ge_runtime env) (ge_logStep env) (ge_database env) (ge_policy env) (ge_workflowId env)
       reg (buffered_load h s) w = Some (Inr engine, w1)"
    "wr_engine r = engine"
  using assms
  by (auto simp: verifyRunStateFromBufferedRunEvents_def pio_bind_Inr_iff io_throw_def io_lift_def emitWorkflowResult_def
      io_bind_Inr_iff finalizeEmittedWorkflowResult_def throws_bind_Inr_iff split: if_splits)

lemma buffered_load_reasons [simp]: "ld_runLevelReasons (buffered_load h s) = gs_runLevelReasons s"
  by (simp add: buffered_load_def Let_def)

lemma buffered_load_events:
  "ld_events (buffered_load h s) = stableSortEventsBySeq (List.map_filter as_tool_observed (gs_bufferedRunEvents s))"
  by (simp add: buffered_load_def Let_def prepareWorkflowEvents_def map_filter_simps stableSortEventsBySeq_def)

lemma matching_iff_verified:
  assumes "verifyRunStateFromEvents h rt lg db pol wid reg (buffered_load h s) w = Some (Inr engine, w1)"
    and "wr_engine r = engine"
  shows "workflowResultToStateRelation r = MatchesExpectations
    \<longleftrightarrow> gs_runLevelReasons s = [] \<and> er_steps engine \<noteq> [] \<and> list_all (\<lambda>q. so_status q = Verified) (er_steps engine)"
proof -
  have "workflowResultToStateRelation r = MatchesExpectations \<longleftrightarrow> er_status engine = Complete"
    using assms(2) by (simp add: workflowResultToStateRelation_def split: workflow_status.split)
  with verifyRun_result(2) [OF assms(1)] show ?thesis by (simp add: workflow_status_Complete list_all_iff)
qed

lemma decision_gate_sound:
  assumes "assertSafeForIrreversibleAction h env s w = Some (Inr out, w')"
  shows "\<exists>reg engine w1. loadToolsRegistry h (ge_decodeReg env) (ge_registryFile env) = Inr reg
    \<and> verifyRunStateFromEvents h (ge_runtime env) (ge_logStep env) (ge_database env) (ge_policy env) (ge_workflowId env)
        reg (buffered_load h s) w = Some (Inr engine, w1)
    \<and> list_all2 (outcome_of_plan reg) (planLogicalSteps h (ld_events (buffered_load h s))) (er_steps engine)
    \<and> (out = GateOpen \<longleftrightarrow> gs_runLevelReasons s = [] \<and> er_steps engine \<noteq> []
        \<and> list_all (\<lambda>q. so_status q = Verified) (er_steps engine))
    \<and> (case out of GateOpen \<Rightarrow> True | GateBlocked r c \<Rightarrow> tr_trust_decision r \<noteq> Safe)"
proof -
  obtain c w2 where c: "evaluateCertificate h env s w = Some (Inr c, w2)" and out: "out = GateOpen \<longleftrightarrow> trust_safe c"
    and blocked: "out = GateOpen \<or> (\<exists>r. out = GateBlocked r c \<and> tr_trust_decision r = trustDecisionFromCertificate c)"
    by (rule decision.outcome [OF assms])
  obtain r where r: "evaluate h env s w = Some (Inr r, w2)"
    and fields: "oc_stateRelation c = workflowResultToStateRelation r" "oc_runKind c = ContractSql"
      "oc_highStakesReliance c = deriveHighStakesReliance ContractSql (workflowResultToStateRelation r)"
    by (rule certificate_of_evaluation [OF c])
  from r have "verifyRunStateFromBufferedRunEvents h env s w = Some (Inr r, w2)"
    by (auto simp: evaluate_def io_throw_def split: if_splits)
  then obtain reg engine w1 where reg: "loadToolsRegistry h (ge_decodeReg env) (ge_registryFile env) = Inr reg"
    and run: "verifyRunStateFromEvents h (ge_runtime env) (ge_logStep env) (ge_database env) (ge_policy env) (ge_workflowId env)
       reg (buffered_load h s) w = Some (Inr engine, w1)" and engine: "wr_engine r = engine"
    by (rule buffered_run)
  have "out = GateOpen \<longleftrightarrow> gs_runLevelReasons s = [] \<and> er_steps engine \<noteq> []
        \<and> list_all (\<lambda>q. so_status q = Verified) (er_steps engine)"
    using out safe_iff_matching [OF fields(2,1,3)] matching_iff_verified [OF run engine] by simp
  moreover have "case out of GateOpen \<Rightarrow> True | GateBlocked r c \<Rightarrow> tr_trust_decision r \<noteq> Safe"
    using blocked out by (cases out) (auto simp: trust_safe_def)
  ultimately show ?thesis using reg run verifyRun_result(1) [OF run] by blast
qed

lemma ineligible_matches:
  "validated errors (buildIneligibleLangGraphCheckpointTrustCertificate h errors wid reasons) = Inr c
     \<Longrightarrow> oc_stateRelation c = NotEstablished"
  by (auto simp: buildIneligibleLangGraphCheckpointTrustCertificate_def throws_bind_Inr_iff Let_def
      dest!: validated_Inr asserted_Inr)

lemma langGraph_gate_sound:
  assumes "langGraphProductionGate h env s w = Some (Inr GateOpen, w')"
  shows "gs_runLevelReasons s = []
    \<and> list_all (\<lambda>t. wire_schemaVersion (te_wire t) = 3) (List.map_filter as_tool_observed (gs_bufferedRunEvents s))
    \<and> (\<exists>reg engine w1. loadToolsRegistry h (ge_decodeReg env) (ge_registryFile env) = Inr reg
      \<and> verifyRunStateFromEvents h (ge_runtime env) (ge_logStep env) (ge_database env) (ge_policy env) (ge_workflowId env)
          reg (buffered_load h s) w = Some (Inr engine, w1)
      \<and> er_steps engine \<noteq> [] \<and> list_all (\<lambda>q. so_status q = Verified) (er_steps engine)
      \<and> list_ex (\<lambda>q. so_langgraphCheckpointKey q \<noteq> None) (er_steps engine))"
proof -
  obtain c w2 where c: "runCheckpointTrust h env s w = Some (Inr c, w2)" and p: "langGraph_passes c"
    and rel: "oc_stateRelation c = MatchesExpectations"
    by (rule langGraph.open_matches [OF assms])
  let ?tools = "List.map_filter as_tool_observed (gs_bufferedRunEvents s)"
  have el: "classifyLangGraphCheckpointTrustEligibility (gs_runLevelReasons s) ?tools = None"
    using c rel ineligible_matches
    by (cases "classifyLangGraphCheckpointTrustEligibility (gs_runLevelReasons s) ?tools")
       (force simp: runCheckpointTrust_def io_throw_def io_lift_def split: if_splits)+
  with c obtain r w3 where run: "verifyRunStateFromBufferedRunEvents h env s w = Some (Inr r, w3)"
    and cert: "workflow_certificate h (ge_schema env) r ContractSqlLanggraphCheckpointTrust
      (Some (computeCheckpointVerdictsFromWorkflowResult h r)) = Inr c"
    by (auto simp: runCheckpointTrust_def io_throw_def io_lift_def pio_bind_Inr_iff
        buildOutcomeCertificateLangGraphCheckpointTrustFromWorkflowResult_def split: if_splits dest: validated_Inr)
  note fields = workflow_certificate_fields [OF cert]
  obtain reg engine w1 where reg: "loadToolsRegistry h (ge_decodeReg env) (ge_registryFile env) = Inr reg"
    and eng: "verifyRunStateFromEvents h (ge_runtime env) (ge_logStep env) (ge_database env) (ge_policy env) (ge_workflowId env)
       reg (buffered_load h s) w = Some (Inr engine, w1)" and engine: "wr_engine r = engine"
    by (rule buffered_run [OF run])
  from p fields(4) have "computeCheckpointVerdictsFromWorkflowResult h r \<noteq> []"
    by (simp add: langGraph_passes_def lgRowBPasses_def)
  then have "foldl checkpoint_add [] (er_steps engine) \<noteq> []"
    by (simp add: computeCheckpointVerdictsFromWorkflowResult_def engine)
  moreover have "list_all (\<lambda>q. so_langgraphCheckpointKey q = None) qs \<Longrightarrow> foldl checkpoint_add m qs = m" for qs m
    by (induction qs arbitrary: m) (simp_all add: checkpoint_add_def)
  ultimately have keyed: "list_ex (\<lambda>q. so_langgraphCheckpointKey q \<noteq> None) (er_steps engine)"
    by (metis (mono_tags, lifting) list_all_iff list_ex_iff)
  have "gs_runLevelReasons s = []" "list_all (\<lambda>t. wire_schemaVersion (te_wire t) = 3) ?tools"
    using el by (auto simp: classifyLangGraphCheckpointTrustEligibility_def list_all_iff list_ex_iff split: if_splits)
  with matching_iff_verified [OF eng engine] rel fields(2) reg eng keyed show ?thesis by auto
qed

section \<open>A gate opens\<close>

lemma gate_load_sound:
  assumes "gate_reachable decode workflow s"
  shows "sound_load h (buffered_load h s)"
proof -
  have "ld_eventSequenceIntegrity (buffered_load h s)
      = analyzeEventSequenceIntegrity h (List.map_filter as_tool_observed (gs_bufferedRunEvents s))"
    by (simp add: buffered_load_def Let_def prepareWorkflowEvents_def analyzeEventSequenceIntegrity_def map_filter_simps)
  then show ?thesis
    using gate_buffer [OF assms] by (auto simp: sound_load_def list_all_iff)
qed

lemma complete_run:
  assumes "verifyRunStateFromEvents h rt lg db pol wid reg (buffered_load h s) w = Some (Inr engine, w1)"
    and "er_status engine = Complete"
  shows "gs_runLevelReasons s = []" "er_steps engine \<noteq> []" "list_all (\<lambda>q. so_status q = Verified) (er_steps engine)"
proof -
  have "workflow_status_of (gs_runLevelReasons s) (er_steps engine) = Complete"
    using verifyRun_result(2) [OF assms(1)] assms(2) by simp
  then show "gs_runLevelReasons s = []" "er_steps engine \<noteq> []" "list_all (\<lambda>q. so_status q = Verified) (er_steps engine)"
    by (simp_all add: workflow_status_Complete list_all_iff)
qed

text \<open>A complete run of the buffer is emitted when its report can be written, and only then.\<close>

lemma complete_buffer_result:
  assumes reach: "gate_reachable decode workflow s"
    and reg: "loadToolsRegistry h (ge_decodeReg env) (ge_registryFile env) = Inr reg"
    and run: "verifyRunStateFromEvents h (ge_runtime env) (ge_logStep env) (ge_database env) (ge_policy env)
        (ge_workflowId env) reg (buffered_load h s) w = Some (Inr engine, w1)"
    and complete: "er_status engine = Complete"
  obtains t report where "buildWorkflowTruthReport h engine = Inr t" "formatWorkflowTruthReportStruct h t = Inr report"
    "gs_bufferedRunEvents s \<noteq> []" "accounted engine"
    "verifyRunStateFromBufferedRunEvents h env s w = (case ge_truthReport env report w1 of
        (Inl e, w2) \<Rightarrow> Some (Inl e, w2) | (Inr u, w2) \<Rightarrow> Some (Inr \<lparr>wr_engine = engine, wr_truth = t\<rparr>, w2))"
proof -
  have acc: "accounted engine" by (rule verifyRun_accounted [OF run gate_load_sound [OF reach]])
  obtain t report where t: "buildWorkflowTruthReport h engine = Inr t" "formatWorkflowTruthReportStruct h t = Inr report"
    by (rule complete_report [OF acc complete])
  note complete_run(2) [OF run complete]
  moreover have "er_steps engine = []" if "gs_bufferedRunEvents s = []"
  proof -
    have "planLogicalSteps h [] = []" using plan_seqs [of h "[]"] by simp
    with verifyRun_result(1) [OF run] that show ?thesis by (simp add: buffered_load_def)
  qed
  ultimately have ne: "gs_bufferedRunEvents s \<noteq> []" by blast
  then have "verifyRunStateFromBufferedRunEvents h env s w = (case ge_truthReport env report w1 of
        (Inl e, w2) \<Rightarrow> Some (Inl e, w2) | (Inr u, w2) \<Rightarrow> Some (Inr \<lparr>wr_engine = engine, wr_truth = t\<rparr>, w2))"
    using reg run t
    by (simp add: verifyRunStateFromBufferedRunEvents_def emitWorkflowResult_def formatWorkflowTruthReport_def
        finalizeEmittedWorkflowResult_def pio_bind_def io_lift_def io_bind_def split: prod.split sum.split)
  with t ne acc show thesis by (rule that)
qed

text \<open>The schema is asked about one certificate, which does not depend on it.\<close>

lemma throws_bind_if: "throws_bind (if b then x else y) f = (if b then throws_bind x f else throws_bind y f)"
  by simp

lemma workflow_certificate_schema:
  "workflow_certificate h errors r k vs
     = throws_bind (workflow_certificate h (\<lambda>_. None) r k vs) (\<lambda>c. case errors c of
         None \<Rightarrow> Inr c | Some t \<Rightarrow> Inl (JsError (''outcome_certificate: schema validation failed '' @ t)))"
proof -
  have "asserted errors c = throws_bind (asserted (\<lambda>_. None) c) (\<lambda>c. case errors c of
         None \<Rightarrow> Inr c | Some t \<Rightarrow> Inl (JsError (''outcome_certificate: schema validation failed '' @ t)))" for c
    unfolding asserted_def assertOutcomeCertificateInvariants_def Let_def
    by (cases "errors c") (simp_all only: throws_bind_if throws_bind_simps option.case)
  then show ?thesis
    by (cases "formatWorkflowTruthReportStruct h (wr_truth r)") (simp_all only: workflow_certificate_def Let_def throws_bind_simps)
qed

text \<open>
  What a gate does with a certificate that is to be trusted: it lets the action through, unless the
  report cannot be written or the schema refuses the certificate, and then it throws just that.
\<close>

definition opens_unless_refused ::
  "'w gate_env \<Rightarrow> string \<Rightarrow> certificate \<Rightarrow> 'w \<Rightarrow> ((js_error + gate_outcome) \<times> 'w) option" where
  "opens_unless_refused env report c w1 =
     (case ge_truthReport env report w1 of
        (Inl e, w2) \<Rightarrow> Some (Inl e, w2)
      | (Inr u, w2) \<Rightarrow> (case ge_schema env c of
            None \<Rightarrow> Some (Inr GateOpen, w2)
          | Some t \<Rightarrow> Some (Inl (JsError (''outcome_certificate: schema validation failed '' @ t)), w2)))"

text \<open>The certificate of a complete run before the schema is asked.\<close>

definition offers :: "host \<Rightarrow> engine_result \<Rightarrow> run_kind \<Rightarrow> (workflow_result \<Rightarrow> checkpoint_verdict list option)
    \<Rightarrow> string \<Rightarrow> certificate \<Rightarrow> bool" where
  "offers h engine k vs report c \<longleftrightarrow>
     (\<exists>t. buildWorkflowTruthReport h engine = Inr t \<and> formatWorkflowTruthReportStruct h t = Inr report
        \<and> workflow_certificate h (\<lambda>_. None) \<lparr>wr_engine = engine, wr_truth = t\<rparr> k (vs \<lparr>wr_engine = engine, wr_truth = t\<rparr>) = Inr c
        \<and> trustDecisionFromCertificate c = Safe)"

lemma complete_offers:
  assumes "accounted engine" and "er_status engine = Complete" and "k \<noteq> QuickPreview"
    and "buildWorkflowTruthReport h engine = Inr t" and "formatWorkflowTruthReportStruct h t = Inr report"
  obtains c where "offers h engine k vs report c"
    "workflow_certificate h (\<lambda>_. None) \<lparr>wr_engine = engine, wr_truth = t\<rparr> k (vs \<lparr>wr_engine = engine, wr_truth = t\<rparr>) = Inr c"
    "trustDecisionFromCertificate c = Safe"
proof -
  obtain t' report' c where c: "buildWorkflowTruthReport h engine = Inr t'" "formatWorkflowTruthReportStruct h t' = Inr report'"
    "workflow_certificate h (\<lambda>_. None) \<lparr>wr_engine = engine, wr_truth = t'\<rparr> k (vs \<lparr>wr_engine = engine, wr_truth = t\<rparr>) = Inr c"
    "trustDecisionFromCertificate c = Safe"
    by (rule certificate_of_complete [OF assms(1-3), of "\<lambda>_. None" h "vs \<lparr>wr_engine = engine, wr_truth = t\<rparr>"]) simp
  with assms(4,5) have "t' = t" "report' = report" by simp_all
  with c assms(4,5) that show thesis by (auto simp: offers_def)
qed

lemma gate_opens:
  assumes "gate_reachable decode workflow s"
    and "loadToolsRegistry h (ge_decodeReg env) (ge_registryFile env) = Inr reg"
    and "verifyRunStateFromEvents h (ge_runtime env) (ge_logStep env) (ge_database env) (ge_policy env)
        (ge_workflowId env) reg (buffered_load h s) w = Some (Inr engine, w1)"
    and complete: "er_status engine = Complete"
  shows "\<exists>report c. offers h engine ContractSql (\<lambda>r. None) report c
    \<and> assertSafeForIrreversibleAction h env s w = opens_unless_refused env report c w1"
proof -
  obtain t report where t: "buildWorkflowTruthReport h engine = Inr t" "formatWorkflowTruthReportStruct h t = Inr report"
    and ne: "gs_bufferedRunEvents s \<noteq> []" and acc: "accounted engine"
    and run: "verifyRunStateFromBufferedRunEvents h env s w = (case ge_truthReport env report w1 of
        (Inl e, w2) \<Rightarrow> Some (Inl e, w2) | (Inr u, w2) \<Rightarrow> Some (Inr \<lparr>wr_engine = engine, wr_truth = t\<rparr>, w2))"
    by (rule complete_buffer_result [OF assms])
  obtain c where c: "offers h engine ContractSql (\<lambda>r. None) report c"
    "workflow_certificate h (\<lambda>_. None) \<lparr>wr_engine = engine, wr_truth = t\<rparr> ContractSql None = Inr c"
    "trustDecisionFromCertificate c = Safe"
    by (rule complete_offers [OF acc complete _ t, where k = ContractSql and vs = "\<lambda>r. None"]) simp
  obtain q w2 where written: "ge_truthReport env report w1 = (q, w2)" by (cases "ge_truthReport env report w1")
  have "assertSafeForIrreversibleAction h env s w = opens_unless_refused env report c w1"
    using c(2,3) ne
    by (cases q; cases "ge_schema env c") (simp_all add: written evaluate_def assertSafeForIrreversibleAction_def evaluateCertificate_def pio_bind_def run
        validated_def buildOutcomeCertificateFromWorkflowResult_def gate_on_def trust_safe_def opens_unless_refused_def
        workflow_certificate_schema [of h "ge_schema env"])
  with c(1) show ?thesis by blast
qed

lemma set_update_subset: "set (AList.update k v m) \<subseteq> insert (k, v) (set m)"
  by (induction m) auto

lemma verified_groups:
  "list_all (\<lambda>q. so_status q = Verified) steps \<Longrightarrow> list_all (\<lambda>g. list_all (\<lambda>q. so_status q = Verified) (snd g)) m
     \<Longrightarrow> list_all (\<lambda>g. list_all (\<lambda>q. so_status q = Verified) (snd g)) (foldl checkpoint_add m steps)"
proof (induction steps arbitrary: m)
  case (Cons s steps)
  have "list_all (\<lambda>g. list_all (\<lambda>q. so_status q = Verified) (snd g)) (checkpoint_add m s)"
  proof (cases "so_langgraphCheckpointKey s")
    case (Some k)
    let ?old = "case map_of m k of None \<Rightarrow> [] | Some g \<Rightarrow> g"
    have "list_all (\<lambda>q. so_status q = Verified) (?old @ [s])"
      using Cons.prems by (auto simp: list_all_iff split: option.split dest!: map_of_SomeD [OF sym])
    with Some Cons.prems(2) show ?thesis
      using set_update_subset [of k "?old @ [s]" m] by (fastforce simp: checkpoint_add_def list_all_iff)
  qed (use Cons.prems in \<open>simp add: checkpoint_add_def\<close>)
  with Cons show ?case by simp
qed simp

lemma keyed_groups: "m \<noteq> [] \<or> list_ex (\<lambda>q. so_langgraphCheckpointKey q \<noteq> None) steps \<Longrightarrow> foldl checkpoint_add m steps \<noteq> []"
proof (induction steps arbitrary: m)
  case (Cons s steps)
  have "AList.update k v m \<noteq> []" for k v by (cases m) auto
  with Cons.prems have "checkpoint_add m s \<noteq> [] \<or> list_ex (\<lambda>q. so_langgraphCheckpointKey q \<noteq> None) steps"
    by (auto simp: checkpoint_add_def split: option.split)
  with Cons.IH show ?case by simp
qed simp

lemma verified_rollup: "list_all (\<lambda>q. so_status q = Verified) g \<Longrightarrow> rollupCheckpointGroupVerdict g = CheckpointVerified"
  by (auto simp: rollupCheckpointGroupVerdict_def list_ex_iff list_all_iff)

lemma verified_checkpoints:
  assumes "list_all (\<lambda>q. so_status q = Verified) (er_steps (wr_engine r))"
    and "list_ex (\<lambda>q. so_langgraphCheckpointKey q \<noteq> None) (er_steps (wr_engine r))"
  shows "computeCheckpointVerdictsFromWorkflowResult h r \<noteq> []"
    and "list_all (\<lambda>v. cv_verdict v = CheckpointVerified) (computeCheckpointVerdictsFromWorkflowResult h r)"
proof -
  let ?g = "js_sort (checkpoint_compare h) (foldl checkpoint_add [] (er_steps (wr_engine r)))"
  have "?g \<noteq> []" using keyed_groups [of "[]"] assms(2) by (metis set_empty set_js_sort)
  then show "computeCheckpointVerdictsFromWorkflowResult h r \<noteq> []"
    by (simp add: computeCheckpointVerdictsFromWorkflowResult_def)
  show "list_all (\<lambda>v. cv_verdict v = CheckpointVerified) (computeCheckpointVerdictsFromWorkflowResult h r)"
    using verified_groups [OF assms(1), of "[]"]
    by (simp add: computeCheckpointVerdictsFromWorkflowResult_def list_all_iff checkpoint_row_def verified_rollup)
qed

lemma langGraph_gate_opens:
  assumes "gate_reachable decode workflow s"
    and "loadToolsRegistry h (ge_decodeReg env) (ge_registryFile env) = Inr reg"
    and run: "verifyRunStateFromEvents h (ge_runtime env) (ge_logStep env) (ge_database env) (ge_policy env)
        (ge_workflowId env) reg (buffered_load h s) w = Some (Inr engine, w1)"
    and complete: "er_status engine = Complete"
    and v3: "list_all (\<lambda>t. wire_schemaVersion (te_wire t) = 3) (List.map_filter as_tool_observed (gs_bufferedRunEvents s))"
    and keyed: "list_ex (\<lambda>q. so_langgraphCheckpointKey q \<noteq> None) (er_steps engine)"
  shows "\<exists>report c. offers h engine ContractSqlLanggraphCheckpointTrust (\<lambda>r. Some (computeCheckpointVerdictsFromWorkflowResult h r)) report c
    \<and> langGraphProductionGate h env s w = opens_unless_refused env report c w1"
proof -
  let ?k = ContractSqlLanggraphCheckpointTrust and ?vs = "\<lambda>r. Some (computeCheckpointVerdictsFromWorkflowResult h r)"
  obtain t report where t: "buildWorkflowTruthReport h engine = Inr t" "formatWorkflowTruthReportStruct h t = Inr report"
    and ne: "gs_bufferedRunEvents s \<noteq> []" and acc: "accounted engine"
    and buffered: "verifyRunStateFromBufferedRunEvents h env s w = (case ge_truthReport env report w1 of
        (Inl e, w2) \<Rightarrow> Some (Inl e, w2) | (Inr u, w2) \<Rightarrow> Some (Inr \<lparr>wr_engine = engine, wr_truth = t\<rparr>, w2))"
    by (rule complete_buffer_result [OF assms(1-4)])
  let ?r = "\<lparr>wr_engine = engine, wr_truth = t\<rparr>"
  obtain c where c: "offers h engine ?k ?vs report c"
    "workflow_certificate h (\<lambda>_. None) ?r ?k (?vs ?r) = Inr c" "trustDecisionFromCertificate c = Safe"
    by (rule complete_offers [OF acc complete _ t, where k = ?k and vs = ?vs]) simp
  note fields = workflow_certificate_fields [OF c(2)]
  note good = complete_run [OF run complete]
  have engine: "wr_engine ?r = engine" by simp
  have rel: "workflowResultToStateRelation ?r = MatchesExpectations" using matching_iff_verified [OF run engine] good by simp
  have "List.map_filter as_tool_observed (gs_bufferedRunEvents s) \<noteq> []"
  proof
    assume "List.map_filter as_tool_observed (gs_bufferedRunEvents s) = []"
    then have "planLogicalSteps h (ld_events (buffered_load h s)) = []"
      using plan_seqs [of h "ld_events (buffered_load h s)"] by (simp add: buffered_load_events stableSortEventsBySeq_def)
    with verifyRun_result(1) [OF run] good(2) show False by simp
  qed
  with good(1) v3 have "classifyLangGraphCheckpointTrustEligibility (gs_runLevelReasons s)
      (List.map_filter as_tool_observed (gs_bufferedRunEvents s)) = None"
    by (auto simp: classifyLangGraphCheckpointTrustEligibility_def list_ex_iff list_all_iff)
  moreover have "lgRowBPasses c"
    using fields rel verified_checkpoints [of ?r h] good(3) keyed c(3) by (simp add: lgRowBPasses_def trust_safe_def)
  moreover obtain q w2 where written: "ge_truthReport env report w1 = (q, w2)" by (cases "ge_truthReport env report w1")
  ultimately have "langGraphProductionGate h env s w = opens_unless_refused env report c w1"
    using ne c(2) fields(1)
    by (cases q; cases "ge_schema env c") (simp_all add: written runCheckpointTrust_def pio_bind_def validated_def buffered
        buildOutcomeCertificateLangGraphCheckpointTrustFromWorkflowResult_def workflow_certificate_schema [of h "ge_schema env"]
        langGraphProductionGate_def assertLangGraphCheckpointProductionGate_def gate_on_def opens_unless_refused_def)
  with c(1) show ?thesis by blast
qed

section \<open>The gate and the file\<close>

text \<open>What a line of an events file is to a gate: a line that is not JSON is no object.\<close>

definition line_value :: "host \<Rightarrow> string \<Rightarrow> jsval" where
  "line_value h line = (case h_jsonParse h line of None \<Rightarrow> VUndef | Some v \<Rightarrow> v)"

definition feed_lines :: "host \<Rightarrow> (jsval \<Rightarrow> run_event option) \<Rightarrow> string \<Rightarrow> string \<Rightarrow> gate_state" where
  "feed_lines h decode workflowId raw =
     foldl (appendRunEvent decode workflowId) gate_empty
       (map (line_value h) (filter (\<lambda>l. js_trim l \<noteq> []) (split_lines raw)))"

definition accepts_objects :: "(jsval \<Rightarrow> run_event option) \<Rightarrow> bool" where
  "accepts_objects decode \<longleftrightarrow> (\<forall>v. \<not> is_object v \<longrightarrow> decode v = None)"

lemma feed_step:
  assumes "accepts_objects decode" "js_trim l \<noteq> []"
    and "gs_bufferedRunEvents s = la_runEvents acc" "gs_runLevelReasons s = la_runLevelReasons acc"
  shows "gs_bufferedRunEvents (appendRunEvent decode workflow s (line_value h l)) = la_runEvents (load_step workflow acc (read_line h decode l))"
    and "gs_runLevelReasons (appendRunEvent decode workflow s (line_value h l)) = la_runLevelReasons (load_step workflow acc (read_line h decode l))"
proof -
  have "\<not> is_object VUndef" by (simp add: is_object_def)
  then show "gs_bufferedRunEvents (appendRunEvent decode workflow s (line_value h l)) = la_runEvents (load_step workflow acc (read_line h decode l))"
    "gs_runLevelReasons (appendRunEvent decode workflow s (line_value h l)) = la_runLevelReasons (load_step workflow acc (read_line h decode l))"
    using assms
    by (auto simp: appendRunEvent_def line_value_def read_line_def load_step_def gate_malformed_def accepts_objects_def Let_def
        split: option.splits)
qed

lemma feed_lines_foldl:
  assumes "accepts_objects decode"
    and "gs_bufferedRunEvents s = la_runEvents acc" "gs_runLevelReasons s = la_runLevelReasons acc"
  shows "gs_bufferedRunEvents (foldl (appendRunEvent decode workflow) s (map (line_value h) (filter (\<lambda>l. js_trim l \<noteq> []) ls)))
      = la_runEvents (foldl (load_step workflow) acc (map (read_line h decode) ls))
    \<and> gs_runLevelReasons (foldl (appendRunEvent decode workflow) s (map (line_value h) (filter (\<lambda>l. js_trim l \<noteq> []) ls)))
      = la_runLevelReasons (foldl (load_step workflow) acc (map (read_line h decode) ls))"
  using assms(2,3)
proof (induction ls arbitrary: s acc)
  case Nil
  then show ?case by simp
next
  case (Cons l ls)
  show ?case
  proof (cases "js_trim l = []")
    case True
    with Cons show ?thesis by (simp add: read_line_def load_step_def)
  next
    case False
    show ?thesis
      using Cons.IH [OF feed_step [OF assms(1) False Cons.prems]] False by simp
  qed
qed

lemma gate_equals_file:
  assumes "accepts_objects decode"
  shows "ld_events (buffered_load h (feed_lines h decode workflow raw)) = ld_events (load_text h decode workflow raw)
    \<and> ld_runEvents (buffered_load h (feed_lines h decode workflow raw)) = ld_runEvents (load_text h decode workflow raw)
    \<and> ld_runLevelReasons (buffered_load h (feed_lines h decode workflow raw)) = ld_runLevelReasons (load_text h decode workflow raw)
    \<and> ld_eventSequenceIntegrity (buffered_load h (feed_lines h decode workflow raw))
        = ld_eventSequenceIntegrity (load_text h decode workflow raw)"
proof -
  let ?acc = "foldl (load_step workflow) load_start (map (read_line h decode) (split_lines raw))"
  have same: "gs_bufferedRunEvents (feed_lines h decode workflow raw) = la_runEvents ?acc"
    "gs_runLevelReasons (feed_lines h decode workflow raw) = la_runLevelReasons ?acc"
    using feed_lines_foldl [OF assms, of gate_empty load_start workflow h "split_lines raw"]
    by (simp_all add: feed_lines_def gate_empty_def load_start_def)
  have runs: "ld_runEvents (load_text h decode workflow raw) = la_runEvents ?acc"
    "ld_runLevelReasons (load_text h decode workflow raw) = la_runLevelReasons ?acc"
    by (simp_all add: load_text_def Let_def)
  have "ld_runEvents (buffered_load h s) = gs_bufferedRunEvents s" for s
    by (simp add: buffered_load_def Let_def)
  moreover have "ld_events (load_text h decode workflow raw)
      = stableSortEventsBySeq (List.map_filter as_tool_observed (ld_runEvents (load_text h decode workflow raw)))"
    by (rule load_text_accounts(3))
  moreover have "ld_eventSequenceIntegrity (buffered_load h s)
      = analyzeEventSequenceIntegrity h (List.map_filter as_tool_observed (gs_bufferedRunEvents s))" for s
    by (simp add: buffered_load_def Let_def prepareWorkflowEvents_def analyzeEventSequenceIntegrity_def map_filter_simps)
  moreover have "ld_eventSequenceIntegrity (load_text h decode workflow raw)
      = analyzeEventSequenceIntegrity h (List.map_filter as_tool_observed (la_runEvents ?acc))"
    using load_inv_all [of workflow "map (read_line h decode) (split_lines raw)"]
    by (simp add: load_text_def Let_def prepareWorkflowEvents_def load_inv_def)
  ultimately show ?thesis by (simp add: same runs buffered_load_events)
qed

end
