(* ===== verification/TraceProperties.thy ===== *)
theory TraceProperties
  imports ExecutionTrace
begin

text \<open>
  The chains of ancestors of a trace: they climb, each step to a parent that was captured earlier, up
  to an event without parent or to one of version 3; such an event loses its place in the graph.
\<close>

section \<open>Validation of the graph\<close>

lemma index_ids_result:
  "index_ids i evs m = Inr m'
     \<Longrightarrow> m' = m @ List.map_filter (\<lambda>(j, ev). map_option (\<lambda>k. (k, j)) (graph_id ev)) (enumerate i evs)"
  by (induction i evs m rule: index_ids.induct) (auto simp: map_filter_simps split: option.splits if_splits)

lemma index_ids_distinct: "index_ids i evs m = Inr m' \<Longrightarrow> distinct (map fst m) \<Longrightarrow> distinct (map fst m')"
  by (induction i evs m rule: index_ids.induct)
     (auto simp: map_of_eq_None_iff split: option.splits if_splits)

lemma map_filter_set: "set (List.map_filter f xs) = {y. \<exists>x \<in> set xs. f x = Some y}"
  by (induction xs) (auto simp: map_filter_simps split: option.splits)

lemma index_ids_lookup:
  assumes "index_ids 0 evs [] = Inr m"
  shows "map_of m k = Some j \<longleftrightarrow> j < length evs \<and> graph_id (evs ! j) = Some k"
proof -
  have "set m = {(k, j). j < length evs \<and> graph_id (evs ! j) = Some k}"
  proof (intro set_eqI, clarsimp simp: index_ids_result [OF assms] map_filter_set)
    fix k j
    show "(\<exists>x \<in> set (enumerate 0 evs). (case x of (j, ev) \<Rightarrow> map_option (\<lambda>k. (k, j)) (graph_id ev)) = Some (k, j))
        \<longleftrightarrow> j < length evs \<and> graph_id (evs ! j) = Some k"
      by (auto simp: in_set_enumerate_eq Bex_def)
  qed
  moreover have "distinct (map fst m)" by (rule index_ids_distinct [OF assms]) simp
  ultimately show ?thesis by (simp add: map_of_eq_Some_iff)
qed

lemma check_parents_earlier:
  "check_parents m i evs = Inr () \<Longrightarrow> j < length evs \<Longrightarrow> graph_parent (evs ! j) = Some p
     \<Longrightarrow> \<exists>k. map_of m p = Some k \<and> k < i + j"
proof (induction m i evs arbitrary: j rule: check_parents.induct)
  case (1 m i)
  then show ?case by simp
next
  case (2 m i ev evs)
  show ?case
  proof (cases j)
    case 0
    with 2 show ?thesis by (auto split: option.splits if_splits)
  next
    case (Suc j')
    with 2 have j': "j' < length evs" "graph_parent (evs ! j') = Some p" by simp_all
    show ?thesis
    proof (cases "graph_parent ev")
      case None
      with 2 j' have "\<exists>k. map_of m p = Some k \<and> k < Suc i + j'" by simp
      with Suc show ?thesis by simp
    next
      case (Some q)
      with 2 obtain k where k: "map_of m q = Some k" "\<not> i \<le> k" "check_parents m (Suc i) evs = Inr ()"
        by (auto split: option.splits if_splits)
      with 2 Some j' have "\<exists>k. map_of m p = Some k \<and> k < Suc i + j'" by simp
      with Suc show ?thesis by simp
    qed
  qed
qed

lemma valid_graph:
  assumes "assertValidRunEventParentGraph evs = Inr u"
  shows "i < length evs \<Longrightarrow> j < length evs \<Longrightarrow> graph_id (evs ! i) = Some k \<Longrightarrow> graph_id (evs ! j) = Some k \<Longrightarrow> i = j"
    and "j < length evs \<Longrightarrow> graph_parent (evs ! j) = Some p \<Longrightarrow> \<exists>k < j. graph_id (evs ! k) = Some p"
proof -
  from assms obtain m where m: "index_ids 0 evs [] = Inr m" "check_parents m 0 evs = Inr ()"
    by (auto simp: assertValidRunEventParentGraph_def throws_bind_Inr_iff)
  note lookup = index_ids_lookup [OF m(1)]
  show "i < length evs \<Longrightarrow> j < length evs \<Longrightarrow> graph_id (evs ! i) = Some k \<Longrightarrow> graph_id (evs ! j) = Some k \<Longrightarrow> i = j"
    by (metis lookup option.inject)
  show "j < length evs \<Longrightarrow> graph_parent (evs ! j) = Some p \<Longrightarrow> \<exists>k < j. graph_id (evs ! k) = Some p"
    using check_parents_earlier [OF m(2)] lookup by fastforce
qed

section \<open>Identifiers of nodes\<close>

text \<open>Identifiers that are not of the form the trace invents for events without one.\<close>

definition plain_ids :: "run_event list \<Rightarrow> bool" where
  "plain_ids evs \<longleftrightarrow>
     list_all (\<lambda>ev. case graph_id ev of None \<Rightarrow> True | Some k \<Rightarrow> \<not> starts_with ''syn:'' k) evs"

lemma length_trace_nodes [simp]: "length (trace_nodes h evs r) = length evs"
  by (simp add: trace_nodes_def indexed_def)

lemma trace_nodes_nth:
  assumes "i < length evs"
  shows "tn_runEventId (trace_nodes h evs r ! i) = nodeRunEventId (evs ! i) i"
    "tn_parentRunEventId (trace_nodes h evs r ! i) = resolvedParentRunEventId (evs ! i)"
    "tn_ingestIndex (trace_nodes h evs r ! i) = i"
  using assms by (simp_all add: trace_nodes_def indexed_def build_node_def Let_def)

lemma event_version_2: "event_schemaVersion ev = 2 \<Longrightarrow> \<exists>k. graph_id ev = Some k"
  by (cases ev) (auto simp: graph_id_def elim: wire_schemaVersion.elims)

lemma event_version: "event_schemaVersion ev = 1 \<or> event_schemaVersion ev = 2 \<or> event_schemaVersion ev = 3"
proof (cases ev)
  case (ToolObserved t)
  then show ?thesis by (cases "te_wire t") simp_all
qed simp_all

lemma graph_id_version: "graph_id ev = Some k \<Longrightarrow> event_schemaVersion ev \<noteq> 1"
  by (cases ev) (auto simp: graph_id_def elim: wire_schemaVersion.elims)

lemma nodes_inj:
  assumes "assertValidRunEventParentGraph evs = Inr u" "plain_ids evs" "i < length evs" "j < length evs"
    and "nodeRunEventId (evs ! i) i = nodeRunEventId (evs ! j) j"
  shows "i = j"
proof -
  have own: "\<exists>k. graph_id (evs ! i) = Some k \<and> nodeRunEventId (evs ! i) i = k \<and> \<not> starts_with ''syn:'' k"
    if "i < length evs" "event_schemaVersion (evs ! i) = 2" for i
    using that event_version_2 [OF that(2)] assms(2)
    by (auto simp: plain_ids_def list_all_length nodeRunEventId_def split: option.splits)
  have syn: "nodeRunEventId (evs ! i) i = ''syn:'' @ nat_str i" if "event_schemaVersion (evs ! i) \<noteq> 2" for i
    using that by (simp add: nodeRunEventId_def)
  have pre: "starts_with ''syn:'' (''syn:'' @ s)" for s by (simp add: starts_with_def)
  show ?thesis
  proof (cases "event_schemaVersion (evs ! i) = 2"; cases "event_schemaVersion (evs ! j) = 2")
    assume "event_schemaVersion (evs ! i) = 2" "event_schemaVersion (evs ! j) = 2"
    with own assms(3-5) show ?thesis by (metis valid_graph(1) [OF assms(1)])
  next
    assume "event_schemaVersion (evs ! i) = 2" "event_schemaVersion (evs ! j) \<noteq> 2"
    with own [OF assms(3)] syn [of j] pre [of "nat_str j"] assms(5) show ?thesis by metis
  next
    assume "event_schemaVersion (evs ! i) \<noteq> 2" "event_schemaVersion (evs ! j) = 2"
    with own [OF assms(4)] syn [of i] pre [of "nat_str i"] assms(5) show ?thesis by metis
  next
    assume "event_schemaVersion (evs ! i) \<noteq> 2" "event_schemaVersion (evs ! j) \<noteq> 2"
    with syn [of i] syn [of j] assms(5) show ?thesis by (simp add: nat_str_inj)
  qed
qed

lemma node_lookup:
  assumes "assertValidRunEventParentGraph evs = Inr u" "plain_ids evs" "i < length evs"
  shows "map_of (id_to_node (trace_nodes h evs r)) (nodeRunEventId (evs ! i) i) = Some (trace_nodes h evs r ! i)"
proof -
  let ?ns = "trace_nodes h evs r"
  have "distinct (map tn_runEventId ?ns)"
    using nodes_inj [OF assms(1,2)] by (auto simp: distinct_conv_nth trace_nodes_nth)
  then have "distinct (map fst (id_to_node ?ns))" by (simp add: id_to_node_def rev_map [symmetric] comp_def)
  moreover have "(nodeRunEventId (evs ! i) i, ?ns ! i) \<in> set (id_to_node ?ns)"
    using assms(3) by (force simp: id_to_node_def trace_nodes_nth [symmetric])
  ultimately show ?thesis by (rule map_of_is_SomeI)
qed

lemma parent_event:
  assumes "assertValidRunEventParentGraph evs = Inr u" "i < length evs"
    and "resolvedParentRunEventId (evs ! i) = Some p"
  obtains k where "k < i" "graph_id (evs ! k) = Some p"
    "event_schemaVersion (evs ! k) = 2 \<Longrightarrow> nodeRunEventId (evs ! k) k = p"
    "event_schemaVersion (evs ! k) \<noteq> 2 \<Longrightarrow> event_schemaVersion (evs ! k) = 3"
proof -
  from assms(3) have "graph_parent (evs ! i) = Some p" by (simp add: resolvedParentRunEventId_def split: if_splits)
  with valid_graph(2) [OF assms(1,2)] obtain k where k: "k < i" "graph_id (evs ! k) = Some p" by blast
  with graph_id_version [OF k(2)] event_version [of "evs ! k"] that show thesis by (auto simp: nodeRunEventId_def)
qed

text \<open>The identifier of an event of version 3 is that of no node.\<close>

lemma v3_no_node:
  assumes "assertValidRunEventParentGraph evs = Inr u" "plain_ids evs" "k < length evs"
    and "graph_id (evs ! k) = Some p" and "event_schemaVersion (evs ! k) = 3" and "i < length evs"
  shows "nodeRunEventId (evs ! i) i \<noteq> p"
proof
  assume eq: "nodeRunEventId (evs ! i) i = p"
  show False
  proof (cases "event_schemaVersion (evs ! i) = 2")
    case True
    then obtain q where "graph_id (evs ! i) = Some q" using event_version_2 by blast
    with True eq have "graph_id (evs ! i) = Some p" by (simp add: nodeRunEventId_def)
    from valid_graph(1) [OF assms(1,6,3) this assms(4)] True assms(5) show False by simp
  next
    case False
    with eq have "p = ''syn:'' @ nat_str i" by (simp add: nodeRunEventId_def)
    with assms(2-4) show False by (auto simp: plain_ids_def list_all_length starts_with_def)
  qed
qed

section \<open>Chains\<close>

text \<open>
  A chain that climbs: from each node to its parent, the identifier of an event captured earlier, up to
  a node without one, or to the identifier of an event of version 3, which no node has.
\<close>

definition captured_before :: "run_event list \<Rightarrow> nat \<Rightarrow> string \<Rightarrow> bool" where
  "captured_before evs i p \<longleftrightarrow> list_ex (\<lambda>ev. graph_id ev = Some p) (take i evs)"

fun climbs :: "run_event list \<Rightarrow> trace_node list \<Rightarrow> string list \<Rightarrow> bool" where
  "climbs evs nodes [] = False"
| "climbs evs nodes [i] \<longleftrightarrow>
     (if list_ex (\<lambda>n. tn_runEventId n = i) nodes
      then list_ex (\<lambda>n. tn_runEventId n = i \<and> tn_parentRunEventId n = None) nodes
      else list_ex (\<lambda>ev. graph_id ev = Some i \<and> event_schemaVersion ev = 3) evs)"
| "climbs evs nodes (i # j # rest) \<longleftrightarrow>
     list_ex (\<lambda>n. tn_runEventId n = i \<and> tn_parentRunEventId n = Some j
        \<and> captured_before evs (tn_ingestIndex n) j) nodes
     \<and> climbs evs nodes (j # rest)"

lemma chain_climbs:
  assumes "assertValidRunEventParentGraph evs = Inr u" "plain_ids evs"
  shows "i < length evs \<Longrightarrow> \<forall>j \<le> i. nodeRunEventId (evs ! j) j \<notin> set visited
    \<Longrightarrow> \<forall>j < i. graph_id (evs ! j) \<notin> Some ` set visited
    \<Longrightarrow> \<exists>rest. ancestor_chain (id_to_node (trace_nodes h evs r)) visited (nodeRunEventId (evs ! i) i)
          = nodeRunEventId (evs ! i) i # rest
        \<and> climbs evs (trace_nodes h evs r) (nodeRunEventId (evs ! i) i # rest)"
proof (induction i arbitrary: visited rule: less_induct)
  case (less i)
  let ?ns = "trace_nodes h evs r" and ?id = "\<lambda>i. nodeRunEventId (evs ! i) i"
  let ?n = "?ns ! i"
  have n: "?n \<in> set ?ns" "tn_runEventId ?n = ?id i" "tn_ingestIndex ?n = i"
    "tn_parentRunEventId ?n = resolvedParentRunEventId (evs ! i)"
    using less.prems(1) by (simp_all add: trace_nodes_nth)
  have step: "ancestor_chain (id_to_node ?ns) visited (?id i)
      = ?id i # (case tn_parentRunEventId ?n of None \<Rightarrow> [] | Some p \<Rightarrow> ancestor_chain (id_to_node ?ns) (?id i # visited) p)"
    using less.prems by (subst ancestor_chain.simps) (simp add: node_lookup [OF assms(1,2)])
  show ?case
  proof (cases "tn_parentRunEventId ?n")
    case None
    with n step show ?thesis by (auto simp: list_ex_iff)
  next
    case (Some p)
    with n(4) have "resolvedParentRunEventId (evs ! i) = Some p" by simp
    from parent_event [OF assms(1) less.prems(1) this] obtain k where k: "k < i" "graph_id (evs ! k) = Some p"
      and v2: "event_schemaVersion (evs ! k) = 2 \<Longrightarrow> ?id k = p"
      and v3: "event_schemaVersion (evs ! k) \<noteq> 2 \<Longrightarrow> event_schemaVersion (evs ! k) = 3" by blast
    have kl: "k < length evs" using k(1) less.prems(1) by simp
    have own: "graph_id (evs ! j) \<noteq> Some (?id i)" if "j < i" for j
    proof
      assume j: "graph_id (evs ! j) = Some (?id i)"
      have jl: "j < length evs" using that less.prems(1) by simp
      have "event_schemaVersion (evs ! j) \<noteq> 3" using v3_no_node [OF assms jl j _ less.prems(1)] by blast
      with graph_id_version [OF j] event_version [of "evs ! j"] have "event_schemaVersion (evs ! j) = 2" by blast
      with j have "?id j = ?id i" by (simp add: nodeRunEventId_def)
      with nodes_inj [OF assms jl less.prems(1)] that show False by simp
    qed
    have "captured_before evs (tn_ingestIndex ?n) p"
      using k kl n(3) by (auto simp: captured_before_def list_ex_length intro!: exI [of _ k])
    with n(1,2) Some have climb: "list_ex (\<lambda>m. tn_runEventId m = ?id i \<and> tn_parentRunEventId m = Some p
        \<and> captured_before evs (tn_ingestIndex m) p) ?ns"
      unfolding list_ex_iff by blast
    show ?thesis
    proof (cases "event_schemaVersion (evs ! k) = 2")
      case True
      have "\<forall>j \<le> k. ?id j \<notin> set (?id i # visited)"
      proof (intro allI impI)
        fix j assume "j \<le> k"
        with k(1) less.prems have "j < i" "j < length evs" "?id j \<notin> set visited" by auto
        moreover from this less.prems(1) have "?id j \<noteq> ?id i" using nodes_inj [OF assms(1,2)] by blast
        ultimately show "?id j \<notin> set (?id i # visited)" by simp
      qed
      moreover have "\<forall>j < k. graph_id (evs ! j) \<notin> Some ` set (?id i # visited)"
        using own less.prems(3) k(1) by auto
      ultimately obtain rest where
        rest: "ancestor_chain (id_to_node ?ns) (?id i # visited) p = p # rest" "climbs evs ?ns (p # rest)"
        using less.IH [OF k(1) kl, of "?id i # visited"] by (auto simp: v2 [OF True])
      with climb step Some show ?thesis by simp
    next
      case False
      then have three: "event_schemaVersion (evs ! k) = 3" by (rule v3)
      have none: "\<forall>q \<in> set ?ns. tn_runEventId q \<noteq> p"
      proof
        fix q assume "q \<in> set ?ns"
        then obtain j where j: "j < length evs" "q = ?ns ! j" by (auto simp: in_set_conv_nth)
        with v3_no_node [OF assms kl k(2) three j(1)] show "tn_runEventId q \<noteq> p" by (simp add: trace_nodes_nth)
      qed
      then have "map_of (id_to_node ?ns) p = None"
        by (auto simp: map_of_eq_None_iff id_to_node_def)
      moreover have "p \<notin> set (?id i # visited)"
        using k own less.prems(3) by auto
      ultimately have "ancestor_chain (id_to_node ?ns) (?id i # visited) p = [p]"
        by (subst ancestor_chain.simps) simp
      moreover have "climbs evs ?ns [p]"
        using none k(2) kl three by (auto simp: list_ex_iff)
      ultimately show ?thesis using climb step Some by simp
    qed
  qed
qed

lemma last_ingest_bound: "last_ingest evs s = Some i \<Longrightarrow> i < length evs"
proof -
  assume "last_ingest evs s = Some i"
  then have "(s, i) \<in> set (tool_indices evs)" by (auto simp: last_ingest_def dest: map_of_SomeD)
  then obtain ev where "(i, ev) \<in> set (indexed evs)"
    by (auto simp: tool_indices_def map_filter_set split: run_event.splits)
  then show "i < length evs" by (auto simp: indexed_def set_zip)
qed

lemma view_chains:
  assumes "buildExecutionTraceView h workflow evs malformed r = Inr v" "plain_ids evs"
  shows "list_all (\<lambda>p. climbs evs (tv_nodes v) (path_chain p)) (tv_backwardPaths v)"
proof -
  from assms(1) obtain u where u: "assertValidRunEventParentGraph evs = Inr u"
    by (auto simp: buildExecutionTraceView_def throws_bind_Inr_iff)
  let ?ns = "trace_nodes h evs r"
  have seed: "climbs evs ?ns (buildAncestorChain (tn_runEventId (?ns ! i)) (id_to_node ?ns))" if "i < length evs" for i
  proof -
    from chain_climbs [OF u assms(2) that, of "[]" h r] obtain rest where
      "ancestor_chain (id_to_node ?ns) [] (nodeRunEventId (evs ! i) i) = nodeRunEventId (evs ! i) i # rest"
      "climbs evs ?ns (nodeRunEventId (evs ! i) i # rest)" by auto
    with that show ?thesis by (simp add: buildAncestorChain_def trace_nodes_nth)
  qed
  from assms(1) have v: "tv_nodes v = ?ns" "tv_backwardPaths v = terminal_path ?ns
      @ (case r of None \<Rightarrow> [] | Some w \<Rightarrow> List.map_filter (step_path (last_ingest evs) ?ns) (indexed (er_steps (wr_engine w))))"
    by (auto simp: buildExecutionTraceView_def throws_bind_Inr_iff Let_def split: option.splits if_splits)
  have "list_all (\<lambda>p. climbs evs ?ns (path_chain p)) (terminal_path ?ns)"
  proof (cases "?ns = []")
    case False
    then have "evs \<noteq> []" "last ?ns = ?ns ! (length evs - 1)" by (auto simp: last_conv_nth trace_nodes_def indexed_def)
    with seed [of "length evs - 1"] False show ?thesis by (simp add: terminal_path_def Let_def)
  qed (simp add: terminal_path_def)
  moreover have "list_all (\<lambda>p. climbs evs ?ns (path_chain p)) (List.map_filter (step_path (last_ingest evs) ?ns) xs)" for xs
    by (auto simp: list_all_iff map_filter_set step_path_def Let_def intro!: seed last_ingest_bound)
  ultimately show ?thesis by (auto simp: v split: option.split)
qed

lemma v3_chain:
  assumes "buildExecutionTraceView h workflow evs malformed r = Inr v" "plain_ids evs" "i < length evs"
    and "event_schemaVersion (evs ! i) = 3"
  shows "tn_runEventId (tv_nodes v ! i) = ''syn:'' @ nat_str i \<and> tn_parentRunEventId (tv_nodes v ! i) = None
    \<and> buildAncestorChain (tn_runEventId (tv_nodes v ! i)) (id_to_node (tv_nodes v)) = [''syn:'' @ nat_str i]"
proof -
  from assms(1) obtain u where u: "assertValidRunEventParentGraph evs = Inr u"
    by (auto simp: buildExecutionTraceView_def throws_bind_Inr_iff)
  from assms(1) have v: "tv_nodes v = trace_nodes h evs r"
    by (auto simp: buildExecutionTraceView_def throws_bind_Inr_iff Let_def split: option.splits if_splits)
  have ids: "nodeRunEventId (evs ! i) i = ''syn:'' @ nat_str i" "resolvedParentRunEventId (evs ! i) = None"
    using assms(4) by (simp_all add: nodeRunEventId_def resolvedParentRunEventId_def)
  with node_lookup [OF u assms(2,3), of h r] assms(3) show ?thesis
    by (simp add: v trace_nodes_nth buildAncestorChain_def ancestor_chain.simps)
qed

end
