(* ===== verification/RunComparison.thy ===== *)
theory RunComparison
  imports Certificate
begin

text \<open>
  Comparison of runs (\<open>src/runComparison.ts\<close>): steps of two runs matched by what they check,
  failures introduced, resolved and kept, signatures that recur over runs, and a verdict on the
  trend. Maps from codes to counts are association lists in insertion order.
\<close>

section \<open>Trends\<close>

definition COMPARE_HIGHLIGHTS_MAX :: nat where
  "COMPARE_HIGHLIGHTS_MAX = 20"

datatype reliability_trend = Improving | Worsening | Unchanged | Mixed

fun trend_text :: "reliability_trend \<Rightarrow> string" where
  "trend_text Improving = ''improving''"
| "trend_text Worsening = ''worsening''"
| "trend_text Unchanged = ''unchanged''"
| "trend_text Mixed = ''mixed''"

fun severityRank :: "level \<Rightarrow> nat" where
  "severityRank High = 0"
| "severityRank Medium = 1"
| "severityRank Low = 2"

definition actionableTrend :: "per_run_actionable \<Rightarrow> per_run_actionable \<Rightarrow> reliability_trend" where
  "actionableTrend first last_run =
     (let fc = pr_category first; lc = pr_category last_run;
          fr = severityRank (pr_severity first); lr = severityRank (pr_severity last_run)
      in if fc = ''complete'' \<and> lc = ''complete'' then Unchanged
         else if fc \<noteq> ''complete'' \<and> lc = ''complete'' then Improving
         else if fc = ''complete'' \<and> lc \<noteq> ''complete'' then Worsening
         else if fc \<noteq> lc then Mixed
         else if fr < lr then Improving
         else if lr < fr then Worsening
         else Unchanged)"

definition perRunActionableFromWorkflowResult :: "workflow_result \<Rightarrow> nat \<Rightarrow> per_run_actionable" where
  "perRunActionableFromWorkflowResult r i =
     (case wt_failureAnalysis (wr_truth r) of
        None \<Rightarrow> \<lparr>pr_runIndex = int i, pr_category = ''complete'', pr_severity = Low,
          pr_recommendedAction = NoAction, pr_automationSafe = True\<rparr>
      | Some (_, af) \<Rightarrow> \<lparr>pr_runIndex = int i, pr_category = category_text (af_category af),
          pr_severity = af_severity af, pr_recommendedAction = af_recommendedAction af,
          pr_automationSafe = af_automationSafe af\<rparr>)"

section \<open>Multisets of codes\<close>

definition code_add :: "(string \<times> nat) list \<Rightarrow> string \<Rightarrow> (string \<times> nat) list" where
  "code_add m c = AList.update c ((case map_of m c of None \<Rightarrow> 0 | Some n \<Rightarrow> n) + 1) m"

definition multisetFromCodes :: "string list \<Rightarrow> (string \<times> nat) list" where
  "multisetFromCodes codes = foldl code_add [] codes"

definition count_in :: "(string \<times> nat) list \<Rightarrow> string \<Rightarrow> nat" where
  "count_in m c = (case map_of m c of None \<Rightarrow> 0 | Some n \<Rightarrow> n)"

definition multisetSubtract :: "(string \<times> nat) list \<Rightarrow> (string \<times> nat) list \<Rightarrow> (string \<times> nat) list" where
  "multisetSubtract a b =
     List.map_filter (\<lambda>(k, va). if count_in b k < va then Some (k, va - count_in b k) else None) a"

definition multisetToCodes :: "(string \<times> nat) list \<Rightarrow> string list" where
  "multisetToCodes m = concat (map (\<lambda>k. replicate (count_in m k) k) (js_sort compareUtf16Id (map fst m)))"

definition sortMultisetCodes :: "string list \<Rightarrow> string list" where
  "sortMultisetCodes codes = js_sort compareUtf16Id codes"

definition multisetToPairArray :: "(string \<times> nat) list \<Rightarrow> (string \<times> nat) list" where
  "multisetToPairArray m = js_sort (\<lambda>a b. compareUtf16Id (fst a) (fst b)) m"

text \<open>Codes of the first that the second lacks, sorted, each as often as it is lacking.\<close>

definition codes_minus :: "string list \<Rightarrow> string list \<Rightarrow> string list" where
  "codes_minus xs ys = multisetToCodes (multisetSubtract (multisetFromCodes xs) (multisetFromCodes ys))"

section \<open>Rows of effects\<close>

definition read_effect_row :: "jsval \<Rightarrow> parsed_effect option" where
  "read_effect_row e =
     (if \<not> is_object e then None
      else (case (get_prop e ''id'', get_prop e ''status'') of
          (VStr i, VStr st) \<Rightarrow> Some \<lparr>pe_id = i, pe_status = st,
            pe_reasons = (case get_prop e ''reasons'' of VArr rs \<Rightarrow> rs | _ \<Rightarrow> [])\<rparr>
        | _ \<Rightarrow> None))"

definition getEffectRows :: "step_outcome \<Rightarrow> parsed_effect list option" where
  "getEffectRows step =
     (case get_prop (VObj (so_evidence step)) ''effects'' of
        VArr rows \<Rightarrow> (case List.map_filter read_effect_row rows of [] \<Rightarrow> None | e # es \<Rightarrow> Some (e # es))
      | _ \<Rightarrow> None)"

text \<open>
  \<open>codesFromReasons\<close> of the reasons of an effect, which are a cast: a reason without a code,
  which the schema of results excludes, is an error.
\<close>

definition effect_code :: "jsval \<Rightarrow> js_error + string" where
  "effect_code r =
     (case get_prop r ''code'' of VStr c \<Rightarrow> Inr c | _ \<Rightarrow> Inl (JsTypeError ''effect reason has no code''))"

definition effect_codes :: "parsed_effect \<Rightarrow> js_error + string list" where
  "effect_codes e = throws_map effect_code (pe_reasons e)"

definition effect_failing :: "parsed_effect \<Rightarrow> bool" where
  "effect_failing e \<longleftrightarrow> pe_status e \<noteq> ''verified''"

definition isFailing :: "step_status \<Rightarrow> bool" where
  "isFailing s \<longleftrightarrow> s \<noteq> Verified"

section \<open>The key of a step\<close>

definition eq_text :: "identity_pair \<Rightarrow> string" where
  "eq_text p = ip_column p @ ''='' @ ip_value p"

definition canonicalEqKey :: "identity_pair list \<Rightarrow> string" where
  "canonicalEqKey pairs =
     join ''&'' (map eq_text (js_sort (\<lambda>a b. compareUtf16Id (ip_column a) (ip_column b)) pairs))"

fun fn_text :: "agg_fn \<Rightarrow> string" where
  "fn_text AggCountStar = ''COUNT_STAR''"
| "fn_text AggSum = ''SUM''"

fun side_text :: "table_side \<Rightarrow> string" where
  "side_text SideLeft = ''left''"
| "side_text SideRight = ''right''"

definition bars :: "string list \<Rightarrow> string" where
  "bars parts = join ''|'' parts"

fun check_key :: "host \<Rightarrow> relational_check \<Rightarrow> string" where
  "check_key h (RelatedExists c) =
     bars [''id'', rx_id c, ''related_exists'', rx_childTable c, canonicalEqKey (rx_matchEq c), []]"
| "check_key h (Aggregate c) =
     bars [''id'', ag_id c, ''aggregate'', ag_table c, fn_text (ag_fn c),
       (case ag_sumColumn c of None \<Rightarrow> [] | Some s \<Rightarrow> s), op_text (ag_expectOp c),
       num_to_string h (ag_expectValue c),
       join ''&'' (js_sort compareUtf16Id (map eq_text (ag_whereEq c))), []]"
| "check_key h (AntiJoin c) =
     bars [''id'', aj_id c, ''anti_join'', aj_anchorTable c, aj_lookupTable c, aj_anchorColumn c, aj_lookupColumn c,
       aj_lookupPresenceColumn c, ''fa:'' @ canonicalEqKey (aj_filterEqAnchor c),
       ''fl:'' @ canonicalEqKey (aj_filterEqLookup c), []]"
| "check_key h (JoinCount c) =
     bars [''id'', jc_id c, ''join_count'', jc_leftTable c, jc_rightTable c, jc_leftJoinColumn c, jc_rightJoinColumn c,
       op_text (jc_expectOp c), num_to_string h (jc_expectValue c),
       join ''&'' (js_sort compareUtf16Id (map (\<lambda>(side, p). side_text side @ ''.'' @ eq_text p) (jc_whereEq c))), []]"

definition effect_segment :: "resolved_effect \<Rightarrow> string" where
  "effect_segment e =
     bars [''id'', ef_id e, rq_table (ef_request e), canonicalEqKey (rq_identityEq (ef_request e)), []]"

fun witness_key :: "host \<Rightarrow> witness_request \<Rightarrow> js_error + string" where
  "witness_key h (WVector r) =
     Inr (bars [''vector_document'', provider_text (vq_provider r), vq_indexName r, vq_documentId r])"
| "witness_key h (WObject r) = Inr (bars [''object_storage_object'', oq_bucket r, oq_key r])"
| "witness_key h (WHttp r) =
     Inr (bars [''http_witness'', method_text (hq_method r), hq_url r, num_to_string h (hq_expectedStatus r)])"
| "witness_key h (WMongo r) =
     throws_bind (json_stringify h (mq_filter r)) (\<lambda>t.
       Inr (bars [''mongo_document'', mq_collection r, or_else t ''undefined'']))"

fun logicalStepKeyFromStep :: "host \<Rightarrow> step_request option \<Rightarrow> js_error + string option" where
  "logicalStepKeyFromStep h None = Inr None"
| "logicalStepKeyFromStep h (Some (QSqlRow r)) =
     Inr (Some (bars [''sql_row'', rq_table r, canonicalEqKey (rq_identityEq r)]))"
| "logicalStepKeyFromStep h (Some (QSqlRowAbsent r)) =
     Inr (Some (bars [''sql_row_absent'', aq_table r, canonicalEqKey (aq_identityEq r), canonicalEqKey (aq_filterEq r)]))"
| "logicalStepKeyFromStep h (Some (QSqlRelational checks)) =
     Inr (Some (''sql_relational|''
       @ concat (map (check_key h) (js_sort (\<lambda>a b. compareUtf16Id (check_id a) (check_id b)) checks))))"
| "logicalStepKeyFromStep h (Some (QSqlEffects effects)) =
     Inr (Some (''sql_effects|''
       @ concat (map effect_segment (js_sort (\<lambda>a b. compareUtf16Id (ef_id a) (ef_id b)) effects))))"
| "logicalStepKeyFromStep h (Some (QWitness w)) = throws_bind (witness_key h w) (\<lambda>k. Inr (Some k))"

text \<open>Of the steps with one key the one of least sequence number is kept, the first of equal ones.\<close>

record ambiguous_key =
  ak_logicalStepKey :: string
  ak_chosenSeq :: int
  ak_droppedSeq :: int

type_synonym key_map = "(string \<times> step_outcome) list \<times> ambiguous_key list"

fun key_map_add :: "key_map \<Rightarrow> string option \<times> step_outcome \<Rightarrow> key_map" where
  "key_map_add (m, amb) (None, step) = (m, amb)"
| "key_map_add (m, amb) (Some key, step) =
     (case map_of m key of
        None \<Rightarrow> (AList.update key step m, amb)
      | Some existing \<Rightarrow>
          if so_seq step < so_seq existing
          then (AList.update key step m, amb @ [\<lparr>ak_logicalStepKey = key, ak_chosenSeq = so_seq step,
                 ak_droppedSeq = so_seq existing\<rparr>])
          else (m, amb @ [\<lparr>ak_logicalStepKey = key, ak_chosenSeq = so_seq existing, ak_droppedSeq = so_seq step\<rparr>]))"

definition keyed_step :: "host \<Rightarrow> step_outcome \<Rightarrow> js_error + string option \<times> step_outcome" where
  "keyed_step h s = throws_bind (logicalStepKeyFromStep h (so_request s)) (\<lambda>k. Inr (k, s))"

definition buildLogicalStepKeyMap :: "host \<Rightarrow> step_outcome list \<Rightarrow> js_error + key_map" where
  "buildLogicalStepKeyMap h steps =
     throws_bind (throws_map (keyed_step h) steps) (\<lambda>ks. Inr (foldl key_map_add ([], []) ks))"

section \<open>The signature of a failing step\<close>

definition effect_signature :: "parsed_effect \<Rightarrow> js_error + string" where
  "effect_signature e =
     throws_bind (effect_codes e) (\<lambda>codes. Inr
       (''|e:'' @ pe_id e @ '':'' @ pe_status e @ '':r:'' @ join '','' (sortMultisetCodes codes)))"

definition rows_or_empty :: "parsed_effect list option \<Rightarrow> parsed_effect list" where
  "rows_or_empty x = (case x of None \<Rightarrow> [] | Some es \<Rightarrow> es)"

definition recurrenceSignature :: "step_outcome \<Rightarrow> js_error + string" where
  "recurrenceSignature step =
     throws_bind (throws_map effect_signature (js_sort (\<lambda>a b. compareUtf16Id (pe_id a) (pe_id b))
         (filter effect_failing (rows_or_empty (getEffectRows step))))) (\<lambda>segs. Inr
       (status_text (so_status step) @ ''|'' @ join '','' (sortMultisetCodes (map rs_code (so_reasons step)))
        @ concat segs))"

section \<open>Two runs step by step\<close>

datatype delta_kind = DeltaIntroduced | DeltaResolved | DeltaBothFailing | DeltaUnchangedOk

record effect_delta =
  ed_effectId :: string
  ed_kind :: delta_kind
  ed_introducedReasonCodes :: "string list"
  ed_resolvedReasonCodes :: "string list"
  ed_statusPrior :: "string option"
  ed_statusCurrent :: "string option"

record step_pair =
  sp_logicalStepKey :: string
  sp_seqPrior :: int
  sp_seqCurrent :: int
  sp_toolIdPrior :: string
  sp_toolIdCurrent :: string

record both_failing =
  bf_toolIdChanged :: bool
  bf_introducedStepReasonCodes :: "string list"
  bf_resolvedStepReasonCodes :: "string list"
  bf_effects :: "effect_delta list"

datatype bucket_a_entry =
    UnchangedOk step_pair
  | IntroducedFailure step_pair
  | ResolvedFailure step_pair
  | BothFailing step_pair both_failing
  | StructuralRemoval string int string bool
  | StructuralAddition string int string bool

fun entry_key :: "bucket_a_entry \<Rightarrow> string" where
  "entry_key (UnchangedOk p) = sp_logicalStepKey p"
| "entry_key (IntroducedFailure p) = sp_logicalStepKey p"
| "entry_key (ResolvedFailure p) = sp_logicalStepKey p"
| "entry_key (BothFailing p b) = sp_logicalStepKey p"
| "entry_key (StructuralRemoval k seq tool failing) = k"
| "entry_key (StructuralAddition k seq tool failing) = k"

definition delta_of :: "bool \<Rightarrow> bool \<Rightarrow> delta_kind" where
  "delta_of failed fails =
     (if \<not> failed \<and> \<not> fails then DeltaUnchangedOk
      else if \<not> failed \<and> fails then DeltaIntroduced
      else if failed \<and> \<not> fails then DeltaResolved
      else DeltaBothFailing)"

text \<open>\<open>new Map(rows.map((e) => [e.id, e]))\<close>: of rows with one id the last one counts.\<close>

definition rows_by_id :: "parsed_effect list option \<Rightarrow> (string \<times> parsed_effect) list" where
  "rows_by_id x = foldl (\<lambda>m e. AList.update (pe_id e) e m) [] (rows_or_empty x)"

fun delta_for ::
  "string \<Rightarrow> parsed_effect option \<Rightarrow> parsed_effect option \<Rightarrow> js_error + effect_delta option" where
  "delta_for i (Some p) None = throws_bind (effect_codes p) (\<lambda>codes. Inr (Some
     \<lparr>ed_effectId = i, ed_kind = (if effect_failing p then DeltaResolved else DeltaUnchangedOk),
      ed_introducedReasonCodes = [], ed_resolvedReasonCodes = sortMultisetCodes codes,
      ed_statusPrior = Some (pe_status p), ed_statusCurrent = None\<rparr>))"
| "delta_for i None (Some c) = throws_bind (effect_codes c) (\<lambda>codes. Inr (Some
     \<lparr>ed_effectId = i, ed_kind = (if effect_failing c then DeltaIntroduced else DeltaUnchangedOk),
      ed_introducedReasonCodes = sortMultisetCodes codes, ed_resolvedReasonCodes = [],
      ed_statusPrior = None, ed_statusCurrent = Some (pe_status c)\<rparr>))"
| "delta_for i None None = Inr None"
| "delta_for i (Some p) (Some c) =
     throws_bind (effect_codes p) (\<lambda>ps. throws_bind (effect_codes c) (\<lambda>cs. Inr (Some
     \<lparr>ed_effectId = i, ed_kind = delta_of (effect_failing p) (effect_failing c),
      ed_introducedReasonCodes = codes_minus cs ps, ed_resolvedReasonCodes = codes_minus ps cs,
      ed_statusPrior = Some (pe_status p), ed_statusCurrent = Some (pe_status c)\<rparr>)))"

definition effect_deltas :: "step_outcome \<Rightarrow> step_outcome \<Rightarrow> js_error + effect_delta list" where
  "effect_deltas prior current =
     (let byP = rows_by_id (getEffectRows prior); byC = rows_by_id (getEffectRows current);
          ids = js_sort compareUtf16Id (js_unique (map fst byP @ map fst byC))
      in throws_bind (throws_map (\<lambda>i. delta_for i (map_of byP i) (map_of byC i)) ids)
           (\<lambda>ds. Inr (List.map_filter id ds)))"

definition reason_codes :: "step_outcome \<Rightarrow> string list" where
  "reason_codes s = map rs_code (so_reasons s)"

definition pair_of_steps :: "string \<Rightarrow> step_outcome \<Rightarrow> step_outcome \<Rightarrow> step_pair" where
  "pair_of_steps k p c =
     \<lparr>sp_logicalStepKey = k, sp_seqPrior = so_seq p, sp_seqCurrent = so_seq c,
      sp_toolIdPrior = so_toolId p, sp_toolIdCurrent = so_toolId c\<rparr>"

fun entry_for ::
  "string \<Rightarrow> step_outcome option \<Rightarrow> step_outcome option \<Rightarrow> js_error + bucket_a_entry option" where
  "entry_for k (Some p) None = Inr (Some (StructuralRemoval k (so_seq p) (so_toolId p) (isFailing (so_status p))))"
| "entry_for k None (Some c) = Inr (Some (StructuralAddition k (so_seq c) (so_toolId c) (isFailing (so_status c))))"
| "entry_for k None None = Inr None"
| "entry_for k (Some p) (Some c) =
     (case delta_of (isFailing (so_status p)) (isFailing (so_status c)) of
        DeltaUnchangedOk \<Rightarrow> Inr (Some (UnchangedOk (pair_of_steps k p c)))
      | DeltaIntroduced \<Rightarrow> Inr (Some (IntroducedFailure (pair_of_steps k p c)))
      | DeltaResolved \<Rightarrow> Inr (Some (ResolvedFailure (pair_of_steps k p c)))
      | DeltaBothFailing \<Rightarrow> throws_bind (effect_deltas p c) (\<lambda>ds. Inr (Some (BothFailing (pair_of_steps k p c)
          \<lparr>bf_toolIdChanged = (so_toolId p \<noteq> so_toolId c),
           bf_introducedStepReasonCodes = codes_minus (reason_codes c) (reason_codes p),
           bf_resolvedStepReasonCodes = codes_minus (reason_codes p) (reason_codes c), bf_effects = ds\<rparr>))))"

definition compareBucketAEntry :: "bucket_a_entry \<Rightarrow> bucket_a_entry \<Rightarrow> int" where
  "compareBucketAEntry a b = compareUtf16Id (entry_key a) (entry_key b)"

definition bucket_entries :: "(string \<times> step_outcome) list \<Rightarrow> (string \<times> step_outcome) list \<Rightarrow> js_error + bucket_a_entry list" where
  "bucket_entries mapP mapC =
     (let keys = js_sort compareUtf16Id (js_unique (map fst mapP @ map fst mapC))
      in throws_bind (throws_map (\<lambda>k. entry_for k (map_of mapP k) (map_of mapC k)) keys)
           (\<lambda>es. Inr (js_sort compareBucketAEntry (List.map_filter id es))))"

definition pairwiseBucketA ::
  "host \<Rightarrow> step_outcome list \<Rightarrow> step_outcome list \<Rightarrow> js_error + bucket_a_entry list \<times> ambiguous_key list" where
  "pairwiseBucketA h prior current =
     throws_bind (buildLogicalStepKeyMap h prior) (\<lambda>(mapP, ambP).
     throws_bind (buildLogicalStepKeyMap h current) (\<lambda>(mapC, ambC).
     throws_bind (bucket_entries mapP mapC) (\<lambda>entries. Inr (entries,
       js_sort (\<lambda>x y. compareUtf16Id (ak_logicalStepKey x) (ak_logicalStepKey y)) (ambP @ ambC)))))"

section \<open>Failures without a target\<close>

record bucket_b =
  bb_introducedFailureSignatures :: "(string \<times> nat) list"
  bb_resolvedFailureSignatures :: "(string \<times> nat) list"
  bb_unchangedFailureInstanceCounts :: "(string \<times> nat) list"

definition untargeted_signatures :: "step_outcome list \<Rightarrow> js_error + string list" where
  "untargeted_signatures steps =
     throws_map recurrenceSignature (filter (\<lambda>s. so_request s = None \<and> isFailing (so_status s)) steps)"

definition kept_counts :: "(string \<times> nat) list \<Rightarrow> (string \<times> nat) list \<Rightarrow> (string \<times> nat) list" where
  "kept_counts mP mC =
     filter (\<lambda>(sig, n). 0 < n) (map (\<lambda>sig. (sig, min (count_in mP sig) (count_in mC sig)))
       (js_sort compareUtf16Id (js_unique (map fst mP @ map fst mC))))"

definition bucket_b_of :: "string list \<Rightarrow> string list \<Rightarrow> bucket_b" where
  "bucket_b_of sigsP sigsC =
     \<lparr>bb_introducedFailureSignatures = multisetToPairArray (multisetFromCodes (codes_minus sigsC sigsP)),
      bb_resolvedFailureSignatures = multisetToPairArray (multisetFromCodes (codes_minus sigsP sigsC)),
      bb_unchangedFailureInstanceCounts = kept_counts (multisetFromCodes sigsP) (multisetFromCodes sigsC)\<rparr>"

definition pairwiseBucketB :: "step_outcome list \<Rightarrow> step_outcome list \<Rightarrow> js_error + bucket_b" where
  "pairwiseBucketB prior current =
     throws_bind (untargeted_signatures prior) (\<lambda>sigsP.
     throws_bind (untargeted_signatures current) (\<lambda>sigsC. Inr (bucket_b_of sigsP sigsC)))"

section \<open>Signatures that recur\<close>

record exemplar =
  ex_runIndex :: nat
  ex_seq :: int
  ex_toolId :: string

record recurrence_pattern =
  rn_signature :: string
  rn_runIndices :: "nat list"
  rn_runsHitCount :: nat
  rn_exemplars :: "exemplar list"

text \<open>What is kept of each signature: the runs it was seen in, and the first three exemplars.\<close>

type_synonym seen_signatures = "(string \<times> nat list \<times> exemplar list) list"

definition see_signature :: "nat \<Rightarrow> string \<Rightarrow> step_outcome \<Rightarrow> seen_signatures \<Rightarrow> seen_signatures" where
  "see_signature ri sig step m =
     (let (runs, exs) = (case map_of m sig of None \<Rightarrow> ([], []) | Some e \<Rightarrow> e);
          e = \<lparr>ex_runIndex = ri, ex_seq = so_seq step, ex_toolId = so_toolId step\<rparr>
      in AList.update sig (if ri \<in> set runs then runs else runs @ [ri],
           if length exs < 3 then exs @ [e] else exs) m)"

text \<open>The steps of one run: of steps with one signature only the first counts.\<close>

fun see_run :: "nat \<Rightarrow> string list \<Rightarrow> step_outcome list \<Rightarrow> seen_signatures \<Rightarrow> js_error + seen_signatures" where
  "see_run ri seen [] m = Inr m"
| "see_run ri seen (step # steps) m =
     (if \<not> isFailing (so_status step) then see_run ri seen steps m
      else throws_bind (recurrenceSignature step) (\<lambda>sig.
        if sig \<in> set seen then see_run ri seen steps m
        else see_run ri (sig # seen) steps (see_signature ri sig step m)))"

fun see_runs :: "nat \<Rightarrow> step_outcome list list \<Rightarrow> seen_signatures \<Rightarrow> js_error + seen_signatures" where
  "see_runs ri [] m = Inr m"
| "see_runs ri (steps # runs) m = throws_bind (see_run ri [] steps m) (\<lambda>m'. see_runs (Suc ri) runs m')"

definition pattern_of :: "string \<times> nat list \<times> exemplar list \<Rightarrow> recurrence_pattern" where
  "pattern_of e =
     (case e of (sig, runs, exs) \<Rightarrow>
        \<lparr>rn_signature = sig, rn_runIndices = js_sort (\<lambda>a b. int a - int b) runs,
         rn_runsHitCount = length runs, rn_exemplars = exs\<rparr>)"

definition patterns_of :: "seen_signatures \<Rightarrow> recurrence_pattern list" where
  "patterns_of m =
     map pattern_of (filter (\<lambda>(sig, runs, exs). 2 \<le> length runs)
       (js_sort (\<lambda>a b. compareUtf16Id (fst a) (fst b)) m))"

definition buildRecurrence :: "step_outcome list list \<Rightarrow> js_error + recurrence_pattern list" where
  "buildRecurrence runs = throws_bind (see_runs 0 runs []) (\<lambda>m. Inr (patterns_of m))"

section \<open>The verdict on a window of runs\<close>

record recurrence_burden =
  rb_patternCount :: nat
  rb_maxRunsHitCount :: nat
  rb_crossRunFailure :: bool
  rb_rationale :: string

record reliability_assessment =
  ra_windowTrend :: reliability_trend
  ra_pairwiseTrend :: reliability_trend
  ra_recurrenceBurden :: recurrence_burden
  ra_headlineVerdict :: reliability_trend
  ra_headlineRationale :: string

definition max_hits :: "recurrence_pattern list \<Rightarrow> nat" where
  "max_hits ps = foldl (\<lambda>m p. max m (rn_runsHitCount p)) 0 ps"

definition buildRecurrenceBurden :: "recurrence_pattern list \<Rightarrow> recurrence_burden" where
  "buildRecurrenceBurden ps =
     \<lparr>rb_patternCount = length ps, rb_maxRunsHitCount = max_hits ps, rb_crossRunFailure = (ps \<noteq> []),
      rb_rationale = (if ps = [] then ''No failure signature appears in two or more distinct runs in this window.''
        else nat_str (length ps) @ '' failure signature(s) appear in two or more distinct runs in this window (max runs hit per signature: ''
          @ nat_str (max_hits ps) @ '').'')\<rparr>"

definition posture_text :: "per_run_actionable \<Rightarrow> string" where
  "posture_text r = pr_category r @ ''/'' @ level_text (pr_severity r)"

text \<open>The arrow of the source, U+2192, is written as the character 0x1A here.\<close>

definition headline ::
  "per_run_actionable \<Rightarrow> per_run_actionable \<Rightarrow> reliability_trend \<Rightarrow> reliability_trend \<Rightarrow> recurrence_burden
     \<Rightarrow> reliability_trend \<times> string" where
  "headline first last_run window hop burden =
     (case window of
        Worsening \<Rightarrow> (Worsening, ''First run actionable '' @ posture_text first @ '' vs last run '' @ posture_text last_run
          @ '': overall window worsened.''
          @ (if rb_crossRunFailure burden then '' '' @ rb_rationale burden else []))
      | Improving \<Rightarrow> (Improving, ''First run actionable '' @ posture_text first @ '' vs last run '' @ posture_text last_run
          @ '': overall window improved.''
          @ (if hop = Worsening
             then '' Latest step backslid vs prior run (pairwise trend worsening) despite window-level improvement.''
             else []))
      | Mixed \<Rightarrow> (Mixed, ''Window trend mixed: first vs last actionable categories differ ('' @ pr_category first
          @ '' vs '' @ pr_category last_run @ '') without a single ordering rule.'')
      | Unchanged \<Rightarrow>
          if hop \<noteq> Unchanged
          then (hop, ''Window actionable unchanged ('' @ posture_text last_run @ ''); immediate prior'' @ [CHR 0x1A]
            @ ''current hop is '' @ trend_text hop @ ''.'')
          else if rb_crossRunFailure burden
          then (Mixed, ''Window and pairwise actionable unchanged, but recurring failure patterns exist. ''
            @ rb_rationale burden)
          else (Unchanged, ''Window and pairwise actionable posture unchanged; no cross-run recurring failure signatures.''))"

definition buildReliabilityAssessment ::
  "per_run_actionable list \<Rightarrow> nat \<Rightarrow> nat \<Rightarrow> recurrence_pattern list \<Rightarrow> reliability_assessment" where
  "buildReliabilityAssessment perRun prior current ps =
     (let window = actionableTrend (hd perRun) (last perRun);
          hop = actionableTrend (perRun ! prior) (perRun ! current);
          burden = buildRecurrenceBurden ps;
          (verdict, rationale) = headline (hd perRun) (last perRun) window hop burden
      in \<lparr>ra_windowTrend = window, ra_pairwiseTrend = hop, ra_recurrenceBurden = burden,
          ra_headlineVerdict = verdict, ra_headlineRationale = rationale\<rparr>)"

section \<open>Highlights\<close>

record compare_highlights =
  ch_introducedLogicalStepKeys :: "string list"
  ch_resolvedLogicalStepKeys :: "string list"
  ch_bothFailingChurn :: "(string \<times> string list \<times> string list) list"
  ch_bucketBIntroducedSignatures :: "(string \<times> nat) list"
  ch_bucketBResolvedSignatures :: "(string \<times> nat) list"
  ch_recurringSignatures :: "string list"

definition capSortKeys :: "string list \<Rightarrow> string list" where
  "capSortKeys keys = take COMPARE_HIGHLIGHTS_MAX (js_sort compareUtf16Id keys)"

fun introduced_key :: "bucket_a_entry \<Rightarrow> string option" where
  "introduced_key (IntroducedFailure p) = Some (sp_logicalStepKey p)"
| "introduced_key _ = None"

fun resolved_key :: "bucket_a_entry \<Rightarrow> string option" where
  "resolved_key (ResolvedFailure p) = Some (sp_logicalStepKey p)"
| "resolved_key _ = None"

fun churn :: "bucket_a_entry \<Rightarrow> (string \<times> string list \<times> string list) option" where
  "churn (BothFailing p b) =
     (if bf_introducedStepReasonCodes b \<noteq> [] \<or> bf_resolvedStepReasonCodes b \<noteq> []
      then Some (sp_logicalStepKey p, bf_introducedStepReasonCodes b, bf_resolvedStepReasonCodes b) else None)"
| "churn _ = None"

definition top_by_key :: "(string \<times> 'a) list \<Rightarrow> (string \<times> 'a) list" where
  "top_by_key xs = take COMPARE_HIGHLIGHTS_MAX (js_sort (\<lambda>a b. compareUtf16Id (fst a) (fst b)) xs)"

definition buildCompareHighlights ::
  "bucket_a_entry list \<Rightarrow> bucket_b \<Rightarrow> recurrence_pattern list \<Rightarrow> compare_highlights" where
  "buildCompareHighlights bucketA bucketB ps =
     \<lparr>ch_introducedLogicalStepKeys = capSortKeys (List.map_filter introduced_key bucketA),
      ch_resolvedLogicalStepKeys = capSortKeys (List.map_filter resolved_key bucketA),
      ch_bothFailingChurn = top_by_key (List.map_filter churn bucketA),
      ch_bucketBIntroducedSignatures = top_by_key (bb_introducedFailureSignatures bucketB),
      ch_bucketBResolvedSignatures = top_by_key (bb_resolvedFailureSignatures bucketB),
      ch_recurringSignatures = capSortKeys (map rn_signature ps)\<rparr>"

section \<open>The report\<close>

record pairwise_comparison =
  pc_priorRunIndex :: nat
  pc_currentRunIndex :: nat
  pc_introducedRunLevelCodes :: "string list"
  pc_resolvedRunLevelCodes :: "string list"
  pc_ambiguousLogicalKeyResolutions :: "ambiguous_key list"
  pc_bucketA :: "bucket_a_entry list"
  pc_bucketB :: bucket_b

record run_comparison =
  rc_workflowId :: string
  rc_runs :: "(nat \<times> string) list"
  rc_perRunActionableFailures :: "per_run_actionable list"
  rc_categoryHistogram :: "(string \<times> nat) list"
  rc_actionableCategoryRecurrence :: "recurrence_row list"
  rc_pairwise :: pairwise_comparison
  rc_patterns :: "recurrence_pattern list"
  rc_reliabilityAssessment :: reliability_assessment
  rc_compareHighlights :: compare_highlights

definition steps_of :: "workflow_result \<Rightarrow> step_outcome list" where
  "steps_of r = er_steps (wr_engine r)"

definition run_level_codes :: "workflow_result \<Rightarrow> string list" where
  "run_level_codes r = map rs_code (er_runLevelReasons (wr_engine r))"

definition per_run :: "workflow_result list \<Rightarrow> per_run_actionable list" where
  "per_run results = map (\<lambda>(i, r). perRunActionableFromWorkflowResult r i) (zip [0..<length results] results)"

definition compare_error :: "workflow_result list \<Rightarrow> string list \<Rightarrow> string option" where
  "compare_error results labels =
     (if length results \<noteq> length labels
      then Some ''buildRunComparisonReport: results and displayLabels length mismatch''
      else if length results < 2 then Some ''buildRunComparisonReport: at least two runs required''
      else if list_ex (\<lambda>r. er_workflowId (wr_engine r) \<noteq> er_workflowId (wr_engine (hd results))) results
      then Some ''buildRunComparisonReport: workflowId mismatch''
      else None)"

definition compare_pair :: "host \<Rightarrow> nat \<Rightarrow> workflow_result \<Rightarrow> workflow_result \<Rightarrow> js_error + pairwise_comparison" where
  "compare_pair h n prior current =
     throws_bind (pairwiseBucketA h (steps_of prior) (steps_of current)) (\<lambda>(bucketA, ambiguous).
     throws_bind (pairwiseBucketB (steps_of prior) (steps_of current)) (\<lambda>bucketB. Inr
       \<lparr>pc_priorRunIndex = n - 2, pc_currentRunIndex = n - 1,
        pc_introducedRunLevelCodes = codes_minus (run_level_codes current) (run_level_codes prior),
        pc_resolvedRunLevelCodes = codes_minus (run_level_codes prior) (run_level_codes current),
        pc_ambiguousLogicalKeyResolutions = ambiguous, pc_bucketA = bucketA, pc_bucketB = bucketB\<rparr>))"

definition buildRunComparisonReport :: "host \<Rightarrow> workflow_result list \<Rightarrow> string list \<Rightarrow> js_error + run_comparison" where
  "buildRunComparisonReport h results labels =
     (case compare_error results labels of
        Some m \<Rightarrow> Inl (JsError m)
      | None \<Rightarrow> let n = length results; actionable = per_run results
          in throws_bind (compare_pair h n (results ! (n - 2)) (results ! (n - 1))) (\<lambda>pair.
             throws_bind (buildRecurrence (map steps_of results)) (\<lambda>patterns. Inr
               \<lparr>rc_workflowId = er_workflowId (wr_engine (hd results)), rc_runs = zip [0..<n] labels,
                rc_perRunActionableFailures = actionable,
                rc_categoryHistogram = buildCategoryHistogram h actionable,
                rc_actionableCategoryRecurrence = buildActionableCategoryRecurrence h actionable,
                rc_pairwise = pair, rc_patterns = patterns,
                rc_reliabilityAssessment = buildReliabilityAssessment actionable (n - 2) (n - 1) patterns,
                rc_compareHighlights = buildCompareHighlights (pc_bucketA pair) (pc_bucketB pair) patterns\<rparr>)))"

end
