(* ===== verification/ComparisonProperties.thy ===== *)
theory ComparisonProperties
  imports RunComparison
begin

text \<open>
  What a comparison of runs accounts for: differences of codes are differences of multisets,
  every key of either run has exactly one entry, and a pattern is listed exactly when its
  signature occurs in two runs.
\<close>

section \<open>Differences of codes\<close>

lemma count_in_code_add [simp]: "count_in (code_add m c) d = count_in m d + (if c = d then 1 else 0)"
  by (auto simp: count_in_def code_add_def update_conv')

lemma code_add_keys:
  "distinct (map fst m) \<Longrightarrow> distinct (map fst (code_add m c))"
  by (simp add: code_add_def distinct_update)

lemma count_in_foldl: "count_in (foldl code_add m xs) c = count_in m c + count (mset xs) c"
  by (induction xs arbitrary: m) auto

lemma count_multisetFromCodes [simp]: "count_in (multisetFromCodes xs) c = count (mset xs) c"
  by (simp add: multisetFromCodes_def count_in_foldl) (simp add: count_in_def)

lemma distinct_multisetFromCodes [simp]: "distinct (map fst (multisetFromCodes xs))"
proof -
  have "distinct (map fst m) \<Longrightarrow> distinct (map fst (foldl code_add m xs))" for m
    by (induction xs arbitrary: m) (simp_all add: code_add_keys)
  from this [of "[]"] show ?thesis by (simp add: multisetFromCodes_def)
qed

lemma map_filter_keys:
  "set (map fst (List.map_filter (\<lambda>(k, v). map_option (Pair k) (f k v)) m)) \<subseteq> set (map fst m)"
  by (induction m) (auto simp: map_filter_simps split: option.splits)

lemma subtract_as_filter:
  "multisetSubtract a b
     = List.map_filter (\<lambda>(k, v). map_option (Pair k) (if count_in b k < v then Some (v - count_in b k) else None)) a"
  unfolding multisetSubtract_def by (rule arg_cong [where f = "\<lambda>g. List.map_filter g a"]) (auto simp: fun_eq_iff)

lemma subtract_Cons:
  "multisetSubtract ((k, v) # a) b
     = (if count_in b k < v then (k, v - count_in b k) # multisetSubtract a b else multisetSubtract a b)"
  by (simp add: multisetSubtract_def map_filter_simps)

lemma subtract_keys: "set (map fst (multisetSubtract a b)) \<subseteq> set (map fst a)"
  unfolding subtract_as_filter by (rule map_filter_keys)

lemma distinct_subtract [simp]: "distinct (map fst a) \<Longrightarrow> distinct (map fst (multisetSubtract a b))"
proof (induction a)
  case Nil
  then show ?case by (simp add: multisetSubtract_def map_filter_simps)
next
  case (Cons e a)
  obtain k v where e: "e = (k, v)" by (cases e)
  with Cons subtract_keys [of a b] show ?case by (auto simp: subtract_Cons)
qed

lemma count_in_Cons: "count_in ((k, v) # m) c = (if k = c then v else count_in m c)"
  by (simp add: count_in_def)

lemma count_in_absent: "c \<notin> set (map fst m) \<Longrightarrow> count_in m c = 0"
  by (induction m) (auto simp: count_in_def)

lemma count_in_subtract: "distinct (map fst a) \<Longrightarrow> count_in (multisetSubtract a b) c = count_in a c - count_in b c"
proof (induction a)
  case Nil
  then show ?case by (simp add: multisetSubtract_def map_filter_simps count_in_def)
next
  case (Cons e a)
  obtain k v where e: "e = (k, v)" by (cases e)
  show ?case
  proof (cases "k = c")
    case True
    with Cons.prems e have "c \<notin> set (map fst a)" by auto
    then have "count_in (multisetSubtract a b) c = 0" using subtract_keys by (blast intro: count_in_absent)
    with True e show ?thesis by (simp add: subtract_Cons count_in_Cons)
  qed (use Cons e in \<open>simp add: subtract_Cons count_in_Cons\<close>)
qed

lemma count_replicates:
  "distinct ks \<Longrightarrow> count (mset (concat (map (\<lambda>k. replicate (f k) k) ks))) c = (if c \<in> set ks then f c else 0)"
  by (induction ks) auto

lemma count_multisetToCodes: "distinct (map fst m) \<Longrightarrow> count (mset (multisetToCodes m)) c = count_in m c"
  using count_in_absent [of c m] by (simp add: multisetToCodes_def count_replicates)

lemma sorted_replicates:
  "sorted ks \<Longrightarrow> sorted (concat (map (\<lambda>k. replicate (f k) (k :: string)) ks))"
  by (induction ks) (auto simp: sorted_append)

lemma sorted_compareUtf16Id: "sorted (js_sort compareUtf16Id xs)"
  using utf16.sort_sorted [of id xs] by (simp add: compareUtf16Id_le)

lemma codes_minus_difference:
  "mset (codes_minus xs ys) = mset xs - mset ys" "sorted (codes_minus xs ys)"
  by (simp_all add: multiset_eq_iff codes_minus_def count_multisetToCodes count_in_subtract)
     (simp add: multisetToCodes_def sorted_replicates sorted_compareUtf16Id)

section \<open>Entries and keys\<close>

definition step_key_of :: "host \<Rightarrow> step_outcome \<Rightarrow> string option" where
  "step_key_of h s = (case logicalStepKeyFromStep h (so_request s) of Inl e \<Rightarrow> None | Inr k \<Rightarrow> k)"

lemma key_map_add_keys:
  "set (map fst (fst (key_map_add m (k, s)))) = set (map fst (fst m)) \<union> set_option k"
  by (cases m; cases k)
     (auto simp: update_conv' dom_map_of_conv_image_fst [symmetric] dom_update split: option.splits if_splits)

lemma key_map_add_distinct:
  "distinct (map fst (fst m)) \<Longrightarrow> distinct (map fst (fst (key_map_add m (k, s))))"
  by (cases m; cases k) (auto simp: distinct_update split: option.splits)

lemma key_map_keys:
  "set (map fst (fst (foldl key_map_add m ks))) = set (map fst (fst m)) \<union> {k. Some k \<in> fst ` set ks}"
proof (induction ks arbitrary: m)
  case Nil
  then show ?case by simp
next
  case (Cons e ks)
  obtain k s where e: "e = (k, s)" by (cases e)
  show ?case by (simp only: foldl_Cons Cons.IH e key_map_add_keys) auto
qed

lemma keyed_steps:
  assumes "throws_map (keyed_step h) steps = Inr ks"
  shows "ks = map (\<lambda>s. (step_key_of h s, s)) steps"
  using assms
proof (induction steps arbitrary: ks)
  case Nil
  then show ?case by simp
next
  case (Cons s steps)
  from Cons.prems obtain e ks' where e: "keyed_step h s = Inr e" and ks: "ks = e # ks'"
    "throws_map (keyed_step h) steps = Inr ks'"
    by (auto simp: throws_bind_Inr_iff)
  from e have "e = (step_key_of h s, s)"
    by (auto simp: keyed_step_def step_key_of_def throws_bind_Inr_iff)
  with Cons.IH ks show ?case by simp
qed

lemma step_map_keys:
  assumes "buildLogicalStepKeyMap h steps = Inr m"
  shows "set (map fst (fst m)) = {k. \<exists>s. s \<in> set steps \<and> step_key_of h s = Some k}"
proof -
  from assms obtain ks where ks: "throws_map (keyed_step h) steps = Inr ks" "m = foldl key_map_add ([], []) ks"
    by (auto simp: buildLogicalStepKeyMap_def throws_bind_Inr_iff)
  show ?thesis unfolding ks(2) key_map_keys keyed_steps [OF ks(1)] by force
qed

lemma entry_for_key: "entry_for k p c = Inr x \<Longrightarrow> p \<noteq> None \<or> c \<noteq> None \<Longrightarrow> \<exists>e. x = Some e \<and> entry_key e = k"
  by (cases p; cases c)
     (auto simp: pair_of_steps_def throws_bind_Inr_iff split: delta_kind.splits)

lemma entries_of_keys:
  assumes "throws_map (\<lambda>k. entry_for k (P k) (C k)) keys = Inr es" "\<forall>k \<in> set keys. P k \<noteq> None \<or> C k \<noteq> None"
  shows "map entry_key (List.map_filter id es) = keys"
  using assms
proof (induction keys arbitrary: es)
  case Nil
  then show ?case by (simp add: map_filter_simps)
next
  case (Cons k keys)
  then obtain x es' where x: "entry_for k (P k) (C k) = Inr x" and es: "es = x # es'"
    and rest: "throws_map (\<lambda>k. entry_for k (P k) (C k)) keys = Inr es'"
    by (auto simp: throws_bind_Inr_iff)
  from entry_for_key [OF x] Cons.prems(2) obtain e where "x = Some e" "entry_key e = k" by auto
  with Cons.IH [OF rest] Cons.prems(2) es show ?case by (simp add: map_filter_simps)
qed

lemma map_of_key: "k \<in> set (map fst m) \<Longrightarrow> map_of m k \<noteq> None"
  by (simp add: map_of_eq_None_iff)

lemma bucket_entries_keys:
  assumes "bucket_entries mapP mapC = Inr es"
  shows "sorted (map entry_key es)" "distinct (map entry_key es)"
    "set (map entry_key es) = set (map fst mapP) \<union> set (map fst mapC)"
proof -
  let ?keys = "js_sort compareUtf16Id (js_unique (map fst mapP @ map fst mapC))"
  from assms obtain xs where xs: "throws_map (\<lambda>k. entry_for k (map_of mapP k) (map_of mapC k)) ?keys = Inr xs"
    and es: "es = js_sort compareBucketAEntry (List.map_filter id xs)"
    by (auto simp: bucket_entries_def Let_def throws_bind_Inr_iff)
  have keys: "map entry_key (List.map_filter id xs) = ?keys"
  proof (rule entries_of_keys [OF xs], rule ballI)
    fix k assume "k \<in> set ?keys"
    then have "k \<in> set (map fst mapP) \<or> k \<in> set (map fst mapC)" by simp
    then show "map_of mapP k \<noteq> None \<or> map_of mapC k \<noteq> None" by (metis map_of_key)
  qed
  have "map entry_key es = js_sort compareUtf16Id ?keys"
    unfolding es compareBucketAEntry_def map_js_sort [where g = entry_key and cmp = compareUtf16Id] keys ..
  then show "sorted (map entry_key es)" "distinct (map entry_key es)"
    "set (map entry_key es) = set (map fst mapP) \<union> set (map fst mapC)"
    by (simp_all add: sorted_compareUtf16Id)
qed

lemma pairwise_keys:
  assumes "pairwiseBucketA h prior current = Inr (es, amb)"
  shows "sorted (map entry_key es) \<and> distinct (map entry_key es)
    \<and> set (map entry_key es) = {k. \<exists>s. s \<in> set prior \<union> set current \<and> step_key_of h s = Some k}"
proof -
  from assms obtain p c where maps: "buildLogicalStepKeyMap h prior = Inr p" "buildLogicalStepKeyMap h current = Inr c"
    and es: "bucket_entries (fst p) (fst c) = Inr es"
    by (auto simp: pairwiseBucketA_def throws_bind_Inr_iff split: prod.splits)
  from bucket_entries_keys [OF es] step_map_keys [OF maps(1)] step_map_keys [OF maps(2)]
  show ?thesis by blast
qed

section \<open>Patterns\<close>

text \<open>The signatures of the failing steps of a run, and the runs kept of a signature.\<close>

definition failing_signatures :: "step_outcome list \<Rightarrow> string list" where
  "failing_signatures steps =
     (case throws_map recurrenceSignature (filter (\<lambda>s. isFailing (so_status s)) steps) of Inl e \<Rightarrow> [] | Inr sigs \<Rightarrow> sigs)"

definition runs_in :: "seen_signatures \<Rightarrow> string \<Rightarrow> nat list" where
  "runs_in m c = (case map_of m c of None \<Rightarrow> [] | Some e \<Rightarrow> fst e)"

definition runs_with :: "string \<Rightarrow> step_outcome list list \<Rightarrow> nat list" where
  "runs_with c runs = filter (\<lambda>i. c \<in> set (failing_signatures (runs ! i))) [0..<length runs]"

lemma runs_in_see [simp]:
  "runs_in (see_signature ri sig step m) c
     = (if c = sig \<and> ri \<notin> set (runs_in m c) then runs_in m c @ [ri] else runs_in m c)"
  by (auto simp: runs_in_def see_signature_def update_conv' Let_def split: option.splits prod.splits)

lemma see_signature_distinct:
  "distinct (map fst m) \<Longrightarrow> distinct (map fst (see_signature ri sig step m))"
  by (auto simp: see_signature_def distinct_update split: prod.splits)

lemma see_run_throws:
  "see_run ri seen steps m = Inr m'
     \<Longrightarrow> throws_map recurrenceSignature (filter (\<lambda>s. isFailing (so_status s)) steps) = Inr (failing_signatures steps)"
proof (induction ri seen steps m rule: see_run.induct)
  case (1 ri seen m)
  then show ?case by (simp add: failing_signatures_def)
next
  case (2 ri seen step steps m)
  show ?case
  proof (cases "isFailing (so_status step)")
    case False
    with 2 show ?thesis by (simp add: failing_signatures_def)
  next
    case True
    with 2(4) obtain sig where sig: "recurrenceSignature step = Inr sig" by (auto simp: throws_bind_Inr_iff)
    with True 2 have "throws_map recurrenceSignature (filter (\<lambda>s. isFailing (so_status s)) steps) = Inr (failing_signatures steps)"
      by (auto split: if_splits)
    with True sig show ?thesis
      by (cases "throws_map recurrenceSignature (filter (\<lambda>s. isFailing (so_status s)) steps)")
         (simp_all add: failing_signatures_def)
  qed
qed

lemma failing_signatures_Cons:
  assumes "see_run ri seen (step # steps) m = Inr m'" "isFailing (so_status step)" "recurrenceSignature step = Inr sig"
  shows "failing_signatures (step # steps) = sig # failing_signatures steps"
  using see_run_throws [OF assms(1)] assms(2,3)
  by (cases "throws_map recurrenceSignature (filter (\<lambda>s. isFailing (so_status s)) steps)") (simp_all add: failing_signatures_def)

lemma see_run_runs:
  "see_run ri seen steps m = Inr m'
     \<Longrightarrow> runs_in m' c = (if c \<in> set (failing_signatures steps) \<and> c \<notin> set seen \<and> ri \<notin> set (runs_in m c)
           then runs_in m c @ [ri] else runs_in m c)"
proof (induction ri seen steps m rule: see_run.induct)
  case (1 ri seen m)
  then show ?case by (simp add: failing_signatures_def)
next
  case (2 ri seen step steps m)
  show ?case
  proof (cases "isFailing (so_status step)")
    case False
    with 2 show ?thesis by (simp add: failing_signatures_def)
  next
    case True
    with 2(4) obtain sig where sig: "recurrenceSignature step = Inr sig" by (auto simp: throws_bind_Inr_iff)
    note cons = failing_signatures_Cons [OF 2(4) True sig]
    from 2 True sig show ?thesis by (cases "sig \<in> set seen") (auto simp: cons)
  qed
qed

lemma see_run_distinct:
  "see_run ri seen steps m = Inr m' \<Longrightarrow> distinct (map fst m) \<Longrightarrow> distinct (map fst m')"
  by (induction ri seen steps m rule: see_run.induct)
     (auto simp: throws_bind_Inr_iff see_signature_distinct split: if_splits)

lemma upt_shift: "[a..<a + Suc n] = a # [Suc a..<Suc a + n]"
  by (simp add: upt_rec)

lemma see_runs_runs:
  "see_runs ri runs m = Inr m' \<Longrightarrow> \<forall>i \<in> set (runs_in m c). i < ri
     \<Longrightarrow> runs_in m' c = runs_in m c
           @ filter (\<lambda>i. c \<in> set (failing_signatures (runs ! (i - ri)))) [ri..<ri + length runs]"
proof (induction ri runs m rule: see_runs.induct)
  case (1 ri m)
  then show ?case by simp
next
  case (2 ri steps runs m)
  then obtain m1 where m1: "see_run ri [] steps m = Inr m1" and m': "see_runs (Suc ri) runs m1 = Inr m'"
    by (auto simp: throws_bind_Inr_iff)
  from 2(3) have new: "ri \<notin> set (runs_in m c)" by auto
  note one = see_run_runs [OF m1, of c]
  have "\<forall>i \<in> set (runs_in m1 c). i < Suc ri" using 2(3) by (auto simp: one less_Suc_eq)
  from 2(1) [OF m' this]
  have "runs_in m' c = runs_in m1 c
    @ filter (\<lambda>i. c \<in> set (failing_signatures (runs ! (i - Suc ri)))) [Suc ri..<Suc ri + length runs]" .
  moreover have "filter (\<lambda>i. c \<in> set (failing_signatures (runs ! (i - Suc ri)))) [Suc ri..<Suc ri + length runs]
    = filter (\<lambda>i. c \<in> set (failing_signatures ((steps # runs) ! (i - ri)))) [Suc ri..<Suc ri + length runs]"
  proof (rule filter_cong [OF refl])
    fix i assume "i \<in> set [Suc ri..<Suc ri + length runs]"
    then have "i - ri = Suc (i - Suc ri)" by auto
    then show "c \<in> set (failing_signatures (runs ! (i - Suc ri)))
      \<longleftrightarrow> c \<in> set (failing_signatures ((steps # runs) ! (i - ri)))" by simp
  qed
  ultimately show ?case using new by (simp only: length_Cons upt_shift) (simp add: one)
qed

lemma see_runs_distinct:
  "see_runs ri runs m = Inr m' \<Longrightarrow> distinct (map fst m) \<Longrightarrow> distinct (map fst m')"
  by (induction ri runs m rule: see_runs.induct) (auto simp: throws_bind_Inr_iff see_run_distinct)

lemma sorted_runs_with: "js_sort (\<lambda>a b. int a - int b) (runs_with c runs) = runs_with c runs"
  by (rule byInt.sort_of_sorted [of int]) (simp add: runs_with_def sorted_wrt_filter sorted_wrt_upt less_imp_le)

lemma patterns_exact:
  assumes "buildRecurrence runs = Inr ps"
  shows "sorted (map rn_signature ps) \<and> distinct (map rn_signature ps)
    \<and> set (map rn_signature ps) = {c. 2 \<le> length (runs_with c runs)}
    \<and> list_all (\<lambda>p. rn_runIndices p = runs_with (rn_signature p) runs
        \<and> rn_runsHitCount p = length (runs_with (rn_signature p) runs)) ps"
proof -
  from assms obtain m where m: "see_runs 0 runs [] = Inr m" and ps: "ps = patterns_of m"
    by (auto simp: buildRecurrence_def throws_bind_Inr_iff)
  have kept: "runs_in m c = runs_with c runs" for c
    using see_runs_runs [OF m, of c] by (simp add: runs_in_def runs_with_def)
  have dist: "distinct (map fst m)" by (rule see_runs_distinct [OF m]) simp
  let ?s = "js_sort (\<lambda>a b. compareUtf16Id (fst a) (fst b)) m"
  have names: "map rn_signature ps = map fst (filter (\<lambda>(sig, runs, exs). 2 \<le> length runs) ?s)"
    by (auto simp: ps patterns_of_def pattern_of_def)
  have fst_sort: "map fst ?s = js_sort compareUtf16Id (map fst m)" by (rule map_js_sort)
  have in_m: "(c, e) \<in> set m \<longleftrightarrow> map_of m c = Some e" for c e using dist by simp
  have entry: "fst e = runs_with c runs" if "(c, e) \<in> set m" for c e
    using that kept [of c] by (simp add: in_m runs_in_def)
  have "sorted (map fst ?s)" "distinct (map fst ?s)"
    using dist by (simp_all only: fst_sort sorted_compareUtf16Id distinct_js_sort)
  then have "sorted (map rn_signature ps)" "distinct (map rn_signature ps)"
    by (simp_all add: names sorted_filter distinct_map_filter)
  moreover have "set (map rn_signature ps) = {c. 2 \<le> length (runs_with c runs)}"
  proof (intro set_eqI iffI)
    fix c assume "c \<in> set (map rn_signature ps)"
    then show "c \<in> {c. 2 \<le> length (runs_with c runs)}" unfolding names by (force dest: entry)
  next
    fix c assume "c \<in> {c. 2 \<le> length (runs_with c runs)}"
    with kept [of c] obtain e where "map_of m c = Some e" "2 \<le> length (fst e)"
      by (auto simp: runs_in_def split: option.splits)
    then have "(c, e) \<in> set m" "2 \<le> length (fst e)" by (simp_all add: in_m)
    then show "c \<in> set (map rn_signature ps)" unfolding names by force
  qed
  moreover have "list_all (\<lambda>p. rn_runIndices p = runs_with (rn_signature p) runs
        \<and> rn_runsHitCount p = length (runs_with (rn_signature p) runs)) ps"
    by (force simp: list_all_iff ps patterns_of_def pattern_of_def sorted_runs_with dest: entry)
  ultimately show ?thesis by blast
qed

end
