(* ===== verification/RuntimeProperties.thy ===== *)
theory RuntimeProperties
  imports Examples GateProperties TraceProperties ComparisonProperties
begin

text \<open>
  The properties of the parts that act on finished or captured runs: the gates before an
  irreversible action, the certificate, the execution trace and the comparison of runs.
\<close>

section \<open>Gates\<close>

text \<open>
  C3: the decision gate. Whatever was appended to it, the buffer holds events of its workflow
  only; and when \<open>assertSafeForIrreversibleAction\<close> is through, the registry was loaded, the
  buffered events were verified against the database step by step, and the action was let
  through exactly when nothing malformed had been appended, there is a step, and every step is
  verified. Otherwise it is blocked with a record whose trust decision is not \<open>safe\<close>.
\<close>

theorem irreversible_action_gate:
  assumes "gate_reachable (ge_decode env) (ge_workflowId env) s"
    and "assertSafeForIrreversibleAction h env s w = Some (Inr out, w')"
  shows "list_all (\<lambda>e. event_workflowId e = ge_workflowId env) (gs_bufferedRunEvents s)
    \<and> (\<exists>reg engine w1. loadToolsRegistry h (ge_decodeReg env) (ge_registryFile env) = Inr reg
    \<and> verifyRunStateFromEvents h (ge_runtime env) (ge_logStep env) (ge_database env) (ge_policy env) (ge_workflowId env)
        reg (buffered_load h s) w = Some (Inr engine, w1)
    \<and> list_all2 (outcome_of_plan reg) (planLogicalSteps h (ld_events (buffered_load h s))) (er_steps engine)
    \<and> (out = GateOpen \<longleftrightarrow> gs_runLevelReasons s = [] \<and> er_steps engine \<noteq> []
        \<and> list_all (\<lambda>q. so_status q = Verified) (er_steps engine))
    \<and> (case out of GateOpen \<Rightarrow> True | GateBlocked r c \<Rightarrow> tr_trust_decision r \<noteq> Safe))"
  using gate_buffer [OF assms(1)] decision_gate_sound [OF assms(2)] by blast

definition demo_gate :: "wire_version \<Rightarrow> unit gate_env" where
  "demo_gate wire = \<lparr>ge_runtime = demo_runtime [ann_row], ge_logStep = (\<lambda>l. io_return ()),
     ge_truthReport = (\<lambda>t. io_return ()),
     ge_decode = (\<lambda>v. if is_object v then Some (ToolObserved (demo_event\<lparr>te_wire := wire\<rparr>)) else None),
     ge_decodeReg = (\<lambda>v. Inr [demo_entry]), ge_schema = (\<lambda>c. None), ge_registryFile = Inr ''registry'',
     ge_database = VerificationDatabase DbSqlite ''app.db'', ge_policy = DEFAULT_VERIFICATION_POLICY,
     ge_workflowId = ''w'', ge_ownerRoutingKey = None, ge_routingTeam = None, ge_ownerSlug = None,
     ge_bytes = (\<lambda>r. 0), ge_post = (\<lambda>r w. w)\<rparr>"

text \<open>A host that parses one text as an object.\<close>

definition object_host :: host where
  "object_host = demo_host\<lparr>h_jsonParse := (\<lambda>s. if s = ''{}'' then Some (VObj []) else None)\<rparr>"

definition demo_gate_state :: "wire_version \<Rightarrow> gate_state" where
  "demo_gate_state wire = appendRunEvent (ge_decode (demo_gate wire)) ''w'' gate_empty (VObj [])"

definition demo_checkpoint :: wire_version where
  "demo_checkpoint = WireV3 ''e1'' None \<lparr>ck_threadId = ''th'', ck_checkpointNs = ''ns'', ck_checkpointId = ''c1''\<rparr>"

lemma demo_gate_reachable: "gate_reachable (ge_decode (demo_gate wire)) (ge_workflowId (demo_gate wire)) (demo_gate_state wire)"
  unfolding demo_gate_state_def by (simp add: demo_gate_def gate_reachable.intros)

definition demo_buffer_run :: "wire_version \<Rightarrow> ((js_error + engine_result) \<times> unit) option" where
  "demo_buffer_run wire =
     (case loadToolsRegistry file_host (ge_decodeReg (demo_gate wire)) (ge_registryFile (demo_gate wire)) of
        Inl e \<Rightarrow> Some (Inl e, ())
      | Inr reg \<Rightarrow> verifyRunStateFromEvents file_host (ge_runtime (demo_gate wire)) (ge_logStep (demo_gate wire))
          (ge_database (demo_gate wire)) (ge_policy (demo_gate wire)) (ge_workflowId (demo_gate wire)) reg
          (buffered_load file_host (demo_gate_state wire)) ())"

lemma demo_buffer_runs:
  "run_gives (\<lambda>e. er_status e = Complete) (demo_buffer_run WireV1)"
  "run_gives (\<lambda>e. er_status e = Complete \<and> list_ex (\<lambda>q. so_langgraphCheckpointKey q \<noteq> None) (er_steps e))
     (demo_buffer_run demo_checkpoint)"
  by code_simp+

text \<open>
  C5: a complete run of the buffered events is never blocked. The gate builds one certificate from it,
  which is to be trusted, and lets the action through; it stops only when the report could not be
  written or the schema refuses that very certificate, and then it throws just that error. So does the LangGraph
  gate, when every tool event is of wire version 3 and some step has a checkpoint.
\<close>

theorem complete_runs_pass_the_gates:
  assumes "gate_reachable (ge_decode env) (ge_workflowId env) s"
    and "loadToolsRegistry h (ge_decodeReg env) (ge_registryFile env) = Inr reg"
    and "verifyRunStateFromEvents h (ge_runtime env) (ge_logStep env) (ge_database env) (ge_policy env)
        (ge_workflowId env) reg (buffered_load h s) w = Some (Inr engine, w1)"
    and "er_status engine = Complete"
  shows "(\<exists>report c. offers h engine ContractSql (\<lambda>r. None) report c
      \<and> assertSafeForIrreversibleAction h env s w = opens_unless_refused env report c w1)
    \<and> (list_all (\<lambda>t. wire_schemaVersion (te_wire t) = 3) (List.map_filter as_tool_observed (gs_bufferedRunEvents s))
       \<longrightarrow> list_ex (\<lambda>q. so_langgraphCheckpointKey q \<noteq> None) (er_steps engine)
       \<longrightarrow> (\<exists>report c. offers h engine ContractSqlLanggraphCheckpointTrust
              (\<lambda>r. Some (computeCheckpointVerdictsFromWorkflowResult h r)) report c
          \<and> langGraphProductionGate h env s w = opens_unless_refused env report c w1))"
  using gate_opens [OF assms] langGraph_gate_opens [OF assms] by blast

text \<open>The environment of the example refuses nothing.\<close>

lemma demo_gate_refuses_nothing:
  "\<exists>w'. opens_unless_refused (demo_gate wire) report c w1 = Some (Inr GateOpen, w')"
  by (simp add: opens_unless_refused_def demo_gate_def)

lemma demo_gate_run:
  assumes "run_gives P (demo_buffer_run wire)"
  obtains reg engine w1 where "loadToolsRegistry file_host (ge_decodeReg (demo_gate wire)) (ge_registryFile (demo_gate wire)) = Inr reg"
    "verifyRunStateFromEvents file_host (ge_runtime (demo_gate wire)) (ge_logStep (demo_gate wire))
       (ge_database (demo_gate wire)) (ge_policy (demo_gate wire)) (ge_workflowId (demo_gate wire)) reg
       (buffered_load file_host (demo_gate_state wire)) () = Some (Inr engine, w1)"
    "P engine"
  using assms by (auto simp: demo_buffer_run_def run_gives_def split: sum.splits option.splits prod.splits)

lemma complete_runs_pass_the_gates_witness:
  "\<exists>w'. langGraphProductionGate file_host (demo_gate demo_checkpoint) (demo_gate_state demo_checkpoint) ()
     = Some (Inr GateOpen, w')"
proof -
  obtain reg engine w1 where reg: "loadToolsRegistry file_host (ge_decodeReg (demo_gate demo_checkpoint))
      (ge_registryFile (demo_gate demo_checkpoint)) = Inr reg"
    and run: "verifyRunStateFromEvents file_host (ge_runtime (demo_gate demo_checkpoint)) (ge_logStep (demo_gate demo_checkpoint))
       (ge_database (demo_gate demo_checkpoint)) (ge_policy (demo_gate demo_checkpoint)) (ge_workflowId (demo_gate demo_checkpoint))
       reg (buffered_load file_host (demo_gate_state demo_checkpoint)) () = Some (Inr engine, w1)"
    and ok: "er_status engine = Complete \<and> list_ex (\<lambda>q. so_langgraphCheckpointKey q \<noteq> None) (er_steps engine)"
    by (rule demo_gate_run [OF demo_buffer_runs(2)])
  have "list_all (\<lambda>t. wire_schemaVersion (te_wire t) = 3)
      (List.map_filter as_tool_observed (gs_bufferedRunEvents (demo_gate_state demo_checkpoint)))" by code_simp
  with complete_runs_pass_the_gates [OF demo_gate_reachable reg run conjunct1 [OF ok]] ok
  obtain report c where "langGraphProductionGate file_host (demo_gate demo_checkpoint) (demo_gate_state demo_checkpoint) ()
      = opens_unless_refused (demo_gate demo_checkpoint) report c w1" by blast
  with demo_gate_refuses_nothing show ?thesis by metis
qed

lemma irreversible_action_gate_witness:
  "\<exists>engine w'. assertSafeForIrreversibleAction file_host (demo_gate WireV1) (demo_gate_state WireV1) () = Some (Inr GateOpen, w')
     \<and> run_gives (\<lambda>e. e = engine) (demo_buffer_run WireV1) \<and> list_all (\<lambda>q. so_status q = Verified) (er_steps engine)"
proof -
  obtain reg engine w1 where reg: "loadToolsRegistry file_host (ge_decodeReg (demo_gate WireV1))
      (ge_registryFile (demo_gate WireV1)) = Inr reg"
    and run: "verifyRunStateFromEvents file_host (ge_runtime (demo_gate WireV1)) (ge_logStep (demo_gate WireV1))
       (ge_database (demo_gate WireV1)) (ge_policy (demo_gate WireV1)) (ge_workflowId (demo_gate WireV1))
       reg (buffered_load file_host (demo_gate_state WireV1)) () = Some (Inr engine, w1)"
    and ok: "er_status engine = Complete"
    by (rule demo_gate_run [OF demo_buffer_runs(1)])
  obtain w' where w': "assertSafeForIrreversibleAction file_host (demo_gate WireV1) (demo_gate_state WireV1) ()
      = Some (Inr GateOpen, w')"
    using gate_opens [OF demo_gate_reachable reg run ok] demo_gate_refuses_nothing by metis
  from irreversible_action_gate [OF demo_gate_reachable w'] reg run
  have "list_all (\<lambda>q. so_status q = Verified) (er_steps engine)" by auto
  moreover have "run_gives (\<lambda>e. e = engine) (demo_buffer_run WireV1)"
    using reg run by (simp add: demo_buffer_run_def run_gives_def)
  ultimately show ?thesis using w' by blast
qed

text \<open>
  C19: the LangGraph gate opens only on runs whose every tool event is of wire version 3, whose
  every step is verified against the database, and where some step belongs to a checkpoint.
\<close>

theorem langgraph_gate:
  assumes "langGraphProductionGate h env s w = Some (Inr GateOpen, w')"
  shows "gs_runLevelReasons s = []
    \<and> list_all (\<lambda>t. wire_schemaVersion (te_wire t) = 3) (List.map_filter as_tool_observed (gs_bufferedRunEvents s))
    \<and> (\<exists>reg engine w1. loadToolsRegistry h (ge_decodeReg env) (ge_registryFile env) = Inr reg
      \<and> verifyRunStateFromEvents h (ge_runtime env) (ge_logStep env) (ge_database env) (ge_policy env) (ge_workflowId env)
          reg (buffered_load h s) w = Some (Inr engine, w1)
      \<and> er_steps engine \<noteq> [] \<and> list_all (\<lambda>q. so_status q = Verified) (er_steps engine)
      \<and> list_ex (\<lambda>q. so_langgraphCheckpointKey q \<noteq> None) (er_steps engine))"
  by (rule langGraph_gate_sound [OF assms])

lemma langgraph_gate_witness:
  "run_gives (\<lambda>e. \<exists>w'. langGraphProductionGate file_host (demo_gate demo_checkpoint) (demo_gate_state demo_checkpoint) ()
     = Some (Inr GateOpen, w') \<and> list_all (\<lambda>q. so_status q = Verified) (er_steps e)) (demo_buffer_run demo_checkpoint)"
proof -
  obtain reg engine w1 where reg: "loadToolsRegistry file_host (ge_decodeReg (demo_gate demo_checkpoint))
      (ge_registryFile (demo_gate demo_checkpoint)) = Inr reg"
    and run: "verifyRunStateFromEvents file_host (ge_runtime (demo_gate demo_checkpoint)) (ge_logStep (demo_gate demo_checkpoint))
       (ge_database (demo_gate demo_checkpoint)) (ge_policy (demo_gate demo_checkpoint)) (ge_workflowId (demo_gate demo_checkpoint))
       reg (buffered_load file_host (demo_gate_state demo_checkpoint)) () = Some (Inr engine, w1)"
    and ok: "er_status engine = Complete \<and> list_ex (\<lambda>q. so_langgraphCheckpointKey q \<noteq> None) (er_steps engine)"
    by (rule demo_gate_run [OF demo_buffer_runs(2)])
  have v3: "list_all (\<lambda>t. wire_schemaVersion (te_wire t) = 3)
      (List.map_filter as_tool_observed (gs_bufferedRunEvents (demo_gate_state demo_checkpoint)))" by code_simp
  obtain w' where w': "langGraphProductionGate file_host (demo_gate demo_checkpoint) (demo_gate_state demo_checkpoint) ()
      = Some (Inr GateOpen, w')"
    using langGraph_gate_opens [OF demo_gate_reachable reg run conjunct1 [OF ok] v3 conjunct2 [OF ok]]
      demo_gate_refuses_nothing by metis
  from langgraph_gate [OF w'] reg run have "list_all (\<lambda>q. so_status q = Verified) (er_steps engine)" by auto
  with w' reg run show ?thesis by (simp add: demo_buffer_run_def run_gives_def)
qed

text \<open>
  C20: a gate that is fed the lines of an events file sees what the file loader sees: the same
  sorted tool observations, run events, run-level reasons and integrity of the sequence. The
  decoder is only assumed to accept objects and arrays alone, as the event schema does.
\<close>

theorem gate_agrees_with_file:
  assumes "accepts_objects decode"
  shows "ld_events (buffered_load h (feed_lines h decode workflow raw)) = ld_events (load_text h decode workflow raw)
    \<and> ld_runEvents (buffered_load h (feed_lines h decode workflow raw)) = ld_runEvents (load_text h decode workflow raw)
    \<and> ld_runLevelReasons (buffered_load h (feed_lines h decode workflow raw)) = ld_runLevelReasons (load_text h decode workflow raw)
    \<and> ld_eventSequenceIntegrity (buffered_load h (feed_lines h decode workflow raw))
        = ld_eventSequenceIntegrity (load_text h decode workflow raw)"
  by (rule gate_equals_file [OF assms])

lemma gate_agrees_with_file_witness:
  "length (ld_runEvents (buffered_load object_host (feed_lines object_host (ge_decode (demo_gate WireV1)) ''w''
       (''{}'' @ CHR 0x0A # ''x'')))) = 1
   \<and> length (ld_runEvents (load_text object_host (ge_decode (demo_gate WireV1)) ''w'' (''{}'' @ CHR 0x0A # ''x''))) = 1"
proof -
  have "accepts_objects (ge_decode (demo_gate WireV1))" by (simp add: accepts_objects_def demo_gate_def)
  moreover have "length (ld_runEvents (load_text object_host (ge_decode (demo_gate WireV1)) ''w'' (''{}'' @ CHR 0x0A # ''x''))) = 1"
    by code_simp
  ultimately show ?thesis by (simp add: gate_agrees_with_file)
qed

section \<open>Certificates\<close>

text \<open>
  C25: every finished run that has a report gets its certificate: none of the invariants it is
  checked for can fail but the JSON schema. Its trust decision is that of the run's status, it
  names something to be done exactly when the run is not complete, and its steps are the run's.
\<close>

theorem certificate_of_finished_run:
  assumes "verifyWorkflow h rt lg decode decodeReg database input wid eventsFile registryFile w = Some (Inr r, w')"
    and "buildWorkflowTruthReport h r = Inr t" and "formatWorkflowTruthReportStruct h t = Inr report"
  shows "\<exists>c. buildOutcomeCertificateFromWorkflowResult h errors \<lparr>wr_engine = r, wr_truth = t\<rparr>
      = (case errors c of None \<Rightarrow> Inr c | Some e \<Rightarrow> Inl (JsError (''outcome_certificate: schema validation failed '' @ e)))
    \<and> trustDecisionFromCertificate c = trust_of_status (er_status r)
    \<and> (items_of (oc_evidenceCompleteness c) = [] \<longleftrightarrow> er_status r = Complete)
    \<and> map cs_seq (oc_steps c) = map so_seq (er_steps r)"
proof -
  have ans: "report_answers r t" using report_of_run [OF assms(1)] assms(2) by simp
  then have "map ts_seq (wt_steps t) = map so_seq (er_steps r)"
    by (auto simp: report_answers_def list_all2_conv_all_nth intro!: nth_equalityI)
  with certificate_built [of "\<lparr>wr_engine = r, wr_truth = t\<rparr>" h report ContractSql errors None] assms(3) ans
  show ?thesis by (simp add: report_answers_def buildOutcomeCertificateFromWorkflowResult_def)
qed

lemma certificate_of_finished_run_witness:
  "run_gives (\<lambda>r. \<exists>t c. buildOutcomeCertificateFromWorkflowResult file_host (\<lambda>c. None) \<lparr>wr_engine = r, wr_truth = t\<rparr> = Inr c
     \<and> trustDecisionFromCertificate c = Safe) demo_workflow"
proof -
  obtain r w' where run: "demo_workflow = Some (Inr r, w')" and ok: "er_status r = Complete"
    using demo_workflow_succeeds by (auto simp: run_succeeds_def split: option.splits prod.splits sum.splits)
  have "accounted r" by (rule verifyWorkflow_accounted [OF run [unfolded demo_workflow_def]])
  then obtain t report where t: "buildWorkflowTruthReport file_host r = Inr t"
    "formatWorkflowTruthReportStruct file_host t = Inr report"
    by (rule complete_report [OF _ ok])
  from certificate_of_finished_run [OF run [unfolded demo_workflow_def] t, of "\<lambda>c. None"] ok show ?thesis
    by (auto simp: run run_gives_def trust_of_status_def)
qed

section \<open>Traces\<close>

text \<open>
  C37: over events none of whose identifiers begins with \<open>syn:\<close>, the prefix of the identifiers the trace
  invents, every backward path climbs: from its seed each identifier is that of a node whose parent, an
  event captured strictly earlier, is the next; and the last is that of a node without parent, or that of an
  event of version 3, which is no node. The walk ends although it follows identifiers.
\<close>

theorem trace_paths_climb:
  assumes "buildExecutionTraceView h workflow evs malformed r = Inr v" and "plain_ids evs"
  shows "list_all (\<lambda>p. climbs evs (tv_nodes v) (path_chain p)) (tv_backwardPaths v)"
  by (rule view_chains [OF assms])

definition demo_turn :: "string \<Rightarrow> string option \<Rightarrow> run_event" where
  "demo_turn i p = ModelTurn \<lparr>eh_workflowId = ''w'', eh_runEventId = i, eh_parentRunEventId = p, eh_timestamp = None\<rparr> MtCompleted None"

definition demo_v3 :: run_event where
  "demo_v3 = ToolObserved (demo_event\<lparr>te_wire := WireV3 ''b'' (Some ''a'')
     \<lparr>ck_threadId = ''th'', ck_checkpointNs = ''ns'', ck_checkpointId = ''c1''\<rparr>\<rparr>)"

definition demo_lineage :: "run_event list" where
  "demo_lineage = [demo_turn ''a'' None, demo_v3, demo_turn ''c'' (Some ''b''), demo_turn ''d'' (Some ''c'')]"

lemma trace_paths_climb_witness:
  "\<exists>v. buildExecutionTraceView demo_host ''w'' demo_lineage 0 None = Inr v
     \<and> map path_chain (tv_backwardPaths v) = [[''d'', ''c'', ''b'']] \<and> climbs demo_lineage (tv_nodes v) [''d'', ''c'', ''b'']"
proof -
  have "(case buildExecutionTraceView demo_host ''w'' demo_lineage 0 None of
      Inr v \<Rightarrow> map path_chain (tv_backwardPaths v) = [[''d'', ''c'', ''b'']] | Inl e \<Rightarrow> False)" by code_simp
  then obtain v where v: "buildExecutionTraceView demo_host ''w'' demo_lineage 0 None = Inr v"
    and p: "map path_chain (tv_backwardPaths v) = [[''d'', ''c'', ''b'']]" by (auto split: sum.splits)
  have "plain_ids demo_lineage" by code_simp
  from trace_paths_climb [OF v this] have "list_all (climbs demo_lineage (tv_nodes v)) (map path_chain (tv_backwardPaths v))"
    by (simp only: list.pred_map comp_def)
  then have "list_all (climbs demo_lineage (tv_nodes v)) [[''d'', ''c'', ''b'']]" by (simp only: p)
  then have "climbs demo_lineage (tv_nodes v) [''d'', ''c'', ''b'']" by (rule list.pred_inject(2) [THEN iffD1, THEN conjunct1])
  with v p show ?thesis by (intro exI [of _ v] conjI)
qed

text \<open>
  C22: an event of wire version 3 loses its lineage, in a trace of events none of whose identifiers begins
  with \<open>syn:\<close>. Its \<open>runEventId\<close> and \<open>parentRunEventId\<close>
  are validated with the others', but its node gets an invented identifier and no parent, so the
  chain from it ends at once.
\<close>

theorem v3_events_lose_lineage:
  assumes "buildExecutionTraceView h workflow evs malformed r = Inr v" and "plain_ids evs" and "i < length evs"
    and "event_schemaVersion (evs ! i) = 3"
  shows "tn_parentRunEventId (tv_nodes v ! i) = None
    \<and> buildAncestorChain (tn_runEventId (tv_nodes v ! i)) (id_to_node (tv_nodes v)) = [''syn:'' @ nat_str i]"
  using v3_chain [OF assms] by blast

lemma v3_events_lose_lineage_witness:
  "graph_parent demo_v3 = Some ''a'' \<and> (\<exists>v. buildExecutionTraceView demo_host ''w'' [demo_turn ''a'' None, demo_v3] 0 None = Inr v
     \<and> tn_parentRunEventId (tv_nodes v ! 1) = None)"
proof -
  have "(case buildExecutionTraceView demo_host ''w'' [demo_turn ''a'' None, demo_v3] 0 None of Inr v \<Rightarrow> True | Inl e \<Rightarrow> False)"
    by code_simp
  then obtain v where v: "buildExecutionTraceView demo_host ''w'' [demo_turn ''a'' None, demo_v3] 0 None = Inr v"
    by (auto split: sum.splits)
  have "plain_ids [demo_turn ''a'' None, demo_v3]" by code_simp
  from v3_events_lose_lineage [OF v this, of 1] v show ?thesis
    by (simp add: demo_v3_def graph_parent_def)
qed

section \<open>Comparison of runs\<close>

text \<open>
  C38: the comparison of two runs accounts for everything. The entries of bucket A are one for
  each logical key of a step of either run, ascending; and the codes reported as introduced and
  as resolved are, as multisets, exactly the two differences of the runs' codes, sorted.
\<close>

theorem comparison_accounts_for_everything:
  assumes "compare_pair h n prior current = Inr p"
  shows "sorted (map entry_key (pc_bucketA p)) \<and> distinct (map entry_key (pc_bucketA p))
    \<and> set (map entry_key (pc_bucketA p)) = {k. \<exists>s. s \<in> set (steps_of prior) \<union> set (steps_of current) \<and> step_key_of h s = Some k}
    \<and> mset (pc_introducedRunLevelCodes p) = mset (run_level_codes current) - mset (run_level_codes prior)
    \<and> mset (pc_resolvedRunLevelCodes p) = mset (run_level_codes prior) - mset (run_level_codes current)
    \<and> sorted (pc_introducedRunLevelCodes p) \<and> sorted (pc_resolvedRunLevelCodes p)"
proof -
  obtain amb where a: "pairwiseBucketA h (steps_of prior) (steps_of current) = Inr (pc_bucketA p, amb)"
    and p: "pc_introducedRunLevelCodes p = codes_minus (run_level_codes current) (run_level_codes prior)"
      "pc_resolvedRunLevelCodes p = codes_minus (run_level_codes prior) (run_level_codes current)"
    using assms by (auto simp: compare_pair_def throws_bind_Inr_iff split: prod.splits)
  from pairwise_keys [OF a] show ?thesis unfolding p by (simp add: codes_minus_difference)
qed

definition demo_step :: "int \<Rightarrow> step_status \<Rightarrow> string list \<Rightarrow> step_outcome" where
  "demo_step n st codes = \<lparr>so_seq = n, so_toolId = ''t'', so_releaseCritical = False, so_narrative = [],
     so_paramsCanonical = ''{}'', so_request = Some (QSqlRow demo_request), so_status = st,
     so_reasons = map (\<lambda>c. mk_reason c []) codes, so_evidence = [], so_repeatObservationCount = 1,
     so_evaluatedObservationOrdinal = 1, so_failureDiagnostic = None, so_langgraphCheckpointKey = None\<rparr>"

definition demo_engine :: "string list \<Rightarrow> step_outcome list \<Rightarrow> engine_result" where
  "demo_engine codes steps = \<lparr>er_workflowId = ''w'', er_status = Incomplete,
     er_runLevelReasons = map (\<lambda>c. mk_reason c []) codes, er_verificationPolicy = DEFAULT_VERIFICATION_POLICY,
     er_eventSequenceIntegrity = IntegrityNormal, er_steps = steps,
     er_verificationRunContext = createEmptyVerificationRunContext\<rparr>"

lemma comparison_accounts_for_everything_witness:
  "\<forall>t. \<exists>p. compare_pair demo_host 2 \<lparr>wr_engine = demo_engine [''A''] [demo_step 0 Verified []], wr_truth = t\<rparr>
       \<lparr>wr_engine = demo_engine [''B'', ''A'', ''B''] [demo_step 0 Missing [''ROW_ABSENT'']], wr_truth = t\<rparr> = Inr p
     \<and> mset (pc_introducedRunLevelCodes p) = {#''B'', ''B''#} \<and> mset (pc_resolvedRunLevelCodes p) = {#}"
proof
  fix t
  let ?prior = "\<lparr>wr_engine = demo_engine [''A''] [demo_step 0 Verified []], wr_truth = t\<rparr>"
    and ?current = "\<lparr>wr_engine = demo_engine [''B'', ''A'', ''B''] [demo_step 0 Missing [''ROW_ABSENT'']], wr_truth = t\<rparr>"
  have "(case pairwiseBucketA demo_host [demo_step 0 Verified []] [demo_step 0 Missing [''ROW_ABSENT'']] of
      Inr x \<Rightarrow> True | Inl e \<Rightarrow> False)"
    and "(case pairwiseBucketB [demo_step 0 Verified []] [demo_step 0 Missing [''ROW_ABSENT'']] of Inr x \<Rightarrow> True | Inl e \<Rightarrow> False)"
    by code_simp+
  moreover have "steps_of ?prior = [demo_step 0 Verified []]" "steps_of ?current = [demo_step 0 Missing [''ROW_ABSENT'']]"
    by (simp_all add: steps_of_def demo_engine_def)
  ultimately obtain p where p: "compare_pair demo_host 2 ?prior ?current = Inr p"
    by (auto simp: compare_pair_def split: sum.splits prod.splits)
  have codes: "run_level_codes ?prior = [''A'']" "run_level_codes ?current = [''B'', ''A'', ''B'']"
    by (simp_all add: run_level_codes_def demo_engine_def mk_reason_def)
  from comparison_accounts_for_everything [OF p]
  have "mset (pc_introducedRunLevelCodes p) = {#''B'', ''B''#} \<and> mset (pc_resolvedRunLevelCodes p) = {#}"
    unfolding codes by simp
  with p show "\<exists>p. compare_pair demo_host 2 ?prior ?current = Inr p
     \<and> mset (pc_introducedRunLevelCodes p) = {#''B'', ''B''#} \<and> mset (pc_resolvedRunLevelCodes p) = {#}"
    by blast
qed

text \<open>
  C39: the recurring patterns are exact: one for each signature of a failing step that occurs in
  at least two of the runs, ascending, with the indices of precisely those runs.
\<close>

theorem recurring_signatures_exact:
  assumes "buildRecurrence runs = Inr ps"
  shows "sorted (map rn_signature ps) \<and> distinct (map rn_signature ps)
    \<and> set (map rn_signature ps) = {c. 2 \<le> length (runs_with c runs)}
    \<and> list_all (\<lambda>p. rn_runIndices p = runs_with (rn_signature p) runs
        \<and> rn_runsHitCount p = length (runs_with (rn_signature p) runs)) ps"
  by (rule patterns_exact [OF assms])

lemma recurring_signatures_exact_witness:
  "\<exists>ps. buildRecurrence [[demo_step 0 Missing [''ROW_ABSENT'']], [demo_step 3 Missing [''ROW_ABSENT'']]] = Inr ps \<and> length ps = 1
     \<and> list_all (\<lambda>p. rn_runIndices p = runs_with (rn_signature p)
           [[demo_step 0 Missing [''ROW_ABSENT'']], [demo_step 3 Missing [''ROW_ABSENT'']]]) ps"
proof -
  have "(case buildRecurrence [[demo_step 0 Missing [''ROW_ABSENT'']], [demo_step 3 Missing [''ROW_ABSENT'']]] of
      Inr ps \<Rightarrow> length ps = 1 | Inl e \<Rightarrow> False)" by code_simp
  then obtain ps where ps: "buildRecurrence [[demo_step 0 Missing [''ROW_ABSENT'']], [demo_step 3 Missing [''ROW_ABSENT'']]] = Inr ps"
    and one: "length ps = 1" by (auto split: sum.splits)
  from recurring_signatures_exact [OF ps] have "list_all (\<lambda>p. rn_runIndices p = runs_with (rn_signature p)
      [[demo_step 0 Missing [''ROW_ABSENT'']], [demo_step 3 Missing [''ROW_ABSENT'']]]) ps"
    unfolding list_all_iff by blast
  with ps one show ?thesis by blast
qed

end
