(* ===== verification/QuickIngest.thy ===== *)
theory QuickIngest
  imports CanonicalJson "HOL-Library.AList"
begin

text \<open>
  Reading captured activity of any shape (\<open>src/quickVerify/ingest.ts\<close>): the ladder of parsers
  that finds tool calls in a JSON document, in lines with log prefixes, or in objects embedded in
  text; then flattening of their parameters and removal of duplicates. The parser is the host's.
\<close>

section \<open>Limits\<close>

definition MAX_INPUT_BYTES :: nat where
  "MAX_INPUT_BYTES = 8388608"

definition MAX_ACTIONS :: nat where
  "MAX_ACTIONS = 50"

definition FLATTEN_MAX_DEPTH :: nat where
  "FLATTEN_MAX_DEPTH = 6"

definition FLATTEN_MAX_NODES :: nat where
  "FLATTEN_MAX_NODES = 500"

section \<open>One action\<close>

record raw_action =
  ra_toolName :: string
  ra_params :: jsval

text \<open>An object that is no array, and the members a JSON text gives it.\<close>

definition plain_object :: "jsval \<Rightarrow> bool" where
  "plain_object v \<longleftrightarrow> is_object v \<and> \<not> is_array v"

fun non_empty_string :: "jsval \<Rightarrow> string option" where
  "non_empty_string (VStr (c # cs)) = Some (c # cs)"
| "non_empty_string _ = None"

fun first_hit :: "'a option list \<Rightarrow> 'a option" where
  "first_hit [] = None"
| "first_hit (Some x # xs) = Some x"
| "first_hit (None # xs) = first_hit xs"

definition function_name :: "jsval \<Rightarrow> string option" where
  "function_name obj =
     (let fn = get_prop obj ''function''
      in if plain_object fn then non_empty_string (get_prop fn ''name'') else None)"

definition getToolNameKey :: "jsval \<Rightarrow> string option" where
  "getToolNameKey obj =
     first_hit [non_empty_string (get_prop obj ''toolId''), non_empty_string (get_prop obj ''tool''),
       non_empty_string (get_prop obj ''name''), function_name obj, non_empty_string (get_prop obj ''action'')]"

text \<open>The object a string holds as JSON.\<close>

definition embedded_object :: "host \<Rightarrow> string \<Rightarrow> jsval option" where
  "embedded_object h s =
     (let u = js_trim s
      in if starts_with ''{'' u \<or> starts_with ''['' u
         then (case h_jsonParse h u of
             Some v \<Rightarrow> if plain_object v then Some v else None
           | None \<Rightarrow> None)
         else None)"

definition object_or_text :: "host \<Rightarrow> jsval \<Rightarrow> jsval option" where
  "object_or_text h v =
     (if plain_object v then Some v else (case v of VStr s \<Rightarrow> embedded_object h s | _ \<Rightarrow> None))"

definition tryParseFunctionArgumentsField :: "host \<Rightarrow> jsval \<Rightarrow> jsval option" where
  "tryParseFunctionArgumentsField h fn = object_or_text h (get_prop fn ''arguments'')"

definition own_member :: "jsval \<Rightarrow> string \<Rightarrow> bool" where
  "own_member v k \<longleftrightarrow> map_of (own_entries v) k \<noteq> None"

definition tryOpenAiToolCallParamBag :: "host \<Rightarrow> jsval \<Rightarrow> jsval option" where
  "tryOpenAiToolCallParamBag h obj =
     (let fn = get_prop obj ''function''
      in if function_name obj \<noteq> None \<and> own_member fn ''arguments'' then tryParseFunctionArgumentsField h fn else None)"

text \<open>
  The members that are left when no member holds the parameters. An assignment to
  \<open>__proto__\<close> makes no member.
\<close>

definition remaining_members :: "jsval \<Rightarrow> jsval" where
  "remaining_members obj =
     VObj (filter (\<lambda>(k, v). k \<notin> {''tool_calls'', ''toolId'', ''tool'', ''name'', ''action'', ''function'', ''__proto__''})
       (own_entries obj))"

definition getParamsObject :: "host \<Rightarrow> jsval \<Rightarrow> jsval" where
  "getParamsObject h obj =
     (case first_hit [tryOpenAiToolCallParamBag h obj, object_or_text h (get_prop obj ''params''),
         object_or_text h (get_prop obj ''arguments''), object_or_text h (get_prop obj ''input''),
         (let fn = get_prop obj ''function'' in if plain_object fn then tryParseFunctionArgumentsField h fn else None)] of
        Some v \<Rightarrow> v
      | None \<Rightarrow> remaining_members obj)"

section \<open>All actions of a value\<close>

record ingest_context =
  ic_actions :: "raw_action list"
  ic_reasonCodes :: "string list"
  ic_malformedLineCount :: nat

definition createIngestContext :: ingest_context where
  "createIngestContext = \<lparr>ic_actions = [], ic_reasonCodes = [], ic_malformedLineCount = 0\<rparr>"

definition pushAction :: "ingest_context \<Rightarrow> raw_action \<Rightarrow> ingest_context" where
  "pushAction ctx a =
     (if MAX_ACTIONS \<le> length (ic_actions ctx)
      then (if ''INGEST_ACTION_CAP'' \<in> set (ic_reasonCodes ctx) then ctx
        else ctx\<lparr>ic_reasonCodes := ic_reasonCodes ctx @ [''INGEST_ACTION_CAP'']\<rparr>)
      else ctx\<lparr>ic_actions := ic_actions ctx @ [a]\<rparr>)"

definition push_own_action :: "host \<Rightarrow> jsval \<Rightarrow> ingest_context \<Rightarrow> ingest_context" where
  "push_own_action h obj ctx =
     (case getToolNameKey obj of
        None \<Rightarrow> ctx
      | Some name \<Rightarrow> pushAction ctx \<lparr>ra_toolName = name, ra_params = getParamsObject h obj\<rparr>)"

lemma map_of_size: "map_of kvs k = Some v \<Longrightarrow> size v < size (VObj kvs)"
  by (induction kvs) (auto split: if_splits)

function extractActions :: "host \<Rightarrow> jsval \<Rightarrow> ingest_context \<Rightarrow> ingest_context" where
  "extractActions h (VArr xs) ctx = fold (extractActions h) xs ctx"
| "extractActions h (VObj kvs) ctx =
     push_own_action h (VObj kvs)
       (case map_of kvs ''tool_calls'' of
          Some (VArr calls) \<Rightarrow> fold (extractActions h) calls ctx
        | _ \<Rightarrow> ctx)"
| "extractActions h VUndef ctx = ctx"
| "extractActions h VNull ctx = ctx"
| "extractActions h (VBool b) ctx = ctx"
| "extractActions h (VNum n) ctx = ctx"
| "extractActions h (VStr s) ctx = ctx"
| "extractActions h (VBig i) ctx = ctx"
| "extractActions h (VFun f) ctx = ctx"
| "extractActions h (VDate d) ctx = ctx"
| "extractActions h VProto ctx = ctx"
  by pat_completeness auto
termination
  by (relation "measure (\<lambda>(h, v, ctx). size v)")
     (auto dest!: map_of_size dest: size_list_estimation' [where f = size, OF _ order.refl] simp: less_Suc_eq_le)

section \<open>Lines of a log\<close>

text \<open>\<open>\u001b\[[\d;?]*[\s-/]*[@-~]\<close>: what follows the escape character.\<close>

definition csi_parameter :: "char \<Rightarrow> bool" where
  "csi_parameter c \<longleftrightarrow> is_digit c \<or> c = CHR '';'' \<or> c = CHR ''?''"

definition csi_intermediate :: "char \<Rightarrow> bool" where
  "csi_intermediate c \<longleftrightarrow> is_ws c \<or> c = CHR ''-'' \<or> c = CHR ''/''"

definition csi_final :: "char \<Rightarrow> bool" where
  "csi_final c \<longleftrightarrow> 64 \<le> (of_char c :: nat) \<and> (of_char c :: nat) \<le> 126"

definition after_csi :: "string \<Rightarrow> string option" where
  "after_csi s =
     (case s of
        [] \<Rightarrow> None
      | b # t \<Rightarrow>
          if b \<noteq> CHR ''['' then None
          else (case dropWhile csi_intermediate (dropWhile csi_parameter t) of
              [] \<Rightarrow> None
            | f # rest \<Rightarrow> if csi_final f then Some rest else None))"

lemma after_csi_shorter: "after_csi s = Some rest \<Longrightarrow> length rest < length s"
proof -
  assume a: "after_csi s = Some rest"
  then obtain b t f where s: "s = b # t" and d: "dropWhile csi_intermediate (dropWhile csi_parameter t) = f # rest"
    by (auto simp: after_csi_def split: list.splits if_splits)
  have "length (f # rest) \<le> length t"
    unfolding d [symmetric] by (meson length_dropWhile_le order_trans)
  with s show ?thesis by simp
qed

function stripAnsiCsi :: "string \<Rightarrow> string" where
  "stripAnsiCsi [] = []"
| "stripAnsiCsi (c # s) =
     (if c = CHR 0x1B then (case after_csi s of None \<Rightarrow> c # stripAnsiCsi s | Some rest \<Rightarrow> stripAnsiCsi rest)
      else c # stripAnsiCsi s)"
  by pat_completeness auto
termination
  by (relation "measure length") (auto dest: after_csi_shorter)

text \<open>Matching of a class of characters at each position; \<open>None\<close> when one does not match.\<close>

fun eat :: "(char \<Rightarrow> bool) list \<Rightarrow> string \<Rightarrow> string option" where
  "eat [] s = Some s"
| "eat (p # ps) [] = None"
| "eat (p # ps) (c # s) = (if p c then eat ps s else None)"

definition is_char :: "char \<Rightarrow> char \<Rightarrow> bool" where
  "is_char a c \<longleftrightarrow> a = c"

text \<open>White space, at least one, all of it.\<close>

definition eat_blanks :: "string \<Rightarrow> string option" where
  "eat_blanks s = (case s of c # t \<Rightarrow> if is_ws c then Some (dropWhile is_ws t) else None | [] \<Rightarrow> None)"

definition eat_fraction :: "string \<Rightarrow> string" where
  "eat_fraction s =
     (case eat [is_char (CHR ''.''), is_digit] s of None \<Rightarrow> s | Some t \<Rightarrow> dropWhile is_digit t)"

definition eat_zone :: "string \<Rightarrow> string" where
  "eat_zone s =
     (case first_hit [eat [is_char (CHR ''Z'')] s,
         eat [\<lambda>c. c = CHR ''+'' \<or> c = CHR ''-'', is_digit, is_digit, is_char (CHR '':''), is_digit, is_digit] s,
         eat [\<lambda>c. c = CHR ''+'' \<or> c = CHR ''-'', is_digit, is_digit, is_digit, is_digit] s] of
        None \<Rightarrow> s
      | Some t \<Rightarrow> t)"

text \<open>What follows a time stamp, a level or a bracketed word; \<open>None\<close> when the line has no such prefix.\<close>

definition after_timestamp :: "string \<Rightarrow> string option" where
  "after_timestamp s =
     (case eat [is_digit, is_digit, is_digit, is_digit, is_char (CHR ''-''), is_digit, is_digit, is_char (CHR ''-''),
         is_digit, is_digit, \<lambda>c. c = CHR ''T'' \<or> c = CHR '' '', is_digit, is_digit, is_char (CHR '':''), is_digit, is_digit,
         is_char (CHR '':''), is_digit, is_digit] s of
        None \<Rightarrow> None
      | Some t \<Rightarrow> eat_blanks (eat_zone (eat_fraction t)))"

definition upper_ascii :: "char \<Rightarrow> char" where
  "upper_ascii c = (if 97 \<le> (of_char c :: nat) \<and> (of_char c :: nat) \<le> 122 then char_of ((of_char c :: nat) - 32) else c)"

definition after_word :: "string \<Rightarrow> string \<Rightarrow> string option" where
  "after_word word s =
     (if map upper_ascii (take (length word) s) = word then eat_blanks (drop (length word) s) else None)"

definition after_level :: "string \<Rightarrow> string option" where
  "after_level s =
     first_hit (map (\<lambda>w. after_word w s) [''DEBUG'', ''INFO'', ''WARN'', ''WARNING'', ''ERROR'', ''TRACE''])"

definition after_bracket :: "string \<Rightarrow> string option" where
  "after_bracket s =
     (case s of
        [] \<Rightarrow> None
      | c # t \<Rightarrow>
          let inner = takeWhile (\<lambda>d. d \<noteq> CHR '']'') t
          in if c = CHR ''['' \<and> 1 \<le> length inner \<and> length inner \<le> 64
             then (case drop (length inner) t of d # u \<Rightarrow> eat_blanks u | [] \<Rightarrow> None)
             else None)"

text \<open>A text that is JSON for \<open>null\<close> counts as one that does not parse.\<close>

definition tryParse :: "host \<Rightarrow> string \<Rightarrow> jsval option" where
  "tryParse h s = (case h_jsonParse h s of Some VNull \<Rightarrow> None | r \<Rightarrow> r)"

definition tryParseLineWithSalvage :: "host \<Rightarrow> string \<Rightarrow> jsval option" where
  "tryParseLineWithSalvage h line =
     (let s0 = js_trim line;
          s1 = js_trim (case after_timestamp s0 of None \<Rightarrow> s0 | Some t \<Rightarrow> t);
          salvage = (\<lambda>r. case r of None \<Rightarrow> None | Some t \<Rightarrow> tryParse h (js_trim t))
      in if s0 = [] then None
         else first_hit [tryParse h s1, salvage (after_level s1), salvage (after_bracket s1)])"

definition stripMalformedFromReasonCodes :: "string list \<Rightarrow> string list" where
  "stripMalformedFromReasonCodes codes = filter (\<lambda>c. c \<noteq> ''MALFORMED_LINE'') codes"

section \<open>Objects embedded in text\<close>

text \<open>
  From an opening brace to the brace that closes it: the text up to there and the rest. A quoted
  text, in quotes of either kind, hides braces; a backslash in it hides the next character.
\<close>

fun balanced :: "nat \<Rightarrow> char option \<Rightarrow> bool \<Rightarrow> string \<Rightarrow> string \<Rightarrow> (string \<times> string) option" where
  "balanced depth q esc acc [] = None"
| "balanced depth (Some q) True acc (c # s) = balanced depth (Some q) False (c # acc) s"
| "balanced depth (Some q) False acc (c # s) =
     (if c = CHR 0x5C then balanced depth (Some q) True (c # acc) s
      else balanced depth (if c = q then None else Some q) False (c # acc) s)"
| "balanced depth None esc acc (c # s) =
     (if c = CHR 0x22 \<or> c = CHR 0x27 then balanced depth (Some c) False (c # acc) s
      else if c = CHR ''{'' then balanced (Suc depth) None False (c # acc) s
      else if c = CHR ''}'' then
        (if depth = 1 then Some (rev (c # acc), s) else balanced (depth - 1) None False (c # acc) s)
      else balanced depth None False (c # acc) s)"

lemma balanced_shorter: "balanced depth q esc acc s = Some (slice, rest) \<Longrightarrow> length rest < length s"
  by (induction depth q esc acc s rule: balanced.induct) (auto split: if_splits)

function scanBalancedJsonObjects :: "string \<Rightarrow> string list" where
  "scanBalancedJsonObjects s =
     (case balanced 0 None False [] (dropWhile (\<lambda>c. c \<noteq> CHR ''{'') s) of
        None \<Rightarrow> []
      | Some (slice, rest) \<Rightarrow> slice # scanBalancedJsonObjects rest)"
  by pat_completeness auto
termination
  by (relation "measure length") (auto dest!: balanced_shorter intro: less_le_trans length_dropWhile_le)

declare scanBalancedJsonObjects.simps [simp del]

section \<open>The ladder\<close>

record ingest_result =
  ig_actions :: "raw_action list"
  ig_reasonCodes :: "string list"
  ig_malformedLineCount :: nat
  ig_inputTooLarge :: bool

definition mk_ingest :: "raw_action list \<Rightarrow> string list \<Rightarrow> nat \<Rightarrow> ingest_result" where
  "mk_ingest actions codes n =
     \<lparr>ig_actions = actions, ig_reasonCodes = codes, ig_malformedLineCount = n, ig_inputTooLarge = False\<rparr>"

text \<open>The bytes of a text in UTF-8: code units below 256 take one or two.\<close>

definition utf8_length :: "string \<Rightarrow> nat" where
  "utf8_length s = sum_list (map (\<lambda>c. if (of_char c :: nat) < 128 then 1 else 2) s)"

definition ingest_line :: "host \<Rightarrow> string \<Rightarrow> ingest_context \<Rightarrow> ingest_context" where
  "ingest_line h line ctx =
     (if js_trim line = [] then ctx
      else (case tryParseLineWithSalvage h line of
          Some v \<Rightarrow> extractActions h v ctx
        | None \<Rightarrow> ctx\<lparr>ic_malformedLineCount := ic_malformedLineCount ctx + 1,
            ic_reasonCodes := ic_reasonCodes ctx @ [''MALFORMED_LINE'']\<rparr>))"

definition document_context :: "host \<Rightarrow> string \<Rightarrow> ingest_context" where
  "document_context h s =
     (case h_jsonParse h s of None \<Rightarrow> createIngestContext | Some v \<Rightarrow> extractActions h v createIngestContext)"

definition lines_context :: "host \<Rightarrow> string \<Rightarrow> ingest_context" where
  "lines_context h s = fold (ingest_line h) (split_on (CHR 0x0A) s) createIngestContext"

definition embedded_context :: "host \<Rightarrow> string \<Rightarrow> ingest_context option" where
  "embedded_context h s =
     List.find (\<lambda>ctx. ic_actions ctx \<noteq> []) (map (document_context h) (scanBalancedJsonObjects s))"

text \<open>
  A byte order mark, which the source removes first, is no character here. Of the embedded
  objects the first with an action counts.
\<close>

definition ingestActivityUtf8 :: "host \<Rightarrow> string \<Rightarrow> ingest_result" where
  "ingestActivityUtf8 h input =
     (if MAX_INPUT_BYTES < utf8_length input
      then \<lparr>ig_actions = [], ig_reasonCodes = [''INGEST_INPUT_TOO_LARGE''], ig_malformedLineCount = 0,
            ig_inputTooLarge = True\<rparr>
      else let buf = stripAnsiCsi input; doc = document_context h buf; lines = lines_context h buf;
               n = ic_malformedLineCount lines
           in if js_trim buf = [] then mk_ingest [] [''INGEST_NO_ACTIONS''] 0
              else if ic_actions doc \<noteq> [] then mk_ingest (ic_actions doc) (ic_reasonCodes doc) (ic_malformedLineCount doc)
              else if ic_actions lines \<noteq> []
              then mk_ingest (ic_actions lines) (stripMalformedFromReasonCodes (ic_reasonCodes lines)) n
              else (case embedded_context h buf of
                  Some c \<Rightarrow> mk_ingest (ic_actions c)
                    (stripMalformedFromReasonCodes (ic_reasonCodes lines) @ ic_reasonCodes c) n
                | None \<Rightarrow> mk_ingest [] (replicate n ''MALFORMED_LINE'' @ [''INGEST_NO_STRUCTURED_TOOL_ACTIVITY'']) n))"

section \<open>Flattening of parameters\<close>

type_synonym flat = "(string \<times> jsval) list"

text \<open>
  The members of an ordinary object in the order of \<open>Object.keys\<close>: array indices first,
  ascending, the others as they were added.
\<close>

definition integer_key :: "string \<Rightarrow> bool" where
  "integer_key k \<longleftrightarrow> k \<noteq> [] \<and> list_all is_digit k \<and> nat_str (digits_val k) = k \<and> digits_val k < 4294967295"

definition key_order :: "(string \<times> 'a) list \<Rightarrow> (string \<times> 'a) list" where
  "key_order kvs =
     js_sort (\<lambda>a b. int (digits_val (fst a)) - int (digits_val (fst b))) (filter (\<lambda>(k, v). integer_key k) kvs)
     @ filter (\<lambda>(k, v). \<not> integer_key k) kvs"

text \<open>\<open>flat[key] = v\<close> of a scalar.\<close>

definition assign_flat :: "string \<Rightarrow> jsval \<Rightarrow> flat \<Rightarrow> flat" where
  "assign_flat k v m = (if k = ''__proto__'' then m else AList.update k v m)"

definition leaf_key :: "string \<Rightarrow> string" where
  "leaf_key prefix = (if prefix = [] then ''value'' else prefix)"

definition member_path :: "string \<Rightarrow> string \<Rightarrow> string" where
  "member_path prefix k = (if prefix = [] then k else prefix @ ''.'' @ k)"

definition element_path :: "string \<Rightarrow> nat \<Rightarrow> string" where
  "element_path prefix i = prefix @ ''['' @ nat_str i @ '']''"

fun is_leaf :: "jsval \<Rightarrow> bool" where
  "is_leaf VNull = True"
| "is_leaf (VStr s) = True"
| "is_leaf (VNum n) = True"
| "is_leaf (VBool b) = True"
| "is_leaf _ = False"

text \<open>
  The walk with its counter of nodes. A value that was parsed from JSON holds no object twice, so
  the set of objects seen never stops it.
\<close>

record flatten_state =
  fs_flat :: flat
  fs_count :: nat
  fs_warnings :: "string list"

definition put_leaf :: "string \<Rightarrow> jsval \<Rightarrow> flatten_state \<Rightarrow> flatten_state" where
  "put_leaf prefix v st = st\<lparr>fs_flat := assign_flat (leaf_key prefix) v (fs_flat st)\<rparr>"

lemma member_size: "(k, v) \<in> set kvs \<Longrightarrow> size v \<le> size_list (size_prod (\<lambda>_. 0) size) kvs"
  by (induction kvs) auto

function walk :: "nat \<Rightarrow> nat \<Rightarrow> string \<Rightarrow> jsval \<Rightarrow> nat \<Rightarrow> flatten_state \<Rightarrow> flatten_state" where
  "walk maxDepth maxNodes prefix v depth st =
     (if maxNodes \<le> fs_count st then st\<lparr>fs_warnings := fs_warnings st @ [''FLATTEN_NODE_CAP'']\<rparr>
      else let st = st\<lparr>fs_count := fs_count st + 1\<rparr>
           in if maxDepth < depth then st
              else if is_leaf v then put_leaf prefix v st
              else (case v of
                  VArr xs \<Rightarrow> fold (\<lambda>(i, x) st. if is_object x
                      then walk maxDepth maxNodes (element_path prefix i) x (depth + 1) st else st)
                    (zip [0..<length xs] xs) st
                | VObj kvs \<Rightarrow> fold (\<lambda>(k, x) st. walk maxDepth maxNodes (member_path prefix k) x (depth + 1) st)
                    (js_sort (\<lambda>a b. compareUtf16Id (fst a) (fst b)) kvs) st
                | _ \<Rightarrow> st))"
  by pat_completeness auto
termination
  by (relation "measure (\<lambda>(md, mn, p, v, d, st). size v)")
     (auto dest!: member_size set_zip_rightD
        dest: size_list_estimation' [where f = size, OF _ order.refl] simp: less_Suc_eq_le)

declare walk.simps [simp del]

definition flattenParams :: "jsval \<Rightarrow> flat" where
  "flattenParams params =
     key_order (fs_flat (walk FLATTEN_MAX_DEPTH FLATTEN_MAX_NODES [] params 0
       \<lparr>fs_flat = [], fs_count = 0, fs_warnings = []\<rparr>))"

section \<open>Duplicates\<close>

record unique_action =
  ua_toolName :: string
  ua_flat :: flat
  ua_params :: jsval

definition action_key :: "host \<Rightarrow> unique_action \<Rightarrow> js_error + string" where
  "action_key h a = stableStringify h (VObj [(''toolName'', VStr (ua_toolName a)), (''flat'', VObj (ua_flat a))])"

fun dedupe_keyed :: "string list \<Rightarrow> (string \<times> unique_action) list \<Rightarrow> unique_action list \<times> string list" where
  "dedupe_keyed seen [] = ([], [])"
| "dedupe_keyed seen ((k, a) # kas) =
     (if k \<in> set seen then (case dedupe_keyed seen kas of (us, ws) \<Rightarrow> (us, ''DEDUPE_DROPPED'' # ws))
      else (case dedupe_keyed (k # seen) kas of (us, ws) \<Rightarrow> (a # us, ws)))"

definition flat_action :: "raw_action \<Rightarrow> unique_action" where
  "flat_action a = \<lparr>ua_toolName = ra_toolName a, ua_flat = flattenParams (ra_params a), ua_params = ra_params a\<rparr>"

text \<open>The actions kept, and a warning for each one dropped.\<close>

definition dedupeActions :: "host \<Rightarrow> raw_action list \<Rightarrow> js_error + unique_action list \<times> string list" where
  "dedupeActions h actions =
     throws_bind (throws_map (\<lambda>a. throws_bind (action_key h a) (\<lambda>k. Inr (k, a))) (map flat_action actions))
       (\<lambda>kas. Inr (dedupe_keyed [] kas))"

end
