(* ===== verification/QuickScoring.thy ===== *)
theory QuickScoring
  imports FailureOrigins "HOL-Library.Log_Nat"
begin

text \<open>
  How well a name in the activity fits a table or a column
  (\<open>src/quickVerify/tableScoring.ts\<close>, \<open>src/quickVerify/thresholds.ts\<close>). Scores are doubles:
  each operation rounds its rational result to the nearest double, ties to even.
\<close>

section \<open>Doubles\<close>

text \<open>The rounding of a rational between the smallest normal and the largest finite double.\<close>

definition round_half_even :: "rat \<Rightarrow> int" where
  "round_half_even q =
     (let f = \<lfloor>q\<rfloor>; d = q - of_int f
      in if d < 1 / 2 then f else if 1 / 2 < d then f + 1 else if even f then f else f + 1)"

definition two_to :: "int \<Rightarrow> rat" where
  "two_to e = (if 0 \<le> e then 2 ^ nat e else 1 / 2 ^ nat (- e))"

text \<open>The exponent of the leading bit of a positive rational.\<close>

definition leading_bit :: "rat \<Rightarrow> int" where
  "leading_bit q =
     (let (n, d) = quotient_of q; e = int (floorlog 2 (nat n)) - int (floorlog 2 (nat d))
      in if two_to e \<le> q then e else e - 1)"

definition fl :: "rat \<Rightarrow> rat" where
  "fl q =
     (if q = 0 then 0
      else let u = two_to (leading_bit \<bar>q\<bar> - 52) in of_int (round_half_even (q / u)) * u)"

text \<open>The literals of the source, as the doubles they are.\<close>

lemma fl_upper_half:
  assumes "0 < q" and "leading_bit q = - 1" and "round_half_even (q * 9007199254740992) = m"
  shows "fl q = of_int m / 9007199254740992"
proof -
  have u: "two_to (leading_bit q - 52) = 1 / 9007199254740992" unfolding assms(2) by (simp add: two_to_def)
  have "q / (1 / 9007199254740992) = q * 9007199254740992" by simp
  then show ?thesis
    using assms(1) unfolding fl_def Let_def abs_of_pos [OF assms(1)] u by (simp add: assms(3))
qed

lemma fl_literals [code_unfold]:
  "fl (6 / 10) = 5404319552844595 / 9007199254740992"
  "fl (55 / 100) = 4953959590107546 / 9007199254740992"
  "fl (85 / 100) = 7656119366529843 / 9007199254740992"
  "fl (7 / 10) = 6305039478318694 / 9007199254740992"
  "fl (95 / 100) = 8556839292003942 / 9007199254740992"
  "fl (9 / 10) = 8106479329266893 / 9007199254740992"
  "fl (8 / 10) = 7205759403792794 / 9007199254740992"
proof -
  have 1: "leading_bit (6 / 10) = - 1" "leading_bit (55 / 100) = - 1" "leading_bit (85 / 100) = - 1"
    "leading_bit (7 / 10) = - 1" "leading_bit (95 / 100) = - 1" "leading_bit (9 / 10) = - 1"
    "leading_bit (8 / 10) = - 1" by code_simp+
  have 2: "round_half_even (6 / 10 * 9007199254740992) = 5404319552844595"
    "round_half_even (55 / 100 * 9007199254740992) = 4953959590107546"
    "round_half_even (85 / 100 * 9007199254740992) = 7656119366529843"
    "round_half_even (7 / 10 * 9007199254740992) = 6305039478318694"
    "round_half_even (95 / 100 * 9007199254740992) = 8556839292003942"
    "round_half_even (9 / 10 * 9007199254740992) = 8106479329266893"
    "round_half_even (8 / 10 * 9007199254740992) = 7205759403792794" by code_simp+
  note f = fl_upper_half [OF _ 1(1) 2(1)] fl_upper_half [OF _ 1(2) 2(2)] fl_upper_half [OF _ 1(3) 2(3)]
    fl_upper_half [OF _ 1(4) 2(4)] fl_upper_half [OF _ 1(5) 2(5)] fl_upper_half [OF _ 1(6) 2(6)]
    fl_upper_half [OF _ 1(7) 2(7)]
  show "fl (6 / 10) = 5404319552844595 / 9007199254740992" by (rule f(1) [THEN trans]) simp_all
  show "fl (55 / 100) = 4953959590107546 / 9007199254740992" by (rule f(2) [THEN trans]) simp_all
  show "fl (85 / 100) = 7656119366529843 / 9007199254740992" by (rule f(3) [THEN trans]) simp_all
  show "fl (7 / 10) = 6305039478318694 / 9007199254740992" by (rule f(4) [THEN trans]) simp_all
  show "fl (95 / 100) = 8556839292003942 / 9007199254740992" by (rule f(5) [THEN trans]) simp_all
  show "fl (9 / 10) = 8106479329266893 / 9007199254740992" by (rule f(6) [THEN trans]) simp_all
  show "fl (8 / 10) = 7205759403792794 / 9007199254740992" by (rule f(7) [THEN trans]) simp_all
qed

section \<open>Thresholds\<close>

definition T_TABLE :: rat where
  "T_TABLE = fl (6 / 10)"

definition T_COL :: rat where
  "T_COL = 1 / 2"

definition T_OVERALL :: rat where
  "T_OVERALL = fl (55 / 100)"

definition T_AMBIGUITY_DELTA :: rat where
  "T_AMBIGUITY_DELTA = fl (8 / 100)"

definition T_EXPORT :: rat where
  "T_EXPORT = fl (55 / 100)"

section \<open>Variants of a name\<close>

definition ends_with :: "string \<Rightarrow> string \<Rightarrow> bool" where
  "ends_with suffix s \<longleftrightarrow> length suffix \<le> length s \<and> drop (length s - length suffix) s = suffix"

definition cut_end :: "nat \<Rightarrow> string \<Rightarrow> string" where
  "cut_end n s = take (length s - n) s"

definition englishSingular :: "string \<Rightarrow> string" where
  "englishSingular v =
     (if 4 \<le> length v \<and> ends_with ''ies'' v then cut_end 3 v @ ''y''
      else if ends_with ''ses'' v \<or> ends_with ''xes'' v \<or> ends_with ''ches'' v \<or> ends_with ''shes'' v then cut_end 2 v
      else if ends_with ''s'' v \<and> \<not> ends_with ''ss'' v \<and> 1 < length v then cut_end 1 v
      else v)"

definition is_vowel :: "char \<Rightarrow> bool" where
  "is_vowel c \<longleftrightarrow> c \<in> set ''aeiouAEIOU''"

definition englishPlural :: "string \<Rightarrow> string" where
  "englishPlural v =
     (if v = [] then v
      else if ends_with ''y'' v \<and> 2 \<le> length v \<and> \<not> is_vowel (v ! (length v - 2)) then cut_end 1 v @ ''ies''
      else if ends_with ''s'' v then v
      else v @ ''s'')"

text \<open>
  \<open>s.replace(/A-Z/g, ...)\<close>: the pattern is the text \<open>A-Z\<close>, not the class of capital letters;
  each occurrence is replaced by the lower case of its first letter.
\<close>

fun fold_A_Z :: "string \<Rightarrow> string" where
  "fold_A_Z (a # b # c # s) =
     (if a = CHR ''A'' \<and> b = CHR ''-'' \<and> c = CHR ''Z'' then CHR ''a'' # fold_A_Z s else a # fold_A_Z (b # c # s))"
| "fold_A_Z s = s"

definition variants :: "string \<Rightarrow> string list" where
  "variants t =
     (let v1 = fold_A_Z t in js_sort compareUtf16Id (js_unique [t, v1, englishSingular v1, englishPlural v1]))"

section \<open>Edit distance\<close>

text \<open>
  One row of the table from the one above it: \<open>prev\<close> is the cell above and to the left,
  \<open>left\<close> the cell just written.
\<close>

fun dp_cells :: "char \<Rightarrow> nat \<Rightarrow> nat \<Rightarrow> string \<Rightarrow> nat list \<Rightarrow> nat list" where
  "dp_cells a prev left (b # bs) (t # ts) =
     (let v = min (min (t + 1) (left + 1)) (prev + (if a = b then 0 else 1)) in v # dp_cells a t v bs ts)"
| "dp_cells a prev left _ _ = []"

fun dp_row :: "string \<Rightarrow> nat \<Rightarrow> char \<Rightarrow> nat list \<Rightarrow> nat list" where
  "dp_row b i a [] = []"
| "dp_row b i a (d # ds) = i # dp_cells a d i b ds"

fun dp_rows :: "string \<Rightarrow> nat \<Rightarrow> string \<Rightarrow> nat list \<Rightarrow> nat list" where
  "dp_rows b i [] dp = dp"
| "dp_rows b i (a # as) dp = dp_rows b (Suc i) as (dp_row b i a dp)"

definition levenshtein :: "string \<Rightarrow> string \<Rightarrow> nat" where
  "levenshtein a b = last (dp_rows b 1 a [0..<Suc (length b)])"

definition levenshteinRatio :: "string \<Rightarrow> string \<Rightarrow> rat" where
  "levenshteinRatio a b =
     (if a = b then 1
      else if a = [] \<or> b = [] then 0
      else fl (1 - fl (of_nat (levenshtein a b) / of_nat (max (length a) (length b)))))"

definition tokenMatchScore :: "string \<Rightarrow> string \<Rightarrow> rat" where
  "tokenMatchScore s v =
     (if s = v then 1
      else if js_includes v s \<or> js_includes s v then 3 / 4
      else if fl (85 / 100) \<le> levenshteinRatio s v then fl (7 / 10) else 0)"

definition best_score :: "rat list \<Rightarrow> rat" where
  "best_score scores = foldl max 0 scores"

definition scoreSegmentToTable :: "string \<Rightarrow> string \<Rightarrow> rat" where
  "scoreSegmentToTable seg t = best_score (map (tokenMatchScore (fold_A_Z seg)) (variants t))"

definition token_char :: "char \<Rightarrow> bool" where
  "token_char c \<longleftrightarrow> (let n = (of_char c :: nat)
     in (97 \<le> n \<and> n \<le> 122) \<or> (65 \<le> n \<and> n \<le> 90) \<or> (48 \<le> n \<and> n \<le> 57))"

fun words_of :: "(char \<Rightarrow> bool) \<Rightarrow> string \<Rightarrow> string \<Rightarrow> string list" where
  "words_of p acc [] = (if acc = [] then [] else [rev acc])"
| "words_of p acc (c # s) =
     (if p c then words_of p (c # acc) s
      else if acc = [] then words_of p [] s
      else rev acc # words_of p [] s)"

definition tokens :: "string \<Rightarrow> string list" where
  "tokens toolName = map fold_A_Z (words_of token_char [] toolName)"

definition tableScoreAction :: "string \<Rightarrow> string \<Rightarrow> rat" where
  "tableScoreAction toolName t =
     best_score (concat (map (\<lambda>k. map (tokenMatchScore k) (variants t)) (tokens toolName)))"

text \<open>The best of some names: the higher score, of equal scores the smaller name.\<close>

definition better :: "(string \<Rightarrow> rat) \<Rightarrow> string \<Rightarrow> string \<times> rat \<Rightarrow> string \<times> rat" where
  "better score t best =
     (if snd best < score t \<or> (score t = snd best \<and> compareUtf16Id t (fst best) < 0) then (t, score t) else best)"

definition argmax :: "(string \<Rightarrow> rat) \<Rightarrow> string list \<Rightarrow> string \<times> rat" where
  "argmax score names =
     (case fold (better score) names ((case names of [] \<Rightarrow> [] | t # _ \<Rightarrow> t), - 1) of (t, s) \<Rightarrow> (t, max 0 s))"

definition argmaxTableSegment :: "string \<Rightarrow> string list \<Rightarrow> string \<times> rat" where
  "argmaxTableSegment seg tables = argmax (scoreSegmentToTable seg) tables"

definition argmaxTableAction :: "string \<Rightarrow> string list \<Rightarrow> string \<times> rat" where
  "argmaxTableAction toolName tables = argmax (tableScoreAction toolName) tables"

section \<open>Columns\<close>

definition drop_underscores :: "string \<Rightarrow> string" where
  "drop_underscores s = filter (\<lambda>c. c \<noteq> CHR ''_'') (toLowerCase s)"

definition normalizeSnakeCamel :: "string \<Rightarrow> string \<Rightarrow> bool" where
  "normalizeSnakeCamel a b \<longleftrightarrow> drop_underscores a = drop_underscores b"

definition stripIdSuffix :: "string \<Rightarrow> string \<Rightarrow> bool" where
  "stripIdSuffix k col =
     (let kl = toLowerCase k; cl = toLowerCase col
      in (ends_with ''id'' kl \<and> cut_end 2 kl = cl) \<or> (ends_with ''_id'' kl \<and> cut_end 3 kl = cl))"

definition columnScore :: "string \<Rightarrow> string \<Rightarrow> rat" where
  "columnScore k col =
     (let kl = toLowerCase k; cl = toLowerCase col; r = levenshteinRatio kl cl
      in if k = col then 1
         else if kl = cl then fl (95 / 100)
         else if normalizeSnakeCamel k col then fl (9 / 10)
         else if stripIdSuffix k col then fl (85 / 100)
         else if cl = ''id'' \<and> (kl = ''recordid'' \<or> kl = ''record_id'') then fl (9 / 10)
         else if fl (8 / 10) \<le> r then r else 0)"

definition bestColumnForParam :: "string \<Rightarrow> string list \<Rightarrow> string \<times> rat" where
  "bestColumnForParam k columns = argmax (columnScore k) columns"

end
