(* ===== verification/QuickPlan.thy ===== *)
theory QuickPlan
  imports QuickIngest QuickScoring QuickReport Connections JsonPaths
begin

text \<open>
  From flattened parameters to checks: reading the schema (\<open>src/quickVerify/sqliteCatalog.ts\<close>,
  \<open>src/quickVerify/postgresCatalog.ts\<close>), the grouping of paths by table
  (\<open>src/quickVerify/decomposeUnits.ts\<close>), the row that an action should have left
  (\<open>src/quickVerify/rowUnit.ts\<close>) and the rows it refers to
  (\<open>src/quickVerify/relationalPlan.ts\<close>). The databases are the drivers' query functions.
\<close>

section \<open>The catalog of a schema\<close>

record fk_edge =
  fk_childTable :: string
  fk_childColumn :: string
  fk_parentTable :: string
  fk_parentColumn :: string

record 'w catalog =
  ct_listTables :: "('w, string list) io"
  ct_listColumns :: "string \<Rightarrow> ('w, string list) io"
  ct_primaryKeyColumns :: "string \<Rightarrow> ('w, string list) io"
  ct_listUniqueConstraints :: "string \<Rightarrow> ('w, string list list) io"
  ct_listFkEdges :: "('w, fk_edge list) io"

text \<open>
  A column of a row, as text: the name columns of a catalog are text, but for the parent column
  that SQLite leaves null when a key refers to a primary key, which no check reads.
\<close>

definition cell :: "host \<Rightarrow> string \<Rightarrow> row \<Rightarrow> string" where
  "cell h k r = js_to_string h (get_prop (VObj r) k)"

definition edge_key :: "fk_edge \<Rightarrow> string" where
  "edge_key e = fk_childTable e @ ''.'' @ fk_childColumn e @ ''->'' @ fk_parentTable e @ ''.'' @ fk_parentColumn e"

text \<open>The first edge with each key.\<close>

fun unique_edges :: "string list \<Rightarrow> fk_edge list \<Rightarrow> fk_edge list" where
  "unique_edges seen [] = []"
| "unique_edges seen (e # es) =
     (if edge_key e \<in> set seen then unique_edges seen es else e # unique_edges (edge_key e # seen) es)"

subsection \<open>SQLite\<close>

definition SQLITE_TABLES_SQL :: string where
  "SQLITE_TABLES_SQL = ''SELECT name FROM sqlite_master WHERE type='' @ [CHR 0x27] @ ''table'' @ [CHR 0x27]
     @ '' AND name NOT LIKE '' @ [CHR 0x27] @ ''sqlite_%'' @ [CHR 0x27] @ '' ORDER BY name''"

definition pragma :: "string \<Rightarrow> string \<Rightarrow> string" where
  "pragma name table = ''PRAGMA '' @ name @ ''('' @ [CHR 0x22]
     @ concat (map (\<lambda>c. if c = CHR 0x22 then [c, c] else [c]) table) @ [CHR 0x22] @ '')''"

definition positive :: "jsval \<Rightarrow> bool" where
  "positive v \<longleftrightarrow> (case v of VNum n \<Rightarrow> num_less (num_of_int 0) n | _ \<Rightarrow> False)"

definition sqlite_tables :: "host \<Rightarrow> 'w sqlite_db \<Rightarrow> ('w, string list) io" where
  "sqlite_tables h db = io_bind (db_all db SQLITE_TABLES_SQL []) (\<lambda>rows. io_return (map (cell h ''name'') rows))"

definition sqlite_edges_of :: "host \<Rightarrow> 'w sqlite_db \<Rightarrow> string \<Rightarrow> ('w, fk_edge list) io" where
  "sqlite_edges_of h db t =
     io_bind (db_all db (pragma ''foreign_key_list'' t) []) (\<lambda>rows. io_return
       (map (\<lambda>r. \<lparr>fk_childTable = t, fk_childColumn = cell h ''from'' r, fk_parentTable = cell h ''table'' r,
          fk_parentColumn = cell h ''to'' r\<rparr>) rows))"

definition sqliteSchemaCatalog :: "host \<Rightarrow> 'w sqlite_db \<Rightarrow> 'w catalog" where
  "sqliteSchemaCatalog h db =
     \<lparr>ct_listTables = sqlite_tables h db,
      ct_listColumns = (\<lambda>t. io_bind (db_all db (pragma ''table_info'' t) []) (\<lambda>rows. io_return
        (map (cell h ''name'') rows))),
      ct_primaryKeyColumns = (\<lambda>t. io_bind (db_all db (pragma ''table_info'' t) []) (\<lambda>rows. io_return
        (map (cell h ''name'') (filter (\<lambda>r. positive (get_prop (VObj r) ''pk'')) rows)))),
      ct_listUniqueConstraints = (\<lambda>t. io_return []),
      ct_listFkEdges = io_bind (sqlite_tables h db) (\<lambda>tables.
        io_bind (io_map (sqlite_edges_of h db) tables) (\<lambda>edges. io_return (unique_edges [] (concat edges))))\<rparr>"

subsection \<open>Postgres\<close>

definition PG_TABLES_SQL :: string where
  "PG_TABLES_SQL = join [CHR 0x0A]
     [''SELECT c.relname AS table_name'',
      ''       FROM pg_catalog.pg_class c'',
      ''       JOIN pg_catalog.pg_namespace n ON n.oid = c.relnamespace'',
      ''       WHERE n.nspname = '' @ [CHR 0x27] @ ''public'' @ [CHR 0x27] @ '''',
      ''         AND c.relkind = '' @ [CHR 0x27] @ ''r'' @ [CHR 0x27] @ '''',
      ''         AND NOT c.relispartition'',
      ''         AND pg_catalog.has_table_privilege(c.oid, '' @ [CHR 0x27] @ ''SELECT'' @ [CHR 0x27] @ '')'',
      ''       ORDER BY c.relname'']"

definition PG_COLUMNS_SQL :: string where
  "PG_COLUMNS_SQL = join [CHR 0x0A]
     [''SELECT a.attname AS column_name'',
      ''       FROM pg_catalog.pg_attribute a'',
      ''       JOIN pg_catalog.pg_class c ON c.oid = a.attrelid'',
      ''       JOIN pg_catalog.pg_namespace n ON n.oid = c.relnamespace'',
      ''       WHERE n.nspname = '' @ [CHR 0x27] @ ''public'' @ [CHR 0x27] @ '''',
      ''         AND c.relname = $1'',
      ''         AND c.relkind = '' @ [CHR 0x27] @ ''r'' @ [CHR 0x27] @ '''',
      ''         AND a.attnum > 0'',
      ''         AND NOT a.attisdropped'',
      ''       ORDER BY a.attnum'']"

definition PG_PRIMARY_KEY_SQL :: string where
  "PG_PRIMARY_KEY_SQL = join [CHR 0x0A]
     [''SELECT a.attname AS column_name'',
      ''       FROM pg_catalog.pg_class c'',
      ''       JOIN pg_catalog.pg_namespace n ON n.oid = c.relnamespace'',
      ''       JOIN pg_catalog.pg_index i ON i.indrelid = c.oid AND i.indisprimary'',
      ''       JOIN pg_catalog.pg_attribute a'',
      ''         ON a.attrelid = c.oid AND a.attnum = ANY (i.indkey) AND a.attnum > 0 AND NOT a.attisdropped'',
      ''       WHERE n.nspname = '' @ [CHR 0x27] @ ''public'' @ [CHR 0x27] @ '''',
      ''         AND c.relname = $1'',
      ''         AND c.relkind = '' @ [CHR 0x27] @ ''r'' @ [CHR 0x27] @ '''']"

definition PG_UNIQUE_SQL :: string where
  "PG_UNIQUE_SQL = join [CHR 0x0A]
     [''SELECT cn.conname, a.attname, u.ord'',
      ''       FROM pg_catalog.pg_constraint cn'',
      ''       JOIN pg_catalog.pg_class c ON c.oid = cn.conrelid'',
      ''       JOIN pg_catalog.pg_namespace n ON n.oid = c.relnamespace'',
      ''       JOIN LATERAL unnest(cn.conkey) WITH ORDINALITY AS u(attnum, ord) ON true'',
      ''       JOIN pg_catalog.pg_attribute a'',
      ''         ON a.attrelid = c.oid AND a.attnum = u.attnum AND NOT a.attisdropped'',
      ''       WHERE n.nspname = '' @ [CHR 0x27] @ ''public'' @ [CHR 0x27] @ '''',
      ''         AND c.relname = $1'',
      ''         AND c.relkind = '' @ [CHR 0x27] @ ''r'' @ [CHR 0x27] @ '''',
      ''         AND cn.contype = '' @ [CHR 0x27] @ ''u'' @ [CHR 0x27] @ '''',
      ''       ORDER BY cn.conname, u.ord'']"

definition PG_FK_SQL :: string where
  "PG_FK_SQL = join [CHR 0x0A]
     [''SELECT'',
      ''         cl.relname AS child_table,'',
      ''         a.attname AS child_column,'',
      ''         pr.relname AS parent_table,'',
      ''         pa.attname AS parent_column'',
      ''       FROM pg_catalog.pg_constraint cn'',
      ''       JOIN pg_catalog.pg_class cl ON cl.oid = cn.conrelid'',
      ''       JOIN pg_catalog.pg_namespace ns ON ns.oid = cl.relnamespace'',
      ''       JOIN pg_catalog.pg_class pr ON pr.oid = cn.confrelid AND pr.relkind = '' @ [CHR 0x27] @ ''r'' @ [CHR 0x27] @ '''',
      ''       JOIN LATERAL unnest(cn.conkey, cn.confkey) AS u(att_child, att_parent) ON true'',
      ''       JOIN pg_catalog.pg_attribute a'',
      ''         ON a.attrelid = cl.oid AND a.attnum = u.att_child AND NOT a.attisdropped'',
      ''       JOIN pg_catalog.pg_attribute pa'',
      ''         ON pa.attrelid = pr.oid AND pa.attnum = u.att_parent AND NOT pa.attisdropped'',
      ''       WHERE cn.contype = '' @ [CHR 0x27] @ ''f'' @ [CHR 0x27] @ '''',
      ''         AND ns.nspname = '' @ [CHR 0x27] @ ''public'' @ [CHR 0x27] @ '''',
      ''         AND pg_catalog.has_table_privilege(cl.oid, '' @ [CHR 0x27] @ ''SELECT'' @ [CHR 0x27] @ '')'',
      ''         AND pg_catalog.has_table_privilege(pr.oid, '' @ [CHR 0x27] @ ''SELECT'' @ [CHR 0x27] @ '')'',
      ''       ORDER BY cl.relname, a.attname, pr.relname, pa.attname'']"

text \<open>The columns of each constraint, the constraints as they first appear.\<close>

definition group_unique :: "host \<Rightarrow> row list \<Rightarrow> string list list" where
  "group_unique h rows =
     map snd (foldl (\<lambda>m r. AList.update (cell h ''conname'' r)
       ((case map_of m (cell h ''conname'' r) of None \<Rightarrow> [] | Some cs \<Rightarrow> cs) @ [cell h ''attname'' r]) m) [] rows)"

definition postgresSchemaCatalog :: "host \<Rightarrow> 'w query \<Rightarrow> 'w catalog" where
  "postgresSchemaCatalog h q =
     \<lparr>ct_listTables = io_bind (q PG_TABLES_SQL []) (\<lambda>rows. io_return (map (cell h ''table_name'') rows)),
      ct_listColumns = (\<lambda>t. io_bind (q PG_COLUMNS_SQL [t]) (\<lambda>rows. io_return (map (cell h ''column_name'') rows))),
      ct_primaryKeyColumns = (\<lambda>t. io_bind (q PG_PRIMARY_KEY_SQL [t]) (\<lambda>rows. io_return
        (map (cell h ''column_name'') rows))),
      ct_listUniqueConstraints = (\<lambda>t. io_bind (q PG_UNIQUE_SQL [t]) (\<lambda>rows. io_return (group_unique h rows))),
      ct_listFkEdges = io_bind (q PG_FK_SQL []) (\<lambda>rows. io_return (unique_edges []
        (map (\<lambda>r. \<lparr>fk_childTable = cell h ''child_table'' r, fk_childColumn = cell h ''child_column'' r,
           fk_parentTable = cell h ''parent_table'' r, fk_parentColumn = cell h ''parent_column'' r\<rparr>) rows)))\<rparr>"

section \<open>Groups of paths\<close>

definition GLOBAL_BUCKET :: string where
  "GLOBAL_BUCKET = ''__global__''"

record action_bucket =
  bk_bucketKey :: string
  bk_tableName :: string
  bk_toolName :: string
  bk_flat :: flat
  bk_paths :: "string list"

definition before_dot :: "string \<Rightarrow> string" where
  "before_dot p = takeWhile (\<lambda>c. c \<noteq> CHR ''.'') p"

definition bucket_key_of :: "string list \<Rightarrow> string \<Rightarrow> string" where
  "bucket_key_of tables p =
     (case argmaxTableSegment (before_dot p) tables of (t, s) \<Rightarrow> if T_TABLE \<le> s then t else GLOBAL_BUCKET)"

definition group_paths :: "string list \<Rightarrow> string list \<Rightarrow> (string \<times> string list) list" where
  "group_paths tables paths =
     foldl (\<lambda>m p. AList.update (bucket_key_of tables p)
       ((case map_of m (bucket_key_of tables p) of None \<Rightarrow> [] | Some ps \<Rightarrow> ps) @ [p]) m) [] paths"

definition bucketsForAction :: "string \<Rightarrow> flat \<Rightarrow> string list \<Rightarrow> action_bucket list" where
  "bucketsForAction toolName flat tables =
     (if tables = [] then []
      else map (\<lambda>(k, ps). \<lparr>bk_bucketKey = k,
          bk_tableName = (if k = GLOBAL_BUCKET then fst (argmaxTableAction toolName tables) else k),
          bk_toolName = toolName, bk_flat = flat, bk_paths = js_sort compareUtf16Id ps\<rparr>)
        (js_sort (\<lambda>a b. compareUtf16Id (fst a) (fst b))
          (group_paths tables (js_sort compareUtf16Id (map fst flat)))))"

definition mappingKeyForPath :: "string \<Rightarrow> string \<Rightarrow> string" where
  "mappingKeyForPath path bucketKey =
     (if bucketKey \<noteq> GLOBAL_BUCKET \<and> CHR ''.'' \<in> set path then drop (length (before_dot path) + 1) path else path)"

section \<open>The row of a group\<close>

fun toScalar :: "jsval \<Rightarrow> scalar option" where
  "toScalar VNull = Some SNull"
| "toScalar (VBool b) = Some (SBool b)"
| "toScalar (VNum n) = (if num_is_finite n then Some (SNum n) else None)"
| "toScalar (VStr s) = Some (SStr s)"
| "toScalar _ = None"

fun scalarToIdentityString :: "host \<Rightarrow> scalar \<Rightarrow> string" where
  "scalarToIdentityString h SNull = ''null''"
| "scalarToIdentityString h (SBool b) = (if b then ''true'' else ''false'')"
| "scalarToIdentityString h (SNum n) = num_to_string h n"
| "scalarToIdentityString h (SStr s) = s"

record row_plan =
  pn_request :: "row_request option"
  pn_confidence :: rat
  pn_reasonCodes :: "string list"
  pn_rationale :: "string list"
  pn_alternates :: "(string \<times> rat) list option"
  pn_pkFlatBindings :: "(string \<times> string) list option"
  pn_pointerComplete :: "bool option"

definition no_row :: "rat \<Rightarrow> string list \<Rightarrow> string list \<Rightarrow> (string \<times> rat) list option \<Rightarrow> row_plan" where
  "no_row confidence codes rationale alternates =
     \<lparr>pn_request = None, pn_confidence = confidence, pn_reasonCodes = codes, pn_rationale = rationale,
      pn_alternates = alternates, pn_pkFlatBindings = None, pn_pointerComplete = None\<rparr>"

text \<open>The tables by their score for the tool's name, the best first.\<close>

definition rank_tables :: "string \<Rightarrow> string list \<Rightarrow> (string \<times> rat) list" where
  "rank_tables toolName tables =
     js_sort (\<lambda>a b. if snd b < snd a then - 1 else if snd a < snd b then 1 else compareUtf16Id (fst a) (fst b))
       (map (\<lambda>t. (t, tableScoreAction toolName t)) tables)"

definition to_fixed_3 :: "rat \<Rightarrow> string" where
  "to_fixed_3 q = (let n = thousandths q in nat_str (n div 1000) @ ''.'' @ three_digits (n mod 1000))"

text \<open>A path of the group with its mapping key and its value.\<close>

record map_entry =
  me_path :: string
  me_mk :: string
  me_value :: jsval

definition flat_value :: "flat \<Rightarrow> string \<Rightarrow> jsval" where
  "flat_value m k = (case map_of m k of None \<Rightarrow> VUndef | Some v \<Rightarrow> v)"

definition map_entries :: "action_bucket \<Rightarrow> map_entry list" where
  "map_entries b =
     map (\<lambda>p. \<lparr>me_path = p, me_mk = mappingKeyForPath p (bk_bucketKey b), me_value = flat_value (bk_flat b) p\<rparr>)
       (bk_paths b)"

definition best_mapping :: "map_entry list \<Rightarrow> string \<Rightarrow> string \<times> rat" where
  "best_mapping es col = fold (\<lambda>e. better (\<lambda>m. columnScore m col) (me_mk e)) es ([], - 1)"

definition pick_entry :: "map_entry list \<Rightarrow> string \<Rightarrow> map_entry option" where
  "pick_entry es mk =
     (case js_sort (\<lambda>a b. compareUtf16Id (me_path a) (me_path b)) (filter (\<lambda>e. me_mk e = mk) es) of
        [] \<Rightarrow> None
      | e # _ \<Rightarrow> Some e)"

record identity_plan =
  id_pairs :: "identity_pair list"
  id_bindings :: "(string \<times> string) list"
  id_minScore :: rat

text \<open>The key columns one by one; \<open>Inl\<close> is the rationale of a column that no parameter fills.\<close>

fun plan_identity :: "host \<Rightarrow> map_entry list \<Rightarrow> string list \<Rightarrow> identity_plan \<Rightarrow> string + identity_plan" where
  "plan_identity h es [] acc = Inr acc"
| "plan_identity h es (col # cols) acc =
     (case best_mapping es col of (mk, s) \<Rightarrow>
        if s < T_COL then Inl (''PK column '' @ col @ '' has no param match >= T_COL'')
        else (case pick_entry es mk of
            None \<Rightarrow> Inl (''PK column '' @ col @ '' has no param match >= T_COL'')
          | Some e \<Rightarrow>
              (case toScalar (js_coalesce (me_value e) VNull) of
                 None \<Rightarrow> Inl (''PK '' @ col @ '' mapped value not a verification scalar'')
               | Some sc \<Rightarrow> plan_identity h es cols
                   \<lparr>id_pairs = id_pairs acc @ [\<lparr>ip_column = col, ip_value = scalarToIdentityString h sc\<rparr>],
                    id_bindings = id_bindings acc @ [(col, me_path e)], id_minScore = min (id_minScore acc) s\<rparr>)))"

text \<open>The value a column is compared with: of the parameters that fit best the first.\<close>

definition pick_field :: "string \<Rightarrow> map_entry \<Rightarrow> (rat \<times> scalar) option \<Rightarrow> (rat \<times> scalar) option" where
  "pick_field col e picked =
     (let s = columnScore (me_mk e) col
      in if s < T_COL then picked
         else (case toScalar (me_value e) of
             None \<Rightarrow> picked
           | Some v \<Rightarrow> (case picked of
                 None \<Rightarrow> Some (s, v)
               | Some (best, _) \<Rightarrow> if best < s then Some (s, v) else picked)))"

definition put_field :: "string \<Rightarrow> scalar \<Rightarrow> (string \<times> scalar) list \<Rightarrow> (string \<times> scalar) list" where
  "put_field k v rf = (if k = ''__proto__'' then rf else AList.update k v rf)"

definition plan_fields :: "map_entry list \<Rightarrow> string list \<Rightarrow> string list \<Rightarrow> (string \<times> scalar) list" where
  "plan_fields es pk colNames =
     key_order (fold (\<lambda>col rf. if col \<in> set pk then rf
         else (case fold (pick_field col) es None of None \<Rightarrow> rf | Some (s, v) \<Rightarrow> put_field col v rf))
       colNames [])"

text \<open>The primary key, or else the unique constraint with the fewest columns.\<close>

definition smallest_unique :: "string list list \<Rightarrow> string list" where
  "smallest_unique uniques =
     (case js_sort (\<lambda>a b. if length a \<noteq> length b then int (length a) - int (length b)
         else compareUtf16Id (join '','' a) (join '','' b)) uniques of
        [] \<Rightarrow> []
      | u # _ \<Rightarrow> u)"

definition row_confidence :: "rat \<Rightarrow> rat \<Rightarrow> rat \<Rightarrow> rat" where
  "row_confidence segScore minIdScore s1 = min 1 (fl (fl (fl (segScore + minIdScore) + s1) / 3))"

definition flat_key_ok :: "string \<Rightarrow> bool" where
  "flat_key_ok k \<longleftrightarrow> (case flatKeyToJsonPointer k of FlatOk p \<Rightarrow> True | FlatErr c \<Rightarrow> False)"

definition plan_with_key ::
  "host \<Rightarrow> action_bucket \<Rightarrow> rat \<Rightarrow> string list \<Rightarrow> string list \<Rightarrow> string list \<Rightarrow> string list \<Rightarrow> row_plan" where
  "plan_with_key h b s1 codes rationale colNames pk =
     (let es = map_entries b; table = bk_tableName b
      in if pk = [] then no_row 0 (codes @ [''MAPPING_NO_UNIQUE_KEY''])
           (rationale @ [''No primary or unique key on '' @ table]) None
         else (case plan_identity h es (js_sort compareUtf16Id pk) \<lparr>id_pairs = [], id_bindings = [], id_minScore = 1\<rparr> of
             Inl why \<Rightarrow> no_row 0 (codes @ [''MAPPING_NO_UNIQUE_KEY'']) (rationale @ [why]) None
           | Inr ident \<Rightarrow>
               (let rf = plan_fields es pk colNames
                in \<lparr>pn_request = Some \<lparr>rq_table = table, rq_identityEq = id_pairs ident, rq_requiredFields = rf\<rparr>,
                    pn_confidence = row_confidence (tableScoreAction (bk_toolName b) table) (id_minScore ident) s1,
                    pn_reasonCodes = codes,
                    pn_rationale = rationale @ [''Table '' @ table @ '', PK ['' @ join '','' pk @ ''], ''
                      @ nat_str (length rf) @ '' field(s) compared''],
                    pn_alternates = None, pn_pkFlatBindings = Some (id_bindings ident),
                    pn_pointerComplete = Some (list_all (\<lambda>(c, k). flat_key_ok k) (id_bindings ident))\<rparr>)))"

definition row_key :: "'w catalog \<Rightarrow> string \<Rightarrow> ('w, string list) io" where
  "row_key catalog table =
     io_bind (ct_primaryKeyColumns catalog table) (\<lambda>pk.
       if pk \<noteq> [] then io_return pk
       else io_bind (ct_listUniqueConstraints catalog table) (\<lambda>us. io_return (smallest_unique us)))"

definition low_confidence :: "string \<Rightarrow> rat \<Rightarrow> string list" where
  "low_confidence bucketKey s1 =
     (if bucketKey = GLOBAL_BUCKET \<and> s1 < T_OVERALL
      then [''Best table score '' @ to_fixed_3 s1 @ '' < T_OVERALL 0.55''] else [])"

text \<open>Two tables that fit the tool's name about as well, when the name had to decide.\<close>

definition ambiguous_tables :: "string \<Rightarrow> (string \<times> rat) list \<Rightarrow> ((string \<times> rat) \<times> string \<times> rat) option" where
  "ambiguous_tables bucketKey scores =
     (case scores of
        a # b # _ \<Rightarrow>
          if bucketKey = GLOBAL_BUCKET \<and> fl (snd a - snd b) \<le> T_AMBIGUITY_DELTA \<and> compareUtf16Id (fst a) (fst b) \<noteq> 0
          then Some (a, b) else None
      | _ \<Rightarrow> None)"

definition planRowUnit :: "host \<Rightarrow> 'w catalog \<Rightarrow> action_bucket \<Rightarrow> string list \<Rightarrow> ('w, row_plan) io" where
  "planRowUnit h catalog b allTables =
     (let scores = rank_tables (bk_toolName b) allTables;
          s1 = (case scores of [] \<Rightarrow> 0 | a # _ \<Rightarrow> snd a);
          rationale = low_confidence (bk_bucketKey b) s1;
          codes = (if rationale = [] then [] else [''MAPPING_LOW_CONFIDENCE''])
      in case ambiguous_tables (bk_bucketKey b) scores of
           Some (first, second) \<Rightarrow> io_return (no_row s1 (codes @ [''MAPPING_AMBIGUOUS''])
             (rationale @ [''Top tables within ambiguity delta: '' @ fst first @ '' vs '' @ fst second])
             (Some [first, second]))
         | None \<Rightarrow>
             io_bind (ct_listColumns catalog (bk_tableName b)) (\<lambda>cols.
             io_bind (row_key catalog (bk_tableName b)) (\<lambda>pk.
               io_return (plan_with_key h b s1 codes rationale (js_sort compareUtf16Id cols) pk))))"

section \<open>The rows an action refers to\<close>

definition best_flat_key :: "flat \<Rightarrow> string \<Rightarrow> string \<times> rat" where
  "best_flat_key flat col =
     fold (\<lambda>k best. if snd best < columnScore k col then (k, columnScore k col) else best) (map fst flat) ([], - 1)"

definition related_of_edge :: "host \<Rightarrow> flat \<Rightarrow> fk_edge \<Rightarrow> related_exists_check option" where
  "related_of_edge h flat e =
     (case best_flat_key flat (fk_childColumn e) of (k, s) \<Rightarrow>
        if s < T_COL \<or> nullish (flat_value flat k) then None
        else Some \<lparr>rx_id = ''fk:'' @ fk_childTable e @ ''.'' @ fk_childColumn e, rx_childTable = fk_childTable e,
          rx_matchEq = [\<lparr>ip_column = fk_childColumn e, ip_value = js_to_string h (flat_value flat k)\<rparr>]\<rparr>)"

fun plan_related :: "host \<Rightarrow> flat \<Rightarrow> string list \<Rightarrow> fk_edge list \<Rightarrow> related_exists_check list" where
  "plan_related h flat seen [] = []"
| "plan_related h flat seen (e # es) =
     (let key = fk_childTable e @ ''.'' @ fk_childColumn e
      in if key \<in> set seen then plan_related h flat seen es
         else (case related_of_edge h flat e of
             None \<Rightarrow> plan_related h flat seen es
           | Some c \<Rightarrow> c # plan_related h flat (key # seen) es))"

definition planRelationalFromFlat :: "host \<Rightarrow> flat \<Rightarrow> fk_edge list \<Rightarrow> related_exists_check list" where
  "planRelationalFromFlat h flat edges = plan_related h flat [] edges"

end
