(* ===== verification/QuickExport.thy ===== *)
theory QuickExport
  imports QuickPlan Certificate
begin

text \<open>
  Reading a planned check against the database (\<open>src/quickVerify/verifyExecution.ts\<close>), the
  registry entries that replay a check (\<open>src/quickVerify/exportTool.ts\<close>), their events
  (\<open>src/quickVerify/buildQuickContractEventsNdjson.ts\<close>) and the fingerprint by which a replay is
  compared with the check (\<open>src/quickVerify/verificationRequestFingerprint.ts\<close>).
\<close>

section \<open>Checks against the database\<close>

record verify_outcome =
  vo_verdict :: unit_verdict
  vo_reasonCodes :: "string list"
  vo_verification :: evidence
  vo_explanation :: string

definition connector_outcome :: "js_error \<Rightarrow> verify_outcome" where
  "connector_outcome e =
     \<lparr>vo_verdict = UnitUncertain, vo_reasonCodes = [''CONNECTOR_ERROR''], vo_verification = [],
      vo_explanation = err_message e\<rparr>"

definition row_outcome :: "host \<Rightarrow> row_request \<Rightarrow> row list \<Rightarrow> verify_outcome" where
  "row_outcome h req rows =
     (let out = reconcileFromRows h rows req
      in if ro_status out = Verified
         then \<lparr>vo_verdict = UnitVerified, vo_reasonCodes = [],
               vo_verification = AList.update ''rowCount'' (VInt (int (length rows))) (ro_evidence out),
               vo_explanation = ''Row matched identity and required fields.''\<rparr>
         else \<lparr>vo_verdict = (if ro_status out = Missing \<or> ro_status out = Inconsistent then UnitFail else UnitUncertain),
               vo_reasonCodes = map rs_code (ro_reasons out), vo_verification = ro_evidence out,
               vo_explanation = join ''; '' (map rs_message (ro_reasons out))\<rparr>)"

definition verifyRowSqlite :: "host \<Rightarrow> 'w sqlite_db \<Rightarrow> row_request \<Rightarrow> ('w, verify_outcome) io" where
  "verifyRowSqlite h db req =
     io_catch (io_bind (fetchRowsForVerification db req) (\<lambda>rows. io_return (row_outcome h req rows)))
       (\<lambda>e. io_return (connector_outcome e))"

definition verifyRowPostgres :: "host \<Rightarrow> 'w query \<Rightarrow> row_request \<Rightarrow> ('w, verify_outcome) io" where
  "verifyRowPostgres h q req =
     (case buildSelectByIdentitySqlPostgres req of (text, values) \<Rightarrow>
        io_catch (io_bind (q text values) (\<lambda>rows. io_return (row_outcome h req (map lower_row rows))))
          (\<lambda>e. io_return (connector_outcome e)))"

text \<open>Whether the scalar of an \<open>EXISTS\<close> says yes or no.\<close>

fun normalizeExistsScalar :: "jsval \<Rightarrow> bool option" where
  "normalizeExistsScalar (VBool b) = Some b"
| "normalizeExistsScalar (VNum n) =
     (if n = num_of_int 1 then Some True else if n = num_of_int 0 then Some False else None)"
| "normalizeExistsScalar (VStr s) =
     (let l = toLowerCase s
      in if l \<in> {''t'', ''true'', ''1''} then Some True
         else if l \<in> {''f'', ''false'', ''0''} then Some False else None)"
| "normalizeExistsScalar _ = None"

definition exists_outcome :: "jsval \<Rightarrow> verify_outcome" where
  "exists_outcome v =
     (case normalizeExistsScalar v of
        None \<Rightarrow> \<lparr>vo_verdict = UnitUncertain, vo_reasonCodes = [''RELATIONAL_SCALAR_UNUSABLE''], vo_verification = [],
          vo_explanation = ''EXISTS scalar unusable''\<rparr>
      | Some True \<Rightarrow> \<lparr>vo_verdict = UnitVerified, vo_reasonCodes = [], vo_verification = [],
          vo_explanation = ''Related row exists.''\<rparr>
      | Some False \<Rightarrow> \<lparr>vo_verdict = UnitFail, vo_reasonCodes = [''RELATED_ROWS_ABSENT''], vo_verification = [],
          vo_explanation = ''No matching related row.''\<rparr>)"

definition exists_scalar :: "row option \<Rightarrow> jsval" where
  "exists_scalar r =
     (case r of None \<Rightarrow> VUndef | Some row \<Rightarrow> js_coalesce (get_prop (VObj row) ''v'') (get_prop (VObj row) ''V''))"

definition verifyRelatedExists ::
  "dialect \<Rightarrow> (string \<Rightarrow> string list \<Rightarrow> ('w, row option) io) \<Rightarrow> related_exists_check \<Rightarrow> ('w, verify_outcome) io" where
  "verifyRelatedExists d one_row check =
     io_bind (io_lift (buildRelationalScalarSql d (RelatedExists check))) (\<lambda>(text, values).
       io_catch (io_bind (one_row text values) (\<lambda>r. io_return (exists_outcome (exists_scalar r))))
         (\<lambda>e. io_return (connector_outcome e)))"

text \<open>What the run uses of the database it was given.\<close>

record 'w quick_db =
  qd_catalog :: "'w catalog"
  qd_verifyRow :: "row_request \<Rightarrow> ('w, verify_outcome) io"
  qd_verifyRelated :: "related_exists_check \<Rightarrow> ('w, verify_outcome) io"

definition sqlite_quick_db :: "host \<Rightarrow> 'w sqlite_db \<Rightarrow> 'w quick_db" where
  "sqlite_quick_db h db =
     \<lparr>qd_catalog = sqliteSchemaCatalog h db, qd_verifyRow = verifyRowSqlite h db,
      qd_verifyRelated = verifyRelatedExists Sqlite (db_get db)\<rparr>"

definition postgres_quick_db :: "host \<Rightarrow> 'w query \<Rightarrow> 'w quick_db" where
  "postgres_quick_db h q =
     \<lparr>qd_catalog = postgresSchemaCatalog h q, qd_verifyRow = verifyRowPostgres h q,
      qd_verifyRelated = verifyRelatedExists Postgresql (first_row q)\<rparr>"

section \<open>Synthetic parameters and fingerprints\<close>

text \<open>\<open>JSON.parse(JSON.stringify(v))\<close>.\<close>

definition json_clone :: "host \<Rightarrow> jsval \<Rightarrow> js_error + jsval" where
  "json_clone h v =
     throws_bind (json_stringify h v) (\<lambda>t.
       case (case t of None \<Rightarrow> None | Some s \<Rightarrow> h_jsonParse h s) of
         None \<Rightarrow> Inl (JsError ''invalid JSON'')
       | Some c \<Rightarrow> Inr c)"

definition buildSyntheticRowParams :: "host \<Rightarrow> jsval \<Rightarrow> (string \<times> jsval) list \<Rightarrow> js_error + jsval" where
  "buildSyntheticRowParams h actionParams qvFields =
     throws_bind (json_clone h actionParams) (\<lambda>base.
       case base of
         VObj kvs \<Rightarrow> Inr (VObj (AList.update ''__qvFields'' (VObj qvFields) kvs))
       | _ \<Rightarrow> Inl (JsTypeError ''Cannot set properties of a value that is no object''))"

text \<open>The required fields in the order of their names, then in that of \<open>Object.keys\<close>.\<close>

definition sorted_fields :: "(string \<times> scalar) list \<Rightarrow> (string \<times> jsval) list" where
  "sorted_fields rf =
     key_order (js_sort (\<lambda>a b. compareUtf16Id (fst a) (fst b)) (map (\<lambda>(k, v). (k, scalar_val v)) rf))"

definition sort_pairs :: "identity_pair list \<Rightarrow> identity_pair list" where
  "sort_pairs ps = js_sort (\<lambda>a b. compareUtf16Id (ip_column a) (ip_column b)) ps"

definition normalizedSqlRowRequestFingerprint :: "host \<Rightarrow> row_request \<Rightarrow> js_error + string" where
  "normalizedSqlRowRequestFingerprint h req =
     stableStringify h (VObj [(''kind'', VStr ''sql_row''), (''table'', VStr (rq_table req)),
       (''identityEq'', pairs_val (sort_pairs (rq_identityEq req))),
       (''requiredFields'', VObj (sorted_fields (rq_requiredFields req)))])"

section \<open>Registry entries that replay a check\<close>

definition const_spec :: "'c \<Rightarrow> 'c spec" where
  "const_spec c = \<lparr>sp_const = Some c, sp_pointer = None\<rparr>"

definition pointer_spec :: "string \<Rightarrow> 'c spec" where
  "pointer_spec p = \<lparr>sp_const = None, sp_pointer = Some p\<rparr>"

definition const_pair :: "identity_pair \<Rightarrow> eq_pair_spec" where
  "const_pair p = \<lparr>rp_column = const_spec (ip_column p), rp_value = const_spec (SStr (ip_value p))\<rparr>"

definition quick_row_entry :: "string \<Rightarrow> string \<Rightarrow> eq_pair_spec list \<Rightarrow> registry_entry" where
  "quick_row_entry toolId table identityEq =
     \<lparr>re_toolId = toolId, re_effectDescriptionTemplate = ''Quick inferred row: '' @ table, re_releaseCritical = None,
      re_verification = VSqlRow \<lparr>srs_table = const_spec table, srs_identityEq = identityEq,
        srs_requiredFields = ''/__qvFields''\<rparr>\<rparr>"

definition exportSqlRowTool :: "string \<Rightarrow> row_request \<Rightarrow> registry_entry" where
  "exportSqlRowTool toolId req = quick_row_entry toolId (rq_table req) (map const_pair (rq_identityEq req))"

definition exportSqlRowParamPointerTool :: "string \<Rightarrow> string \<Rightarrow> (string \<times> string) list \<Rightarrow> registry_entry" where
  "exportSqlRowParamPointerTool toolId table identityPointers =
     quick_row_entry toolId table
       (map (\<lambda>(c, p). \<lparr>rp_column = const_spec c, rp_value = pointer_spec p\<rparr>)
         (js_sort (\<lambda>a b. compareUtf16Id (fst a) (fst b)) identityPointers))"

definition exportSqlRelationalRelatedExistsTool :: "string \<Rightarrow> related_exists_check \<Rightarrow> registry_entry" where
  "exportSqlRelationalRelatedExistsTool toolId rel =
     \<lparr>re_toolId = toolId, re_effectDescriptionTemplate = ''Quick inferred related_exists: '' @ rx_id rel,
      re_releaseCritical = None,
      re_verification = VSqlRelational [RelatedExistsSpec
        \<lparr>res_id = rx_id rel, res_childTable = const_spec (rx_childTable rel),
         res_matchEq = map const_pair (sort_pairs (rx_matchEq rel))\<rparr>]\<rparr>"

text \<open>The JSON of an entry; \<open>None\<close>: a kind of verification that the export never makes.\<close>

definition spec_val :: "('c \<Rightarrow> jsval) \<Rightarrow> 'c spec \<Rightarrow> jsval" where
  "spec_val f s =
     VObj ((case sp_const s of None \<Rightarrow> [] | Some c \<Rightarrow> [(''const'', f c)])
       @ (case sp_pointer s of None \<Rightarrow> [] | Some p \<Rightarrow> [(''pointer'', VStr p)]))"

definition pair_spec_val :: "eq_pair_spec \<Rightarrow> jsval" where
  "pair_spec_val p = VObj [(''column'', spec_val VStr (rp_column p)), (''value'', spec_val scalar_val (rp_value p))]"

fun verification_val :: "registry_verification \<Rightarrow> jsval option" where
  "verification_val (VSqlRow s) = Some (VObj [(''kind'', VStr ''sql_row''), (''table'', spec_val VStr (srs_table s)),
     (''identityEq'', VArr (map pair_spec_val (srs_identityEq s))),
     (''requiredFields'', VObj [(''pointer'', VStr (srs_requiredFields s))])])"
| "verification_val (VSqlRelational [RelatedExistsSpec s]) = Some (VObj [(''kind'', VStr ''sql_relational''),
     (''checks'', VArr [VObj [(''checkKind'', VStr ''related_exists''), (''id'', VStr (res_id s)),
       (''childTable'', spec_val VStr (res_childTable s)), (''matchEq'', VArr (map pair_spec_val (res_matchEq s)))]])])"
| "verification_val _ = None"

definition tool_val :: "registry_entry \<Rightarrow> jsval option" where
  "tool_val t =
     map_option (\<lambda>v. VObj [(''toolId'', VStr (re_toolId t)),
       (''effectDescriptionTemplate'', VStr (re_effectDescriptionTemplate t)), (''verification'', v)])
       (verification_val (re_verification t))"

definition sort_tools :: "registry_entry list \<Rightarrow> registry_entry list" where
  "sort_tools ts = js_sort (\<lambda>a b. compareUtf16Id (re_toolId a) (re_toolId b)) ts"

definition canonicalToolsArrayUtf8 :: "host \<Rightarrow> registry_entry list \<Rightarrow> js_error + string" where
  "canonicalToolsArrayUtf8 h tools = stableStringify h (VArr (List.map_filter tool_val (sort_tools tools)))"

section \<open>Events that replay a check\<close>

datatype quick_export =
    RowExport (qe_toolId: string) row_request "jsval option"
  | RelatedExport (qe_toolId: string)

fun export_params :: "host \<Rightarrow> quick_export \<Rightarrow> js_error + jsval" where
  "export_params h (RelatedExport i) = Inr (VObj [])"
| "export_params h (RowExport i req (Some syn)) =
     throws_bind (stableStringify h syn) (\<lambda>t.
       case h_jsonParse h t of None \<Rightarrow> Inl (JsError ''invalid JSON'') | Some v \<Rightarrow> Inr v)"
| "export_params h (RowExport i req None) =
     Inr (VObj [(''__qvFields'', VObj (sorted_fields (rq_requiredFields req)))])"

definition export_line :: "host \<Rightarrow> string \<Rightarrow> nat \<times> quick_export \<Rightarrow> js_error + string" where
  "export_line h workflowId = (\<lambda>(n, x).
     throws_bind (export_params h x) (\<lambda>params.
     throws_bind (json_stringify h (VObj [(''schemaVersion'', VInt 1), (''workflowId'', VStr workflowId),
         (''seq'', VInt (int n)), (''type'', VStr ''tool_observed''), (''toolId'', VStr (qe_toolId x)),
         (''params'', params)]))
       (\<lambda>t. Inr (case t of None \<Rightarrow> [] | Some s \<Rightarrow> s))))"

definition sort_exports :: "quick_export list \<Rightarrow> quick_export list" where
  "sort_exports xs = js_sort (\<lambda>a b. compareUtf16Id (qe_toolId a) (qe_toolId b)) xs"

definition buildQuickContractEventsNdjson :: "host \<Rightarrow> string \<Rightarrow> quick_export list \<Rightarrow> js_error + string" where
  "buildQuickContractEventsNdjson h workflowId exports =
     (if exports = [] then Inr []
      else throws_bind (throws_map (export_line h workflowId) (zip [0..<length exports] (sort_exports exports)))
        (\<lambda>lines. Inr (join [CHR 0x0A] lines @ [CHR 0x0A])))"

end
