(* ===== verification/QuickRun.thy ===== *)
theory QuickRun
  imports QuickExport
begin

text \<open>
  Quick verification as a whole (\<open>src/quickVerify/runQuickVerify.ts\<close>): every action's groups and
  the rows they refer to are checked one after another, at most twenty in all; a check that can be
  replayed adds a registry entry; the verdicts roll up to one.
\<close>

section \<open>Scope and product truth\<close>

definition MAX_UNITS :: nat where
  "MAX_UNITS = 20"

definition QUICK_VERIFY_VERSION :: string where
  "QUICK_VERIFY_VERSION = ''1.2.1''"

definition QUICK_SCOPE_LIMITATIONS :: "string list" where
  "QUICK_SCOPE_LIMITATIONS =
     [''quick_verify_inferred_row_and_related_exists_only'', ''no_multi_effect_contract'',
      ''no_destructive_or_forbidden_row_contract'', ''contract_replay_export_row_and_eligible_related_exists_tools'']"

record quick_scope =
  sc_quickVerifyVersion :: string
  sc_capabilities :: "string list"
  sc_limitations :: "string list"
  sc_ingestContract :: string
  sc_groundTruth :: string

definition DEFAULT_QUICK_VERIFY_SCOPE :: quick_scope where
  "DEFAULT_QUICK_VERIFY_SCOPE =
     \<lparr>sc_quickVerifyVersion = QUICK_VERIFY_VERSION, sc_capabilities = [''inferred_row'', ''inferred_related_exists''],
      sc_limitations = QUICK_SCOPE_LIMITATIONS, sc_ingestContract = ''structured_tool_activity'',
      sc_groundTruth = ''read_only_sql''\<rparr>"

record product_truth =
  pt_doesNotProve :: "string list"
  pt_declared :: string
  pt_expected :: string
  pt_observed :: string
  pt_quickVerifyProvisional :: bool
  pt_contractReplayPartialCoverage :: bool

definition DEFAULT_QUICK_VERIFY_PRODUCT_TRUTH :: product_truth where
  "DEFAULT_QUICK_VERIFY_PRODUCT_TRUTH =
     \<lparr>pt_doesNotProve =
        [''Does not prove the tool or action actually executed.'',
         ''Does not prove a write or other state change occurred.'',
         ''Quick-only: inferred SQL checks against read-only database reads'' @ [CHR 0x97]
           @ ''not the full contract surface (multi-store registry checks are contract verify).''],
      pt_declared = ''Declared: tool identity and parameters extracted from ingest (structured tool activity).'',
      pt_expected = ''Expected: quick mode uses provisional row/FK checks inferred from parameters. Contract verify uses registry-defined expectations (SQL plus HTTP witness, object storage, vector, Mongo where configured).'',
      pt_observed = ''Observed: read-only SQL at verification time (quick mode).'',
      pt_quickVerifyProvisional = True, pt_contractReplayPartialCoverage = True\<rparr>"

definition buildQuickVerifyProductTruth :: "bool \<Rightarrow> product_truth" where
  "buildQuickVerifyProductTruth partial =
     DEFAULT_QUICK_VERIFY_PRODUCT_TRUTH\<lparr>pt_contractReplayPartialCoverage := partial\<rparr>"

section \<open>Roll-up\<close>

definition rollupVerdict :: "quick_unit_report list \<Rightarrow> string list \<Rightarrow> bool \<Rightarrow> quick_verdict" where
  "rollupVerdict units ingestCodes hadActions =
     (if \<not> hadActions \<and> (''INGEST_NO_ACTIONS'' \<in> set ingestCodes
           \<or> ''INGEST_NO_STRUCTURED_TOOL_ACTIVITY'' \<in> set ingestCodes) then QuickUncertain
      else if units = [] then QuickUncertain
      else if \<exists>u \<in> set units. qr_verdict u = UnitFail then QuickFail
      else if \<forall>u \<in> set units. qr_verdict u = UnitVerified then QuickPass
      else QuickUncertain)"

definition buildQuickSummary :: "quick_verdict \<Rightarrow> quick_unit_report list \<Rightarrow> string list \<Rightarrow> string" where
  "buildQuickSummary v units ingestCodes =
     join ''. ''
       ([''Inferred provisional check '' @ [CHR 0x97] @ '' rollup '' @ quick_verdict_text v
           @ '' is not a production-safety or audit-final verdict'',
         nat_str (length units) @ '' unit(s)'']
        @ (if ''INGEST_NO_ACTIONS'' \<in> set ingestCodes then [MSG_NO_TOOL_CALLS]
           else if ''INGEST_NO_STRUCTURED_TOOL_ACTIVITY'' \<in> set ingestCodes then [MSG_NO_STRUCTURED_TOOL_ACTIVITY]
           else if ingestCodes \<noteq> [] then [''ingest: '' @ join '','' ingestCodes]
           else [])) @ ''.''"

section \<open>The state of a run\<close>

record quick_state =
  qs_units :: "quick_unit_report list"
  qs_tools :: "registry_entry list"
  qs_exports :: "quick_export list"
  qs_headerCodes :: "string list"
  qs_relationalSeen :: "string list"

definition initial_quick_state :: quick_state where
  "initial_quick_state = \<lparr>qs_units = [], qs_tools = [], qs_exports = [], qs_headerCodes = [], qs_relationalSeen = []\<rparr>"

definition pushUnit :: "quick_unit_report \<Rightarrow> quick_state \<Rightarrow> quick_state" where
  "pushUnit u st =
     (if MAX_UNITS \<le> length (qs_units st)
      then (if ''UNIT_CAP_EXCEEDED'' \<in> set (qs_headerCodes st) then st
        else st\<lparr>qs_headerCodes := qs_headerCodes st @ [''UNIT_CAP_EXCEEDED'']\<rparr>)
      else st\<lparr>qs_units := qs_units st @ [u]\<rparr>)"

definition pushTool :: "registry_entry \<Rightarrow> quick_export \<Rightarrow> quick_state \<Rightarrow> quick_state" where
  "pushTool t x st = st\<lparr>qs_tools := qs_tools st @ [t], qs_exports := qs_exports st @ [x]\<rparr>"

definition used_ids :: "quick_state \<Rightarrow> string list" where
  "used_ids st = map re_toolId (qs_tools st)"

text \<open>
  \<open>while (used.has(tid)) tid = base:n++\<close>. The suffixes differ, so that as many rounds as there
  are used names find a free one.
\<close>

definition suffixed :: "string \<Rightarrow> nat \<Rightarrow> string" where
  "suffixed base n = base @ '':'' @ nat_str n"

fun free_id :: "nat \<Rightarrow> string list \<Rightarrow> string \<Rightarrow> nat \<Rightarrow> string \<Rightarrow> string" where
  "free_id 0 used base n tid = tid"
| "free_id (Suc rounds) used base n tid =
     (if tid \<in> set used then free_id rounds used base (Suc n) (suffixed base n) else tid)"

definition fresh_tool_id :: "string list \<Rightarrow> string \<Rightarrow> string" where
  "fresh_tool_id used base = free_id (length used) used base 1 base"

section \<open>Rows\<close>

record source_action =
  sa_toolName :: string
  sa_actionIndex :: nat
  sa_flat :: flat
  sa_params :: jsval

definition unit_id :: "quick_state \<Rightarrow> string" where
  "unit_id st = ''u'' @ nat_str (length (qs_units st))"

definition quick_unit_of :: "source_action \<Rightarrow> string \<Rightarrow> quick_kind \<Rightarrow> string \<Rightarrow> string list \<Rightarrow> quick_unit" where
  "quick_unit_of a uid kind table codes =
     \<lparr>qu_unitId = uid, qu_kind = kind, qu_toolName = sa_toolName a, qu_actionIndex = sa_actionIndex a,
      qu_table = table, qu_reasonCodes = codes\<rparr>"

text \<open>
  \<open>augmentExportVerificationRequest\<close>: a row that is only identified is exported with the
  parameters \<open>fields.<column>\<close> that name a column.
\<close>

definition fields_column :: "string \<Rightarrow> string option" where
  "fields_column k =
     (if starts_with ''fields.'' k \<and> CHR ''.'' \<notin> set (drop 7 k) then Some (drop 7 k) else None)"

definition augment_field ::
  "flat \<Rightarrow> string list \<Rightarrow> string list \<Rightarrow> string \<Rightarrow> (string \<times> scalar) list \<Rightarrow> (string \<times> scalar) list" where
  "augment_field flat columns pk k rf =
     (case fields_column k of
        None \<Rightarrow> rf
      | Some col \<Rightarrow>
          if col \<in> set pk \<or> col \<notin> set columns then rf
          else (case toScalar (js_coalesce (flat_value flat k) VNull) of None \<Rightarrow> rf | Some v \<Rightarrow> put_field col v rf))"

definition augmentExportVerificationRequest ::
  "row_request \<Rightarrow> flat \<Rightarrow> string list \<Rightarrow> string list \<Rightarrow> row_request" where
  "augmentExportVerificationRequest provisional flat columns pk =
     (let rf = key_order (fold (augment_field flat columns pk) (js_sort compareUtf16Id (map fst flat)) [])
      in if rq_requiredFields provisional \<noteq> [] \<or> rf = [] then provisional
         else provisional\<lparr>rq_requiredFields := rf\<rparr>)"

text \<open>
  A row that may be replayed from the parameters: its key values are read through pointers, and
  the registry entry resolves, on the synthetic parameters, to the request that was verified.
\<close>

definition binding_pointers :: "(string \<times> string) list \<Rightarrow> (string \<times> string) list option" where
  "binding_pointers bindings =
     those (map (\<lambda>(c, k). case flatKeyToJsonPointer k of FlatOk p \<Rightarrow> Some (c, p) | FlatErr e \<Rightarrow> None)
       (js_sort (\<lambda>a b. compareUtf16Id (fst a) (fst b)) bindings))"

definition same_request :: "host \<Rightarrow> resolved resolve \<Rightarrow> row_request \<Rightarrow> js_error + bool" where
  "same_request h r req =
     (case r of
        RThrow e \<Rightarrow> Inl e
      | RFail c m \<Rightarrow> Inr False
      | ROk v \<Rightarrow> (case v of
            RdSqlRow q \<Rightarrow> throws_bind (normalizedSqlRowRequestFingerprint h q) (\<lambda>a.
              throws_bind (normalizedSqlRowRequestFingerprint h req) (\<lambda>b. Inr (a = b)))
          | _ \<Rightarrow> Inr False))"

definition pointer_export ::
  "host \<Rightarrow> quick_state \<Rightarrow> source_action \<Rightarrow> row_plan \<Rightarrow> row_request \<Rightarrow> verify_outcome
     \<Rightarrow> js_error + (jsval \<times> (string \<times> string) list) option" where
  "pointer_export h st a plan req out =
     (case pn_pkFlatBindings plan of
        None \<Rightarrow> Inr None
      | Some bindings \<Rightarrow>
          if vo_verdict out \<noteq> UnitVerified \<or> pn_pointerComplete plan \<noteq> Some True \<or> pn_confidence plan < T_COL
            \<or> T_EXPORT \<le> pn_confidence plan then Inr None
          else (case buildSyntheticRowParams h (sa_params a) (sorted_fields (rq_requiredFields req)) of
              Inl e \<Rightarrow> Inr None
            | Inr syn \<Rightarrow> (case binding_pointers bindings of
                None \<Rightarrow> Inr None
              | Some specs \<Rightarrow>
                  if specs = [] then Inr None
                  else (let tid = fresh_tool_id (used_ids st) (''quick:'' @ unit_id st);
                            probe = exportSqlRowParamPointerTool tid (rq_table req) specs
                        in throws_bind (same_request h (resolveVerificationRequest h probe syn None) req)
                             (\<lambda>ok. Inr (if ok then Some (syn, specs) else None))))))"

definition mapping_failed_unit ::
  "host \<Rightarrow> source_action \<Rightarrow> action_bucket \<Rightarrow> row_plan \<Rightarrow> quick_state \<Rightarrow> js_error + quick_state" where
  "mapping_failed_unit h a b plan st =
     (let uid = unit_id st; codes = (if pn_reasonCodes plan = [] then [''MAPPING_FAILED''] else pn_reasonCodes plan);
          why = join '' '' (pn_rationale plan)
      in throws_bind (buildQuickUnitReconciliation h (sa_toolName a) (sa_actionIndex a) (sa_flat a)
             (Fin (pn_confidence plan)) RowMappingFailed) (\<lambda>rec. Inr
           (pushUnit
             \<lparr>qr_unitId = uid, qr_kind = UnitRow, qr_verdict = UnitUncertain, qr_confidence = Fin (pn_confidence plan),
              qr_reasonCodes = codes, qr_toolName = sa_toolName a, qr_actionIndex = sa_actionIndex a,
              qr_contractEligible = False, qr_table = bk_tableName b, qr_rationale = pn_rationale plan,
              qr_alternates = pn_alternates plan, qr_verification = [],
              qr_explanation = (if why = [] then ''Could not map row unit.'' else why), qr_reconciliation = rec,
              qr_correctnessDefinition = Some (buildQuickUnitCorrectnessDefinition h
                (quick_unit_of a uid (QuickRow None) (bk_tableName b) codes))\<rparr> st)))"

definition legacy_export ::
  "host \<Rightarrow> 'w quick_db \<Rightarrow> source_action \<Rightarrow> action_bucket \<Rightarrow> row_request \<Rightarrow> string \<Rightarrow> quick_state
     \<Rightarrow> ('w, quick_state) io" where
  "legacy_export h qd a b req tid st =
     io_bind (ct_listColumns (qd_catalog qd) (bk_tableName b)) (\<lambda>cols.
       let exported = augmentExportVerificationRequest req (bk_flat b) (js_sort compareUtf16Id cols)
             (map ip_column (rq_identityEq req))
       in io_bind (io_lift (buildSyntheticRowParams h (sa_params a) (sorted_fields (rq_requiredFields exported))))
            (\<lambda>syn. io_return (pushTool (exportSqlRowTool tid exported) (RowExport tid exported (Some syn)) st)))"

definition export_row ::
  "host \<Rightarrow> 'w quick_db \<Rightarrow> source_action \<Rightarrow> action_bucket \<Rightarrow> row_plan \<Rightarrow> row_request
     \<Rightarrow> (jsval \<times> (string \<times> string) list) option \<Rightarrow> quick_state \<Rightarrow> ('w, quick_state) io" where
  "export_row h qd a b plan req pointers st =
     (let tid = fresh_tool_id (used_ids st) (''quick:'' @ unit_id st)
      in if T_EXPORT \<le> pn_confidence plan then legacy_export h qd a b req tid st
         else (case pointers of
             None \<Rightarrow> io_return st
           | Some (syn, specs) \<Rightarrow> io_return
               (pushTool (exportSqlRowParamPointerTool tid (rq_table req) specs) (RowExport tid req (Some syn)) st)))"

definition row_input :: "row_request \<Rightarrow> verify_outcome \<Rightarrow> quick_unit_input" where
  "row_input req out =
     (if vo_verdict out = UnitVerified then RowVerified (rq_table req) req (vo_verification out)
      else RowFailOrUncertain (rq_table req) req (vo_verification out) (vo_verdict out) (vo_reasonCodes out))"

definition checked_row_unit ::
  "host \<Rightarrow> source_action \<Rightarrow> row_plan \<Rightarrow> row_request \<Rightarrow> verify_outcome \<Rightarrow> bool \<Rightarrow> string
     \<Rightarrow> js_error + quick_unit_report" where
  "checked_row_unit h a plan req out exported uid =
     throws_bind (buildQuickUnitReconciliation h (sa_toolName a) (sa_actionIndex a) (sa_flat a)
         (Fin (pn_confidence plan)) (row_input req out)) (\<lambda>rec. Inr
       \<lparr>qr_unitId = uid, qr_kind = UnitRow, qr_verdict = vo_verdict out, qr_confidence = Fin (pn_confidence plan),
        qr_reasonCodes = vo_reasonCodes out, qr_toolName = sa_toolName a, qr_actionIndex = sa_actionIndex a,
        qr_contractEligible = exported, qr_table = rq_table req, qr_rationale = pn_rationale plan,
        qr_alternates = None, qr_verification = vo_verification out, qr_explanation = vo_explanation out,
        qr_reconciliation = rec,
        qr_correctnessDefinition =
          (if vo_verdict out = UnitVerified then None
           else Some (buildQuickUnitCorrectnessDefinition h
             (quick_unit_of a uid (QuickRow (Some req)) (rq_table req) (vo_reasonCodes out))))\<rparr>)"

definition row_unit_step ::
  "host \<Rightarrow> 'w quick_db \<Rightarrow> string list \<Rightarrow> source_action \<Rightarrow> action_bucket \<Rightarrow> quick_state \<Rightarrow> ('w, quick_state) io" where
  "row_unit_step h qd tables a b st =
     io_bind (planRowUnit h (qd_catalog qd) b tables) (\<lambda>plan.
       case pn_request plan of
         None \<Rightarrow> io_lift (mapping_failed_unit h a b plan st)
       | Some req \<Rightarrow>
           io_bind (qd_verifyRow qd req) (\<lambda>out.
           io_bind (io_lift (pointer_export h st a plan req out)) (\<lambda>pointers.
           io_bind (export_row h qd a b plan req pointers st) (\<lambda>st1.
           io_bind (io_lift (checked_row_unit h a plan req out
               (T_EXPORT \<le> pn_confidence plan \<or> pointers \<noteq> None) (unit_id st))) (\<lambda>u.
             io_return (pushUnit u st1))))))"

fun bucket_loop ::
  "host \<Rightarrow> 'w quick_db \<Rightarrow> string list \<Rightarrow> source_action \<Rightarrow> action_bucket list \<Rightarrow> quick_state
     \<Rightarrow> ('w, quick_state) io" where
  "bucket_loop h qd tables a [] st = io_return st"
| "bucket_loop h qd tables a (b # bs) st =
     (if MAX_UNITS \<le> length (qs_units st) then io_return st
      else io_bind (row_unit_step h qd tables a b st) (\<lambda>st1. bucket_loop h qd tables a bs st1))"

section \<open>Referred rows\<close>

definition REL_CONFIDENCE :: rat where
  "REL_CONFIDENCE = fl (8 / 10)"

definition related_key :: "related_exists_check \<Rightarrow> string" where
  "related_key c = rx_childTable c @ [CHR 0x00] @ join '','' (map ip_column (rx_matchEq c))"

definition related_base :: "related_exists_check \<Rightarrow> string" where
  "related_base c = ''quick:rel:'' @ rx_id c"

text \<open>
  The entry under a name that is free; it is resolved under each name that is tried, and there is
  none when it does not resolve.
\<close>

fun related_tool :: "nat \<Rightarrow> host \<Rightarrow> related_exists_check \<Rightarrow> string list \<Rightarrow> nat \<Rightarrow> string \<Rightarrow> js_error + string option" where
  "related_tool rounds h c used n tid =
     (case resolveVerificationRequest h (exportSqlRelationalRelatedExistsTool tid c) (VObj []) None of
        RThrow e \<Rightarrow> Inl e
      | RFail code m \<Rightarrow> Inr None
      | ROk v \<Rightarrow> (case rounds of
            0 \<Rightarrow> Inr (Some tid)
          | Suc rounds' \<Rightarrow>
              if tid \<in> set used
              then related_tool rounds' h c used (Suc n) (suffixed (related_base c) n)
              else Inr (Some tid)))"

declare related_tool.simps [simp del]

definition export_related ::
  "host \<Rightarrow> related_exists_check \<Rightarrow> verify_outcome \<Rightarrow> quick_state \<Rightarrow> js_error + (bool \<times> quick_state)" where
  "export_related h c out st =
     (if vo_verdict out = UnitVerified \<and> T_EXPORT \<le> REL_CONFIDENCE
      then throws_bind (related_tool (length (used_ids st)) h c (used_ids st) 1 (related_base c)) (\<lambda>tid.
          Inr (case tid of
            None \<Rightarrow> (False, st)
          | Some i \<Rightarrow> (True, pushTool (exportSqlRelationalRelatedExistsTool i c) (RelatedExport i) st)))
      else Inr (False, st))"

definition related_unit ::
  "host \<Rightarrow> source_action \<Rightarrow> related_exists_check \<Rightarrow> verify_outcome \<Rightarrow> bool \<Rightarrow> string
     \<Rightarrow> js_error + quick_unit_report" where
  "related_unit h a c out exported uid =
     throws_bind (buildQuickUnitReconciliation h (sa_toolName a) (sa_actionIndex a) (sa_flat a)
         (Fin REL_CONFIDENCE) (RelatedExistsInput c (vo_verdict out) (vo_reasonCodes out))) (\<lambda>rec. Inr
       \<lparr>qr_unitId = uid, qr_kind = UnitRelatedExists, qr_verdict = vo_verdict out, qr_confidence = Fin REL_CONFIDENCE,
        qr_reasonCodes = vo_reasonCodes out, qr_toolName = sa_toolName a, qr_actionIndex = sa_actionIndex a,
        qr_contractEligible = exported, qr_table = rx_childTable c, qr_rationale = [''FK '' @ rx_id c],
        qr_alternates = None, qr_verification = vo_verification out, qr_explanation = vo_explanation out,
        qr_reconciliation = rec,
        qr_correctnessDefinition =
          (if vo_verdict out = UnitVerified then None
           else Some (buildQuickUnitCorrectnessDefinition h
             (quick_unit_of a uid (QuickRelatedExists c) (rx_childTable c) (vo_reasonCodes out))))\<rparr>)"

definition related_unit_step ::
  "host \<Rightarrow> 'w quick_db \<Rightarrow> source_action \<Rightarrow> related_exists_check \<Rightarrow> quick_state \<Rightarrow> ('w, quick_state) io" where
  "related_unit_step h qd a c st0 =
     (let st = st0\<lparr>qs_relationalSeen := related_key c # qs_relationalSeen st0\<rparr>
      in io_bind (qd_verifyRelated qd c) (\<lambda>out.
         io_bind (io_lift (export_related h c out st)) (\<lambda>(exported, st1).
         io_bind (io_lift (related_unit h a c out exported (unit_id st))) (\<lambda>u.
           io_return (pushUnit u st1)))))"

fun related_loop ::
  "host \<Rightarrow> 'w quick_db \<Rightarrow> source_action \<Rightarrow> related_exists_check list \<Rightarrow> quick_state \<Rightarrow> ('w, quick_state) io" where
  "related_loop h qd a [] st = io_return st"
| "related_loop h qd a (c # cs) st =
     (if MAX_UNITS \<le> length (qs_units st) then io_return st
      else if related_key c \<in> set (qs_relationalSeen st) then related_loop h qd a cs st
      else io_bind (related_unit_step h qd a c st) (\<lambda>st1. related_loop h qd a cs st1))"

section \<open>All actions\<close>

fun action_loop ::
  "host \<Rightarrow> 'w quick_db \<Rightarrow> string list \<Rightarrow> fk_edge list \<Rightarrow> nat \<Rightarrow> unique_action list \<Rightarrow> quick_state
     \<Rightarrow> ('w, quick_state) io" where
  "action_loop h qd tables edges i [] st = io_return st"
| "action_loop h qd tables edges i (ua # uas) st =
     (let a = \<lparr>sa_toolName = ua_toolName ua, sa_actionIndex = i, sa_flat = ua_flat ua, sa_params = ua_params ua\<rparr>
      in io_bind (bucket_loop h qd tables a (bucketsForAction (ua_toolName ua) (ua_flat ua) tables) st) (\<lambda>st1.
         io_bind (related_loop h qd a (planRelationalFromFlat h (ua_flat ua) edges) st1) (\<lambda>st2.
           action_loop h qd tables edges (Suc i) uas st2)))"

section \<open>The report\<close>

record quick_report =
  qk_base :: quick_base
  qk_scope :: quick_scope
  qk_productTruth :: product_truth
  qk_evidenceCompleteness :: evidence_completeness
  qk_tools :: "registry_entry list"

record quick_result =
  qt_report :: quick_report
  qt_registryUtf8 :: string
  qt_contractExports :: "quick_export list"

definition QUICK_VERIFY_DECISION_WORKFLOW_ID :: string where
  "QUICK_VERIFY_DECISION_WORKFLOW_ID = ''quick_verify''"

text \<open>The decision does not read the evidence that stands in for the one it leads to.\<close>

definition quick_report_of :: "host \<Rightarrow> quick_base \<Rightarrow> registry_entry list \<Rightarrow> quick_export list \<Rightarrow> js_error + quick_result" where
  "quick_report_of h base tools exports =
     throws_bind (deriveRemediationDecisionFromQuickReport h base QUICK_VERIFY_DECISION_WORKFLOW_ID) (\<lambda>d.
     throws_bind (canonicalToolsArrayUtf8 h tools) (\<lambda>utf8. Inr
       \<lparr>qt_report = \<lparr>qk_base = base, qk_scope = DEFAULT_QUICK_VERIFY_SCOPE,
          qk_productTruth = buildQuickVerifyProductTruth (qv_contractReplayPartialCoverage base),
          qk_evidenceCompleteness = buildEvidenceCompletenessFromQuickReport base d, qk_tools = tools\<rparr>,
        qt_registryUtf8 = utf8, qt_contractExports = exports\<rparr>))"

definition too_large_base :: "ingest_result \<Rightarrow> quick_base" where
  "too_large_base ig =
     \<lparr>qv_verdict = QuickUncertain, qv_summary = buildQuickSummary QuickUncertain [] (ig_reasonCodes ig),
      qv_ingestReasonCodes = ig_reasonCodes ig, qv_malformedLineCount = ig_malformedLineCount ig,
      qv_ingestWarnings = None, qv_runHeaderReasonCodes = None, qv_contractReplayPartialCoverage = False,
      qv_units = []\<rparr>"

definition unless_empty :: "'a list \<Rightarrow> 'a list option" where
  "unless_empty xs = (if xs = [] then None else Some xs)"

definition final_base :: "ingest_result \<Rightarrow> string list \<Rightarrow> quick_state \<Rightarrow> quick_base" where
  "final_base ig warnings st =
     (let v = rollupVerdict (qs_units st) (ig_reasonCodes ig) (ig_actions ig \<noteq> [])
      in \<lparr>qv_verdict = v, qv_summary = buildQuickSummary v (qs_units st) (ig_reasonCodes ig),
          qv_ingestReasonCodes = ig_reasonCodes ig, qv_malformedLineCount = ig_malformedLineCount ig,
          qv_ingestWarnings = unless_empty warnings, qv_runHeaderReasonCodes = unless_empty (qs_headerCodes st),
          qv_contractReplayPartialCoverage =
            (qs_tools st \<noteq> [] \<and> (\<exists>u \<in> set (qs_units st). \<not> qr_contractEligible u)),
          qv_units = qs_units st\<rparr>)"

definition quick_run_on ::
  "host \<Rightarrow> ingest_result \<Rightarrow> string list \<Rightarrow> unique_action list \<Rightarrow> 'w quick_db \<Rightarrow> ('w, quick_result) io" where
  "quick_run_on h ig warnings unique qd =
     io_bind (ct_listTables (qd_catalog qd)) (\<lambda>tables.
     io_bind (ct_listFkEdges (qd_catalog qd)) (\<lambda>edges.
     io_bind (action_loop h qd tables edges 0 unique initial_quick_state) (\<lambda>st.
       io_lift (quick_report_of h (final_base ig warnings st) (sort_tools (qs_tools st)) (sort_exports (qs_exports st))))))"

text \<open>\<open>try { m } finally { try { close } catch {} }\<close>.\<close>

definition io_closing :: "('w, 'a) io \<Rightarrow> ('w, unit) io \<Rightarrow> ('w, 'a) io" where
  "io_closing m c = (\<lambda>w. case m w of (r, w1) \<Rightarrow> (r, snd (c w1)))"

record quick_options =
  qo_inputUtf8 :: string
  qo_postgresUrl :: "string option"
  qo_sqlitePath :: "string option"

text \<open>A location that is the empty text counts as none.\<close>

definition location :: "string option \<Rightarrow> string option" where
  "location s = (case s of Some (c # cs) \<Rightarrow> Some (c # cs) | _ \<Rightarrow> None)"

definition with_quick_db ::
  "host \<Rightarrow> 'w runtime \<Rightarrow> quick_options \<Rightarrow> ('w quick_db \<Rightarrow> ('w, 'a) io) \<Rightarrow> ('w, 'a) io" where
  "with_quick_db h rt opts body =
     (case location (qo_postgresUrl opts) of
        Some url \<Rightarrow> io_bind (connectPostgresVerificationClient (rt_drivers rt) url) (\<lambda>c.
          io_closing (body (postgres_quick_db h (cl_query c))) (cl_end c))
      | None \<Rightarrow>
          (case location (qo_sqlitePath opts) of
             Some path \<Rightarrow> io_bind (rt_openSqlite rt path) (\<lambda>db.
               io_closing (body (sqlite_quick_db h db)) (rt_closeSqlite rt db))
           | None \<Rightarrow> io_throw (JsError ''runQuickVerify: postgresUrl or sqlitePath required'')))"

definition runQuickVerify :: "host \<Rightarrow> 'w runtime \<Rightarrow> quick_options \<Rightarrow> ('w, quick_result) io" where
  "runQuickVerify h rt opts =
     (let ig = ingestActivityUtf8 h (qo_inputUtf8 opts)
      in if ig_inputTooLarge ig then io_lift (quick_report_of h (too_large_base ig) [] [])
         else io_bind (io_lift (dedupeActions h (ig_actions ig))) (\<lambda>(unique, warnings).
           with_quick_db h rt opts (quick_run_on h ig warnings unique)))"

text \<open>\<open>errors\<close>: the validation of a report against its schema, with the errors' text.\<close>

definition runQuickVerifyToValidatedReport ::
  "host \<Rightarrow> 'w runtime \<Rightarrow> (quick_report \<Rightarrow> string option) \<Rightarrow> quick_options \<Rightarrow> ('w, quick_result) io" where
  "runQuickVerifyToValidatedReport h rt errors opts =
     io_bind (runQuickVerify h rt opts) (\<lambda>out.
       case errors (qt_report out) of
         None \<Rightarrow> io_return out
       | Some t \<Rightarrow> io_throw (TruthLayerError ''WORKFLOW_RESULT_SCHEMA_INVALID'' t))"

end
