(* ===== verification/QuickProperties.thy ===== *)
theory QuickProperties
  imports QuickRun ResolveProperties
begin

text \<open>
  What holds of quick verification: what the reader of captured activity returns, the state of a
  run after every step and the registry a run exports.
\<close>

section \<open>Reading activity\<close>

definition ctx_ok :: "ingest_context \<Rightarrow> bool" where
  "ctx_ok ctx \<longleftrightarrow> length (ic_actions ctx) \<le> MAX_ACTIONS
     \<and> filter (\<lambda>c. c \<noteq> ''MALFORMED_LINE'') (ic_reasonCodes ctx) \<in> {[], [''INGEST_ACTION_CAP'']}"

lemma at_most_one: "xs \<in> {[], [c]} \<Longrightarrow> c \<notin> set xs \<Longrightarrow> xs = []" "xs \<in> {[], [c]} \<Longrightarrow> set xs \<subseteq> {c}"
  by auto

lemma ctx_ok_create: "ctx_ok createIngestContext"
  by (simp add: ctx_ok_def createIngestContext_def)

lemma ctx_ok_push: "ctx_ok ctx \<Longrightarrow> ctx_ok (pushAction ctx a)"
proof -
  assume ok: "ctx_ok ctx"
  show ?thesis
  proof (cases "MAX_ACTIONS \<le> length (ic_actions ctx) \<and> ''INGEST_ACTION_CAP'' \<notin> set (ic_reasonCodes ctx)")
    case True
    then have "''INGEST_ACTION_CAP'' \<notin> set (filter (\<lambda>c. c \<noteq> ''MALFORMED_LINE'') (ic_reasonCodes ctx))" by simp
    with ok have "filter (\<lambda>c. c \<noteq> ''MALFORMED_LINE'') (ic_reasonCodes ctx) = []"
      unfolding ctx_ok_def by (blast intro: at_most_one(1))
    with True ok show ?thesis by (simp add: ctx_ok_def pushAction_def)
  next
    case False
    with ok show ?thesis by (auto simp: ctx_ok_def pushAction_def)
  qed
qed

lemma fold_keeps: "(\<And>x acc. x \<in> set xs \<Longrightarrow> P acc \<Longrightarrow> P (f x acc)) \<Longrightarrow> P acc \<Longrightarrow> P (fold f xs acc)"
  by (induction xs arbitrary: acc) auto

lemma ctx_ok_own: "ctx_ok ctx \<Longrightarrow> ctx_ok (push_own_action h v ctx)"
  by (simp add: push_own_action_def ctx_ok_push split: option.split)

lemma ctx_ok_extract: "ctx_ok ctx \<Longrightarrow> ctx_ok (extractActions h v ctx)"
proof (induction h v ctx rule: extractActions.induct)
  case (1 h xs ctx)
  then show ?case by (auto intro: fold_keeps)
next
  case (2 h kvs ctx)
  have "ctx_ok (case map_of kvs ''tool_calls'' of Some (VArr calls) \<Rightarrow> fold (extractActions h) calls ctx | _ \<Rightarrow> ctx)"
    using 2 by (auto split: option.split jsval.split intro: fold_keeps)
  then show ?case by (simp add: ctx_ok_own)
qed simp_all

lemma ctx_ok_line: "ctx_ok ctx \<Longrightarrow> ctx_ok (ingest_line h line ctx)"
  by (auto simp: ingest_line_def ctx_ok_extract split: option.split) (simp add: ctx_ok_def)

lemma ctx_ok_contexts:
  "ctx_ok (document_context h s)" "ctx_ok (lines_context h s)" "embedded_context h s = Some c \<Longrightarrow> ctx_ok c"
proof -
  show doc: "ctx_ok (document_context h s)" for s
    by (simp add: document_context_def ctx_ok_create ctx_ok_extract split: option.split)
  show "ctx_ok (lines_context h s)"
    unfolding lines_context_def by (rule fold_keeps) (auto intro: ctx_ok_line ctx_ok_create)
  show "embedded_context h s = Some c \<Longrightarrow> ctx_ok c"
    by (auto simp: embedded_context_def find_Some_iff doc)
qed

text \<open>A document's context never counts a line.\<close>

definition no_lines :: "ingest_context \<Rightarrow> bool" where
  "no_lines ctx \<longleftrightarrow> ''MALFORMED_LINE'' \<notin> set (ic_reasonCodes ctx) \<and> ic_malformedLineCount ctx = 0"

lemma no_lines_push: "no_lines ctx \<Longrightarrow> no_lines (pushAction ctx a)"
  by (simp add: no_lines_def pushAction_def)

lemma no_lines_extract: "no_lines ctx \<Longrightarrow> no_lines (extractActions h v ctx)"
proof (induction h v ctx rule: extractActions.induct)
  case (1 h xs ctx)
  then show ?case by (auto intro: fold_keeps)
next
  case (2 h kvs ctx)
  have "no_lines (case map_of kvs ''tool_calls'' of Some (VArr calls) \<Rightarrow> fold (extractActions h) calls ctx | _ \<Rightarrow> ctx)"
    using 2 by (auto split: option.split jsval.split intro: fold_keeps)
  then show ?case by (simp add: push_own_action_def no_lines_push split: option.split)
qed simp_all

lemma no_lines_document: "no_lines (document_context h s)"
proof -
  have "no_lines createIngestContext" by (simp add: no_lines_def createIngestContext_def)
  then show ?thesis by (simp add: document_context_def no_lines_extract split: option.split)
qed

lemma embedded_contextD:
  assumes "embedded_context h s = Some c"
  shows "ic_actions c \<noteq> []" and "no_lines c" and "ctx_ok c"
  using assms no_lines_document ctx_ok_contexts(3) [OF assms]
  by (auto simp: embedded_context_def find_Some_iff)

text \<open>
  Activity that is not too large: either there are actions, at most fifty, with no code for
  malformed lines and at most the code for too many actions, or there are none, and the codes say
  that the input was blank or that nothing in it was a tool call, after one code for each
  malformed line.
\<close>

lemma stripped_codes: "ctx_ok ctx \<Longrightarrow> set (stripMalformedFromReasonCodes (ic_reasonCodes ctx)) \<subseteq> {''INGEST_ACTION_CAP''}"
  unfolding ctx_ok_def stripMalformedFromReasonCodes_def by (rule at_most_one(2)) (erule conjunct2)

lemma unstripped_codes:
  assumes "ctx_ok ctx" and "no_lines ctx"
  shows "set (ic_reasonCodes ctx) \<subseteq> {''INGEST_ACTION_CAP''}"
proof -
  have "filter (\<lambda>c. c \<noteq> ''MALFORMED_LINE'') (ic_reasonCodes ctx) = ic_reasonCodes ctx"
    using assms(2) by (auto simp: no_lines_def filter_id_conv)
  with stripped_codes [OF assms(1)] show ?thesis by (simp add: stripMalformedFromReasonCodes_def)
qed

definition ingest_ok :: "ingest_result \<Rightarrow> bool" where
  "ingest_ok ig \<longleftrightarrow>
     (if ig_actions ig \<noteq> []
      then length (ig_actions ig) \<le> 50 \<and> set (ig_reasonCodes ig) \<subseteq> {''INGEST_ACTION_CAP''} \<and> \<not> ig_inputTooLarge ig
      else if ig_inputTooLarge ig then ig_reasonCodes ig = [''INGEST_INPUT_TOO_LARGE'']
      else ig_reasonCodes ig = [''INGEST_NO_ACTIONS'']
        \<or> ig_reasonCodes ig = replicate (ig_malformedLineCount ig) ''MALFORMED_LINE''
            @ [''INGEST_NO_STRUCTURED_TOOL_ACTIVITY''])"

lemma ingestActivity_ok: "ingest_ok (ingestActivityUtf8 h s)"
proof -
  let ?buf = "stripAnsiCsi s"
  let ?doc = "document_context h ?buf" and ?lines = "lines_context h ?buf"
  note ok = ctx_ok_contexts(1) [of h ?buf] ctx_ok_contexts(2) [of h ?buf]
  consider "MAX_INPUT_BYTES < utf8_length s" | "\<not> MAX_INPUT_BYTES < utf8_length s" "js_trim ?buf = []"
    | "\<not> MAX_INPUT_BYTES < utf8_length s" "js_trim ?buf \<noteq> []" "ic_actions ?doc \<noteq> []"
    | "\<not> MAX_INPUT_BYTES < utf8_length s" "js_trim ?buf \<noteq> []" "ic_actions ?doc = []" "ic_actions ?lines \<noteq> []"
    | "\<not> MAX_INPUT_BYTES < utf8_length s" "js_trim ?buf \<noteq> []" "ic_actions ?doc = []" "ic_actions ?lines = []"
    by blast
  then show ?thesis
  proof cases
    case 3
    then show ?thesis using ok(1) unstripped_codes [OF ok(1) no_lines_document]
      by (simp add: ingestActivityUtf8_def ingest_ok_def mk_ingest_def Let_def ctx_ok_def MAX_ACTIONS_def)
  next
    case 4
    then show ?thesis using ok(2) stripped_codes [OF ok(2)]
      by (simp add: ingestActivityUtf8_def ingest_ok_def mk_ingest_def Let_def ctx_ok_def MAX_ACTIONS_def)
  next
    case 5
    show ?thesis
    proof (cases "embedded_context h ?buf")
      case None
      with 5 show ?thesis by (simp add: ingestActivityUtf8_def ingest_ok_def mk_ingest_def Let_def)
    next
      case (Some c)
      then show ?thesis
        using 5 embedded_contextD [OF Some] stripped_codes [OF ok(2)] unstripped_codes [of c]
        by (simp add: ingestActivityUtf8_def ingest_ok_def mk_ingest_def Let_def ctx_ok_def MAX_ACTIONS_def)
    qed
  qed (simp_all add: ingestActivityUtf8_def ingest_ok_def mk_ingest_def Let_def)
qed

section \<open>Free names\<close>

lemma suffixed_inj: "suffixed base n = suffixed base m \<longleftrightarrow> n = m"
  by (auto simp: suffixed_def dest: nat_str_inj)

text \<open>A search that ends at a used name has seen as many used names as it had rounds.\<close>

lemma free_id_used:
  "free_id rounds used base n tid \<in> set used \<Longrightarrow> insert tid (suffixed base ` {n..<n + rounds}) \<subseteq> set used"
proof (induction rounds arbitrary: n tid)
  case (Suc rounds)
  then have tid: "tid \<in> set used" and rec: "free_id rounds used base (Suc n) (suffixed base n) \<in> set used"
    by (auto split: if_splits)
  have "{n..<n + Suc rounds} = insert n {Suc n..<Suc n + rounds}" by auto
  with Suc.IH [OF rec] tid show ?case by simp
qed simp

lemma fresh_tool_id_fresh: "fresh_tool_id used base \<notin> set used"
proof
  assume "fresh_tool_id used base \<in> set used"
  then have sub: "insert base (suffixed base ` {1..<1 + length used}) \<subseteq> set used"
    unfolding fresh_tool_id_def by (rule free_id_used)
  have "base \<notin> suffixed base ` {1..<1 + length used}" by (auto simp: suffixed_def)
  moreover have "card (suffixed base ` {1..<1 + length used}) = length used"
    by (subst card_image) (auto simp: inj_on_def suffixed_inj)
  ultimately have "card (insert base (suffixed base ` {1..<1 + length used})) = Suc (length used)" by simp
  with card_mono [OF _ sub] card_length [of used] show False by simp
qed

lemma related_tool_used:
  "related_tool rounds h c used n tid = Inr (Some i) \<Longrightarrow> i \<in> set used
     \<Longrightarrow> insert tid (suffixed (related_base c) ` {n..<n + rounds}) \<subseteq> set used"
proof (induction rounds arbitrary: n tid)
  case 0
  then show ?case using related_tool.simps [of 0 h c used n tid] by (auto split: resolve.splits)
next
  case (Suc rounds)
  then have tid: "tid \<in> set used" and rec: "related_tool rounds h c used (Suc n) (suffixed (related_base c) n) = Inr (Some i)"
    using related_tool.simps [of "Suc rounds" h c used n tid] by (auto split: resolve.splits if_splits)
  have "{n..<n + Suc rounds} = insert n {Suc n..<Suc n + rounds}" by auto
  with Suc.IH [OF rec Suc.prems(2)] tid show ?case by simp
qed

lemma related_tool_fresh:
  assumes "related_tool (length used) h c used 1 (related_base c) = Inr (Some i)"
  shows "i \<notin> set used"
proof
  let ?base = "related_base c"
  assume "i \<in> set used"
  then have sub: "insert ?base (suffixed ?base ` {1..<1 + length used}) \<subseteq> set used"
    by (rule related_tool_used [OF assms])
  have "?base \<notin> suffixed ?base ` {1..<1 + length used}" by (auto simp: suffixed_def)
  moreover have "card (suffixed ?base ` {1..<1 + length used}) = length used"
    by (subst card_image) (auto simp: inj_on_def suffixed_inj)
  ultimately have "card (insert ?base (suffixed ?base ` {1..<1 + length used})) = Suc (length used)" by simp
  with card_mono [OF _ sub] card_length [of used] show False by simp
qed

section \<open>The state of a run\<close>

text \<open>
  After every step: at most twenty units, numbered in order, each with a definition of what is to
  be made correct unless it is verified; no code in the header; one registry entry, under a name of
  its own and with an event to replay it, for each unit that says it can be replayed.
\<close>

definition unit_ok :: "quick_unit_report \<Rightarrow> bool" where
  "unit_ok u \<longleftrightarrow> (qr_verdict u = UnitVerified \<longleftrightarrow> qr_correctnessDefinition u = None)"

text \<open>An entry that has a JSON text.\<close>

definition exportable :: "registry_entry \<Rightarrow> bool" where
  "exportable t \<longleftrightarrow> tool_val t \<noteq> None"

definition quick_ok :: "quick_state \<Rightarrow> bool" where
  "quick_ok st \<longleftrightarrow> length (qs_units st) \<le> 20
     \<and> map qr_unitId (qs_units st) = map (\<lambda>i. ''u'' @ nat_str i) [0..<length (qs_units st)]
     \<and> list_all unit_ok (qs_units st) \<and> qs_headerCodes st = []
     \<and> distinct (used_ids st) \<and> map qe_toolId (qs_exports st) = used_ids st
     \<and> length (qs_tools st) = length (filter qr_contractEligible (qs_units st))
     \<and> list_all exportable (qs_tools st)"

lemma quick_ok_initial: "quick_ok initial_quick_state"
  by (simp add: quick_ok_def initial_quick_state_def used_ids_def)

text \<open>The state after the entry of a unit was added and before the unit itself is.\<close>

definition grown :: "quick_state \<Rightarrow> bool \<Rightarrow> quick_state \<Rightarrow> bool" where
  "grown st exported st1 \<longleftrightarrow> qs_units st1 = qs_units st \<and> qs_headerCodes st1 = qs_headerCodes st
     \<and> (if exported then \<exists>t x. qs_tools st1 = qs_tools st @ [t] \<and> qs_exports st1 = qs_exports st @ [x]
            \<and> re_toolId t \<notin> set (used_ids st) \<and> qe_toolId x = re_toolId t \<and> exportable t
        else qs_tools st1 = qs_tools st \<and> qs_exports st1 = qs_exports st)"

lemma grown_pushTool:
  "re_toolId t \<notin> set (used_ids st) \<Longrightarrow> qe_toolId x = re_toolId t \<Longrightarrow> exportable t \<Longrightarrow> grown st True (pushTool t x st)"
  by (simp add: grown_def pushTool_def)

lemma grown_refl: "grown st False st"
  by (simp add: grown_def)

lemma quick_ok_push:
  assumes "quick_ok st" and "grown st (qr_contractEligible u) st1" and "length (qs_units st) < 20"
    and "qr_unitId u = unit_id st" and "unit_ok u"
  shows "quick_ok (pushUnit u st1)"
  using assms
  by (auto simp: quick_ok_def grown_def pushUnit_def MAX_UNITS_def unit_id_def used_ids_def split: if_splits)

lemma exportable_tools [simp]:
  "exportable (exportSqlRowTool i req)" "exportable (exportSqlRowParamPointerTool i t ps)"
  "exportable (exportSqlRelationalRelatedExistsTool i c)"
  by (simp_all add: exportable_def tool_val_def exportSqlRowTool_def exportSqlRowParamPointerTool_def
      quick_row_entry_def exportSqlRelationalRelatedExistsTool_def)

lemma tool_ids [simp]:
  "re_toolId (exportSqlRowTool i req) = i" "re_toolId (exportSqlRowParamPointerTool i t ps) = i"
  "re_toolId (exportSqlRelationalRelatedExistsTool i c) = i"
  by (simp_all add: exportSqlRowTool_def exportSqlRowParamPointerTool_def quick_row_entry_def
      exportSqlRelationalRelatedExistsTool_def)

text \<open>\<open>returns\<close> under the steps of the monad.\<close>

lemma returns_bindI: "returns P m \<Longrightarrow> (\<And>x. P x \<Longrightarrow> returns Q (f x)) \<Longrightarrow> returns Q (io_bind m f)"
  unfolding returns_def io_bind_Inr_iff by blast

lemma returns_lift_iff [simp]: "returns P (io_lift r) \<longleftrightarrow> (\<forall>x. r = Inr x \<longrightarrow> P x)"
  by (cases r) (auto simp: returns_def io_lift_def)

lemma grown_export_row:
  "returns (grown st (T_EXPORT \<le> pn_confidence plan \<or> ptr \<noteq> None)) (export_row h qd a b plan req ptr st)"
  using fresh_tool_id_fresh [of "used_ids st"]
  by (auto simp: export_row_def legacy_export_def Let_def grown_refl split: option.split
      intro!: returns_bind grown_pushTool)

lemma checked_row_unit_fields:
  "checked_row_unit h a plan req out exported uid = Inr u
     \<Longrightarrow> qr_unitId u = uid \<and> qr_contractEligible u = exported \<and> unit_ok u"
  by (clarsimp simp: checked_row_unit_def throws_bind_Inr_iff unit_ok_def)

lemma related_unit_fields:
  "related_unit h a c out exported uid = Inr u
     \<Longrightarrow> qr_unitId u = uid \<and> qr_contractEligible u = exported \<and> unit_ok u"
  by (clarsimp simp: related_unit_def throws_bind_Inr_iff unit_ok_def)

lemma quick_ok_mapping_failed:
  assumes "quick_ok st" and "length (qs_units st) < 20" and "mapping_failed_unit h a b plan st = Inr st1"
  shows "quick_ok st1"
  using assms(3)
  by (auto simp: mapping_failed_unit_def Let_def throws_bind_Inr_iff unit_ok_def grown_refl
      intro!: quick_ok_push [OF assms(1) _ assms(2)])

lemma quick_ok_checked:
  assumes "quick_ok st" and "length (qs_units st) < 20" and "grown st exported st1"
  shows "returns quick_ok (io_bind (io_lift (checked_row_unit h a plan req out exported (unit_id st)))
    (\<lambda>u. io_return (pushUnit u st1)))"
proof (rule returns_bindI [where P = "\<lambda>u. qr_unitId u = unit_id st \<and> qr_contractEligible u = exported \<and> unit_ok u"])
  show "returns (\<lambda>u. qr_unitId u = unit_id st \<and> qr_contractEligible u = exported \<and> unit_ok u)
      (io_lift (checked_row_unit h a plan req out exported (unit_id st)))"
    using checked_row_unit_fields [of h a plan req out exported "unit_id st"] by (simp del: split_paired_All)
  show "qr_unitId u = unit_id st \<and> qr_contractEligible u = exported \<and> unit_ok u
      \<Longrightarrow> returns quick_ok (io_return (pushUnit u st1))" for u
    using quick_ok_push [OF assms(1) _ assms(2), of u st1] assms(3) by simp
qed

lemma quick_ok_row_step:
  assumes "quick_ok st" and "length (qs_units st) < 20"
  shows "returns quick_ok (row_unit_step h qd tables a b st)"
  unfolding row_unit_step_def
proof (rule returns_bind)
  fix plan
  show "returns quick_ok (case pn_request plan of
         None \<Rightarrow> io_lift (mapping_failed_unit h a b plan st)
       | Some req \<Rightarrow>
           io_bind (qd_verifyRow qd req) (\<lambda>out.
           io_bind (io_lift (pointer_export h st a plan req out)) (\<lambda>pointers.
           io_bind (export_row h qd a b plan req pointers st) (\<lambda>st1.
           io_bind (io_lift (checked_row_unit h a plan req out
               (T_EXPORT \<le> pn_confidence plan \<or> pointers \<noteq> None) (unit_id st))) (\<lambda>u.
             io_return (pushUnit u st1))))))"
  proof (cases "pn_request plan")
    case None
    then show ?thesis using quick_ok_mapping_failed [OF assms] by simp
  next
    case (Some req)
    show ?thesis unfolding Some option.case
      by (intro returns_bind returns_bindI [OF grown_export_row] quick_ok_checked assms)
  qed
qed

lemma quick_ok_buckets: "quick_ok st \<Longrightarrow> returns quick_ok (bucket_loop h qd tables a bs st)"
  by (induction bs arbitrary: st) (auto simp: MAX_UNITS_def intro!: returns_bindI [OF quick_ok_row_step])

lemma grown_export_related:
  "export_related h c out st = Inr (exported, st1) \<Longrightarrow> grown st exported st1"
  using related_tool_fresh [of "used_ids st" h c]
  by (auto simp: export_related_def throws_bind_Inr_iff grown_refl split: if_splits option.splits
      intro!: grown_pushTool)

lemma quick_ok_related_unit:
  assumes "quick_ok st" and "length (qs_units st) < 20" and "grown st exported st1"
  shows "returns quick_ok (io_bind (io_lift (related_unit h a c out exported (unit_id st)))
    (\<lambda>u. io_return (pushUnit u st1)))"
proof (rule returns_bindI [where P = "\<lambda>u. qr_unitId u = unit_id st \<and> qr_contractEligible u = exported \<and> unit_ok u"])
  show "returns (\<lambda>u. qr_unitId u = unit_id st \<and> qr_contractEligible u = exported \<and> unit_ok u)
      (io_lift (related_unit h a c out exported (unit_id st)))"
    using related_unit_fields [of h a c out exported "unit_id st"] by simp
  show "qr_unitId u = unit_id st \<and> qr_contractEligible u = exported \<and> unit_ok u
      \<Longrightarrow> returns quick_ok (io_return (pushUnit u st1))" for u
    using quick_ok_push [OF assms(1) _ assms(2), of u st1] assms(3) by simp
qed

lemma quick_ok_related_step:
  assumes "quick_ok st0" and "length (qs_units st0) < 20"
  shows "returns quick_ok (related_unit_step h qd a c st0)"
proof -
  let ?st = "st0\<lparr>qs_relationalSeen := related_key c # qs_relationalSeen st0\<rparr>"
  have ok: "quick_ok ?st" "length (qs_units ?st) < 20"
    using assms by (simp_all add: quick_ok_def used_ids_def)
  have "returns quick_ok (io_bind (io_lift (export_related h c out ?st)) (\<lambda>(exported, st1).
      io_bind (io_lift (related_unit h a c out exported (unit_id ?st))) (\<lambda>u. io_return (pushUnit u st1))))" for out
  proof (rule returns_bindI [where P = "\<lambda>(exported, st1). grown ?st exported st1"])
    show "returns (\<lambda>(exported, st1). grown ?st exported st1) (io_lift (export_related h c out ?st))"
      using grown_export_related [of h c out ?st] by simp
    show "(case r of (exported, st1) \<Rightarrow> grown ?st exported st1) \<Longrightarrow> returns quick_ok (case r of (exported, st1) \<Rightarrow>
        io_bind (io_lift (related_unit h a c out exported (unit_id ?st))) (\<lambda>u. io_return (pushUnit u st1)))" for r
      using quick_ok_related_unit [OF ok, of "fst r" "snd r" h a c out] by (cases r) simp
  qed
  from returns_bind [OF this] show ?thesis
    unfolding related_unit_step_def Let_def .
qed

lemma quick_ok_related: "quick_ok st \<Longrightarrow> returns quick_ok (related_loop h qd a cs st)"
  by (induction cs arbitrary: st) (auto simp: MAX_UNITS_def intro!: returns_bindI [OF quick_ok_related_step])

lemma quick_ok_actions: "quick_ok st \<Longrightarrow> returns quick_ok (action_loop h qd tables edges i uas st)"
  by (induction uas arbitrary: i st)
    (auto simp: Let_def intro!: returns_bindI [OF quick_ok_buckets] returns_bindI [OF quick_ok_related])

section \<open>The run\<close>

lemma actions_from_initial:
  "returns (\<lambda>st. quick_ok st \<and> (uas = [] \<longrightarrow> qs_units st = [])) (action_loop h qd tables edges i uas initial_quick_state)"
proof (cases uas)
  case Nil
  then show ?thesis using quick_ok_initial by (simp add: initial_quick_state_def)
next
  case (Cons ua uas')
  then show ?thesis using quick_ok_actions [OF quick_ok_initial, of h qd tables edges i uas] by simp
qed

lemma returns_closing: "returns P m \<Longrightarrow> returns P (io_closing m c)"
  by (auto simp: returns_def io_closing_def split: prod.splits)

lemma returns_with_quick_db: "(\<And>qd. returns P (body qd)) \<Longrightarrow> returns P (with_quick_db h rt opts body)"
  unfolding with_quick_db_def by (auto split: option.split intro!: returns_bind returns_closing)

text \<open>A report of a state that the loops reach.\<close>

definition report_reached :: "host \<Rightarrow> ingest_result \<Rightarrow> quick_result \<Rightarrow> bool" where
  "report_reached h ig res \<longleftrightarrow>
     (\<exists>st warnings. quick_ok st \<and> (ig_actions ig = [] \<longrightarrow> qs_units st = []) \<and>
        quick_report_of h (final_base ig warnings st) (sort_tools (qs_tools st)) (sort_exports (qs_exports st)) = Inr res)"

lemma run_on_reached:
  assumes "ig_actions ig = [] \<longrightarrow> unique = []"
  shows "returns (report_reached h ig) (quick_run_on h ig warnings unique qd)"
proof -
  have "returns (report_reached h ig) (io_lift (quick_report_of h (final_base ig warnings st) (sort_tools (qs_tools st))
      (sort_exports (qs_exports st))))" if "quick_ok st \<and> (unique = [] \<longrightarrow> qs_units st = [])" for st
    using that assms unfolding report_reached_def returns_lift_iff by blast
  then show ?thesis
    unfolding quick_run_on_def by (intro returns_bind returns_bindI [OF actions_from_initial])
qed

lemma dedupe_nothing: "dedupeActions h actions = Inr (unique, warnings) \<Longrightarrow> actions = [] \<longrightarrow> unique = []"
  by (auto simp: dedupeActions_def)

text \<open>What a run returns: such a report, or that of an input that is too large.\<close>

lemma quick_run_shape:
  assumes "runQuickVerify h rt opts w = (Inr res, w')"
    and ig: "ig = ingestActivityUtf8 h (qo_inputUtf8 opts)"
  shows "(ig_inputTooLarge ig \<and> quick_report_of h (too_large_base ig) [] [] = Inr res)
     \<or> (\<not> ig_inputTooLarge ig \<and> report_reached h ig res)"
proof (cases "ig_inputTooLarge ig")
  case True
  with assms show ?thesis by (simp add: runQuickVerify_def Let_def io_lift_def split: sum.splits)
next
  case False
  have "returns (report_reached h ig) (runQuickVerify h rt opts)"
    unfolding runQuickVerify_def Let_def ig [symmetric] if_not_P [OF False]
  proof (rule returns_bindI [where P = "\<lambda>(unique, warnings). ig_actions ig = [] \<longrightarrow> unique = []"])
    show "returns (\<lambda>(unique, warnings). ig_actions ig = [] \<longrightarrow> unique = []) (io_lift (dedupeActions h (ig_actions ig)))"
      using dedupe_nothing [of h "ig_actions ig"] by (simp add: split_def) blast
    show "returns (report_reached h ig) (case r of (unique, warnings) \<Rightarrow>
        with_quick_db h rt opts (quick_run_on h ig warnings unique))"
      if "case r of (unique, warnings) \<Rightarrow> ig_actions ig = [] \<longrightarrow> unique = []" for r
      using that by (cases r) (simp add: returns_with_quick_db run_on_reached)
  qed
  with False assms(1) show ?thesis unfolding returns_def by blast
qed

lemma quick_report_of_fields:
  "quick_report_of h base tools exports = Inr res
     \<Longrightarrow> qk_base (qt_report res) = base \<and> qk_tools (qt_report res) = tools \<and> qt_contractExports res = exports"
  by (auto simp: quick_report_of_def throws_bind_Inr_iff)

lemma rollup_cases:
  assumes "quick_ok st" and "actions = [] \<longrightarrow> qs_units st = []"
  shows "(rollupVerdict (qs_units st) codes (actions \<noteq> []) = QuickPass \<longleftrightarrow> qs_units st \<noteq> []
        \<and> list_all (\<lambda>u. qr_verdict u = UnitVerified \<and> qr_correctnessDefinition u = None) (qs_units st))
    \<and> (rollupVerdict (qs_units st) codes (actions \<noteq> []) = QuickFail \<longleftrightarrow>
        list_ex (\<lambda>u. qr_verdict u = UnitFail) (qs_units st))"
proof -
  have "qr_verdict u = UnitVerified \<longleftrightarrow> qr_verdict u = UnitVerified \<and> qr_correctnessDefinition u = None"
    if "u \<in> set (qs_units st)" for u
    using assms(1) that by (auto simp: quick_ok_def unit_ok_def list_all_iff)
  then have "list_all (\<lambda>u. qr_verdict u = UnitVerified \<and> qr_correctnessDefinition u = None) (qs_units st)
      \<longleftrightarrow> (\<forall>u \<in> set (qs_units st). qr_verdict u = UnitVerified)"
    unfolding list_all_iff by blast
  with assms(2) show ?thesis by (cases "actions = []") (auto simp: rollupVerdict_def list_ex_iff)
qed

lemma sorted_tools:
  assumes "quick_ok st"
  shows "sorted_wrt (<) (map re_toolId (sort_tools (qs_tools st)))"
    and "map qe_toolId (sort_exports (qs_exports st)) = map re_toolId (sort_tools (qs_tools st))"
    and "\<exists>reg. buildRegistryMap (sort_tools (qs_tools st)) = Inr reg"
proof -
  have ids: "map re_toolId (sort_tools (qs_tools st)) = js_sort compareUtf16Id (used_ids st)"
    by (simp add: sort_tools_def map_js_sort used_ids_def)
  have "distinct (js_sort compareUtf16Id (used_ids st))" using assms by (simp add: quick_ok_def)
  moreover have "sorted_wrt (\<le>) (js_sort compareUtf16Id (used_ids st))"
    using utf16.sort_sorted [of "\<lambda>s. s" "used_ids st"] by (simp add: compareUtf16Id_le)
  ultimately show strict: "sorted_wrt (<) (map re_toolId (sort_tools (qs_tools st)))"
    unfolding ids by (simp add: strict_sorted_iff)
  show "map qe_toolId (sort_exports (qs_exports st)) = map re_toolId (sort_tools (qs_tools st))"
    using assms by (simp add: ids sort_exports_def map_js_sort quick_ok_def)
  from strict have "distinct (map re_toolId (sort_tools (qs_tools st)))" by (simp add: strict_sorted_iff)
  then show "\<exists>reg. buildRegistryMap (sort_tools (qs_tools st)) = Inr reg"
    unfolding buildRegistryMap_def by (intro registry_from_total) simp_all
qed

end
