(* ===== verification/QuickReadOnly.thy ===== *)
theory QuickReadOnly
  imports QuickRun ReadOnly
begin

text \<open>
  What quick verification does to the outside: it sends \<open>SELECT\<close> statements, the read-only guard
  and two pragmas on a quoted table, whatever the captured activity holds.
\<close>

section \<open>What a run does to the database\<close>

text \<open>The statements of quick verification: \<open>SELECT\<close>, and two pragmas on a quoted table.\<close>

definition quick_reads :: "string \<Rightarrow> bool" where
  "quick_reads t \<longleftrightarrow> starts_with ''SELECT'' t
     \<or> (\<exists>table. t = pragma ''table_info'' table \<or> t = pragma ''foreign_key_list'' table)"

definition quick_query_keeps :: "('w \<Rightarrow> bool) \<Rightarrow> 'w query \<Rightarrow> bool" where
  "quick_query_keeps I q \<longleftrightarrow> (\<forall>t vs. quick_reads t \<or> t = READ_ONLY_GUARD \<longrightarrow> keeps I (q t vs))"

definition quick_sqlite_keeps :: "('w \<Rightarrow> bool) \<Rightarrow> 'w sqlite_db \<Rightarrow> bool" where
  "quick_sqlite_keeps I db \<longleftrightarrow> (\<forall>t vs. quick_reads t \<longrightarrow> keeps I (db_all db t vs) \<and> keeps I (db_get db t vs))"

definition quick_runtime_keeps :: "('w \<Rightarrow> bool) \<Rightarrow> 'w runtime \<Rightarrow> bool" where
  "quick_runtime_keeps I rt \<longleftrightarrow>
     (\<forall>url. keeps I (cl_connect (dr_pgClient (rt_drivers rt) url)) \<and> keeps I (cl_end (dr_pgClient (rt_drivers rt) url))
        \<and> quick_query_keeps I (cl_query (dr_pgClient (rt_drivers rt) url)))
     \<and> (\<forall>path. keeps I (rt_openSqlite rt path)) \<and> (\<forall>db. keeps I (rt_closeSqlite rt db))
     \<and> (\<forall>path w db w'. rt_openSqlite rt path w = (Inr db, w') \<longrightarrow> quick_sqlite_keeps I db)"

lemma quick_reads_select: "is_select t \<Longrightarrow> quick_reads t"
proof -
  assume "is_select t"
  then have "take 7 t = ''SELECT ''" by (simp add: is_select_def starts_with_def numeral_eq_Suc)
  then have "take 6 (take 7 t) = ''SELECT''" by simp
  then show ?thesis by (simp add: quick_reads_def starts_with_def numeral_eq_Suc)
qed

lemma quick_reads_sql:
  "quick_reads SQLITE_TABLES_SQL" "quick_reads PG_TABLES_SQL" "quick_reads PG_COLUMNS_SQL"
  "quick_reads PG_PRIMARY_KEY_SQL" "quick_reads PG_UNIQUE_SQL" "quick_reads PG_FK_SQL"
  "quick_reads (pragma ''table_info'' t)" "quick_reads (pragma ''foreign_key_list'' t)"
  by (auto simp: quick_reads_def starts_with_def SQLITE_TABLES_SQL_def PG_TABLES_SQL_def PG_COLUMNS_SQL_def
      PG_PRIMARY_KEY_SQL_def PG_UNIQUE_SQL_def PG_FK_SQL_def)

definition quick_db_keeps :: "('w \<Rightarrow> bool) \<Rightarrow> 'w quick_db \<Rightarrow> bool" where
  "quick_db_keeps I qd \<longleftrightarrow> keeps I (ct_listTables (qd_catalog qd)) \<and> keeps I (ct_listFkEdges (qd_catalog qd))
     \<and> (\<forall>t. keeps I (ct_listColumns (qd_catalog qd) t)) \<and> (\<forall>t. keeps I (ct_primaryKeyColumns (qd_catalog qd) t))
     \<and> (\<forall>t. keeps I (ct_listUniqueConstraints (qd_catalog qd) t))
     \<and> (\<forall>r. keeps I (qd_verifyRow qd r)) \<and> (\<forall>c. keeps I (qd_verifyRelated qd c))"

lemma related_exists_reads: "buildRelationalScalarSql d (RelatedExists c) = Inr (t, vs) \<Longrightarrow> quick_reads t"
  by (rule quick_reads_select [OF is_select_relational])

lemma keeps_verifyRelated:
  assumes "\<And>t vs. quick_reads t \<Longrightarrow> keeps I (one t vs)"
  shows "keeps I (verifyRelatedExists d one c)"
proof -
  obtain t vs where sql: "buildRelationalScalarSql d (RelatedExists c) = Inr (t, vs)"
    by (cases "related_exists_sql d c") simp
  have "verifyRelatedExists d one c = io_catch (io_bind (one t vs) (\<lambda>r. io_return (exists_outcome (exists_scalar r))))
      (\<lambda>e. io_return (connector_outcome e))"
    unfolding verifyRelatedExists_def sql by (simp add: io_bind_def io_lift_def fun_eq_iff)
  then show ?thesis by (auto intro!: keeps_intros assms related_exists_reads [OF sql])
qed

lemma sqlite_quick_db_keeps:
  assumes "quick_sqlite_keeps I db"
  shows "quick_db_keeps I (sqlite_quick_db h db)"
proof -
  have all: "quick_reads t \<Longrightarrow> keeps I (db_all db t vs)" "quick_reads t \<Longrightarrow> keeps I (db_get db t vs)" for t vs
    using assms by (auto simp: quick_sqlite_keeps_def)
  have "keeps I (sqlite_tables h db)" and "keeps I (sqlite_edges_of h db t)" for t
    unfolding sqlite_tables_def sqlite_edges_of_def by (intro keeps_intros all quick_reads_sql)+
  moreover have "keeps I (verifyRowSqlite h db r)" for r
  proof -
    obtain t vs where sql: "buildSelectByIdentitySqlSqlite r = (t, vs)" by fastforce
    then have "quick_reads t"
      using is_select_texts(1) [of Sqlite r] by (auto simp: buildSelectByIdentitySqlSqlite_def intro: quick_reads_select)
    then show ?thesis
      unfolding verifyRowSqlite_def fetchRowsForVerification_def sql prod.case by (intro keeps_intros all)
  qed
  moreover have "keeps I (verifyRelatedExists Sqlite (db_get db) c)" for c
    by (rule keeps_verifyRelated) (rule all)
  ultimately show ?thesis
    by (auto simp: quick_db_keeps_def sqlite_quick_db_def sqliteSchemaCatalog_def
        intro!: keeps_intros all quick_reads_sql)
qed

lemma postgres_quick_db_keeps:
  assumes "quick_query_keeps I q"
  shows "quick_db_keeps I (postgres_quick_db h q)"
proof -
  have all: "quick_reads t \<Longrightarrow> keeps I (q t vs)" for t vs
    using assms by (auto simp: quick_query_keeps_def)
  have "keeps I (verifyRowPostgres h q r)" for r
  proof -
    obtain t vs where sql: "buildSelectByIdentitySqlPostgres r = (t, vs)" by fastforce
    then have "quick_reads t"
      using is_select_texts(1) [of Postgresql r] by (auto simp: buildSelectByIdentitySqlPostgres_def intro: quick_reads_select)
    then show ?thesis unfolding verifyRowPostgres_def sql prod.case by (intro keeps_intros all)
  qed
  moreover have "keeps I (verifyRelatedExists Postgresql (first_row q) c)" for c
    by (rule keeps_verifyRelated) (auto simp: first_row_def intro!: keeps_intros all)
  ultimately show ?thesis
    by (auto simp: quick_db_keeps_def postgres_quick_db_def postgresSchemaCatalog_def
        intro!: keeps_intros all quick_reads_sql)
qed

lemma keeps_planRowUnit: "quick_db_keeps I qd \<Longrightarrow> keeps I (planRowUnit h (qd_catalog qd) b tables)"
  unfolding planRowUnit_def Let_def row_key_def quick_db_keeps_def
  by (auto intro!: keeps_intros split: option.split)

lemma keeps_export_row: "quick_db_keeps I qd \<Longrightarrow> keeps I (export_row h qd a b plan req ptr st)"
  unfolding export_row_def legacy_export_def Let_def quick_db_keeps_def
  by (auto intro!: keeps_intros split: option.split)

lemma keeps_row_step: "quick_db_keeps I qd \<Longrightarrow> keeps I (row_unit_step h qd tables a b st)"
  using keeps_planRowUnit [of I qd] keeps_export_row [of I qd] unfolding row_unit_step_def quick_db_keeps_def
  by (auto intro!: keeps_intros split: option.split)

lemma keeps_bucket_loop: "quick_db_keeps I qd \<Longrightarrow> keeps I (bucket_loop h qd tables a bs st)"
  by (induction bs arbitrary: st) (auto intro!: keeps_intros keeps_row_step)

lemma keeps_related_step: "quick_db_keeps I qd \<Longrightarrow> keeps I (related_unit_step h qd a c st)"
  unfolding related_unit_step_def Let_def quick_db_keeps_def by (auto intro!: keeps_intros)

lemma keeps_related_loop: "quick_db_keeps I qd \<Longrightarrow> keeps I (related_loop h qd a cs st)"
  by (induction cs arbitrary: st) (auto intro!: keeps_intros keeps_related_step)

lemma keeps_action_loop: "quick_db_keeps I qd \<Longrightarrow> keeps I (action_loop h qd tables edges i uas st)"
  by (induction uas arbitrary: i st) (auto simp: Let_def intro!: keeps_intros keeps_bucket_loop keeps_related_loop)

lemma keeps_quick_run_on: "quick_db_keeps I qd \<Longrightarrow> keeps I (quick_run_on h ig warnings unique qd)"
  unfolding quick_run_on_def by (intro keeps_intros keeps_action_loop) (auto simp: quick_db_keeps_def)

lemma keeps_closing: "keeps I m \<Longrightarrow> keeps I c \<Longrightarrow> keeps I (io_closing m c)"
  by (auto simp: keeps_def io_closing_def split: prod.splits)

text \<open>A resource that is acquired and whose use keeps \<open>I\<close> once it was.\<close>

lemma keeps_acquire:
  assumes "keeps I m" and "\<And>w x w'. m w = (Inr x, w') \<Longrightarrow> keeps I (f x)"
  shows "keeps I (io_bind m f)"
  unfolding keeps_def
proof (intro allI impI)
  fix w assume "I w"
  obtain r w' where m: "m w = (r, w')" by (cases "m w")
  with assms(1) \<open>I w\<close> have "I w'" by (metis keeps_def snd_conv)
  then show "I (snd (io_bind m f w))"
    using assms(2) m by (cases r) (auto simp: io_bind_def keeps_def)
qed

lemma keeps_quick_connect:
  assumes "quick_runtime_keeps I rt"
  shows "keeps I (connectPostgresVerificationClient (rt_drivers rt) url)"
proof -
  let ?c = "dr_pgClient (rt_drivers rt) url"
  have c: "keeps I (cl_connect ?c)" "keeps I (cl_end ?c)" "keeps I (cl_query ?c READ_ONLY_GUARD [])"
    "keeps I (cl_query ?c ''SELECT 1'' [])"
    using assms by (auto simp: quick_runtime_keeps_def quick_query_keeps_def quick_reads_def starts_with_def)
  show ?thesis
    unfolding connectPostgresVerificationClient_def applyPostgresVerificationSessionGuards_def Let_def
    by (intro keeps_intros keeps_ignore c)
qed

lemma keeps_with_quick_db:
  assumes "quick_runtime_keeps I rt" and "\<And>qd. quick_db_keeps I qd \<Longrightarrow> keeps I (body qd)"
  shows "keeps I (with_quick_db h rt opts body)"
proof (cases "location (qo_postgresUrl opts)")
  case (Some url)
  have "keeps I (io_closing (body (postgres_quick_db h (cl_query c))) (cl_end c))"
    if "connectPostgresVerificationClient (rt_drivers rt) url w = (Inr c, w')" for w c w'
  proof -
    have "c = dr_pgClient (rt_drivers rt) url" using that connect_runs_guard [of "rt_drivers rt" url w] by auto
    then show ?thesis using assms by (auto simp: quick_runtime_keeps_def intro!: keeps_closing postgres_quick_db_keeps)
  qed
  with Some show ?thesis
    by (auto simp: with_quick_db_def intro!: keeps_acquire keeps_quick_connect [OF assms(1)])
next
  case None
  have "keeps I (io_closing (body (sqlite_quick_db h db)) (rt_closeSqlite rt db))"
    if "rt_openSqlite rt path w = (Inr db, w')" for path w db w'
  proof -
    have "quick_sqlite_keeps I db" and "keeps I (rt_closeSqlite rt db)"
      using that assms(1) unfolding quick_runtime_keeps_def by blast+
    then show ?thesis by (intro keeps_closing assms(2) sqlite_quick_db_keeps)
  qed
  moreover have "keeps I (rt_openSqlite rt path)" for path using assms(1) by (simp add: quick_runtime_keeps_def)
  ultimately show ?thesis
    using None by (auto simp: with_quick_db_def intro!: keeps_throw keeps_acquire split: option.split)
qed

end
