(* ===== verification/QuickExamples.thy ===== *)
theory QuickExamples
  imports QuickProperties QuickReadOnly Examples
begin

text \<open>
  A run of quick verification on a concrete database: one captured call, one table with a primary
  key, one row.
\<close>

section \<open>The database and the activity\<close>

definition quick_host :: host where
  "quick_host = demo_host\<lparr>h_jsonParse := (\<lambda>s. if s = ''activity'' then
     Some (VObj [(''tool'', VStr ''crm''), (''params'', VObj [(''id'', VStr ''7'')])])
     else Some (VObj [(''id'', VStr ''7'')]))\<rparr>"

definition quick_demo_db :: "'w sqlite_db" where
  "quick_demo_db = \<lparr>db_all = (\<lambda>t vs. io_return
       (if t = SQLITE_TABLES_SQL then [[(''name'', VStr ''crm'')]]
        else if t = pragma ''table_info'' ''crm'' then [[(''name'', VStr ''id''), (''pk'', VInt 1)]]
        else if t = pragma ''foreign_key_list'' ''crm'' then []
        else [ann_row])),
     db_get = (\<lambda>t vs. io_return None)\<rparr>"

definition quick_demo_options :: quick_options where
  "quick_demo_options = \<lparr>qo_inputUtf8 = ''activity'', qo_postgresUrl = None, qo_sqlitePath = Some ''a.db''\<rparr>"

lemma demo_small: "\<not> MAX_INPUT_BYTES < utf8_length ''activity''"
  by (simp add: MAX_INPUT_BYTES_def utf8_length_def)

lemma demo_ingest: "ingestActivityUtf8 quick_host ''activity''
   = mk_ingest [\<lparr>ra_toolName = ''crm'', ra_params = VObj [(''id'', VStr ''7'')]\<rparr>] [] 0"
proof -
  have "document_context quick_host (stripAnsiCsi ''activity'') = \<lparr>ic_actions = 
     [\<lparr>ra_toolName = ''crm'', ra_params = VObj [(''id'', VStr ''7'')]\<rparr>], ic_reasonCodes = [], ic_malformedLineCount = 0\<rparr>"
    by code_simp
  moreover have "js_trim (stripAnsiCsi ''activity'') \<noteq> []" by code_simp
  ultimately show ?thesis unfolding ingestActivityUtf8_def Let_def if_not_P [OF demo_small] by simp
qed

definition quick_demo_action :: unique_action where
  "quick_demo_action = \<lparr>ua_toolName = ''crm'', ua_flat = [(''id'', VStr ''7'')], ua_params = VObj [(''id'', VStr ''7'')]\<rparr>"

definition quick_demo_ingest :: ingest_result where
  "quick_demo_ingest = mk_ingest [\<lparr>ra_toolName = ''crm'', ra_params = VObj [(''id'', VStr ''7'')]\<rparr>] [] 0"

lemma demo_dedupe: "dedupeActions quick_host (ig_actions quick_demo_ingest) = Inr ([quick_demo_action], [])"
  by code_simp

lemma demo_catalog:
  "ct_listTables (qd_catalog (sqlite_quick_db quick_host quick_demo_db)) () = (Inr [''crm''], ())"
  "ct_listFkEdges (qd_catalog (sqlite_quick_db quick_host quick_demo_db)) () = (Inr [], ())"
  by code_simp+

definition demo_loop :: "(js_error + quick_state) \<times> unit" where
  "demo_loop = action_loop quick_host (sqlite_quick_db quick_host quick_demo_db) [''crm''] [] 0 [quick_demo_action]
     initial_quick_state ()"

lemma demo_loop_verifies:
  "case fst demo_loop of Inl e \<Rightarrow> False
   | Inr st \<Rightarrow> map qr_verdict (qs_units st) = [UnitVerified] \<and> map re_toolId (qs_tools st) = [''quick:u0'']"
  by code_simp

section \<open>The report of a run that passes\<close>

lemma no_bigint_scalar [simp]: "\<not> has_bigint (scalar_val s)"
  by (cases s) simp_all

lemma no_bigint_tools: "\<not> has_bigint (VArr (List.map_filter tool_val ts))"
proof -
  have pairs: "\<not> has_bigint (pair_spec_val p)" for p
    by (cases p) (auto simp: pair_spec_val_def spec_val_def split: option.split)
  have "\<not> has_bigint v" if "verification_val rv = Some v" for rv v
    using that by (cases rv rule: verification_val.cases) (auto simp: list_ex_iff pairs spec_val_def split: option.split)
  then show ?thesis
    by (auto simp: list_ex_iff map_filter_def tool_val_def)
qed

lemma passing_report:
  assumes "qv_verdict base = QuickPass"
  shows "\<exists>res. quick_report_of h base tools exports = Inr res"
proof -
  have "\<exists>d. deriveRemediationDecisionFromQuickReport h base w = Inr d" for w
    using assms by (simp add: deriveRemediationDecisionFromQuickReport_def Let_def buildFailureAnalysis_def
        quickVerifyReportToSyntheticEngine_def)
  moreover have "\<exists>t. canonicalToolsArrayUtf8 h tools = Inr t"
    using no_bigint_tools by (simp add: canonicalToolsArrayUtf8_def stableStringify_def)
  ultimately show ?thesis by (metis (no_types, lifting) quick_report_of_def throws_bind_simps(2))
qed

lemma quick_demo_passes:
  "\<exists>res :: quick_result. runQuickVerify quick_host (runtime_on quick_demo_db) quick_demo_options () = (Inr res, ())
     \<and> qv_verdict (qk_base (qt_report res)) = QuickPass \<and> map re_toolId (qk_tools (qt_report res)) = [''quick:u0'']"
proof -
  let ?db = "sqlite_quick_db quick_host quick_demo_db :: unit quick_db"
  have "\<exists>st. fst demo_loop = Inr st \<and> map qr_verdict (qs_units st) = [UnitVerified]
      \<and> map re_toolId (qs_tools st) = [''quick:u0'']"
    using demo_loop_verifies by (cases "fst demo_loop") (simp_all only: sum.case simp_thms, rule exI, rule conjI, rule refl)
  then obtain st where r: "fst demo_loop = Inr st" and units: "map qr_verdict (qs_units st) = [UnitVerified]"
    and tools: "map re_toolId (qs_tools st) = [''quick:u0'']"
    by (elim exE conjE) (rule that)
  have loop: "demo_loop = (Inr st, ())" using r by (simp add: prod_eq_iff)
  let ?base = "final_base quick_demo_ingest [] st"
  from units have "qv_verdict ?base = QuickPass"
    by (auto simp: final_base_def Let_def rollupVerdict_def quick_demo_ingest_def mk_ingest_def)
  then obtain res where res: "quick_report_of quick_host ?base (sort_tools (qs_tools st)) (sort_exports (qs_exports st)) = Inr res"
    using passing_report by blast
  have "quick_run_on quick_host quick_demo_ingest [] [quick_demo_action] ?db () = (Inr res, ())"
    using loop by (simp add: quick_run_on_def io_bind_def demo_catalog demo_loop_def res io_lift_def io_return_def)
  then have "runQuickVerify quick_host (runtime_on quick_demo_db) quick_demo_options () = (Inr res, ())"
    using demo_ingest [folded quick_demo_ingest_def]
    by (simp add: runQuickVerify_def Let_def quick_demo_options_def demo_dedupe with_quick_db_def location_def io_bind_def
        io_lift_def io_return_def io_closing_def runtime_on_def) (simp add: quick_demo_ingest_def mk_ingest_def)
  moreover have "qv_verdict (qk_base (qt_report res)) = QuickPass"
    using quick_report_of_fields [OF res] \<open>qv_verdict ?base = QuickPass\<close> by simp
  moreover have "map re_toolId (qk_tools (qt_report res)) = [''quick:u0'']"
    using quick_report_of_fields [OF res] tools by (auto simp: sort_tools_def)
  ultimately show ?thesis by (intro exI [of _ res] conjI)
qed

section \<open>A row that is exported\<close>

text \<open>
  A database with one table, whose only column is its key, and a call named after the table. The name
  of the table is a parameter, for it need not be an identifier.
\<close>

definition keyed_db :: "string \<Rightarrow> unit quick_db" where
  "keyed_db t = \<lparr>qd_catalog = \<lparr>ct_listTables = io_return [t], ct_listColumns = (\<lambda>_. io_return [''id'']),
       ct_primaryKeyColumns = (\<lambda>_. io_return [''id'']), ct_listUniqueConstraints = (\<lambda>_. io_return []),
       ct_listFkEdges = io_return []\<rparr>,
     qd_verifyRow = (\<lambda>req. io_return (row_outcome quick_host req [])),
     qd_verifyRelated = (\<lambda>c. io_return (exists_outcome VUndef))\<rparr>"

definition keyed_call :: "string \<Rightarrow> source_action" where
  "keyed_call t = \<lparr>sa_toolName = t, sa_actionIndex = 0, sa_flat = [(''id'', VStr ''7'')],
     sa_params = VObj [(''id'', VStr ''7'')]\<rparr>"

definition keyed_bucket :: "string \<Rightarrow> action_bucket" where
  "keyed_bucket t = \<lparr>bk_bucketKey = GLOBAL_BUCKET, bk_tableName = t, bk_toolName = t, bk_flat = [(''id'', VStr ''7'')],
     bk_paths = [''id'']\<rparr>"

definition keyed_row :: "string \<Rightarrow> row_request" where
  "keyed_row t = \<lparr>rq_table = t, rq_identityEq = [\<lparr>ip_column = ''id'', ip_value = ''7''\<rparr>], rq_requiredFields = []\<rparr>"

definition keyed_plan :: "string \<Rightarrow> rat \<Rightarrow> row_plan" where
  "keyed_plan t q = \<lparr>pn_request = Some (keyed_row t), pn_confidence = q, pn_reasonCodes = [],
     pn_rationale = [''Table '' @ t @ '', PK [id], 0 field(s) compared''], pn_alternates = None,
     pn_pkFlatBindings = Some [(''id'', ''id'')], pn_pointerComplete = Some True\<rparr>"

lemma keyed_planned:
  "planRowUnit quick_host (qd_catalog (keyed_db ''c'')) (keyed_bucket ''c'') [''c''] () = (Inr (keyed_plan ''c'' 1), ())"
  "planRowUnit quick_host (qd_catalog (keyed_db ''c r'')) (keyed_bucket ''c r'') [''c r''] ()
     = (Inr (keyed_plan ''c r'' (7505999378950827 / 9007199254740992)), ())"
  by code_simp+

lemma keyed_exports:
  assumes "T_EXPORT \<le> q"
  shows "pointer_export quick_host initial_quick_state (keyed_call t) (keyed_plan t q) (keyed_row t) out = Inr None"
    and "\<exists>tool syn. export_row quick_host (keyed_db t) (keyed_call t) (keyed_bucket t) (keyed_plan t q) (keyed_row t) None
           initial_quick_state () = (Inr (pushTool tool (RowExport (re_toolId tool) (keyed_row t) (Some syn)) initial_quick_state), ())"
proof -
  show "pointer_export quick_host initial_quick_state (keyed_call t) (keyed_plan t q) (keyed_row t) out = Inr None"
    using assms by (simp add: pointer_export_def keyed_plan_def)
  have "\<exists>syn. buildSyntheticRowParams quick_host (VObj [(''id'', VStr ''7'')]) fs = Inr syn" for fs
    by (simp add: buildSyntheticRowParams_def json_clone_def json_stringify_def quick_host_def)
  then obtain syn where syn: "\<And>fs. buildSyntheticRowParams quick_host (VObj [(''id'', VStr ''7'')]) fs = Inr (syn fs)"
    by metis
  have same: "augmentExportVerificationRequest (keyed_row t) [(''id'', VStr ''7'')] columns pk = keyed_row t" for columns pk
    by (simp add: augmentExportVerificationRequest_def augment_field_def fields_column_def starts_with_def key_order_def)
  let ?tool = "exportSqlRowTool (fresh_tool_id (used_ids initial_quick_state) (''quick:'' @ unit_id initial_quick_state)) (keyed_row t)"
  show "\<exists>tool syn. export_row quick_host (keyed_db t) (keyed_call t) (keyed_bucket t) (keyed_plan t q) (keyed_row t) None
       initial_quick_state () = (Inr (pushTool tool (RowExport (re_toolId tool) (keyed_row t) (Some syn)) initial_quick_state), ())"
    using assms
    by (intro exI [of _ ?tool] exI [of _ "syn (sorted_fields (rq_requiredFields (keyed_row t)))"])
      (simp add: export_row_def keyed_plan_def Let_def legacy_export_def keyed_db_def io_bind_def io_return_def io_lift_def
        keyed_call_def keyed_bucket_def same syn exportSqlRowTool_def quick_row_entry_def)
qed

end
