(* ===== verification/QuickEvidence.thy ===== *)
theory QuickEvidence
  imports QuickProperties QuickReadOnly
begin

text \<open>
  What stands behind the units of a quick run: each comes from a captured call, and its verdict is what
  a query that the run sent to the database it opened was answered. The two databases are used through
  the interface \<open>quick_database\<close>, which says what a verdict rests on.
\<close>

section \<open>Worlds of a run\<close>

text \<open>
  The worlds that operations on the database lead to. A database that remembers what it was asked has, in
  every world that follows a query, that query among what it remembers.
\<close>

inductive db_leads :: "'w quick_db \<Rightarrow> 'w \<Rightarrow> 'w \<Rightarrow> bool" for qd :: "'w quick_db" and w0 :: 'w where
  db_here: "db_leads qd w0 w0"
| db_tables: "db_leads qd w0 w \<Longrightarrow> db_leads qd w0 (snd (ct_listTables (qd_catalog qd) w))"
| db_edges: "db_leads qd w0 w \<Longrightarrow> db_leads qd w0 (snd (ct_listFkEdges (qd_catalog qd) w))"
| db_columns: "db_leads qd w0 w \<Longrightarrow> db_leads qd w0 (snd (ct_listColumns (qd_catalog qd) t w))"
| db_keys: "db_leads qd w0 w \<Longrightarrow> db_leads qd w0 (snd (ct_primaryKeyColumns (qd_catalog qd) t w))"
| db_uniques: "db_leads qd w0 w \<Longrightarrow> db_leads qd w0 (snd (ct_listUniqueConstraints (qd_catalog qd) t w))"
| db_row: "db_leads qd w0 w \<Longrightarrow> db_leads qd w0 (snd (qd_verifyRow qd r w))"
| db_related: "db_leads qd w0 w \<Longrightarrow> db_leads qd w0 (snd (qd_verifyRelated qd c w))"

lemma db_leads_keeps: "quick_db_keeps (db_leads qd w0) qd"
  by (auto simp: quick_db_keeps_def keeps_def intro: db_leads.intros)

lemma db_leads_run: "keeps (db_leads qd w0) m \<Longrightarrow> db_leads qd w0 w \<Longrightarrow> m w = (r, w') \<Longrightarrow> db_leads qd w0 w'"
  by (metis keeps_def snd_conv)

lemma db_leads_trans: "db_leads qd w1 w2 \<Longrightarrow> db_leads qd w0 w1 \<Longrightarrow> db_leads qd w0 w2"
  by (induction rule: db_leads.induct) (auto intro: db_leads.intros)

section \<open>The evidence of a unit\<close>

text \<open>What a query answered, or that it threw, confirms a row: one row in which every required field holds.\<close>

fun row_confirmed :: "host \<Rightarrow> row_request \<Rightarrow> js_error + row list \<Rightarrow> bool" where
  "row_confirmed h req (Inr [row]) = list_all (field_holds h row) (rq_requiredFields req)"
| "row_confirmed h req ans = False"

text \<open>It confirms a referred row: the \<open>EXISTS\<close> was answered yes.\<close>

fun related_confirmed :: "js_error + row option \<Rightarrow> bool" where
  "related_confirmed (Inr r) = (normalizeExistsScalar (exists_scalar r) = Some True)"
| "related_confirmed (Inl e) = False"

text \<open>
  A unit of a row: its table was planned for a group of the call's parameters, the rows of the planned
  identity were asked for, and the unit is verified exactly when the answer confirms the row, and failed
  only on an answer; or no row could be planned, and the unit is uncertain.
\<close>

definition row_evidence ::
  "host \<Rightarrow> 'w quick_db \<Rightarrow> (row_request \<Rightarrow> ('w, row list) io) \<Rightarrow> string list \<Rightarrow> source_action \<Rightarrow> quick_unit_report
     \<Rightarrow> 'w \<Rightarrow> 'w \<Rightarrow> bool" where
  "row_evidence h qd fetch tables a u w w2 \<longleftrightarrow>
     (\<exists>b \<in> set (bucketsForAction (sa_toolName a) (sa_flat a) tables). \<exists>plan w1.
        planRowUnit h (qd_catalog qd) b tables w = (Inr plan, w1)
        \<and> (case pn_request plan of
             None \<Rightarrow> w2 = w1 \<and> qr_verdict u = UnitUncertain
           | Some req \<Rightarrow> \<exists>ans. fetch req w1 = (ans, w2) \<and> qr_table u = rq_table req
               \<and> (qr_verdict u = UnitVerified \<longleftrightarrow> row_confirmed h req ans)
               \<and> (qr_verdict u = UnitFail \<longrightarrow> \<not> isl ans)))"

text \<open>A unit of a referred row: the call's parameters refer to the row, and whether it exists was asked.\<close>

definition related_evidence ::
  "host \<Rightarrow> (related_exists_check \<Rightarrow> ('w, row option) io) \<Rightarrow> fk_edge list \<Rightarrow> source_action \<Rightarrow> quick_unit_report
     \<Rightarrow> 'w \<Rightarrow> 'w \<Rightarrow> bool" where
  "related_evidence h exists edges a u w w2 \<longleftrightarrow>
     (\<exists>c \<in> set (planRelationalFromFlat h (sa_flat a) edges). \<exists>ans. exists c w = (ans, w2)
        \<and> qr_table u = rx_childTable c \<and> (qr_verdict u = UnitVerified \<longleftrightarrow> related_confirmed ans)
        \<and> (qr_verdict u = UnitFail \<longrightarrow> \<not> isl ans))"

definition call_of :: "unique_action list \<Rightarrow> nat \<Rightarrow> source_action" where
  "call_of calls i = \<lparr>sa_toolName = ua_toolName (calls ! i), sa_actionIndex = i, sa_flat = ua_flat (calls ! i),
     sa_params = ua_params (calls ! i)\<rparr>"

text \<open>Between the worlds \<open>w0\<close> and \<open>w'\<close> of a run over these calls, the unit's query was sent and answered.\<close>

definition evidenced ::
  "host \<Rightarrow> 'w quick_db \<Rightarrow> (row_request \<Rightarrow> ('w, row list) io) \<Rightarrow> (related_exists_check \<Rightarrow> ('w, row option) io)
     \<Rightarrow> string list \<Rightarrow> fk_edge list \<Rightarrow> unique_action list \<Rightarrow> 'w \<Rightarrow> 'w \<Rightarrow> quick_unit_report \<Rightarrow> bool" where
  "evidenced h qd fetch exists tables edges calls w0 w' u \<longleftrightarrow>
     qr_actionIndex u < length calls \<and> qr_toolName u = ua_toolName (calls ! qr_actionIndex u)
     \<and> (\<exists>w w2. db_leads qd w0 w \<and> db_leads qd w2 w'
          \<and> (case qr_kind u of
               UnitRow \<Rightarrow> row_evidence h qd fetch tables (call_of calls (qr_actionIndex u)) u w w2
             | UnitRelatedExists \<Rightarrow> related_evidence h exists edges (call_of calls (qr_actionIndex u)) u w w2))"

lemma evidenced_later: "evidenced h qd fetch exists tables edges calls w0 w1 u \<Longrightarrow> db_leads qd w1 w2 \<Longrightarrow> evidenced h qd fetch exists tables edges calls w0 w2 u"
  unfolding evidenced_def using db_leads_trans by metis

lemma evidenced_row:
  assumes "i < length calls" and "qr_actionIndex u = i" and "qr_toolName u = ua_toolName (calls ! i)" and "qr_kind u = UnitRow"
    and "row_evidence h qd fetch tables (call_of calls i) u w w2" and "db_leads qd w0 w" and "db_leads qd w2 w'"
  shows "evidenced h qd fetch exists tables edges calls w0 w' u"
  unfolding evidenced_def using assms by (intro conjI exI [of _ w] exI [of _ w2]) simp_all

lemma evidenced_related:
  assumes "i < length calls" and "qr_actionIndex u = i" and "qr_toolName u = ua_toolName (calls ! i)"
    and "qr_kind u = UnitRelatedExists"
    and "related_evidence h exists edges (call_of calls i) u w w2" and "db_leads qd w0 w" and "db_leads qd w2 w'"
  shows "evidenced h qd fetch exists tables edges calls w0 w' u"
  unfolding evidenced_def using assms by (intro conjI exI [of _ w] exI [of _ w2]) simp_all

section \<open>Every step adds evidence\<close>

text \<open>The invariant of the loops: the world follows the first one, and every unit has its evidence.\<close>

definition backed ::
  "host \<Rightarrow> 'w quick_db \<Rightarrow> (row_request \<Rightarrow> ('w, row list) io) \<Rightarrow> (related_exists_check \<Rightarrow> ('w, row option) io)
     \<Rightarrow> string list \<Rightarrow> fk_edge list \<Rightarrow> unique_action list \<Rightarrow> 'w \<Rightarrow> quick_state \<Rightarrow> 'w \<Rightarrow> bool" where
  "backed h qd fetch exists tables edges calls w0 st w \<longleftrightarrow>
     db_leads qd w0 w \<and> list_all (evidenced h qd fetch exists tables edges calls w0 w) (qs_units st)"

text \<open>
  The interface of a database: how its rows are fetched and how a referred row is asked for, with the
  laws that a verdict is about what was answered.
\<close>

locale quick_database =
  fixes h :: host and qd :: "'w quick_db"
    and fetch :: "row_request \<Rightarrow> ('w, row list) io" and exists :: "related_exists_check \<Rightarrow> ('w, row option) io"
  assumes row_answer: "qd_verifyRow qd req w = (Inr out, w') \<Longrightarrow>
      \<exists>ans. fetch req w = (ans, w') \<and> (vo_verdict out = UnitVerified \<longleftrightarrow> row_confirmed h req ans)
        \<and> (vo_verdict out = UnitFail \<longrightarrow> \<not> isl ans)"
    and related_answer: "qd_verifyRelated qd c w = (Inr out, w') \<Longrightarrow>
      \<exists>ans. exists c w = (ans, w') \<and> (vo_verdict out = UnitVerified \<longleftrightarrow> related_confirmed ans)
        \<and> (vo_verdict out = UnitFail \<longrightarrow> \<not> isl ans)"
begin

lemma backed_later:
  "backed h qd fetch exists tables edges calls w0 st w \<Longrightarrow> db_leads qd w w' \<Longrightarrow> qs_units st' = qs_units st
     \<Longrightarrow> backed h qd fetch exists tables edges calls w0 st' w'"
  unfolding backed_def list_all_iff using db_leads_trans evidenced_later by metis

lemma backed_push:
  "backed h qd fetch exists tables edges calls w0 st w \<Longrightarrow> evidenced h qd fetch exists tables edges calls w0 w u
     \<Longrightarrow> backed h qd fetch exists tables edges calls w0 (pushUnit u st) w"
  by (auto simp: backed_def pushUnit_def)

lemma export_row_units:
  "export_row h qd a b plan req ptr st w = (Inr st1, w') \<Longrightarrow> qs_units st1 = qs_units st"
  using grown_export_row [of st plan ptr h qd a b req] unfolding returns_def grown_def by blast

lemma backed_row_step:
  assumes st: "backed h qd fetch exists tables edges calls w0 st w" and i: "i < length calls"
    and b: "b \<in> set (bucketsForAction (ua_toolName (calls ! i)) (ua_flat (calls ! i)) tables)"
    and step: "row_unit_step h qd tables (call_of calls i) b st w = (Inr st', w')"
  shows "backed h qd fetch exists tables edges calls w0 st' w'"
proof -
  let ?a = "call_of calls i"
  obtain plan w1 where plan: "planRowUnit h (qd_catalog qd) b tables w = (Inr plan, w1)"
    and rest: "(case pn_request plan of
         None \<Rightarrow> io_lift (mapping_failed_unit h ?a b plan st)
       | Some req \<Rightarrow>
           io_bind (qd_verifyRow qd req) (\<lambda>out.
           io_bind (io_lift (pointer_export h st ?a plan req out)) (\<lambda>pointers.
           io_bind (export_row h qd ?a b plan req pointers st) (\<lambda>st1.
           io_bind (io_lift (checked_row_unit h ?a plan req out
               (T_EXPORT \<le> pn_confidence plan \<or> pointers \<noteq> None) (unit_id st))) (\<lambda>u.
             io_return (pushUnit u st1)))))) w1 = (Inr st', w')"
    using step unfolding row_unit_step_def io_bind_Inr_iff by blast
  have here: "db_leads qd w0 w" using st by (simp add: backed_def)
  have w1: "db_leads qd w w1" by (rule db_leads_run [OF keeps_planRowUnit [OF db_leads_keeps] db_here plan])
  show ?thesis
  proof (cases "pn_request plan")
    case None
    with rest obtain u where u: "st' = pushUnit u st" "w' = w1" "qr_kind u = UnitRow" "qr_verdict u = UnitUncertain"
      "qr_toolName u = sa_toolName ?a" "qr_actionIndex u = sa_actionIndex ?a"
      by (auto simp: mapping_failed_unit_def Let_def throws_bind_Inr_iff)
    have "row_evidence h qd fetch tables ?a u w w1"
      unfolding row_evidence_def by (intro bexI [of _ b] exI [of _ plan] exI [of _ w1]) (simp_all add: None plan b u call_of_def)
    from evidenced_row [OF i _ _ _ this here db_here] u have "evidenced h qd fetch exists tables edges calls w0 w1 u"
      by (simp add: call_of_def)
    with backed_later [OF st w1 refl] u show ?thesis by (simp add: backed_push)
  next
    case (Some req)
    with rest obtain out w2 ptr st1 u where out: "qd_verifyRow qd req w1 = (Inr out, w2)"
      and ex: "export_row h qd ?a b plan req ptr st w2 = (Inr st1, w')"
      and unit: "checked_row_unit h ?a plan req out (T_EXPORT \<le> pn_confidence plan \<or> ptr \<noteq> None) (unit_id st) = Inr u"
      and st': "st' = pushUnit u st1"
      by (auto simp: io_bind_Inr_iff)
    have w2: "db_leads qd w1 w2" using db_row [OF db_here [of qd w1], of req] out by simp
    have w3: "db_leads qd w2 w'" by (rule db_leads_run [OF keeps_export_row [OF db_leads_keeps] db_here ex])
    have u: "qr_kind u = UnitRow" "qr_verdict u = vo_verdict out" "qr_verification u = vo_verification out"
      "qr_table u = rq_table req" "qr_toolName u = sa_toolName ?a" "qr_actionIndex u = sa_actionIndex ?a"
      using unit by (auto simp: checked_row_unit_def throws_bind_Inr_iff)
    have "row_evidence h qd fetch tables ?a u w w2"
      unfolding row_evidence_def using row_answer [OF out]
      by (intro bexI [of _ b] exI [of _ plan] exI [of _ w1]) (simp_all add: Some plan b u call_of_def)
    from evidenced_row [OF i _ _ _ this here w3] u have "evidenced h qd fetch exists tables edges calls w0 w' u"
      by (simp add: call_of_def)
    moreover have "db_leads qd w w'" using w1 w2 w3 db_leads_trans by metis
    ultimately show ?thesis
      using backed_later [OF st _ export_row_units [OF ex]] st' by (simp add: backed_push)
  qed
qed

lemma backed_buckets:
  assumes "i < length calls"
  shows "backed h qd fetch exists tables edges calls w0 st w
     \<Longrightarrow> set bs \<subseteq> set (bucketsForAction (ua_toolName (calls ! i)) (ua_flat (calls ! i)) tables)
     \<Longrightarrow> bucket_loop h qd tables (call_of calls i) bs st w = (Inr st', w') \<Longrightarrow> backed h qd fetch exists tables edges calls w0 st' w'"
proof (induction bs arbitrary: st w)
  case (Cons b bs)
  show ?case
  proof (cases "MAX_UNITS \<le> length (qs_units st)")
    case False
    with Cons.prems(3) obtain st1 w1 where step: "row_unit_step h qd tables (call_of calls i) b st w = (Inr st1, w1)"
      and loop: "bucket_loop h qd tables (call_of calls i) bs st1 w1 = (Inr st', w')"
      by (auto simp: io_bind_Inr_iff)
    have "backed h qd fetch exists tables edges calls w0 st1 w1"
      using Cons.prems by (intro backed_row_step [OF _ assms _ step]) auto
    from Cons.IH [OF this _ loop] Cons.prems(2) show ?thesis by simp
  qed (use Cons.prems in simp)
qed simp

lemma backed_related_step:
  assumes st: "backed h qd fetch exists tables edges calls w0 st0 w" and i: "i < length calls"
    and c: "c \<in> set (planRelationalFromFlat h (ua_flat (calls ! i)) edges)"
    and step: "related_unit_step h qd (call_of calls i) c st0 w = (Inr st', w')"
  shows "backed h qd fetch exists tables edges calls w0 st' w'"
proof -
  let ?a = "call_of calls i" and ?st = "st0\<lparr>qs_relationalSeen := related_key c # qs_relationalSeen st0\<rparr>"
  from step obtain out exported st1 u where out: "qd_verifyRelated qd c w = (Inr out, w')"
    and ex: "export_related h c out ?st = Inr (exported, st1)"
    and unit: "related_unit h ?a c out exported (unit_id ?st) = Inr u" and st': "st' = pushUnit u st1"
    by (auto simp: related_unit_step_def Let_def io_bind_Inr_iff)
  have here: "db_leads qd w0 w" using st by (simp add: backed_def)
  have w': "db_leads qd w w'" using db_related [OF db_here [of qd w], of c] out by simp
  have units: "qs_units st1 = qs_units st0" using grown_export_related [OF ex] by (simp add: grown_def)
  have u: "qr_kind u = UnitRelatedExists" "qr_verdict u = vo_verdict out" "qr_verification u = vo_verification out"
    "qr_table u = rx_childTable c" "qr_toolName u = sa_toolName ?a" "qr_actionIndex u = sa_actionIndex ?a"
    using unit by (auto simp: related_unit_def throws_bind_Inr_iff)
  have "related_evidence h exists edges ?a u w w'"
    unfolding related_evidence_def using related_answer [OF out] by (intro bexI [of _ c]) (simp_all add: c u call_of_def)
  from evidenced_related [OF i _ _ _ this here db_here] u have "evidenced h qd fetch exists tables edges calls w0 w' u"
    by (simp add: call_of_def)
  with backed_later [OF st w' units] st' show ?thesis by (simp add: backed_push)
qed

lemma backed_related:
  assumes "i < length calls"
  shows "backed h qd fetch exists tables edges calls w0 st w
     \<Longrightarrow> set cs \<subseteq> set (planRelationalFromFlat h (ua_flat (calls ! i)) edges)
     \<Longrightarrow> related_loop h qd (call_of calls i) cs st w = (Inr st', w') \<Longrightarrow> backed h qd fetch exists tables edges calls w0 st' w'"
proof (induction cs arbitrary: st w)
  case (Cons c cs)
  show ?case
  proof (cases "MAX_UNITS \<le> length (qs_units st) \<or> related_key c \<in> set (qs_relationalSeen st)")
    case False
    with Cons.prems(3) obtain st1 w1 where step: "related_unit_step h qd (call_of calls i) c st w = (Inr st1, w1)"
      and loop: "related_loop h qd (call_of calls i) cs st1 w1 = (Inr st', w')"
      by (auto simp: io_bind_Inr_iff)
    have "backed h qd fetch exists tables edges calls w0 st1 w1"
      using Cons.prems by (intro backed_related_step [OF _ assms _ step]) auto
    from Cons.IH [OF this _ loop] Cons.prems(2) show ?thesis by simp
  next
    case True
    with Cons show ?thesis by (cases "MAX_UNITS \<le> length (qs_units st)") auto
  qed
qed simp

lemma backed_actions:
  "backed h qd fetch exists tables edges calls w0 st w \<Longrightarrow> rest = drop i calls
     \<Longrightarrow> action_loop h qd tables edges i rest st w = (Inr st', w') \<Longrightarrow> backed h qd fetch exists tables edges calls w0 st' w'"
proof (induction rest arbitrary: i st w)
  case (Cons ua uas)
  then have i: "i < length calls" and ua: "ua = calls ! i" and uas: "uas = drop (Suc i) calls"
    by (metis drop_eq_Nil2 list.distinct(1) not_le, metis Cons_nth_drop_Suc drop_eq_Nil2 list.inject list.distinct(1) not_le,
      metis Cons.prems(2) drop_Suc tl_drop list.sel(3))
  have call: "\<lparr>sa_toolName = ua_toolName ua, sa_actionIndex = i, sa_flat = ua_flat ua, sa_params = ua_params ua\<rparr> = call_of calls i"
    by (simp add: call_of_def ua)
  from Cons.prems(3) obtain st1 w1 st2 w2 where
    buckets: "bucket_loop h qd tables (call_of calls i) (bucketsForAction (ua_toolName ua) (ua_flat ua) tables) st w = (Inr st1, w1)"
    and related: "related_loop h qd (call_of calls i) (planRelationalFromFlat h (ua_flat ua) edges) st1 w1 = (Inr st2, w2)"
    and loop: "action_loop h qd tables edges (Suc i) uas st2 w2 = (Inr st', w')"
    by (auto simp: Let_def call io_bind_Inr_iff)
  have "backed h qd fetch exists tables edges calls w0 st1 w1"
    using backed_buckets [OF i Cons.prems(1) _ buckets] by (simp add: ua)
  from backed_related [OF i this _ related] have "backed h qd fetch exists tables edges calls w0 st2 w2" by (simp add: ua)
  from Cons.IH [OF this uas loop] show ?case .
qed simp

end

section \<open>The two databases\<close>

definition pg_fetch :: "'w query \<Rightarrow> row_request \<Rightarrow> ('w, row list) io" where
  "pg_fetch q req = (case buildSelectByIdentitySqlPostgres req of (t, vs) \<Rightarrow>
     io_bind (q t vs) (\<lambda>rows. io_return (map lower_row rows)))"

definition ask_exists ::
  "dialect \<Rightarrow> (string \<Rightarrow> string list \<Rightarrow> ('w, row option) io) \<Rightarrow> related_exists_check \<Rightarrow> ('w, row option) io" where
  "ask_exists d one c = io_bind (io_lift (buildRelationalScalarSql d (RelatedExists c))) (\<lambda>(t, vs). one t vs)"

lemma row_outcome_verdict:
  "vo_verdict (row_outcome h req rows) = UnitVerified \<longleftrightarrow> row_confirmed h req (Inr rows)"
proof -
  have "ro_status (reconcileFromRows h rows req) = Verified \<longleftrightarrow> row_confirmed h req (Inr rows)"
    by (cases "(h, req, Inr rows :: js_error + row list)" rule: row_confirmed.cases) (auto simp: reconcileFromRows_verified)
  then show ?thesis by (simp add: row_outcome_def Let_def)
qed

lemma exists_outcome_verdict:
  "vo_verdict (exists_outcome v) = UnitVerified \<longleftrightarrow> normalizeExistsScalar v = Some True"
  by (simp add: exists_outcome_def split: option.split bool.split)

lemma caught_answer:
  assumes "io_catch (io_bind m (\<lambda>r. io_return (f r))) (\<lambda>e. io_return (connector_outcome e)) w = (Inr out, w')"
  shows "\<exists>ans. m w = (ans, w') \<and> out = (case ans of Inr r \<Rightarrow> f r | Inl e \<Rightarrow> connector_outcome e)"
  using assms by (cases "m w") (auto simp: io_catch_def io_bind_def io_return_def split: sum.splits)

lemma caught_row_answer:
  assumes "io_catch (io_bind m (\<lambda>rows. io_return (row_outcome h req rows))) (\<lambda>e. io_return (connector_outcome e)) w = (Inr out, w')"
  shows "\<exists>ans. m w = (ans, w') \<and> (vo_verdict out = UnitVerified \<longleftrightarrow> row_confirmed h req ans)
    \<and> (vo_verdict out = UnitFail \<longrightarrow> \<not> isl ans)"
proof -
  from caught_answer [OF assms] obtain ans where "m w = (ans, w')"
    and "out = (case ans of Inr rows \<Rightarrow> row_outcome h req rows | Inl e \<Rightarrow> connector_outcome e)" by blast
  then show ?thesis
    by (intro exI [of _ ans]) (cases ans, simp_all add: row_outcome_verdict connector_outcome_def)
qed

lemma related_answers:
  assumes "verifyRelatedExists d one c w = (Inr out, w')"
  shows "\<exists>ans. ask_exists d one c w = (ans, w') \<and> (vo_verdict out = UnitVerified \<longleftrightarrow> related_confirmed ans)
    \<and> (vo_verdict out = UnitFail \<longrightarrow> \<not> isl ans)"
proof -
  obtain t vs where sql: "buildRelationalScalarSql d (RelatedExists c) = Inr (t, vs)"
    by (cases "related_exists_sql d c") simp
  with assms have "io_catch (io_bind (one t vs) (\<lambda>r. io_return (exists_outcome (exists_scalar r))))
      (\<lambda>e. io_return (connector_outcome e)) w = (Inr out, w')"
    by (simp add: verifyRelatedExists_def io_bind_def io_lift_def)
  from caught_answer [OF this] obtain ans where "one t vs w = (ans, w')"
    and "out = (case ans of Inr r \<Rightarrow> exists_outcome (exists_scalar r) | Inl e \<Rightarrow> connector_outcome e)" by blast
  then show ?thesis
    unfolding ask_exists_def sql
    by (intro exI [of _ ans]) (cases ans, simp_all add: io_bind_def io_lift_def exists_outcome_verdict connector_outcome_def)
qed

interpretation quick_sqlite:
  quick_database h "sqlite_quick_db h db" "fetchRowsForVerification db" "ask_exists Sqlite (db_get db)" for h db
  by unfold_locales (simp_all add: sqlite_quick_db_def verifyRowSqlite_def caught_row_answer related_answers)

interpretation quick_postgres:
  quick_database h "postgres_quick_db h q" "pg_fetch q" "ask_exists Postgresql (first_row q)" for h q
proof unfold_locales
  fix req w out w'
  assume "qd_verifyRow (postgres_quick_db h q) req w = (Inr out, w')"
  then have "io_catch (io_bind (pg_fetch q req) (\<lambda>rows. io_return (row_outcome h req rows)))
      (\<lambda>e. io_return (connector_outcome e)) w = (Inr out, w')"
    by (auto simp: postgres_quick_db_def verifyRowPostgres_def pg_fetch_def io_bind_def io_return_def io_catch_def
        split: prod.splits sum.splits)
  from caught_row_answer [OF this] show "\<exists>ans. pg_fetch q req w = (ans, w')
      \<and> (vo_verdict out = UnitVerified \<longleftrightarrow> row_confirmed h req ans) \<and> (vo_verdict out = UnitFail \<longrightarrow> \<not> isl ans)" .
qed (simp add: postgres_quick_db_def related_answers)

section \<open>A whole run\<close>

text \<open>The database that a run opens in the world \<open>w\<close>, in what world, and how it is closed.\<close>

definition quick_opens ::
  "host \<Rightarrow> 'w runtime \<Rightarrow> quick_options \<Rightarrow> 'w \<Rightarrow> 'w quick_db \<Rightarrow> (row_request \<Rightarrow> ('w, row list) io)
     \<Rightarrow> (related_exists_check \<Rightarrow> ('w, row option) io) \<Rightarrow> ('w, unit) io \<Rightarrow> 'w \<Rightarrow> bool" where
  "quick_opens h rt opts w qd fetch exists close w0 \<longleftrightarrow>
     (case location (qo_postgresUrl opts) of
        Some url \<Rightarrow> \<exists>c. connectPostgresVerificationClient (rt_drivers rt) url w = (Inr c, w0)
          \<and> qd = postgres_quick_db h (cl_query c) \<and> fetch = pg_fetch (cl_query c)
          \<and> exists = ask_exists Postgresql (first_row (cl_query c)) \<and> close = cl_end c
      | None \<Rightarrow> \<exists>path db. location (qo_sqlitePath opts) = Some path \<and> rt_openSqlite rt path w = (Inr db, w0)
          \<and> qd = sqlite_quick_db h db \<and> fetch = fetchRowsForVerification db
          \<and> exists = ask_exists Sqlite (db_get db) \<and> close = rt_closeSqlite rt db)"

text \<open>
  The units of a run that goes from the world \<open>w\<close> to \<open>w'\<close> have their evidence in it: the calls are
  those captured, the tables and the references are those the opened database lists.
\<close>

definition quick_evidence ::
  "host \<Rightarrow> 'w runtime \<Rightarrow> quick_options \<Rightarrow> 'w \<Rightarrow> 'w \<Rightarrow> quick_unit_report list \<Rightarrow> bool" where
  "quick_evidence h rt opts w w' units \<longleftrightarrow>
     (\<exists>calls warnings qd fetch exists close w0 tables w1 edges w2 w3.
        dedupeActions h (ig_actions (ingestActivityUtf8 h (qo_inputUtf8 opts))) = Inr (calls, warnings)
        \<and> set calls \<subseteq> flat_action ` set (ig_actions (ingestActivityUtf8 h (qo_inputUtf8 opts)))
        \<and> quick_opens h rt opts w qd fetch exists close w0
        \<and> ct_listTables (qd_catalog qd) w0 = (Inr tables, w1) \<and> ct_listFkEdges (qd_catalog qd) w1 = (Inr edges, w2)
        \<and> list_all (evidenced h qd fetch exists tables edges calls w2 w3) units \<and> w' = snd (close w3))"

lemma dedupe_keyed_subset: "set (fst (dedupe_keyed seen kas)) \<subseteq> snd ` set kas"
  by (induction seen kas rule: dedupe_keyed.induct) (auto split: prod.splits)

lemma keyed_actions:
  "throws_map (\<lambda>a. throws_bind (action_key h a) (\<lambda>k. Inr (k, a))) us = Inr kas \<Longrightarrow> map snd kas = us"
  by (induction us arbitrary: kas) (auto simp: throws_bind_Inr_iff)

lemma dedupe_captured:
  assumes "dedupeActions h actions = Inr (calls, warnings)"
  shows "set calls \<subseteq> flat_action ` set actions"
proof -
  from assms obtain kas where kas: "throws_map (\<lambda>a. throws_bind (action_key h a) (\<lambda>k. Inr (k, a))) (map flat_action actions) = Inr kas"
    and calls: "dedupe_keyed [] kas = (calls, warnings)"
    by (auto simp: dedupeActions_def throws_bind_Inr_iff)
  have "set calls \<subseteq> set (map snd kas)" using dedupe_keyed_subset [of "[]" kas] calls by simp
  then show ?thesis unfolding keyed_actions [OF kas] by simp
qed

text \<open>Any run over such a database leaves evidence.\<close>

lemma run_on_evidence:
  assumes db: "quick_database h qd fetch exists" and run: "quick_run_on h ig warnings calls qd w0 = (Inr res, w3)"
  shows "\<exists>tables w1 edges w2. ct_listTables (qd_catalog qd) w0 = (Inr tables, w1)
    \<and> ct_listFkEdges (qd_catalog qd) w1 = (Inr edges, w2)
    \<and> list_all (evidenced h qd fetch exists tables edges calls w2 w3) (qv_units (qk_base (qt_report res)))"
proof -
  from run obtain tables w1 edges w2 st where
    tables: "ct_listTables (qd_catalog qd) w0 = (Inr tables, w1)" and edges: "ct_listFkEdges (qd_catalog qd) w1 = (Inr edges, w2)"
    and loop: "action_loop h qd tables edges 0 calls initial_quick_state w2 = (Inr st, w3)"
    and report: "quick_report_of h (final_base ig warnings st) (sort_tools (qs_tools st)) (sort_exports (qs_exports st)) = Inr res"
    by (auto simp: quick_run_on_def io_bind_Inr_iff io_lift_def)
  have start: "backed h qd fetch exists tables edges calls w2 initial_quick_state w2"
    by (simp add: backed_def initial_quick_state_def db_here)
  have "list_all (evidenced h qd fetch exists tables edges calls w2 w3) (qs_units st)"
    using quick_database.backed_actions [OF db start _ loop] by (simp add: backed_def)
  then have "list_all (evidenced h qd fetch exists tables edges calls w2 w3) (qv_units (qk_base (qt_report res)))"
    using quick_report_of_fields [OF report] by (simp add: final_base_def Let_def)
  with tables edges show ?thesis by (intro exI conjI)
qed

lemma closing_Inr: "io_closing m c w = (Inr r, w') \<longleftrightarrow> (\<exists>w1. m w = (Inr r, w1) \<and> w' = snd (c w1))"
  by (auto simp: io_closing_def split: prod.split)

lemma opened_and_run:
  assumes "with_quick_db h rt opts body w = (Inr res, w')"
  shows "\<exists>qd fetch exists close w0 w3. quick_opens h rt opts w qd fetch exists close w0
    \<and> quick_database h qd fetch exists \<and> body qd w0 = (Inr res, w3) \<and> w' = snd (close w3)"
proof (cases "location (qo_postgresUrl opts)")
  case (Some url)
  with assms obtain c w0 w3 where "connectPostgresVerificationClient (rt_drivers rt) url w = (Inr c, w0)"
    "body (postgres_quick_db h (cl_query c)) w0 = (Inr res, w3)" "w' = snd (cl_end c w3)"
    by (auto simp: with_quick_db_def io_bind_Inr_iff closing_Inr)
  with Some quick_postgres.quick_database_axioms [of h "cl_query c"] show ?thesis
    by (intro exI conjI) (auto simp: quick_opens_def)
next
  case None
  with assms obtain path db w0 w3 where "location (qo_sqlitePath opts) = Some path" "rt_openSqlite rt path w = (Inr db, w0)"
    "body (sqlite_quick_db h db) w0 = (Inr res, w3)" "w' = snd (rt_closeSqlite rt db w3)"
    by (auto simp: with_quick_db_def io_bind_Inr_iff closing_Inr io_throw_def split: option.splits)
  with None quick_sqlite.quick_database_axioms [of h db] show ?thesis
    by (intro exI conjI) (auto simp: quick_opens_def)
qed

text \<open>What a run returns has its evidence, or no unit at all.\<close>

lemma quick_run_evidence:
  assumes run: "runQuickVerify h rt opts w = (Inr res, w')"
  shows "qv_units (qk_base (qt_report res)) = [] \<or> quick_evidence h rt opts w w' (qv_units (qk_base (qt_report res)))"
proof (cases "ig_inputTooLarge (ingestActivityUtf8 h (qo_inputUtf8 opts))")
  case True
  with run have "quick_report_of h (too_large_base (ingestActivityUtf8 h (qo_inputUtf8 opts))) [] [] = Inr res"
    by (simp add: runQuickVerify_def Let_def io_lift_def)
  from quick_report_of_fields [OF this] show ?thesis by (simp add: too_large_base_def)
next
  case False
  let ?ig = "ingestActivityUtf8 h (qo_inputUtf8 opts)"
  from run False obtain calls warnings where calls: "dedupeActions h (ig_actions ?ig) = Inr (calls, warnings)"
    and body: "with_quick_db h rt opts (quick_run_on h ?ig warnings calls) w = (Inr res, w')"
    by (auto simp: runQuickVerify_def Let_def io_bind_Inr_iff io_lift_def)
  from opened_and_run [OF body] obtain qd fetch exists close w0 w3 where
    opened: "quick_opens h rt opts w qd fetch exists close w0" "quick_database h qd fetch exists"
      "quick_run_on h ?ig warnings calls qd w0 = (Inr res, w3)" "w' = snd (close w3)" by blast
  from run_on_evidence [OF opened(2,3)] show ?thesis
    unfolding quick_evidence_def using calls dedupe_captured [OF calls] opened(1,4) by blast
qed

end
