(* ===== verification/QuickReplay.thy ===== *)
theory QuickReplay
  imports QuickRun ResolveProperties
begin

text \<open>
  Exported rows replay: the registry entry written for a row, resolved on the synthetic parameters
  written with it, asks for the same row.
\<close>

section \<open>The synthetic parameters\<close>

definition encode_field :: "string \<times> scalar \<Rightarrow> string \<times> jsval" where
  "encode_field = (\<lambda>(k, s). (k, scalar_val s))"

lemma field_scalar_val [simp]: "field_scalar (scalar_val s) = Some s"
  by (cases s) simp_all

lemma scalar_val_defined [simp]: "scalar_val s \<noteq> VUndef"
  by (cases s) simp_all

lemma filter_split_mset: "mset (filter P xs) + mset (filter (\<lambda>x. \<not> P x) xs) = mset xs"
  by (simp add: multiset_partition [symmetric])

lemma mset_key_order: "mset (key_order kvs) = mset kvs"
  using filter_split_mset [of "\<lambda>(k, v). integer_key k" kvs] by (simp add: key_order_def split_def)

lemma set_key_order: "set (key_order kvs) = set kvs"
  using arg_cong [OF mset_key_order, of set_mset] by simp

lemma sorted_fields_encoded: "sorted_fields rf = key_order (sort_members (map encode_field rf))"
  by (simp add: sorted_fields_def sort_members_def encode_field_def)

lemma synthetic_fields:
  assumes "buildSyntheticRowParams h params fs = Inr syn"
  shows "getPointer syn ''/__qvFields'' = Inr (VObj fs)"
proof -
  obtain kvs where "syn = VObj (AList.update ''__qvFields'' (VObj fs) kvs)"
  proof -
    obtain base where "(case base of VObj kvs \<Rightarrow> Inr (VObj (AList.update ''__qvFields'' (VObj fs) kvs))
        | _ \<Rightarrow> Inl (JsTypeError ''Cannot set properties of a value that is no object'')) = Inr syn"
      using assms unfolding buildSyntheticRowParams_def throws_bind_Inr_iff by blast
    then show thesis by (cases base) (auto intro: that)
  qed
  moreover have "decodePointerToken ''__qvFields'' = ''__qvFields''" by code_simp
  ultimately show ?thesis by (simp add: getPointer_slash update_conv')
qed

lemma collect_encoded:
  assumes "\<forall>(k, s) \<in> set fs. IDENT k \<and> k \<noteq> ''__proto__''"
  shows "collect_fields True nm msg acc (map encode_field fs) = ROk (acc @ fs)"
  using assms
proof (induction fs arbitrary: acc)
  case (Cons kv fs)
  then show ?case by (cases kv) (auto simp: encode_field_def assign_field_def)
qed simp

text \<open>The fields in the order in which they are written, still with their scalars.\<close>

definition written_fields :: "(string \<times> scalar) list \<Rightarrow> (string \<times> scalar) list" where
  "written_fields rf = key_order (sort_members rf)"

lemma key_order_map_encode: "key_order (map encode_field xs) = map encode_field (key_order xs)"
proof -
  have fst: "fst (encode_field x) = fst x" for x by (simp add: encode_field_def split_def)
  have sort: "js_sort (\<lambda>a b. int (digits_val (fst a)) - int (digits_val (fst b))) (map encode_field ys)
      = map encode_field (js_sort (\<lambda>a b. int (digits_val (fst a)) - int (digits_val (fst b))) ys)" for ys
    using map_js_sort [of encode_field "\<lambda>a b. int (digits_val (fst a)) - int (digits_val (fst b))" ys]
    by (simp add: fst)
  have split: "key_order kvs = js_sort (\<lambda>a b. int (digits_val (fst a)) - int (digits_val (fst b)))
      (filter (\<lambda>kv. integer_key (fst kv)) kvs) @ filter (\<lambda>kv. \<not> integer_key (fst kv)) kvs"
    for kvs :: "(string \<times> 'a) list"
    by (simp add: key_order_def split_def)
  show ?thesis by (simp add: split filter_map sort comp_def fst)
qed

lemma sorted_fields_written: "sorted_fields rf = map encode_field (written_fields rf)"
proof -
  have "sort_members (map encode_field rf) = map encode_field (sort_members rf)"
    using map_js_sort [of encode_field "\<lambda>a b. compareUtf16Id (fst a) (fst b)" rf]
    by (simp add: sort_members_def encode_field_def split_def)
  then show ?thesis by (simp add: sorted_fields_encoded written_fields_def key_order_map_encode)
qed

lemma mset_written_fields: "mset (written_fields rf) = mset rf"
  by (simp add: written_fields_def mset_key_order sort_members_def)

lemma written_fields_idem:
  assumes "distinct (map fst rf)"
  shows "written_fields (written_fields rf) = written_fields rf"
proof -
  have d: "distinct (map fst (written_fields rf))"
    using assms by (metis mset_eq_imp_distinct_iff mset_map mset_written_fields)
  have "sort_members (written_fields rf) = sort_members rf"
    unfolding sort_members_def
  proof (rule utf16.sorted_unique)
    show "a = b" if "a \<in> set (js_sort (\<lambda>a b. compareUtf16Id (fst a) (fst b)) (written_fields rf))"
      "b \<in> set (js_sort (\<lambda>a b. compareUtf16Id (fst a) (fst b)) (written_fields rf))"
      "compareUtf16Id (fst a) (fst b) \<le> 0" "compareUtf16Id (fst b) (fst a) \<le> 0" for a b
      using that d by (auto simp: compareUtf16Id_le distinct_map dest: inj_onD)
  qed (simp_all add: mset_written_fields utf16.sort_sorted)
  then show ?thesis by (simp add: written_fields_def)
qed

section \<open>Resolving the entry\<close>

lemma resolve_const_pairs:
  assumes "\<forall>p \<in> set ps. IDENT (ip_column p)"
  shows "rmap_idx (resolve_eq_pair h params nm) i (map const_pair ps) = ROk ps"
  using assms
proof (induction ps arbitrary: i)
  case (Cons p ps)
  then have "ip_column p \<noteq> []" by (auto simp: IDENT_def)
  with Cons show ?case
    by (simp add: resolve_eq_pair_def const_pair_def const_spec_def resolveIdentSpec_def resolveStringSpec_def
        resolveKeyValue_def only_const_def relabel_def Let_def)
qed simp

lemma resolve_exported_row:
  assumes "IDENT (rq_table req)" and "\<forall>p \<in> set (rq_identityEq req). IDENT (ip_column p)"
    and "distinct (map ip_column (rq_identityEq req))"
    and "\<forall>(k, s) \<in> set (rq_requiredFields req). IDENT k \<and> k \<noteq> ''__proto__''"
    and "buildSyntheticRowParams h params (sorted_fields (rq_requiredFields req)) = Inr syn"
  shows "resolveVerificationRequest h (exportSqlRowTool tid req) syn t
    = ROk (RdSqlRow \<lparr>rq_table = rq_table req, rq_identityEq = sort_pairs (rq_identityEq req),
        rq_requiredFields = written_fields (rq_requiredFields req)\<rparr>)"
proof -
  have "resolveTableIdent (const_spec (rq_table req)) syn l = ROk (rq_table req)" for l
    using assms(1) by (simp add: resolveTableIdent_def only_const_def const_spec_def)
  moreover have "resolveRegistryEqualityList h (map const_pair (rq_identityEq req)) syn l
      = ROk (sort_pairs (rq_identityEq req))" for l
  proof -
    have "distinct (map ip_column (sort_pairs (rq_identityEq req)))"
      using assms(3) by (metis distinct_js_sort map_js_sort sort_pairs_def)
    from first_adjacent_dup_distinct [OF this] show ?thesis
      by (simp add: resolveRegistryEqualityList_def resolve_const_pairs [OF assms(2)] normalizeSortedIdentityEq_def
          Let_def sort_pairs_def)
  qed
  moreover have "resolveFieldsAt True nm msg ''/__qvFields'' syn = ROk (written_fields (rq_requiredFields req))" for nm msg
  proof -
    have "\<forall>(k, s) \<in> set (written_fields (rq_requiredFields req)). IDENT k \<and> k \<noteq> ''__proto__''"
      using assms(4) mset_eq_setD [OF mset_written_fields] by blast
    from collect_encoded [OF this] show ?thesis
      by (simp add: resolveFieldsAt_def synthetic_fields [OF assms(5)] nullish_def is_object_def sorted_fields_written)
  qed
  ultimately show ?thesis
    by (simp add: resolveVerificationRequest_def exportSqlRowTool_def quick_row_entry_def resolveSqlRowSpec_def)
qed

lemma fingerprint_of_replay:
  assumes "distinct (map fst (rq_requiredFields req))"
  shows "normalizedSqlRowRequestFingerprint h \<lparr>rq_table = rq_table req, rq_identityEq = sort_pairs (rq_identityEq req),
      rq_requiredFields = written_fields (rq_requiredFields req)\<rparr> = normalizedSqlRowRequestFingerprint h req"
  by (simp add: normalizedSqlRowRequestFingerprint_def sorted_fields_written written_fields_idem [OF assms]
      sort_pairs_def utf16.sort_idem)

section \<open>Entries that do not resolve\<close>

text \<open>The names in a request that the resolver demands to be identifiers.\<close>

definition names_are_identifiers :: "row_request \<Rightarrow> bool" where
  "names_are_identifiers req \<longleftrightarrow> IDENT (rq_table req) \<and> list_all (\<lambda>p. IDENT (ip_column p)) (rq_identityEq req)
     \<and> list_all (\<lambda>(k, s). IDENT k) (rq_requiredFields req)"

definition refuses_name :: "'a resolve \<Rightarrow> bool" where
  "refuses_name r \<longleftrightarrow> (case r of RFail code m \<Rightarrow> code \<in> {''INVALID_IDENTIFIER'', ''CONST_STRING_EMPTY''} | _ \<Rightarrow> False)"

lemma refuses_name_simps [simp]:
  "refuses_name (RFail ''INVALID_IDENTIFIER'' m)" "refuses_name (RFail ''CONST_STRING_EMPTY'' m)"
  "\<not> refuses_name (ROk v)"
  by (simp_all add: refuses_name_def)

lemma refuses_rbind: "refuses_name r \<Longrightarrow> refuses_name (rbind r f)"
  by (cases r) (simp_all add: refuses_name_def)

lemma eq_pair_refused: "\<not> IDENT (ip_column p) \<Longrightarrow> refuses_name (resolve_eq_pair h params nm i (const_pair p))"
  by (auto simp: resolve_eq_pair_def Let_def const_pair_def const_spec_def resolveIdentSpec_def resolveStringSpec_def
      rwhen_def intro!: refuses_rbind)

lemma pairs_refused:
  "\<not> list_all (\<lambda>p. IDENT (ip_column p)) ps \<Longrightarrow> refuses_name (rmap_idx (resolve_eq_pair h params nm) i (map const_pair ps))"
proof (induction ps arbitrary: i)
  case (Cons p ps)
  show ?case
  proof (cases "IDENT (ip_column p)")
    case True
    then have "resolve_eq_pair h params nm i (const_pair p) = ROk p"
      using resolve_const_pairs [of "[p]" h params nm i] by (cases "resolve_eq_pair h params nm i (const_pair p)") auto
    with Cons True show ?thesis by (auto intro!: refuses_rbind)
  qed (simp add: eq_pair_refused refuses_rbind)
qed simp

lemma fields_refused:
  "\<not> list_all (\<lambda>(k, s). IDENT k) fs \<Longrightarrow> refuses_name (collect_fields True nm msg acc (map encode_field fs))"
  by (induction fs arbitrary: acc) (auto simp: encode_field_def rwhen_def)

lemma exported_row_refused:
  assumes "\<not> names_are_identifiers req" and "distinct (map ip_column (rq_identityEq req))"
    and "buildSyntheticRowParams h params (sorted_fields (rq_requiredFields req)) = Inr syn"
  shows "refuses_name (resolveVerificationRequest h (exportSqlRowTool tid req) syn t)"
proof -
  have "refuses_name (resolveSqlRowSpec h syn \<lparr>srs_table = const_spec (rq_table req),
      srs_identityEq = map const_pair (rq_identityEq req), srs_requiredFields = ''/__qvFields''\<rparr> l)" for l
  proof -
    consider (table) "\<not> IDENT (rq_table req)"
      | (column) "IDENT (rq_table req)" "\<not> list_all (\<lambda>p. IDENT (ip_column p)) (rq_identityEq req)"
      | (field) "IDENT (rq_table req)" "list_all (\<lambda>p. IDENT (ip_column p)) (rq_identityEq req)"
          "\<not> list_all (\<lambda>(k, s). IDENT k) (rq_requiredFields req)"
      using assms(1) by (auto simp: names_are_identifiers_def)
    then show ?thesis
    proof cases
      case table
      then show ?thesis
        by (simp add: resolveSqlRowSpec_def resolveTableIdent_def only_const_def const_spec_def)
    next
      case column
      then show ?thesis
        by (simp add: resolveSqlRowSpec_def resolveTableIdent_def only_const_def const_spec_def
            resolveRegistryEqualityList_def refuses_rbind pairs_refused)
    next
      case field
      have "distinct (map ip_column (sort_pairs (rq_identityEq req)))"
        using assms(2) by (metis distinct_js_sort map_js_sort sort_pairs_def)
      from first_adjacent_dup_distinct [OF this] resolve_const_pairs field(2)
      have eqs: "resolveRegistryEqualityList h (map const_pair (rq_identityEq req)) syn l = ROk (sort_pairs (rq_identityEq req))"
        by (simp add: resolveRegistryEqualityList_def list_all_iff normalizeSortedIdentityEq_def Let_def sort_pairs_def)
      have "\<not> list_all (\<lambda>(k, s). IDENT k) (written_fields (rq_requiredFields req))"
        using field(3) mset_eq_setD [OF mset_written_fields [of "rq_requiredFields req"]] by (simp add: list_all_iff)
      from fields_refused [OF this]
      have "refuses_name (resolveFieldsAt True nm msg ''/__qvFields'' syn)" for nm msg
        by (simp add: resolveFieldsAt_def synthetic_fields [OF assms(3)] nullish_def is_object_def sorted_fields_written)
      then show ?thesis
        using field(1) by (simp add: resolveSqlRowSpec_def resolveTableIdent_def only_const_def const_spec_def eqs refuses_rbind)
    qed
  qed
  then show ?thesis
    by (simp add: resolveVerificationRequest_def exportSqlRowTool_def quick_row_entry_def refuses_rbind)
qed

section \<open>The entries that a run exports\<close>

text \<open>The fields of a record: no name twice, and none that a record cannot hold.\<close>

definition record_fields :: "(string \<times> scalar) list \<Rightarrow> bool" where
  "record_fields rf \<longleftrightarrow> distinct (map fst rf) \<and> ''__proto__'' \<notin> fst ` set rf"

lemma record_fields_Nil [simp]: "record_fields []"
  by (simp add: record_fields_def)

lemma record_fields_put: "record_fields rf \<Longrightarrow> record_fields (put_field k v rf)"
  by (auto simp: record_fields_def put_field_def distinct_update dom_update)

lemma record_fields_key_order: "record_fields rf \<Longrightarrow> record_fields (key_order rf)"
  using mset_eq_imp_distinct_iff [of "map fst (key_order rf)" "map fst rf"]
  by (simp add: record_fields_def set_key_order mset_key_order)

lemma record_fields_fold: "(\<And>x rf. record_fields rf \<Longrightarrow> record_fields (f x rf)) \<Longrightarrow> record_fields rf \<Longrightarrow> record_fields (fold f xs rf)"
  by (induction xs arbitrary: rf) auto

lemma plan_fields_record: "record_fields (plan_fields es pk colNames)"
  unfolding plan_fields_def
  by (intro record_fields_key_order record_fields_fold) (auto intro: record_fields_put split: option.split)

lemma augment_field_record: "record_fields rf \<Longrightarrow> record_fields (augment_field flat columns pk k rf)"
  by (auto simp: augment_field_def intro: record_fields_put split: option.split)

lemma augmented_request:
  "rq_table (augmentExportVerificationRequest req flat columns pk) = rq_table req"
  "rq_identityEq (augmentExportVerificationRequest req flat columns pk) = rq_identityEq req"
  "record_fields (rq_requiredFields req) \<Longrightarrow>
     record_fields (rq_requiredFields (augmentExportVerificationRequest req flat columns pk))"
  by (simp_all add: augmentExportVerificationRequest_def Let_def record_fields_key_order record_fields_fold augment_field_record)

lemma planned_fields:
  assumes "planRowUnit h catalog b tables w = (Inr plan, w')" and "pn_request plan = Some req"
  shows "record_fields (rq_requiredFields req)"
proof -
  from assms obtain s1 codes rationale cols pk where "plan = plan_with_key h b s1 codes rationale cols pk"
    by (auto simp: planRowUnit_def Let_def io_bind_Inr_iff no_row_def split: option.splits)
  with assms(2) show ?thesis
    by (auto simp: plan_with_key_def Let_def no_row_def plan_fields_record split: if_splits sum.splits)
qed

text \<open>
  What a replay of an exported entry yields. An entry that resolves asks for a row with the fingerprint
  of the exported request; an entry with constant keys (\<open>legacy\<close>) then asks for the very same row.
  One that does not resolve is such an entry, with a name that the resolver refuses.
\<close>

definition replays :: "host \<Rightarrow> bool \<Rightarrow> row_request \<Rightarrow> resolved resolve \<Rightarrow> bool" where
  "replays h legacy e r \<longleftrightarrow>
     (case r of
        ROk v \<Rightarrow> \<exists>q. v = RdSqlRow q \<and> normalizedSqlRowRequestFingerprint h q = normalizedSqlRowRequestFingerprint h e
          \<and> (legacy \<longrightarrow> names_are_identifiers e \<and> rq_table q = rq_table e
               \<and> mset (rq_identityEq q) = mset (rq_identityEq e)
               \<and> mset (rq_requiredFields q) = mset (rq_requiredFields e))
      | RFail code m \<Rightarrow> legacy \<and> \<not> names_are_identifiers e \<and> code \<in> {''INVALID_IDENTIFIER'', ''CONST_STRING_EMPTY''}
      | RThrow err \<Rightarrow> False)"

lemma constant_entry_replays:
  assumes distinct: "distinct (map ip_column (rq_identityEq e))" and rf: "record_fields (rq_requiredFields e)"
    and syn: "buildSyntheticRowParams h params (sorted_fields (rq_requiredFields e)) = Inr syn"
  shows "replays h True e (resolveVerificationRequest h (exportSqlRowTool tid e) syn t)"
proof (cases "names_are_identifiers e")
  case True
  then have "resolveVerificationRequest h (exportSqlRowTool tid e) syn t
      = ROk (RdSqlRow \<lparr>rq_table = rq_table e, rq_identityEq = sort_pairs (rq_identityEq e),
          rq_requiredFields = written_fields (rq_requiredFields e)\<rparr>)"
    using rf by (intro resolve_exported_row [OF _ _ distinct _ syn])
      (auto simp: names_are_identifiers_def list_all_iff record_fields_def rev_image_eqI)
  moreover have "normalizedSqlRowRequestFingerprint h \<lparr>rq_table = rq_table e, rq_identityEq = sort_pairs (rq_identityEq e),
      rq_requiredFields = written_fields (rq_requiredFields e)\<rparr> = normalizedSqlRowRequestFingerprint h e"
    using rf by (intro fingerprint_of_replay) (simp add: record_fields_def)
  moreover have "mset (sort_pairs (rq_identityEq e)) = mset (rq_identityEq e)" by (simp add: sort_pairs_def)
  ultimately show ?thesis using True by (simp add: replays_def mset_written_fields)
next
  case False
  from exported_row_refused [OF this distinct syn, of tid t]
  have "refuses_name (resolveVerificationRequest h (exportSqlRowTool tid e) syn t)" .
  with False show ?thesis
    by (cases "resolveVerificationRequest h (exportSqlRowTool tid e) syn t") (simp_all add: refuses_name_def replays_def)
qed

lemma pointer_entry_replays:
  assumes "pointer_export h st a plan req out = Inr (Some (syn, specs))"
  shows "replays h False req (resolveVerificationRequest h
    (exportSqlRowParamPointerTool (fresh_tool_id (used_ids st) (''quick:'' @ unit_id st)) (rq_table req) specs) syn None)"
proof -
  let ?r = "resolveVerificationRequest h
    (exportSqlRowParamPointerTool (fresh_tool_id (used_ids st) (''quick:'' @ unit_id st)) (rq_table req) specs) syn None"
  from assms have "same_request h ?r req = Inr True"
    by (auto simp: pointer_export_def Let_def throws_bind_Inr_iff split: option.splits if_splits sum.splits)
  then show ?thesis
    by (auto simp: same_request_def replays_def throws_bind_Inr_iff split: resolve.splits resolved.splits)
qed

text \<open>Exporting a row adds no entry, or one that replays.\<close>

lemma export_row_replays:
  assumes plan: "planRowUnit h catalog b tables w0 = (Inr plan, w1)" "pn_request plan = Some req"
    and distinct: "distinct (map ip_column (rq_identityEq req))"
    and ptr: "pointer_export h st a plan req out = Inr pointers"
    and ex: "export_row h qd a b plan req pointers st w = (Inr st', w')"
  shows "st' = st \<or> (\<exists>t e syn. st' = pushTool t (RowExport (re_toolId t) e (Some syn)) st
    \<and> rq_table e = rq_table req \<and> rq_identityEq e = rq_identityEq req
    \<and> replays h (T_EXPORT \<le> pn_confidence plan) e (resolveVerificationRequest h t syn None))"
proof (cases "T_EXPORT \<le> pn_confidence plan")
  case True
  let ?tid = "fresh_tool_id (used_ids st) (''quick:'' @ unit_id st)"
  from True ex obtain cols e syn where
    e: "e = augmentExportVerificationRequest req (bk_flat b) (js_sort compareUtf16Id cols) (map ip_column (rq_identityEq req))"
    and syn: "buildSyntheticRowParams h (sa_params a) (sorted_fields (rq_requiredFields e)) = Inr syn"
    and st': "st' = pushTool (exportSqlRowTool ?tid e) (RowExport ?tid e (Some syn)) st"
    by (auto simp: export_row_def legacy_export_def Let_def io_bind_Inr_iff io_lift_def io_return_def)
  have rf: "record_fields (rq_requiredFields e)"
    unfolding e by (rule augmented_request(3) [OF planned_fields [OF plan]])
  have same: "rq_table e = rq_table req" "rq_identityEq e = rq_identityEq req" by (simp_all add: e augmented_request)
  have "replays h True e (resolveVerificationRequest h (exportSqlRowTool ?tid e) syn None)"
    by (rule constant_entry_replays [OF _ rf syn]) (use distinct in \<open>simp add: same\<close>)
  with True st' same show ?thesis
    by (intro disjI2 exI [of _ "exportSqlRowTool ?tid e"] exI [of _ e] exI [of _ syn])
      (simp add: exportSqlRowTool_def quick_row_entry_def)
next
  case False
  show ?thesis
  proof (cases pointers)
    case None
    with False ex show ?thesis by (simp add: export_row_def Let_def io_return_def)
  next
    case (Some p)
    obtain syn specs where p: "p = (syn, specs)" by (cases p)
    let ?t = "exportSqlRowParamPointerTool (fresh_tool_id (used_ids st) (''quick:'' @ unit_id st)) (rq_table req) specs"
    have "replays h False req (resolveVerificationRequest h ?t syn None)"
      by (rule pointer_entry_replays) (use ptr Some p in simp)
    with False Some p ex show ?thesis
      by (intro disjI2 exI [of _ ?t] exI [of _ req] exI [of _ syn])
        (simp add: export_row_def Let_def io_return_def exportSqlRowParamPointerTool_def quick_row_entry_def)
  qed
qed

end
