(* ===== verification/EditDistance.thy ===== *)
theory EditDistance
  imports QuickScoring
begin

text \<open>
  The edit distance by which names are scored (\<open>levenshtein\<close> of
  \<open>src/quickVerify/tableScoring.ts\<close>) is the least cost of an alignment. The loop fills a table of
  the distances between prefixes; the specification aligns the texts letter by letter.
\<close>

section \<open>Alignments\<close>

text \<open>
  \<open>edits a b n\<close>: some alignment of \<open>a\<close> with \<open>b\<close> costs \<open>n\<close>, where a letter left out, a letter put in
  and a letter exchanged for another cost one each.
\<close>

inductive edits :: "string \<Rightarrow> string \<Rightarrow> nat \<Rightarrow> bool" where
  edits_Nil: "edits [] [] 0"
| edits_delete: "edits a b n \<Longrightarrow> edits (x # a) b (Suc n)"
| edits_insert: "edits a b n \<Longrightarrow> edits a (y # b) (Suc n)"
| edits_match: "edits a b n \<Longrightarrow> edits (x # a) (y # b) (n + (if x = y then 0 else 1))"

lemma edits_append: "edits a b n \<Longrightarrow> edits c d m \<Longrightarrow> edits (a @ c) (b @ d) (n + m)"
proof (induction a b n rule: edits.induct)
  case (edits_match a b n x y)
  then show ?case
    using edits.edits_match [of "a @ c" "b @ d" "n + m" x y] by (auto simp: add.commute add.left_commute)
qed (auto intro: edits.intros)

lemma edits_single:
  "edits [x] [] 1" "edits [] [y] 1" "edits [x] [y] (if x = y then 0 else 1)"
  using edits_delete [OF edits_Nil] edits_insert [OF edits_Nil] edits_match [OF edits_Nil, of x y] by simp_all

text \<open>Alignments can be read from the right, so that the order in which a table is filled does not matter.\<close>

lemma edits_rev: "edits a b n \<Longrightarrow> edits (rev a) (rev b) n"
proof (induction a b n rule: edits.induct)
  case edits_Nil
  then show ?case by (auto intro: edits.intros)
next
  case (edits_delete a b n x)
  then show ?case using edits_append [OF edits_delete.IH edits_single(1) [of x]] by simp
next
  case (edits_insert a b n y)
  then show ?case using edits_append [OF edits_insert.IH edits_single(2) [of y]] by simp
next
  case (edits_match a b n x y)
  then show ?case using edits_append [OF edits_match.IH edits_single(3) [of x y]] by simp
qed

lemma edits_rev_iff: "edits (rev a) (rev b) n \<longleftrightarrow> edits a b n"
  using edits_rev [of a b n] edits_rev [of "rev a" "rev b" n] by auto

section \<open>The least cost, by recursion\<close>

fun least_edits :: "string \<Rightarrow> string \<Rightarrow> nat" where
  "least_edits [] b = length b"
| "least_edits a [] = length a"
| "least_edits (x # a) (y # b) =
     min (min (least_edits a (y # b) + 1) (least_edits (x # a) b + 1)) (least_edits a b + (if x = y then 0 else 1))"

lemma least_edits_Nil [simp]: "least_edits a [] = length a"
  by (cases a) simp_all

lemma least_edits_reached: "edits a b (least_edits a b)"
proof (induction a b rule: least_edits.induct)
  case (1 b)
  then show ?case by (induction b) (auto intro: edits.intros)
next
  case (2 x a)
  have "edits a [] (length a)" for a by (induction a) (auto intro: edits.intros)
  then show ?case by (auto intro: edits_delete)
next
  case (3 x a y b)
  then show ?case
    using edits_delete [OF 3(1)] edits_insert [OF 3(2)] edits_match [OF 3(3), of x y]
    by (simp add: min_def split: if_splits)
qed

lemma least_edits_step:
  "least_edits (x # a) b \<le> Suc (least_edits a b)" "least_edits a (y # b) \<le> Suc (least_edits a b)"
  "least_edits (x # a) (y # b) \<le> least_edits a b + (if x = y then 0 else 1)"
proof -
  show "least_edits (x # a) b \<le> Suc (least_edits a b)" by (cases b) (simp_all add: min_def)
  show "least_edits a (y # b) \<le> Suc (least_edits a b)" by (cases a) (simp_all add: min_def)
  show "least_edits (x # a) (y # b) \<le> least_edits a b + (if x = y then 0 else 1)" by simp
qed

lemma least_edits_least: "edits a b n \<Longrightarrow> least_edits a b \<le> n"
proof (induction a b n rule: edits.induct)
  case (edits_delete a b n x)
  then show ?case using least_edits_step(1) [of x a b] by linarith
next
  case (edits_insert a b n y)
  then show ?case using least_edits_step(2) [of a y b] by linarith
next
  case (edits_match a b n x y)
  then show ?case using least_edits_step(3) [of x a y b] by linarith
qed simp

section \<open>The table\<close>

text \<open>A row of the table: the distances from one prefix, reversed, to every prefix of \<open>b\<close>.\<close>

definition table_row :: "string \<Rightarrow> string \<Rightarrow> string \<Rightarrow> nat list" where
  "table_row r d b = map (\<lambda>j. least_edits r (rev (take j b) @ d)) [0..<Suc (length b)]"

lemma table_row_Nil [simp]: "table_row r d [] = [least_edits r d]"
  by (simp add: table_row_def)

lemma table_row_Cons [simp]: "table_row r d (y # b) = least_edits r d # table_row r (y # d) b"
proof -
  have "[0..<Suc (length (y # b))] = 0 # map Suc [0..<Suc (length b)]"
    by (subst upt_conv_Cons) (simp_all only: map_Suc_upt list.size zero_less_Suc One_nat_def add_Suc_right add_0_right)
  then show ?thesis by (simp add: table_row_def comp_def del: upt_Suc)
qed

lemma dp_cells_row:
  "dp_cells x (least_edits r d) (least_edits (x # r) d) b (tl (table_row r d b)) = tl (table_row (x # r) d b)"
proof (induction b arbitrary: d)
  case (Cons y b)
  obtain t ts where row: "table_row r (y # d) b = t # ts" "t = least_edits r (y # d)"
    by (cases b) simp_all
  then show ?case using Cons.IH [of "y # d"]
    by (cases b) (simp_all add: Let_def)
qed simp

lemma dp_row_table:
  assumes "i = least_edits (x # r) []"
  shows "dp_row b i x (table_row r [] b) = table_row (x # r) [] b"
proof -
  obtain ts where row: "table_row r [] b = least_edits r [] # ts" by (cases b) simp_all
  have "dp_cells x (least_edits r []) i b ts = tl (table_row (x # r) [] b)"
    using dp_cells_row [of x r "[]" b] assms row by simp
  moreover have "table_row (x # r) [] b = i # tl (table_row (x # r) [] b)" using assms by (cases b) simp_all
  ultimately show ?thesis using row by simp
qed

lemma dp_rows_table: "dp_rows b (Suc (length r)) a (table_row r [] b) = table_row (rev a @ r) [] b"
proof (induction a arbitrary: r)
  case (Cons x a)
  then show ?case using dp_row_table [of "Suc (length r)" x r b] Cons.IH [of "x # r"] by simp
qed simp

lemma last_table_row: "last (table_row r d b) = least_edits r (rev b @ d)"
proof (induction b arbitrary: d)
  case (Cons y b)
  have "table_row r (y # d) b \<noteq> []" by (cases b) simp_all
  then show ?case using Cons.IH [of "y # d"] by simp
qed simp

lemma levenshtein_table: "levenshtein a b = least_edits (rev a) (rev b)"
proof -
  have "[0..<Suc (length b)] = table_row [] [] b"
    by (simp add: table_row_def min_def del: upt_Suc) (rule nth_equalityI, auto simp del: upt_Suc)
  then show ?thesis
    using dp_rows_table [of b "[]" a] last_table_row [of "rev a" "[]" b] by (simp add: levenshtein_def)
qed

end
