(* ===== verification/QuickClaims.thy ===== *)
theory QuickClaims
  imports QuickExamples QuickEvidence QuickReplay EditDistance
begin

text \<open>
  The properties of quick verification, with the concrete run on which they are applied.
\<close>

section \<open>Verdicts and reports\<close>



text \<open>
  C31: the bounds and the bookkeeping of a run. A report has at most twenty units, named in order;
  the code for too many units never appears; the exported entries have names of their own, in
  order, one for each unit that says it can be replayed, each with an event that replays it.
\<close>

theorem quick_report_accounts:
  assumes "runQuickVerify h rt opts w = (Inr res, w')"
  shows "length (qv_units (qk_base (qt_report res))) \<le> 20
    \<and> map qr_unitId (qv_units (qk_base (qt_report res)))
        = map (\<lambda>i. ''u'' @ nat_str i) [0..<length (qv_units (qk_base (qt_report res)))]
    \<and> qv_runHeaderReasonCodes (qk_base (qt_report res)) = None
    \<and> sorted_wrt (<) (map re_toolId (qk_tools (qt_report res)))
    \<and> map qe_toolId (qt_contractExports res) = map re_toolId (qk_tools (qt_report res))
    \<and> length (qk_tools (qt_report res)) = length (filter qr_contractEligible (qv_units (qk_base (qt_report res))))
    \<and> (\<exists>reg. buildRegistryMap (qk_tools (qt_report res)) = Inr reg)"
proof -
  define ig where "ig = ingestActivityUtf8 h (qo_inputUtf8 opts)"
  from quick_run_shape [OF assms ig_def] show ?thesis
  proof (elim disjE conjE)
    assume "quick_report_of h (too_large_base ig) [] [] = Inr res"
    from quick_report_of_fields [OF this] show ?thesis by (simp add: too_large_base_def buildRegistryMap_def)
  next
    assume "report_reached h ig res"
    then obtain st warnings where ok: "quick_ok st"
      and r: "quick_report_of h (final_base ig warnings st) (sort_tools (qs_tools st)) (sort_exports (qs_exports st)) = Inr res"
      unfolding report_reached_def by blast
    note sorted = sorted_tools [OF ok]
    from ok quick_report_of_fields [OF r] sorted show ?thesis
      by (simp add: final_base_def Let_def quick_ok_def unless_empty_def sort_tools_def)
  qed
qed

lemma quick_report_accounts_witness:
  "\<exists>res :: quick_result. map re_toolId (qk_tools (qt_report res)) = [''quick:u0'']
     \<and> length (filter qr_contractEligible (qv_units (qk_base (qt_report res)))) = 1
     \<and> (\<exists>reg. buildRegistryMap (qk_tools (qt_report res)) = Inr reg)"
proof -
  obtain res where run: "runQuickVerify quick_host (runtime_on quick_demo_db) quick_demo_options () = (Inr res, ())"
    and tools: "map re_toolId (qk_tools (qt_report res)) = [''quick:u0'']"
    using quick_demo_passes by (elim exE conjE) (rule that)
  from arg_cong [OF tools, of length] have "length (qk_tools (qt_report res)) = 1" by simp
  note p = quick_report_accounts [OF run] this
  show ?thesis by (intro exI [of _ res] conjI tools) (use p in simp_all)
qed

text \<open>
  C32: quick verification only reads. A property of the outside that every \<open>SELECT\<close>, the read-only
  guard and the two pragmas on a quoted table keep, and that opening and closing keep, is kept by a
  whole run: whatever the captured activity holds, no other statement is sent.
\<close>

theorem quick_run_only_reads:
  assumes "runQuickVerify h rt opts w = (res, w')" and "quick_runtime_keeps I rt" and "I w"
  shows "I w'"
proof -
  have "keeps I (runQuickVerify h rt opts)"
    unfolding runQuickVerify_def Let_def
    by (auto intro!: keeps_intros keeps_with_quick_db [OF assms(2)] keeps_quick_run_on)
  with assms show ?thesis by (metis keeps_def snd_conv)
qed

text \<open>A database that logs what it is sent.\<close>

lemma quick_log_keeps: "quick_runtime_keeps (list_all quick_reads) (runtime_on (logging_db rows))"
  by (auto simp: quick_runtime_keeps_def quick_sqlite_keeps_def runtime_on_def logging_db_def keeps_def
      demo_drivers_def demo_client_def quick_query_keeps_def)

lemma quick_run_only_reads_witness:
  "\<forall>h rows opts. list_all quick_reads (snd (runQuickVerify h (runtime_on (logging_db rows)) opts []))"
  using quick_run_only_reads [OF surjective_pairing quick_log_keeps] by simp

section \<open>Exported rows\<close>

text \<open>
  C33: what replaying an exported row yields. For a planned row with no key column twice, the step of a
  run that exports it either adds nothing or adds one entry with the parameters that replay it. If the
  entry, resolved on these parameters, yields a request, then that has the fingerprint of the exported
  one, and for an entry with constant keys it is the same row: table, columns and fields with their
  values. An entry with constant keys, exported for its confidence alone, resolves exactly when the
  table, the columns and the fields are identifiers; else the replay is refused
  (\<open>INVALID_IDENTIFIER\<close>, or \<open>CONST_STRING_EMPTY\<close> for the empty text). An entry whose keys are read
  through pointers always resolves.
\<close>

theorem exported_row_replays:
  assumes "planRowUnit h catalog b tables w0 = (Inr plan, w1)" and "pn_request plan = Some req"
    and "distinct (map ip_column (rq_identityEq req))"
    and "pointer_export h st a plan req out = Inr pointers"
    and "export_row h qd a b plan req pointers st w = (Inr st', w')"
  shows "st' = st \<or> (\<exists>t e syn. st' = pushTool t (RowExport (re_toolId t) e (Some syn)) st
    \<and> rq_table e = rq_table req \<and> rq_identityEq e = rq_identityEq req
    \<and> (case resolveVerificationRequest h t syn None of
          ROk v \<Rightarrow> \<exists>q. v = RdSqlRow q \<and> normalizedSqlRowRequestFingerprint h q = normalizedSqlRowRequestFingerprint h e
            \<and> (T_EXPORT \<le> pn_confidence plan \<longrightarrow> names_are_identifiers e \<and> rq_table q = rq_table e
                 \<and> mset (rq_identityEq q) = mset (rq_identityEq e)
                 \<and> mset (rq_requiredFields q) = mset (rq_requiredFields e))
        | RFail code m \<Rightarrow> T_EXPORT \<le> pn_confidence plan \<and> \<not> names_are_identifiers e
            \<and> code \<in> {''INVALID_IDENTIFIER'', ''CONST_STRING_EMPTY''}
        | RThrow err \<Rightarrow> False))"
  using export_row_replays [OF assms] unfolding replays_def .

text \<open>The table \<open>c\<close> replays; the table \<open>c r\<close> is exported as well, and its replay is refused.\<close>

lemma exported_row_replays_witness:
  "(\<exists>t syn q. fst (export_row quick_host (keyed_db ''c'') (keyed_call ''c'') (keyed_bucket ''c'') (keyed_plan ''c'' 1)
        (keyed_row ''c'') None initial_quick_state ())
      = Inr (pushTool t (RowExport (re_toolId t) (keyed_row ''c'') (Some syn)) initial_quick_state)
      \<and> resolveVerificationRequest quick_host t syn None = ROk (RdSqlRow q) \<and> rq_table q = ''c'')
   \<and> (\<exists>t syn code m. fst (export_row quick_host (keyed_db ''c r'') (keyed_call ''c r'') (keyed_bucket ''c r'')
        (keyed_plan ''c r'' (7505999378950827 / 9007199254740992)) (keyed_row ''c r'') None initial_quick_state ())
      = Inr (pushTool t (RowExport (re_toolId t) (keyed_row ''c r'') (Some syn)) initial_quick_state)
      \<and> resolveVerificationRequest quick_host t syn None = RFail code m)"
proof -
  have q: "T_EXPORT \<le> 1" "T_EXPORT \<le> 7505999378950827 / 9007199254740992" by code_simp+
  have plan: "pn_request (keyed_plan t p) = Some (keyed_row t)" "pn_confidence (keyed_plan t p) = p"
    "distinct (map ip_column (rq_identityEq (keyed_row t)))" for t p
    by (simp_all add: keyed_plan_def keyed_row_def)
  have names: "names_are_identifiers (keyed_row ''c'')" "\<not> names_are_identifiers (keyed_row ''c r'')" by code_simp+
  obtain t1 syn1 where ex1: "export_row quick_host (keyed_db ''c'') (keyed_call ''c'') (keyed_bucket ''c'') (keyed_plan ''c'' 1)
      (keyed_row ''c'') None initial_quick_state ()
    = (Inr (pushTool t1 (RowExport (re_toolId t1) (keyed_row ''c'') (Some syn1)) initial_quick_state), ())"
    using keyed_exports(2) [OF q(1)] by blast
  obtain t2 syn2 where ex2: "export_row quick_host (keyed_db ''c r'') (keyed_call ''c r'') (keyed_bucket ''c r'')
      (keyed_plan ''c r'' (7505999378950827 / 9007199254740992)) (keyed_row ''c r'') None initial_quick_state ()
    = (Inr (pushTool t2 (RowExport (re_toolId t2) (keyed_row ''c r'') (Some syn2)) initial_quick_state), ())"
    using keyed_exports(2) [OF q(2)] by blast
  note r1 = exported_row_replays [OF keyed_planned(1) plan(1) plan(3) keyed_exports(1) [OF q(1)] ex1]
  note r2 = exported_row_replays [OF keyed_planned(2) plan(1) plan(3) keyed_exports(1) [OF q(2)] ex2]
  have "\<exists>v. resolveVerificationRequest quick_host t1 syn1 None = ROk (RdSqlRow v) \<and> rq_table v = ''c''"
    using r1 names(1) q(1)
    by (cases "resolveVerificationRequest quick_host t1 syn1 None")
      (auto simp: pushTool_def initial_quick_state_def plan keyed_row_def)
  moreover have "\<exists>code m. resolveVerificationRequest quick_host t2 syn2 None = RFail code m"
    using r2 names(2) q(2)
    by (cases "resolveVerificationRequest quick_host t2 syn2 None")
      (auto simp: pushTool_def initial_quick_state_def plan)
  ultimately show ?thesis unfolding ex1 ex2 fst_conv by blast
qed

section \<open>Captured activity\<close>

text \<open>
  C35: what the reader of captured activity returns. Either there are actions: at most fifty, under no
  code or the code for too many actions, never one for a malformed line, whatever else the stream
  holds. Or there are none, and the codes say why: the input is too large, it is blank, or nothing in
  it was a tool call, after one code for each malformed line.
\<close>

theorem activity_is_read_or_explained: "ingest_ok (ingestActivityUtf8 h s)"
  by (rule ingestActivity_ok)

section \<open>Similarity of names\<close>

text \<open>
  C34: the edit distance that scores names against tables and columns is the least cost of an
  alignment of the two texts: some alignment has this cost and none has a lower one.
\<close>

theorem levenshtein_is_least:
  "edits a b (levenshtein a b) \<and> (\<forall>n. edits a b n \<longrightarrow> levenshtein a b \<le> n)"
  using least_edits_reached [of "rev a" "rev b"] least_edits_least [of "rev a" "rev b"]
  by (simp add: levenshtein_table edits_rev_iff)

lemma levenshtein_is_least_witness:
  "levenshtein ''rod'' ''ord'' \<le> Suc (Suc 0) \<and> edits ''rod'' ''ord'' (levenshtein ''rod'' ''ord'')"
proof -
  have "edits ''rod'' ''ord'' (Suc (Suc 0))"
    using edits_delete [OF edits_match [OF edits_insert [OF edits_match [OF edits_Nil, of "CHR ''d''" "CHR ''d''"],
      of "CHR ''r''"], of "CHR ''o''" "CHR ''o''"], of "CHR ''r''"] by simp
  then show ?thesis using levenshtein_is_least [of "''rod''" "''ord''"] by (simp only: HOL.simp_thms)
qed

lemma fold_A_Z_word: "CHR ''-'' \<notin> set s \<Longrightarrow> fold_A_Z s = s"
  by (induction s rule: fold_A_Z.induct) auto

lemma words_of_chars: "w \<in> set (words_of p acc s) \<Longrightarrow> list_all p acc \<Longrightarrow> list_all p w"
  by (induction p acc s rule: words_of.induct) (auto split: if_splits)

lemma words_are_alphanumeric: "w \<in> set (words_of token_char [] s) \<Longrightarrow> CHR ''-'' \<notin> set w"
  using words_of_chars [of w token_char "[]" s] by (auto simp: list_all_iff token_char_def Let_def)

text \<open>
  C36: capital letters of a tool name are never folded, so that names are compared with their case: the
  words of a name are taken as they are, and the tool \<open>CRM\<close> scores nothing against the table \<open>crm\<close>.
\<close>

theorem tool_names_keep_their_case:
  "tokens toolName = words_of token_char [] toolName \<and> tableScoreAction ''CRM'' ''crm'' = 0"
proof -
  have "tokens toolName = words_of token_char [] toolName"
    unfolding tokens_def by (rule map_idI) (simp add: words_are_alphanumeric fold_A_Z_word)
  moreover have "tableScoreAction ''CRM'' ''crm'' = 0" by code_simp
  ultimately show ?thesis by blast
qed

end
