(* ===== verification/PlanHarvest.thy ===== *)
theory PlanHarvest
  imports FailureOrigins
begin

text \<open>
  The paths a plan names (\<open>src/planTransitionPathHarvest.ts\<close>): which lines of a Markdown plan
  oblige, which links and code spans of them are paths of the repository, and the sorted list of
  those paths. The regular expressions of the source are written as scanners over the string.
  U+FEFF, U+2013 and U+2014 are the characters 0x8F, 0x96 and 0x97 of the model's alphabet.
  What \<open>new URL\<close> and \<open>decodeURIComponent\<close> make of a \<open>file:\<close> URL is a parameter (\<open>None\<close>: one of
  them throws).
\<close>

section \<open>Scanners\<close>

text \<open>What is left of \<open>s\<close> after the prefix \<open>p\<close>.\<close>

definition after :: "string \<Rightarrow> string \<Rightarrow> string option" where
  "after p s = (if starts_with p s then Some (drop (length p) s) else None)"

definition begins_blank :: "string \<Rightarrow> bool" where
  "begins_blank s \<longleftrightarrow> s \<noteq> [] \<and> is_ws (hd s)"

text \<open>A character of \<open>\w\<close>, and the tails of \<open>s\<close> that begin at a \<open>\b\<close> followed by such a character.\<close>

definition regex_word_char :: "char \<Rightarrow> bool" where
  "regex_word_char c = (let n = (of_char c :: nat) in
     (48 \<le> n \<and> n \<le> 57) \<or> (65 \<le> n \<and> n \<le> 90) \<or> n = 95 \<or> (97 \<le> n \<and> n \<le> 122))"

fun word_tails :: "bool \<Rightarrow> string \<Rightarrow> string list" where
  "word_tails inside [] = []"
| "word_tails inside (c # cs) =
     (if regex_word_char c \<and> \<not> inside then [c # cs] else []) @ word_tails (regex_word_char c) cs"

definition first_word :: "string \<Rightarrow> string" where
  "first_word s = takeWhile regex_word_char s"

definition after_regex_word :: "string \<Rightarrow> string" where
  "after_regex_word s = dropWhile regex_word_char s"

text \<open>Words separated by white space, the last one ending at a \<open>\b\<close>.\<close>

fun phrase_at :: "string list \<Rightarrow> string \<Rightarrow> bool" where
  "phrase_at [] s = True"
| "phrase_at [w] s = (first_word s = w)"
| "phrase_at (w # v # ws) s =
     (first_word s = w \<and> begins_blank (after_regex_word s) \<and> phrase_at (v # ws) (dropWhile is_ws (after_regex_word s)))"

section \<open>The patterns of a line\<close>

definition REFERENCE_PHRASES :: "string list list" where
  "REFERENCE_PHRASES =
     [[''same'', ''pattern''], [''same'', ''shape'', ''as''], [''seeded'', ''from''], [''required'', ''setup''],
      [''use'', ''the'', ''same''], [''similar'', ''to''], [''mirrors''], [''for'', ''example''],
      [''hypothetical''], [''chosen'', ''in'', ''fixture'']]"

text \<open>\<open>(?:e\.g\.|i\.e\.)(?=\s|,|$)\<close>, anywhere.\<close>

fun abbreviation_in :: "string \<Rightarrow> bool" where
  "abbreviation_in [] = False"
| "abbreviation_in (c # cs) =
     ((take 4 (c # cs) = ''e.g.'' \<or> take 4 (c # cs) = ''i.e.'')
        \<and> (let rest = drop 4 (c # cs) in rest = [] \<or> begins_blank rest \<or> starts_with '','' rest)
      \<or> abbreviation_in cs)"

definition reference_only :: "string \<Rightarrow> bool" where
  "reference_only line =
     (let s = toLowerCase line
      in list_ex (\<lambda>t. list_ex (\<lambda>p. phrase_at p t) REFERENCE_PHRASES) (word_tails False s) \<or> abbreviation_in s)"

definition STRONG_ACTIONS :: "string list" where
  "STRONG_ACTIONS =
     [''add'', ''adds'', ''adding'', ''create'', ''created'', ''creates'', ''extend'', ''extends'', ''update'',
      ''updates'', ''modify'', ''modifies'', ''change'', ''changes'', ''introduce'', ''introduces'', ''merge'',
      ''merges'', ''delete'', ''deletes'', ''remove'', ''removes'', ''implement'', ''implements'', ''adjust'',
      ''adjusts'', ''sync'', ''syncs'', ''refactor'', ''refactors'', ''wires'', ''improve'', ''improves'',
      ''touch'', ''touches'', ''split'', ''splits'', ''move'', ''moves'', ''rename'', ''renames'']"

text \<open>\<open>wire(?!\s+schema)\<close> is the one verb with a condition on what follows.\<close>

definition strong_action_at :: "string \<Rightarrow> bool" where
  "strong_action_at t \<longleftrightarrow> first_word t \<in> set STRONG_ACTIONS
     \<or> (first_word t = ''wire''
        \<and> \<not> (begins_blank (after_regex_word t) \<and> starts_with ''schema'' (dropWhile is_ws (after_regex_word t))))"

definition strong_action :: "string \<Rightarrow> bool" where
  "strong_action s = list_ex strong_action_at (word_tails False (toLowerCase s))"

definition normative_modal :: "string \<Rightarrow> bool" where
  "normative_modal s =
     list_ex (\<lambda>t. list_ex (\<lambda>p. phrase_at p t) [[''must''], [''shall''], [''required'', ''to'']])
       (word_tails False (toLowerCase s))"

text \<open>\<open>/^\s*\d+\.\s/\<close>.\<close>

definition numbered_fragment :: "string \<Rightarrow> bool" where
  "numbered_fragment s =
     (let t = dropWhile is_ws s; u = dropWhile is_digit t
      in u \<noteq> t \<and> (case after ''.'' u of None \<Rightarrow> False | Some v \<Rightarrow> begins_blank v))"

definition OBLIGATION_WORDS :: "string list" where
  "OBLIGATION_WORDS = [''implementation'', ''deliverables'', ''testing'', ''documentation'', ''validation'']"

text \<open>\<open>(?:\s|[:\u2014\u2013\-]|$)\<close> after the word.\<close>

definition title_break :: "string \<Rightarrow> bool" where
  "title_break s \<longleftrightarrow> s = [] \<or> is_ws (hd s) \<or> hd s \<in> {CHR '':'', CHR 0x97, CHR 0x96, CHR ''-''}"

definition line_end_char :: "char \<Rightarrow> bool" where
  "line_end_char c \<longleftrightarrow> (of_char c :: nat) \<in> {10, 13}"

definition obligation_title :: "string \<Rightarrow> bool" where
  "obligation_title title =
     list_ex (\<lambda>t. let n = length title - length t
         in n \<le> 120 \<and> \<not> list_ex line_end_char (take n title) \<and> first_word t \<in> set OBLIGATION_WORDS
            \<and> title_break (after_regex_word t))
       (word_tails False (toLowerCase title))"

section \<open>Paths\<close>

definition ALLOWED_EXT :: "string list" where
  "ALLOWED_EXT = [''ts'', ''tsx'', ''js'', ''mjs'', ''json'', ''md'', ''sql'']"

definition ROOTS :: "string list" where
  "ROOTS = [''src'', ''schemas'', ''examples'', ''docs'', ''test'', ''debug-ui'', ''plans'']"

definition STRONG_ROOT_PREFIXES :: "string list" where
  "STRONG_ROOT_PREFIXES = [''examples/'', ''docs/'', ''schemas/'', ''plans/'']"

definition WEAK_ROOT_PREFIXES :: "string list" where
  "WEAK_ROOT_PREFIXES = [''src/'', ''test/'', ''debug-ui/'']"

definition root_at :: "string \<Rightarrow> string option" where
  "root_at s = find (\<lambda>r. starts_with (r @ ''/'') s) ROOTS"

text \<open>The matches of \<open>ANCHOR_RE\<close>: where each root begins. A match consumes the slash after its root.\<close>

function anchor_starts :: "nat \<Rightarrow> string \<Rightarrow> nat list" where
  "anchor_starts i [] = []"
| "anchor_starts i (c # cs) =
     (case (if i = 0 then root_at (c # cs) else None) of
        Some r \<Rightarrow> i # anchor_starts (i + length r + 1) (drop (length r) cs)
      | None \<Rightarrow>
          (case (if c = CHR ''/'' then root_at cs else None) of
             Some r \<Rightarrow> (i + 1) # anchor_starts (i + 1 + length r + 1) (drop (length r + 1) cs)
           | None \<Rightarrow> anchor_starts (i + 1) cs))"
  by pat_completeness auto
termination
  by (relation "measure (\<lambda>(i, s). length s)") auto

definition segment_char :: "char \<Rightarrow> bool" where
  "segment_char c \<longleftrightarrow> regex_word_char c \<or> c = CHR ''.'' \<or> c = CHR ''-''"

text \<open>\<open>ROOT/segment(/segment)*\<close>.\<close>

definition rooted :: "string \<Rightarrow> bool" where
  "rooted s = (case root_at s of
     None \<Rightarrow> False
   | Some r \<Rightarrow> list_all (\<lambda>p. p \<noteq> [] \<and> list_all segment_char p) (split_on (CHR ''/'') (drop (length r + 1) s)))"

text \<open>The two parts of \<open>s\<close> around its last dot.\<close>

definition at_last_dot :: "string \<Rightarrow> (string \<times> string) option" where
  "at_last_dot s =
     (let ext = rev (takeWhile (\<lambda>c. c \<noteq> CHR ''.'') (rev s))
      in if length ext < length s then Some (take (length s - length ext - 1) s, ext) else None)"

fun strip_dot_slash :: "string \<Rightarrow> string" where
  "strip_dot_slash (a # b # s) = (if a = CHR ''.'' \<and> b = CHR ''/'' then strip_dot_slash s else a # b # s)"
| "strip_dot_slash s = s"

definition trimAsciiSpaceTab :: "string \<Rightarrow> string" where
  "trimAsciiSpaceTab s =
     (let blank = (\<lambda>c. c = CHR 0x09 \<or> c = CHR '' '') in rev (dropWhile blank (rev (dropWhile blank s))))"

definition slashes :: "string \<Rightarrow> string" where
  "slashes = map (\<lambda>c. if c = CHR 0x5C then CHR ''/'' else c)"

definition refused_char :: "char \<Rightarrow> bool" where
  "refused_char c \<longleftrightarrow> (of_char c :: nat) \<le> 32 \<or> c = CHR ''?'' \<or> c = CHR ''#''"

definition qualify :: "string \<Rightarrow> string option" where
  "qualify R =
     (if js_includes ''..'' R \<or> list_ex refused_char R then None
      else (case anchor_starts 0 R of
          [] \<Rightarrow> None
        | starts \<Rightarrow>
            (let P = drop (last starts) R
             in if js_includes ''//'' P then None
                else (case at_last_dot P of
                    None \<Rightarrow> None
                  | Some (stem, raw) \<Rightarrow>
                      (let ext = toLowerCase raw
                       in if rooted stem \<and> raw \<noteq> [] \<and> ext \<in> set ALLOWED_EXT
                          then Some (stem @ ''.'' @ ext) else None)))))"

definition normalizeAndQualify :: "(string \<Rightarrow> string option) \<Rightarrow> string \<Rightarrow> string option" where
  "normalizeAndQualify fileUrlPath rawCandidate =
     (let R = trimAsciiSpaceTab rawCandidate
      in if R = [] then None
         else (let R1 = (if starts_with ''file:'' (toLowerCase R)
                         then (case fileUrlPath R of None \<Rightarrow> R | Some p \<Rightarrow> p) else R)
               in qualify (strip_dot_slash (slashes R1))))"

section \<open>Links and code spans\<close>

text \<open>A link after its opening bracket: the target, and what follows the link.\<close>

definition link_title_end :: "string \<Rightarrow> string option" where
  "link_title_end u =
     (case after '')'' u of
        Some v \<Rightarrow> Some v
      | None \<Rightarrow>
          (if begins_blank u
           then (case after [CHR 0x22] (dropWhile is_ws u) of
               None \<Rightarrow> None
             | Some q \<Rightarrow> after [CHR 0x22, CHR '')''] (dropWhile (\<lambda>c. c \<noteq> CHR 0x22) q))
           else None))"

definition link_at :: "string \<Rightarrow> (string \<times> string) option" where
  "link_at s =
     (case after ''](''  (dropWhile (\<lambda>c. c \<noteq> CHR '']'') s) of
        None \<Rightarrow> None
      | Some t \<Rightarrow>
          (let inner = (\<lambda>c. c \<noteq> CHR '')'' \<and> \<not> is_ws c); target = takeWhile inner t
           in if target = [] then None
              else map_option (\<lambda>v. (target, v)) (link_title_end (dropWhile inner t))))"

lemma after_length: "after p s = Some v \<Longrightarrow> length v \<le> length s"
  by (auto simp: after_def split: if_splits)

lemma link_title_end_length: "link_title_end u = Some v \<Longrightarrow> length v \<le> length u"
proof -
  assume "link_title_end u = Some v"
  then consider "after '')'' u = Some v"
    | q where "after [CHR 0x22] (dropWhile is_ws u) = Some q"
        "after [CHR 0x22, CHR '')''] (dropWhile (\<lambda>c. c \<noteq> CHR 0x22) q) = Some v"
    by (auto simp: link_title_end_def split: option.splits if_splits)
  then show ?thesis
    by cases (use after_length length_dropWhile_le order_trans in \<open>metis+\<close>)
qed

lemma link_at_length: "link_at s = Some (t, v) \<Longrightarrow> length v \<le> length s"
proof -
  assume "link_at s = Some (t, v)"
  then obtain u where "after ''](''  (dropWhile (\<lambda>c. c \<noteq> CHR '']'') s) = Some u"
      "link_title_end (dropWhile (\<lambda>c. c \<noteq> CHR '')'' \<and> \<not> is_ws c) u) = Some v"
    by (auto simp: link_at_def Let_def split: option.splits if_splits)
  then show ?thesis
    by (meson after_length length_dropWhile_le link_title_end_length order_trans)
qed

text \<open>\<open>(?<!!)\<close>: no link begins right after an exclamation mark.\<close>

function link_targets :: "bool \<Rightarrow> string \<Rightarrow> string list" where
  "link_targets bang [] = []"
| "link_targets bang (c # cs) =
     (case (if c = CHR ''['' \<and> \<not> bang then link_at cs else None) of
        None \<Rightarrow> link_targets (c = CHR ''!'') cs
      | Some (t, rest) \<Rightarrow> t # link_targets False rest)"
  by pat_completeness auto
termination
  by (relation "measure (\<lambda>(b, s). length s)") (auto dest!: link_at_length split: if_splits)

definition unbracket :: "string \<Rightarrow> string" where
  "unbracket cand =
     (if starts_with ''<'' cand \<and> last cand = CHR ''>'' \<and> 2 \<le> length cand
      then butlast (tl cand) else cand)"

definition extractLinkTargets :: "string \<Rightarrow> string list" where
  "extractLinkTargets txt = map unbracket (link_targets False txt)"

definition backtick_path :: "string \<Rightarrow> bool" where
  "backtick_path s = (case at_last_dot s of
     None \<Rightarrow> False
   | Some (stem, ext) \<Rightarrow> rooted stem \<and> ext \<noteq> [] \<and> list_all (\<lambda>c. regex_word_char c \<and> c \<noteq> CHR ''_'') ext)"

function extractBacktickPaths :: "string \<Rightarrow> string list" where
  "extractBacktickPaths [] = []"
| "extractBacktickPaths (c # cs) =
     (let body = takeWhile (\<lambda>d. d \<noteq> CHR 0x60) cs; rest = dropWhile (\<lambda>d. d \<noteq> CHR 0x60) cs
      in if c = CHR 0x60 \<and> rest \<noteq> [] \<and> backtick_path body
         then body # extractBacktickPaths (tl rest)
         else extractBacktickPaths cs)"
  by pat_completeness auto
termination
  by (relation "measure length")
     (auto simp: less_Suc_eq_le intro: le_trans [OF diff_le_self length_dropWhile_le])

text \<open>A \<open>Set\<close> of strings is the list of its members in insertion order.\<close>

definition harvestFromText :: "(string \<Rightarrow> string option) \<Rightarrow> string \<Rightarrow> string list" where
  "harvestFromText fileUrlPath txt =
     js_unique (List.map_filter (normalizeAndQualify fileUrlPath) (extractLinkTargets txt @ extractBacktickPaths txt))"

section \<open>Fragments\<close>

datatype root_kind = StrongRoot | WeakRoot

definition pathRootKind :: "string \<Rightarrow> root_kind option" where
  "pathRootKind path =
     (if list_ex (\<lambda>p. starts_with p path) STRONG_ROOT_PREFIXES then Some StrongRoot
      else if list_ex (\<lambda>p. starts_with p path) WEAK_ROOT_PREFIXES then Some WeakRoot
      else None)"

definition pathPassesFragmentGate :: "string \<Rightarrow> string \<Rightarrow> bool" where
  "pathPassesFragmentGate path fragment =
     (case pathRootKind path of
        None \<Rightarrow> False
      | Some StrongRoot \<Rightarrow> strong_action fragment
      | Some WeakRoot \<Rightarrow> strong_action fragment \<or> normative_modal fragment \<or> numbered_fragment fragment)"

text \<open>\<open>split(/\.\s+/g)\<close>.\<close>

function split_sentences :: "string \<Rightarrow> string list" where
  "split_sentences [] = [[]]"
| "split_sentences (c # cs) =
     (if c = CHR ''.'' \<and> begins_blank cs then [] # split_sentences (dropWhile is_ws cs)
      else (case split_sentences cs of [] \<Rightarrow> [[c]] | p # ps \<Rightarrow> (c # p) # ps))"
  by pat_completeness auto
termination
  by (relation "measure length") (auto simp: le_imp_less_Suc length_dropWhile_le)

definition splitLineIntoFragments :: "string \<Rightarrow> string list" where
  "splitLineIntoFragments line = filter (\<lambda>f. f \<noteq> []) (map js_trim (split_sentences line))"

definition harvestFromFragment :: "(string \<Rightarrow> string option) \<Rightarrow> string \<Rightarrow> string list" where
  "harvestFromFragment fileUrlPath fragment =
     (if reference_only fragment then []
      else filter (\<lambda>p. pathPassesFragmentGate p fragment) (harvestFromText fileUrlPath fragment))"

definition harvestFromTodoSegment :: "(string \<Rightarrow> string option) \<Rightarrow> string \<Rightarrow> string list" where
  "harvestFromTodoSegment fileUrlPath segment =
     (if reference_only segment then [] else harvestFromFragment fileUrlPath segment)"

section \<open>The lines of the body\<close>

text \<open>\<open>/^```(\S*)\s*$/\<close> with its group, and \<open>/^```\s*$/\<close>.\<close>

definition FENCE :: string where
  "FENCE = [CHR 0x60, CHR 0x60, CHR 0x60]"

definition fence_open :: "string \<Rightarrow> string option" where
  "fence_open line =
     (case after FENCE line of
        None \<Rightarrow> None
      | Some rest \<Rightarrow>
          (if list_all is_ws (dropWhile (\<lambda>c. \<not> is_ws c) rest) then Some (takeWhile (\<lambda>c. \<not> is_ws c) rest)
           else None))"

definition fence_close :: "string \<Rightarrow> bool" where
  "fence_close line = (case after FENCE line of None \<Rightarrow> False | Some rest \<Rightarrow> list_all is_ws rest)"

text \<open>\<open>/^##\s+(.+?)\s*$/\<close> with its group, trimmed. The dot matches no line end; over a line of white
  space only the group is one blank, so there must be two characters and the trimmed title is empty.\<close>

definition h2_title :: "string \<Rightarrow> string option" where
  "h2_title line =
     (case after ''##'' line of
        None \<Rightarrow> None
      | Some rest \<Rightarrow>
          (let title = js_trim rest
           in if \<not> begins_blank rest then None
              else if title = [] then (if list_ex (\<lambda>c. \<not> line_end_char c) (tl rest) then Some [] else None)
              else if list_ex line_end_char title then None else Some title))"

text \<open>The lines after a closing fence; none when the block is never closed.\<close>

fun after_block :: "string list \<Rightarrow> string list" where
  "after_block [] = []"
| "after_block (line # lines) = (if fence_close line then lines else after_block lines)"

lemma after_block_length: "length (after_block lines) \<le> length lines"
  by (induction lines) auto

function outside_blocks :: "string list \<Rightarrow> string list" where
  "outside_blocks [] = []"
| "outside_blocks (line # lines) =
     (if fence_open line \<noteq> None then outside_blocks (after_block lines) else line # outside_blocks lines)"
  by pat_completeness auto
termination
  by (relation "measure length") (auto simp: le_imp_less_Suc after_block_length)

definition stripAllFencedBlocks :: "string \<Rightarrow> string" where
  "stripAllFencedBlocks section = join [CHR 0x0A] (outside_blocks (split_on (CHR 0x0A) section))"

record walk_state =
  ws_inObligation :: bool
  ws_currentTitle :: string
  ws_inFence :: bool

definition walk_start :: walk_state where
  "walk_start = \<lparr>ws_inObligation = False, ws_currentTitle = [], ws_inFence = False\<rparr>"

text \<open>One line: the next state, and whether \<open>onLine\<close> is called and with which flag.\<close>

definition walk_line :: "walk_state \<Rightarrow> string \<Rightarrow> walk_state \<times> bool option" where
  "walk_line st line =
     (if ws_inFence st then (st\<lparr>ws_inFence := \<not> fence_close line\<rparr>, None)
      else if fence_open line \<noteq> None then (st\<lparr>ws_inFence := True\<rparr>, None)
      else (case h2_title line of
          Some title \<Rightarrow> (st\<lparr>ws_inObligation := obligation_title title, ws_currentTitle := title\<rparr>, None)
        | None \<Rightarrow>
            (if \<not> ws_inObligation st then (st, None)
             else (st, Some (first_word (toLowerCase (js_trim (ws_currentTitle st))) = ''testing'')))))"

fun walk_lines :: "walk_state \<Rightarrow> string list \<Rightarrow> (string \<times> bool) list" where
  "walk_lines st [] = []"
| "walk_lines st (line # lines) =
     (case walk_line st line of
        (st', None) \<Rightarrow> walk_lines st' lines
      | (st', Some testing) \<Rightarrow> (line, testing) # walk_lines st' lines)"

definition walkObligationLines :: "string \<Rightarrow> (string \<times> bool) list" where
  "walkObligationLines body = walk_lines walk_start (split_on (CHR 0x0A) body)"

definition harvest_line :: "(string \<Rightarrow> string option) \<Rightarrow> string \<times> bool \<Rightarrow> string list" where
  "harvest_line fileUrlPath l =
     (case l of (line, sectionIsTesting) \<Rightarrow>
        (if reference_only line \<or> (sectionIsTesting \<and> js_includes ''Expect:'' line) then []
         else concat (map (harvestFromFragment fileUrlPath) (splitLineIntoFragments line))))"

section \<open>The plan\<close>

definition todo_content :: "jsval \<Rightarrow> string option" where
  "todo_content t =
     (case t of
        VObj kvs \<Rightarrow> (case get_prop t ''content'' of VStr s \<Rightarrow> Some s | _ \<Rightarrow> None)
      | _ \<Rightarrow> None)"

definition collectTodoContentStrings :: "(string \<times> jsval) list \<Rightarrow> string list" where
  "collectTodoContentStrings fm =
     (case get_prop (VObj fm) ''todos'' of VArr ts \<Rightarrow> List.map_filter todo_content ts | _ \<Rightarrow> [])"

text \<open>\<open>split("; ")\<close>.\<close>

function split_semicolons :: "string \<Rightarrow> string list" where
  "split_semicolons [] = [[]]"
| "split_semicolons (c # cs) =
     (if starts_with ''; '' (c # cs) then [] # split_semicolons (tl cs)
      else (case split_semicolons cs of [] \<Rightarrow> [[c]] | p # ps \<Rightarrow> (c # p) # ps))"
  by pat_completeness auto
termination
  by (relation "measure length") auto

definition splitTodoIntoSegments :: "string \<Rightarrow> string list" where
  "splitTodoIntoSegments content =
     (let trimmed = js_trim content
      in if trimmed = [] then []
         else if \<not> js_includes ''; '' trimmed then [trimmed]
         else filter (\<lambda>s. s \<noteq> []) (map js_trim (split_semicolons trimmed)))"

definition BOM :: char where
  "BOM = CHR 0x8F"

definition stripUtf8Bom :: "string \<Rightarrow> string" where
  "stripUtf8Bom s = (if s \<noteq> [] \<and> hd s = BOM then tl s else s)"

text \<open>Front matter: the text after the opening \<open>---\<close>, and where \<open>/\n---\s*(?:\r?\n|$)/\<close> first matches in
  it. After \<open>---\<close> the white space must reach the end of the text or hold a line feed; as a delimiter the
  expression takes it up to its last line feed, or whole at the end of the text.\<close>

definition CRLF :: string where
  "CRLF = [CHR 0x0D, CHR 0x0A]"

definition NO_FRONT_MATTER :: js_error where
  "NO_FRONT_MATTER = TruthLayerError ''PLAN_VALIDATION_NO_FRONT_MATTER''
     ''Plan.md must start with YAML front matter (--- on line 1).''"

definition OPEN_FRONT_MATTER :: js_error where
  "OPEN_FRONT_MATTER = TruthLayerError ''PLAN_VALIDATION_NO_FRONT_MATTER''
     ''Plan.md front matter must end with a closing --- line.''"

definition front_matter_rest :: "string \<Rightarrow> js_error + string" where
  "front_matter_rest md =
     (case after (''---'' @ [CHR 0x0A]) md of
        Some rest \<Rightarrow> Inr rest
      | None \<Rightarrow> (case after (''---'' @ CRLF) md of Some rest \<Rightarrow> Inr rest | None \<Rightarrow> Inl NO_FRONT_MATTER))"

text \<open>What follows a closing delimiter at the head of \<open>s\<close>.\<close>

definition closing_at :: "string \<Rightarrow> string option" where
  "closing_at s =
     (case after (CHR 0x0A # ''---'') s of
        None \<Rightarrow> None
      | Some t \<Rightarrow>
          (let blanks = takeWhile is_ws t; rest = dropWhile is_ws t
           in if rest = [] then Some []
              else if CHR 0x0A \<in> set blanks
              then Some (rev (takeWhile (\<lambda>c. c \<noteq> CHR 0x0A) (rev blanks)) @ rest)
              else None))"

fun split_front_matter :: "string \<Rightarrow> (string \<times> string) option" where
  "split_front_matter [] = None"
| "split_front_matter (c # cs) =
     (case closing_at (c # cs) of
        Some body \<Rightarrow> Some ([], body)
      | None \<Rightarrow> map_option (\<lambda>(y, b). (c # y, b)) (split_front_matter cs))"

definition extractPlanFrontMatterYamlSource :: "string \<Rightarrow> js_error + string" where
  "extractPlanFrontMatterYamlSource md =
     throws_bind (front_matter_rest md) (\<lambda>rest.
       case split_front_matter rest of None \<Rightarrow> Inl OPEN_FRONT_MATTER | Some (yaml, _) \<Rightarrow> Inr yaml)"

definition extractMarkdownBodyAfterFrontMatter :: "string \<Rightarrow> js_error + string" where
  "extractMarkdownBodyAfterFrontMatter md =
     throws_bind (front_matter_rest md) (\<lambda>rest.
       case split_front_matter rest of None \<Rightarrow> Inl OPEN_FRONT_MATTER | Some (_, body) \<Rightarrow> Inr body)"

text \<open>\<open>replace(/\r\n/g, "\n")\<close>.\<close>

fun unix_lines :: "string \<Rightarrow> string" where
  "unix_lines (a # b # s) =
     (if a = CHR 0x0D \<and> b = CHR 0x0A then b # unix_lines s else a # unix_lines (b # s))"
| "unix_lines s = s"

definition harvested_paths :: "(string \<Rightarrow> string option) \<Rightarrow> string \<Rightarrow> (string \<times> jsval) list \<Rightarrow> string list" where
  "harvested_paths fileUrlPath body fm =
     concat (map (harvest_line fileUrlPath) (walkObligationLines body))
     @ concat (map (\<lambda>todo. concat (map (harvestFromTodoSegment fileUrlPath) (splitTodoIntoSegments todo)))
         (collectTodoContentStrings fm))"

definition harvestQualifyingPathsFromPlan ::
  "(string \<Rightarrow> string option) \<Rightarrow> string \<Rightarrow> (string \<times> jsval) list \<Rightarrow> js_error + string list" where
  "harvestQualifyingPathsFromPlan fileUrlPath md fm =
     throws_bind (extractMarkdownBodyAfterFrontMatter (stripUtf8Bom md)) (\<lambda>raw.
       Inr (js_sort compareUtf16Id (js_unique (harvested_paths fileUrlPath (unix_lines raw) fm))))"

end
