(* ===== verification/OperationalDisposition.thy ===== *)
theory OperationalDisposition
  imports TruthReport
begin

text \<open>
  What a failed command says of itself: the codes of \<open>src/cliOperationalCodes.ts\<close>, the table of
  \<open>src/operationalDisposition.ts\<close> with its lookups in \<open>src/failureOriginCatalog.ts\<close> and
  \<open>src/actionableFailure.ts\<close>, the diagnosis of \<open>src/operationalFailureDiagnosis.ts\<close> and the
  error envelope printed by the commands (\<open>src/failureCatalog.ts\<close>). The object literal is an
  association list in its order. A code is never the name of an \<open>Object.prototype\<close> member.
\<close>

section \<open>Codes and dispositions\<close>

definition CLI_OPERATIONAL_CODES :: "string list" where
  "CLI_OPERATIONAL_CODES =
     [''CLI_USAGE'', ''REGISTRY_READ_FAILED'', ''REGISTRY_JSON_SYNTAX'',
      ''REGISTRY_SCHEMA_INVALID'', ''REGISTRY_DUPLICATE_TOOL_ID'', ''EVENTS_READ_FAILED'',
      ''SQLITE_DATABASE_OPEN_FAILED'', ''POSTGRES_CLIENT_SETUP_FAILED'',
      ''WORKFLOW_RESULT_SCHEMA_INVALID'', ''INTERNAL_ERROR'', ''COMPARE_USAGE'',
      ''COMPARE_INSUFFICIENT_RUNS'', ''COMPARE_WORKFLOW_ID_MISMATCH'',
      ''COMPARE_INPUT_READ_FAILED'', ''COMPARE_INPUT_JSON_SYNTAX'',
      ''COMPARE_INPUT_SCHEMA_INVALID'', ''COMPARE_WORKFLOW_TRUTH_MISMATCH'',
      ''COMPARE_RUN_COMPARISON_REPORT_INVALID'', ''VERIFICATION_POLICY_INVALID'',
      ''EVENTUAL_MODE_NOT_SUPPORTED_IN_PROCESS_HOOK'', ''VALIDATE_REGISTRY_USAGE'',
      ''EXECUTION_TRACE_USAGE'', ''TRACE_DUPLICATE_RUN_EVENT_ID'',
      ''TRACE_UNKNOWN_PARENT_RUN_EVENT_ID'', ''TRACE_PARENT_FORWARD_REFERENCE'',
      ''COMPARE_INPUT_RUN_LEVEL_INCONSISTENT'', ''COMPARE_MANIFEST_READ_FAILED'',
      ''COMPARE_MANIFEST_SCHEMA_INVALID'', ''COMPARE_RESOLVE_PATH_FAILED'',
      ''COMPARE_EVENTS_LOAD_FAILED'', ''COMPARE_REGRESSION_ARTIFACT_INVALID'',
      ''COMPARE_CERTIFICATE_BUILD_FAILED'', ''WORKFLOW_RESULT_RUN_LEVEL_CODES_MISMATCH'',
      ''PLAN_TRANSITION_USAGE'', ''PLAN_TRANSITION_GIT_TOO_OLD'', ''PLAN_TRANSITION_GIT_FAILED'',
      ''PLAN_TRANSITION_BAD_REF'', ''PLAN_TRANSITION_GIT_PARSE'',
      ''PLAN_VALIDATION_NO_FRONT_MATTER'', ''PLAN_VALIDATION_YAML_INVALID'',
      ''PLAN_VALIDATION_SCHEMA_INVALID'', ''PLAN_VALIDATION_INSUFFICIENT_SPEC'',
      ''PLAN_VALIDATION_AMBIGUOUS_BODY_RULES'', ''PLAN_VALIDATION_INVALID_PATTERN'',
      ''PLAN_PATH_OUTSIDE_REPO'', ''ENFORCE_USAGE'', ''CI_LOCK_SCHEMA_INVALID'',
      ''VERIFICATION_OUTPUT_LOCK_MISMATCH'', ''ASSURANCE_USAGE'',
      ''ASSURANCE_MANIFEST_READ_FAILED'', ''ASSURANCE_MANIFEST_JSON_SYNTAX'',
      ''ASSURANCE_MANIFEST_SCHEMA_INVALID'', ''ASSURANCE_REPO_ROOT_NOT_FOUND'',
      ''ASSURANCE_CLI_MISSING'', ''ASSURANCE_MANIFEST_PATH_MISSING'',
      ''ASSURANCE_REPORT_READ_FAILED'', ''ASSURANCE_REPORT_JSON_SYNTAX'',
      ''ASSURANCE_REPORT_SCHEMA_INVALID'', ''ASSURANCE_REPORT_ISSUED_AT_FUTURE_SKEW'',
      ''ASSURANCE_STALE_USAGE'', ''LICENSE_KEY_MISSING'', ''LICENSE_DENIED'',
      ''LICENSE_USAGE_UNAVAILABLE'', ''ENFORCEMENT_REQUIRES_PAID_PLAN'',
      ''VERIFICATION_REQUIRES_SUBSCRIPTION'', ''ENFORCE_REQUIRES_COMMERCIAL_BUILD'',
      ''SHARE_REPORT_FAILED'', ''BOOTSTRAP_USAGE'', ''BOOTSTRAP_INPUT_INVALID'',
      ''BOOTSTRAP_OUT_EXISTS'', ''BOOTSTRAP_NO_TOOL_CALLS'',
      ''BOOTSTRAP_TOOL_CALL_ARGUMENTS_INVALID'', ''BOOTSTRAP_QUICK_NOT_PASS'',
      ''BOOTSTRAP_NO_EXPORTABLE_TOOLS'', ''CROSSING_USAGE'',
      ''LANGGRAPH_CHECKPOINT_TRUST_GENERIC_MODE_CONFLICT'', ''EMIT_WORKFLOW_ID_INVALID'',
      ''EMIT_TOOL_ID_INVALID'', ''EMIT_RETRIEVAL_SOURCE_INVALID'',
      ''EMIT_LANGGRAPH_CHECKPOINT_INVALID'', ''EMIT_LINT_USAGE'', ''EMIT_LINT_FAILED'',
      ''RECEIPT_SCHEMA_INVALID'', ''RECEIPT_PERSIST_FAILED'', ''EXECUTION_IDENTITY_MISMATCH'',
      ''EXECUTION_IDENTITY_USAGE'', ''VERIFICATION_CONNECTOR_NOT_SHIPPED'']"

record operational_disposition =
  od_origin :: failure_origin
  od_summary :: string
  od_actionableCategory :: failure_category
  od_actionableSeverity :: level
  od_recommendedAction :: recommended_action
  od_automationSafe :: bool

type_synonym disposition = "string \<times> operational_disposition"

definition disposition_row ::
  "string \<Rightarrow> failure_origin \<Rightarrow> string \<Rightarrow> failure_category \<Rightarrow> level \<Rightarrow> recommended_action \<Rightarrow> bool \<Rightarrow> disposition" where
  "disposition_row code origin summary category severity action safe =
     (code, \<lparr>od_origin = origin, od_summary = summary, od_actionableCategory = category,
             od_actionableSeverity = severity, od_recommendedAction = action, od_automationSafe = safe\<rparr>)"

definition COMPARE_INPUT_RUN_LEVEL_INCONSISTENT_MESSAGE :: string where
  "COMPARE_INPUT_RUN_LEVEL_INCONSISTENT_MESSAGE =
     ''Compare input workflow result: runLevelCodes and runLevelReasons are inconsistent.''"

definition WORKFLOW_RESULT_RUN_LEVEL_CODES_MISMATCH_MESSAGE :: string where
  "WORKFLOW_RESULT_RUN_LEVEL_CODES_MISMATCH_MESSAGE =
     ''Corpus workflow result: runLevelCodes and runLevelReasons are inconsistent.''"

definition cli_and_input_dispositions :: "disposition list" where
  "cli_and_input_dispositions =
     [
      disposition_row ''CLI_USAGE'' InputsOrigin
        ''Invalid or incomplete CLI arguments for agentskeptic.''
        BadInput Low FixCliUsage False,
      disposition_row ''REGISTRY_READ_FAILED'' InputsOrigin
        ''Tools registry file could not be read.''
        BadInput Medium FixRegistryEventsOrCompareFiles False,
      disposition_row ''REGISTRY_JSON_SYNTAX'' InputsOrigin
        ''Tools registry JSON could not be parsed.''
        BadInput Medium FixRegistryEventsOrCompareFiles False,
      disposition_row ''REGISTRY_SCHEMA_INVALID'' InputsOrigin
        ''Tools registry failed schema validation.''
        BadInput Medium FixRegistryEventsOrCompareFiles False,
      disposition_row ''REGISTRY_DUPLICATE_TOOL_ID'' InputsOrigin
        ''Tools registry contains duplicate toolId entries.''
        BadInput Medium FixRegistryEventsOrCompareFiles False,
      disposition_row ''EVENTS_READ_FAILED'' InputsOrigin
        ''Events file could not be read.''
        BadInput High FixRegistryEventsOrCompareFiles False,
      disposition_row ''SQLITE_DATABASE_OPEN_FAILED'' DownstreamSystemState
        ''SQLite verification database could not be opened.''
        DownstreamExecutionFailure High FixVerificationDatabaseConnection False,
      disposition_row ''POSTGRES_CLIENT_SETUP_FAILED'' DownstreamSystemState
        ''Postgres verification client could not be established.''
        DownstreamExecutionFailure High FixVerificationDatabaseConnection False,
      disposition_row ''WORKFLOW_RESULT_SCHEMA_INVALID'' WorkflowFlow
        ''Emitted workflow result failed JSON schema validation.''
        ControlFlowProblem Medium FixSavedWorkflowJson False,
      disposition_row ''INTERNAL_ERROR'' WorkflowFlow
        ''Unexpected internal error in agentskeptic.''
        ControlFlowProblem High ManualReview False,
      disposition_row ''COMPARE_USAGE'' WorkflowFlow
        ''Invalid or incomplete arguments for agentskeptic compare.''
        BadInput Low FixCliUsage False,
      disposition_row ''COMPARE_INSUFFICIENT_RUNS'' WorkflowFlow
        ''compare requires at least two WorkflowResult inputs.''
        ControlFlowProblem Low FixCliUsage False,
      disposition_row ''COMPARE_WORKFLOW_ID_MISMATCH'' WorkflowFlow
        ''Compared WorkflowResult files use different workflowId values.''
        ControlFlowProblem Medium FixCompareWorkflowInputs False,
      disposition_row ''COMPARE_INPUT_READ_FAILED'' InputsOrigin
        ''A compare input file could not be read.''
        BadInput Medium FixRegistryEventsOrCompareFiles False,
      disposition_row ''COMPARE_INPUT_JSON_SYNTAX'' InputsOrigin
        ''A compare input file is not valid JSON.''
        BadInput Medium FixRegistryEventsOrCompareFiles False,
      disposition_row ''COMPARE_INPUT_SCHEMA_INVALID'' InputsOrigin
        ''A compare input file failed WorkflowResult schema validation.''
        BadInput Medium FixRegistryEventsOrCompareFiles False,
      disposition_row ''COMPARE_WORKFLOW_TRUTH_MISMATCH'' WorkflowFlow
        ''Saved workflowTruthReport does not match recomputation from engine fields.''
        ControlFlowProblem Medium FixSavedWorkflowJson False,
      disposition_row ''COMPARE_RUN_COMPARISON_REPORT_INVALID'' WorkflowFlow
        ''Run comparison report failed schema validation.''
        ControlFlowProblem Medium FixCompareWorkflowInputs False]"

definition trace_and_manifest_dispositions :: "disposition list" where
  "trace_and_manifest_dispositions =
     [
      disposition_row ''COMPARE_MANIFEST_READ_FAILED'' InputsOrigin
        ''Compare manifest file could not be read.''
        BadInput Medium FixRegistryEventsOrCompareFiles False,
      disposition_row ''COMPARE_MANIFEST_SCHEMA_INVALID'' InputsOrigin
        ''Compare manifest failed schema validation or certificate profile invariants.''
        BadInput Medium FixRegistryEventsOrCompareFiles False,
      disposition_row ''COMPARE_RESOLVE_PATH_FAILED'' InputsOrigin
        ''Compare manifest resolved a workflow or events path that does not exist.''
        BadInput Medium FixRegistryEventsOrCompareFiles False,
      disposition_row ''COMPARE_EVENTS_LOAD_FAILED'' InputsOrigin
        ''Events NDJSON for compare could not be loaded for a run.''
        BadInput High FixRegistryEventsOrCompareFiles False,
      disposition_row ''COMPARE_REGRESSION_ARTIFACT_INVALID'' WorkflowFlow
        ''Regression artifact failed schema validation (internal).''
        ControlFlowProblem High ManualReview False,
      disposition_row ''COMPARE_CERTIFICATE_BUILD_FAILED'' WorkflowFlow
        ''Outcome certificate could not be built for a compared run.''
        ControlFlowProblem Medium FixCompareWorkflowInputs False,
      disposition_row ''VERIFICATION_POLICY_INVALID'' InputsOrigin
        ''Verification policy arguments are invalid.''
        BadInput Low FixCliUsage False,
      disposition_row ''EVENTUAL_MODE_NOT_SUPPORTED_IN_PROCESS_HOOK'' WorkflowFlow
        ''In-process verification does not support eventual consistency; use batch verifyWorkflow.''
        ControlFlowProblem Medium FixVerificationPolicyAndHook False,
      disposition_row ''VALIDATE_REGISTRY_USAGE'' WorkflowFlow
        ''Invalid or incomplete arguments for validate-registry.''
        BadInput Low FixCliUsage False,
      disposition_row ''EXECUTION_TRACE_USAGE'' WorkflowFlow
        ''Invalid or incomplete arguments for execution-trace.''
        BadInput Low FixCliUsage False,
      disposition_row ''TRACE_DUPLICATE_RUN_EVENT_ID'' WorkflowFlow
        ''Duplicate runEventId in execution trace input.''
        ControlFlowProblem Medium FixExecutionTraceStructure False,
      disposition_row ''TRACE_UNKNOWN_PARENT_RUN_EVENT_ID'' WorkflowFlow
        ''parentRunEventId does not reference a prior event.''
        ControlFlowProblem Medium FixExecutionTraceStructure False,
      disposition_row ''TRACE_PARENT_FORWARD_REFERENCE'' WorkflowFlow
        ''parentRunEventId references an event that is not strictly earlier.''
        ControlFlowProblem Medium FixExecutionTraceStructure False,
      disposition_row ''COMPARE_INPUT_RUN_LEVEL_INCONSISTENT'' WorkflowFlow
        COMPARE_INPUT_RUN_LEVEL_INCONSISTENT_MESSAGE
        ControlFlowProblem Medium FixCompareWorkflowInputs False,
      disposition_row ''WORKFLOW_RESULT_RUN_LEVEL_CODES_MISMATCH'' WorkflowFlow
        WORKFLOW_RESULT_RUN_LEVEL_CODES_MISMATCH_MESSAGE
        ControlFlowProblem Medium FixSavedWorkflowJson False,
      disposition_row ''PLAN_TRANSITION_USAGE'' InputsOrigin
        ''Invalid or incomplete arguments for agentskeptic plan-transition.''
        BadInput Low FixPlanTransitionCliAndRefs False,
      disposition_row ''PLAN_TRANSITION_GIT_TOO_OLD'' DownstreamSystemState
        ''Git version is below the minimum required for plan-transition (2.30.0).''
        BadInput Medium UpgradeGitOrRetryGit False]"

definition plan_and_assurance_dispositions :: "disposition list" where
  "plan_and_assurance_dispositions =
     [
      disposition_row ''PLAN_TRANSITION_GIT_FAILED'' DownstreamSystemState
        ''Git command failed during plan-transition.''
        DownstreamExecutionFailure High UpgradeGitOrRetryGit False,
      disposition_row ''PLAN_TRANSITION_BAD_REF'' InputsOrigin
        ''Before or After ref could not be resolved to a commit.''
        BadInput Medium FixPlanTransitionCliAndRefs False,
      disposition_row ''PLAN_TRANSITION_GIT_PARSE'' WorkflowFlow
        ''git diff -z --name-status output could not be parsed.''
        ControlFlowProblem High FixPlanDocumentAndPatterns False,
      disposition_row ''PLAN_VALIDATION_NO_FRONT_MATTER'' InputsOrigin
        ''Plan.md is missing valid YAML front matter.''
        BadInput Medium FixPlanDocumentAndPatterns False,
      disposition_row ''PLAN_VALIDATION_YAML_INVALID'' InputsOrigin
        ''YAML parse failed in Plan.md (YAML front matter or the body section \"Repository transition validation\").''
        BadInput Medium FixPlanDocumentAndPatterns False,
      disposition_row ''PLAN_VALIDATION_SCHEMA_INVALID'' InputsOrigin
        ''planValidation rules failed JSON Schema validation (front matter key planValidation or body yaml fence under \"Repository transition validation\").''
        BadInput Medium FixPlanDocumentAndPatterns False,
      disposition_row ''PLAN_VALIDATION_INSUFFICIENT_SPEC'' InputsOrigin
        (''Plan.md has no machine-checkable transition rules: add planValidation to YAML front matter; or add a single ## Repository transition validation section whose first fenced block is yaml/yml; or cite qualifying repo-relative paths in the plan body or todos so derived rules can require those paths to appear in the git diff (see docs '' @ [CHR 0x97] @ '' derived citations).'')
        BadInput Medium FixPlanDocumentAndPatterns False,
      disposition_row ''PLAN_VALIDATION_AMBIGUOUS_BODY_RULES'' InputsOrigin
        ''Plan.md body has duplicate \"Repository transition validation\" headings or multiple yaml/yml fences in that section.''
        BadInput Medium FixPlanDocumentAndPatterns False,
      disposition_row ''PLAN_VALIDATION_INVALID_PATTERN'' InputsOrigin
        ''A glob pattern in planValidation.rules is invalid or unsafe.''
        BadInput Medium FixPlanDocumentAndPatterns False,
      disposition_row ''PLAN_PATH_OUTSIDE_REPO'' InputsOrigin
        ''--plan must resolve to a path inside --repo.''
        BadInput Medium FixPlanTransitionCliAndRefs False,
      disposition_row ''ENFORCE_USAGE'' InputsOrigin
        ''Invalid or incomplete arguments for agentskeptic enforce.''
        BadInput Low FixCliUsage False,
      disposition_row ''CI_LOCK_SCHEMA_INVALID'' InputsOrigin
        ''CI lock file is not valid JSON or does not match ci-lock-v1 schema.''
        BadInput Medium FixSavedWorkflowJson False,
      disposition_row ''VERIFICATION_OUTPUT_LOCK_MISMATCH'' WorkflowFlow
        ''CI enforcement lock did not match expected fixture.''
        StateInconsistency High FixSavedWorkflowJson False,
      disposition_row ''ASSURANCE_USAGE'' InputsOrigin
        ''Invalid or incomplete arguments for agentskeptic assurance.''
        BadInput Low FixCliUsage False,
      disposition_row ''ASSURANCE_MANIFEST_READ_FAILED'' InputsOrigin
        ''Assurance manifest file could not be read.''
        BadInput Medium FixRegistryEventsOrCompareFiles False,
      disposition_row ''ASSURANCE_MANIFEST_JSON_SYNTAX'' InputsOrigin
        ''Assurance manifest JSON could not be parsed.''
        BadInput Medium FixRegistryEventsOrCompareFiles False,
      disposition_row ''ASSURANCE_MANIFEST_SCHEMA_INVALID'' InputsOrigin
        ''Assurance manifest failed schema validation.''
        BadInput Medium FixRegistryEventsOrCompareFiles False,
      disposition_row ''ASSURANCE_REPO_ROOT_NOT_FOUND'' WorkflowFlow
        ''Could not locate agentskeptic package root from the manifest path.''
        ControlFlowProblem High ManualReview False]"

definition report_and_licence_dispositions :: "disposition list" where
  "report_and_licence_dispositions =
     [
      disposition_row ''ASSURANCE_CLI_MISSING'' WorkflowFlow
        ''Built dist/cli.js was not found; run npm run build.''
        ControlFlowProblem High ManualReview False,
      disposition_row ''ASSURANCE_MANIFEST_PATH_MISSING'' InputsOrigin
        ''A path referenced by the assurance manifest does not exist.''
        BadInput Medium FixRegistryEventsOrCompareFiles False,
      disposition_row ''ASSURANCE_REPORT_READ_FAILED'' InputsOrigin
        ''Assurance run report file could not be read.''
        BadInput Medium FixRegistryEventsOrCompareFiles False,
      disposition_row ''ASSURANCE_REPORT_JSON_SYNTAX'' InputsOrigin
        ''Assurance run report JSON could not be parsed.''
        BadInput Medium FixRegistryEventsOrCompareFiles False,
      disposition_row ''ASSURANCE_REPORT_SCHEMA_INVALID'' InputsOrigin
        ''Assurance run report failed schema validation.''
        BadInput Medium FixRegistryEventsOrCompareFiles False,
      disposition_row ''ASSURANCE_REPORT_ISSUED_AT_FUTURE_SKEW'' InputsOrigin
        ''Assurance report issuedAt is too far in the future relative to the runner clock.''
        BadInput Medium FixRegistryEventsOrCompareFiles False,
      disposition_row ''ASSURANCE_STALE_USAGE'' InputsOrigin
        ''Invalid or incomplete arguments for agentskeptic assurance stale.''
        BadInput Low FixCliUsage False,
      disposition_row ''LICENSE_KEY_MISSING'' InputsOrigin
        ''Commercial agentskeptic requires AGENTSKEPTIC_API_KEY for contract verification (legacy WORKFLOW_VERIFIER_API_KEY accepted).''
        BadInput High ManualReview False,
      disposition_row ''LICENSE_DENIED'' WorkflowFlow
        ''License or quota check denied this contract verification run.''
        ControlFlowProblem High ManualReview False,
      disposition_row ''LICENSE_USAGE_UNAVAILABLE'' DownstreamSystemState
        ''License service was unreachable after retries.''
        DownstreamExecutionFailure High ManualReview False,
      disposition_row ''ENFORCEMENT_REQUIRES_PAID_PLAN'' WorkflowFlow
        ''Enforcement (CI gate) requires a paid plan with an active subscription.''
        ControlFlowProblem High ManualReview False,
      disposition_row ''VERIFICATION_REQUIRES_SUBSCRIPTION'' WorkflowFlow
        ''Licensed verification with the commercial CLI requires an active subscription; subscribe or use an OSS build for local verify.''
        ControlFlowProblem High ManualReview False,
      disposition_row ''ENFORCE_REQUIRES_COMMERCIAL_BUILD'' WorkflowFlow
        ''CI enforcement (enforce) and CI lock flags are not available in the OSS build; use the published agentskeptic npm package or a commercial local build with a license API.''
        ControlFlowProblem High ManualReview False,
      disposition_row ''SHARE_REPORT_FAILED'' DownstreamSystemState
        ''Publishing the verification report to the configured origin failed after verification succeeded.''
        DownstreamExecutionFailure Medium ManualReview False,
      disposition_row ''BOOTSTRAP_USAGE'' InputsOrigin
        ''Invalid or incomplete CLI arguments for agentskeptic bootstrap.''
        BadInput Low FixCliUsage False,
      disposition_row ''BOOTSTRAP_INPUT_INVALID'' InputsOrigin
        ''Bootstrap pack input JSON failed validation or semantic checks.''
        BadInput Medium FixRegistryEventsOrCompareFiles False,
      disposition_row ''BOOTSTRAP_OUT_EXISTS'' InputsOrigin
        ''Bootstrap --out path already exists; remove it or choose a new directory.''
        BadInput Low FixCliUsage False,
      disposition_row ''BOOTSTRAP_NO_TOOL_CALLS'' InputsOrigin
        ''Bootstrap input contained no tool_calls to synthesize.''
        BadInput Medium FixRegistryEventsOrCompareFiles False]"

definition bootstrap_and_receipt_dispositions :: "disposition list" where
  "bootstrap_and_receipt_dispositions =
     [
      disposition_row ''BOOTSTRAP_TOOL_CALL_ARGUMENTS_INVALID'' InputsOrigin
        ''A tool_calls[].function.arguments string was not valid JSON object text.''
        BadInput Medium FixRegistryEventsOrCompareFiles False,
      disposition_row ''BOOTSTRAP_QUICK_NOT_PASS'' InputsOrigin
        ''Quick Verify did not return verdict pass for the synthesized bootstrap input.''
        BadInput Medium ManualReview False,
      disposition_row ''BOOTSTRAP_NO_EXPORTABLE_TOOLS'' InputsOrigin
        ''Quick Verify produced no exportable registry tools for contract replay.''
        BadInput Medium ManualReview False,
      disposition_row ''CROSSING_USAGE'' InputsOrigin
        ''Invalid or incomplete CLI arguments for agentskeptic crossing.''
        BadInput Low FixCliUsage False,
      disposition_row ''LANGGRAPH_CHECKPOINT_TRUST_GENERIC_MODE_CONFLICT'' InputsOrigin
        ''Generic contract verify was invoked without --langgraph-checkpoint-trust while the events file contains schemaVersion 3 tool_observed lines for the workflow.''
        BadInput Low FixCliUsage False,
      disposition_row ''EMIT_WORKFLOW_ID_INVALID'' InputsOrigin
        ''Emitter initialization failed because workflowId is missing or blank.''
        BadInput Low FixCliUsage False,
      disposition_row ''EMIT_TOOL_ID_INVALID'' InputsOrigin
        ''Emitter input failed because toolId is missing or blank.''
        BadInput Low FixCliUsage False,
      disposition_row ''EMIT_RETRIEVAL_SOURCE_INVALID'' InputsOrigin
        ''Emitter retrieval input failed because source is missing or blank.''
        BadInput Low FixCliUsage False,
      disposition_row ''EMIT_LANGGRAPH_CHECKPOINT_INVALID'' InputsOrigin
        ''Emitter LangGraph checkpoint fields are incomplete or invalid.''
        BadInput Low FixCliUsage False,
      disposition_row ''EMIT_LINT_USAGE'' InputsOrigin
        ''Invalid or incomplete arguments for agentskeptic emit-lint.''
        BadInput Low FixCliUsage False,
      disposition_row ''EMIT_LINT_FAILED'' WorkflowFlow
        ''Emit lint failed due to malformed or inconsistent run-event stream.''
        ControlFlowProblem Medium FixEventIngestAndSteps False,
      disposition_row ''RECEIPT_SCHEMA_INVALID'' WorkflowFlow
        ''Verification receipt document failed schema validation.''
        ControlFlowProblem High ManualReview False,
      disposition_row ''RECEIPT_PERSIST_FAILED'' DownstreamSystemState
        ''Could not write verification receipt to disk.''
        ControlFlowProblem High ManualReview False,
      disposition_row ''EXECUTION_IDENTITY_MISMATCH'' InputsOrigin
        ''Packaged execution-identity differs from pinned expected JSON.''
        BadInput Medium FixCliUsage False,
      disposition_row ''EXECUTION_IDENTITY_USAGE'' InputsOrigin
        ''Invalid arguments for agentskeptic execution-identity verify.''
        BadInput Low FixCliUsage False,
      disposition_row ''VERIFICATION_CONNECTOR_NOT_SHIPPED'' InputsOrigin
        ''Verification connector is not shipped in this package build.''
        BadInput High CorrectVerificationInputs False]"

definition OPERATIONAL_DISPOSITION :: "disposition list" where
  "OPERATIONAL_DISPOSITION = cli_and_input_dispositions @ trace_and_manifest_dispositions
     @ plan_and_assurance_dispositions @ report_and_licence_dispositions @ bootstrap_and_receipt_dispositions"

section \<open>The maps made of the table\<close>

text \<open>A map filled by the loop over \<open>Object.values(CLI_OPERATIONAL_CODES)\<close>. A code without a row
  would throw when the module is loaded; \<open>every_code_has_a_row\<close> shows that there is none.\<close>

definition operational_map :: "(operational_disposition \<Rightarrow> 'v) \<Rightarrow> (string \<times> 'v) list" where
  "operational_map field =
     List.map_filter (\<lambda>code. map_option (\<lambda>row. (code, field row)) (map_of OPERATIONAL_DISPOSITION code))
       CLI_OPERATIONAL_CODES"

definition OPERATIONAL_CODE_TO_ORIGIN :: "(string \<times> failure_origin) list" where
  "OPERATIONAL_CODE_TO_ORIGIN = operational_map od_origin"

definition OPERATIONAL_CODE_TO_SUMMARY :: "(string \<times> string) list" where
  "OPERATIONAL_CODE_TO_SUMMARY = operational_map od_summary"

definition OPERATIONAL_CODE_TO_ACTIONABLE_CATEGORY :: "(string \<times> failure_category) list" where
  "OPERATIONAL_CODE_TO_ACTIONABLE_CATEGORY = operational_map od_actionableCategory"

definition OPERATIONAL_CODE_TO_SEVERITY :: "(string \<times> level) list" where
  "OPERATIONAL_CODE_TO_SEVERITY = operational_map od_actionableSeverity"

definition OPERATIONAL_CODE_TO_RECOMMENDED_ACTION :: "(string \<times> recommended_action) list" where
  "OPERATIONAL_CODE_TO_RECOMMENDED_ACTION = operational_map od_recommendedAction"

definition OPERATIONAL_CODE_TO_AUTOMATION_SAFE :: "(string \<times> bool) list" where
  "OPERATIONAL_CODE_TO_AUTOMATION_SAFE = operational_map od_automationSafe"

definition originForOperationalCode :: "string \<Rightarrow> js_error + failure_origin" where
  "originForOperationalCode = origin_lookup ''OPERATIONAL_CODE_TO_ORIGIN'' OPERATIONAL_CODE_TO_ORIGIN"

definition deriveActionableFailureOperational :: "string \<Rightarrow> actionable_failure" where
  "deriveActionableFailureOperational code =
     (case map_of OPERATIONAL_DISPOSITION code of
        None \<Rightarrow> \<lparr>af_category = Unclassified, af_severity = Medium, af_recommendedAction = ManualReview,
                 af_automationSafe = False\<rparr>
      | Some row \<Rightarrow> \<lparr>af_category = od_actionableCategory row, af_severity = od_actionableSeverity row,
                     af_recommendedAction = od_recommendedAction row,
                     af_automationSafe = od_automationSafe row\<rparr>)"

section \<open>The diagnosis and the envelope\<close>

record cli_failure_diagnosis =
  cf_summary :: string
  cf_primaryOrigin :: failure_origin
  cf_confidence :: level
  cf_evidence :: "string list"
  cf_actionableFailure :: actionable_failure

definition buildOperationalFailureDiagnosis :: "string \<Rightarrow> cli_failure_diagnosis" where
  "buildOperationalFailureDiagnosis code =
     (let primaryOrigin = map_of OPERATIONAL_CODE_TO_ORIGIN code;
          summary = map_of OPERATIONAL_CODE_TO_SUMMARY code;
          actionableFailure = deriveActionableFailureOperational code
      in case (primaryOrigin, summary) of
           (Some origin, Some s) \<Rightarrow>
             \<lparr>cf_summary = s, cf_primaryOrigin = origin, cf_confidence = High, cf_evidence = [code],
              cf_actionableFailure = actionableFailure\<rparr>
         | _ \<Rightarrow>
             \<lparr>cf_summary = ''Operational failure; origin could not be classified.'',
              cf_primaryOrigin = WorkflowFlow, cf_confidence = Low, cf_evidence = [code],
              cf_actionableFailure = actionableFailure\<rparr>)"

definition CLI_ERROR_SCHEMA_VERSION :: jsnum where
  "CLI_ERROR_SCHEMA_VERSION = Fin 2"

definition CLI_ERROR_KIND :: string where
  "CLI_ERROR_KIND = ''execution_truth_layer_error''"

definition actionable_failure_value :: "actionable_failure \<Rightarrow> jsval" where
  "actionable_failure_value a =
     VObj [(''category'', VStr (category_text (af_category a))),
           (''severity'', VStr (level_text (af_severity a))),
           (''recommendedAction'', VStr (action_text (af_recommendedAction a))),
           (''automationSafe'', VBool (af_automationSafe a))]"

definition failure_diagnosis_value :: "cli_failure_diagnosis \<Rightarrow> jsval" where
  "failure_diagnosis_value d =
     VObj [(''summary'', VStr (cf_summary d)),
           (''primaryOrigin'', VStr (origin_text (cf_primaryOrigin d))),
           (''confidence'', VStr (level_text (cf_confidence d))),
           (''evidence'', VArr (map (\<lambda>c. VObj [(''referenceCode'', VStr c)]) (cf_evidence d))),
           (''actionableFailure'', actionable_failure_value (cf_actionableFailure d))]"

definition cli_error_value :: "string \<Rightarrow> string \<Rightarrow> jsval" where
  "cli_error_value code message =
     VObj [(''schemaVersion'', VNum CLI_ERROR_SCHEMA_VERSION),
           (''kind'', VStr CLI_ERROR_KIND),
           (''code'', VStr code),
           (''message'', VStr (formatOperationalMessage message)),
           (''failureDiagnosis'', failure_diagnosis_value (buildOperationalFailureDiagnosis code))]"

definition cliErrorEnvelope :: "host \<Rightarrow> string \<Rightarrow> string \<Rightarrow> js_error + string option" where
  "cliErrorEnvelope h code message = json_stringify h (cli_error_value code message)"

section \<open>What the envelope says\<close>

text \<open>The rows follow the codes, but for the manifest codes and the trace codes, which are swapped.\<close>

lemma rows_and_codes:
  "map fst OPERATIONAL_DISPOSITION =
     take 18 CLI_OPERATIONAL_CODES @ take 6 (drop 26 CLI_OPERATIONAL_CODES)
     @ take 8 (drop 18 CLI_OPERATIONAL_CODES) @ drop 32 CLI_OPERATIONAL_CODES"
  by code_simp

lemma four_parts: "xs = take a xs @ take b (drop a xs) @ take c (drop (a + b) xs) @ drop (a + b + c) xs"
proof -
  have "xs = take a xs @ take b (drop a xs) @ take c (drop b (drop a xs)) @ drop c (drop b (drop a xs))"
    by (simp only: append_take_drop_id)
  then show ?thesis by (simp add: ac_simps)
qed

lemma every_code_has_a_row: "map_of OPERATIONAL_DISPOSITION code \<noteq> None \<longleftrightarrow> code \<in> set CLI_OPERATIONAL_CODES"
proof -
  have "set (map fst OPERATIONAL_DISPOSITION) = set CLI_OPERATIONAL_CODES"
    using arg_cong [OF four_parts [of CLI_OPERATIONAL_CODES 18 8 6], of set]
    unfolding rows_and_codes set_append by (simp add: ac_simps)
  then show ?thesis
    by (simp add: map_of_eq_None_iff)
qed

lemma map_of_filtered:
  "map_of (List.map_filter (\<lambda>c. map_option (\<lambda>row. (c, g row)) (m c)) codes) c
   = (if c \<in> set codes then map_option g (m c) else None)"
  by (induction codes) (auto simp: map_filter_simps split: option.splits)

text \<open>Each map is the column of the table it is named after.\<close>

lemma map_of_operational_map: "map_of (operational_map g) code = map_option g (map_of OPERATIONAL_DISPOSITION code)"
  using every_code_has_a_row [of code] by (auto simp: operational_map_def map_of_filtered)

lemmas operational_maps =
  OPERATIONAL_CODE_TO_ORIGIN_def OPERATIONAL_CODE_TO_SUMMARY_def OPERATIONAL_CODE_TO_ACTIONABLE_CATEGORY_def
  OPERATIONAL_CODE_TO_SEVERITY_def OPERATIONAL_CODE_TO_RECOMMENDED_ACTION_def
  OPERATIONAL_CODE_TO_AUTOMATION_SAFE_def map_of_operational_map

lemma diagnosis_of_row:
  assumes "map_of OPERATIONAL_DISPOSITION code = Some row"
  shows "buildOperationalFailureDiagnosis code =
    \<lparr>cf_summary = od_summary row, cf_primaryOrigin = od_origin row, cf_confidence = High, cf_evidence = [code],
     cf_actionableFailure = \<lparr>af_category = od_actionableCategory row, af_severity = od_actionableSeverity row,
       af_recommendedAction = od_recommendedAction row, af_automationSafe = od_automationSafe row\<rparr>\<rparr>"
  using assms by (simp add: buildOperationalFailureDiagnosis_def operational_maps deriveActionableFailureOperational_def)

lemma diagnosis_of_unknown_code:
  assumes "map_of OPERATIONAL_DISPOSITION code = None"
  shows "buildOperationalFailureDiagnosis code =
    \<lparr>cf_summary = ''Operational failure; origin could not be classified.'', cf_primaryOrigin = WorkflowFlow,
     cf_confidence = Low, cf_evidence = [code],
     cf_actionableFailure = \<lparr>af_category = Unclassified, af_severity = Medium, af_recommendedAction = ManualReview,
       af_automationSafe = False\<rparr>\<rparr>"
  using assms by (simp add: buildOperationalFailureDiagnosis_def operational_maps deriveActionableFailureOperational_def)

text \<open>A diagnosis is sure exactly when the code is one of the program's, and the origin lookup throws
  exactly for the others.\<close>

lemma sure_iff_known: "cf_confidence (buildOperationalFailureDiagnosis code) = High \<longleftrightarrow> code \<in> set CLI_OPERATIONAL_CODES"
  using every_code_has_a_row [of code] diagnosis_of_row [of code] diagnosis_of_unknown_code [of code]
  by (cases "map_of OPERATIONAL_DISPOSITION code") auto

lemma origin_lookup_of_operational_code:
  "originForOperationalCode code =
     (case map_of OPERATIONAL_DISPOSITION code of
        None \<Rightarrow> Inl (JsError (''OPERATIONAL_CODE_TO_ORIGIN missing required code: '' @ code))
      | Some row \<Rightarrow> Inr (od_origin row))"
  by (cases "map_of OPERATIONAL_DISPOSITION code")
     (simp_all add: originForOperationalCode_def origin_lookup_def operational_maps)

text \<open>No failure of a command may be retried by a machine without a person, except where its row
  says so: none does.\<close>

lemma no_automatic_action: "\<not> af_automationSafe (deriveActionableFailureOperational code)"
proof (cases "map_of OPERATIONAL_DISPOSITION code")
  case None
  then show ?thesis by (simp add: deriveActionableFailureOperational_def)
next
  case (Some row)
  have "list_all (\<lambda>e. \<not> od_automationSafe (snd e)) OPERATIONAL_DISPOSITION"
    by code_simp
  then have "\<not> od_automationSafe row"
    using map_of_SomeD [OF Some] unfolding list_all_iff by fastforce
  with Some show ?thesis by (simp add: deriveActionableFailureOperational_def)
qed

lemma envelope_never_throws: "\<exists>t. cliErrorEnvelope h code message = Inr (Some t)"
  by (simp add: cliErrorEnvelope_def json_stringify_def cli_error_value_def failure_diagnosis_value_def
      actionable_failure_value_def list_all_iff list_ex_iff)

lemma summaries_fit: "length (cf_summary (buildOperationalFailureDiagnosis code)) \<le> OPERATIONAL_MESSAGE_MAX_CHARS"
proof (cases "map_of OPERATIONAL_DISPOSITION code")
  case None
  then show ?thesis by (simp add: diagnosis_of_unknown_code OPERATIONAL_MESSAGE_MAX_CHARS_def)
next
  case (Some row)
  have "list_all (\<lambda>e. length (od_summary (snd e)) \<le> 400) OPERATIONAL_DISPOSITION"
    by code_simp
  then have "length (od_summary row) \<le> 400"
    using map_of_SomeD [OF Some] unfolding list_all_iff by fastforce
  with Some show ?thesis by (simp add: diagnosis_of_row OPERATIONAL_MESSAGE_MAX_CHARS_def)
qed

end
