(* ===== verification/PlanTransition.thy ===== *)
theory PlanTransition
  imports PlanHarvest OperationalDisposition
begin

text \<open>
  Validation of a repository change against a plan (\<open>src/planTransition.ts\<close>): the version check of
  Git, the rows of \<open>git diff -z --name-status\<close>, the rules of a plan document, their evaluation and
  the workflow result made of them. Git, the file system, \<open>picomatch\<close>, the YAML parser, the JSON
  schema validator and the decoding of UTF-8 are parameters. A buffer is the list of its bytes. A
  pattern longer than \<open>picomatch\<close> accepts, for which it throws, is not modelled.
\<close>

section \<open>Rows and rules\<close>

datatype row_kind = RkAdd | RkModify | RkDelete | RkRename | RkCopy | RkTypeChange | RkUnmerged

fun row_kind_text :: "row_kind \<Rightarrow> string" where
  "row_kind_text RkAdd = ''add''"
| "row_kind_text RkModify = ''modify''"
| "row_kind_text RkDelete = ''delete''"
| "row_kind_text RkRename = ''rename''"
| "row_kind_text RkCopy = ''copy''"
| "row_kind_text RkTypeChange = ''type_change''"
| "row_kind_text RkUnmerged = ''unmerged''"

text \<open>A row has one path, or an old and a new one.\<close>

record diff_row =
  dr_rowKind :: row_kind
  dr_paths :: "string list"

datatype rule_kind =
    MatchingRowsMustHaveRowKinds string "row_kind list"
  | ForbidMatchingRows string
  | RequireMatchingRow string "row_kind list"
  | AllChangedPathsMustMatchAllowlist "string list"
  | RequireRenameFromTo string string bool

record plan_rule =
  pl_id :: string
  pl_description :: "string option"
  pl_kind :: rule_kind

fun rule_kind_text :: "rule_kind \<Rightarrow> string" where
  "rule_kind_text (MatchingRowsMustHaveRowKinds _ _) = ''matchingRowsMustHaveRowKinds''"
| "rule_kind_text (ForbidMatchingRows _) = ''forbidMatchingRows''"
| "rule_kind_text (RequireMatchingRow _ _) = ''requireMatchingRow''"
| "rule_kind_text (AllChangedPathsMustMatchAllowlist _) = ''allChangedPathsMustMatchAllowlist''"
| "rule_kind_text (RequireRenameFromTo _ _ _) = ''requireRenameFromTo''"

datatype rules_provenance = FrontMatter | BodySection | DerivedCitations

fun provenance_text :: "rules_provenance \<Rightarrow> string" where
  "provenance_text FrontMatter = ''front_matter''"
| "provenance_text BodySection = ''body_section''"
| "provenance_text DerivedCitations = ''derived_citations''"

definition DERIVED_CITATION_REQUIRE_ROW_KINDS :: "row_kind list" where
  "DERIVED_CITATION_REQUIRE_ROW_KINDS = [RkAdd, RkModify, RkDelete, RkRename, RkCopy, RkTypeChange]"

section \<open>The version of Git\<close>

text \<open>\<open>(\d+)\<close> and \<open>(\d+)\.\<close> at the head of a string. \<open>Number\<close> of the digits is compared with small
  integers only, so a rounded double would not differ.\<close>

definition number_at :: "string \<Rightarrow> (nat \<times> string) option" where
  "number_at s = (let ds = takeWhile is_digit s in
     if ds = [] then None else Some (digits_val ds, dropWhile is_digit s))"

definition number_dot_at :: "string \<Rightarrow> (nat \<times> string) option" where
  "number_dot_at s = (case number_at s of
     None \<Rightarrow> None
   | Some (n, t) \<Rightarrow> map_option (\<lambda>u. (n, u)) (after ''.'' t))"

definition version_at :: "string \<Rightarrow> (nat \<times> nat \<times> nat) option" where
  "version_at s =
     (if starts_with ''git version '' (toLowerCase s)
      then (case number_dot_at (drop 12 s) of
          None \<Rightarrow> None
        | Some (a, t) \<Rightarrow> (case number_dot_at t of
            None \<Rightarrow> None
          | Some (b, u) \<Rightarrow> (case number_at u of None \<Rightarrow> None | Some (c, _) \<Rightarrow> Some (a, b, c))))
      else None)"

fun find_version :: "string \<Rightarrow> (nat \<times> nat \<times> nat) option" where
  "find_version [] = None"
| "find_version (c # cs) = (case version_at (c # cs) of Some v \<Rightarrow> Some v | None \<Rightarrow> find_version cs)"

definition parseGitVersionTriple :: "string \<Rightarrow> (nat \<times> nat \<times> nat) option" where
  "parseGitVersionTriple stdout = find_version (js_trim stdout)"

fun versionGte :: "nat \<times> nat \<times> nat \<Rightarrow> nat \<times> nat \<times> nat \<Rightarrow> bool" where
  "versionGte (a0, a1, a2) (b0, b1, b2) =
     (if a0 \<noteq> b0 then b0 < a0 else if a1 \<noteq> b1 then b1 < a1 else b2 \<le> a2)"

definition MIN_GIT :: "nat \<times> nat \<times> nat" where
  "MIN_GIT = (2, 30, 0)"

text \<open>The argument is the outcome of \<open>git --version\<close>.\<close>

definition assertGitVersionAtLeast_2_30 :: "js_error + string \<Rightarrow> js_error + unit" where
  "assertGitVersionAtLeast_2_30 git =
     (case git of
        Inl e \<Rightarrow> Inl (TruthLayerError ''PLAN_TRANSITION_GIT_FAILED'' (''Could not run git --version: '' @ err_message e))
      | Inr out \<Rightarrow>
          (if (case parseGitVersionTriple out of None \<Rightarrow> False | Some v \<Rightarrow> versionGte v MIN_GIT) then Inr ()
           else Inl (TruthLayerError ''PLAN_TRANSITION_GIT_TOO_OLD''
             (''Git >= 2.30.0 required for plan-transition; got: ''
              @ (if js_trim out = [] then ''(empty)'' else js_trim out)))))"

section \<open>Patterns before they are used\<close>

definition invalid_pattern :: "string \<Rightarrow> string \<Rightarrow> js_error" where
  "invalid_pattern label problem =
     TruthLayerError ''PLAN_VALIDATION_INVALID_PATTERN'' (label @ '': pattern '' @ problem)"

definition drive_path :: "string \<Rightarrow> bool" where
  "drive_path s = (case s of
     a # b # _ \<Rightarrow> (let n = (of_char a :: nat) in (65 \<le> n \<and> n \<le> 90) \<or> (97 \<le> n \<and> n \<le> 122)) \<and> b = CHR '':''
   | _ \<Rightarrow> False)"

definition preflightPatternString :: "string \<Rightarrow> string \<Rightarrow> js_error + unit" where
  "preflightPatternString s label =
     (if s = [] then Inl (invalid_pattern label ''must be non-empty.'')
      else if js_includes ''..'' s then Inl (invalid_pattern label ''must not contain \"..\".'')
      else if starts_with ''/'' s then Inl (invalid_pattern label ''must not start with \"/\".'')
      else if drive_path s then Inl (invalid_pattern label ''must not be a Windows drive path.'')
      else if CHR 0x00 \<in> set s then Inl (invalid_pattern label ''must not contain NUL.'')
      else Inr ())"

text \<open>The patterns of a rule with their labels, in the order they are checked.\<close>

fun rule_patterns :: "rule_kind \<Rightarrow> (string \<times> string) list" where
  "rule_patterns (MatchingRowsMustHaveRowKinds p _) = [(p, ''.pattern'')]"
| "rule_patterns (ForbidMatchingRows p) = [(p, ''.pattern'')]"
| "rule_patterns (RequireMatchingRow p _) = [(p, ''.pattern'')]"
| "rule_patterns (AllChangedPathsMustMatchAllowlist ps) =
     map (\<lambda>(ai, p). (p, ''.allowPatterns['' @ nat_str ai @ '']'')) (enumerate 0 ps)"
| "rule_patterns (RequireRenameFromTo f t _) = [(f, ''.fromPattern''), (t, ''.toPattern'')]"

definition preflightAllPlanPatterns :: "plan_rule list \<Rightarrow> js_error + unit" where
  "preflightAllPlanPatterns rules =
     throws_bind
       (throws_map (\<lambda>(ri, r). throws_map (\<lambda>(p, label). preflightPatternString p (''rules['' @ nat_str ri @ '']'' @ label))
            (rule_patterns (pl_kind r)))
          (enumerate 0 rules))
       (\<lambda>_. Inr ())"

section \<open>The rows of a diff\<close>

definition normalizePathSlashes :: "string \<Rightarrow> string" where
  "normalizePathSlashes = slashes"

definition git_parse_error :: "string \<Rightarrow> js_error" where
  "git_parse_error problem = TruthLayerError ''PLAN_TRANSITION_GIT_PARSE'' (''git name-status -z: '' @ problem)"

text \<open>\<open>readStr\<close>: the bytes up to the next NUL, decoded, and the bytes after it.\<close>

definition readStr :: "(string \<Rightarrow> string) \<Rightarrow> string \<Rightarrow> js_error + string \<times> string" where
  "readStr utf8 buf =
     (case dropWhile (\<lambda>b. b \<noteq> CHR 0x00) buf of
        [] \<Rightarrow> Inl (git_parse_error ''truncated stream (missing NUL).'')
      | _ # rest \<Rightarrow> Inr (utf8 (takeWhile (\<lambda>b. b \<noteq> CHR 0x00) buf), rest))"

definition single_kind :: "string \<Rightarrow> row_kind option" where
  "single_kind status =
     (if status = ''A'' then Some RkAdd else if status = ''M'' then Some RkModify
      else if status = ''D'' then Some RkDelete else if status = ''T'' then Some RkTypeChange
      else if status = ''U'' then Some RkUnmerged else None)"

text \<open>\<open>/^R\d+$/\<close> and \<open>/^C\d+$/\<close>.\<close>

definition scored_kind :: "string \<Rightarrow> row_kind option" where
  "scored_kind status =
     (case status of
        [] \<Rightarrow> None
      | c # ds \<Rightarrow>
          (if ds \<noteq> [] \<and> list_all is_digit ds
           then (if c = CHR ''R'' then Some RkRename else if c = CHR ''C'' then Some RkCopy else None)
           else None))"

text \<open>The row that follows a status, and the bytes after it.\<close>

definition read_row :: "(string \<Rightarrow> string) \<Rightarrow> string \<Rightarrow> string \<Rightarrow> js_error + diff_row \<times> string" where
  "read_row utf8 status buf =
     (case single_kind status of
        Some k \<Rightarrow> throws_bind (readStr utf8 buf) (\<lambda>(p, rest).
          Inr (\<lparr>dr_rowKind = k, dr_paths = [normalizePathSlashes p]\<rparr>, rest))
      | None \<Rightarrow>
          (case scored_kind status of
             Some k \<Rightarrow> throws_bind (readStr utf8 buf) (\<lambda>(oldP, rest).
               throws_bind (readStr utf8 rest) (\<lambda>(newP, rest').
                 Inr (\<lparr>dr_rowKind = k, dr_paths = [normalizePathSlashes oldP, normalizePathSlashes newP]\<rparr>, rest')))
           | None \<Rightarrow> Inl (git_parse_error (''unknown status token '' @ json_quote status @ ''.''))))"

lemma readStr_shorter: "readStr utf8 buf = Inr (s, rest) \<Longrightarrow> length rest < length buf"
proof -
  assume "readStr utf8 buf = Inr (s, rest)"
  then obtain b where "dropWhile (\<lambda>b. b \<noteq> CHR 0x00) buf = b # rest"
    by (auto simp: readStr_def split: list.splits)
  then show ?thesis
    using length_dropWhile_le [of "\<lambda>b. b \<noteq> CHR 0x00" buf] by simp
qed

lemma read_row_shorter: "read_row utf8 status buf = Inr (r, rest) \<Longrightarrow> length rest < length buf"
  by (auto simp: read_row_def throws_bind_Inr_iff split: option.splits dest!: readStr_shorter)

function parseGitNameStatusZ :: "(string \<Rightarrow> string) \<Rightarrow> string \<Rightarrow> js_error + diff_row list" where
  "parseGitNameStatusZ utf8 buf =
     (if buf = [] then Inr []
      else (case readStr utf8 buf of
          Inl e \<Rightarrow> Inl e
        | Inr (status, rest) \<Rightarrow>
            (if status = [] then Inr []
             else (case read_row utf8 status rest of
                 Inl e \<Rightarrow> Inl e
               | Inr (row, rest') \<Rightarrow> throws_bind (parseGitNameStatusZ utf8 rest') (\<lambda>rows. Inr (row # rows))))))"
  by pat_completeness auto
termination
  by (relation "measure (\<lambda>(u, buf). length buf)") (auto dest!: readStr_shorter read_row_shorter)

declare parseGitNameStatusZ.simps [simp del]

section \<open>The rules of a plan\<close>

definition heading_level :: "string \<Rightarrow> nat option" where
  "heading_level line =
     (let n = length (takeWhile (\<lambda>c. c = CHR ''#'') line)
      in if 1 \<le> n \<and> n \<le> 6 \<and> begins_blank (drop n line) then Some n else None)"

definition HEADING_TEXT :: string where
  "HEADING_TEXT = ''Repository transition validation''"

text \<open>\<open>/^#{1,6}\s+Repository transition validation\s*$/\<close>.\<close>

definition is_transition_heading :: "string \<Rightarrow> bool" where
  "is_transition_heading line =
     (case heading_level line of
        None \<Rightarrow> False
      | Some n \<Rightarrow>
          (case after HEADING_TEXT (dropWhile is_ws (drop n line)) of
             None \<Rightarrow> False
           | Some rest \<Rightarrow> list_all is_ws rest))"

text \<open>The lines of a block up to its closing fence, and the lines after it; \<open>None\<close> when it is never closed.\<close>

fun fence_inner :: "string list \<Rightarrow> (string list \<times> string list) option" where
  "fence_inner [] = None"
| "fence_inner (line # lines) =
     (if fence_close line then Some ([], lines)
      else map_option (\<lambda>(inner, rest). (line # inner, rest)) (fence_inner lines))"

lemma fence_inner_shorter: "fence_inner lines = Some (inner, rest) \<Longrightarrow> length rest < length lines"
  by (induction lines arbitrary: inner) (auto split: if_splits)

text \<open>An unclosed block takes all the lines left.\<close>

function fenced_blocks :: "string list \<Rightarrow> (string \<times> string) list" where
  "fenced_blocks [] = []"
| "fenced_blocks (line # lines) =
     (case fence_open line of
        None \<Rightarrow> fenced_blocks lines
      | Some info \<Rightarrow>
          (case fence_inner lines of
             None \<Rightarrow> []
           | Some (inner, rest) \<Rightarrow> (info, join [CHR 0x0A] inner) # fenced_blocks rest))"
  by pat_completeness auto
termination
  by (relation "measure length") (auto dest!: fence_inner_shorter)

definition extractFencedBlocks :: "string \<Rightarrow> (string \<times> string) list" where
  "extractFencedBlocks section = fenced_blocks (split_on (CHR 0x0A) section)"

text \<open>The lines under a heading of the given level.\<close>

definition section_lines :: "nat \<Rightarrow> string list \<Rightarrow> string list" where
  "section_lines level = takeWhile (\<lambda>line. case heading_level line of None \<Rightarrow> True | Some n \<Rightarrow> level < n)"

definition is_yaml_info :: "string \<Rightarrow> bool" where
  "is_yaml_info info \<longleftrightarrow> info = ''yaml'' \<or> info = ''yml''"

definition PLAN_INSUFFICIENT_SPEC_DETAIL :: string where
  "PLAN_INSUFFICIENT_SPEC_DETAIL =
     ''No machine-checkable plan transition rules were found. Add planValidation (schemaVersion: 1, rules) under YAML front matter; or add exactly one heading \"Repository transition validation\" followed by a single yaml or yml fenced block with the same structure; or, when neither is present, derive rules from paths harvested only under obligation-bearing rules: H2 sections titled Implementation, Deliverables, Testing, Documentation, or Validation (see docs ''
     @ [CHR 0x97] @ '' Derived citations: action/modal/numbered-fragment gates, strong-root prefixes, Testing Expect: skip, body line fragmentation, todo semicolon segmentation) plus front matter todos[].content, so each harvested path can be required to appear in the git name-status diff.''"

definition insufficient_spec :: js_error where
  "insufficient_spec = TruthLayerError ''PLAN_VALIDATION_INSUFFICIENT_SPEC'' PLAN_INSUFFICIENT_SPEC_DETAIL"

definition PLAN_BODY_FIRST_FENCE_MUST_BE_YAML :: string where
  "PLAN_BODY_FIRST_FENCE_MUST_BE_YAML =
     ''The first fenced code block in the \"Repository transition validation\" section must use the yaml or yml language tag.''"

text \<open>The YAML parser, the schema validator (the rules of a valid value, or its errors as JSON text) and the
  reading of \<open>file:\<close> URLs.\<close>

record plan_readers =
  rd_yaml :: "string \<Rightarrow> js_error + jsval"
  rd_core :: "jsval \<Rightarrow> string + plan_rule list"
  rd_fileUrlPath :: "string \<Rightarrow> string option"

definition parse_yaml :: "plan_readers \<Rightarrow> string \<Rightarrow> string \<Rightarrow> js_error + jsval" where
  "parse_yaml rd label src =
     (case rd_yaml rd src of
        Inl e \<Rightarrow> Inl (TruthLayerError ''PLAN_VALIDATION_YAML_INVALID'' (label @ ''YAML parse failed: '' @ err_message e))
      | Inr v \<Rightarrow> Inr v)"

definition validatePlanValidationCoreOrThrow :: "plan_readers \<Rightarrow> jsval \<Rightarrow> string \<Rightarrow> js_error + plan_rule list" where
  "validatePlanValidationCoreOrThrow rd v labelPrefix =
     (case rd_core rd v of
        Inl errors \<Rightarrow> Inl (TruthLayerError ''PLAN_VALIDATION_SCHEMA_INVALID'' (labelPrefix @ errors))
      | Inr rules \<Rightarrow> Inr rules)"

definition ambiguous_rules :: "string \<Rightarrow> js_error" where
  "ambiguous_rules message = TruthLayerError ''PLAN_VALIDATION_AMBIGUOUS_BODY_RULES'' message"

text \<open>The rules of the block under the one heading, whose lines after the heading are given.\<close>

definition rules_of_section :: "plan_readers \<Rightarrow> nat \<Rightarrow> string list \<Rightarrow> js_error + plan_rule list" where
  "rules_of_section rd level lines =
     (case extractFencedBlocks (join [CHR 0x0A] (section_lines level lines)) of
        [] \<Rightarrow> Inl insufficient_spec
      | (info, inner) # blocks \<Rightarrow>
          (if \<not> is_yaml_info info
           then Inl (TruthLayerError ''PLAN_VALIDATION_INSUFFICIENT_SPEC'' PLAN_BODY_FIRST_FENCE_MUST_BE_YAML)
           else if 1 < length (filter (\<lambda>b. is_yaml_info (fst b)) ((info, inner) # blocks))
           then Inl (ambiguous_rules ''Multiple yaml or yml fenced blocks in the \"Repository transition validation\" section are not allowed.'')
           else throws_bind (parse_yaml rd ''body Repository transition validation: '' inner) (\<lambda>parsed.
             validatePlanValidationCoreOrThrow rd parsed ''body Repository transition validation:'')))"

definition derived_rules :: "string list \<Rightarrow> plan_rule list" where
  "derived_rules harvested =
     map (\<lambda>(i, pattern). \<lparr>pl_id = ''derived.require.'' @ nat_str i, pl_description = None,
        pl_kind = RequireMatchingRow pattern DERIVED_CITATION_REQUIRE_ROW_KINDS\<rparr>)
       (enumerate 0 harvested)"

text \<open>The numbers of the heading's lines.\<close>

definition heading_indices :: "string list \<Rightarrow> nat list" where
  "heading_indices lines = filter (\<lambda>li. is_transition_heading (lines ! li)) [0..<length lines]"

fun front_matter_members :: "jsval \<Rightarrow> (string \<times> jsval) list" where
  "front_matter_members (VObj kvs) = kvs"
| "front_matter_members _ = []"

definition rules_of_body ::
  "plan_readers \<Rightarrow> string \<Rightarrow> (string \<times> jsval) list \<Rightarrow> js_error + plan_rule list \<times> rules_provenance" where
  "rules_of_body rd md fm =
     throws_bind (extractMarkdownBodyAfterFrontMatter md) (\<lambda>raw.
       let lines = split_on (CHR 0x0A) (unix_lines raw)
       in case heading_indices lines of
            [] \<Rightarrow>
              throws_bind (harvestQualifyingPathsFromPlan (rd_fileUrlPath rd) md fm) (\<lambda>harvested.
                if harvested = [] then Inl insufficient_spec
                else Inr (derived_rules harvested, DerivedCitations))
          | [i] \<Rightarrow>
              (case heading_level (lines ! i) of
                 None \<Rightarrow> Inl insufficient_spec
               | Some level \<Rightarrow>
                   throws_bind (rules_of_section rd level (drop (i + 1) lines)) (\<lambda>rules. Inr (rules, BodySection)))
          | _ \<Rightarrow> Inl (ambiguous_rules
              ''Duplicate \"Repository transition validation\" headings are not allowed when loading rules from the plan body.''))"

definition loadPlanTransitionRules :: "plan_readers \<Rightarrow> string \<Rightarrow> js_error + plan_rule list \<times> rules_provenance" where
  "loadPlanTransitionRules rd rawMarkdown =
     (let md = stripUtf8Bom rawMarkdown
      in throws_bind (extractPlanFrontMatterYamlSource md) (\<lambda>yamlSrc.
         throws_bind (parse_yaml rd [] yamlSrc) (\<lambda>doc.
           let fm = front_matter_members doc
           in case map_of fm ''planValidation'' of
                Some v \<Rightarrow> throws_bind (validatePlanValidationCoreOrThrow rd v ''front matter planValidation:'')
                  (\<lambda>rules. Inr (rules, FrontMatter))
              | None \<Rightarrow> rules_of_body rd md fm)))"

end
