(* ===== verification/PlanEvaluation.thy ===== *)
theory PlanEvaluation
  imports PlanTransition
begin

text \<open>
  The evaluation of a plan's rules over the rows of a diff and the workflow result of a plan
  transition (\<open>src/planTransition.ts\<close>, second half). \<open>picomatch.isMatch(path, pattern)\<close> is a parameter,
  and so is the environment: Git, the paths and the files.
\<close>

section \<open>Matching\<close>

type_synonym matcher = "string \<Rightarrow> string \<Rightarrow> bool"

definition pathMatchesPattern :: "matcher \<Rightarrow> string \<Rightarrow> string \<Rightarrow> bool" where
  "pathMatchesPattern isMatch filePath pattern = isMatch (normalizePathSlashes filePath) pattern"

definition rowTouchesPattern :: "matcher \<Rightarrow> diff_row \<Rightarrow> string \<Rightarrow> bool" where
  "rowTouchesPattern isMatch row pattern = list_ex (\<lambda>pt. pathMatchesPattern isMatch pt pattern) (dr_paths row)"

definition rowMatchesPatternAndKinds :: "matcher \<Rightarrow> diff_row \<Rightarrow> string \<Rightarrow> row_kind list \<Rightarrow> bool" where
  "rowMatchesPatternAndKinds isMatch row pattern kinds \<longleftrightarrow>
     rowTouchesPattern isMatch row pattern \<and> dr_rowKind row \<in> set kinds"

definition pathMatchesAnyAllowlist :: "matcher \<Rightarrow> string \<Rightarrow> string list \<Rightarrow> bool" where
  "pathMatchesAnyAllowlist isMatch filePath allowPatterns =
     list_ex (\<lambda>pat. pathMatchesPattern isMatch filePath pat) allowPatterns"

section \<open>One rule\<close>

definition EVIDENCE_CAP :: nat where
  "EVIDENCE_CAP = 50"

definition capEvidence :: "'a list \<Rightarrow> 'a list \<times> bool" where
  "capEvidence arr = (if length arr \<le> EVIDENCE_CAP then (arr, False) else (take EVIDENCE_CAP arr, True))"

definition row_value :: "diff_row \<Rightarrow> jsval" where
  "row_value row = VObj [(''rowKind'', VStr (row_kind_text (dr_rowKind row))), (''paths'', VArr (map VStr (dr_paths row)))]"

definition count_value :: "'a list \<Rightarrow> jsval" where
  "count_value xs = VNum (num_of_int (int (length xs)))"

text \<open>What a rule finds: nothing to object to, or a code, a message; and the extra evidence.\<close>

datatype plan_finding =
    RuleOk "(string \<times> jsval) list"
  | RuleBad string string "(string \<times> jsval) list"

definition capped :: "string \<Rightarrow> ('a \<Rightarrow> jsval) \<Rightarrow> 'a list \<Rightarrow> (string \<times> jsval) list" where
  "capped member_name value_of found =
     (case capEvidence found of (items, truncated) \<Rightarrow>
        [(member_name, VArr (map value_of items)), (''truncated'', VBool truncated)])"

definition row_kinds_text :: "row_kind list \<Rightarrow> string" where
  "row_kinds_text kinds = join '', '' (map row_kind_text (js_unique kinds))"

definition rename_kinds :: "bool \<Rightarrow> row_kind list" where
  "rename_kinds includeCopy = (if includeCopy then [RkRename, RkCopy] else [RkRename])"

definition renames :: "matcher \<Rightarrow> string \<Rightarrow> string \<Rightarrow> bool \<Rightarrow> diff_row \<Rightarrow> bool" where
  "renames isMatch fromPattern toPattern includeCopy row =
     (dr_rowKind row \<in> set (rename_kinds includeCopy)
      \<and> (case dr_paths row of
           [oldP, newP] \<Rightarrow> pathMatchesPattern isMatch oldP fromPattern \<and> pathMatchesPattern isMatch newP toPattern
         | _ \<Rightarrow> False))"

definition allowlist_failures :: "matcher \<Rightarrow> diff_row list \<Rightarrow> string list \<Rightarrow> (string \<times> row_kind) list" where
  "allowlist_failures isMatch rows allowPatterns =
     concat (map (\<lambda>row. map (\<lambda>pt. (pt, dr_rowKind row))
       (filter (\<lambda>pt. \<not> pathMatchesAnyAllowlist isMatch pt allowPatterns) (dr_paths row))) rows)"

definition allowlist_failure_value :: "string \<times> row_kind \<Rightarrow> jsval" where
  "allowlist_failure_value f = VObj [(''path'', VStr (fst f)), (''rowKind'', VStr (row_kind_text (snd f)))]"

fun rule_finding :: "matcher \<Rightarrow> diff_row list \<Rightarrow> rule_kind \<Rightarrow> plan_finding" where
  "rule_finding isMatch rows (MatchingRowsMustHaveRowKinds pattern rowKinds) =
     (let violating = filter (\<lambda>row. rowTouchesPattern isMatch row pattern \<and> dr_rowKind row \<notin> set rowKinds) rows
      in if violating \<noteq> []
         then RuleBad ''PLAN_RULE_ROW_KIND_MISMATCH''
           (''Rows matching pattern must have rowKinds '' @ row_kinds_text rowKinds @ ''; found violating rows.'')
           (capped ''violatingRows'' row_value violating)
         else RuleOk [(''rowCount'', count_value rows)])"
| "rule_finding isMatch rows (ForbidMatchingRows pattern) =
     (let forbidden = filter (\<lambda>row. rowTouchesPattern isMatch row pattern) rows
      in if forbidden \<noteq> []
         then RuleBad ''PLAN_RULE_FORBIDDEN_ROW''
           (''No diff row may match pattern '' @ json_quote pattern @ ''.'')
           (capped ''violatingRows'' row_value forbidden)
         else RuleOk [])"
| "rule_finding isMatch rows (RequireMatchingRow pattern rowKinds) =
     (if list_ex (\<lambda>row. rowMatchesPatternAndKinds isMatch row pattern rowKinds) rows then RuleOk []
      else RuleBad ''PLAN_RULE_REQUIRED_ROW_MISSING''
        (''Expected at least one diff row matching pattern '' @ json_quote pattern @ '' with rowKinds ''
         @ row_kinds_text rowKinds @ ''.'')
        [(''rowCount'', count_value rows)])"
| "rule_finding isMatch rows (AllChangedPathsMustMatchAllowlist allowPatterns) =
     (let failures = allowlist_failures isMatch rows allowPatterns
      in if failures \<noteq> []
         then RuleBad ''PLAN_RULE_ALLOWLIST_VIOLATION''
           ''Every changed path must match at least one allowPatterns entry.''
           (capped ''allowlistFailures'' allowlist_failure_value failures)
         else RuleOk [])"
| "rule_finding isMatch rows (RequireRenameFromTo fromPattern toPattern includeCopy) =
     (if list_ex (renames isMatch fromPattern toPattern includeCopy) rows then RuleOk []
      else RuleBad ''PLAN_RULE_RENAME_MISMATCH''
        (''Expected '' @ join '' or '' (map row_kind_text (rename_kinds includeCopy)) @ '' from ''
         @ json_quote fromPattern @ '' to '' @ json_quote toPattern @ ''.'')
        [(''rowCount'', count_value rows)])"

definition base_narrative :: "plan_rule \<Rightarrow> string" where
  "base_narrative rule =
     (let described = (case pl_description rule of None \<Rightarrow> [] | Some d \<Rightarrow> js_trim d)
      in if described \<noteq> [] then described else rule_kind_text (pl_kind rule) @ '' ('' @ pl_id rule @ '')'')"

definition rule_step :: "plan_rule \<Rightarrow> int \<Rightarrow> step_status \<Rightarrow> reason list \<Rightarrow> (string \<times> jsval) list \<Rightarrow> step_outcome" where
  "rule_step rule seq status reasons extra =
     \<lparr>so_seq = seq, so_toolId = ''plan_transition.rule.'' @ pl_id rule, so_releaseCritical = False,
      so_narrative = base_narrative rule, so_paramsCanonical = ''{}'', so_request = None,
      so_status = status, so_reasons = reasons,
      so_evidence = [(''planTransition'', VBool True), (''ruleId'', VStr (pl_id rule))] @ extra,
      so_repeatObservationCount = 1, so_evaluatedObservationOrdinal = 1, so_failureDiagnostic = None,
      so_langgraphCheckpointKey = None\<rparr>"

definition evaluateRule :: "matcher \<Rightarrow> diff_row list \<Rightarrow> plan_rule \<Rightarrow> int \<Rightarrow> step_outcome" where
  "evaluateRule isMatch rows rule seq =
     (case rule_finding isMatch rows (pl_kind rule) of
        RuleOk extra \<Rightarrow> rule_step rule seq Verified [] extra
      | RuleBad code message extra \<Rightarrow> rule_step rule seq Inconsistent [mk_reason code message] extra)"

definition evaluatePlanRules :: "matcher \<Rightarrow> diff_row list \<Rightarrow> plan_rule list \<Rightarrow> step_outcome list" where
  "evaluatePlanRules isMatch rows rules =
     map (\<lambda>(i, rule). evaluateRule isMatch rows rule (int (i + 1))) (enumerate 0 rules)"

section \<open>The run\<close>

text \<open>\<open>realpathSync\<close>, \<open>readFileSync\<close> and the two Git commands may throw; the outcome of each is their
  standard output.\<close>

record plan_env =
  pe_gitVersion :: "js_error + string"
  pe_resolve :: "string \<Rightarrow> string"
  pe_realpath :: "string \<Rightarrow> js_error + string"
  pe_relative :: "string \<Rightarrow> string \<Rightarrow> string"
  pe_isAbsolute :: "string \<Rightarrow> bool"
  pe_readFile :: "string \<Rightarrow> js_error + string"
  pe_revParse :: "string \<Rightarrow> string \<Rightarrow> js_error + string"
  pe_diff :: "string \<Rightarrow> string \<Rightarrow> js_error + string"
  pe_utf8 :: "string \<Rightarrow> string"
  pe_isMatch :: matcher
  pe_readers :: plan_readers

definition assertPlanPathInsideRepo :: "plan_env \<Rightarrow> string \<Rightarrow> string \<Rightarrow> js_error + string" where
  "assertPlanPathInsideRepo env repoRoot planPath =
     throws_bind (pe_realpath env (pe_resolve env repoRoot)) (\<lambda>repoReal.
     throws_bind (pe_realpath env (pe_resolve env planPath)) (\<lambda>planReal.
       let relative = pe_relative env repoReal planReal
       in if starts_with ''..'' relative \<or> pe_isAbsolute env relative
          then Inl (TruthLayerError ''PLAN_PATH_OUTSIDE_REPO'' ''--plan must resolve inside the repository root.'')
          else Inr planReal))"

definition parseAndValidatePlanDocument :: "plan_env \<Rightarrow> string \<Rightarrow> js_error + plan_rule list \<times> rules_provenance" where
  "parseAndValidatePlanDocument env planFilePath =
     throws_bind (pe_readFile env planFilePath) (loadPlanTransitionRules (pe_readers env))"

definition resolveCommitSha :: "plan_env \<Rightarrow> string \<Rightarrow> string \<Rightarrow> js_error + string" where
  "resolveCommitSha env repo ref =
     (case pe_revParse env repo (ref @ ''^{commit}'') of
        Inr out \<Rightarrow> Inr (js_trim out)
      | Inl e \<Rightarrow> Inl (TruthLayerError ''PLAN_TRANSITION_BAD_REF''
          (''Could not resolve ref '' @ json_quote ref @ '' to a commit: '' @ err_message e)))"

definition readGitNameStatusZ :: "plan_env \<Rightarrow> string \<Rightarrow> string \<Rightarrow> string \<Rightarrow> js_error + string" where
  "readGitNameStatusZ env repo before_sha after_sha =
     (case pe_diff env repo (before_sha @ ''..'' @ after_sha) of
        Inr buf \<Rightarrow> Inr buf
      | Inl e \<Rightarrow> Inl (TruthLayerError ''PLAN_TRANSITION_GIT_FAILED'' (''git diff failed: '' @ err_message e)))"

record plan_input =
  pn_repoRoot :: string
  pn_beforeRef :: string
  pn_afterRef :: string
  pn_planPath :: string
  pn_workflowId :: "string option"

definition PLAN_TRANSITION_POLICY :: policy where
  "PLAN_TRANSITION_POLICY = PolicyStrong (Fin 0) (Fin 0)"

text \<open>The rules of the plan and the rows of the diff, in the order they are read.\<close>

definition read_plan_and_diff ::
  "plan_env \<Rightarrow> plan_input \<Rightarrow> js_error + (plan_rule list \<times> rules_provenance) \<times> diff_row list" where
  "read_plan_and_diff env input =
     throws_bind (assertGitVersionAtLeast_2_30 (pe_gitVersion env)) (\<lambda>_.
     let repo = pe_resolve env (pn_repoRoot input) in
     throws_bind (assertPlanPathInsideRepo env repo (pn_planPath input)) (\<lambda>planReal.
     throws_bind (parseAndValidatePlanDocument env planReal) (\<lambda>(rules, source).
     throws_bind (preflightAllPlanPatterns rules) (\<lambda>_.
     throws_bind (resolveCommitSha env repo (pn_beforeRef input)) (\<lambda>beforeSha.
     throws_bind (resolveCommitSha env repo (pn_afterRef input)) (\<lambda>afterSha.
     throws_bind (readGitNameStatusZ env repo beforeSha afterSha) (\<lambda>diffBuf.
     throws_bind (parseGitNameStatusZ (pe_utf8 env) diffBuf) (\<lambda>rows.
       Inr ((rules, source), rows)))))))))"

definition plan_engine ::
  "plan_env \<Rightarrow> plan_input \<Rightarrow> plan_rule list \<Rightarrow> diff_row list \<Rightarrow> js_error + engine_result" where
  "plan_engine env input rules rows =
     (let steps = evaluatePlanRules (pe_isMatch env) rows rules;
          workflowId = (case pn_workflowId input of None \<Rightarrow> PLAN_TRANSITION_WORKFLOW_ID | Some i \<Rightarrow> i)
      in throws_bind (resolveVerificationPolicyInput (Some PLAN_TRANSITION_POLICY)) (\<lambda>verificationPolicy.
         aggregateWorkflow workflowId steps [] verificationPolicy IntegrityNormal))"

definition buildPlanTransitionWorkflowResult ::
  "host \<Rightarrow> plan_env \<Rightarrow> plan_input \<Rightarrow> js_error + workflow_result \<times> rules_provenance" where
  "buildPlanTransitionWorkflowResult h env input =
     throws_bind (read_plan_and_diff env input) (\<lambda>((rules, source), rows).
     throws_bind (plan_engine env input rules rows) (\<lambda>engine.
     throws_bind (finalizeEmittedWorkflowResult h engine) (\<lambda>r. Inr (r, source))))"

section \<open>The event of a run\<close>

record plan_meta =
  pm_workflowId :: string
  pm_beforeRef :: string
  pm_afterRef :: string
  pm_beforeCommitSha :: string
  pm_afterCommitSha :: string
  pm_planResolvedPath :: string
  pm_planSha256 :: string
  pm_transitionRulesSource :: rules_provenance

definition plan_event_value :: "plan_meta \<Rightarrow> jsval" where
  "plan_event_value m =
     VObj [(''schemaVersion'', VNum (Fin 1)), (''workflowId'', VStr (pm_workflowId m)), (''seq'', VNum (Fin 0)),
       (''type'', VStr ''tool_observed''), (''toolId'', VStr ''plan_transition.meta''),
       (''params'', VObj [(''beforeRef'', VStr (pm_beforeRef m)), (''afterRef'', VStr (pm_afterRef m)),
         (''beforeCommitSha'', VStr (pm_beforeCommitSha m)), (''afterCommitSha'', VStr (pm_afterCommitSha m)),
         (''planResolvedPath'', VStr (pm_planResolvedPath m)), (''planSha256'', VStr (pm_planSha256 m)),
         (''transitionRulesSource'', VStr (provenance_text (pm_transitionRulesSource m)))])]"

text \<open>The text of the buffer.\<close>

definition buildPlanTransitionEventsNdjson :: "host \<Rightarrow> plan_meta \<Rightarrow> js_error + string" where
  "buildPlanTransitionEventsNdjson h m =
     throws_bind (json_stringify h (plan_event_value m)) (\<lambda>t.
       Inr ((case t of None \<Rightarrow> ''undefined'' | Some s \<Rightarrow> s) @ [CHR 0x0A]))"

end
