(* ===== verification/PlanProperties.thy ===== *)
theory PlanProperties
  imports PlanEvaluation ReportProperties
begin

text \<open>
  What holds of plan transitions: the paths harvested from a plan are plain paths of the repository,
  so that the rules derived from them always pass the check of patterns; the rows read from Git are
  the rows it printed; a rule is verified exactly when what it states of the rows is true.
\<close>

section \<open>Harvested paths\<close>

definition path_char :: "char \<Rightarrow> bool" where
  "path_char c \<longleftrightarrow> segment_char c \<or> c = CHR ''/''"

text \<open>A path under one of the roots, of an allowed extension, without a special character and with no
  way up.\<close>

definition plain_path :: "string \<Rightarrow> bool" where
  "plain_path p \<longleftrightarrow> list_all path_char p \<and> \<not> js_includes ''..'' p \<and> \<not> js_includes ''//'' p
     \<and> (\<exists>r \<in> set ROOTS. starts_with (r @ ''/'') p)
     \<and> (\<exists>ext \<in> set ALLOWED_EXT. \<exists>stem. p = stem @ ''.'' @ ext)"

lemma starts_with_iff: "starts_with p s \<longleftrightarrow> (\<exists>t. s = p @ t)"
  by (metis append_take_drop_id append_eq_conv_conj starts_with_def)

lemma js_includes_iff: "js_includes p s \<longleftrightarrow> (\<exists>a b. s = a @ p @ b)"
proof (induction s)
  case (Cons c cs)
  have "(\<exists>a b. c # cs = a @ p @ b) \<longleftrightarrow> (\<exists>t. c # cs = p @ t) \<or> (\<exists>a b. cs = a @ p @ b)"
    by (metis append_Cons append_Nil append_eq_Cons_conv)
  then show ?case by (simp only: js_includes.simps starts_with_iff Cons.IH)
qed auto

lemma segment_pieces: "list_all (list_all segment_char) (split_on (CHR ''/'') s) \<Longrightarrow> list_all path_char s"
  by (induction s) (auto simp: path_char_def split: list.splits if_splits)

lemma root_chars: "r \<in> set ROOTS \<Longrightarrow> list_all path_char r"
proof -
  have "list_all (list_all path_char) ROOTS" by code_simp
  then show "r \<in> set ROOTS \<Longrightarrow> list_all path_char r" by (simp add: list_all_iff)
qed

lemma ext_chars: "ext \<in> set ALLOWED_EXT \<Longrightarrow> list_all path_char ext \<and> CHR ''.'' \<notin> set ext \<and> CHR ''/'' \<notin> set ext"
proof -
  have "list_all (\<lambda>e. list_all path_char e \<and> CHR ''.'' \<notin> set e \<and> CHR ''/'' \<notin> set e) ALLOWED_EXT" by code_simp
  then show "ext \<in> set ALLOWED_EXT \<Longrightarrow> list_all path_char ext \<and> CHR ''.'' \<notin> set ext \<and> CHR ''/'' \<notin> set ext"
    by (simp add: list_all_iff)
qed

lemma rooted_path:
  assumes "rooted s"
  shows "list_all path_char s" and "\<exists>r \<in> set ROOTS. starts_with (r @ ''/'') s"
proof -
  obtain r where r: "root_at s = Some r"
    and rest: "list_all (\<lambda>p. p \<noteq> [] \<and> list_all segment_char p) (split_on (CHR ''/'') (drop (length r + 1) s))"
    using assms by (auto simp: rooted_def split: option.splits)
  from r have mem: "r \<in> set ROOTS" and pre: "starts_with (r @ ''/'') s"
    unfolding root_at_def find_Some_iff by auto
  then show "\<exists>r \<in> set ROOTS. starts_with (r @ ''/'') s" by blast
  obtain t where s: "s = r @ ''/'' @ t" using pre by (auto simp: starts_with_iff)
  have "list_all (list_all segment_char) (split_on (CHR ''/'') t)"
    using rest by (simp add: s list_all_iff)
  then have "list_all path_char t" by (rule segment_pieces)
  with root_chars [OF mem] show "list_all path_char s" by (simp add: s path_char_def)
qed

lemma at_last_dot_parts: "at_last_dot s = Some (stem, ext) \<Longrightarrow> s = stem @ ''.'' @ ext \<and> CHR ''.'' \<notin> set ext"
proof -
  assume a: "at_last_dot s = Some (stem, ext)"
  let ?P = "\<lambda>c. c \<noteq> CHR ''.''"
  have ext: "ext = rev (takeWhile ?P (rev s))" and less: "length ext < length s"
    and stem: "stem = take (length s - length ext - 1) s"
    using a by (auto simp: at_last_dot_def Let_def split: if_splits)
  have all: "rev s = takeWhile ?P (rev s) @ dropWhile ?P (rev s)" by simp
  have "dropWhile ?P (rev s) \<noteq> []"
    using less ext all by (metis append_Nil2 length_rev less_irrefl rev_rev_ident)
  then obtain d ds where d: "dropWhile ?P (rev s) = d # ds" by (cases "dropWhile ?P (rev s)") auto
  then have dot: "d = CHR ''.''" using hd_dropWhile [of ?P "rev s"] by simp
  have s: "s = rev ds @ ''.'' @ ext"
    using arg_cong [OF all, of rev] by (simp add: d dot ext)
  moreover have "CHR ''.'' \<notin> set ext" by (auto simp: ext dest: set_takeWhileD)
  ultimately show ?thesis using stem by simp
qed

lemma longer_prefix:
  assumes "xs @ ys = us @ vs" and "length us \<le> length xs"
  shows "\<exists>c. xs = us @ c"
proof -
  have "us = take (length us) (xs @ ys)" using assms(1) by simp
  also have "\<dots> = take (length us) xs" using assms(2) by simp
  finally show ?thesis by (metis append_take_drop_id)
qed

text \<open>Changing the letters after the last dot makes no new \<open>..\<close> or \<open>//\<close>.\<close>

lemma pair_before_dot:
  assumes "js_includes [x, x] (stem @ ''.'' @ ext)" and "x \<notin> set ext"
  shows "js_includes [x, x] (stem @ ''.'' @ raw)"
proof -
  let ?s = "stem @ ''.''"
  obtain a b where ab: "?s @ ext = a @ [x, x] @ b" using assms(1) by (auto simp: js_includes_iff)
  have "length (a @ [x, x]) \<le> length ?s"
  proof (rule ccontr)
    assume "\<not> length (a @ [x, x]) \<le> length ?s"
    then have "x = ext ! (Suc (length a) - length ?s)" and "Suc (length a) - length ?s < length ext"
      using arg_cong [OF ab, of "\<lambda>l. l ! Suc (length a)"] arg_cong [OF ab, of length]
      by (auto simp: nth_append split: if_splits)
    with assms(2) show False by auto
  qed
  then obtain c where "?s = (a @ [x, x]) @ c"
    using longer_prefix [of ?s ext "a @ [x, x]" b] ab by auto
  then have "?s @ raw = (a @ [x, x] @ c) @ raw" by simp
  then have "stem @ ''.'' @ raw = a @ [x, x] @ (c @ raw)" by (simp only: append_assoc)
  then show ?thesis unfolding js_includes_iff by (intro exI)
qed

lemma includes_suffix: "js_includes p (drop n s) \<Longrightarrow> js_includes p s"
  by (metis append.assoc append_take_drop_id js_includes_iff)

lemma qualify_cases:
  assumes "(if up \<or> refused then None else (case starts of [] \<Rightarrow> None | ss \<Rightarrow>
      (if slash (drop (last ss) R) then None
       else (case at_last_dot (drop (last ss) R) of None \<Rightarrow> None | Some (stem, raw) \<Rightarrow>
          (if ok stem raw then Some (result stem raw) else None))))) = Some p"
  obtains n stem raw where "\<not> up" "at_last_dot (drop n R) = Some (stem, raw)" "\<not> slash (drop n R)" "ok stem raw"
    "p = result stem raw"
proof -
  have 1: "\<not> (up \<or> refused)" "starts \<noteq> []" using assms by (auto split: if_splits list.splits)
  let ?P = "drop (last starts) R"
  have 2: "(if slash ?P then None else (case at_last_dot ?P of None \<Rightarrow> None | Some (stem, raw) \<Rightarrow>
          (if ok stem raw then Some (result stem raw) else None))) = Some p"
    using assms 1 by (cases starts) auto
  then obtain stem raw where "at_last_dot ?P = Some (stem, raw)"
    by (cases "at_last_dot ?P") (auto split: if_splits)
  with 1 2 show thesis by (intro that [of "last starts" stem raw]) (auto split: if_splits)
qed

lemma qualified_is_plain:
  assumes "qualify R = Some p"
  shows "plain_path p"
proof -
  obtain n stem raw where up: "\<not> js_includes ''..'' R"
    and P: "at_last_dot (drop n R) = Some (stem, raw)" and noslash: "\<not> js_includes ''//'' (drop n R)"
    and root: "rooted stem" and ext: "toLowerCase raw \<in> set ALLOWED_EXT" and p: "p = stem @ ''.'' @ toLowerCase raw"
    using assms unfolding qualify_def Let_def by (rule qualify_cases) (use that in blast)
  let ?P = "drop n R"
  have PP: "?P = stem @ ''.'' @ raw" using at_last_dot_parts [OF P] by simp
  have dots: "\<not> js_includes ''..'' ?P" using up includes_suffix by blast
  from rooted_path [OF root] obtain r where "list_all path_char stem" "r \<in> set ROOTS" "starts_with (r @ ''/'') stem"
    by blast
  moreover from this have "\<exists>r \<in> set ROOTS. starts_with (r @ ''/'') p"
    by (intro bexI [of _ r]) (auto simp: p starts_with_iff)
  moreover have "\<not> js_includes ''..'' p" "\<not> js_includes ''//'' p"
    using dots noslash ext_chars [OF ext] pair_before_dot [of _ stem "toLowerCase raw" raw] unfolding p PP by blast+
  ultimately show ?thesis
    unfolding plain_path_def using ext ext_chars [OF ext]
    by (auto simp: p path_char_def segment_char_def)
qed

lemma normalized_is_plain: "normalizeAndQualify f c = Some p \<Longrightarrow> plain_path p"
  by (auto simp: normalizeAndQualify_def Let_def qualified_is_plain split: if_splits)

text \<open>
  The lines that oblige: they stand outside of fenced blocks, are no headings, and the last heading
  outside of such blocks before them has an obliging title. The flag says whether that is \<open>Testing\<close>.
\<close>

definition in_fence :: "bool \<Rightarrow> string list \<Rightarrow> bool" where
  "in_fence start lines = fold (\<lambda>line fenced. if fenced then \<not> fence_close line else fence_open line \<noteq> None) lines start"

fun unfenced :: "bool \<Rightarrow> string list \<Rightarrow> string list" where
  "unfenced fenced [] = []"
| "unfenced True (line # lines) = unfenced (\<not> fence_close line) lines"
| "unfenced False (line # lines) = (if fence_open line = None then line # unfenced False lines else unfenced True lines)"

definition last_title :: "string \<Rightarrow> bool \<Rightarrow> string list \<Rightarrow> string" where
  "last_title title fenced lines = last (title # List.map_filter h2_title (unfenced fenced lines))"

definition obliging_line :: "string \<Rightarrow> string \<Rightarrow> bool \<Rightarrow> bool" where
  "obliging_line body line testing \<longleftrightarrow>
     (\<exists>pre post. split_on (CHR 0x0A) body = pre @ line # post \<and> \<not> in_fence False pre
        \<and> fence_open line = None \<and> h2_title line = None \<and> obligation_title (last_title [] False pre)
        \<and> testing = (first_word (toLowerCase (js_trim (last_title [] False pre))) = ''testing''))"

lemma last_title_simps [simp]:
  "last_title title fenced [] = title"
  "last_title title True (line # lines) = last_title title (\<not> fence_close line) lines"
  "last_title title False (line # lines)
     = (if fence_open line \<noteq> None then last_title title True lines
        else case h2_title line of Some t \<Rightarrow> last_title t False lines | None \<Rightarrow> last_title title False lines)"
  by (auto simp: last_title_def List.map_filter_def split: option.split)

lemma in_fence_simps [simp]:
  "in_fence fenced [] = fenced"
  "in_fence fenced (line # lines) = in_fence (if fenced then \<not> fence_close line else fence_open line \<noteq> None) lines"
  by (simp_all add: in_fence_def)

lemma split_first:
  "(\<exists>pre post. l # ls = pre @ x # post \<and> P pre) \<longleftrightarrow> (l = x \<and> P []) \<or> (\<exists>pre post. ls = pre @ x # post \<and> P (l # pre))"
  by (auto simp: Cons_eq_append_conv)

text \<open>The walk over the lines calls back on exactly these.\<close>

lemma walk_lines_iff:
  assumes "ws_inObligation st = obligation_title (ws_currentTitle st)"
  shows "(line, testing) \<in> set (walk_lines st lines) \<longleftrightarrow>
     (\<exists>pre post. lines = pre @ line # post \<and> \<not> in_fence (ws_inFence st) pre \<and> fence_open line = None \<and> h2_title line = None
        \<and> obligation_title (last_title (ws_currentTitle st) (ws_inFence st) pre)
        \<and> testing = (first_word (toLowerCase (js_trim (last_title (ws_currentTitle st) (ws_inFence st) pre))) = ''testing''))"
  using assms
proof (induction lines arbitrary: st)
  case (Cons l ls)
  obtain obliging title fenced where st: "st = \<lparr>ws_inObligation = obliging, ws_currentTitle = title, ws_inFence = fenced\<rparr>"
    by (cases st)
  show ?case
  proof (cases fenced)
    case True
    with Cons.prems show ?thesis
      unfolding split_first by (simp add: st walk_line_def Cons.IH)
  next
    case False
    with Cons.prems show ?thesis
      unfolding split_first
      by (cases "fence_open l"; cases "h2_title l") (auto simp: st walk_line_def Cons.IH)
  qed
qed simp

lemma obliging_line_iff: "(line, testing) \<in> set (walkObligationLines body) \<longleftrightarrow> obliging_line body line testing"
proof -
  have "\<not> obligation_title []" by code_simp
  then show ?thesis unfolding walkObligationLines_def obliging_line_def
    by (subst walk_lines_iff) (simp_all add: walk_start_def)
qed

text \<open>
  A fragment of a plan: of an obliging line that is no mere reference and no expectation of a test, or
  of the content of a todo. A path is cited where such a fragment, no mere reference itself, names it
  and obliges.
\<close>

definition plan_fragment :: "string \<Rightarrow> (string \<times> jsval) list \<Rightarrow> string \<Rightarrow> bool" where
  "plan_fragment body fm s \<longleftrightarrow>
     (\<exists>line testing. obliging_line body line testing \<and> \<not> reference_only line
        \<and> \<not> (testing \<and> js_includes ''Expect:'' line) \<and> s \<in> set (splitLineIntoFragments line))
     \<or> (\<exists>todo. todo \<in> set (collectTodoContentStrings fm) \<and> s \<in> set (splitTodoIntoSegments todo))"

definition cited :: "(string \<Rightarrow> string option) \<Rightarrow> string \<Rightarrow> (string \<times> jsval) list \<Rightarrow> string \<Rightarrow> bool" where
  "cited f body fm p \<longleftrightarrow> (\<exists>s. plan_fragment body fm s \<and> \<not> reference_only s \<and> pathPassesFragmentGate p s
     \<and> p \<in> set (harvestFromText f s))"

lemma fragment_iff: "p \<in> set (harvestFromFragment f s) \<longleftrightarrow> \<not> reference_only s \<and> pathPassesFragmentGate p s
    \<and> p \<in> set (harvestFromText f s)"
  by (auto simp: harvestFromFragment_def)

lemma harvested_iff: "p \<in> set (harvested_paths f body fm) \<longleftrightarrow> cited f body fm p"
proof -
  have "p \<in> set (harvest_line f (line, testing)) \<longleftrightarrow> \<not> reference_only line \<and> \<not> (testing \<and> js_includes ''Expect:'' line)
      \<and> (\<exists>s \<in> set (splitLineIntoFragments line). p \<in> set (harvestFromFragment f s))" for line testing
    by (simp add: harvest_line_def)
  moreover have "p \<in> set (harvestFromTodoSegment f s) \<longleftrightarrow> p \<in> set (harvestFromFragment f s)" for s
    by (simp add: harvestFromTodoSegment_def fragment_iff)
  ultimately show ?thesis
    unfolding harvested_paths_def cited_def plan_fragment_def obliging_line_iff [symmetric] fragment_iff [symmetric] by fastforce
qed

lemma cited_is_plain: "cited f body fm p \<Longrightarrow> plain_path p"
  by (auto simp: cited_def harvestFromText_def List.map_filter_def normalized_is_plain)

lemma sorted_distinct_strict:
  assumes "distinct xs"
  shows "sorted_wrt (<) (js_sort compareUtf16Id xs)"
proof -
  have "sorted_wrt (\<le>) (js_sort compareUtf16Id xs)"
    using utf16.sort_sorted [of "\<lambda>x. x" xs] by (simp add: compareUtf16Id_le)
  moreover have "distinct (js_sort compareUtf16Id xs)" using assms by simp
  ultimately show ?thesis by (simp add: strict_sorted_iff)
qed

lemma harvest_of_plan:
  assumes "harvestQualifyingPathsFromPlan f md fm = Inr ps"
  shows "\<exists>raw. extractMarkdownBodyAfterFrontMatter (stripUtf8Bom md) = Inr raw \<and> sorted_wrt (<) ps
    \<and> set ps = {p. cited f (unix_lines raw) fm p}"
proof -
  obtain raw where raw: "extractMarkdownBodyAfterFrontMatter (stripUtf8Bom md) = Inr raw"
    and ps: "ps = js_sort compareUtf16Id (js_unique (harvested_paths f (unix_lines raw) fm))"
    using assms by (auto simp: harvestQualifyingPathsFromPlan_def throws_bind_Inr_iff)
  have "set ps = {p. cited f (unix_lines raw) fm p}" by (auto simp: ps harvested_iff)
  with raw show ?thesis using sorted_distinct_strict [of "js_unique (harvested_paths f (unix_lines raw) fm)"]
    by (intro exI [of _ raw]) (simp add: ps)
qed

text \<open>A plan with front matter does not begin with a second byte order mark.\<close>

lemma stripped_once: "extractMarkdownBodyAfterFrontMatter md = Inr raw \<Longrightarrow> stripUtf8Bom md = md"
  by (cases md) (auto simp: extractMarkdownBodyAfterFrontMatter_def front_matter_rest_def after_def starts_with_def
      stripUtf8Bom_def BOM_def throws_bind_Inr_iff split: option.splits if_splits)

section \<open>The check of patterns\<close>

lemma plain_path_passes: "plain_path p \<Longrightarrow> preflightPatternString p label = Inr ()"
proof -
  assume p: "plain_path p"
  obtain r t where r: "r \<in> set ROOTS" and split: "p = r @ ''/'' @ t"
    using p by (auto simp: plain_path_def starts_with_iff)
  have roots: "list_all (\<lambda>r. r \<noteq> [] \<and> \<not> starts_with ''/'' r) ROOTS" by code_simp
  then have "p \<noteq> []" "\<not> starts_with ''/'' p"
    using r by (auto simp: split list_all_iff starts_with_def take_Cons' neq_Nil_conv)
  moreover have "\<not> drive_path p" and "CHR 0x00 \<notin> set p"
    using p by (auto simp: plain_path_def drive_path_def path_char_def segment_char_def regex_word_char_def list_all_iff
        split: list.splits)
  ultimately show ?thesis using p by (simp add: preflightPatternString_def plain_path_def)
qed

text \<open>The check passes exactly when every pattern of every rule does.\<close>

definition pattern_accepted :: "string \<Rightarrow> bool" where
  "pattern_accepted s \<longleftrightarrow> s \<noteq> [] \<and> \<not> js_includes ''..'' s \<and> \<not> starts_with ''/'' s \<and> \<not> drive_path s
     \<and> CHR 0x00 \<notin> set s"

lemma preflight_string_iff: "preflightPatternString s label = Inr () \<longleftrightarrow> pattern_accepted s"
  by (simp add: preflightPatternString_def pattern_accepted_def)

lemma throws_map_unit:
  "(\<exists>us. throws_map f xs = Inr us) \<longleftrightarrow> (\<forall>x \<in> set xs. \<exists>u. f x = Inr u)"
  by (induction xs) (auto simp: throws_bind_Inr_iff)

lemma preflight_iff:
  "preflightAllPlanPatterns rules = Inr () \<longleftrightarrow>
     (\<forall>r \<in> set rules. \<forall>e \<in> set (rule_patterns (pl_kind r)). pattern_accepted (fst e))"
proof -
  define check where "check = (\<lambda>(ri :: nat, r :: plan_rule). throws_map
    (\<lambda>(p, label). preflightPatternString p (''rules['' @ nat_str ri @ '']'' @ label)) (rule_patterns (pl_kind r)))"
  have one: "(\<exists>us. check x = Inr us) \<longleftrightarrow> (\<forall>e \<in> set (rule_patterns (pl_kind (snd x))). pattern_accepted (fst e))" for x
    unfolding check_def case_prod_beta throws_map_unit by (simp add: preflight_string_iff)
  have "preflightAllPlanPatterns rules = Inr () \<longleftrightarrow> (\<exists>us. throws_map check (enumerate 0 rules) = Inr us)"
    unfolding preflightAllPlanPatterns_def throws_bind_Inr_iff check_def by simp
  also have "\<dots> \<longleftrightarrow>
     (\<forall>x \<in> set (enumerate 0 rules). \<forall>e \<in> set (rule_patterns (pl_kind (snd x))). pattern_accepted (fst e))"
    unfolding throws_map_unit one ..
  also have "\<dots> \<longleftrightarrow> (\<forall>r \<in> set (map snd (enumerate 0 rules)). \<forall>e \<in> set (rule_patterns (pl_kind r)). pattern_accepted (fst e))"
    by (simp only: set_map ball_simps)
  finally show ?thesis by simp
qed

lemma derived_rules_pass:
  assumes "\<forall>p \<in> set ps. plain_path p"
  shows "preflightAllPlanPatterns (derived_rules ps) = Inr ()"
  unfolding preflight_iff
proof (intro ballI)
  fix r e assume r: "r \<in> set (derived_rules ps)" and e: "e \<in> set (rule_patterns (pl_kind r))"
  obtain i p where ip: "(i, p) \<in> set (enumerate 0 ps)" and kind: "pl_kind r = RequireMatchingRow p DERIVED_CITATION_REQUIRE_ROW_KINDS"
    using r by (auto simp: derived_rules_def)
  have "snd (i, p) \<in> set (map snd (enumerate 0 ps))" using ip unfolding set_map by (rule imageI)
  then have "p \<in> set ps" by simp
  then have "pattern_accepted p" using assms plain_path_passes preflight_string_iff by blast
  with e kind show "pattern_accepted (fst e)" by simp
qed

lemma derived_source:
  assumes "loadPlanTransitionRules rd md = Inr (rules, DerivedCitations)"
  shows "\<exists>ps yaml doc raw. ps \<noteq> [] \<and> rules = derived_rules ps \<and> sorted_wrt (<) ps
     \<and> extractPlanFrontMatterYamlSource (stripUtf8Bom md) = Inr yaml \<and> parse_yaml rd [] yaml = Inr doc
     \<and> extractMarkdownBodyAfterFrontMatter (stripUtf8Bom md) = Inr raw
     \<and> set ps = {p. cited (rd_fileUrlPath rd) (unix_lines raw) (front_matter_members doc) p}"
proof -
  obtain yaml doc fm where front: "extractPlanFrontMatterYamlSource (stripUtf8Bom md) = Inr yaml" "parse_yaml rd [] yaml = Inr doc"
    "fm = front_matter_members doc" and "rules_of_body rd (stripUtf8Bom md) fm = Inr (rules, DerivedCitations)"
    using assms by (auto simp: loadPlanTransitionRules_def Let_def throws_bind_Inr_iff split: option.splits)
  then obtain raw where raw: "extractMarkdownBodyAfterFrontMatter (stripUtf8Bom md) = Inr raw" and body: "(case heading_indices (split_on (CHR 0x0A) (unix_lines raw)) of
       [] \<Rightarrow> throws_bind (harvestQualifyingPathsFromPlan (rd_fileUrlPath rd) (stripUtf8Bom md) fm) (\<lambda>harvested.
         if harvested = [] then Inl insufficient_spec else Inr (derived_rules harvested, DerivedCitations))
     | [i] \<Rightarrow> (case heading_level (split_on (CHR 0x0A) (unix_lines raw) ! i) of None \<Rightarrow> Inl insufficient_spec
         | Some level \<Rightarrow> throws_bind (rules_of_section rd level (drop (i + 1) (split_on (CHR 0x0A) (unix_lines raw))))
             (\<lambda>rules. Inr (rules, BodySection)))
     | _ \<Rightarrow> Inl (ambiguous_rules
         ''Duplicate \"Repository transition validation\" headings are not allowed when loading rules from the plan body.''))
     = Inr (rules, DerivedCitations)"
    unfolding rules_of_body_def Let_def throws_bind_Inr_iff by blast
  have "heading_indices (split_on (CHR 0x0A) (unix_lines raw)) = []"
  proof (rule ccontr)
    assume "heading_indices (split_on (CHR 0x0A) (unix_lines raw)) \<noteq> []"
    then obtain i is' where "heading_indices (split_on (CHR 0x0A) (unix_lines raw)) = i # is'"
      by (auto simp: neq_Nil_conv)
    with body show False by (cases is') (simp_all add: throws_bind_Inr_iff split: option.splits)
  qed
  with body obtain ps where h: "harvestQualifyingPathsFromPlan (rd_fileUrlPath rd) (stripUtf8Bom md) fm = Inr ps"
    and ps: "ps \<noteq> []" "rules = derived_rules ps"
    by (auto simp: throws_bind_Inr_iff split: if_splits)
  from harvest_of_plan [OF h] raw have "sorted_wrt (<) ps" "set ps = {p. cited (rd_fileUrlPath rd) (unix_lines raw) fm p}"
    unfolding stripped_once [OF raw] by auto
  with ps front raw show ?thesis by blast
qed

section \<open>The front matter\<close>

text \<open>The source and the body are the two sides of the first closing line.\<close>

lemma closing_parts:
  assumes "closing_at s = Some body"
  shows "\<exists>blanks. s = CHR 0x0A # ''---'' @ blanks @ body \<and> list_all is_ws blanks \<and> (body = [] \<or> CHR 0x0A \<in> set blanks)"
proof -
  obtain t where s: "s = (CHR 0x0A # ''---'') @ t"
    and body: "(if dropWhile is_ws t = [] then Some []
      else if CHR 0x0A \<in> set (takeWhile is_ws t)
      then Some (rev (takeWhile (\<lambda>c. c \<noteq> CHR 0x0A) (rev (takeWhile is_ws t))) @ dropWhile is_ws t) else None) = Some body"
    using assms by (auto simp: closing_at_def Let_def after_def starts_with_iff split: if_splits)
  let ?ws = "takeWhile is_ws t" and ?P = "\<lambda>c. c \<noteq> CHR 0x0A"
  have ws: "list_all is_ws ?ws" by (auto simp: list_all_iff dest: set_takeWhileD)
  show ?thesis
  proof (cases "dropWhile is_ws t = []")
    case True
    with body have "body = []" by simp
    moreover have "t = ?ws" by (metis True append_Nil2 takeWhile_dropWhile_id)
    ultimately have "body = []" "t = ?ws" by auto
    with ws show ?thesis by (intro exI [of _ ?ws]) (simp add: s)
  next
    case False
    with body have lf: "CHR 0x0A \<in> set ?ws" and b: "body = rev (takeWhile ?P (rev ?ws)) @ dropWhile is_ws t"
      by (auto split: if_splits)
    let ?front = "rev (dropWhile ?P (rev ?ws))"
    have "rev ?ws = takeWhile ?P (rev ?ws) @ dropWhile ?P (rev ?ws)" by simp
    then have front: "?ws = ?front @ rev (takeWhile ?P (rev ?ws))"
      by (metis rev_append rev_rev_ident)
    have "dropWhile ?P (rev ?ws) \<noteq> []" using lf by (simp add: dropWhile_eq_Nil_conv)
    then have "CHR 0x0A \<in> set ?front" using hd_dropWhile [of ?P "rev ?ws"] hd_in_set [of "dropWhile ?P (rev ?ws)"] by auto
    moreover have "t = ?front @ body" using front b by (metis append.assoc takeWhile_dropWhile_id)
    moreover have "list_all is_ws ?front" using ws front by (metis list_all_append)
    ultimately show ?thesis by (intro exI [of _ ?front]) (simp add: s)
  qed
qed

lemma split_parts:
  "split_front_matter s = Some (yaml, body) \<Longrightarrow>
     \<exists>blanks. s = yaml @ CHR 0x0A # ''---'' @ blanks @ body \<and> list_all is_ws blanks
       \<and> (body = [] \<or> CHR 0x0A \<in> set blanks)"
proof (induction s arbitrary: yaml)
  case (Cons c cs)
  show ?case
  proof (cases "closing_at (c # cs)")
    case None
    then obtain y where "split_front_matter cs = Some (y, body)" "yaml = c # y" using Cons.prems by auto
    with Cons.IH show ?thesis by (metis append_Cons)
  next
    case (Some b)
    with Cons.prems have "yaml = []" "b = body" by auto
    with closing_parts [OF Some] show ?thesis by simp
  qed
qed simp

definition opens_front_matter :: "string \<Rightarrow> bool" where
  "opens_front_matter nl \<longleftrightarrow> nl = [CHR 0x0A] \<or> nl = CRLF"

lemma front_matter_parts:
  "(case extractPlanFrontMatterYamlSource md of
      Inl e \<Rightarrow> extractMarkdownBodyAfterFrontMatter md = Inl e \<and> err_code e = ''PLAN_VALIDATION_NO_FRONT_MATTER''
    | Inr yaml \<Rightarrow> \<exists>nl blanks body. extractMarkdownBodyAfterFrontMatter md = Inr body \<and> opens_front_matter nl
        \<and> md = ''---'' @ nl @ yaml @ CHR 0x0A # ''---'' @ blanks @ body \<and> list_all is_ws blanks
        \<and> (body = [] \<or> CHR 0x0A \<in> set blanks))"
proof (cases "front_matter_rest md")
  case (Inl e)
  then have "e = NO_FRONT_MATTER" by (auto simp: front_matter_rest_def split: option.splits)
  with Inl show ?thesis
    by (simp add: extractPlanFrontMatterYamlSource_def extractMarkdownBodyAfterFrontMatter_def NO_FRONT_MATTER_def)
next
  case (Inr rest)
  then obtain nl where nl: "opens_front_matter nl" "md = ''---'' @ nl @ rest"
    by (auto simp: front_matter_rest_def after_def starts_with_iff opens_front_matter_def CRLF_def
        split: option.splits if_splits)
  show ?thesis
  proof (cases "split_front_matter rest")
    case None
    with Inr show ?thesis
      by (simp add: extractPlanFrontMatterYamlSource_def extractMarkdownBodyAfterFrontMatter_def OPEN_FRONT_MATTER_def)
  next
    case (Some yb)
    then obtain yaml body where yb: "split_front_matter rest = Some (yaml, body)" by (cases yb) auto
    from split_parts [OF yb] obtain blanks where
      "rest = yaml @ CHR 0x0A # ''---'' @ blanks @ body" "list_all is_ws blanks" "body = [] \<or> CHR 0x0A \<in> set blanks"
      by blast
    with nl yb Inr show ?thesis
      by (simp add: extractPlanFrontMatterYamlSource_def extractMarkdownBodyAfterFrontMatter_def) blast
  qed
qed

section \<open>The rows of a diff\<close>

definition NUL :: char where
  "NUL = CHR 0x00"

text \<open>What Git prints for a row: a status token with a score for renames and copies, and the paths.\<close>

fun status_letter :: "row_kind \<Rightarrow> string" where
  "status_letter RkAdd = ''A''"
| "status_letter RkModify = ''M''"
| "status_letter RkDelete = ''D''"
| "status_letter RkRename = ''R''"
| "status_letter RkCopy = ''C''"
| "status_letter RkTypeChange = ''T''"
| "status_letter RkUnmerged = ''U''"

fun has_two_paths :: "row_kind \<Rightarrow> bool" where
  "has_two_paths RkRename = True"
| "has_two_paths RkCopy = True"
| "has_two_paths _ = False"

definition row_shaped :: "diff_row \<Rightarrow> bool" where
  "row_shaped r \<longleftrightarrow> length (dr_paths r) = (if has_two_paths (dr_rowKind r) then 2 else 1)"

definition row_fields :: "string \<Rightarrow> diff_row \<Rightarrow> string list" where
  "row_fields score r =
     (status_letter (dr_rowKind r) @ (if has_two_paths (dr_rowKind r) then score else [])) # dr_paths r"

definition fields_bytes :: "(string \<Rightarrow> string) \<Rightarrow> string list \<Rightarrow> string" where
  "fields_bytes enc fs = concat (map (\<lambda>f. enc f @ [NUL]) fs)"

definition row_bytes :: "(string \<Rightarrow> string) \<Rightarrow> string \<Rightarrow> diff_row \<Rightarrow> string" where
  "row_bytes enc score r = fields_bytes enc (row_fields score r)"

definition slashed :: "diff_row \<Rightarrow> diff_row" where
  "slashed r = r\<lparr>dr_paths := map normalizePathSlashes (dr_paths r)\<rparr>"

text \<open>An encoding that the decoder reads back, and that has the byte NUL only for the character NUL.\<close>

definition decodes :: "(string \<Rightarrow> string) \<Rightarrow> (string \<Rightarrow> string) \<Rightarrow> bool" where
  "decodes utf8 enc \<longleftrightarrow> (\<forall>s. NUL \<in> set s \<or> (utf8 (enc s) = s \<and> NUL \<notin> set (enc s)))"

lemma readStr_field:
  assumes "decodes utf8 enc" and "NUL \<notin> set s"
  shows "readStr utf8 (enc s @ NUL # rest) = Inr (s, rest)"
proof -
  have enc: "utf8 (enc s) = s" "CHR 0x00 \<notin> set (enc s)" using assms by (auto simp: decodes_def NUL_def)
  then have "takeWhile (\<lambda>b. b \<noteq> CHR 0x00) (enc s @ CHR 0x00 # rest) = enc s"
    and "dropWhile (\<lambda>b. b \<noteq> CHR 0x00) (enc s @ CHR 0x00 # rest) = CHR 0x00 # rest"
    by (subst takeWhile_append2 dropWhile_append2; auto)+
  then show ?thesis by (simp add: readStr_def NUL_def enc)
qed

lemma single_of_letter: "\<not> has_two_paths k \<Longrightarrow> single_kind (status_letter k) = Some k"
  by (cases k) (simp_all add: single_kind_def)

lemma scored_of_letter:
  assumes "has_two_paths k" and "score \<noteq> []" and "list_all is_digit score"
  shows "single_kind (status_letter k @ score) = None" and "scored_kind (status_letter k @ score) = Some k"
  using assms by (cases k; auto simp: single_kind_def scored_kind_def)+

lemma read_row_bytes:
  assumes dec: "decodes utf8 enc" and shape: "row_shaped r"
    and score: "score \<noteq> []" "list_all is_digit score" and paths: "\<forall>p \<in> set (dr_paths r). NUL \<notin> set p"
  shows "\<exists>status bytes. row_bytes enc score r @ rest = enc status @ NUL # bytes \<and> status \<noteq> [] \<and> NUL \<notin> set status
    \<and> read_row utf8 status bytes = Inr (slashed r, rest)"
proof (cases "has_two_paths (dr_rowKind r)")
  case True
  then obtain a b where ab: "dr_paths r = [a, b]"
    using shape by (auto simp: row_shaped_def length_Suc_conv numeral_2_eq_2)
  let ?status = "status_letter (dr_rowKind r) @ score"
  have "NUL \<notin> set ?status"
    using score(2) by (cases "dr_rowKind r") (auto simp: NUL_def list_all_iff is_digit_def)
  moreover have "row_bytes enc score r @ rest = enc ?status @ NUL # enc a @ NUL # enc b @ NUL # rest"
    using True by (simp add: row_bytes_def fields_bytes_def row_fields_def ab)
  moreover have "read_row utf8 ?status (enc a @ NUL # enc b @ NUL # rest) = Inr (slashed r, rest)"
    using paths scored_of_letter [OF True score]
    by (simp add: read_row_def ab readStr_field [OF dec] slashed_def)
  ultimately show ?thesis using score(1) by blast
next
  case False
  then obtain a where a: "dr_paths r = [a]"
    using shape by (auto simp: row_shaped_def length_Suc_conv)
  let ?status = "status_letter (dr_rowKind r)"
  have "NUL \<notin> set ?status" "?status \<noteq> []" by (cases "dr_rowKind r"; simp add: NUL_def)+
  moreover have "row_bytes enc score r @ rest = enc ?status @ NUL # enc a @ NUL # rest"
    using False by (simp add: row_bytes_def fields_bytes_def row_fields_def a)
  moreover have "read_row utf8 ?status (enc a @ NUL # rest) = Inr (slashed r, rest)"
    using paths single_of_letter [OF False]
    by (simp add: read_row_def a readStr_field [OF dec] slashed_def)
  ultimately show ?thesis by blast
qed

definition printable_row :: "string \<Rightarrow> diff_row \<Rightarrow> bool" where
  "printable_row score r \<longleftrightarrow> row_shaped r \<and> score \<noteq> [] \<and> list_all is_digit score
     \<and> (\<forall>p \<in> set (dr_paths r). NUL \<notin> set p)"

lemma parse_printed:
  assumes dec: "decodes utf8 enc" and "list_all (\<lambda>(score, r). printable_row score r) srows"
  shows "parseGitNameStatusZ utf8 (concat (map (\<lambda>(score, r). row_bytes enc score r) srows)) = Inr (map (slashed \<circ> snd) srows)"
  using assms(2)
proof (induction srows)
  case Nil
  then show ?case by (simp add: parseGitNameStatusZ.simps)
next
  case (Cons x srows)
  obtain score r where x: "x = (score, r)" by (cases x)
  let ?rest = "concat (map (\<lambda>(score, r). row_bytes enc score r) srows)"
  from Cons.prems obtain status bytes where bytes: "row_bytes enc score r @ ?rest = enc status @ NUL # bytes"
      and status: "status \<noteq> []" "NUL \<notin> set status" and row: "read_row utf8 status bytes = Inr (slashed r, ?rest)"
    using read_row_bytes [OF dec, of r score ?rest] by (auto simp: x printable_row_def)
  have "parseGitNameStatusZ utf8 (enc status @ NUL # bytes) = Inr (slashed r # map (slashed \<circ> snd) srows)"
    using Cons status row readStr_field [OF dec status(2), of bytes]
    by (subst parseGitNameStatusZ.simps) (simp add: x)
  then show ?case by (simp add: x bytes)
qed

definition is_parse_error :: "js_error \<Rightarrow> bool" where
  "is_parse_error e \<longleftrightarrow> (\<exists>problem. e = git_parse_error problem)"

lemma is_parse_error [simp]: "is_parse_error (git_parse_error problem)"
  unfolding is_parse_error_def by (intro exI) (rule refl)

lemma parse_error_code: "is_parse_error e \<Longrightarrow> err_code e = ''PLAN_TRANSITION_GIT_PARSE''"
  unfolding is_parse_error_def by (elim exE) (simp only: git_parse_error_def js_error.sel)

lemma readStr_error: "readStr utf8 buf = Inl e \<Longrightarrow> is_parse_error e"
  unfolding readStr_def
  by (cases "dropWhile (\<lambda>b. b \<noteq> CHR 0x00) buf") (simp_all only: list.case sum.inject is_parse_error sum.distinct, metis is_parse_error)

lemma read_row_outcome:
  "case read_row utf8 status buf of Inl e \<Rightarrow> is_parse_error e | Inr (r, rest) \<Rightarrow> row_shaped r"
proof (cases "single_kind status")
  case (Some k)
  then have "\<not> has_two_paths k" by (auto simp: single_kind_def split: if_splits)
  with Some show ?thesis
    using readStr_error [of utf8 buf]
    by (cases "readStr utf8 buf") (simp_all add: read_row_def row_shaped_def split: prod.splits)
next
  case None
  show ?thesis
  proof (cases "scored_kind status")
    case (Some k)
    then have two: "has_two_paths k" by (auto simp: scored_kind_def split: if_splits list.splits)
    show ?thesis
    proof (cases "readStr utf8 buf")
      case (Inl e)
      with None Some readStr_error [OF Inl] show ?thesis by (simp add: read_row_def)
    next
      case (Inr r)
      with None Some two readStr_error [of utf8 "snd r"] show ?thesis
        by (cases "readStr utf8 (snd r)") (simp_all add: read_row_def row_shaped_def case_prod_beta)
    qed
  next
    case none: None
    with None show ?thesis by (simp add: read_row_def)
  qed
qed

lemma parse_outcome:
  "case parseGitNameStatusZ utf8 buf of
     Inl e \<Rightarrow> is_parse_error e | Inr rows \<Rightarrow> list_all row_shaped rows"
proof (induction utf8 buf rule: parseGitNameStatusZ.induct)
  case (1 utf8 buf)
  show ?case
  proof (cases "readStr utf8 buf")
    case (Inl e)
    then show ?thesis by (subst parseGitNameStatusZ.simps) (auto dest: readStr_error)
  next
    case (Inr sr)
    then obtain status rest where sr: "readStr utf8 buf = Inr (status, rest)" by (cases sr) auto
    show ?thesis
    proof (cases "buf = [] \<or> status = []")
      case True
      with sr show ?thesis by (subst parseGitNameStatusZ.simps) auto
    next
      case False
      from read_row_outcome [of utf8 status rest] show ?thesis
      proof (cases "read_row utf8 status rest")
        case (Inl e)
        with False sr read_row_outcome [of utf8 status rest] show ?thesis by (subst parseGitNameStatusZ.simps) simp
      next
        case (Inr rr)
        then obtain row rest' where rr: "read_row utf8 status rest = Inr (row, rest')" by (cases rr) auto
        have ih: "case parseGitNameStatusZ utf8 rest' of
            Inl e \<Rightarrow> is_parse_error e | Inr rows \<Rightarrow> list_all row_shaped rows"
          by (rule "1.IH" [of "(status, rest)" status rest "(row, rest')" row rest']) (use False sr rr in auto)
        have "parseGitNameStatusZ utf8 buf = throws_bind (parseGitNameStatusZ utf8 rest') (\<lambda>rows. Inr (row # rows))"
          using False sr rr by (subst parseGitNameStatusZ.simps) simp
        with ih read_row_outcome [of utf8 status rest] rr show ?thesis
          by (cases "parseGitNameStatusZ utf8 rest'") simp_all
      qed
    qed
  qed
qed

section \<open>Rules\<close>

text \<open>What each kind of rule states of the rows.\<close>

fun rule_holds :: "matcher \<Rightarrow> diff_row list \<Rightarrow> rule_kind \<Rightarrow> bool" where
  "rule_holds isMatch rows (MatchingRowsMustHaveRowKinds pattern rowKinds) \<longleftrightarrow>
     (\<forall>row \<in> set rows. (\<exists>p \<in> set (dr_paths row). pathMatchesPattern isMatch p pattern)
        \<longrightarrow> dr_rowKind row \<in> set rowKinds)"
| "rule_holds isMatch rows (ForbidMatchingRows pattern) \<longleftrightarrow>
     (\<forall>row \<in> set rows. \<forall>p \<in> set (dr_paths row). \<not> pathMatchesPattern isMatch p pattern)"
| "rule_holds isMatch rows (RequireMatchingRow pattern rowKinds) \<longleftrightarrow>
     (\<exists>row \<in> set rows. dr_rowKind row \<in> set rowKinds
        \<and> (\<exists>p \<in> set (dr_paths row). pathMatchesPattern isMatch p pattern))"
| "rule_holds isMatch rows (AllChangedPathsMustMatchAllowlist allowPatterns) \<longleftrightarrow>
     (\<forall>row \<in> set rows. \<forall>p \<in> set (dr_paths row). \<exists>a \<in> set allowPatterns. pathMatchesPattern isMatch p a)"
| "rule_holds isMatch rows (RequireRenameFromTo fromPattern toPattern includeCopy) \<longleftrightarrow>
     (\<exists>row \<in> set rows. \<exists>oldP newP. dr_paths row = [oldP, newP]
        \<and> (dr_rowKind row = RkRename \<or> (includeCopy \<and> dr_rowKind row = RkCopy))
        \<and> pathMatchesPattern isMatch oldP fromPattern \<and> pathMatchesPattern isMatch newP toPattern)"

lemma renames_iff:
  "renames isMatch f t c row \<longleftrightarrow> (\<exists>oldP newP. dr_paths row = [oldP, newP]
     \<and> (dr_rowKind row = RkRename \<or> (c \<and> dr_rowKind row = RkCopy))
     \<and> pathMatchesPattern isMatch oldP f \<and> pathMatchesPattern isMatch newP t)"
  by (auto simp: renames_def rename_kinds_def split: list.splits if_splits)

lemma touches_iff: "rowTouchesPattern isMatch row p \<longleftrightarrow> (\<exists>pt \<in> set (dr_paths row). pathMatchesPattern isMatch pt p)"
  by (simp add: rowTouchesPattern_def list_ex_iff)

lemma allowlist_failures_empty:
  "allowlist_failures isMatch rows allow = [] \<longleftrightarrow>
     (\<forall>row \<in> set rows. \<forall>p \<in> set (dr_paths row). \<exists>a \<in> set allow. pathMatchesPattern isMatch p a)"
  by (auto simp: allowlist_failures_def pathMatchesAnyAllowlist_def list_ex_iff filter_empty_conv)

fun rule_code :: "rule_kind \<Rightarrow> string" where
  "rule_code (MatchingRowsMustHaveRowKinds _ _) = ''PLAN_RULE_ROW_KIND_MISMATCH''"
| "rule_code (ForbidMatchingRows _) = ''PLAN_RULE_FORBIDDEN_ROW''"
| "rule_code (RequireMatchingRow _ _) = ''PLAN_RULE_REQUIRED_ROW_MISSING''"
| "rule_code (AllChangedPathsMustMatchAllowlist _) = ''PLAN_RULE_ALLOWLIST_VIOLATION''"
| "rule_code (RequireRenameFromTo _ _ _) = ''PLAN_RULE_RENAME_MISMATCH''"

text \<open>A rule finds nothing exactly when it holds, and otherwise has the code of its kind.\<close>

lemma finding_of_rule:
  "if rule_holds isMatch rows k then \<exists>extra. rule_finding isMatch rows k = RuleOk extra
   else \<exists>message extra. rule_finding isMatch rows k = RuleBad (rule_code k) message extra"
proof (cases k)
  case (MatchingRowsMustHaveRowKinds p ks)
  have "filter (\<lambda>row. rowTouchesPattern isMatch row p \<and> dr_rowKind row \<notin> set ks) rows = [] \<longleftrightarrow> rule_holds isMatch rows k"
    unfolding MatchingRowsMustHaveRowKinds rule_holds.simps filter_empty_conv touches_iff by blast
  then show ?thesis by (simp add: MatchingRowsMustHaveRowKinds Let_def del: rule_holds.simps filter_empty_conv)
next
  case (ForbidMatchingRows p)
  have "filter (\<lambda>row. rowTouchesPattern isMatch row p) rows = [] \<longleftrightarrow> rule_holds isMatch rows k"
    unfolding ForbidMatchingRows rule_holds.simps filter_empty_conv touches_iff by blast
  then show ?thesis by (simp add: ForbidMatchingRows Let_def del: rule_holds.simps filter_empty_conv)
next
  case (RequireMatchingRow p ks)
  have "list_ex (\<lambda>row. rowMatchesPatternAndKinds isMatch row p ks) rows \<longleftrightarrow> rule_holds isMatch rows k"
    unfolding RequireMatchingRow rule_holds.simps list_ex_iff rowMatchesPatternAndKinds_def touches_iff by blast
  then show ?thesis by (simp add: RequireMatchingRow del: rule_holds.simps)
next
  case (AllChangedPathsMustMatchAllowlist ps)
  have "allowlist_failures isMatch rows ps = [] \<longleftrightarrow> rule_holds isMatch rows k"
    unfolding AllChangedPathsMustMatchAllowlist rule_holds.simps allowlist_failures_empty ..
  then show ?thesis by (simp add: AllChangedPathsMustMatchAllowlist Let_def del: rule_holds.simps)
next
  case (RequireRenameFromTo f t c)
  have "list_ex (renames isMatch f t c) rows \<longleftrightarrow> rule_holds isMatch rows k"
    unfolding RequireRenameFromTo rule_holds.simps list_ex_iff renames_iff ..
  then show ?thesis by (simp add: RequireRenameFromTo del: rule_holds.simps)
qed

lemma rule_step_status:
  "so_status (evaluateRule isMatch rows rule seq) = (if rule_holds isMatch rows (pl_kind rule) then Verified else Inconsistent)"
  "map rs_code (so_reasons (evaluateRule isMatch rows rule seq))
     = (if rule_holds isMatch rows (pl_kind rule) then [] else [rule_code (pl_kind rule)])"
  "so_seq (evaluateRule isMatch rows rule seq) = seq"
  using finding_of_rule [of isMatch rows "pl_kind rule"]
  by (auto simp: evaluateRule_def rule_step_def split: if_splits plan_finding.splits)

text \<open>Evidence never lists more than fifty rows.\<close>

lemma capped_length:
  "\<exists>items b. capped n f xs = [(n, VArr items), (''truncated'', VBool b)] \<and> length items \<le> EVIDENCE_CAP
     \<and> (b \<longleftrightarrow> EVIDENCE_CAP < length xs)"
  by (intro exI [of _ "map f (fst (capEvidence xs))"] exI [of _ "snd (capEvidence xs)"])
     (simp add: capped_def capEvidence_def not_le)

section \<open>The result\<close>

lemma length_steps [simp]: "length (evaluatePlanRules isMatch rows rules) = length rules"
  by (simp add: evaluatePlanRules_def)

lemma nth_steps:
  "i < length rules \<Longrightarrow> evaluatePlanRules isMatch rows rules ! i = evaluateRule isMatch rows (rules ! i) (int (i + 1))"
  by (simp add: evaluatePlanRules_def nth_enumerate_eq)

lemma steps_of_rules:
  "map so_status (evaluatePlanRules isMatch rows rules)
     = map (\<lambda>rule. if rule_holds isMatch rows (pl_kind rule) then Verified else Inconsistent) rules"
  "map so_seq (evaluatePlanRules isMatch rows rules) = map (\<lambda>i. int (i + 1)) [0..<length rules]"
  "map (map rs_code \<circ> so_reasons) (evaluatePlanRules isMatch rows rules)
     = map (\<lambda>rule. if rule_holds isMatch rows (pl_kind rule) then [] else [rule_code (pl_kind rule)]) rules"
  by (rule nth_equalityI; simp add: nth_steps rule_step_status del: of_nat_add of_nat_Suc)+

definition plan_status :: "matcher \<Rightarrow> diff_row list \<Rightarrow> plan_rule list \<Rightarrow> workflow_status" where
  "plan_status isMatch rows rules =
     (if rules = [] then Incomplete
      else if \<forall>rule \<in> set rules. rule_holds isMatch rows (pl_kind rule) then Complete
      else InconsistentWorkflow)"


lemma plan_steps_status:
  "workflow_status_of (if rules = [] then [q] else []) (evaluatePlanRules isMatch rows rules) = plan_status isMatch rows rules"
proof -
  let ?steps = "evaluatePlanRules isMatch rows rules"
  have empty: "?steps = [] \<longleftrightarrow> rules = []" by (metis length_0_conv length_steps)
  have st: "so_status ` set ?steps
      = (\<lambda>rule. if rule_holds isMatch rows (pl_kind rule) then Verified else Inconsistent) ` set rules"
    using arg_cong [OF steps_of_rules(1) [of isMatch rows rules], of set] by (simp only: set_map)
  have any: "any_step ss ?steps \<longleftrightarrow> (\<exists>x \<in> so_status ` set ?steps. x \<in> set ss)"
    and all: "list_all (\<lambda>s. so_status s = Verified) ?steps \<longleftrightarrow> (\<forall>x \<in> so_status ` set ?steps. x = Verified)" for ss
    by (auto simp: any_step_def list_ex_iff list_all_iff)
  show ?thesis
    unfolding workflow_status_of_def any all st empty plan_status_def by auto
qed

lemma plan_engine_result:
  "\<exists>engine. plan_engine env input rules rows = Inr engine
     \<and> er_status engine = plan_status (pe_isMatch env) rows rules
     \<and> map so_status (er_steps engine) = map so_status (evaluatePlanRules (pe_isMatch env) rows rules)
     \<and> map so_seq (er_steps engine) = map so_seq (evaluatePlanRules (pe_isMatch env) rows rules)
     \<and> map so_reasons (er_steps engine) = map so_reasons (evaluatePlanRules (pe_isMatch env) rows rules)"
proof -
  let ?steps = "evaluatePlanRules (pe_isMatch env) rows rules"
  have one: "\<exists>t. withFailureDiagnostic (stripFailureDiagnostic s) = Inr t \<and> so_status t = so_status s
      \<and> so_seq t = so_seq s \<and> so_reasons t = so_reasons s" if "so_status s \<in> {Verified, Inconsistent}" for s
    using that by (auto simp: withFailureDiagnostic_def stripFailureDiagnostic_def)
  have statuses: "so_status s \<in> {Verified, Inconsistent}" if "s \<in> set ?steps" for s
    using that by (auto simp: in_set_conv_nth nth_steps rule_step_status split: if_splits)
  obtain enriched where en: "enrichStepsWithFailureDiagnostics ?steps = Inr enriched"
    unfolding enrichStepsWithFailureDiagnostics_def
    using throws_map_total [of ?steps "\<lambda>s. withFailureDiagnostic (stripFailureDiagnostic s)"] one statuses by blast
  then have rel: "list_all2 (\<lambda>s t. so_status t = so_status s \<and> so_seq t = so_seq s \<and> so_reasons t = so_reasons s) ?steps enriched"
    unfolding enrichStepsWithFailureDiagnostics_def throws_map_Inr_list_all2 list_all2_conv_all_nth
    using one statuses by (metis nth_mem sum.inject(2))
  have same: "map f enriched = map f ?steps" if "\<And>s t. so_status t = so_status s \<Longrightarrow> so_seq t = so_seq s
      \<Longrightarrow> so_reasons t = so_reasons s \<Longrightarrow> f t = f s" for f :: "step_outcome \<Rightarrow> 'x"
    using rel by (auto simp: list_all2_conv_all_nth intro!: nth_equalityI that)
  have pol: "resolveVerificationPolicyInput (Some PLAN_TRANSITION_POLICY) = Inr PLAN_TRANSITION_POLICY"
    by (simp add: resolveVerificationPolicyInput_def PLAN_TRANSITION_POLICY_def num_of_int_def)
  have empty: "?steps = [] \<longleftrightarrow> rules = []" by (metis length_0_conv length_steps)
  show ?thesis
    using plan_steps_status [of rules "runLevelIssue NO_STEPS_FOR_WORKFLOW" "pe_isMatch env" rows]
    by (simp add: plan_engine_def Let_def pol aggregateWorkflow_def en empty same)
qed

end
