(* ===== verification/PlanClaims.thy ===== *)
theory PlanClaims
  imports PlanProperties Examples
begin

text \<open>
  What is claimed of plan transitions (\<open>src/planTransition.ts\<close>, \<open>src/planTransitionPathHarvest.ts\<close>), with
  concrete inputs.
\<close>

section \<open>A concrete plan\<close>

definition no_url :: "string \<Rightarrow> string option" where
  "no_url s = None"


definition demo_plan :: string where
  "demo_plan = ''---'' @ [CHR 0x0A] @ ''x: 1'' @ [CHR 0x0A] @ ''---'' @ [CHR 0x0A] @ ''## Testing'' @ [CHR 0x0A]
     @ ''Must keep [a](./src/a.ts)'' @ [CHR 0x0A] @ ''Add, e.g., '' @ [CHR 0x60] @ ''docs/b.md'' @ [CHR 0x60]"




text \<open>
  C29: the rows a run evaluates are the rows Git printed: printing any rows, one status token, a
  score for renames and copies, and one or two paths, each ended by a NUL, and parsing the bytes gives the
  rows again, with backslashes as slashes. Whatever bytes Git prints, parsing them gives rows with two
  paths exactly for renames and copies, or fails with the code of a parse error.
\<close>

theorem git_rows_read_back:
  assumes "decodes utf8 enc" and "list_all (\<lambda>(score, r). printable_row score r) srows"
  shows "parseGitNameStatusZ utf8 (concat (map (\<lambda>(score, r). row_bytes enc score r) srows)) = Inr (map (slashed \<circ> snd) srows)
    \<and> (case parseGitNameStatusZ utf8 buf of
         Inl e \<Rightarrow> err_code e = ''PLAN_TRANSITION_GIT_PARSE'' | Inr rows \<Rightarrow> list_all row_shaped rows)"
proof
  show "parseGitNameStatusZ utf8 (concat (map (\<lambda>(score, r). row_bytes enc score r) srows)) = Inr (map (slashed \<circ> snd) srows)"
    by (rule parse_printed [OF assms])
  show "case parseGitNameStatusZ utf8 buf of
      Inl e \<Rightarrow> err_code e = ''PLAN_TRANSITION_GIT_PARSE'' | Inr rows \<Rightarrow> list_all row_shaped rows"
    using parse_outcome [of utf8 buf] by (cases "parseGitNameStatusZ utf8 buf") (simp_all add: parse_error_code)
qed

definition demo_rows :: "(string \<times> diff_row) list" where
  "demo_rows = [(''100'', \<lparr>dr_rowKind = RkRename, dr_paths = [''src/a.ts'', ''src/b.ts'']\<rparr>),
     (''0'', \<lparr>dr_rowKind = RkAdd, dr_paths = [[CHR ''d'', CHR 0x5C, CHR ''c'']]\<rparr>)]"

lemma git_rows_read_back_witness:
  "parseGitNameStatusZ (\<lambda>s. s) (concat (map (\<lambda>(score, r). row_bytes (\<lambda>s. s) score r) demo_rows))
     = Inr [\<lparr>dr_rowKind = RkRename, dr_paths = [''src/a.ts'', ''src/b.ts'']\<rparr>,
            \<lparr>dr_rowKind = RkAdd, dr_paths = [''d/c'']\<rparr>]"
proof -
  have "decodes (\<lambda>s. s) (\<lambda>s. s)" by (simp add: decodes_def)
  moreover have "list_all (\<lambda>(score, r). printable_row score r) demo_rows" by code_simp
  moreover have "map (slashed \<circ> snd) demo_rows = [\<lparr>dr_rowKind = RkRename, dr_paths = [''src/a.ts'', ''src/b.ts'']\<rparr>,
      \<lparr>dr_rowKind = RkAdd, dr_paths = [''d/c'']\<rparr>]" by code_simp
  ultimately show ?thesis
    using git_rows_read_back [of "\<lambda>s. s" "\<lambda>s. s" demo_rows "[]"] by simp
qed

section \<open>The verdict\<close>

text \<open>
  C6: a plan transition that returns has read rules and rows, and is complete exactly when there is a rule
  and every rule holds of the rows, incomplete exactly when there is no rule, and inconsistent otherwise;
  its steps are the rules, numbered from one, verified when they hold and inconsistent with the code of
  their kind when they do not. It throws only what reading the plan and the diff threw, or the report.
\<close>

theorem plan_transition_verdict:
  "case buildPlanTransitionWorkflowResult h env input of
     Inr (r, source) \<Rightarrow> (\<exists>rules rows. read_plan_and_diff env input = Inr ((rules, source), rows)
       \<and> (er_status (wr_engine r) = Complete
            \<longleftrightarrow> rules \<noteq> [] \<and> list_all (\<lambda>rule. rule_holds (pe_isMatch env) rows (pl_kind rule)) rules)
       \<and> (er_status (wr_engine r) = Incomplete \<longleftrightarrow> rules = [])
       \<and> map so_status (er_steps (wr_engine r))
            = map (\<lambda>rule. if rule_holds (pe_isMatch env) rows (pl_kind rule) then Verified else Inconsistent) rules
       \<and> map so_seq (er_steps (wr_engine r)) = map (\<lambda>i. int (i + 1)) [0..<length rules]
       \<and> map (map rs_code) (map so_reasons (er_steps (wr_engine r)))
            = map (\<lambda>rule. if rule_holds (pe_isMatch env) rows (pl_kind rule) then [] else [rule_code (pl_kind rule)]) rules)
   | Inl e \<Rightarrow> read_plan_and_diff env input = Inl e
       \<or> (\<exists>rules source rows engine. read_plan_and_diff env input = Inr ((rules, source), rows)
            \<and> plan_engine env input rules rows = Inr engine \<and> finalizeEmittedWorkflowResult h engine = Inl e)"
proof (cases "read_plan_and_diff env input")
  case (Inl e)
  then show ?thesis by (simp add: buildPlanTransitionWorkflowResult_def)
next
  case (Inr x)
  then obtain rules source rows where read: "read_plan_and_diff env input = Inr ((rules, source), rows)"
    by (cases x) auto
  obtain engine where engine: "plan_engine env input rules rows = Inr engine"
    and facts: "er_status engine = plan_status (pe_isMatch env) rows rules"
      "map so_status (er_steps engine) = map so_status (evaluatePlanRules (pe_isMatch env) rows rules)"
      "map so_seq (er_steps engine) = map so_seq (evaluatePlanRules (pe_isMatch env) rows rules)"
      "map so_reasons (er_steps engine) = map so_reasons (evaluatePlanRules (pe_isMatch env) rows rules)"
    using plan_engine_result by blast
  note facts = facts [unfolded steps_of_rules(1) steps_of_rules(2)]
  show ?thesis
  proof (cases "finalizeEmittedWorkflowResult h engine")
    case fin: (Inl e)
    with read engine show ?thesis by (simp add: buildPlanTransitionWorkflowResult_def)
  next
    case fin: (Inr r)
    then have "wr_engine r = engine" by (auto simp: finalizeEmittedWorkflowResult_def throws_bind_Inr_iff)
    moreover have "er_status engine = Complete
        \<longleftrightarrow> rules \<noteq> [] \<and> list_all (\<lambda>rule. rule_holds (pe_isMatch env) rows (pl_kind rule)) rules"
      and "er_status engine = Incomplete \<longleftrightarrow> rules = []"
      unfolding facts plan_status_def list_all_iff by simp_all
    moreover have "map (map rs_code) (map so_reasons (er_steps engine))
        = map (\<lambda>rule. if rule_holds (pe_isMatch env) rows (pl_kind rule) then [] else [rule_code (pl_kind rule)]) rules"
      by (simp only: facts map_map steps_of_rules(3))
    ultimately show ?thesis
      using read engine fin facts by (simp add: buildPlanTransitionWorkflowResult_def del: map_map)
  qed
qed

text \<open>A run whose rules hold.\<close>

definition demo_rules :: "plan_rule list" where
  "demo_rules = [\<lparr>pl_id = ''r1'', pl_description = None, pl_kind = ForbidMatchingRows ''dist''\<rparr>,
     \<lparr>pl_id = ''r2'', pl_description = Some ''src change'', pl_kind = RequireMatchingRow ''src'' [RkModify]\<rparr>]"

definition demo_plan_env :: plan_env where
  "demo_plan_env = \<lparr>pe_gitVersion = Inr ''git version 2.43.0'', pe_resolve = (\<lambda>p. p), pe_realpath = Inr,
     pe_relative = (\<lambda>a b. b), pe_isAbsolute = (\<lambda>p. False), pe_readFile = (\<lambda>p. Inr demo_plan),
     pe_revParse = (\<lambda>repo ref. Inr ''c0ffee''), pe_diff = (\<lambda>repo range. Inr (''M'' @ NUL # ''src'' @ [NUL])),
     pe_utf8 = (\<lambda>s. s), pe_isMatch = (=),
     pe_readers = \<lparr>rd_yaml = (\<lambda>s. Inr (VObj [(''planValidation'', VNull)])), rd_core = (\<lambda>v. Inr demo_rules),
       rd_fileUrlPath = no_url\<rparr>\<rparr>"

lemma demo_transition:
  "case buildPlanTransitionWorkflowResult demo_host demo_plan_env
      \<lparr>pn_repoRoot = ''/r'', pn_beforeRef = ''a'', pn_afterRef = ''b'', pn_planPath = ''Plan.md'', pn_workflowId = None\<rparr> of
     Inl e \<Rightarrow> False
   | Inr (r, source) \<Rightarrow> er_status (wr_engine r) = Complete \<and> source = FrontMatter
       \<and> map so_status (er_steps (wr_engine r)) = [Verified, Verified]"
  by code_simp

end
