(* ===== verification/CiGates.thy ===== *)
theory CiGates
  imports Certificate
begin

text \<open>
  What a build decides on: the coverage budget over a certificate (\<open>src/coverageBudgetPolicy.ts\<close>,
  \<open>src/coverageBudget.ts\<close>, \<open>src/coverageBudgetExit.ts\<close>), the lock of an emitted result (\<open>src/ciLock.ts\<close>)
  and the normalisation of a stored one (\<open>src/workflowResultNormalize.ts\<close>). Files, the JSON parser, the
  schema validators and \<open>encodeURIComponent\<close> are parameters.
\<close>

section \<open>The budget policy\<close>

record budget_row =
  br_workflowId :: string
  br_minimumFullySatisfiedKinds :: "string list"

type_synonym budget_policy = "budget_row list"

record policy_files =
  pf_resolve :: "string \<Rightarrow> string"
  pf_join :: "string \<Rightarrow> string"
  pf_exists :: "string \<Rightarrow> bool"
  pf_read :: "string \<Rightarrow> js_error + string"
  pf_parse :: "string \<Rightarrow> jsval option"
  pf_validate :: "jsval \<Rightarrow> string + budget_policy"

definition budget_usage :: "string \<Rightarrow> js_error" where
  "budget_usage message = TruthLayerError ''CLI_USAGE'' (''coverage-budget: '' @ message)"

fun assertUniqueWorkflowIds :: "string list \<Rightarrow> budget_policy \<Rightarrow> js_error + unit" where
  "assertUniqueWorkflowIds seen [] = Inr ()"
| "assertUniqueWorkflowIds seen (row # rows) =
     (if br_workflowId row \<in> set seen
      then Inl (budget_usage (''duplicate workflowId \"'' @ br_workflowId row @ ''\" in policy file.''))
      else assertUniqueWorkflowIds (br_workflowId row # seen) rows)"

text \<open>The file of the policy, if any: an explicit path must exist, the project's file may be missing.
  \<open>pf_resolve\<close> is \<open>path.resolve(process.cwd(), p)\<close>, \<open>pf_join\<close> the path of the file in a project.\<close>

definition budget_file :: "policy_files \<Rightarrow> string option \<Rightarrow> string option \<Rightarrow> js_error + string option" where
  "budget_file files explicit_path project =
     (case explicit_path of
        Some (c # p) \<Rightarrow>
          (let filePath = pf_resolve files (c # p)
           in if pf_exists files filePath then Inr (Some filePath)
              else Inl (budget_usage (''file not found at '' @ filePath)))
      | _ \<Rightarrow>
          (case project of
             None \<Rightarrow> Inr None
           | Some projectRoot \<Rightarrow>
               (let candidate = pf_join files projectRoot
                in Inr (if pf_exists files candidate then Some candidate else None))))"

definition read_policy :: "policy_files \<Rightarrow> string \<Rightarrow> js_error + budget_policy" where
  "read_policy files filePath =
     throws_bind (pf_read files filePath) (\<lambda>raw.
       case pf_parse files raw of
         None \<Rightarrow> Inl (budget_usage (''invalid JSON at '' @ filePath))
       | Some parsed \<Rightarrow>
           (case pf_validate files parsed of
              Inl errors \<Rightarrow> Inl (budget_usage (''schema validation failed at '' @ filePath @ '': '' @ errors))
            | Inr rows \<Rightarrow> throws_bind (assertUniqueWorkflowIds [] rows) (\<lambda>_. Inr rows)))"

text \<open>\<open>None\<close>: the budget is not active.\<close>

definition loadCoverageBudgetPolicyPhaseA ::
  "policy_files \<Rightarrow> string option \<Rightarrow> string option \<Rightarrow> js_error + (string \<times> budget_policy) option" where
  "loadCoverageBudgetPolicyPhaseA files explicit_path project =
     throws_bind (budget_file files explicit_path project) (\<lambda>found.
       case found of
         None \<Rightarrow> Inr None
       | Some filePath \<Rightarrow> throws_bind (read_policy files filePath) (\<lambda>rows. Inr (Some (filePath, rows))))"

section \<open>The evaluation of a budget\<close>

datatype budget_verdict = BudgetPass | BudgetFail | BudgetSkipped | BudgetUnevaluable

fun budget_verdict_text :: "budget_verdict \<Rightarrow> string" where
  "budget_verdict_text BudgetPass = ''pass''"
| "budget_verdict_text BudgetFail = ''fail''"
| "budget_verdict_text BudgetSkipped = ''skipped''"
| "budget_verdict_text BudgetUnevaluable = ''unevaluable''"

fun budget_code :: "budget_verdict \<Rightarrow> string" where
  "budget_code BudgetPass = ''PASS''"
| "budget_code BudgetFail = ''FAIL_UNDERFULL''"
| "budget_code BudgetSkipped = ''SKIP_NO_ENTRY''"
| "budget_code BudgetUnevaluable = ''UNEVAL_NO_WITNESS''"

definition sort_texts :: "host \<Rightarrow> string list \<Rightarrow> string list" where
  "sort_texts h xs = js_sort (h_localeCompare h) xs"

definition sortedCsv :: "host \<Rightarrow> string list \<Rightarrow> string" where
  "sortedCsv h kinds = (if kinds = [] then ''-'' else join '','' (sort_texts h kinds))"

record budget_evaluation =
  be_verdict :: budget_verdict
  be_code :: string
  be_detailLine :: string
  be_humanBlock :: string

definition buildDetailLine ::
  "host \<Rightarrow> (string \<Rightarrow> string) \<Rightarrow> string \<Rightarrow> budget_verdict \<Rightarrow> string list \<Rightarrow> string list \<Rightarrow> string list \<Rightarrow> string" where
  "buildDetailLine h encodeURI workflowId verdict required satisfied missing =
     join '' '' [''workflow='' @ encodeURI workflowId, ''verdict='' @ budget_verdict_text verdict,
       ''required='' @ sortedCsv h required, ''satisfied='' @ sortedCsv h satisfied,
       ''missing='' @ sortedCsv h missing, ''code='' @ budget_code verdict]"

definition buildHumanBlock :: "string \<Rightarrow> string \<Rightarrow> string \<Rightarrow> string \<Rightarrow> string" where
  "buildHumanBlock policyPath requiredKinds observed resultLine =
     concat (map (\<lambda>line. line @ [CHR 0x0A])
       [''=== coverage_budget ==='', ''policy_path: '' @ policyPath, ''required_kinds: '' @ requiredKinds,
        ''observed_fully_satisfied: '' @ observed, ''result: '' @ resultLine, ''=== end coverage_budget ===''])"

definition mk_evaluation ::
  "host \<Rightarrow> (string \<Rightarrow> string) \<Rightarrow> string \<Rightarrow> string \<Rightarrow> budget_verdict \<Rightarrow> string list \<Rightarrow> string list \<Rightarrow> string list
   \<Rightarrow> string \<Rightarrow> budget_evaluation" where
  "mk_evaluation h encodeURI workflowId policyPath verdict required satisfied missing resultLine =
     \<lparr>be_verdict = verdict, be_code = budget_code verdict,
      be_detailLine = buildDetailLine h encodeURI workflowId verdict required satisfied missing,
      be_humanBlock = buildHumanBlock policyPath (sortedCsv h required) (sortedCsv h satisfied) resultLine\<rparr>"

definition evaluateCoverageBudgetPhaseB ::
  "host \<Rightarrow> (string \<Rightarrow> string) \<Rightarrow> certificate \<Rightarrow> budget_policy \<Rightarrow> string \<Rightarrow> budget_evaluation" where
  "evaluateCoverageBudgetPhaseB h encodeURI c rows policyPath =
     (let W = oc_workflowId c; evaluated = mk_evaluation h encodeURI W policyPath
      in case find (\<lambda>r. br_workflowId r = W) rows of
           None \<Rightarrow> evaluated BudgetSkipped [] [] []
             (''skipped_no_entry (no policy row for workflow \"'' @ W @ ''\")'')
         | Some row \<Rightarrow>
             (let required = sort_texts h (br_minimumFullySatisfiedKinds row)
              in case ec_witnessCoverage (oc_evidenceCompleteness c) of
                   None \<Rightarrow> evaluated BudgetUnevaluable required [] []
                     ''unevaluable_no_witness_rollup (certificate lacks witnessCoverage.fullySatisfiedKinds)''
                 | Some coverage \<Rightarrow>
                     (let satisfiedKinds = map coverage_kind_text (wc_fullySatisfiedKinds coverage);
                          satisfied = sort_texts h satisfiedKinds;
                          missing = filter (\<lambda>k. k \<notin> set satisfiedKinds) required
                      in if missing = [] then evaluated BudgetPass required satisfied [] ''pass''
                         else evaluated BudgetFail required satisfied missing
                           (''fail '' @ [CHR 0x97]
                            @ '' state_relation may still be matches_expectations; coverage budget not satisfied.''))))"

text \<open>The two lines written to standard error.\<close>

definition writeCoverageBudgetMachineLinesToStderr :: "budget_evaluation \<Rightarrow> string list" where
  "writeCoverageBudgetMachineLinesToStderr e =
     [''coverage_budget_verdict: '' @ budget_verdict_text (be_verdict e) @ [CHR 0x0A],
      ''coverage_budget_detail: '' @ be_detailLine e @ [CHR 0x0A]]"

section \<open>Exit codes\<close>

fun baseExitFromStateRelation :: "state_relation \<Rightarrow> nat" where
  "baseExitFromStateRelation MatchesExpectations = 0"
| "baseExitFromStateRelation DoesNotMatch = 1"
| "baseExitFromStateRelation NotEstablished = 2"

definition resolveFinalExitCode :: "nat \<Rightarrow> bool \<Rightarrow> budget_verdict option \<Rightarrow> bool \<Rightarrow> nat" where
  "resolveFinalExitCode baseExit budgetActive budgetVerdict enforceCoverageBudget =
     (if baseExit \<noteq> 0 then baseExit
      else if \<not> budgetActive \<or> budgetVerdict = None then 0
      else if enforceCoverageBudget \<and> budgetVerdict = Some BudgetFail then 1
      else 0)"

section \<open>Locks\<close>

record lock_step =
  ls_seq :: int
  ls_toolId :: string
  ls_status :: step_status
  ls_outcomeLabel :: string
  ls_reasonCodes :: "string list"
  ls_referenceCode :: "string option"

record ci_lock_batch =
  lb_workflowId :: string
  lb_status :: workflow_status
  lb_verificationPolicy :: policy
  lb_runLevelReasonCodes :: "string list"
  lb_eventSequence :: "string list option"
  lb_steps :: "lock_step list"
  lb_primaryFailureCodes :: "string list"
  lb_correctnessEnforcementKind :: "string option"
  lb_enforceableProjection :: "jsval option"

record lock_unit =
  lu_unitId :: string
  lu_kind :: unit_kind
  lu_verdict :: unit_verdict
  lu_reasonCodes :: "string list"
  lu_toolName :: string
  lu_actionIndex :: nat

record ci_lock_quick =
  lq_verdict :: quick_verdict
  lq_ingestReasonCodes :: "string list"
  lq_runHeaderReasonCodes :: "string list"
  lq_units :: "lock_unit list"

datatype ci_lock = LockBatch ci_lock_batch | LockQuick ci_lock_quick

definition lock_step_of :: "host \<Rightarrow> truth_step list \<Rightarrow> step_outcome \<Rightarrow> lock_step" where
  "lock_step_of h truthSteps s =
     (let ts = (case find (\<lambda>t. ts_seq t = so_seq s \<and> ts_toolId t = so_toolId s) truthSteps of
          Some t \<Rightarrow> Some t | None \<Rightarrow> find (\<lambda>t. ts_seq t = so_seq s) truthSteps)
      in \<lparr>ls_seq = so_seq s, ls_toolId = so_toolId s, ls_status = so_status s,
          ls_outcomeLabel = (case ts of None \<Rightarrow> ''VERIFIED'' | Some t \<Rightarrow> ts_outcomeLabel t),
          ls_reasonCodes = sortUniqueCodes h (map rs_code (so_reasons s)),
          ls_referenceCode = (case so_reasons s of [] \<Rightarrow> None | r # _ \<Rightarrow> Some (rs_code r))\<rparr>)"

text \<open>\<open>JSON.parse(JSON.stringify(v))\<close>.\<close>

definition reparsed :: "host \<Rightarrow> jsval \<Rightarrow> js_error + jsval" where
  "reparsed h v =
     throws_bind (json_stringify h v) (\<lambda>t.
       case Option.bind t (h_jsonParse h) of
         None \<Rightarrow> Inl (JsError ''Unexpected token in JSON'') | Some w \<Rightarrow> Inr w)"

definition workflowResultToCiLockV1 :: "host \<Rightarrow> workflow_result \<Rightarrow> js_error + ci_lock_batch" where
  "workflowResultToCiLockV1 h result =
     (let r = wr_engine result; truth = wr_truth result; cd = wt_correctnessDefinition truth
      in throws_bind
           (case cd of None \<Rightarrow> Inr None
            | Some d \<Rightarrow> (if cd_enforceableProjection d = VUndef \<or> cd_enforceableProjection d = VNull then Inr None
                else throws_bind (reparsed h (cd_enforceableProjection d)) (\<lambda>v. Inr (Some v))))
           (\<lambda>projection. Inr
             \<lparr>lb_workflowId = er_workflowId r, lb_status = er_status r,
              lb_verificationPolicy = er_verificationPolicy r,
              lb_runLevelReasonCodes = sortUniqueCodes h (map rs_code (er_runLevelReasons r)),
              lb_eventSequence = (case er_eventSequenceIntegrity r of
                  IntegrityNormal \<Rightarrow> None
                | IntegrityIrregular rs \<Rightarrow> Some (sortUniqueCodes h (map rs_code rs))),
              lb_steps = map (lock_step_of h (wt_steps truth)) (er_steps r),
              lb_primaryFailureCodes = (case wt_failureAnalysis truth of
                  None \<Rightarrow> []
                | Some (fa, _) \<Rightarrow>
                    sortUniqueCodes h (concat (map ei_codes (fa_evidence fa)) @ fa_unknownReasonCodes fa)),
              lb_correctnessEnforcementKind = map_option cd_enforcementKind cd,
              lb_enforceableProjection = projection\<rparr>))"

definition lock_unit_of :: "host \<Rightarrow> quick_unit_report \<Rightarrow> lock_unit" where
  "lock_unit_of h u =
     \<lparr>lu_unitId = qr_unitId u, lu_kind = qr_kind u, lu_verdict = qr_verdict u,
      lu_reasonCodes = sortUniqueCodes h (qr_reasonCodes u), lu_toolName = qr_toolName u,
      lu_actionIndex = qr_actionIndex u\<rparr>"

definition quickReportToCiLockV1 :: "host \<Rightarrow> quick_base \<Rightarrow> ci_lock_quick" where
  "quickReportToCiLockV1 h report =
     \<lparr>lq_verdict = qv_verdict report,
      lq_ingestReasonCodes = sortUniqueCodes h (qv_ingestReasonCodes report),
      lq_runHeaderReasonCodes = (case qv_runHeaderReasonCodes report of None \<Rightarrow> [] | Some cs \<Rightarrow> sortUniqueCodes h cs),
      lq_units = map (lock_unit_of h) (js_sort (\<lambda>a b. compareUtf16Id (qr_unitId a) (qr_unitId b)) (qv_units report))\<rparr>"

text \<open>What was emitted: a workflow result with its schema version, or a quick report.\<close>

datatype emitted = EmittedWorkflow nat workflow_result | EmittedQuick quick_base

fun toCiLockV1 :: "host \<Rightarrow> emitted \<Rightarrow> js_error + ci_lock" where
  "toCiLockV1 h (EmittedWorkflow version r) =
     (if version = 15 then throws_bind (workflowResultToCiLockV1 h r) (\<lambda>l. Inr (LockBatch l))
      else Inl (JsError ''toCiLockV1: unsupported emitted type''))"
| "toCiLockV1 h (EmittedQuick q) = Inr (LockQuick (quickReportToCiLockV1 h q))"

definition formatOperationalMessageForLock :: "string \<Rightarrow> string" where
  "formatOperationalMessageForLock msg =
     (let m = js_trim msg in if length m \<le> 2000 then m else take 1997 m @ ''...'')"

definition lock_invalid :: "string \<Rightarrow> js_error" where
  "lock_invalid message = TruthLayerError ''CI_LOCK_SCHEMA_INVALID'' message"

text \<open>Reading a lock: the file, the parser and the validator are given; a value the validator accepts is
  returned as it is.\<close>

definition parseCiLockFromUtf8File ::
  "(string \<Rightarrow> js_error + string) \<Rightarrow> (string \<Rightarrow> js_error + jsval) \<Rightarrow> (jsval \<Rightarrow> string option) \<Rightarrow> string
   \<Rightarrow> js_error + jsval" where
  "parseCiLockFromUtf8File read_file parse invalid path =
     (case read_file path of
        Inl e \<Rightarrow> Inl (lock_invalid (formatOperationalMessageForLock (err_message e)))
      | Inr raw \<Rightarrow>
          (case parse raw of
             Inl e \<Rightarrow> Inl (lock_invalid (formatOperationalMessageForLock (err_message e)))
           | Inr v \<Rightarrow> (case invalid v of Some errors \<Rightarrow> Inl (lock_invalid errors) | None \<Rightarrow> Inr v)))"

definition opt_value :: "string option \<Rightarrow> jsval" where
  "opt_value x = (case x of None \<Rightarrow> VNull | Some s \<Rightarrow> VStr s)"

fun policy_members :: "policy \<Rightarrow> (string \<times> jsval) list" where
  "policy_members (PolicyStrong w p) =
     [(''consistencyMode'', VStr ''strong''), (''verificationWindowMs'', VNum w), (''pollIntervalMs'', VNum p)]"
| "policy_members (PolicyEventual w p) =
     [(''consistencyMode'', VStr ''eventual''), (''verificationWindowMs'', VNum w), (''pollIntervalMs'', VNum p)]"
| "policy_members (PolicyBounded w p m) =
     [(''consistencyMode'', VStr ''bounded''), (''verificationWindowMs'', VNum w), (''pollIntervalMs'', VNum p),
      (''maxStalenessMs'', VNum m)]"

definition texts_value :: "string list \<Rightarrow> jsval" where
  "texts_value xs = VArr (map VStr xs)"

definition lock_step_value :: "lock_step \<Rightarrow> jsval" where
  "lock_step_value s =
     VObj [(''seq'', VNum (num_of_int (ls_seq s))), (''toolId'', VStr (ls_toolId s)),
       (''status'', VStr (status_text (ls_status s))), (''outcomeLabel'', VStr (ls_outcomeLabel s)),
       (''reasonCodes'', texts_value (ls_reasonCodes s)), (''referenceCode'', opt_value (ls_referenceCode s))]"

definition lock_unit_value :: "lock_unit \<Rightarrow> jsval" where
  "lock_unit_value u =
     VObj [(''unitId'', VStr (lu_unitId u)), (''kind'', VStr (unit_kind_text (lu_kind u))),
       (''verdict'', VStr (unit_verdict_text (lu_verdict u))), (''reasonCodes'', texts_value (lu_reasonCodes u)),
       (''toolName'', VStr (lu_toolName u)), (''actionIndex'', VNum (num_of_int (int (lu_actionIndex u))))]"

fun lock_value :: "ci_lock \<Rightarrow> jsval" where
  "lock_value (LockBatch l) =
     VObj [(''lockSchemaVersion'', VNum (Fin 1)), (''kind'', VStr ''batch''), (''workflowId'', VStr (lb_workflowId l)),
       (''status'', VStr (workflow_status_text (lb_status l))),
       (''verificationPolicy'', VObj (policy_members (lb_verificationPolicy l))),
       (''runLevelReasonCodes'', texts_value (lb_runLevelReasonCodes l)),
       (''eventSequence'', (case lb_eventSequence l of
           None \<Rightarrow> VObj [(''kind'', VStr ''normal'')]
         | Some cs \<Rightarrow> VObj [(''kind'', VStr ''irregular''), (''reasonCodes'', texts_value cs)])),
       (''steps'', VArr (map lock_step_value (lb_steps l))),
       (''primaryFailureCodes'', texts_value (lb_primaryFailureCodes l)),
       (''correctnessEnforcementKind'', opt_value (lb_correctnessEnforcementKind l)),
       (''enforceableProjection'', (case lb_enforceableProjection l of None \<Rightarrow> VNull | Some v \<Rightarrow> v))]"
| "lock_value (LockQuick l) =
     VObj [(''lockSchemaVersion'', VNum (Fin 1)), (''kind'', VStr ''quick''),
       (''verdict'', VStr (quick_verdict_text (lq_verdict l))),
       (''ingestReasonCodes'', texts_value (lq_ingestReasonCodes l)),
       (''runHeaderReasonCodes'', texts_value (lq_runHeaderReasonCodes l)),
       (''units'', VArr (map lock_unit_value (lq_units l)))]"

definition ciLocksEqualStable :: "host \<Rightarrow> ci_lock \<Rightarrow> ci_lock \<Rightarrow> js_error + bool" where
  "ciLocksEqualStable h a b =
     throws_bind (stableStringify h (lock_value a)) (\<lambda>sa.
     throws_bind (stableStringify h (lock_value b)) (\<lambda>sb. Inr (sa = sb)))"

section \<open>Stored results\<close>

text \<open>A stored result: engine fields of version 5, or an emitted result, whose run context may be missing,
  with the schema version of its report. It is the stored record itself: that a member which is
  \<open>undefined\<close> is not printed, and that a negative zero is printed as zero, is not modelled.\<close>

datatype stored_result =
    StoredEngine engine_result
  | StoredEmitted engine_result "run_context option" nat truth_report

definition with_context :: "engine_result \<Rightarrow> run_context option \<Rightarrow> engine_result" where
  "with_context e ctx =
     e\<lparr>er_verificationRunContext := (case ctx of None \<Rightarrow> createEmptyVerificationRunContext | Some c \<Rightarrow> c)\<rparr>"

fun workflowEngineResultFromEmitted :: "stored_result \<Rightarrow> engine_result" where
  "workflowEngineResultFromEmitted (StoredEngine e) = with_context e None"
| "workflowEngineResultFromEmitted (StoredEmitted e ctx _ _) = with_context e ctx"

definition truth_mismatch :: js_error where
  "truth_mismatch = TruthLayerError ''COMPARE_WORKFLOW_TRUTH_MISMATCH''
     ''workflowTruthReport does not match engine fields (recomputed truth differs from file).''"

fun normalizeToEmittedWorkflowResult :: "host \<Rightarrow> stored_result \<Rightarrow> js_error + workflow_result" where
  "normalizeToEmittedWorkflowResult h (StoredEngine e) = finalizeEmittedWorkflowResult h (with_context e None)"
| "normalizeToEmittedWorkflowResult h (StoredEmitted e ctx version truth) =
     throws_bind (finalizeEmittedWorkflowResult h (with_context e ctx)) (\<lambda>rebuilt.
       if 3 \<le> version \<and> wr_truth rebuilt \<noteq> truth then Inl truth_mismatch else Inr rebuilt)"

definition workflowResultToEngineSlice :: "workflow_result \<Rightarrow> engine_result" where
  "workflowResultToEngineSlice r = wr_engine r"

section \<open>What the gates decide\<close>

lemma assertUniqueWorkflowIds_iff:
  "assertUniqueWorkflowIds seen rows = Inr () \<longleftrightarrow>
     distinct (map br_workflowId rows) \<and> set (map br_workflowId rows) \<inter> set seen = {}"
  by (induction seen rows rule: assertUniqueWorkflowIds.induct) auto

text \<open>A loaded policy has one row per workflow.\<close>

lemma read_policy_unique: "read_policy files filePath = Inr rows \<Longrightarrow> distinct (map br_workflowId rows)"
  unfolding read_policy_def
  by (cases "pf_read files filePath"; simp; cases "pf_parse files (projr (pf_read files filePath))"; simp;
      cases "pf_validate files (the (pf_parse files (projr (pf_read files filePath))))";
      simp add: throws_bind_Inr_iff assertUniqueWorkflowIds_iff)

lemma loaded_policy_unique:
  "loadCoverageBudgetPolicyPhaseA files explicit_path project = Inr (Some (filePath, rows)) \<Longrightarrow>
     distinct (map br_workflowId rows)"
  by (auto simp: loadCoverageBudgetPolicyPhaseA_def throws_bind_Inr_iff dest: read_policy_unique split: option.splits)

text \<open>Some kind that the workflow's row asks for is not among those the certificate has satisfied.\<close>

definition underfull :: "budget_policy \<Rightarrow> certificate \<Rightarrow> bool" where
  "underfull rows c \<longleftrightarrow>
     (case (find (\<lambda>r. br_workflowId r = oc_workflowId c) rows, ec_witnessCoverage (oc_evidenceCompleteness c)) of
        (Some row, Some coverage) \<Rightarrow>
          \<not> set (br_minimumFullySatisfiedKinds row) \<subseteq> set (map coverage_kind_text (wc_fullySatisfiedKinds coverage))
      | _ \<Rightarrow> False)"

lemma budget_fails_iff: "be_verdict (evaluateCoverageBudgetPhaseB h enc c rows path) = BudgetFail \<longleftrightarrow> underfull rows c"
  by (auto simp: evaluateCoverageBudgetPhaseB_def mk_evaluation_def underfull_def Let_def sort_texts_def
      filter_empty_conv split: option.splits)

text \<open>The rows of a loaded policy may be in any order.\<close>

lemma find_unique:
  assumes "set xs = set ys" and "distinct (map f xs)" and "distinct (map f ys)"
  shows "find (\<lambda>x. f x = k) xs = find (\<lambda>x. f x = k) ys"
proof -
  have "find (\<lambda>x. f x = k) zs = Some x \<longleftrightarrow> x \<in> set zs \<and> f x = k" if "distinct (map f zs)" for zs x
    using that by (induction zs) (auto simp: rev_image_eqI)
  with assms show ?thesis by (metis not_None_eq)
qed

lemma underfull_order:
  "set xs = set ys \<Longrightarrow> distinct (map br_workflowId xs) \<Longrightarrow> distinct (map br_workflowId ys) \<Longrightarrow>
     underfull xs c \<longleftrightarrow> underfull ys c"
  by (simp add: underfull_def find_unique [of xs ys])

lemma gate_exit_code:
  "resolveFinalExitCode (baseExitFromStateRelation (oc_stateRelation c)) active
       (Some (be_verdict (evaluateCoverageBudgetPhaseB h enc c rows path))) enforced
     = (case oc_stateRelation c of
          MatchesExpectations \<Rightarrow> if active \<and> enforced \<and> underfull rows c then 1 else 0
        | DoesNotMatch \<Rightarrow> 1 | NotEstablished \<Rightarrow> 2)"
  by (cases "oc_stateRelation c") (simp_all add: resolveFinalExitCode_def budget_fails_iff)

text \<open>A lock does not depend on the order of the units of a quick report.\<close>

lemma quick_lock_order:
  assumes "mset us = mset (qv_units q)" and "distinct (map qr_unitId us)"
  shows "quickReportToCiLockV1 h (q\<lparr>qv_units := us\<rparr>) = quickReportToCiLockV1 h q"
proof -
  have "js_sort (\<lambda>a b. compareUtf16Id (qr_unitId a) (qr_unitId b)) us
      = js_sort (\<lambda>a b. compareUtf16Id (qr_unitId a) (qr_unitId b)) (qv_units q)"
  proof (rule utf16.sort_permutation_invariant [OF assms(1)])
    fix x y assume "x \<in> set us" "y \<in> set us" "compareUtf16Id (qr_unitId x) (qr_unitId y) \<le> 0"
      "compareUtf16Id (qr_unitId y) (qr_unitId x) \<le> 0"
    with assms(2) show "x = y" by (auto simp: compareUtf16Id_le distinct_map inj_on_def)
  qed
  then show ?thesis by (simp add: quickReportToCiLockV1_def)
qed

end
