(* ===== verification/VerificationDiff.thy ===== *)
theory VerificationDiff
  imports Certificate QuickIngest
begin

text \<open>
  The semantic comparison of two outcome certificates (\<open>src/certificateVerificationDiff.ts\<close>) over the
  serialisation with sorted keys (\<open>src/sortedJsonStringify.ts\<close>). The digest of a certificate
  (\<open>src/certificateDigest.ts\<close>: SHA-256) and the collation of the locale \<open>en\<close> are parameters.
\<close>

section \<open>Sorted keys\<close>

text \<open>\<open>canonicalizeForJson\<close>: an object is rebuilt member by member, in the order of the collation, so
  array indices come first again and \<open>__proto__\<close> makes no member. A date has no members.\<close>

fun canonicalizeForJson :: "(string \<Rightarrow> string \<Rightarrow> int) \<Rightarrow> jsval \<Rightarrow> jsval" where
  "canonicalizeForJson en (VArr xs) = VArr (map (canonicalizeForJson en) xs)"
| "canonicalizeForJson en (VObj kvs) =
     VObj (key_order (filter (\<lambda>kv. fst kv \<noteq> ''__proto__'')
       (js_sort (\<lambda>a b. en (fst a) (fst b)) (map (\<lambda>(k, v). (k, canonicalizeForJson en v)) kvs))))"
| "canonicalizeForJson en (VDate d) = VObj []"
| "canonicalizeForJson en VProto = VObj []"
| "canonicalizeForJson en VUndef = VUndef"
| "canonicalizeForJson en VNull = VNull"
| "canonicalizeForJson en (VBool b) = VBool b"
| "canonicalizeForJson en (VNum n) = VNum n"
| "canonicalizeForJson en (VStr s) = VStr s"
| "canonicalizeForJson en (VBig i) = VBig i"
| "canonicalizeForJson en (VFun f) = VFun f"

definition stringifyWithSortedKeys :: "host \<Rightarrow> (string \<Rightarrow> string \<Rightarrow> int) \<Rightarrow> jsval \<Rightarrow> js_error + string option" where
  "stringifyWithSortedKeys h en v = json_stringify h (canonicalizeForJson en v)"

section \<open>Projections\<close>

fun support_label_text :: "support_label \<Rightarrow> string" where
  "support_label_text MeaningfulMultiWitness = ''meaningful_multi_witness''"
| "support_label_text SqlOnlyContract = ''sql_only_contract''"
| "support_label_text SingleNonSqlContract = ''single_non_sql_contract''"
| "support_label_text ThinOrUnknown = ''thin_or_unknown''"
| "support_label_text CoverageIncompleteOrFailed = ''coverage_incomplete_or_failed''"

fun verdict_label_text :: "truth_check_label \<Rightarrow> string" where
  "verdict_label_text Trusted = ''trusted''"
| "verdict_label_text NotTrusted = ''not_trusted''"
| "verdict_label_text UnknownVerdict = ''unknown''"

record evidence_projection =
  ep_blockerCategory :: evidence_gap
  ep_supportLabel :: "support_label option"

definition evidenceProjection :: "certificate \<Rightarrow> evidence_projection" where
  "evidenceProjection c =
     (let ec = oc_evidenceCompleteness c
      in \<lparr>ep_blockerCategory = ec_blockerCategory ec,
          ep_supportLabel = map_option wc_supportLabel (ec_witnessCoverage ec)\<rparr>)"

definition projection_value :: "evidence_projection \<Rightarrow> jsval" where
  "projection_value p =
     VObj [(''blockerCategory'', VStr (gap_text (ep_blockerCategory p))),
           (''supportLabel'', (case ep_supportLabel p of None \<Rightarrow> VNull | Some l \<Rightarrow> VStr (support_label_text l)))]"

definition canonicalEvidenceFingerprint ::
  "host \<Rightarrow> (string \<Rightarrow> string \<Rightarrow> int) \<Rightarrow> evidence_projection \<Rightarrow> js_error + string option" where
  "canonicalEvidenceFingerprint h en proj = stringifyWithSortedKeys h en (projection_value proj)"

datatype determinacy_class = EstablishedPositive | EstablishedNegative | NotEstablishedClass

fun determinacyClass :: "state_relation \<Rightarrow> determinacy_class" where
  "determinacyClass MatchesExpectations = EstablishedPositive"
| "determinacyClass DoesNotMatch = EstablishedNegative"
| "determinacyClass NotEstablished = NotEstablishedClass"

fun determinacyRank :: "determinacy_class \<Rightarrow> nat" where
  "determinacyRank EstablishedPositive = 2"
| "determinacyRank EstablishedNegative = 1"
| "determinacyRank NotEstablishedClass = 0"

fun rcScore :: "truth_check_label \<Rightarrow> nat" where
  "rcScore NotTrusted = 0"
| "rcScore UnknownVerdict = 1"
| "rcScore Trusted = 2"

section \<open>The movement\<close>

datatype posture_movement = PostureImproved | PostureWeakened | PostureUnchanged | PostureLessDeterminate | PostureDrifted

fun movement_text :: "posture_movement \<Rightarrow> string" where
  "movement_text PostureImproved = ''improved''"
| "movement_text PostureWeakened = ''weakened''"
| "movement_text PostureUnchanged = ''unchanged''"
| "movement_text PostureLessDeterminate = ''less_determinate''"
| "movement_text PostureDrifted = ''drifted''"

fun headlineFor :: "posture_movement \<Rightarrow> string" where
  "headlineFor PostureUnchanged =
     ''Verification posture unchanged between the two Outcome Certificates (projection-equal).''"
| "headlineFor PostureLessDeterminate =
     ''Verification became less determinate: trust dimensions lost a determinate established conclusion.''"
| "headlineFor PostureImproved =
     ''Verification posture improved between prior and current Outcome Certificates.''"
| "headlineFor PostureWeakened =
     ''Verification posture weakened between prior and current Outcome Certificates.''"
| "headlineFor PostureDrifted =
     ''Verification posture drifted: material certificate fields changed without a single clear improved/weakened trust story.''"

definition NEXT_STEP_COMMAND :: string where
  "NEXT_STEP_COMMAND = ''agentskeptic compare --manifest <compare-run-manifest.json>''"

definition NEXT_STEP_ANCHOR :: string where
  "NEXT_STEP_ANCHOR = ''docs/agentskeptic.md#cross-run-comparison-normative''"

definition deeper_compare :: string where
  "deeper_compare = '' For structural compare use '' @ [CHR 0x60] @ NEXT_STEP_COMMAND @ [CHR 0x60] @ '' (''
     @ NEXT_STEP_ANCHOR @ '').''"

fun recommendedNextActionFor :: "posture_movement \<Rightarrow> string" where
  "recommendedNextActionFor PostureUnchanged =
     ''This conclusion is certificate-only semantic diff; it does not inspect events, traces, or step-level workflow structure.''
     @ deeper_compare"
| "recommendedNextActionFor PostureLessDeterminate =
     ''Treat the current artifact as withholding a determinate grounding that the prior certificate had; restore observability inputs or rerun verification.''
     @ deeper_compare"
| "recommendedNextActionFor PostureImproved =
     ''Promotion decision may proceed consistent with improved trust projections; archive both certificates.''
     @ deeper_compare"
| "recommendedNextActionFor PostureWeakened =
     ''Hold promotion or widen review: trust projections regressed versus the prior certificate; remediate downstream state / inputs before relying on current.''
     @ deeper_compare"
| "recommendedNextActionFor PostureDrifted =
     ''Reviewer should reconcile why evidence or run posture labels moved while primary trust projections stayed aligned; optionally rerun live verification.''
     @ deeper_compare"

text \<open>The twelve steps of \<open>classifyPostureMovement\<close>, in their order; \<open>fb\<close> and \<open>fa\<close> are the fingerprints.\<close>

definition certificatesSemanticallyEqualForDiff ::
  "certificate \<Rightarrow> certificate \<Rightarrow> 'f \<Rightarrow> 'f \<Rightarrow> bool" where
  "certificatesSemanticallyEqualForDiff prior current fpBefore fpAfter \<longleftrightarrow>
     oc_workflowId prior = oc_workflowId current \<and> oc_stateRelation prior = oc_stateRelation current
     \<and> oc_releaseCriticalVerdict prior = oc_releaseCriticalVerdict current
     \<and> oc_highStakesReliance prior = oc_highStakesReliance current
     \<and> oc_runKind prior = oc_runKind current \<and> fpBefore = fpAfter"

definition steps2through6 :: "state_relation \<Rightarrow> state_relation \<Rightarrow> bool" where
  "steps2through6 SB SA \<longleftrightarrow>
     (SA = NotEstablished \<and> SB \<noteq> NotEstablished) \<or> (SB = DoesNotMatch \<and> SA = MatchesExpectations)
     \<or> (SB = MatchesExpectations \<and> SA = DoesNotMatch) \<or> (SB = NotEstablished \<and> SA = MatchesExpectations)
     \<or> (SB = NotEstablished \<and> SA = DoesNotMatch)"

definition classifyPostureMovement ::
  "certificate \<Rightarrow> certificate \<Rightarrow> 'f \<Rightarrow> 'f \<Rightarrow> bool \<Rightarrow> posture_movement" where
  "classifyPostureMovement prior current fb fa completenessChanged =
     (let SB = oc_stateRelation prior; SA = oc_stateRelation current;
          RB = oc_releaseCriticalVerdict prior; RA = oc_releaseCriticalVerdict current;
          HB = oc_highStakesReliance prior; HA = oc_highStakesReliance current;
          KB = oc_runKind prior; KA = oc_runKind current
      in if certificatesSemanticallyEqualForDiff prior current fb fa then PostureUnchanged
         else if SA = NotEstablished \<and> SB \<noteq> NotEstablished then PostureLessDeterminate
         else if SB = DoesNotMatch \<and> SA = MatchesExpectations then PostureImproved
         else if SB = MatchesExpectations \<and> SA = DoesNotMatch then PostureWeakened
         else if SB = NotEstablished \<and> SA = MatchesExpectations then PostureImproved
         else if SB = NotEstablished \<and> SA = DoesNotMatch then PostureWeakened
         else if KB \<noteq> KA \<and> SB = SA \<and> RB = RA \<and> HB = HA \<and> \<not> completenessChanged then PostureDrifted
         else if rcScore RA > rcScore RB \<and> \<not> (SB = MatchesExpectations \<and> SA \<noteq> MatchesExpectations) then PostureImproved
         else if rcScore RA < rcScore RB then PostureWeakened
         else if HB = Prohibited \<and> HA = Permitted \<and> \<not> steps2through6 SB SA then PostureImproved
         else if HB = Permitted \<and> HA = Prohibited then PostureWeakened
         else if completenessChanged \<and> SB = SA \<and> RB = RA \<and> HB = HA \<and> KB = KA then PostureDrifted
         else PostureUnchanged)"

section \<open>The diff\<close>

record certificate_face =
  ct_certificateSha256 :: string
  ct_runKind :: run_kind
  ct_stateRelation :: state_relation
  ct_releaseCriticalVerdict :: truth_check_label
  ct_highStakesReliance :: reliance

record verification_diff =
  vd_workflowId :: string
  vd_prior :: certificate_face
  vd_current :: certificate_face
  vd_stateRelation :: "state_relation \<times> state_relation \<times> bool"
  vd_releaseCriticalVerdict :: "truth_check_label \<times> truth_check_label \<times> bool"
  vd_highStakesReliance :: "reliance \<times> reliance \<times> bool"
  vd_runKind :: "run_kind \<times> run_kind \<times> bool"
  vd_evidenceProjection :: "evidence_projection \<times> evidence_projection"
  vd_completenessChanged :: bool
  vd_determinacy :: "determinacy_class \<times> determinacy_class \<times> nat \<times> nat"
  vd_lessDeterminate :: bool
  vd_postureMovement :: posture_movement
  vd_headline :: string
  vd_recommendedNextAction :: string

definition face_of :: "(certificate \<Rightarrow> string) \<Rightarrow> certificate \<Rightarrow> certificate_face" where
  "face_of digest c =
     \<lparr>ct_certificateSha256 = digest c, ct_runKind = oc_runKind c, ct_stateRelation = oc_stateRelation c,
      ct_releaseCriticalVerdict = oc_releaseCriticalVerdict c, ct_highStakesReliance = oc_highStakesReliance c\<rparr>"

definition changed :: "'a \<Rightarrow> 'a \<Rightarrow> 'a \<times> 'a \<times> bool" where
  "changed prior current = (prior, current, prior \<noteq> current)"

definition buildVerificationDiffFromOutcomeCertificates ::
  "host \<Rightarrow> (string \<Rightarrow> string \<Rightarrow> int) \<Rightarrow> (certificate \<Rightarrow> string)
   \<Rightarrow> certificate \<Rightarrow> certificate \<Rightarrow> js_error + verification_diff" where
  "buildVerificationDiffFromOutcomeCertificates h en digest prior current =
     (if oc_workflowId prior \<noteq> oc_workflowId current
      then Inl (TruthLayerError ''COMPARE_WORKFLOW_ID_MISMATCH''
        (''Compare certificates: workflowId differs (before='' @ oc_workflowId prior @ '', after=''
         @ oc_workflowId current @ '').''))
      else
        (let projBefore = evidenceProjection prior; projAfter = evidenceProjection current;
             fb = canonicalEvidenceFingerprint h en projBefore; fa = canonicalEvidenceFingerprint h en projAfter;
             completenessChanged = (fb \<noteq> fa);
             dcB = determinacyClass (oc_stateRelation prior); dcA = determinacyClass (oc_stateRelation current);
             posture = classifyPostureMovement prior current fb fa completenessChanged
         in Inr
           \<lparr>vd_workflowId = oc_workflowId prior, vd_prior = face_of digest prior, vd_current = face_of digest current,
            vd_stateRelation = changed (oc_stateRelation prior) (oc_stateRelation current),
            vd_releaseCriticalVerdict = changed (oc_releaseCriticalVerdict prior) (oc_releaseCriticalVerdict current),
            vd_highStakesReliance = changed (oc_highStakesReliance prior) (oc_highStakesReliance current),
            vd_runKind = changed (oc_runKind prior) (oc_runKind current),
            vd_evidenceProjection = (projBefore, projAfter),
            vd_completenessChanged = completenessChanged,
            vd_determinacy = (dcB, dcA, determinacyRank dcB, determinacyRank dcA),
            vd_lessDeterminate = (dcB \<noteq> NotEstablishedClass \<and> dcA = NotEstablishedClass),
            vd_postureMovement = posture,
            vd_headline = headlineFor posture,
            vd_recommendedNextAction = recommendedNextActionFor posture\<rparr>))"

definition verificationDiffStderrFirstLine :: string where
  "verificationDiffStderrFirstLine =
     ''verification_diff_certificate: certificate-only semantic comparison (not structural run compare)''"

definition buildVerificationDiffHumanText :: "verification_diff \<Rightarrow> string" where
  "buildVerificationDiffHumanText d =
     join [CHR 0x0A]
       [verificationDiffStderrFirstLine, [], vd_headline d, [], vd_recommendedNextAction d, [],
        ''Posture classification: '' @ movement_text (vd_postureMovement d), [],
        ''State relation: prior='' @ state_relation_text (fst (vd_stateRelation d)) @ '' current=''
          @ state_relation_text (fst (snd (vd_stateRelation d))), [],
        ''Limits: certificateOnly semantic diff (noEvents, noStepStructuralDiff).'']"

section \<open>The diff as JSON\<close>

definition face_value :: "certificate_face \<Rightarrow> jsval" where
  "face_value f =
     VObj [(''certificateSha256'', VStr (ct_certificateSha256 f)), (''runKind'', VStr (run_kind_text (ct_runKind f))),
       (''stateRelation'', VStr (state_relation_text (ct_stateRelation f))),
       (''releaseCriticalVerdict'', VStr (verdict_label_text (ct_releaseCriticalVerdict f))),
       (''highStakesReliance'', VStr (reliance_text (ct_highStakesReliance f)))]"

definition changed_value :: "('a \<Rightarrow> string) \<Rightarrow> 'a \<times> 'a \<times> bool \<Rightarrow> jsval" where
  "changed_value f c =
     VObj [(''prior'', VStr (f (fst c))), (''current'', VStr (f (fst (snd c)))), (''changed'', VBool (snd (snd c)))]"

fun determinacy_text :: "determinacy_class \<Rightarrow> string" where
  "determinacy_text EstablishedPositive = ''established_positive''"
| "determinacy_text EstablishedNegative = ''established_negative''"
| "determinacy_text NotEstablishedClass = ''not_established''"

fun determinacy_value :: "determinacy_class \<times> determinacy_class \<times> nat \<times> nat \<Rightarrow> jsval" where
  "determinacy_value (pc, cc, pr, cr) =
     VObj [(''priorClass'', VStr (determinacy_text pc)), (''currentClass'', VStr (determinacy_text cc)),
       (''priorRank'', VNum (Fin (of_nat pr))), (''currentRank'', VNum (Fin (of_nat cr)))]"

definition verification_diff_value :: "verification_diff \<Rightarrow> jsval" where
  "verification_diff_value d =
     VObj [(''$schema'', VStr ''https://agentskeptic.com/schemas/verification-diff-certificate-v1.schema.json''),
       (''schemaVersion'', VNum (Fin 1)), (''comparisonKind'', VStr ''outcome_certificate_v3_semantic''),
       (''workflowId'', VStr (vd_workflowId d)), (''prior'', face_value (vd_prior d)),
       (''current'', face_value (vd_current d)),
       (''stateRelation'', changed_value state_relation_text (vd_stateRelation d)),
       (''releaseCriticalVerdict'', changed_value verdict_label_text (vd_releaseCriticalVerdict d)),
       (''highStakesReliance'', changed_value reliance_text (vd_highStakesReliance d)),
       (''runKind'', changed_value run_kind_text (vd_runKind d)),
       (''evidenceCompletenessProjection'',
          VObj [(''prior'', projection_value (fst (vd_evidenceProjection d))),
                (''current'', projection_value (snd (vd_evidenceProjection d)))]),
       (''completenessChanged'', VBool (vd_completenessChanged d)),
       (''determinacy'', determinacy_value (vd_determinacy d)),
       (''lessDeterminate'', VBool (vd_lessDeterminate d)),
       (''postureMovement'', VStr (movement_text (vd_postureMovement d))),
       (''headline'', VStr (vd_headline d)), (''recommendedNextAction'', VStr (vd_recommendedNextAction d)),
       (''limits'', VObj [(''certificateOnly'', VBool True), (''noEvents'', VBool True), (''noStepStructuralDiff'', VBool True)]),
       (''nextStepHint'', VObj [(''command'', VStr NEXT_STEP_COMMAND), (''docAnchor'', VStr NEXT_STEP_ANCHOR)])]"

definition stringifyVerificationDiffCertificate ::
  "host \<Rightarrow> (string \<Rightarrow> string \<Rightarrow> int) \<Rightarrow> verification_diff \<Rightarrow> js_error + string option" where
  "stringifyVerificationDiffCertificate h en d = stringifyWithSortedKeys h en (verification_diff_value d)"

section \<open>What the movement means\<close>

lemma gap_text_inj: "gap_text a = gap_text b \<longleftrightarrow> a = b"
  by (cases a; cases b) simp_all

lemma support_label_text_inj: "support_label_text a = support_label_text b \<longleftrightarrow> a = b"
  by (cases a; cases b) simp_all

lemma plain_texts:
  "json_quote (gap_text g) = CHR 0x22 # gap_text g @ [CHR 0x22] \<and> CHR 0x22 \<notin> set (gap_text g)"
  by (cases g) (simp_all only:, code_simp+)

lemma plain_labels:
  "json_quote (support_label_text l) = CHR 0x22 # support_label_text l @ [CHR 0x22]"
  by (cases l) (simp_all only:, code_simp+)

definition label_value :: "support_label option \<Rightarrow> string" where
  "label_value l = (case l of None \<Rightarrow> ''null'' | Some x \<Rightarrow> json_quote (support_label_text x))"

lemma label_value_inj: "label_value a = label_value b \<longleftrightarrow> a = b"
proof -
  have "json_quote s \<noteq> ''null''" for s by (simp add: json_quote_def)
  then show ?thesis
    by (cases a; cases b) (simp_all add: label_value_def plain_labels support_label_text_inj)
qed

lemma label_has_no_comma: "CHR '','' \<notin> set (label_value l)"
proof (cases l)
  case (Some x)
  have "CHR '','' \<notin> set (support_label_text x)" by (cases x) (simp_all only:, code_simp+)
  with Some show ?thesis by (simp add: label_value_def plain_labels)
qed (simp add: label_value_def)

lemma up_to_char: "d \<notin> set a \<Longrightarrow> d \<notin> set b \<Longrightarrow> a @ d # x = b @ d # y \<longleftrightarrow> a = b \<and> x = y"
proof (induction a arbitrary: b)
  case Nil
  then show ?case by (cases b) auto
next
  case (Cons c cs)
  then show ?case by (cases b) auto
qed

text \<open>Fingerprints agree exactly when the projections do, whatever the collation.\<close>

lemma fingerprint_iff:
  "canonicalEvidenceFingerprint h en p = canonicalEvidenceFingerprint h en q \<longleftrightarrow> p = q"
proof -
  let ?g = "\<lambda>p. gap_text (ep_blockerCategory p)" and ?l = "\<lambda>p. label_value (ep_supportLabel p)"
  let ?K = "json_quote ''blockerCategory''" and ?S = "json_quote ''supportLabel''"
  have one: "canonicalEvidenceFingerprint h en p = Inr (Some (
      if en ''blockerCategory'' ''supportLabel'' \<le> 0
      then ''{'' @ ?K @ '':'' @ CHR 0x22 # ?g p @ CHR 0x22 # '','' @ ?S @ '':'' @ ?l p @ ''}''
      else ''{'' @ ?S @ '':'' @ ?l p @ '','' @ ?K @ '':'' @ CHR 0x22 # ?g p @ CHR 0x22 # ''}''))" for p
    by (cases "ep_supportLabel p")
       (simp_all add: canonicalEvidenceFingerprint_def stringifyWithSortedKeys_def projection_value_def json_stringify_def
        key_order_def integer_key_def is_digit_def List.map_filter_def label_value_def plain_texts plain_labels)
  show ?thesis (is "?lhs \<longleftrightarrow> _")
  proof
    assume ?lhs
    then have "?g p = ?g q \<and> ?l p = ?l q"
      using plain_texts [of "ep_blockerCategory p"] plain_texts [of "ep_blockerCategory q"]
      label_has_no_comma [of "ep_supportLabel p"] label_has_no_comma [of "ep_supportLabel q"]
      by (auto simp: one up_to_char split: if_splits)
    then show "p = q" by (simp add: gap_text_inj label_value_inj)
  qed simp
qed

text \<open>
  What the twelve steps amount to. The trust of a certificate is the triple of its state relation,
  ordered from a mismatch over nothing established to a match, its release-critical verdict and its
  reliance; two certificates are compared lexicographically by it, except that losing an established
  state is a movement of its own. With equal trust the movement depends on the run kind and on
  the projection: \<open>PostureDrifted\<close> exactly when one of the two changed.
\<close>

fun relation_rank :: "state_relation \<Rightarrow> nat" where
  "relation_rank DoesNotMatch = 0"
| "relation_rank NotEstablished = 1"
| "relation_rank MatchesExpectations = 2"

fun reliance_rank :: "reliance \<Rightarrow> nat" where
  "reliance_rank Prohibited = 0"
| "reliance_rank Permitted = 1"

definition trust_rank :: "certificate \<Rightarrow> nat list" where
  "trust_rank c = [relation_rank (oc_stateRelation c), rcScore (oc_releaseCriticalVerdict c),
     reliance_rank (oc_highStakesReliance c)]"

definition movement_spec :: "certificate \<Rightarrow> certificate \<Rightarrow> posture_movement" where
  "movement_spec prior current =
     (if oc_stateRelation current = NotEstablished \<and> oc_stateRelation prior \<noteq> NotEstablished then PostureLessDeterminate
      else if trust_rank prior < trust_rank current then PostureImproved
      else if trust_rank current < trust_rank prior then PostureWeakened
      else if (oc_runKind prior = oc_runKind current) = (evidenceProjection prior = evidenceProjection current)
      then PostureUnchanged else PostureDrifted)"

lemma movement_is_spec:
  assumes "oc_workflowId prior = oc_workflowId current"
    and "fb = fa \<longleftrightarrow> evidenceProjection prior = evidenceProjection current"
  shows "classifyPostureMovement prior current fb fa (fb \<noteq> fa) = movement_spec prior current"
proof -
  have "certificatesSemanticallyEqualForDiff prior current fb fa \<longleftrightarrow>
     oc_stateRelation prior = oc_stateRelation current
     \<and> oc_releaseCriticalVerdict prior = oc_releaseCriticalVerdict current
     \<and> oc_highStakesReliance prior = oc_highStakesReliance current
     \<and> oc_runKind prior = oc_runKind current \<and> fb = fa"
    using assms(1) by (simp add: certificatesSemanticallyEqualForDiff_def)
  then show ?thesis
    unfolding classifyPostureMovement_def Let_def movement_spec_def trust_rank_def assms(2) [symmetric] steps2through6_def
    by (cases "oc_stateRelation prior"; cases "oc_stateRelation current";
        cases "oc_releaseCriticalVerdict prior"; cases "oc_releaseCriticalVerdict current";
        cases "oc_highStakesReliance prior"; cases "oc_highStakesReliance current"; simp)
qed

lemma diff_result:
  "buildVerificationDiffFromOutcomeCertificates h en digest prior current = Inr d \<Longrightarrow>
     oc_workflowId prior = oc_workflowId current \<and> vd_postureMovement d = movement_spec prior current
     \<and> vd_headline d = headlineFor (vd_postureMovement d)
     \<and> (vd_completenessChanged d \<longleftrightarrow> evidenceProjection prior \<noteq> evidenceProjection current)
     \<and> vd_runKind d = changed (oc_runKind prior) (oc_runKind current)"
proof -
  assume d: "buildVerificationDiffFromOutcomeCertificates h en digest prior current = Inr d"
  then have wid: "oc_workflowId prior = oc_workflowId current"
    by (simp add: buildVerificationDiffFromOutcomeCertificates_def split: if_splits)
  let ?fb = "canonicalEvidenceFingerprint h en (evidenceProjection prior)"
    and ?fa = "canonicalEvidenceFingerprint h en (evidenceProjection current)"
  have "classifyPostureMovement prior current ?fb ?fa (?fb \<noteq> ?fa) = movement_spec prior current"
    by (rule movement_is_spec [OF wid fingerprint_iff])
  then have "classifyPostureMovement prior current ?fb ?fa (evidenceProjection prior \<noteq> evidenceProjection current)
      = movement_spec prior current"
    by (simp only: fingerprint_iff)
  then show ?thesis
    using d wid by (auto simp: buildVerificationDiffFromOutcomeCertificates_def Let_def fingerprint_iff)
qed

end
