(* ===== verification/StoredClaims.thy ===== *)
theory StoredClaims
  imports CiGates VerificationDiff ReportProperties Examples
begin

text \<open>
  What is claimed of what outlives a run: its lock (\<open>src/ciLock.ts\<close>), the file it is stored in
  (\<open>src/workflowResultNormalize.ts\<close>), the gate of a build (\<open>src/coverageBudget.ts\<close>) and the comparison of two
  certificates (\<open>src/certificateVerificationDiff.ts\<close>).
\<close>

section \<open>Locks of finished runs\<close>

text \<open>A step of a lock says what the step of the run said.\<close>

definition locks_step :: "step_outcome \<Rightarrow> lock_step \<Rightarrow> bool" where
  "locks_step s k \<longleftrightarrow> ls_seq k = so_seq s \<and> ls_toolId k = so_toolId s \<and> ls_status k = so_status s
     \<and> ls_outcomeLabel k = step_label (so_status s)
     \<and> set (ls_reasonCodes k) = set (map rs_code (so_reasons s))
     \<and> (ls_referenceCode k = None \<longleftrightarrow> so_status s = Verified)"

lemma locked_label:
  assumes answer: "list_all2 (\<lambda>s q. ts_seq q = so_seq s \<and> ts_toolId q = so_toolId s
      \<and> ts_outcomeLabel q = step_label (so_status s)) steps ts"
    and distinct: "distinct (map so_seq steps)" and s: "s \<in> set steps"
  shows "ls_outcomeLabel (lock_step_of h ts s) = step_label (so_status s)"
proof -
  let ?P = "\<lambda>t. ts_seq t = so_seq s \<and> ts_toolId t = so_toolId s"
  obtain q where "q \<in> set ts" "?P q" using list_all2_partner [OF answer s] by blast
  then obtain t where t: "List.find ?P ts = Some t" and "t \<in> set ts" using find_total [of q ts ?P] by blast
  then obtain i where i: "i < length ts" "ts ! i = t" by (auto simp: in_set_conv_nth)
  have "?P t" using t by (auto simp: find_Some_iff)
  moreover have "ts_seq t = so_seq (steps ! i) \<and> ts_outcomeLabel t = step_label (so_status (steps ! i))"
    using answer i by (auto simp: list_all2_conv_all_nth)
  moreover have "i < length steps" using answer i by (simp add: list_all2_lengthD)
  ultimately have "steps ! i = s"
    using distinct s by (metis distinct_conv_nth in_set_conv_nth length_map nth_map)
  with t \<open>ts_seq t = so_seq (steps ! i) \<and> ts_outcomeLabel t = step_label (so_status (steps ! i))\<close>
  show ?thesis by (simp add: lock_step_of_def Let_def)
qed

lemma locked_steps:
  assumes acc: "accounted r" and rep: "report_answers r t"
  shows "list_all2 locks_step (er_steps r) (map (lock_step_of h (wt_steps t)) (er_steps r))"
proof -
  have "locks_step s (lock_step_of h (wt_steps t) s)" if s: "s \<in> set (er_steps r)" for s
  proof -
    have "distinct (map so_seq (er_steps r))"
      using acc by (simp add: accounted_def strict_sorted_iff)
    then have "ls_outcomeLabel (lock_step_of h (wt_steps t) s) = step_label (so_status s)"
      using rep s by (intro locked_label) (simp_all add: report_answers_def)
    moreover have "so_status s = Verified \<longleftrightarrow> so_reasons s = []"
      using acc s by (auto simp: accounted_def list_all_iff explained_def)
    ultimately show ?thesis
      by (cases "so_reasons s") (simp_all add: locks_step_def lock_step_of_def Let_def)
  qed
  then show ?thesis by (simp add: list_all2_conv_all_nth)
qed

lemma step_label_verified: "step_label st = ''VERIFIED'' \<longleftrightarrow> st = Verified"
  by (cases st) simp_all

definition lock_answers :: "engine_result \<Rightarrow> ci_lock_batch \<Rightarrow> bool" where
  "lock_answers r l \<longleftrightarrow> lb_workflowId l = er_workflowId r \<and> lb_status l = er_status r
     \<and> list_all2 locks_step (er_steps r) (lb_steps l)
     \<and> (lb_correctnessEnforcementKind l = None \<longleftrightarrow> er_status r = Complete)
     \<and> (er_status r = Complete \<longleftrightarrow> lb_runLevelReasonCodes l = [] \<and> lb_steps l \<noteq> []
          \<and> list_all (\<lambda>k. ls_outcomeLabel k = ''VERIFIED'') (lb_steps l))"

lemma lock_of_report:
  assumes acc: "accounted r" and rep: "report_answers r t"
    and l: "workflowResultToCiLockV1 h \<lparr>wr_engine = r, wr_truth = t\<rparr> = Inr l"
  shows "lock_answers r l"
proof -
  have steps: "lb_steps l = map (lock_step_of h (wt_steps t)) (er_steps r)"
    and codes: "lb_runLevelReasonCodes l = sortUniqueCodes h (map rs_code (er_runLevelReasons r))"
    and rest: "lb_workflowId l = er_workflowId r" "lb_status l = er_status r"
    and kind: "lb_correctnessEnforcementKind l = map_option cd_enforcementKind (wt_correctnessDefinition t)"
    using l by (auto simp: workflowResultToCiLockV1_def Let_def throws_bind_Inr_iff)
  have locked: "list_all2 locks_step (er_steps r) (lb_steps l)"
    unfolding steps by (rule locked_steps [OF acc rep])
  then have "list_all (\<lambda>k. ls_outcomeLabel k = ''VERIFIED'') (lb_steps l)
      \<longleftrightarrow> (\<forall>s \<in> set (er_steps r). so_status s = Verified)"
    by (induction rule: list_all2_induct) (simp_all add: locks_step_def step_label_verified)
  moreover have "er_status r = workflow_status_of (er_runLevelReasons r) (er_steps r)"
    using acc by (simp add: accounted_def)
  ultimately have "er_status r = Complete \<longleftrightarrow> lb_runLevelReasonCodes l = [] \<and> lb_steps l \<noteq> []
      \<and> list_all (\<lambda>k. ls_outcomeLabel k = ''VERIFIED'') (lb_steps l)"
    by (simp add: workflow_status_Complete codes steps)
  moreover have "lb_correctnessEnforcementKind l = None \<longleftrightarrow> er_status r = Complete"
    using rep by (simp add: kind report_answers_def)
  ultimately show ?thesis unfolding lock_answers_def using rest locked by blast
qed

lemma lock_of_complete:
  assumes "wt_correctnessDefinition t = None"
  shows "\<exists>l. workflowResultToCiLockV1 h \<lparr>wr_engine = r, wr_truth = t\<rparr> = Inr l"
  by (simp add: workflowResultToCiLockV1_def Let_def assms)

section \<open>Stored results\<close>

lemma with_own_context: "with_context r (Some (er_verificationRunContext r)) = r"
  by (simp add: with_context_def)

lemma stored_reads_back:
  assumes "finalizeEmittedWorkflowResult h r = Inr fr"
  shows "normalizeToEmittedWorkflowResult h (StoredEmitted (wr_engine fr)
      (Some (er_verificationRunContext (wr_engine fr))) version (wr_truth fr)) = Inr fr"
proof -
  have "wr_engine fr = r" using assms by (auto simp: finalizeEmittedWorkflowResult_def throws_bind_Inr_iff)
  then show ?thesis using assms by (simp add: with_own_context)
qed

text \<open>
  C26: what a finished run leaves behind says what the run said. Its emitted result, stored as it is and given
  to a comparison, is accepted and is the same result (the storing of the record as JSON text is not part of
  this); its lock has the run's status and,
  step by step, its sequence number, tool, status, label and codes; the lock is complete exactly when it has
  steps, no run-level code and no label but \<open>VERIFIED\<close>, and it names a correctness requirement exactly when it is
  not. Only a run that is not complete may be without a report or a lock.
\<close>

theorem lock_and_file_of_run:
  assumes "verifyWorkflow h rt lg decode decodeReg database input wid eventsFile registryFile w = Some (Inr r, w')"
  shows "case finalizeEmittedWorkflowResult h r of
      Inl _ \<Rightarrow> er_status r \<noteq> Complete
    | Inr emitted \<Rightarrow>
        normalizeToEmittedWorkflowResult h (StoredEmitted r (Some (er_verificationRunContext r)) version (wr_truth emitted))
          = Inr emitted
        \<and> (case workflowResultToCiLockV1 h emitted of
             Inl _ \<Rightarrow> er_status r \<noteq> Complete | Inr l \<Rightarrow> lock_answers r l)"
proof (cases "buildWorkflowTruthReport h r")
  case (Inl e)
  with report_of_run [OF assms] show ?thesis by (simp add: finalizeEmittedWorkflowResult_def)
next
  case (Inr t)
  let ?e = "\<lparr>wr_engine = r, wr_truth = t\<rparr>"
  have fin: "finalizeEmittedWorkflowResult h r = Inr ?e" by (simp add: finalizeEmittedWorkflowResult_def Inr)
  have rep: "report_answers r t" using report_of_run [OF assms] Inr by simp
  have acc: "accounted r" by (rule verifyWorkflow_accounted [OF assms])
  have "case workflowResultToCiLockV1 h ?e of Inl _ \<Rightarrow> er_status r \<noteq> Complete | Inr l \<Rightarrow> lock_answers r l"
  proof (cases "workflowResultToCiLockV1 h ?e")
    case (Inl e)
    then have "wt_correctnessDefinition t \<noteq> None" using lock_of_complete [of t h r] by auto
    with rep Inl show ?thesis by (simp add: report_answers_def)
  next
    case (Inr l)
    with lock_of_report [OF acc rep Inr] show ?thesis by simp
  qed
  with stored_reads_back [OF fin] fin show ?thesis by simp
qed

lemma lock_and_file_of_run_witness:
  "run_gives (\<lambda>r. \<exists>emitted l. finalizeEmittedWorkflowResult file_host r = Inr emitted
     \<and> workflowResultToCiLockV1 file_host emitted = Inr l \<and> lb_status l = Complete) demo_workflow"
proof -
  obtain r w' where run: "demo_workflow = Some (Inr r, w')" and ok: "er_status r = Complete"
    using demo_workflow_succeeds by (auto simp: run_succeeds_def split: option.splits prod.splits sum.splits)
  from lock_and_file_of_run [OF run [unfolded demo_workflow_def], of 15] ok
  show ?thesis by (auto simp: run run_gives_def lock_answers_def split: sum.splits)
qed

section \<open>Comparing certificates\<close>

text \<open>
  C27: two certificates of one workflow are compared by their trust, lexicographically: the state
  relation, from a mismatch over nothing established to a match, the release-critical verdict, the
  reliance. More trust is an improvement, less is a weakening, and losing an established state is its own
  movement. With equal trust the movement is a drift exactly when one of the run kind and the evidence
  projection changed; when both changed it is called unchanged, with the headline of equal projections, although the
  diff says that the completeness changed. The order in which the collation sorts the keys does not matter.
\<close>

theorem certificates_compared_by_trust:
  "case buildVerificationDiffFromOutcomeCertificates h en digest prior current of
      Inl e \<Rightarrow> err_code e = ''COMPARE_WORKFLOW_ID_MISMATCH'' \<and> oc_workflowId prior \<noteq> oc_workflowId current
    | Inr d \<Rightarrow> oc_workflowId prior = oc_workflowId current
        \<and> vd_postureMovement d = movement_spec prior current
        \<and> vd_headline d = headlineFor (movement_spec prior current)
        \<and> (vd_completenessChanged d \<longleftrightarrow> evidenceProjection prior \<noteq> evidenceProjection current)
        \<and> vd_runKind d = (oc_runKind prior, oc_runKind current, oc_runKind prior \<noteq> oc_runKind current)"
proof (cases "buildVerificationDiffFromOutcomeCertificates h en digest prior current")
  case (Inl e)
  then show ?thesis by (auto simp: buildVerificationDiffFromOutcomeCertificates_def Let_def split: if_splits)
next
  case (Inr d)
  with diff_result [OF Inr] show ?thesis by (simp add: changed_def)
qed

end
