(* ===== verification/Spec2Isabelle.thy ===== *)
theory Spec2Isabelle
  imports CanonicalJson RuntimeProperties QuickClaims PlanClaims StoredClaims
begin

text \<open>
  AgentSkeptic reads the events an agent captured (which tool it called, with which
  parameters), looks each tool up in a registry that says which state its call should have
  left behind, checks that state with read-only queries, and gives one verdict for the run.
  From the verdict it makes a report, a certificate, a trace, comparisons and locks, and it has two
  more ways in: quick verification, which has no registry and guesses it from the database
  catalog, and plan transitions, which check a Git diff against the rules of a plan. This library models
  these paths as HOL functions translated from the TypeScript sources under \<open>src/src\<close>, and proves
  what they promise. Data are records and datatypes named after the source's types, errors are
  values (\<open>js_error + 'a\<close>, and \<open>'a resolve\<close> where the source also returns coded failures),
  effects are state passing over an arbitrary outside world.

  Theories, in the order they build on each other.
  \<^item> \<open>Prelude\<close>: the error monads, the stable sort by a comparator (locale \<open>comparator\<close>).
    \<open>JsValue\<close>: JavaScript values, numbers, strings, property reads and \<open>JSON.stringify\<close>.
    What depends on the JavaScript engine (\<open>String(x)\<close> of a fraction, \<open>localeCompare\<close>,
    \<open>Date.parse\<close>, \<open>JSON.parse\<close>) is a field of the record \<open>host\<close>. Numbers are rationals with NaN and
    infinities, of which the code needs comparisons; the only arithmetic on fractions, the name scores
    of quick verification, is rounded to doubles after every operation.
  \<^item> \<open>JsonPaths\<close> (\<open>jsonPointer.ts\<close>, \<open>quickVerify/flatKeyToJsonPointer.ts\<close>), \<open>CanonicalJson\<close>
    (\<open>canonicalParams.ts\<close>, \<open>quickVerify/canonicalJson.ts\<close>), \<open>Types\<close> (\<open>types.ts\<close>),
    \<open>FailureCatalog\<close> (\<open>failureCatalog.ts\<close>), \<open>ValueVerification\<close> (\<open>valueVerification.ts\<close>).
  \<^item> \<open>ResolveExpectation\<close> (\<open>resolveExpectation.ts\<close>) and \<open>ResolveProperties\<close>: from a registry
    entry and the parameters to a request, or a coded failure; what it returns is well formed.
  \<^item> \<open>SqlText\<close> (\<open>sqlDialect.ts\<close> and the text builders), \<open>Effects\<close> (computations over the
    outside, and what it means that they keep a predicate of it), \<open>EffectEvidence\<close>, \<open>Reconciler\<close>
    (\<open>reconciler.ts\<close>, \<open>sqlConnector.ts\<close>), \<open>RelationalInvariant\<close>, \<open>MultiEffectRollup\<close>,
    \<open>Connections\<close> (\<open>verificationConnections.ts\<close>, \<open>sqlReadBackend.ts\<close>), \<open>StateWitness\<close>:
    one check against the outside and its verdict. Drivers, SDKs and \<open>fetch\<close> are parameters.
  \<^item> \<open>VerificationPolicy\<close>, \<open>PolicyProperties\<close>, \<open>PolicyExecution\<close> (\<open>verificationPolicy.ts\<close>):
    strong and polling execution. The loop is a \<open>partial_function\<close>; the locale
    \<open>polling_clock\<close> is the contract of a clock under which it ends, interpreted on
    \<open>defaultTiming\<close>; \<open>reconcile_context\<close> is the contract of the four reconcilers,
    interpreted on the SQLite context and proved of every opened remote target.
  \<^item> \<open>Diagnostics\<close> (\<open>verificationDiagnostics.ts\<close>, \<open>noStepsMessage.ts\<close>), \<open>EventPlanning\<close> and
    \<open>EventProperties\<close> (\<open>loadEvents.ts\<close>, \<open>planLogicalSteps.ts\<close>,
    \<open>eventSequenceIntegrity.ts\<close>, \<open>verificationRunContext.ts\<close>).
  \<^item> \<open>Pipeline\<close> and \<open>PipelineProperties\<close> (\<open>pipeline.ts\<close>, \<open>aggregate.ts\<close>,
    \<open>toolsRegistryLoad.ts\<close>): steps, runs, \<open>verifyWorkflow\<close>. \<open>RunTermination\<close>: every run
    returns. \<open>ReadOnly\<close>: a run sends only \<open>SELECT\<close>s and the read-only guard.
  \<^item> Why a run failed: \<open>FailureOrigins\<close> (\<open>failureOriginCatalog.ts\<close>, \<open>workflowFailureSignals.ts\<close>),
    \<open>ExecutionPath\<close> (\<open>executionPathFindings.ts\<close>), \<open>FailureAnalysis\<close>, \<open>AnalysisProperties\<close>
    (\<open>failureAnalysis.ts\<close>), \<open>ActionableFailure\<close> and \<open>Remediation\<close> (\<open>actionableFailure.ts\<close>,
    \<open>remediationMessage.ts\<close>), \<open>OperationalDisposition\<close> (\<open>operationalDisposition.ts\<close>: the codes of failed
    commands and the error envelope).
  \<^item> What a run says: \<open>UserPhrases\<close>, \<open>Explanation\<close> (\<open>failureExplanation.ts\<close>), \<open>Correctness\<close>
    (\<open>correctnessDefinition.ts\<close>), \<open>TruthReport\<close> and \<open>ReportProperties\<close> (\<open>workflowTruthReport.ts\<close>),
    \<open>Redaction\<close> (\<open>redactEvidenceString.ts\<close>), \<open>QuickReport\<close> (the report of a quick run and its synthetic
    workflow), \<open>Certificate\<close> and \<open>CertificateProperties\<close> (\<open>outcomeCertificate.ts\<close>,
    \<open>evidenceCompleteness.ts\<close>, \<open>failureSpine.ts\<close>, \<open>trustDecision.ts\<close>).
  \<^item> Several runs: \<open>RunComparison\<close> and \<open>ComparisonProperties\<close> (\<open>runComparison.ts\<close>), \<open>ExecutionTrace\<close> and
    \<open>TraceProperties\<close> (\<open>executionTrace.ts\<close>, \<open>executionTraceDiff.ts\<close>), \<open>VerificationDiff\<close>
    (\<open>certificateVerificationDiff.ts\<close>: twelve steps that are one lexicographic order), \<open>CiGates\<close>
    (\<open>ciLock.ts\<close>, \<open>coverageBudget.ts\<close>, \<open>workflowResultNormalize.ts\<close>) and \<open>StoredClaims\<close>.
  \<^item> The gates inside an agent: \<open>Gate\<close>, \<open>GateProperties\<close>, \<open>RuntimeProperties\<close> (\<open>decisionGate.ts\<close>,
    \<open>langGraphCheckpointTrustGate.ts\<close>).
  \<^item> Quick verification (\<open>src/src/quickVerify\<close>): \<open>QuickIngest\<close> (activity to actions), \<open>EditDistance\<close>
    (the cost of alignments), \<open>QuickScoring\<close> (names to tables), \<open>QuickPlan\<close> (rows and
    references to check), \<open>QuickExport\<close> (registry and replay events), \<open>QuickRun\<close> (\<open>runQuickVerify.ts\<close>),
    \<open>QuickProperties\<close>, \<open>QuickReadOnly\<close>, \<open>QuickEvidence\<close> (the locale \<open>quick_database\<close>, the contract of the
    two databases of a quick run, and the evidence of every unit), \<open>QuickReplay\<close> (what the entries that
    a run exports resolve to), \<open>QuickExamples\<close>, \<open>QuickClaims\<close>.
  \<^item> Plan transitions: \<open>PlanHarvest\<close> (\<open>planTransitionPathHarvest.ts\<close>: the paths a plan cites),
    \<open>PlanTransition\<close> (\<open>planTransition.ts\<close>: rules and the rows of Git), \<open>PlanEvaluation\<close> (rules against
    rows, the engine result), \<open>PlanProperties\<close>, \<open>PlanClaims\<close>.
  \<^item> \<open>Examples\<close>: concrete inputs for the witnesses. The properties that span components are in this
    theory and in those whose name ends in \<open>Claims\<close> and in \<open>RuntimeProperties\<close>.

  Bounds and fuel. The polling loop is the only one that may not end, and its theorems say when it ends. The
  loop that names an exported tool runs on a fuel of the number of names in use, which suffices
  because the names it tries are distinct; every other loop is structural or has a measure. Sequence
  numbers are unbounded integers: the event schema admits non-negative integers only, and the code does no
  arithmetic on them but a subtraction in a comparator.

  Characters. A string is a list of the characters below 256; the comparison of code units is that of
  their codes. The few characters of the sources beyond them stand for unused codes: the dashes 0x96 and 0x97,
  the apostrophe 0x92, the ellipsis 0x85, the arrow 0x1A and the byte order mark 0x8F.

  Simplifications. The promises of a \<open>Promise.all\<close> run one after the other, in the order of their list:
  interleavings of their queries are not modelled. A stored result is the record that was stored, for its
  JSON text is not modelled: what printing and parsing that text changes (a member that is \<open>undefined\<close>
  and is left out, a negative zero) cannot make the stored and the recomputed report differ here.

  Not modelled. Parsers and validators of the packages (\<open>JSON.parse\<close>, YAML, AJV schemas, picomatch), SHA-256,
  signatures and the drivers are parameters. The command line (\<open>cli.ts\<close>, \<open>cliArgv.ts\<close> and the commands
  under \<open>bootstrap\<close>, \<open>crossing\<close>, \<open>loop\<close>, \<open>assurance\<close>) reads arguments and files, calls what is
  modelled here and prints; run bundles, receipts and evidence bundles are directories of files with digests
  and signatures; enforcement, licences, telemetry and the SDK are HTTP clients of the hosted service; the debug
  server shows stored runs; the web site, the GitHub action, the scripts and the Python port are programs of
  their own.
\<close>

section \<open>The run\<close>

text \<open>
  C1: a finished \<open>verifyWorkflow\<close> reports \<open>complete\<close> exactly when no line of the events file
  was malformed, the workflow has tool observations, and every step is verified; and its
  steps answer the planned logical steps one by one: same sequence number, tool and
  repeat count, the tool's release-critical flag, a failure diagnostic exactly when the
  step is not verified, and a divergent step never verified.
\<close>

theorem run_verdict:
  assumes "verifyWorkflow h rt lg decode decodeReg database input wid (Inr raw) registryFile w = Some (Inr r, w')"
  shows "(er_status r = Complete \<longleftrightarrow> ld_malformedEventLineCount (load_text h decode wid raw) = 0
      \<and> ld_events (load_text h decode wid raw) \<noteq> [] \<and> list_all (\<lambda>s. so_status s = Verified) (er_steps r))
    \<and> (\<exists>reg. loadToolsRegistry h decodeReg registryFile = Inr reg
      \<and> list_all2 (outcome_of_plan reg) (planLogicalSteps h (ld_events (load_text h decode wid raw))) (er_steps r))"
  using verifyWorkflow_verdict [OF assms] by blast

lemma run_verdict_witness: "\<exists>r w'. demo_workflow = Some (Inr r, w') \<and> er_status r = Complete
    \<and> (\<exists>reg. list_all2 (outcome_of_plan reg)
          (planLogicalSteps file_host (ld_events (load_text file_host demo_decode ''w'' ''event''))) (er_steps r))"
proof -
  obtain r w' where run: "demo_workflow = Some (Inr r, w')" and ok: "er_status r = Complete"
    using demo_workflow_succeeds by (auto simp: run_succeeds_def split: option.splits prod.splits sum.splits)
  from run_verdict [OF run [unfolded demo_workflow_def]] run ok show ?thesis by blast
qed

text \<open>
  C2: \<open>verifyWorkflow\<close> always comes back. Over the program's own clock (\<open>Date.now\<close> and
  \<open>setTimeout\<close>, each timer arbitrarily late), with connections that do not turn the clock
  back, every run ends in a result or an exception, whatever the policy and the files;
  no polling loop runs forever.
\<close>

theorem workflow_always_returns:
  assumes "clock_forward h rt" and "rt_timing rt = defaultTiming"
  shows "\<exists>res w'. verifyWorkflow h rt lg decode decodeReg database input wid eventsFile registryFile w = Some (res, w')"
  using workflow_returns [OF assms] by (auto simp: pio_total_def)

lemma workflow_always_returns_witness:
  "\<exists>res w'. verifyWorkflow file_host clock_runtime (\<lambda>l. io_return ()) demo_decode (\<lambda>v. Inr [demo_entry])
     (VerificationDatabase DbSqlite ''app.db'') (Some (PolicyEventual (num_of_int 50) (num_of_int 10))) ''w''
     (Inr ''event'') (Inr ''registry'') demo_world = Some (res, w')"
  by (rule workflow_always_returns [OF clock_runtime_forward]) (simp add: clock_runtime_def)

text \<open>
  C4: read-only. A predicate of the outside that every \<open>SELECT\<close> (and, on Postgres, the
  session guard), connecting, closing, reading a state witness and logging preserve holds
  after a whole run if it held before: the program sends no other statement.
\<close>

theorem run_is_read_only:
  assumes "verifyWorkflow h rt lg decode decodeReg database input wid eventsFile registryFile w = Some (res, w')"
    and "\<forall>l. keeps I (lg l)" and "runtime_keeps I rt" and "I w"
  shows "I w'"
  using pio_keeps_verifyWorkflow [of I lg rt] assms unfolding pio_keeps_def by blast

lemma run_is_read_only_witness:
  "\<exists>res sent. logged_workflow = Some (res, sent) \<and> length sent = 1 \<and> list_all is_select sent"
proof -
  have "(case logged_workflow of Some (_, sent) \<Rightarrow> length sent = 1 | None \<Rightarrow> False)" by code_simp
  then obtain res sent where run: "logged_workflow = Some (res, sent)" and one: "length sent = 1"
    by (auto split: option.splits)
  have "list_all is_select sent"
    by (rule run_is_read_only [OF run [unfolded logged_workflow_def]])
      (simp_all add: keeps_return runtime_on_keeps logging_db_keeps)
  with run one show ?thesis by blast
qed

section \<open>Executing one request\<close>

text \<open>
  C7: the polling executors over the program's clock. For any reconciliation context that
  answers coherently and never turns the clock back, an execution under an eventual policy
  returns; its output is a settled verdict, or it is uncertain, reports the number of
  attempts \<open>k\<close> and the elapsed time, that time covers the window, and \<open>k - 2\<close> full waits
  fit strictly inside it.
\<close>

theorem eventual_execution_settles_or_gives_up:
  assumes "reconcile_context ctx" and "turns_no_clock_back ctx" and "1 \<le> d" and "d \<le> wnd"
  shows "\<exists>res w'. executeVerificationWithPolicyAsync rd (PolicyEventual (num_of_int wnd) (num_of_int d)) ctx
      defaultTiming w = Some (res, w') \<and>
    (\<forall>out. res = Inr out \<longrightarrow> settled out
        \<or> (\<exists>k e. gave_up k e out \<and> wnd \<le> e \<and> (int k - 2) * timer_wait d < wnd))"
proof -
  let ?p = "PolicyEventual (num_of_int wnd) (num_of_int d)"
  have "resolveVerificationPolicyInput (Some ?p) = Inr ?p"
    unfolding resolve_policy_ok using assms(3,4) by auto
  moreover have "\<exists>res w'. eventual_async rd ?p ctx defaultTiming w = Some (res, w') \<and>
     (\<forall>out. res = Inr out \<longrightarrow> settled out
        \<or> (\<exists>k e. gave_up k e out \<and> wnd \<le> e \<and> (int k - 2) * timer_wait d < wnd))"
    by (rule eventual_settles [OF assms(1,2) _ _ assms(3,4)]) simp_all
  ultimately show ?thesis by (simp add: executeVerificationWithPolicyAsync_def)
qed

lemma eventual_execution_settles_or_gives_up_witness:
  "\<exists>res w'. executeVerificationWithPolicyAsync (RdSqlRow demo_request) (PolicyEventual (num_of_int 50) (num_of_int 10))
      (createSqlitePolicyContext demo_host (const_db [])) defaultTiming demo_world = Some (res, w')"
  using eventual_execution_settles_or_gives_up
    [OF sqlite_ctx.reconcile_context_axioms const_db_clock, of 10 50 "RdSqlRow demo_request" demo_host "[]" demo_world]
  by auto

text \<open>
  C8: the two entry points on a SQLite file under a strong policy. For a well-formed SQL request the
  asynchronous execution over \<open>createSqlitePolicyContext\<close> is the synchronous one: same output or exception,
  same queries in the same order. For a state witness both refuse without touching the database, with
  the same status and code; but their messages and evidence differ.
\<close>

theorem sync_and_async_agree:
  assumes "wf_resolved rd" and "is_strong pol"
  shows "case rd of
      RdWitness x \<Rightarrow> (\<exists>a b. executeVerificationWithPolicyAsync rd pol (createSqlitePolicyContext h db) tm w = Some (Inr a, w)
        \<and> executeVerificationWithPolicySync h db rd pol w = (Inr b, w)
        \<and> po_request a = po_request b \<and> po_status a = IncompleteVerification \<and> po_status b = IncompleteVerification
        \<and> map rs_code (po_reasons a) = map rs_code (po_reasons b)
        \<and> map rs_message (po_reasons a) \<noteq> map rs_message (po_reasons b) \<and> po_evidence a \<noteq> po_evidence b)
    | _ \<Rightarrow> executeVerificationWithPolicyAsync rd pol (createSqlitePolicyContext h db) tm w
        = Some (executeVerificationWithPolicySync h db rd pol w)"
proof -
  have pol: "resolveVerificationPolicyInput (Some pol) = Inr (normalizeVerificationPolicy pol)"
    using assms(2) by (cases pol) (simp_all add: resolve_policy_ok)
  show ?thesis
  proof (cases "is_witness rd")
    case True
    then obtain x where rd: "rd = RdWitness x" by (cases rd) simp_all
    show ?thesis
      using pol assms(2) unfolding rd
      by (simp add: executeVerificationWithPolicyAsync_def executeVerificationWithPolicySync_def io_bind_def
          io_with_request_def createSqlitePolicyContext_def witness_in_file_mode_def with_request_def mk_reason_def)
  next
    case False
    have "executeVerificationWithPolicyAsync rd pol (createSqlitePolicyContext h db) tm w
        = Some (executeVerificationWithPolicySync h db rd pol w)"
      using assms False pol strong_sync_async [of rd h db]
      by (simp add: executeVerificationWithPolicyAsync_def executeVerificationWithPolicySync_def io_bind_def)
    with False show ?thesis by (cases rd) simp_all
  qed
qed

lemma sync_and_async_agree_witness:
  "executeVerificationWithPolicyAsync (RdSqlRow demo_request) DEFAULT_VERIFICATION_POLICY
      (createSqlitePolicyContext demo_host (logging_db [ann_row])) (rt_timing (runtime_on (logging_db []))) []
     = Some (executeVerificationWithPolicySync demo_host (logging_db [ann_row]) (RdSqlRow demo_request)
         DEFAULT_VERIFICATION_POLICY [])"
proof -
  have "is_strong DEFAULT_VERIFICATION_POLICY" by (simp add: DEFAULT_VERIFICATION_POLICY_def)
  from sync_and_async_agree [OF resolved_wf [OF demo_resolved] this] show ?thesis by simp
qed

section \<open>Verdicts\<close>

text \<open>
  C9: when a row is verified. \<open>reconcileFromRows\<close> answers \<open>verified\<close> exactly when the
  query returned one row and every required field holds of it: the lower-cased column is
  there, its value is a scalar or a date, and it matches the expected scalar.
\<close>

theorem row_verified_iff:
  "ro_status (reconcileFromRows h rows req) = Verified \<longleftrightarrow>
     (\<exists>row. rows = [row] \<and> list_all (field_holds h row) (rq_requiredFields req))"
  by (rule reconcileFromRows_verified)

text \<open>
  When a relational check is verified: there is a result row whose scalar reads as a
  number, and the number is 1 for an existence check, 0 for an anti-join, and in the
  expected relation to the expected value for an aggregate or a join count.
\<close>

theorem relational_verified_iff:
  "ro_status (reconcileRelationalRow h ro c) = Verified \<longleftrightarrow>
     (\<exists>r n. ro = Some r \<and> scalar_expected c n
        \<and> normalizeNumericActual (js_coalesce (get_prop (VObj r) ''v'') (get_prop (VObj r) ''V'')) = Some n)"
  by (rule reconcileRelationalRow_verified)

text \<open>
  When an HTTP witness is verified: the request completed with the expected status and
  a readable body and, when there are assertions, the body is a JSON object or array of
  which every assertion's pointer reads a matching scalar.
\<close>

theorem http_witness_verified_iff:
  "(\<exists>out. reconcileHttpWitness h env req w = (Inr out, w') \<and> ro_status out = Verified) \<longleftrightarrow>
     (\<exists>r text. we_fetch env (http_call_of req) 8000 w = (Inr r, w') \<and> hr_text r = Inr text
        \<and> num_eq (num_of_int (hr_status r)) (hq_expectedStatus req)
        \<and> (case hq_assertions req of None \<Rightarrow> True | Some as \<Rightarrow> as = [] \<or> is_object (parse_or_text h text)
             \<and> list_all (\<lambda>(p, v). \<exists>act. getPointer (parse_or_text h text) (assertion_pointer p) = Inr act
                  \<and> scalars_match h v act) as))"
proof -
  have eq: "(\<exists>out. reconcileHttpWitness h env req w = (Inr out, w') \<and> ro_status out = Verified) \<longleftrightarrow>
      (\<exists>r out. we_fetch env (http_call_of req) 8000 w = (Inr r, w') \<and> http_verdict h req r = Inr out
         \<and> ro_status out = Verified)"
    by (auto simp: reconcileHttpWitness_def fetchWithDeadline_def io_catch_def io_bind_def
        split: prod.splits sum.splits)
  show ?thesis
    unfolding eq http_verdict_verified check_assertions_None
    by (cases "hq_assertions req") (auto simp: list_all_iff)
qed

text \<open>
  C10: every reconciliation of a row, of an absence, of a relational check over a driver,
  and of a state witness gives a coherent output whatever the database or service does:
  a status a single check can have, one reason exactly when it is not verified, and a
  known code when the verification is incomplete.
\<close>

theorem reconciliations_coherent:
  "returns coherent_output (reconcileSqlRow h db req)
   \<and> returns coherent_output (reconcileSqlRowAsync h b req)
   \<and> returns coherent_output (reconcileSqlRowAbsent h db areq)
   \<and> returns coherent_output (executeRowAbsentRemote h d q areq)
   \<and> returns coherent_output (reconcileRelationalSqlite h db c)
   \<and> returns coherent_output (reconcileRelationalQuery h d q c)
   \<and> returns coherent_output (reconcileStateWitness h env wreq)"
  by (simp add: returns_reconcileSqlRow reconcileSqlRowAsync_coherent reconcileSqlRowAbsent_total
      executeRowAbsentRemote_total reconcileRelationalSqlite_def reconcileRelationalQuery_def
      returns_run_relational witness_returns)

text \<open>
  C11: no failure of a database, driver or service escapes: a row or absence check on
  SQLite, an absence check on a driver and a state witness never throw, and neither does a
  relational check that the resolver produced.
\<close>

theorem reconciliations_never_throw:
  assumes "wf_check c"
  shows "never_throws (reconcileSqlRow h db req) \<and> never_throws (reconcileSqlRowAbsent h db areq)
    \<and> never_throws (executeRowAbsentRemote h d q areq) \<and> never_throws (reconcileRelationalSqlite h db c)
    \<and> never_throws (reconcileRelationalQuery h d q c) \<and> never_throws (reconcileStateWitness h env wreq)"
  using assms by (auto simp: reconcileSqlRow_never_throws reconcileSqlRowAbsent_total
      executeRowAbsentRemote_total reconcileRelationalSqlite_def reconcileRelationalQuery_def
      witness_returns intro: run_relational_never_throws wf_check_has_sql)

lemma reconciliations_never_throw_witness:
  "never_throws (reconcileRelationalSqlite demo_host (const_db []) (RelatedExists
     \<lparr>rx_id = ''r'', rx_childTable = ''c'', rx_matchEq = [\<lparr>ip_column = ''id'', ip_value = ''7''\<rparr>]\<rparr>))"
  by (rule reconciliations_never_throw [THEN conjunct2, THEN conjunct2, THEN conjunct2, THEN conjunct1])
    code_simp

section \<open>Resolving a request\<close>

text \<open>
  C12: what the resolver gives is well formed: every table and column is an identifier,
  equality columns are strictly sorted by name (so distinct), a filter shares no column
  with the identity, effect and check ids are strictly sorted, expected numbers are finite.
\<close>

theorem resolver_output_well_formed:
  assumes "resolveVerificationRequest h entry params target = ROk rd"
  shows "wf_resolved rd"
  using assms by (rule resolved_wf)

lemma resolver_output_well_formed_witness: "wf_resolved (RdSqlRow demo_request)"
  by (rule resolver_output_well_formed [OF demo_resolved])

text \<open>
  C13: every failure of the resolver carries a code of \<open>RESOLVE_FAILURE_CODES\<close>, so the step
  it fails is always classified (as a set-up failure), never an unreachable mapping.
\<close>

theorem resolver_failure_is_classified:
  assumes "resolveVerificationRequest h entry params target = RFail code msg"
  shows "code \<in> set RESOLVE_FAILURE_CODES
    \<and> failureDiagnosticForStep IncompleteVerification [mk_reason code msg] = Inr (Some VerificationSetup)"
proof -
  have "code \<in> set RESOLVE_FAILURE_CODES"
    using coded_resolveVerificationRequest [of h entry params target] assms by (auto simp: coded_def)
  then show ?thesis
    by (auto simp: RESOLVE_FAILURE_CODES_def failureDiagnosticForIncompleteVerification_def Let_def)
qed

lemma resolver_failure_is_classified_witness:
  "failureDiagnosticForStep IncompleteVerification
      [mk_reason ''REQUIRED_FIELDS_POINTER_MISSING'' ''requiredFields missing at /f'']
     = Inr (Some VerificationSetup)"
proof -
  have "resolveVerificationRequest demo_host demo_entry (VObj [(''id'', VStr ''7'')]) None
      = RFail ''REQUIRED_FIELDS_POINTER_MISSING'' ''requiredFields missing at /f''"
    by code_simp
  from resolver_failure_is_classified [OF this] show ?thesis by simp
qed

text \<open>
  The registry is a map exactly when its tool ids are distinct; then it looks a tool up
  as the first (and only) entry of that id, and otherwise it is refused with the duplicate's code.
\<close>

theorem registry_map_iff_distinct:
  "(case buildRegistryMap es of
      Inr reg \<Rightarrow> distinct (map re_toolId es) \<and> reg = map_of (map (\<lambda>e. (re_toolId e, e)) es)
    | Inl e \<Rightarrow> \<not> distinct (map re_toolId es) \<and> err_code e = ''REGISTRY_DUPLICATE_TOOL_ID'')"
proof (cases "buildRegistryMap es")
  case (Inr reg)
  with registry_from_ok [of Map.empty es reg] show ?thesis by (simp add: buildRegistryMap_def)
next
  case (Inl e)
  moreover have "registry_from m es = Inl e \<Longrightarrow> err_code e = ''REGISTRY_DUPLICATE_TOOL_ID''" for m
    by (induction m es rule: registry_from.induct) (auto split: if_splits)
  ultimately show ?thesis
    using registry_from_total [of es Map.empty] by (auto simp: buildRegistryMap_def)
qed

text \<open>
  C14: which policies are accepted: a strong one always, a polling one exactly when its
  window and interval are integers with \<open>1 \<le> interval \<le> window\<close> (and its staleness an integer
  of at least 1); the accepted policy is the normalized one, and a refusal always has the
  code \<open>VERIFICATION_POLICY_INVALID\<close>.
\<close>

theorem policy_accepted_iff:
  "(case resolveVerificationPolicyInput (Some p) of
      Inr q \<Rightarrow> policy_ok p \<and> q = normalizeVerificationPolicy p
    | Inl e \<Rightarrow> \<not> policy_ok p \<and> err_code e = ''VERIFICATION_POLICY_INVALID'')"
proof (cases "resolveVerificationPolicyInput (Some p)")
  case (Inl e)
  with resolve_policy_ok [of p "normalizeVerificationPolicy p"] show ?thesis
    by (simp add: resolve_policy_error_code)
next
  case (Inr q)
  with resolve_policy_ok [of p q] show ?thesis by simp
qed

section \<open>Events\<close>

text \<open>
  C15: planning. The sort and the grouping of \<open>planLogicalSteps\<close> give exactly one step per
  sequence number that occurs, in ascending order, and its observations are the events of
  that number in capture order, the last one decisive.
\<close>

theorem plan_is_one_step_per_seq:
  "planLogicalSteps h events =
     map (\<lambda>s. build_plan h s (filter (\<lambda>e. te_seq e = s) events)) (sorted_list_of_set (te_seq ` set events))"
  using plan_is_spec [of h events] by (simp add: plan_spec_def)

text \<open>
  A step is divergent exactly when one of its observations differs from the last one in
  tool or in canonical parameters.
\<close>

theorem divergent_iff_some_observation_differs:
  "list_all (\<lambda>p. lp_divergent p \<longleftrightarrow>
     \<not> list_all (\<lambda>e. te_toolId e = te_toolId (lp_last p)
         \<and> canonicalJsonForParams h (te_params e) = canonicalJsonForParams h (te_params (lp_last p)))
       (filter (\<lambda>e. te_seq e = lp_seq p) events))
     (planLogicalSteps h events)"
proof -
  have "lp_divergent p \<longleftrightarrow> (\<exists>e \<in> set (filter (\<lambda>e. te_seq e = lp_seq p) events).
      \<not> observationsMatchForDivergence h e (lp_last p))" if "p \<in> set (planLogicalSteps h events)" for p
    using plan_member(1,5) [OF that] by simp
  then show ?thesis
    by (auto simp: list_all_iff observationsMatchForDivergence_def)
qed

text \<open>
  The integrity analysis answers \<open>normal\<close> exactly when the sequence numbers are
  non-decreasing in capture order and, once sorted by them, no two adjacent events have
  timestamps that decrease.
\<close>

theorem integrity_normal_exactly:
  "analyzeEventSequenceIntegrity h evs = IntegrityNormal \<longleftrightarrow>
     sorted (map te_seq evs) \<and>
     list_all (\<lambda>i. \<not> timestamp_drop h (stableSortEventsBySeq evs ! i) (stableSortEventsBySeq evs ! Suc i))
       [0..<length evs - 1]"
proof -
  have len: "length (stableSortEventsBySeq evs) = length evs"
    using mset_eq_length [OF mset_stableSort] .
  have "(\<forall>i. Suc i < length evs \<longrightarrow> P i) \<longleftrightarrow> list_all P [0..<length evs - 1]" for P
    by (auto simp: list_all_iff)
  then show ?thesis by (simp add: integrity_normal_iff Let_def len)
qed

text \<open>
  C16: loading accounts for every line: each non-blank line is either malformed (and gives
  one run-level reason) or a schema-valid event; the events to verify are the workflow's
  tool observations, stably sorted by sequence number, and the counter counts them.
\<close>

theorem loading_accounts_for_every_line:
  "ec_nonEmptyLines (ld_counts (load_text h decode wid raw))
     = ld_malformedEventLineCount (load_text h decode wid raw) + ec_schemaValidEvents (ld_counts (load_text h decode wid raw))
   \<and> ld_runLevelReasons (load_text h decode wid raw)
     = replicate (ld_malformedEventLineCount (load_text h decode wid raw)) (runLevelIssue MALFORMED_EVENT_LINE)
   \<and> ld_events (load_text h decode wid raw)
     = stableSortEventsBySeq (List.map_filter as_tool_observed (ld_runEvents (load_text h decode wid raw)))
   \<and> ec_toolObservedRequested (ld_counts (load_text h decode wid raw)) = length (ld_events (load_text h decode wid raw))
   \<and> list_all (\<lambda>e. event_workflowId e = wid) (ld_runEvents (load_text h decode wid raw))"
  using load_text_accounts [of h decode wid raw] by (simp add: list_all_iff)

text \<open>
  The context digest: \<open>maxWireSchemaVersion\<close> is the version of the last event that is
  not of version 1 (so not the maximum), and the ingest index stored under a sequence
  number is the position of its last observation.
\<close>

theorem context_digest:
  "rc_maxWireSchemaVersion (buildVerificationRunContext evs)
     = (case filter (\<lambda>e. event_schemaVersion e \<noteq> 1) evs of [] \<Rightarrow> 1 | fs \<Rightarrow> event_schemaVersion (last fs))
   \<and> rc_toolObservedIngestIndexBySeq (buildVerificationRunContext evs) (int_str s) = last_index evs s"
  by (simp add: context_wire_last context_index)

section \<open>Values, pointers and SQL text\<close>

text \<open>
  C17: pointers round-trip. Encoding any list of keys as an RFC 6901 pointer and reading it
  walks exactly those keys, whatever \<open>~\<close> and \<open>/\<close> they contain.
\<close>

theorem pointer_round_trip:
  "getPointer doc (pointer_of path) = Inr (walk_pointer doc path)"
proof (cases path)
  case Nil
  then show ?thesis by (simp add: pointer_of_def getPointer_def)
next
  case (Cons k ks)
  then show ?thesis by (intro getPointer_pointer_of) simp
qed

text \<open>
  The canonical form of parameters ignores the order in which an object lists its
  members, at any depth.
\<close>

theorem canonical_form_ignores_member_order:
  assumes "json_equiv a b"
  shows "canonicalJsonForParams h a = canonicalJsonForParams h b"
  using assms by (rule canonical_of_equiv)

lemma canonical_form_ignores_member_order_witness:
  "canonicalJsonForParams demo_host (VObj [(''b'', VNull), (''a'', VBool True)])
     = canonicalJsonForParams demo_host (VObj [(''a'', VBool True), (''b'', VNull)])"
proof (rule canonical_form_ignores_member_order)
  show "json_equiv (VObj [(''b'', VNull), (''a'', VBool True)]) (VObj [(''a'', VBool True), (''b'', VNull)])"
    by (rule je_obj [where kvs'' = "[(''a'', VBool True), (''b'', VNull)]"])
      (auto intro: je_refl simp: rel_prod_sel)
qed

text \<open>
  A scalar of the registry matches itself as a database value, unless it is a number
  that is not finite; and leading or trailing white space of an expected string is ignored.
\<close>

theorem scalar_matches_itself:
  "scalars_match h e (scalar_val e) \<longleftrightarrow> (case e of SNum n \<Rightarrow> num_is_finite n | _ \<Rightarrow> True)"
  by (auto simp: scalars_match_refl simp del: scalar_val.simps split: scalar.split)

definition row_statements_quoted :: "row_request \<Rightarrow> bool" where
  "row_statements_quoted r \<longleftrightarrow> row_quoted Sqlite r (buildSelectByIdentitySqlSqlite r)
     \<and> row_quoted Postgresql r (buildSelectByIdentitySqlPostgres r) \<and> row_quoted Mysql r (buildSelectByIdentitySqlMysql r)"

lemma wf_statements_quoted: "wf_row_request r \<Longrightarrow> row_statements_quoted r"
  using wf_row_quoted
  by (simp add: row_statements_quoted_def buildSelectByIdentitySqlSqlite_def buildSelectByIdentitySqlPostgres_def
      buildSelectByIdentitySqlMysql_def)

text \<open>
  C18: the statements of a row check cannot be broken out of. Whatever the registry and the parameters,
  when a request for a row or for several effects resolves, its statement on SQLite, PostgreSQL and MySQL,
  and for the absence of a row the statements in every dialect, are the fixed text with each table and column
  between the quotes of the dialect exactly as it is, over letters, digits and underscores only, so without
  quote or backslash, and with a placeholder for each value; the values are passed apart, in the order of the
  placeholders.
\<close>

theorem statements_quote_verbatim:
  assumes "resolveVerificationRequest h entry params target = ROk rd"
  shows "case rd of
      RdSqlRow r \<Rightarrow> row_statements_quoted r
    | RdSqlEffects es \<Rightarrow> list_all (\<lambda>e. row_statements_quoted (ef_request e)) es
    | RdSqlRowAbsent a \<Rightarrow> absence_quoted d a
    | _ \<Rightarrow> True"
  using resolved_wf [OF assms] wf_statements_quoted wf_absence_quoted
  by (cases rd) (auto simp: list_all_iff)

lemma statements_quote_verbatim_witness: "row_statements_quoted demo_request"
  using statements_quote_verbatim [OF demo_resolved] by simp

text \<open>
  The statements never contain a value: requests that agree up to the values they
  compare with have the same texts, and the values are passed apart, in order.
\<close>

theorem sql_text_has_no_values:
  assumes "rq_table r1 = rq_table r2" and "map ip_column (rq_identityEq r1) = map ip_column (rq_identityEq r2)"
    and "aq_table a1 = aq_table a2" and "map ip_column (aq_identityEq a1 @ aq_filterEq a1) = map ip_column (aq_identityEq a2 @ aq_filterEq a2)"
  shows "fst (buildSelectByIdentitySql d r1) = fst (buildSelectByIdentitySql d r2)
    \<and> pl_countSql (buildRowAbsentSqlPlan d a1) = pl_countSql (buildRowAbsentSqlPlan d a2)
    \<and> pl_sampleSql (buildRowAbsentSqlPlan d a1) = pl_sampleSql (buildRowAbsentSqlPlan d a2)
    \<and> snd (buildSelectByIdentitySql d r1) = map ip_value (rq_identityEq r1)
    \<and> pl_values (buildRowAbsentSqlPlan d a1) = map ip_value (aq_identityEq a1 @ aq_filterEq a1)"
  using assms eq_conds_columns [OF assms(2)] eq_conds_columns [OF assms(4)]
  by (simp add: buildSelectByIdentitySql_def buildRowAbsentSqlPlan_def Let_def del: map_append)

lemma sql_text_has_no_values_witness:
  "fst (buildSelectByIdentitySql Postgresql demo_request)
     = fst (buildSelectByIdentitySql Postgresql
         (demo_request\<lparr>rq_identityEq := [\<lparr>ip_column = ''id'', ip_value = ''1 OR 1=1''\<rparr>]\<rparr>))"
  by (rule sql_text_has_no_values
      [of _ _ "\<lparr>aq_table = ''c'', aq_identityEq = [], aq_filterEq = []\<rparr>", OF _ _ refl refl, THEN conjunct1])
    (simp_all add: demo_request_def)

text \<open>
  Messages are bounded: an operational message has at most 2048 characters.
\<close>

theorem operational_message_bound: "length (formatOperationalMessage s) \<le> 2048"
  using formatOperationalMessage_length [of s] by (simp add: OPERATIONAL_MESSAGE_MAX_CHARS_def)

section \<open>Several effects, and the connections\<close>

text \<open>
  The status of a multi-effect step is a function of the multiset of its effects'
  statuses: incomplete if one is, verified if all are, inconsistent if none is, partially
  verified otherwise; it does not depend on the order in which the effects are listed.
\<close>

theorem rollup_of_effects:
  assumes "length recs = length effects"
  shows "po_status (rollupMultiEffectsFromReconciledRows (zip effects recs)) =
     (if list_ex (\<lambda>r. ro_status r = IncompleteVerification) recs then IncompleteVerification
      else if list_all (\<lambda>r. ro_status r = Verified) recs then Verified
      else if list_ex (\<lambda>r. ro_status r = Verified) recs then PartiallyVerified else Inconsistent)"
proof -
  have mem: "x \<in> set (map ro_status recs) \<longleftrightarrow> list_ex (\<lambda>r. ro_status r = x) recs" for x
    by (auto simp: list_ex_iff)
  have all: "(\<forall>x \<in> set (map ro_status recs). x = Verified) \<longleftrightarrow> list_all (\<lambda>r. ro_status r = Verified) recs"
    by (simp add: list_all_iff)
  show ?thesis
    unfolding rollup_effects_status [OF assms] rollup_spec_def mem all by (simp split: if_split)
qed

lemma rollup_of_effects_witness:
  "po_status (rollupMultiEffectsFromReconciledRows
     [(\<lparr>ef_id = ''a'', ef_request = demo_request\<rparr>, mk_output Verified [] []),
      (\<lparr>ef_id = ''b'', ef_request = demo_request\<rparr>, mk_output Missing [mk_reason ''ROW_ABSENT'' ''m''] [])])
     = PartiallyVerified"
  using rollup_of_effects [of "[mk_output Verified [] [], mk_output Missing [mk_reason ''ROW_ABSENT'' ''m''] []]"
      "[\<lparr>ef_id = ''a'', ef_request = demo_request\<rparr>, \<lparr>ef_id = ''b'', ef_request = demo_request\<rparr>]"]
  by simp

text \<open>
  No Postgres client is used before its session is read-only: a connection that
  succeeds has connected, run the guard and probed, in this order, on that client.
\<close>

theorem postgres_session_is_guarded:
  assumes "connectPostgresVerificationClient dr s w = (Inr c, w')"
  shows "\<exists>w1 w2 r1 r2. cl_connect c w = (Inr (), w1)
    \<and> cl_query c ''SET SESSION CHARACTERISTICS AS TRANSACTION READ ONLY'' [] w1 = (Inr r1, w2)
    \<and> cl_query c ''SELECT 1'' [] w2 = (Inr r2, w') \<and> c = dr_pgClient dr s"
  using connect_runs_guard [OF assms] by (simp add: READ_ONLY_GUARD_def)

lemma postgres_session_is_guarded_witness:
  "\<exists>w1. cl_connect (demo_client :: unit client) () = (Inr (), w1)"
proof -
  have "connectPostgresVerificationClient (demo_drivers :: unit drivers) ''url'' () = (Inr demo_client, ())"
    by (simp add: connectPostgresVerificationClient_def demo_drivers_def demo_client_def io_bind_def
        io_catch_def applyPostgresVerificationSessionGuards_def)
  from postgres_session_is_guarded [OF this] show ?thesis by blast
qed

text \<open>
  C21: metadata is compared by one provider only: the verdict of a Weaviate or Chroma check
  is the same whatever metadata the registry asks for.
\<close>

theorem vector_metadata_ignored:
  assumes "vq_provider req \<noteq> Pinecone"
  shows "reconcileVectorDocument h env (req\<lparr>vq_metadataSubset := m\<rparr>) = reconcileVectorDocument h env req"
proof -
  have doc: "vq_documentId (req\<lparr>vq_metadataSubset := m\<rparr>) = vq_documentId req"
    "vq_indexName (req\<lparr>vq_metadataSubset := m\<rparr>) = vq_indexName req"
    "vq_provider (req\<lparr>vq_metadataSubset := m\<rparr>) = vq_provider req"
    "vq_host (req\<lparr>vq_metadataSubset := m\<rparr>) = vq_host req"
    "vq_expectPayloadSha256 (req\<lparr>vq_metadataSubset := m\<rparr>) = vq_expectPayloadSha256 req" by simp_all
  have chroma: "chroma_verdict h (req\<lparr>vq_metadataSubset := m\<rparr>) = chroma_verdict h req"
    unfolding chroma_verdict_def doc by (rule refl)
  have provider: "query_provider h env (req\<lparr>vq_metadataSubset := m\<rparr>) base key = query_provider h env req base key" for base key
    using assms unfolding query_provider_def weaviate_call_def chroma_call_def chroma doc
    by (cases "vq_provider req") simp_all
  show ?thesis unfolding reconcileVectorDocument_def doc provider by (rule refl)
qed

lemma vector_metadata_ignored_witness:
  "reconcileVectorDocument demo_host (demo_env :: unit witness_env)
      \<lparr>vq_provider = Weaviate, vq_documentId = ''d'', vq_indexName = ''i'', vq_namespace = None, vq_host = None,
       vq_metadataSubset = Some [(''k'', SBool True)], vq_expectPayloadSha256 = None\<rparr>
   = reconcileVectorDocument demo_host demo_env
      \<lparr>vq_provider = Weaviate, vq_documentId = ''d'', vq_indexName = ''i'', vq_namespace = None, vq_host = None,
       vq_metadataSubset = None, vq_expectPayloadSha256 = None\<rparr>"
  using vector_metadata_ignored [of "\<lparr>vq_provider = Weaviate, vq_documentId = ''d'', vq_indexName = ''i'',
      vq_namespace = None, vq_host = None, vq_metadataSubset = None, vq_expectPayloadSha256 = None\<rparr>"]
  by simp

section \<open>Reporting a run\<close>

text \<open>
  C23: every finished run gets its report, unless its policy is bounded and it did not complete:
  then building the report throws the invariant error of the explanation, whatever failed. A
  report that is built has an analysis, an explanation and a correctness definition exactly when
  the run is not complete, its trust line starts with \<open>TRUSTED\<close> exactly when it is, its steps
  answer the engine's one by one, and the remediation of the definition is that of the analysis.
\<close>

theorem report_unless_bounded:
  assumes "verifyWorkflow h rt lg decode decodeReg database input wid eventsFile registryFile w = Some (Inr r, w')"
  shows "case buildWorkflowTruthReport h r of
      Inr t \<Rightarrow> report_answers r t \<and> (er_status r = Complete \<or> \<not> is_bounded (er_verificationPolicy r))
    | Inl e \<Rightarrow> e = policy_invalid_for_explanation \<and> er_status r \<noteq> Complete
        \<and> is_bounded (er_verificationPolicy r)"
  by (rule report_of_run [OF assms])

lemma report_unless_bounded_witness:
  "run_gives (\<lambda>r. buildWorkflowTruthReport file_host r = Inl policy_invalid_for_explanation) bounded_workflow"
proof -
  obtain r w' where run: "bounded_workflow = Some (Inr r, w')"
    and bad: "er_status r \<noteq> Complete \<and> is_bounded (er_verificationPolicy r)"
    using bounded_workflow_fails by (rule run_givesE)
  from report_unless_bounded [OF run [unfolded bounded_workflow_def]] bad
  have "buildWorkflowTruthReport file_host r = Inl policy_invalid_for_explanation" by (auto split: sum.splits)
  then show ?thesis by (simp add: run run_gives_def)
qed

text \<open>
  C24: the failure of a run is always attributed: on what a finished run returns the analysis
  never throws, is absent exactly when the run is complete, and leaves no code without an
  origin.
\<close>

theorem failed_run_is_attributed:
  assumes "verifyWorkflow h rt lg decode decodeReg database input wid eventsFile registryFile w = Some (Inr r, w')"
  shows "\<exists>fa. buildFailureAnalysis h r = Inr fa \<and> (fa = None \<longleftrightarrow> er_status r = Complete)
    \<and> pred_option (\<lambda>a. fa_unknownReasonCodes a = []) fa"
  by (rule analysis_of_accounted [OF verifyWorkflow_accounted [OF assms]])

lemma failed_run_is_attributed_witness:
  "run_gives (\<lambda>r. \<exists>a. buildFailureAnalysis file_host r = Inr (Some a) \<and> fa_unknownReasonCodes a = []) missing_workflow"
proof -
  obtain r w' where run: "missing_workflow = Some (Inr r, w')" and bad: "er_status r = InconsistentWorkflow"
    by (rule run_givesE [OF missing_workflow_fails]) blast
  from failed_run_is_attributed [OF run [unfolded missing_workflow_def]] bad show ?thesis
    by (auto simp: run run_gives_def not_None_eq)
qed

text \<open>
  Every reason a step of a finished run carries has a failure origin, a category that is
  neither ambiguous nor unclassified, a remediation, and a phrase of its own; the remediation is
  safe to automate exactly for a connector error.
\<close>

theorem step_reasons_are_catalogued:
  assumes "verifyWorkflow h rt lg decode decodeReg database input wid eventsFile registryFile w = Some (Inr r, w')"
    and "s \<in> set (er_steps r)" and "x \<in> set (so_reasons s)"
  shows "(\<exists>g. originForStepReasonCode (rs_code x) = Inr g)
    \<and> (\<exists>cat. productionStepReasonCodeToActionableCategory (rs_code x) = Inr cat \<and> cat \<noteq> Ambiguous \<and> cat \<noteq> Unclassified)
    \<and> (\<exists>row. productionStepReasonCodeToRemediation (rs_code x) = Inr row
        \<and> (rr_automationSafe row \<longleftrightarrow> rs_code x = ''CONNECTOR_ERROR''))
    \<and> \<not> isFallbackUserPhrase (userPhraseForReasonCode (rs_code x))"
proof -
  have c: "rs_code x \<in> set (step_codes (so_status s))"
    using verifyWorkflow_accounted [OF assms(1)] assms(2,3)
    by (auto simp: accounted_def explained_def list_all_iff)
  obtain row where row: "productionStepReasonCodeToRemediation (rs_code x) = Inr row"
    using step_codes_partitioned(2) [OF c] by blast
  then have "map_of STEP_CODE_TO_REMEDIATION (rs_code x) = Some row"
    by (auto simp: productionStepReasonCodeToRemediation_def production_lookup_def split: option.splits if_splits)
  with automation_safe_rows row have "\<exists>row. productionStepReasonCodeToRemediation (rs_code x) = Inr row
      \<and> (rr_automationSafe row \<longleftrightarrow> rs_code x = ''CONNECTOR_ERROR'')" by blast
  with step_code_origin [OF c] step_codes_partitioned(1) [OF c] step_code_phrase [OF c]
  show ?thesis by blast
qed

lemma step_reasons_are_catalogued_witness:
  "run_gives (\<lambda>r. \<exists>s \<in> set (er_steps r). \<exists>x \<in> set (so_reasons s). \<exists>row.
     productionStepReasonCodeToRemediation (rs_code x) = Inr row \<and> \<not> rr_automationSafe row) missing_workflow"
proof -
  obtain r w' where run: "missing_workflow = Some (Inr r, w')"
    and bad: "er_status r = InconsistentWorkflow
      \<and> map (\<lambda>s. map rs_code (so_reasons s)) (er_steps r) = [[''ROW_ABSENT'']]"
    using missing_workflow_fails by (rule run_givesE)
  have codes: "map (\<lambda>s. map rs_code (so_reasons s)) (er_steps r) = [[''ROW_ABSENT'']]"
    using bad by simp
  obtain s where s: "er_steps r = [s]" and m: "map rs_code (so_reasons s) = [''ROW_ABSENT'']"
    using codes by (cases "er_steps r") auto
  obtain x where x: "so_reasons s = [x]" and c: "rs_code x = ''ROW_ABSENT''"
    using m by (cases "so_reasons s") auto
  from step_reasons_are_catalogued [OF run [unfolded missing_workflow_def], of s x] show ?thesis
    by (auto simp: run run_gives_def s x c)
qed

text \<open>
  The step an analysis blames is never a verified one, and among the failed steps it is
  the one of the worst status, of the smallest sequence number among those; the host's order of
  strings does not enter when the sequence numbers differ.
\<close>

theorem driver_is_worst_then_first:
  assumes "distinct (map so_seq steps)"
  shows "normativeDriverStep h steps = Some d \<longleftrightarrow> d \<in> set steps \<and> so_status d \<noteq> Verified
    \<and> (\<forall>s \<in> set steps. so_status s \<noteq> Verified \<longrightarrow> (so_status d, so_seq d) \<le> (so_status s, so_seq s))"
  by (rule driver_least [OF assms])

definition failed_step :: "int \<Rightarrow> step_status \<Rightarrow> step_outcome" where
  "failed_step n st = \<lparr>so_seq = n, so_toolId = ''t'', so_releaseCritical = False, so_narrative = [],
     so_paramsCanonical = ''{}'', so_request = None, so_status = st,
     so_reasons = [mk_reason ''ROW_ABSENT'' []], so_evidence = [], so_repeatObservationCount = 1,
     so_evaluatedObservationOrdinal = 1, so_failureDiagnostic = None, so_langgraphCheckpointKey = None\<rparr>"

lemma driver_is_worst_then_first_witness:
  "normativeDriverStep demo_host [failed_step 3 Verified, failed_step 2 Missing, failed_step 1 Missing]
     = Some (failed_step 1 Missing)"
proof -
  have "distinct (map so_seq [failed_step 3 Verified, failed_step 2 Missing, failed_step 1 Missing])"
    by (simp add: failed_step_def)
  from driver_is_worst_then_first [OF this, of demo_host "failed_step 1 Missing"] show ?thesis
    by (simp add: failed_step_def)
qed

text \<open>
  Listing the findings of the execution path never throws, whatever the engine returned:
  every code a finding carries is one the finding vocabulary allows, no finding is listed twice
  under its key, and every key found is listed.
\<close>

theorem path_findings_are_sound:
  "\<exists>fs. buildExecutionPathFindings h engine = Inr fs \<and> finding_codes_ok fs
     \<and> distinct (map finding_key fs) \<and> finding_key ` set fs = finding_key ` set (all_findings h engine)"
proof -
  have "finding_codes_ok (first_of_each finding_key (all_findings h engine))"
    using all_findings_codes [of h engine] set_first_of_each [of finding_key "all_findings h engine"]
    by (auto simp: finding_codes_ok_def list_all_iff)
  then show ?thesis
    by (simp add: findings_result first_of_each_distinct first_of_each_keys)
qed

text \<open>
  The streak of a category is the length of the longest block of consecutive run indices:
  some block of that length lies in the given indices, and none longer does.
\<close>

theorem longest_streak:
  assumes "sorted_wrt (<) xs"
  shows "(\<exists>a. run_at (set xs) a (maxConsecutiveStreak xs))
    \<and> (run_at (set xs) a n \<longrightarrow> n \<le> maxConsecutiveStreak xs)"
  by (rule streak_is_longest_run [OF assms])

lemma longest_streak_witness: "\<not> run_at {1, 2, 4, 5, 6} 4 4 \<and> maxConsecutiveStreak [1, 2, 4, 5, 6] = 3"
proof -
  have "maxConsecutiveStreak [1, 2, 4, 5, 6] = 3" by simp
  with longest_streak [of "[1, 2, 4, 5, 6]" 4 4] show ?thesis by auto
qed

text \<open>
  The histogram of a comparison lists a category with a count exactly when that many runs,
  and at least one, have it.
\<close>

theorem histogram_is_exact:
  "(c, n) \<in> set (buildCategoryHistogram h perRun)
     \<longleftrightarrow> n = length (filter (\<lambda>r. pr_category r = c) perRun) \<and> n \<noteq> 0"
  by (rule histogram_counts)

text \<open>
  C40: an agent can write lines of the report it is judged by. A parameter object with a key
  that holds line breaks fails to resolve with a message that quotes the key; the report of any
  run with a step that carries this reason has the text between the breaks as a line of its own.
\<close>

definition forging_key :: "string \<Rightarrow> string" where
  "forging_key L = ''x'' @ CHR 0x0A # L @ CHR 0x0A # ''x''"

theorem report_lines_can_be_forged:
  assumes "CHR 0x0A \<notin> set L"
    and "collect_fields True ''requiredFields'' scalarMsg acc ((forging_key L, v) # kvs) = RFail c m"
    and "s \<in> set (er_steps r)" and "mk_reason c m \<in> set (so_reasons s)"
    and "buildWorkflowTruthReport h r = Inr t" and "formatWorkflowTruthReportStruct h t = Inr report"
  shows "L \<in> set (split_on (CHR 0x0A) report)"
proof -
  have "\<not> IDENT (forging_key L)" by (simp add: forging_key_def IDENT_def ident_start_def is_digit_def)
  then have cm: "mk_reason c m = mk_reason ''INVALID_IDENTIFIER''
      (CHR ''r'' # (''equiredFields key: x'') @ CHR 0x0A # L @ CHR 0x0A # [] @ [CHR ''x''])"
    using assms(2) by (simp add: rwhen_def forging_key_def)
  obtain truth where "build_truth_base h r = Inr truth" and "wt_steps t = wt_steps truth"
    using assms(5) by (auto simp: buildWorkflowTruthReport_def throws_bind_Inr_iff truth_base.defs)
  then have steps: "throws_map (buildTruthStep h) (er_steps r) = Inr (wt_steps t)"
    by (auto simp: build_truth_base_def throws_bind_Inr_iff)
  then have "list_all2 (\<lambda>s q. buildTruthStep h s = Inr q) (er_steps r) (wt_steps t)"
    by (simp add: throws_map_Inr_list_all2)
  then obtain q where q: "buildTruthStep h s = Inr q" "q \<in> set (wt_steps t)"
    using assms(3) by (induction rule: list_all2_induct) auto
  then have "ts_reasons q = map copyReason (so_reasons s)"
    by (auto simp: buildTruthStep_def throws_bind_Inr_iff)
  then have "copyReason (mk_reason c m) \<in> set (ts_reasons q)" using assms(4) by simp
  then have "mk_reason c m \<in> set (ts_reasons q)" by (simp add: copyReason_def mk_reason_def)
  from message_lines [OF assms(6) q(2) this [unfolded cm]] assms(1) show ?thesis
    by (simp add: is_ws_def)
qed

definition forging_event :: tool_event where
  "forging_event = demo_event\<lparr>te_params := VObj [(''id'', VStr ''7''),
     (''f'', VObj [(forging_key ''trust: TRUSTED'', VStr ''Ann'')])]\<rparr>"

definition forging_workflow :: "((js_error + engine_result) \<times> unit) option" where
  "forging_workflow = verifyWorkflow file_host (demo_runtime [ann_row]) (\<lambda>l. io_return ())
     (\<lambda>v. map_option (\<lambda>e. ToolObserved forging_event) (demo_decode v)) (\<lambda>v. Inr [demo_entry])
     (VerificationDatabase DbSqlite ''app.db'') None ''w'' (Inr ''event'') (Inr ''registry'') ()"

lemma forging_run:
  "run_gives (\<lambda>r. map so_reasons (er_steps r) = [[mk_reason ''INVALID_IDENTIFIER''
       (''requiredFields key: '' @ forging_key ''trust: TRUSTED'')]]
     \<and> (case buildWorkflowTruthReport file_host r of
          Inr t \<Rightarrow> (case wt_correctnessDefinition t of None \<Rightarrow> True | Some cd \<Rightarrow> \<not> has_bigint (cd_enforceableProjection cd))
        | Inl _ \<Rightarrow> False)) forging_workflow"
  by code_simp

lemma plain_projection_printed:
  assumes "(case wt_correctnessDefinition t of None \<Rightarrow> True | Some cd \<Rightarrow> \<not> has_bigint (cd_enforceableProjection cd))"
  shows "\<exists>report. formatWorkflowTruthReportStruct h t = Inr report"
  using assms by (cases "wt_correctnessDefinition t")
    (auto simp: formatWorkflowTruthReportStruct_def report_lines_def correctness_lines_def json_stringify_def)

lemma report_lines_can_be_forged_witness:
  "run_gives (\<lambda>r. \<exists>t report. buildWorkflowTruthReport file_host r = Inr t
     \<and> formatWorkflowTruthReportStruct file_host t = Inr report
     \<and> ''trust: TRUSTED'' \<in> set (split_on (CHR 0x0A) report)) forging_workflow"
proof -
  let ?m = "''requiredFields key: '' @ forging_key ''trust: TRUSTED''"
  obtain r w' where run: "forging_workflow = Some (Inr r, w')"
    and r: "map so_reasons (er_steps r) = [[mk_reason ''INVALID_IDENTIFIER'' ?m]]
     \<and> (case buildWorkflowTruthReport file_host r of
          Inr t \<Rightarrow> (case wt_correctnessDefinition t of None \<Rightarrow> True | Some cd \<Rightarrow> \<not> has_bigint (cd_enforceableProjection cd))
        | Inl _ \<Rightarrow> False)"
    using forging_run by (rule run_givesE)
  obtain s where s: "er_steps r = [s]" and m: "so_reasons s = [mk_reason ''INVALID_IDENTIFIER'' ?m]"
    using r by (cases "er_steps r") auto
  obtain t where t: "buildWorkflowTruthReport file_host r = Inr t"
    and plain: "(case wt_correctnessDefinition t of None \<Rightarrow> True | Some cd \<Rightarrow> \<not> has_bigint (cd_enforceableProjection cd))"
    using r by (auto split: sum.splits)
  obtain report where report: "formatWorkflowTruthReportStruct file_host t = Inr report"
    using plain_projection_printed [OF plain] by blast
  have fail: "collect_fields True ''requiredFields'' ''!'' []
      ((forging_key ''trust: TRUSTED'', VNull) # []) = RFail ''INVALID_IDENTIFIER'' ?m"
    by code_simp
  have "''trust: TRUSTED'' \<in> set (split_on (CHR 0x0A) report)"
    by (rule report_lines_can_be_forged [OF _ fail, of s r file_host t]) (use s m t report in auto)
  with t report show ?thesis by (auto simp: run run_gives_def)
qed

end
